(* ===== verification/Prelude.thy ===== *)
theory Prelude
  imports Main "HOL-Library.Word" "HOL-Library.AList"
begin

text \<open>
  Shared vocabulary of the development: bytes and little-endian integers, checked slices, association
  lists for the hash maps and tallies of the backend, and the lemma collections the component theories use.

  Machine integers are modelled as \<open>nat\<close> with the range and any wrap-around written out where the
  code depends on it (\<open>u32\<close>, \<open>u64\<close>, \<open>usize\<close> on a 64-bit host), bytes as \<open>8 word\<close>.
\<close>

unbundle bit_operations_syntax

type_synonym byte = "8 word"
type_synonym bytes = "byte list"

named_theorems slice_simps \<open>rewriting reads and writes of byte ranges\<close>
named_theorems wire_simps \<open>encoding and decoding of wire integers\<close>

abbreviation (input) u32_max :: nat where "u32_max \<equiv> 2 ^ 32 - 1"
abbreviation (input) u64_max :: nat where "u64_max \<equiv> 2 ^ 64 - 1"

section \<open>Little-endian integers\<close>

text \<open>\<open>to_le_bytes\<close> and \<open>from_le_bytes\<close> of the unsigned integers, by width in bytes.\<close>

fun le_bytes :: "nat \<Rightarrow> nat \<Rightarrow> bytes" where
  "le_bytes 0 n = []"
| "le_bytes (Suc k) n = word_of_nat (n mod 256) # le_bytes k (n div 256)"

fun of_le :: "bytes \<Rightarrow> nat" where
  "of_le [] = 0"
| "of_le (b # bs) = unat b + 256 * of_le bs"

lemma unat_byte: "unat (b :: byte) < 256"
  using unsigned_less [of b, where 'a = nat] by simp

lemma length_le_bytes [simp, wire_simps]: "length (le_bytes k n) = k"
  by (induction k arbitrary: n) auto

lemma of_le_le_bytes [wire_simps]: "of_le (le_bytes k n) = n mod 256 ^ k"
proof (induction k arbitrary: n)
  case 0
  then show ?case by simp
next
  case (Suc k)
  have "unat (word_of_nat (n mod 256) :: byte) = n mod 256"
    by (simp add: unat_of_nat)
  then show ?case
    using Suc mod_mult2_eq [of n 256 "256 ^ k"] by simp
qed

lemma of_le_le_bytes_id [simp]: "n < 256 ^ k \<Longrightarrow> of_le (le_bytes k n) = n"
  by (simp add: of_le_le_bytes)

lemma of_le_bound: "of_le bs < 256 ^ length bs"
proof (induction bs)
  case Nil
  then show ?case by simp
next
  case (Cons b bs)
  have "unat b < 256" by (rule unat_byte)
  with Cons show ?case by simp
qed

lemma le_bytes_of_le [simp, wire_simps]: "le_bytes (length bs) (of_le bs) = bs"
proof (induction bs)
  case Nil
  then show ?case by simp
next
  case (Cons b bs)
  have "unat b < 256" by (rule unat_byte)
  with Cons show ?case by simp
qed

lemma le_bytes_mod: "le_bytes k (n mod 256 ^ k) = le_bytes k n"
  using le_bytes_of_le [of "le_bytes k n"] by (simp add: of_le_le_bytes)

text \<open>A 32-bit word read as a signed integer, and written as one (two's complement).\<close>

definition sint32 :: "nat \<Rightarrow> int" where
  "sint32 n = (if n < 2 ^ 31 then int n else int n - 2 ^ 32)"

definition of_sint32 :: "int \<Rightarrow> nat" where
  "of_sint32 i = nat (i mod 2 ^ 32)"

lemma of_sint32_bound: "of_sint32 i < 2 ^ 32"
  by (simp add: of_sint32_def)

lemma sint32_of_sint32 [wire_simps]: "- (2 ^ 31) \<le> i \<Longrightarrow> i < 2 ^ 31 \<Longrightarrow> sint32 (of_sint32 i) = i"
proof -
  assume b: "- (2 ^ 31) \<le> i" "i < 2 ^ 31"
  show ?thesis
  proof (cases "0 \<le> i")
    case True
    with b show ?thesis by (simp add: sint32_def of_sint32_def)
  next
    case False
    with b have "i mod 2 ^ 32 = i + 2 ^ 32"
      by (intro int_mod_pos_eq [of _ _ "- 1"]) auto
    with False b show ?thesis by (simp add: sint32_def of_sint32_def nat_less_iff)
  qed
qed

lemma of_sint32_sint32 [wire_simps]: "n < 2 ^ 32 \<Longrightarrow> of_sint32 (sint32 n) = n"
proof -
  assume n: "n < 2 ^ 32"
  show ?thesis
  proof (cases "n < 2 ^ 31")
    case True
    with n show ?thesis by (simp add: sint32_def of_sint32_def)
  next
    case False
    with n have "(int n - 2 ^ 32) mod 2 ^ 32 = int n"
      by (intro int_mod_pos_eq [of _ _ "- 1"]) auto
    with False show ?thesis by (simp add: sint32_def of_sint32_def)
  qed
qed

section \<open>Checked slices\<close>

text \<open>
  \<open>slice_at b at n\<close> is Rust's \<open>b.get(at..at+n)\<close>: \<open>None\<close> where the range leaves the block.
  \<open>put_at\<close> overwrites a range that is inside the block.
\<close>

definition slice_at :: "'a list \<Rightarrow> nat \<Rightarrow> nat \<Rightarrow> 'a list option" where
  "slice_at xs at n = (if at + n \<le> length xs then Some (take n (drop at xs)) else None)"

definition put_at :: "'a list \<Rightarrow> nat \<Rightarrow> 'a list \<Rightarrow> 'a list" where
  "put_at xs at ys = take at xs @ ys @ drop (at + length ys) xs"

text \<open>Reads of a little-endian integer that are known to be in range, and checked ones.\<close>

definition le_at :: "nat \<Rightarrow> bytes \<Rightarrow> nat \<Rightarrow> nat" where
  "le_at w b at = of_le (take w (drop at b))"

definition get_le :: "nat \<Rightarrow> bytes \<Rightarrow> nat \<Rightarrow> nat option" where
  "get_le w b at = map_option of_le (slice_at b at w)"

abbreviation u32_at :: "bytes \<Rightarrow> nat \<Rightarrow> nat" where "u32_at \<equiv> le_at 4"
abbreviation u64_at :: "bytes \<Rightarrow> nat \<Rightarrow> nat" where "u64_at \<equiv> le_at 8"
abbreviation get_u32 :: "bytes \<Rightarrow> nat \<Rightarrow> nat option" where "get_u32 \<equiv> get_le 4"
abbreviation get_u64 :: "bytes \<Rightarrow> nat \<Rightarrow> nat option" where "get_u64 \<equiv> get_le 8"

lemma length_put_at [simp, slice_simps]:
  "at + length ys \<le> length xs \<Longrightarrow> length (put_at xs at ys) = length xs"
  by (simp add: put_at_def)

lemma take_drop_put_at_same [simp, slice_simps]:
  "at + length ys \<le> length xs \<Longrightarrow> take (length ys) (drop at (put_at xs at ys)) = ys"
  by (simp add: put_at_def)

lemma take_drop_put_at_before [slice_simps]:
  "at + n \<le> p \<Longrightarrow> p + length ys \<le> length xs \<Longrightarrow>
   take n (drop at (put_at xs p ys)) = take n (drop at xs)"
  by (simp add: put_at_def drop_take)

lemma take_drop_put_at_after [slice_simps]:
  "p + length ys \<le> at \<Longrightarrow> p + length ys \<le> length xs \<Longrightarrow>
   take n (drop at (put_at xs p ys)) = take n (drop at xs)"
  by (simp add: put_at_def)

lemma nth_put_at:
  "p + length ys \<le> length xs \<Longrightarrow> i < length xs \<Longrightarrow>
   put_at xs p ys ! i = (if p \<le> i \<and> i < p + length ys then ys ! (i - p) else xs ! i)"
  by (auto simp: put_at_def nth_append)

lemma put_at_same: "at + n \<le> length xs \<Longrightarrow> put_at xs at (take n (drop at xs)) = xs"
  by (rule nth_equalityI) (auto simp: put_at_def nth_append)

lemma put_at_put_at [simp]:
  "length zs = length ys \<Longrightarrow> at + length ys \<le> length xs \<Longrightarrow>
   put_at (put_at xs at ys) at zs = put_at xs at zs"
  by (simp add: put_at_def)

lemma le_at_bound: "le_at w b at < 256 ^ w"
proof -
  have "of_le (take w (drop at b)) < 256 ^ length (take w (drop at b))" by (rule of_le_bound)
  also have "\<dots> \<le> 256 ^ w" by (rule power_increasing) auto
  finally show ?thesis by (simp add: le_at_def)
qed

lemma u32_at_bound: "u32_at b at < 2 ^ 32"
  using le_at_bound [of 4 b at] by simp

lemma le_at_put_at_same [simp, slice_simps]:
  "at + w \<le> length b \<Longrightarrow> le_at w (put_at b at (le_bytes w n)) at = n mod 256 ^ w"
  using take_drop_put_at_same [of at "le_bytes w n" b] by (simp add: le_at_def of_le_le_bytes)

lemma get_le_eq: "at + w \<le> length b \<Longrightarrow> get_le w b at = Some (le_at w b at)"
  by (simp add: get_le_def slice_at_def le_at_def)

lemma get_le_Some_iff:
  "get_le w b at = Some n \<longleftrightarrow> at + w \<le> length b \<and> n = le_at w b at"
  by (auto simp: get_le_def slice_at_def le_at_def)

lemma get_le_None_iff: "get_le w b at = None \<longleftrightarrow> length b < at + w"
  by (auto simp: get_le_def slice_at_def)

section \<open>Fields of a C struct\<close>

text \<open>A packed struct is a list of field widths; its image is the fields one after another.\<close>

fun enc_fields :: "(nat \<times> nat) list \<Rightarrow> bytes" where
  "enc_fields [] = []"
| "enc_fields ((w, n) # fs) = le_bytes w n @ enc_fields fs"

fun dec_fields :: "nat list \<Rightarrow> bytes \<Rightarrow> nat list" where
  "dec_fields [] b = []"
| "dec_fields (w # ws) b = of_le (take w b) # dec_fields ws (drop w b)"

lemma length_enc_fields [simp]: "length (enc_fields fs) = sum_list (map fst fs)"
  by (induction fs rule: enc_fields.induct) auto

lemma dec_enc_fields [wire_simps]:
  "dec_fields (map fst fs) (enc_fields fs @ rest) = map (\<lambda>(w, n). n mod 256 ^ w) fs"
  by (induction fs rule: enc_fields.induct) (auto simp: of_le_le_bytes)

lemma length_dec_fields [simp]: "length (dec_fields ws b) = length ws"
  by (induction ws b rule: dec_fields.induct) auto

section \<open>Tallies and association lists\<close>

text \<open>
  \<open>HashMap\<close> and \<open>BTreeMap\<close> are association lists. The iteration order of a \<open>HashMap\<close> is not
  specified by Rust; the model iterates in list order, and since lemmas quantify over the whole list
  they hold for each order.
\<close>

definition bump :: "'k \<Rightarrow> ('k \<times> nat) list \<Rightarrow> ('k \<times> nat) list" where
  "bump k m = AList.update k (Suc (case map_of m k of None \<Rightarrow> 0 | Some c \<Rightarrow> c)) m"

lemma map_of_bump_same [simp]:
  "map_of (bump k m) k = Some (Suc (case map_of m k of None \<Rightarrow> 0 | Some c \<Rightarrow> c))"
  by (simp add: bump_def update_conv')

lemma map_of_bump_other [simp]: "k' \<noteq> k \<Longrightarrow> map_of (bump k m) k' = map_of m k'"
  by (simp add: bump_def update_conv')

text \<open>\<open>retain\<close> and the two-step "collect the keys, then remove them" of the tables.\<close>

definition alist_take :: "('k \<times> 'v \<Rightarrow> bool) \<Rightarrow> ('k \<times> 'v) list \<Rightarrow> ('k \<times> 'v) list \<times> ('k \<times> 'v) list" where
  "alist_take P m = (filter P m, filter (\<lambda>x. \<not> P x) m)"

abbreviation keys_distinct :: "('k \<times> 'v) list \<Rightarrow> bool" where
  "keys_distinct m \<equiv> distinct (map fst m)"

lemma keys_distinct_filter: "keys_distinct m \<Longrightarrow> keys_distinct (filter P m)"
  by (rule distinct_map_filter)

lemma keys_distinct_update: "keys_distinct m \<Longrightarrow> keys_distinct (AList.update k v m)"
  by (rule distinct_update)

lemma keys_distinct_delete: "keys_distinct m \<Longrightarrow> keys_distinct (AList.delete k m)"
  by (rule distinct_delete)

lemma set_delete: "set (AList.delete k m) = {x \<in> set m. fst x \<noteq> k}"
  by (auto simp: AList.delete_eq)

lemma set_update_distinct:
  "keys_distinct m \<Longrightarrow> set (AList.update k v m) = insert (k, v) {x \<in> set m. fst x \<noteq> k}"
  by (induction m) (auto simp: image_iff)

lemma map_of_filter_None: "k \<notin> fst ` {x \<in> set m. P x} \<Longrightarrow> map_of (filter P m) k = None"
  by (auto simp: map_of_eq_None_iff)

lemma sum_list_filter_split:
  "sum_list (map f xs) = sum_list (map f (filter P xs)) + (sum_list (map f (filter (\<lambda>x. \<not> P x) xs)) :: nat)"
  by (induction xs) auto

section \<open>Results\<close>

lemma map_sum_Inr_iff: "map_sum f g x = Inr y \<longleftrightarrow> (\<exists>z. x = Inr z \<and> y = g z)"
  by (cases x) auto

end
