(* ===== verification/Messages.thy ===== *)
theory Messages
  imports Prelude
begin

text \<open>
  The wire format (\<open>protocol/src/messages.rs\<close>): message types, the header both directions share, the
  device numbering of \<open>Open\<close>, and the payload structs, with the interface \<open>wire_struct\<close> that
  every packed struct of the protocol satisfies.
\<close>

section \<open>Message types\<close>

datatype msg_type = Open | Close | Ioctl | Mmap | Munmap | GetProcFiles | GetSysFiles | EventReady

fun msg_type_code :: "msg_type \<Rightarrow> nat" where
  "msg_type_code Open = 1"
| "msg_type_code Close = 2"
| "msg_type_code Ioctl = 3"
| "msg_type_code Mmap = 4"
| "msg_type_code Munmap = 5"
| "msg_type_code GetProcFiles = 6"
| "msg_type_code GetSysFiles = 7"
| "msg_type_code EventReady = 8"

definition msg_type_from_u32 :: "nat \<Rightarrow> msg_type option" where
  "msg_type_from_u32 v =
     (if v = 1 then Some Open
      else if v = 2 then Some Close
      else if v = 3 then Some Ioctl
      else if v = 4 then Some Mmap
      else if v = 5 then Some Munmap
      else if v = 6 then Some GetProcFiles
      else if v = 7 then Some GetSysFiles
      else if v = 8 then Some EventReady
      else None)"

lemma msg_type_from_code [simp]: "msg_type_from_u32 (msg_type_code m) = Some m"
  by (cases m) (simp_all add: msg_type_from_u32_def)

lemma msg_type_from_u32_Some: "msg_type_from_u32 v = Some m \<longleftrightarrow> v = msg_type_code m"
  by (cases m) (auto simp: msg_type_from_u32_def split: if_splits)

lemma msg_type_code_bound: "msg_type_code m < 2 ^ 32"
  by (cases m) simp_all

section \<open>The header\<close>

record msg_header =
  mh_type :: nat
  mh_handle :: nat
  mh_status :: int
  mh_padding :: nat

definition msg_header_ok :: "msg_type \<Rightarrow> nat \<Rightarrow> msg_header" where
  "msg_header_ok m h = \<lparr>mh_type = msg_type_code m, mh_handle = h, mh_status = 0, mh_padding = 0\<rparr>"

definition msg_header_err :: "msg_type \<Rightarrow> int \<Rightarrow> msg_header" where
  "msg_header_err m errno =
     \<lparr>mh_type = msg_type_code m, mh_handle = 0, mh_status = - \<bar>errno\<bar>, mh_padding = 0\<rparr>"

definition enc_msg_header :: "msg_header \<Rightarrow> bytes" where
  "enc_msg_header h =
     enc_fields [(4, mh_type h), (4, mh_handle h), (4, of_sint32 (mh_status h)), (4, mh_padding h)]"

definition dec_msg_header :: "bytes \<Rightarrow> msg_header" where
  "dec_msg_header b =
     \<lparr>mh_type = u32_at b 0, mh_handle = u32_at b 4, mh_status = sint32 (u32_at b 8),
      mh_padding = u32_at b 12\<rparr>"

definition msg_header_wf :: "msg_header \<Rightarrow> bool" where
  "msg_header_wf h \<longleftrightarrow> mh_type h < 2 ^ 32 \<and> mh_handle h < 2 ^ 32
     \<and> - (2 ^ 31) \<le> mh_status h \<and> mh_status h < 2 ^ 31 \<and> mh_padding h < 2 ^ 32"

section \<open>Devices\<close>

abbreviation (input) DEV_CTL :: nat where "DEV_CTL \<equiv> 255"
abbreviation (input) DEV_UVM :: nat where "DEV_UVM \<equiv> 256"
abbreviation (input) DEV_UVM_TOOLS :: nat where "DEV_UVM_TOOLS \<equiv> 257"
abbreviation (input) DEV_MODESET :: nat where "DEV_MODESET \<equiv> 258"
abbreviation (input) DEV_DRI_BASE :: nat where "DEV_DRI_BASE \<equiv> 512"
abbreviation (input) MAX_GPU_INDEX :: nat where "MAX_GPU_INDEX \<equiv> 254"

datatype device_kind = Gpu nat | Ctl | Uvm | UvmTools | Modeset | Dri nat

definition device_kind_from_type :: "nat \<Rightarrow> device_kind option" where
  "device_kind_from_type v =
     (if v \<le> MAX_GPU_INDEX then Some (Gpu v)
      else if v = DEV_CTL then Some Ctl
      else if v = DEV_UVM then Some Uvm
      else if v = DEV_UVM_TOOLS then Some UvmTools
      else if v = DEV_MODESET then Some Modeset
      else if v \<ge> DEV_DRI_BASE then Some (Dri (v - DEV_DRI_BASE))
      else None)"

lemma device_kind_inj:
  "device_kind_from_type v = Some k \<Longrightarrow> device_kind_from_type w = Some k \<Longrightarrow> v = w"
  by (auto simp: device_kind_from_type_def split: if_splits)

section \<open>Payloads\<close>

record open_req =
  or_device_type :: nat
  or_flags :: nat

record ioctl_req =
  ir_cmd :: nat
  ir_data_len :: nat
  ir_nested_offset :: nat
  ir_nested_len :: nat
  ir_deep_ptr_offset :: nat
  ir_deep_len :: nat

record ioctl_resp =
  ip_data_len :: nat
  ip_nested_len :: nat
  ip_deep_len :: nat

record mmap_req =
  mr_size :: nat
  mr_offset :: nat
  mr_prot :: nat
  mr_padding :: nat

record mmap_resp =
  mp_guest_phys_addr :: nat
  mp_size :: nat
  mp_mapping_id :: nat
  mp_padding :: nat

record munmap_req =
  ur_mapping_id :: nat
  ur_padding :: nat

definition dec_open_req :: "bytes \<Rightarrow> open_req" where
  "dec_open_req b = \<lparr>or_device_type = u32_at b 0, or_flags = u32_at b 4\<rparr>"

definition enc_open_req :: "open_req \<Rightarrow> bytes" where
  "enc_open_req r = enc_fields [(4, or_device_type r), (4, or_flags r)]"

definition dec_ioctl_req :: "bytes \<Rightarrow> ioctl_req" where
  "dec_ioctl_req b =
     \<lparr>ir_cmd = u32_at b 0, ir_data_len = u32_at b 4, ir_nested_offset = u32_at b 8,
      ir_nested_len = u32_at b 12, ir_deep_ptr_offset = u32_at b 16, ir_deep_len = u32_at b 20\<rparr>"

definition enc_ioctl_req :: "ioctl_req \<Rightarrow> bytes" where
  "enc_ioctl_req r = enc_fields [(4, ir_cmd r), (4, ir_data_len r), (4, ir_nested_offset r),
     (4, ir_nested_len r), (4, ir_deep_ptr_offset r), (4, ir_deep_len r)]"

definition dec_ioctl_resp :: "bytes \<Rightarrow> ioctl_resp" where
  "dec_ioctl_resp b =
     \<lparr>ip_data_len = u32_at b 0, ip_nested_len = u32_at b 4, ip_deep_len = u32_at b 8\<rparr>"

definition enc_ioctl_resp :: "ioctl_resp \<Rightarrow> bytes" where
  "enc_ioctl_resp r = enc_fields [(4, ip_data_len r), (4, ip_nested_len r), (4, ip_deep_len r)]"

definition dec_mmap_req :: "bytes \<Rightarrow> mmap_req" where
  "dec_mmap_req b =
     \<lparr>mr_size = u64_at b 0, mr_offset = u64_at b 8, mr_prot = u32_at b 16, mr_padding = u32_at b 20\<rparr>"

definition enc_mmap_req :: "mmap_req \<Rightarrow> bytes" where
  "enc_mmap_req r = enc_fields [(8, mr_size r), (8, mr_offset r), (4, mr_prot r), (4, mr_padding r)]"

definition dec_mmap_resp :: "bytes \<Rightarrow> mmap_resp" where
  "dec_mmap_resp b =
     \<lparr>mp_guest_phys_addr = u64_at b 0, mp_size = u64_at b 8, mp_mapping_id = u32_at b 16,
      mp_padding = u32_at b 20\<rparr>"

definition enc_mmap_resp :: "mmap_resp \<Rightarrow> bytes" where
  "enc_mmap_resp r = enc_fields [(8, mp_guest_phys_addr r), (8, mp_size r), (4, mp_mapping_id r),
     (4, mp_padding r)]"

definition dec_munmap_req :: "bytes \<Rightarrow> munmap_req" where
  "dec_munmap_req b = \<lparr>ur_mapping_id = u32_at b 0, ur_padding = u32_at b 4\<rparr>"

definition enc_munmap_req :: "munmap_req \<Rightarrow> bytes" where
  "enc_munmap_req r = enc_fields [(4, ur_mapping_id r), (4, ur_padding r)]"

section \<open>What a packed struct promises\<close>

text \<open>
  \<open>read_struct\<close> of \<open>nvidia/mod.rs\<close> asserts that the struct fits and then reads it unaligned;
  \<open>None\<close> is the failed assertion, a panic.
\<close>

definition read_struct :: "nat \<Rightarrow> (bytes \<Rightarrow> 'a) \<Rightarrow> bytes \<Rightarrow> nat \<Rightarrow> 'a option" where
  "read_struct sz dec b off = (if length b \<ge> off + sz then Some (dec (drop off b)) else None)"

locale wire_struct =
  fixes sz :: nat
    and enc :: "'a \<Rightarrow> bytes"
    and dec :: "bytes \<Rightarrow> 'a"
    and wf :: "'a \<Rightarrow> bool"
  assumes length_enc: "length (enc x) = sz"
    and dec_enc: "wf x \<Longrightarrow> dec (enc x @ rest) = x"
    and wf_dec: "sz \<le> length b \<Longrightarrow> wf (dec b)"
    and enc_dec: "sz \<le> length b \<Longrightarrow> enc (dec b) = take sz b"
begin

lemma enc_inj: "wf x \<Longrightarrow> wf y \<Longrightarrow> enc x = enc y \<Longrightarrow> x = y"
  by (metis dec_enc)

lemma dec_cong:
  assumes "sz \<le> length b" "sz \<le> length c" "take sz b = take sz c"
  shows "dec b = dec c"
  using assms enc_inj wf_dec enc_dec by metis

lemma read_struct_enc:
  "wf x \<Longrightarrow> length pre = off \<Longrightarrow> read_struct sz dec (pre @ enc x @ rest) off = Some x"
  by (simp add: read_struct_def length_enc dec_enc)

lemma read_struct_None: "read_struct sz dec b off = None \<longleftrightarrow> length b < off + sz"
  by (auto simp: read_struct_def)

end

lemma le_at_append [simp]:
  "w \<le> length xs \<Longrightarrow> le_at w (xs @ ys) 0 = le_at w xs 0"
  "length xs \<le> n \<Longrightarrow> le_at w (xs @ ys) n = le_at w ys (n - length xs)"
  by (simp_all add: le_at_def)

lemma le_at_le_bytes [simp]: "le_at w (le_bytes w n) 0 = n mod 256 ^ w"
  by (simp add: le_at_def of_le_le_bytes)

lemma le_bytes_le_at: "at + w \<le> length b \<Longrightarrow> le_bytes w (le_at w b at) = take w (drop at b)"
proof -
  assume "at + w \<le> length b"
  then have "length (take w (drop at b)) = w" by simp
  then show ?thesis unfolding le_at_def by (metis le_bytes_of_le)
qed

lemma take_drop_glue: "p = n + m \<Longrightarrow> take m (drop n b) @ take k (drop p b) = take (m + k) (drop n b)"
  using take_add [of m k "drop n b"] by (simp add: add.commute)

lemma take_glue: "take m b @ take k (drop m b) = take (m + k) b"
  by (simp add: take_add)

lemmas struct_simps = enc_fields.simps le_bytes_le_at take_drop_glue take_glue
  of_sint32_sint32 sint32_of_sint32

interpretation hdr: wire_struct 16 enc_msg_header dec_msg_header msg_header_wf
proof
  fix x :: msg_header and rest b :: bytes
  show "length (enc_msg_header x) = 16" by (simp add: enc_msg_header_def)
  show "msg_header_wf x \<Longrightarrow> dec_msg_header (enc_msg_header x @ rest) = x"
    using of_sint32_bound [of "mh_status x"]
    by (simp add: enc_msg_header_def dec_msg_header_def msg_header_wf_def sint32_of_sint32)
  show "16 \<le> length b \<Longrightarrow> msg_header_wf (dec_msg_header b)"
    using u32_at_bound [of b 0] u32_at_bound [of b 4] u32_at_bound [of b 8] u32_at_bound [of b 12]
    by (auto simp: dec_msg_header_def msg_header_wf_def sint32_def)
  show "16 \<le> length b \<Longrightarrow> enc_msg_header (dec_msg_header b) = take 16 b"
    using u32_at_bound [of b 8]
    by (simp add: enc_msg_header_def dec_msg_header_def struct_simps)
qed

definition ioctl_req_wf :: "ioctl_req \<Rightarrow> bool" where
  "ioctl_req_wf r \<longleftrightarrow> ir_cmd r < 2 ^ 32 \<and> ir_data_len r < 2 ^ 32 \<and> ir_nested_offset r < 2 ^ 32
     \<and> ir_nested_len r < 2 ^ 32 \<and> ir_deep_ptr_offset r < 2 ^ 32 \<and> ir_deep_len r < 2 ^ 32"

interpretation ireq: wire_struct 24 enc_ioctl_req dec_ioctl_req ioctl_req_wf
  by standard
    (use u32_at_bound in \<open>auto simp: enc_ioctl_req_def dec_ioctl_req_def ioctl_req_wf_def struct_simps\<close>)

definition ioctl_resp_wf :: "ioctl_resp \<Rightarrow> bool" where
  "ioctl_resp_wf r \<longleftrightarrow> ip_data_len r < 2 ^ 32 \<and> ip_nested_len r < 2 ^ 32 \<and> ip_deep_len r < 2 ^ 32"

interpretation iresp: wire_struct 12 enc_ioctl_resp dec_ioctl_resp ioctl_resp_wf
  by standard
    (use u32_at_bound in \<open>auto simp: enc_ioctl_resp_def dec_ioctl_resp_def ioctl_resp_wf_def struct_simps\<close>)

definition mmap_req_wf :: "mmap_req \<Rightarrow> bool" where
  "mmap_req_wf r \<longleftrightarrow> mr_size r < 2 ^ 64 \<and> mr_offset r < 2 ^ 64 \<and> mr_prot r < 2 ^ 32 \<and> mr_padding r < 2 ^ 32"

definition mmap_resp_wf :: "mmap_resp \<Rightarrow> bool" where
  "mmap_resp_wf r \<longleftrightarrow> mp_guest_phys_addr r < 2 ^ 64 \<and> mp_size r < 2 ^ 64 \<and> mp_mapping_id r < 2 ^ 32
     \<and> mp_padding r < 2 ^ 32"

lemma u64_at_bound: "u64_at b at < 2 ^ 64"
  using le_at_bound [of 8 b at] by simp

interpretation mreq: wire_struct 24 enc_mmap_req dec_mmap_req mmap_req_wf
  by standard
    (use u32_at_bound u64_at_bound in \<open>auto simp: enc_mmap_req_def dec_mmap_req_def mmap_req_wf_def struct_simps\<close>)

interpretation mresp: wire_struct 24 enc_mmap_resp dec_mmap_resp mmap_resp_wf
  by standard
    (use u32_at_bound u64_at_bound in \<open>auto simp: enc_mmap_resp_def dec_mmap_resp_def mmap_resp_wf_def struct_simps\<close>)

definition open_req_wf :: "open_req \<Rightarrow> bool" where
  "open_req_wf r \<longleftrightarrow> or_device_type r < 2 ^ 32 \<and> or_flags r < 2 ^ 32"

interpretation oreq: wire_struct 8 enc_open_req dec_open_req open_req_wf
  by standard
    (use u32_at_bound in \<open>auto simp: enc_open_req_def dec_open_req_def open_req_wf_def struct_simps\<close>)

definition munmap_req_wf :: "munmap_req \<Rightarrow> bool" where
  "munmap_req_wf r \<longleftrightarrow> ur_mapping_id r < 2 ^ 32 \<and> ur_padding r < 2 ^ 32"

interpretation ureq: wire_struct 8 enc_munmap_req dec_munmap_req munmap_req_wf
  by standard
    (use u32_at_bound in \<open>auto simp: enc_munmap_req_def dec_munmap_req_def munmap_req_wf_def struct_simps\<close>)

end
