(* ===== verification/PageRuns.thy ===== *)
theory PageRuns
  imports Messages
begin

text \<open>
  Tables of guest page runs (\<open>protocol/src/pageruns.rs\<close>): the encoder as the loop the code runs over a
  zeroed buffer, the parser with its checks, and the round trip between them.
\<close>

abbreviation (input) PAGE_RUNS :: nat where "PAGE_RUNS \<equiv> u32_max - 1"
abbreviation (input) MAX_RUNS :: nat where "MAX_RUNS \<equiv> 1024"

record run =
  run_gpa :: nat
  run_len :: nat

definition runs_encoded_len :: "nat \<Rightarrow> nat" where
  "runs_encoded_len n = 8 + n * 16"

fun runs_write :: "nat \<Rightarrow> run list \<Rightarrow> bytes \<Rightarrow> bytes" where
  "runs_write i [] out = out"
| "runs_write i (r # rs) out =
     (let e = 8 + i * 16;
          out = put_at out e (le_bytes 8 (run_gpa r));
          out = put_at out (e + 8) (le_bytes 8 (run_len r))
      in runs_write (Suc i) rs out)"

text \<open>\<open>cap\<close> is the length of the output buffer; the result is what was written to its front.\<close>

definition runs_encode :: "nat \<Rightarrow> run list \<Rightarrow> bytes option" where
  "runs_encode cap rs =
     (if length rs > MAX_RUNS then None
      else let total = runs_encoded_len (length rs) in
        if cap < total then None
        else let out = put_at (replicate total 0) 0 (le_bytes 4 (length rs))
             in Some (runs_write 0 rs out))"

record runs_table =
  rt_bytes :: bytes
  rt_count :: nat

definition runs_parse :: "bytes \<Rightarrow> runs_table option" where
  "runs_parse b =
     (if length b < 8 then None
      else let count = u32_at b 0 in
        if count = 0 \<or> count > MAX_RUNS \<or> length b < runs_encoded_len count then None
        else Some \<lparr>rt_bytes = b, rt_count = count\<rparr>)"

text \<open>\<open>iter\<close>: each run is read at its own offset; \<open>None\<close> is the panic of a slice out of range.\<close>

definition run_read :: "bytes \<Rightarrow> nat \<Rightarrow> run option" where
  "run_read b i =
     (let e = 8 + i * 16 in
      case get_u64 b e of None \<Rightarrow> None
      | Some g \<Rightarrow> (case get_u64 b (e + 8) of None \<Rightarrow> None
          | Some l \<Rightarrow> Some \<lparr>run_gpa = g, run_len = l\<rparr>))"

definition runs_iter :: "runs_table \<Rightarrow> run option list" where
  "runs_iter t = map (run_read (rt_bytes t)) [0..<rt_count t]"

definition run_wf :: "run \<Rightarrow> bool" where
  "run_wf r \<longleftrightarrow> run_gpa r < 2 ^ 64 \<and> run_len r < 2 ^ 64"

section \<open>The encoder's image\<close>

definition run_bytes :: "run \<Rightarrow> bytes" where
  "run_bytes r = le_bytes 8 (run_gpa r) @ le_bytes 8 (run_len r)"

lemma length_run_bytes [simp]: "length (run_bytes r) = 16"
  by (simp add: run_bytes_def)

lemma length_concat_run_bytes [simp]: "length (concat (map run_bytes rs)) = 16 * length rs"
  by (induction rs) auto

lemma put_at_zeros:
  "at = length pre \<Longrightarrow> length ys \<le> n \<Longrightarrow>
   put_at (pre @ replicate n 0) at ys = pre @ ys @ replicate (n - length ys) 0"
  by (simp add: put_at_def)

lemma put_at_zeros_mid:
  "at = length pre \<Longrightarrow> length ys \<le> n \<Longrightarrow>
   put_at (pre @ replicate n 0 @ post) at ys = pre @ ys @ replicate (n - length ys) 0 @ post"
  by (simp add: put_at_def)

lemma runs_write_image:
  "length pre = 8 + i * 16 \<Longrightarrow>
   runs_write i rs (pre @ replicate (16 * length rs) 0) = pre @ concat (map run_bytes rs)"
proof (induction rs arbitrary: i pre)
  case Nil
  then show ?case by simp
next
  case (Cons r rs)
  let ?p = "pre @ le_bytes 8 (run_gpa r)"
  have 1: "put_at (pre @ replicate (16 * length (r # rs)) 0) (8 + i * 16) (le_bytes 8 (run_gpa r))
      = ?p @ replicate (8 + 16 * length rs) 0"
    using Cons.prems by (subst put_at_zeros) (auto simp: algebra_simps)
  have 2: "put_at (?p @ replicate (8 + 16 * length rs) 0) (8 + i * 16 + 8) (le_bytes 8 (run_len r))
      = (?p @ le_bytes 8 (run_len r)) @ replicate (16 * length rs) 0"
    using Cons.prems by (subst put_at_zeros) auto
  have "runs_write (Suc i) rs ((?p @ le_bytes 8 (run_len r)) @ replicate (16 * length rs) 0)
      = (?p @ le_bytes 8 (run_len r)) @ concat (map run_bytes rs)"
    using Cons.prems by (intro Cons.IH) simp
  then show ?case
    by (simp only: runs_write.simps Let_def 1 2) (simp add: run_bytes_def [of r])
qed

lemma runs_encode_image:
  "runs_encode cap rs =
     (if length rs \<le> MAX_RUNS \<and> 8 + 16 * length rs \<le> cap
      then Some (le_bytes 4 (length rs) @ le_bytes 4 0 @ concat (map run_bytes rs)) else None)"
proof -
  let ?h = "le_bytes 4 (length rs) @ le_bytes 4 0"
  have z: "le_bytes 4 0 = replicate 4 0" by code_simp
  have "put_at (replicate (8 + length rs * 16) 0) 0 (le_bytes 4 (length rs))
     = ?h @ replicate (16 * length rs) 0"
    by (simp add: put_at_def z replicate_add [symmetric] algebra_simps)
  moreover have "runs_write 0 rs (?h @ replicate (16 * length rs) 0)
     = ?h @ concat (map run_bytes rs)"
    by (rule runs_write_image) simp
  ultimately show ?thesis
    by (auto simp: runs_encode_def runs_encoded_len_def)
qed

lemma run_read_image:
  assumes "length pre = 8" "i < length rs" "\<forall>r \<in> set rs. run_wf r"
  shows "run_read (pre @ concat (map run_bytes rs) @ rest) i = Some (rs ! i)"
proof -
  let ?r = "rs ! i"
  have split: "concat (map run_bytes rs)
      = concat (map run_bytes (take i rs)) @ run_bytes ?r @ concat (map run_bytes (drop (Suc i) rs))"
    using assms(2) by (metis concat.simps(2) concat_append id_take_nth_drop list.simps(9) map_append)
  let ?p = "pre @ concat (map run_bytes (take i rs))"
  let ?b = "?p @ le_bytes 8 (run_gpa ?r) @ le_bytes 8 (run_len ?r)
              @ concat (map run_bytes (drop (Suc i) rs)) @ rest"
  have len: "length ?p = 8 + i * 16" using assms(1,2) by simp
  have wf: "run_wf ?r" using assms(2,3) by simp
  have g: "get_u64 ?b (8 + i * 16) = Some (run_gpa ?r)"
    using len wf by (simp add: get_le_Some_iff run_wf_def)
  have l: "get_u64 ?b (8 + i * 16 + 8) = Some (run_len ?r)"
    using len wf by (simp add: get_le_Some_iff run_wf_def)
  have "run_read ?b i = Some ?r"
    unfolding run_read_def Let_def by (simp only: g l option.case) simp
  then show ?thesis by (simp add: split run_bytes_def)
qed

lemma runs_parse_encode:
  assumes "runs_encode cap rs = Some b" "rs \<noteq> []" "\<forall>r \<in> set rs. run_wf r"
  shows "\<exists>t. runs_parse (b @ rest) = Some t \<and> rt_count t = length rs \<and> runs_iter t = map Some rs"
proof -
  from assms(1) have b: "b = le_bytes 4 (length rs) @ le_bytes 4 0 @ concat (map run_bytes rs)"
    and n: "length rs \<le> MAX_RUNS"
    by (auto simp: runs_encode_image split: if_splits)
  have c: "u32_at (b @ rest) 0 = length rs" using n by (simp add: b)
  let ?t = "\<lparr>rt_bytes = b @ rest, rt_count = length rs\<rparr>"
  have "runs_parse (b @ rest) = Some ?t"
    using n assms(2) by (simp add: runs_parse_def c runs_encoded_len_def b Let_def)
  moreover have "run_read (b @ rest) i = Some (rs ! i)" if "i < length rs" for i
    using run_read_image [of "le_bytes 4 (length rs) @ le_bytes 4 0" i rs rest] that assms(3)
    by (simp add: b)
  then have "runs_iter ?t = map Some rs"
    by (auto simp: runs_iter_def intro!: nth_equalityI)
  ultimately show ?thesis by auto
qed

lemma runs_parse_in_bounds:
  assumes "runs_parse b = Some t"
  shows "None \<notin> set (runs_iter t)" "0 < rt_count t" "rt_count t \<le> MAX_RUNS"
    "length (runs_iter t) = rt_count t"
proof -
  from assms have t: "t = \<lparr>rt_bytes = b, rt_count = u32_at b 0\<rparr>" "u32_at b 0 \<noteq> 0"
      "u32_at b 0 \<le> MAX_RUNS" "8 + u32_at b 0 * 16 \<le> length b"
    by (auto simp: runs_parse_def runs_encoded_len_def Let_def split: if_splits)
  have "run_read b i \<noteq> None" if "i < u32_at b 0" for i
    using that t(4) by (simp add: run_read_def Let_def get_le_eq)
  then show "None \<notin> set (runs_iter t)" by (fastforce simp: runs_iter_def t(1))
  show "0 < rt_count t" "rt_count t \<le> MAX_RUNS" "length (runs_iter t) = rt_count t"
    using t by (auto simp: runs_iter_def)
qed

text \<open>C39: what the guest encodes the backend reads back, in order, whatever follows in the buffer.\<close>

theorem runs_round_trip:
  assumes "runs_encode cap rs = Some b" and "rs \<noteq> []" and "\<forall>r \<in> set rs. run_wf r"
  shows "\<exists>t. runs_parse (b @ rest) = Some t \<and> runs_iter t = map Some rs"
  using runs_parse_encode [OF assms] by blast

lemma runs_round_trip_witness:
  "\<exists>b t. runs_encode 64 [\<lparr>run_gpa = 4096, run_len = 8192\<rparr>] = Some b \<and> runs_parse (b @ [7]) = Some t \<and>
     runs_iter t = [Some \<lparr>run_gpa = 4096, run_len = 8192\<rparr>]"
proof -
  let ?rs = "[\<lparr>run_gpa = 4096, run_len = 8192\<rparr>]"
  obtain b where b: "runs_encode 64 ?rs = Some b"
    by (simp add: runs_encode_def runs_encoded_len_def Let_def)
  from runs_round_trip [OF b, of "[7]"] b show ?thesis by (auto simp: run_wf_def)
qed

end
