(* ===== verification/Segments.thy ===== *)
theory Segments
  imports PageRuns
begin

text \<open>
  Several second-level blocks in one message (\<open>protocol/src/segments.rs\<close>): a table of pointer offsets
  and lengths followed by the payloads, each padded to eight bytes. The encoder is the code's loop over
  a zeroed buffer; the parser walks the table once with checked arithmetic and the iterator walks it again.
\<close>

abbreviation (input) SEGMENTED :: nat where "SEGMENTED \<equiv> u32_max"
abbreviation (input) MAX_SEGMENTS :: nat where "MAX_SEGMENTS \<equiv> 8"

definition table_bytes :: "nat \<Rightarrow> nat" where
  "table_bytes n = 8 + n * 8"

definition pad8 :: "nat \<Rightarrow> nat" where
  "pad8 n = (n + 7) div 8 * 8"

definition checked_add64 :: "nat \<Rightarrow> nat \<Rightarrow> nat option" where
  "checked_add64 a b = (if a + b < 2 ^ 64 then Some (a + b) else None)"

fun seg_total :: "nat \<Rightarrow> nat list \<Rightarrow> nat option" where
  "seg_total tot [] = Some tot"
| "seg_total tot (l # ls) =
     (case checked_add64 tot (pad8 l) of None \<Rightarrow> None | Some t \<Rightarrow> seg_total t ls)"

definition seg_encoded_len :: "nat list \<Rightarrow> nat option" where
  "seg_encoded_len lens =
     (if length lens > MAX_SEGMENTS then None
      else case seg_total (table_bytes (length lens)) lens of
        None \<Rightarrow> None
      | Some tot \<Rightarrow> if tot \<le> u32_max then Some tot else None)"

fun seg_write :: "nat \<Rightarrow> nat \<Rightarrow> (nat \<times> bytes) list \<Rightarrow> bytes \<Rightarrow> bytes" where
  "seg_write i at [] out = out"
| "seg_write i at ((off, b) # ss) out =
     (let e = 8 + i * 8;
          out = put_at out e (le_bytes 4 off);
          out = put_at out (e + 4) (le_bytes 4 (length b));
          out = put_at out at b
      in seg_write (Suc i) (at + pad8 (length b)) ss out)"

definition seg_encode :: "nat \<Rightarrow> (nat \<times> bytes) list \<Rightarrow> bytes option" where
  "seg_encode cap ss =
     (let n = length ss in
      if n > MAX_SEGMENTS then None
      else case seg_encoded_len (map (length \<circ> snd) ss) of
        None \<Rightarrow> None
      | Some tot \<Rightarrow>
          if cap < tot then None
          else let out = put_at (replicate tot 0) 0 (le_bytes 4 n)
               in Some (seg_write 0 (table_bytes n) ss out))"

record seg_table =
  st_bytes :: bytes
  st_count :: nat

text \<open>The parser's loop over the table: \<open>k\<close> entries are left, entry \<open>i\<close> is next.\<close>

fun seg_check :: "bytes \<Rightarrow> nat \<Rightarrow> nat \<Rightarrow> nat \<Rightarrow> bool" where
  "seg_check b at i 0 = True"
| "seg_check b at i (Suc k) =
     (let e = 8 + i * 8; len = u32_at b (e + 4) in
      case checked_add64 at (pad8 len) of
        None \<Rightarrow> False
      | Some at' \<Rightarrow> if at' > length b then False else seg_check b at' (Suc i) k)"

definition seg_parse :: "bytes \<Rightarrow> seg_table option" where
  "seg_parse b =
     (if length b < 8 then None
      else let count = u32_at b 0 in
        if count > MAX_SEGMENTS then None
        else let at = table_bytes count in
          if length b < at then None
          else if seg_check b at 0 count then Some \<lparr>st_bytes = b, st_count = count\<rparr> else None)"

text \<open>The iterator; \<open>None\<close> is the panic of a slice out of range.\<close>

fun seg_walk :: "bytes \<Rightarrow> nat \<Rightarrow> nat \<Rightarrow> nat \<Rightarrow> (nat \<times> bytes) list option" where
  "seg_walk b at i 0 = Some []"
| "seg_walk b at i (Suc k) =
     (let e = 8 + i * 8 in
      case get_u32 b e of None \<Rightarrow> None
      | Some off \<Rightarrow> (case get_u32 b (e + 4) of None \<Rightarrow> None
        | Some len \<Rightarrow> (case slice_at b at len of None \<Rightarrow> None
          | Some payload \<Rightarrow> (case seg_walk b (at + pad8 len) (Suc i) k of None \<Rightarrow> None
            | Some rest \<Rightarrow> Some ((off, payload) # rest)))))"

definition seg_iter :: "seg_table \<Rightarrow> (nat \<times> bytes) list option" where
  "seg_iter s = seg_walk (st_bytes s) (table_bytes (st_count s)) 0 (st_count s)"

definition seg_find :: "seg_table \<Rightarrow> nat \<Rightarrow> bytes option" where
  "seg_find s ptr_offset =
     (case seg_iter s of None \<Rightarrow> None | Some ss \<Rightarrow> map_option snd (find (\<lambda>(o', _). o' = ptr_offset) ss))"

section \<open>Lemmas\<close>

lemma pad8_ge: "n \<le> pad8 n"
proof -
  have "pad8 n + (n + 7) mod 8 = n + 7"
    unfolding pad8_def using div_mult_mod_eq [of "n + 7" 8] by simp
  moreover have "(n + 7) mod 8 \<le> 7" by (simp add: less_Suc_eq_le [symmetric])
  ultimately show ?thesis by linarith
qed

lemma pad8_bound: "pad8 n \<le> n + 7"
  unfolding pad8_def using div_mult_mod_eq [of "n + 7" 8] by linarith

lemma seg_total_Some: "seg_total t ls = Some u \<Longrightarrow> u = t + sum_list (map pad8 ls)"
  by (induction ls arbitrary: t) (fastforce simp: checked_add64_def split: option.splits if_splits)+

lemma seg_total_fits: "t + sum_list (map pad8 ls) < 2 ^ 64 \<Longrightarrow> seg_total t ls = Some (t + sum_list (map pad8 ls))"
  by (induction ls arbitrary: t) (auto simp: checked_add64_def)

lemma seg_encoded_len_Some:
  "seg_encoded_len lens = Some t \<longleftrightarrow>
     length lens \<le> MAX_SEGMENTS \<and> t = table_bytes (length lens) + sum_list (map pad8 lens) \<and> t \<le> u32_max"
  using seg_total_fits [of "table_bytes (length lens)" lens]
  by (auto simp: seg_encoded_len_def dest!: seg_total_Some split: option.splits if_splits)

definition seg_entry :: "nat \<times> bytes \<Rightarrow> bytes" where
  "seg_entry s = le_bytes 4 (fst s) @ le_bytes 4 (length (snd s))"

definition seg_payload :: "nat \<times> bytes \<Rightarrow> bytes" where
  "seg_payload s = snd s @ replicate (pad8 (length (snd s)) - length (snd s)) 0"

lemma length_seg_entry [simp]: "length (seg_entry s) = 8"
  by (simp add: seg_entry_def)

lemma length_seg_payload [simp]: "length (seg_payload s) = pad8 (length (snd s))"
  using pad8_ge [of "length (snd s)"] by (simp add: seg_payload_def)

lemma length_concat_entries [simp]: "length (concat (map seg_entry ss)) = 8 * length ss"
  by (induction ss) auto

abbreviation seg_padded :: "(nat \<times> bytes) list \<Rightarrow> nat" where
  "seg_padded ss \<equiv> sum_list (map (pad8 \<circ> length \<circ> snd) ss)"

lemma length_concat_payloads [simp]: "length (concat (map seg_payload ss)) = seg_padded ss"
  by (induction ss) auto

lemma seg_write_image:
  "length T = 8 + i * 8 \<Longrightarrow> at = length T + 8 * length ss + length P \<Longrightarrow>
   seg_write i at ss (T @ replicate (8 * length ss) 0 @ P @ replicate (seg_padded ss) 0)
     = T @ concat (map seg_entry ss) @ P @ concat (map seg_payload ss)"
proof (induction ss arbitrary: i at T P)
  case Nil
  then show ?case by simp
next
  case (Cons s ss)
  obtain off b where s: "s = (off, b)" by (cases s)
  let ?n = "8 * length ss" and ?z = "seg_padded ss" and ?pad = "pad8 (length b)"
  let ?T1 = "T @ le_bytes 4 off" and ?T2 = "T @ seg_entry s"
  have pad: "length b \<le> ?pad" by (rule pad8_ge)
  have T2: "?T1 @ le_bytes 4 (length b) = ?T2" by (simp add: seg_entry_def s)
  have 1: "put_at (T @ replicate (8 * length (s # ss)) 0 @ P @ replicate (seg_padded (s # ss)) 0)
        (8 + i * 8) (le_bytes 4 off)
      = ?T1 @ replicate (4 + ?n) 0 @ P @ replicate (?pad + ?z) 0"
    using Cons.prems(1) by (subst put_at_zeros_mid) (auto simp: s)
  have 2: "put_at (?T1 @ replicate (4 + ?n) 0 @ P @ replicate (?pad + ?z) 0)
        (8 + i * 8 + 4) (le_bytes 4 (length b))
      = ?T2 @ replicate ?n 0 @ P @ replicate (?pad + ?z) 0"
    using Cons.prems(1) by (subst put_at_zeros_mid) (auto simp: T2 [symmetric])
  have at: "at = length (?T2 @ replicate ?n 0 @ P)"
    using Cons.prems(2) by simp
  have 3: "put_at (?T2 @ replicate ?n 0 @ P @ replicate (?pad + ?z) 0) at b
      = ?T2 @ replicate ?n 0 @ (P @ seg_payload s) @ replicate ?z 0"
    using put_at_zeros [OF at, of b "?pad + ?z"] pad
    by (simp add: seg_payload_def s replicate_add [symmetric])
  have "seg_write (Suc i) (at + ?pad) ss (?T2 @ replicate ?n 0 @ (P @ seg_payload s) @ replicate ?z 0)
      = ?T2 @ concat (map seg_entry ss) @ (P @ seg_payload s) @ concat (map seg_payload ss)"
    using Cons.prems pad by (intro Cons.IH) (auto simp: s)
  with 1 2 3 show ?case
    by (simp only: s seg_write.simps Let_def) (simp add: s)
qed

lemma seg_encode_image:
  assumes "seg_encode cap ss = Some out"
  shows "out = le_bytes 4 (length ss) @ le_bytes 4 0 @ concat (map seg_entry ss) @ concat (map seg_payload ss)"
    and "length ss \<le> MAX_SEGMENTS"
    and "length out = table_bytes (length ss) + seg_padded ss"
    and "length out \<le> cap" and "length out \<le> u32_max"
proof -
  let ?h = "le_bytes 4 (length ss) @ le_bytes 4 0"
  let ?tot = "table_bytes (length ss) + seg_padded ss"
  from assms have n: "length ss \<le> MAX_SEGMENTS" and tot: "?tot \<le> u32_max" and cap: "?tot \<le> cap"
    and out: "out = seg_write 0 (table_bytes (length ss)) ss (put_at (replicate ?tot 0) 0 (le_bytes 4 (length ss)))"
    by (auto simp: seg_encode_def Let_def seg_encoded_len_Some comp_assoc split: if_splits option.splits)
  have z: "le_bytes 4 0 = replicate 4 0" by code_simp
  have "put_at (replicate ?tot 0) 0 (le_bytes 4 (length ss))
      = ?h @ replicate (8 * length ss) 0 @ [] @ replicate (seg_padded ss) 0"
    by (simp add: put_at_def z table_bytes_def replicate_add [symmetric] algebra_simps)
  moreover have "seg_write 0 (table_bytes (length ss)) ss
        (?h @ replicate (8 * length ss) 0 @ [] @ replicate (seg_padded ss) 0)
      = ?h @ concat (map seg_entry ss) @ [] @ concat (map seg_payload ss)"
    by (rule seg_write_image) (auto simp: table_bytes_def)
  ultimately show o: "out = le_bytes 4 (length ss) @ le_bytes 4 0 @ concat (map seg_entry ss) @ concat (map seg_payload ss)"
    using out by simp
  show "length ss \<le> MAX_SEGMENTS" by (rule n)
  show l: "length out = ?tot" by (simp add: o table_bytes_def)
  show "length out \<le> cap" "length out \<le> u32_max" using l cap tot by simp_all
qed

text \<open>A walk over what the encoder wrote gives back the segments; the table precedes the payloads.\<close>

lemma seg_walk_image:
  assumes "length T = 8 + i * 8" "at = length T + 8 * length ss + length P"
    and "\<forall>s \<in> set ss. fst s < 2 ^ 32 \<and> length (snd s) < 2 ^ 32"
    and "at + seg_padded ss < 2 ^ 64"
    and "b = T @ concat (map seg_entry ss) @ P @ concat (map seg_payload ss) @ rest"
  shows "seg_walk b at i (length ss) = Some ss \<and> seg_check b at i (length ss)"
  using assms
proof (induction ss arbitrary: i at T P)
  case Nil
  then show ?case by simp
next
  case (Cons s ss)
  obtain off c where s: "s = (off, c)" by (cases s)
  have IH: "seg_walk b (at + pad8 (length c)) (Suc i) (length ss) = Some ss
      \<and> seg_check b (at + pad8 (length c)) (Suc i) (length ss)"
    using Cons.prems
    by (intro Cons.IH [where T = "T @ seg_entry s" and P = "P @ seg_payload s"]) (auto simp: s)
  have off: "get_u32 b (8 + i * 8) = Some off" and len: "get_u32 b (12 + i * 8) = Some (length c)"
    using Cons.prems by (simp_all add: get_le_Some_iff seg_entry_def s)
  have pay: "slice_at b at (length c) = Some c"
    using Cons.prems by (simp add: slice_at_def seg_payload_def s)
  have u: "u32_at b (12 + i * 8) = length c"
    using len by (simp add: get_le_Some_iff)
  have "checked_add64 at (pad8 (length c)) = Some (at + pad8 (length c))"
    using Cons.prems(4) by (simp add: checked_add64_def s)
  moreover have "at + pad8 (length c) \<le> length b" using Cons.prems(2,5) by (simp add: s)
  ultimately show ?case
    using IH by (simp add: Let_def off len pay u s)
qed

lemma seg_check_walk:
  "seg_check b at i k \<Longrightarrow> 8 + (i + k) * 8 \<le> length b \<Longrightarrow>
   \<exists>ss. seg_walk b at i k = Some ss \<and> length ss = k"
proof (induction k arbitrary: at i)
  case 0
  then show ?case by simp
next
  case (Suc k)
  let ?len = "u32_at b (8 + i * 8 + 4)"
  from Suc.prems(1) have c: "at + pad8 ?len \<le> length b" "seg_check b (at + pad8 ?len) (Suc i) k"
    by (auto simp: checked_add64_def Let_def split: if_splits option.splits)
  with Suc obtain ss where "seg_walk b (at + pad8 ?len) (Suc i) k = Some ss" "length ss = k"
    by (metis Suc.IH add_Suc_shift)
  moreover have "slice_at b at ?len = Some (take ?len (drop at b))"
    using c(1) pad8_ge [of ?len] by (simp add: slice_at_def)
  ultimately show ?case
    using Suc.prems(2) by (auto simp: Let_def get_le_eq)
qed

lemma seg_parse_SomeD:
  assumes "seg_parse b = Some s"
  shows "st_bytes s = b" "st_count s \<le> MAX_SEGMENTS" "table_bytes (st_count s) \<le> length b"
    "seg_check b (table_bytes (st_count s)) 0 (st_count s)"
  using assms by (auto simp: seg_parse_def Let_def split: if_splits)

text \<open>C32: a block the parser accepts is read without leaving it: every piece the table names is inside
  what the guest sent, so the iterator never panics and yields as many pieces as the table counts.\<close>

theorem seg_parse_never_panics:
  assumes "seg_parse b = Some s"
  shows "\<exists>ss. seg_iter s = Some ss \<and> length ss = st_count s \<and> length ss \<le> MAX_SEGMENTS"
proof -
  have "8 + (0 + st_count s) * 8 \<le> length b"
    using seg_parse_SomeD(3) [OF assms] by (simp add: table_bytes_def)
  from seg_check_walk [OF seg_parse_SomeD(4) [OF assms] this] show ?thesis
    using seg_parse_SomeD(1,2) [OF assms] by (auto simp: seg_iter_def)
qed

lemma seg_parse_never_panics_witness:
  "\<exists>s ss. seg_parse (le_bytes 4 0 @ le_bytes 4 0) = Some s \<and> seg_iter s = Some ss \<and> length ss = st_count s"
proof -
  have "u32_at (le_bytes 4 0 @ le_bytes 4 0) 0 = 0" by (simp add: le_at_def)
  then obtain s where s: "seg_parse (le_bytes 4 0 @ le_bytes 4 0) = Some s"
    by (simp add: seg_parse_def table_bytes_def Let_def)
  from seg_parse_never_panics [OF s] s show ?thesis by blast
qed

text \<open>C38: the reply encoding is read back by the other half exactly: offsets and payloads in order, for
  every buffer the encoder accepts, whatever bytes follow it.\<close>

theorem seg_round_trip:
  assumes "seg_encode cap ss = Some out" and "\<forall>s \<in> set ss. fst s < 2 ^ 32"
  shows "\<exists>t. seg_parse (out @ rest) = Some t \<and> seg_iter t = Some ss"
proof -
  note im = seg_encode_image [OF assms(1)]
  have small: "length (snd s) < 2 ^ 32" if "s \<in> set ss" for s
  proof -
    have "pad8 (length (snd s)) \<le> seg_padded ss"
      using that by (intro member_le_sum_list) (auto simp: image_iff)
    then show ?thesis using im(3,5) pad8_ge [of "length (snd s)"] by simp
  qed
  let ?h = "le_bytes 4 (length ss) @ le_bytes 4 0"
  have b: "out @ rest = ?h @ concat (map seg_entry ss) @ [] @ concat (map seg_payload ss) @ rest"
    by (simp add: im(1))
  have fits: "table_bytes (length ss) + seg_padded ss < 2 ^ 64" using im(3,5) by simp
  have wc: "seg_walk (out @ rest) (table_bytes (length ss)) 0 (length ss) = Some ss
      \<and> seg_check (out @ rest) (table_bytes (length ss)) 0 (length ss)"
    by (rule seg_walk_image [where T = ?h and P = "[]" and rest = rest])
      (use small assms(2) fits b in \<open>auto simp: table_bytes_def\<close>)
  have n: "u32_at (out @ rest) 0 = length ss" using im(2) by (simp add: im(1))
  have l: "table_bytes (length ss) \<le> length (out @ rest)" using im(3) by simp
  then have "seg_parse (out @ rest) = Some \<lparr>st_bytes = out @ rest, st_count = length ss\<rparr>"
    unfolding seg_parse_def Let_def n using im(2) wc by (simp add: table_bytes_def)
  with wc show ?thesis by (auto simp: seg_iter_def)
qed

lemma seg_round_trip_witness:
  "\<exists>out t. seg_encode 64 [(16, [1, 2, 3])] = Some out \<and> seg_parse (out @ [9]) = Some t \<and>
     seg_iter t = Some [(16, [1, 2, 3])]"
proof -
  obtain out where e: "seg_encode 64 [(16, [1, 2, 3])] = Some out"
    by (simp add: seg_encode_def seg_encoded_len_def checked_add64_def pad8_def table_bytes_def Let_def)
  from seg_round_trip [OF e, of "[9]"] e show ?thesis by auto
qed

end
