(* ===== verification/Caps.thy ===== *)
theory Caps
  imports Prelude
begin

text \<open>
  What a guest is served (\<open>device/src/caps.rs\<close>): the capability set, its command-line parser and
  printer, and the class lists that say which capability an RM class needs. Command-line text is
  modelled as ASCII, where Rust's \<open>trim\<close> removes the six ASCII white-space characters.
\<close>

type_synonym caps = "32 word"

abbreviation (input) COMPUTE :: caps where "COMPUTE \<equiv> 1"
abbreviation (input) GRAPHICS :: caps where "GRAPHICS \<equiv> 2"
abbreviation (input) VIDEO :: caps where "VIDEO \<equiv> 4"
abbreviation (input) UTILITY :: caps where "UTILITY \<equiv> 8"

definition cap_names :: "(string \<times> caps) list" where
  "cap_names = [(''graphics'', GRAPHICS), (''compute'', COMPUTE), (''video'', VIDEO), (''utility'', UTILITY)]"

definition caps_default :: caps where
  "caps_default = GRAPHICS OR VIDEO OR UTILITY"

datatype caps_error = UnknownCapability string | NoCapabilities

fun split_on :: "char \<Rightarrow> string \<Rightarrow> string list" where
  "split_on sep [] = [[]]"
| "split_on sep (c # cs) =
     (if c = sep then [] # split_on sep cs
      else case split_on sep cs of [] \<Rightarrow> [[c]] | w # ws \<Rightarrow> (c # w) # ws)"

definition is_space :: "char \<Rightarrow> bool" where
  "is_space c \<longleftrightarrow> c \<in> set [CHR '' '', CHR 0x09, CHR 0x0A, CHR 0x0B, CHR 0x0C, CHR 0x0D]"

definition trim :: "string \<Rightarrow> string" where
  "trim s = rev (dropWhile is_space (rev (dropWhile is_space s)))"

definition to_lower :: "char \<Rightarrow> char" where
  "to_lower c = (let n = of_char c :: nat in if 65 \<le> n \<and> n \<le> 90 then char_of (n + 32) else c)"

definition eq_ignore_ascii_case :: "string \<Rightarrow> string \<Rightarrow> bool" where
  "eq_ignore_ascii_case a b \<longleftrightarrow> map to_lower a = map to_lower b"

fun caps_fold :: "caps \<Rightarrow> string list \<Rightarrow> caps_error + caps" where
  "caps_fold bits [] = Inr bits"
| "caps_fold bits (name # names) =
     (case find (\<lambda>(n, _). eq_ignore_ascii_case n name) cap_names of
        None \<Rightarrow> Inl (UnknownCapability name)
      | Some (_, b) \<Rightarrow> caps_fold (bits OR b) names)"

definition caps_parse :: "string \<Rightarrow> caps_error + caps" where
  "caps_parse list =
     (case caps_fold 0 (map trim (split_on (CHR '','') list)) of
        Inl e \<Rightarrow> Inl e
      | Inr bits \<Rightarrow> if bits = 0 then Inl NoCapabilities else Inr bits)"

definition caps_has :: "caps \<Rightarrow> caps \<Rightarrow> bool" where
  "caps_has c b \<longleftrightarrow> c AND b = b"

definition three_d_classes :: "nat list" where
  "three_d_classes =
     [0x9097, 0xa097, 0xa197, 0xb097, 0xb197, 0xc097, 0xc197, 0xc397, 0xc597, 0xc697, 0xc797, 0xc997,
      0xcb97, 0xcd97, 0xce97]"

definition video_classes :: "nat list" where
  "video_classes =
     [0xb4b7, 0xc0b7, 0xc1b7, 0xc2b7, 0xc3b7, 0xc4b7, 0xc7b7, 0xc9b7, 0xceb7, 0xcfb7, 0xd0b7, 0xd1b7,
      0xd5b7,
      0xa0b0, 0xb0b0, 0xb6b0, 0xb8b0, 0xc1b0, 0xc2b0, 0xc3b0, 0xc4b0, 0xc6b0, 0xc7b0, 0xc9b0, 0xcdb0,
      0xceb0, 0xcfb0, 0xd1b0,
      0xb8d1, 0xc4d1, 0xc9d1, 0xcdd1, 0xcfd1,
      0xb8fa, 0xc6fa, 0xc7fa, 0xc9fa, 0xcdfa, 0xcefa, 0xd1fa]"

definition caps_for_class :: "nat \<Rightarrow> caps option" where
  "caps_for_class c =
     (if c \<in> set three_d_classes then Some GRAPHICS
      else if c \<in> set video_classes then Some VIDEO
      else None)"

fun join_comma :: "string list \<Rightarrow> string" where
  "join_comma [] = []"
| "join_comma [w] = w"
| "join_comma (w # ws) = w @ (CHR '','') # join_comma ws"

definition caps_display :: "caps \<Rightarrow> string" where
  "caps_display c = join_comma (map fst (filter (\<lambda>(_, b). caps_has c b) cap_names))"

section \<open>Lemmas\<close>

lemma caps_has_or: "caps_has c a \<Longrightarrow> caps_has (c OR d) a"
  unfolding caps_has_def by (auto simp: bit_eq_iff bit_and_iff bit_or_iff)

lemma caps_fold_known:
  "caps_fold bits names = Inr c \<Longrightarrow>
   \<forall>n \<in> set names. \<exists>w b. (w, b) \<in> set cap_names \<and> eq_ignore_ascii_case w n \<and> caps_has c b"
proof (induction names arbitrary: bits)
  case Nil
  then show ?case by simp
next
  case (Cons n names)
  from Cons.prems obtain w b where
    f: "find (\<lambda>(n', _). eq_ignore_ascii_case n' n) cap_names = Some (w, b)"
    and r: "caps_fold (bits OR b) names = Inr c"
    by (auto split: option.splits)
  from f have w: "(w, b) \<in> set cap_names" "eq_ignore_ascii_case w n"
    by (auto simp: find_Some_iff intro: nth_mem [of _ cap_names, THEN back_subst [of "\<lambda>x. x \<in> set cap_names"]])
  have grow: "caps_fold d ns = Inr c \<Longrightarrow> caps_has d b' \<Longrightarrow> caps_has c b'" for d ns b'
    by (induction ns arbitrary: d) (auto split: option.splits intro: caps_has_or)
  have "caps_has (bits OR b) b" by (simp add: caps_has_def word_ao_absorbs)
  with r have "caps_has c b" by (rule grow)
  with w Cons.IH [OF r] show ?case by auto
qed

text \<open>Every name on an accepted command line is a capability that is then served, so a misspelt
  capability is refused instead of silently serving less; the set is never empty.\<close>

theorem caps_parse_serves_all:
  assumes "caps_parse s = Inr c"
  shows "c \<noteq> 0 \<and> (\<forall>n \<in> set (map trim (split_on (CHR '','') s)).
           \<exists>w b. (w, b) \<in> set cap_names \<and> eq_ignore_ascii_case w n \<and> caps_has c b)"
proof -
  from assms have "c \<noteq> 0" "caps_fold 0 (map trim (split_on (CHR '','') s)) = Inr c"
    by (auto simp: caps_parse_def split: sum.splits if_splits)
  then show ?thesis using caps_fold_known by blast
qed

theorem caps_parse_serves_all_witness:
  "caps_parse ''Compute, graphics'' = Inr 3 \<and> (3 :: caps) \<noteq> 0"
proof -
  have h: "caps_parse ''Compute, graphics'' = Inr 3" by code_simp
  show ?thesis using h caps_parse_serves_all [OF h] by simp
qed

lemma no_class_in_both: "set three_d_classes \<inter> set video_classes = {}"
  by (simp add: three_d_classes_def video_classes_def)

text \<open>Display and parse are inverse on the sixteen sets a backend can be given, but for the empty one.\<close>

lemma caps_display_parse:
  "\<forall>n \<in> set [1..<16]. caps_parse (caps_display (word_of_nat n)) = Inr (word_of_nat n)"
  by code_simp

end
