(* ===== verification/HandleTable.thy ===== *)
theory HandleTable
  imports Prelude
begin

text \<open>
  The guest-handle table (\<open>device/src/handle_table.rs\<close>): opaque 64-bit handles to host descriptors.
  The interface \<open>handle_store\<close> states what its clients rely on.
\<close>

type_synonym fd = nat

record handle_table =
  ht_next :: nat
  ht_table :: "(nat \<times> fd) list"

definition ht_new :: handle_table where
  "ht_new = \<lparr>ht_next = 1, ht_table = []\<rparr>"

definition ht_insert :: "handle_table \<Rightarrow> fd \<Rightarrow> nat \<times> handle_table" where
  "ht_insert t f =
     (ht_next t,
      \<lparr>ht_next = (ht_next t + 1) mod 2 ^ 64, ht_table = AList.update (ht_next t) f (ht_table t)\<rparr>)"

definition ht_get_raw :: "handle_table \<Rightarrow> nat \<Rightarrow> fd option" where
  "ht_get_raw t h = map_of (ht_table t) h"

text \<open>\<open>remove\<close>: the descriptor that is closed, or \<open>BadHandle\<close> (\<open>None\<close>) and the table as it was.\<close>

definition ht_remove :: "handle_table \<Rightarrow> nat \<Rightarrow> fd option \<times> handle_table" where
  "ht_remove t h = (map_of (ht_table t) h, t\<lparr>ht_table := AList.delete h (ht_table t)\<rparr>)"

definition ht_drain_all :: "handle_table \<Rightarrow> fd list \<times> handle_table" where
  "ht_drain_all t = (map snd (ht_table t), \<lparr>ht_next = 1, ht_table = []\<rparr>)"

definition ht_len :: "handle_table \<Rightarrow> nat" where
  "ht_len t = length (ht_table t)"

text \<open>Issued handles are positive, distinct and below the counter.\<close>

definition ht_inv :: "handle_table \<Rightarrow> bool" where
  "ht_inv t \<longleftrightarrow> 0 < ht_next t \<and> ht_next t < 2 ^ 64 \<and> keys_distinct (ht_table t)
     \<and> (\<forall>h \<in> fst ` set (ht_table t). 0 < h \<and> h < ht_next t)"

text \<open>One insertion away from the wrap of the counter, \<open>2 ^ 64 - 1\<close> insertions after a drain.\<close>

definition ht_room :: "handle_table \<Rightarrow> bool" where
  "ht_room t \<longleftrightarrow> ht_next t < 2 ^ 64 - 1"

section \<open>The interface\<close>

locale handle_store =
  fixes ins :: "'t \<Rightarrow> 'v \<Rightarrow> nat \<times> 't"
    and get :: "'t \<Rightarrow> nat \<Rightarrow> 'v option"
    and rem :: "'t \<Rightarrow> nat \<Rightarrow> 'v option \<times> 't"
    and room :: "'t \<Rightarrow> bool"
    and inv :: "'t \<Rightarrow> bool"
  assumes ins_fresh: "inv t \<Longrightarrow> get t (fst (ins t v)) = None"
    and ins_get: "inv t \<Longrightarrow> get (snd (ins t v)) = (get t)(fst (ins t v) := Some v)"
    and ins_inv: "inv t \<Longrightarrow> room t \<Longrightarrow> inv (snd (ins t v))"
    and rem_get: "inv t \<Longrightarrow> get (snd (rem t h)) = (get t)(h := None)"
    and rem_val: "inv t \<Longrightarrow> fst (rem t h) = get t h"
    and rem_inv: "inv t \<Longrightarrow> inv (snd (rem t h))"
begin

lemma ins_rem: "inv t \<Longrightarrow> room t \<Longrightarrow> get (snd (rem (snd (ins t v)) (fst (ins t v)))) = get t"
  using ins_fresh [of t v] by (auto simp: rem_get ins_inv ins_get fun_eq_iff)

lemma ins_keeps: "inv t \<Longrightarrow> get t h = Some w \<Longrightarrow> get (snd (ins t v)) h = Some w"
  using ins_fresh [of t v] by (auto simp: ins_get)

lemma rem_twice: "inv t \<Longrightarrow> fst (rem (snd (rem t h)) h) = None"
  by (simp add: rem_val rem_inv rem_get)

lemma rem_other: "inv t \<Longrightarrow> h \<noteq> h' \<Longrightarrow> get (snd (rem t h)) h' = get t h'"
  by (simp add: rem_get)

end

lemma ht_inv_fresh: "ht_inv t \<Longrightarrow> map_of (ht_table t) (ht_next t) = None"
  by (auto simp: ht_inv_def map_of_eq_None_iff)

interpretation ht: handle_store ht_insert ht_get_raw ht_remove ht_room ht_inv
proof
  fix t :: handle_table and v h :: nat
  assume i: "ht_inv t"
  show "ht_get_raw t (fst (ht_insert t v)) = None"
    using i by (simp add: ht_insert_def ht_get_raw_def ht_inv_fresh)
  show "ht_get_raw (snd (ht_insert t v)) = (ht_get_raw t)(fst (ht_insert t v) := Some v)"
    by (simp add: ht_insert_def ht_get_raw_def fun_eq_iff update_conv')
  show "ht_room t \<Longrightarrow> ht_inv (snd (ht_insert t v))"
    using i by (auto simp: ht_insert_def ht_inv_def ht_room_def distinct_update dom_update image_Un
        dest!: set_mp [OF equalityD1 [OF set_update_distinct]])
  show "ht_get_raw (snd (ht_remove t h)) = (ht_get_raw t)(h := None)"
    by (simp add: ht_remove_def ht_get_raw_def fun_eq_iff delete_conv')
  show "fst (ht_remove t h) = ht_get_raw t h"
    by (simp add: ht_remove_def ht_get_raw_def)
  show "ht_inv (snd (ht_remove t h))"
    using i by (auto simp: ht_remove_def ht_inv_def distinct_delete set_delete)
qed

lemma ht_inv_new: "ht_inv ht_new"
  by (simp add: ht_inv_def ht_new_def)

lemma ht_inv_drain: "ht_inv (snd (ht_drain_all t))"
  by (simp add: ht_inv_def ht_drain_all_def)

section \<open>A stale handle\<close>

text \<open>The operations of a run of the table, and whether a handle stays dead through it.\<close>

datatype ht_op = HInsert fd | HRemove nat

fun ht_step :: "handle_table \<Rightarrow> ht_op \<Rightarrow> handle_table" where
  "ht_step t (HInsert f) = snd (ht_insert t f)"
| "ht_step t (HRemove h) = snd (ht_remove t h)"

lemma ht_step_dead:
  assumes "ht_inv t" "ht_room t" "h < ht_next t" "ht_get_raw t h = None"
  shows "ht_inv (ht_step t x)" "ht_next (ht_step t x) \<le> ht_next t + 1" "h < ht_next (ht_step t x)"
    "ht_get_raw (ht_step t x) h = None"
proof -
  show "ht_inv (ht_step t x)" using assms(1,2) by (cases x) (auto simp: ht.ins_inv ht.rem_inv)
  show "ht_next (ht_step t x) \<le> ht_next t + 1" "h < ht_next (ht_step t x)"
    using assms(2,3) by (cases x; simp add: ht_insert_def ht_remove_def ht_room_def)+
  show "ht_get_raw (ht_step t x) h = None"
  proof (cases x)
    case (HInsert f)
    have "fst (ht_insert t f) \<noteq> h" using assms(3) by (simp add: ht_insert_def)
    with HInsert assms show ?thesis by (simp add: ht.ins_get [OF assms(1)])
  next
    case (HRemove h')
    with assms show ?thesis by (simp add: ht.rem_get [OF assms(1)])
  qed
qed

lemma ht_run_dead:
  assumes "ht_inv t" "h < ht_next t" "ht_get_raw t h = None" "ht_next t + length xs < 2 ^ 64"
  shows "ht_get_raw (foldl ht_step t xs) h = None"
  using assms
proof (induction xs arbitrary: t)
  case Nil
  then show ?case by simp
next
  case (Cons x xs)
  have "ht_room t" using Cons.prems(4) by (simp add: ht_room_def)
  note s = ht_step_dead [OF Cons.prems(1) this Cons.prems(2,3), of x]
  show ?case using s Cons.prems(4) by (simp add: Cons.IH)
qed

text \<open>A handle that was closed stays unknown through every later sequence of opens and closes
  shorter than the counter's range: a stale guest handle never names a descriptor opened later.\<close>

theorem stale_handle_stays_dead:
  assumes "ht_inv t" and "ht_get_raw t h = Some f" and "ht_next t + length xs < 2 ^ 64"
  shows "ht_get_raw (foldl ht_step (snd (ht_remove t h)) xs) h = None"
proof (rule ht_run_dead)
  show "ht_inv (snd (ht_remove t h))" by (rule ht.rem_inv [OF assms(1)])
  have "h \<in> fst ` set (ht_table t)"
    using assms(2) by (force simp: ht_get_raw_def dest: map_of_SomeD)
  then show "h < ht_next (snd (ht_remove t h))"
    using assms(1) by (auto simp: ht_inv_def ht_remove_def)
  show "ht_get_raw (snd (ht_remove t h)) h = None" by (simp add: ht.rem_get [OF assms(1)])
  show "ht_next (snd (ht_remove t h)) + length xs < 2 ^ 64" using assms(3) by (simp add: ht_remove_def)
qed

theorem stale_handle_stays_dead_witness:
  "let t = \<lparr>ht_next = 3, ht_table = [(1, 10), (2, 11)]\<rparr> in
   ht_get_raw (foldl ht_step (snd (ht_remove t 1)) [HInsert 10, HRemove 2, HInsert 12]) 1 = None"
proof -
  let ?t = "\<lparr>ht_next = 3, ht_table = [(1, 10), (2, 11)]\<rparr>"
  have i: "ht_inv ?t" by (simp add: ht_inv_def)
  have g: "ht_get_raw ?t 1 = Some 10" by (simp add: ht_get_raw_def)
  have n: "ht_next ?t + length [HInsert 10, HRemove 2, HInsert 12] < 2 ^ 64" by simp
  show ?thesis using stale_handle_stays_dead [OF i g n] by simp
qed

end
