(* ===== verification/GuardPool.thy ===== *)
theory GuardPool
  imports Prelude
begin

text \<open>
  Guarded parameter buffers and the pool that reuses them (\<open>device/src/guarded.rs\<close>). A buffer is an
  anonymous mapping whose last page is inaccessible. What \<open>mmap\<close> and \<open>mprotect\<close> answer is the
  argument \<open>base\<close>: the address of the new mapping, or \<open>None\<close> where either call fails.
\<close>

abbreviation (input) PAGE :: nat where "PAGE \<equiv> 4096"
abbreviation (input) SLACK :: nat where "SLACK \<equiv> 4096"

record guarded_buf =
  gb_base :: nat
  gb_mapped :: nat
  gb_offset :: nat
  gb_len :: nat

definition gb_new :: "nat option \<Rightarrow> nat \<Rightarrow> guarded_buf option" where
  "gb_new base len =
     (if len = 0 then None
      else let pages = (len + SLACK + PAGE - 1) div PAGE; mapped = (pages + 1) * PAGE in
        case base of None \<Rightarrow> None
        | Some b \<Rightarrow> Some \<lparr>gb_base = b, gb_mapped = mapped, gb_offset = 0, gb_len = len\<rparr>)"

definition gb_capacity :: "guarded_buf \<Rightarrow> nat" where
  "gb_capacity b = gb_mapped b - PAGE - SLACK"

text \<open>\<open>reset\<close>: the start is rounded down to 16 bytes (\<open>& !15\<close>); \<open>None\<close> is the answer \<open>false\<close>.\<close>

definition gb_reset :: "guarded_buf \<Rightarrow> nat \<Rightarrow> guarded_buf option" where
  "gb_reset b len =
     (if len = 0 \<or> len > gb_capacity b then None
      else Some (b\<lparr>gb_offset := (gb_capacity b - len) div 16 * 16, gb_len := len\<rparr>))"

definition gb_ptr :: "guarded_buf \<Rightarrow> nat" where
  "gb_ptr b = gb_base b + gb_offset b"

text \<open>Where the guard page starts.\<close>

definition gb_guard :: "guarded_buf \<Rightarrow> nat" where
  "gb_guard b = gb_base b + gb_mapped b - PAGE"

type_synonym guard_pool = "guarded_buf list"

abbreviation (input) KEEP :: nat where "KEEP \<equiv> 8"
abbreviation (input) KEEP_MAX :: nat where "KEEP_MAX \<equiv> 64 * 1024"

text \<open>\<open>min_by_key\<close> over the enumerated free list: the first index with the least key.\<close>

fun min_index :: "(guarded_buf \<Rightarrow> bool) \<Rightarrow> nat \<Rightarrow> guarded_buf list \<Rightarrow> (nat \<times> nat) option" where
  "min_index P i [] = None"
| "min_index P i (b # bs) =
     (case min_index P (Suc i) bs of
        None \<Rightarrow> if P b then Some (i, gb_capacity b) else None
      | Some (j, k) \<Rightarrow> if P b \<and> gb_capacity b \<le> k then Some (i, gb_capacity b) else Some (j, k))"

text \<open>\<open>swap_remove\<close>: the last element takes the removed one's place.\<close>

definition swap_remove :: "nat \<Rightarrow> 'a list \<Rightarrow> 'a \<times> 'a list" where
  "swap_remove i xs = (xs ! i, butlast (xs[i := last xs]))"

definition pool_take :: "guard_pool \<Rightarrow> nat option \<Rightarrow> nat \<Rightarrow> guarded_buf option \<times> guard_pool" where
  "pool_take pool base len =
     (case min_index (\<lambda>b. gb_capacity b \<ge> len) 0 pool of
        None \<Rightarrow> (gb_new base len, pool)
      | Some (i, _) \<Rightarrow>
          let (b, pool') = swap_remove i pool in
          (case gb_reset b len of
             Some b' \<Rightarrow> (Some b', pool')
           | None \<Rightarrow> (gb_new base len, pool')))"

definition pool_give :: "guard_pool \<Rightarrow> guarded_buf \<Rightarrow> guard_pool" where
  "pool_give pool b =
     (if length pool < KEEP \<and> gb_capacity b \<le> KEEP_MAX then pool @ [b] else pool)"

section \<open>Lemmas\<close>

text \<open>A mapping is whole pages with the guard, one page of slack and at least one page of room.\<close>

definition gb_wf :: "guarded_buf \<Rightarrow> bool" where
  "gb_wf b \<longleftrightarrow> PAGE dvd gb_mapped b \<and> 3 * PAGE \<le> gb_mapped b \<and> gb_base b mod PAGE = 0
     \<and> gb_offset b + gb_len b \<le> gb_capacity b"

definition pool_inv :: "guard_pool \<Rightarrow> bool" where
  "pool_inv p \<longleftrightarrow> length p \<le> KEEP \<and> (\<forall>b \<in> set p. gb_wf b \<and> gb_capacity b \<le> KEEP_MAX)"

lemma gb_new_wf:
  assumes "gb_new base len = Some b" "\<forall>a. base = Some a \<longrightarrow> a mod PAGE = 0"
  shows "gb_wf b" "gb_len b = len" "0 < len" "gb_offset b = 0"
proof -
  let ?pages = "(len + SLACK + PAGE - 1) div PAGE"
  from assms have b: "gb_mapped b = (?pages + 1) * PAGE" "gb_offset b = 0" "gb_len b = len"
      "gb_base b mod PAGE = 0" "0 < len"
    by (auto simp: gb_new_def Let_def split: if_splits option.splits)
  have p: "len + SLACK \<le> ?pages * PAGE" using div_mult_mod_eq [of "len + SLACK + PAGE - 1" PAGE] by linarith
  with b(5) have "SLACK < ?pages * PAGE" by linarith
  then have "2 \<le> ?pages" by (cases "?pages \<le> 1") auto
  with b p show "gb_wf b" by (auto simp: gb_wf_def gb_capacity_def)
  show "gb_len b = len" "0 < len" "gb_offset b = 0" using b by simp_all
qed

lemma gb_reset_wf:
  assumes "gb_reset b len = Some b'" "gb_wf b"
  shows "gb_wf b'" "gb_len b' = len" "0 < len" "gb_base b' = gb_base b" "gb_mapped b' = gb_mapped b"
    "gb_offset b' = (gb_capacity b - len) div 16 * 16"
proof -
  from assms(1) have b': "b' = b\<lparr>gb_offset := (gb_capacity b - len) div 16 * 16, gb_len := len\<rparr>"
      "0 < len" "len \<le> gb_capacity b"
    by (auto simp: gb_reset_def split: if_splits)
  have "(gb_capacity b - len) div 16 * 16 + len \<le> gb_capacity b"
    using b'(3) div_mult_mod_eq [of "gb_capacity b - len" 16] by linarith
  then show "gb_wf b'" using assms(2) by (simp add: b'(1) gb_wf_def gb_capacity_def)
  show "gb_len b' = len" "0 < len" "gb_base b' = gb_base b" "gb_mapped b' = gb_mapped b"
    "gb_offset b' = (gb_capacity b - len) div 16 * 16" using b' by simp_all
qed

lemma min_index_Some:
  "min_index P i bs = Some (j, k) \<Longrightarrow>
   i \<le> j \<and> j < i + length bs \<and> P (bs ! (j - i)) \<and> k = gb_capacity (bs ! (j - i))
   \<and> (\<forall>b \<in> set bs. P b \<longrightarrow> k \<le> gb_capacity b)"
proof (induction bs arbitrary: i j k)
  case Nil
  then show ?case by simp
next
  case (Cons b bs)
  show ?case
  proof (cases "min_index P (Suc i) bs")
    case None
    have "\<not> P c" if "c \<in> set bs" for c
      using None that by (induction bs arbitrary: i) (auto split: option.splits if_splits prod.splits)
    with None Cons.prems show ?thesis by (auto split: if_splits)
  next
    case (Some jk)
    obtain j' k' where jk: "jk = (j', k')" by (cases jk)
    note IH = Cons.IH [OF Some [unfolded jk]]
    from IH have "(b # bs) ! (j' - i) = bs ! (j' - Suc i)" by (simp add: nth_Cons' Suc_diff_Suc)
    with IH Cons.prems Some jk show ?thesis by (auto split: if_splits)
  qed
qed

lemma min_index_None: "min_index P i bs = None \<longleftrightarrow> (\<forall>b \<in> set bs. \<not> P b)"
proof (induction bs arbitrary: i)
  case (Cons b bs)
  show ?case using Cons.IH [of "Suc i"] by (cases "min_index P (Suc i) bs") (auto split: if_splits)
qed simp

lemma swap_remove_set:
  assumes "i < length xs"
  shows "set (snd (swap_remove i xs)) \<subseteq> set xs" "length (snd (swap_remove i xs)) = length xs - 1"
proof -
  have "last xs \<in> set xs" using assms by (cases xs) auto
  then have "set (xs[i := last xs]) \<subseteq> set xs" by (metis insert_absorb set_update_subset_insert)
  then show "set (snd (swap_remove i xs)) \<subseteq> set xs"
    by (auto simp: swap_remove_def dest: in_set_butlastD)
  show "length (snd (swap_remove i xs)) = length xs - 1" by (simp add: swap_remove_def)
qed

lemma pool_take_inv:
  assumes "pool_inv p"
  shows "pool_inv (snd (pool_take p base len))"
proof (cases "min_index (\<lambda>b. gb_capacity b \<ge> len) 0 p")
  case None
  with assms show ?thesis by (simp add: pool_take_def)
next
  case (Some ik)
  obtain i k where ik: "ik = (i, k)" by (cases ik)
  have i: "i < length p" using min_index_Some [OF Some [unfolded ik]] by simp
  have "snd (pool_take p base len) = snd (swap_remove i p)"
    using Some ik by (simp add: pool_take_def split: prod.splits option.splits)
  with swap_remove_set [OF i] assms show ?thesis by (auto simp: pool_inv_def)
qed

lemma pool_give_inv: "pool_inv p \<Longrightarrow> gb_wf b \<Longrightarrow> pool_inv (pool_give p b)"
  by (auto simp: pool_inv_def pool_give_def)

lemma pool_take_cases:
  assumes "pool_take p base len = (Some b, p')" "pool_inv p" "\<forall>a. base = Some a \<longrightarrow> a mod PAGE = 0"
  shows "gb_wf b \<and> gb_len b = len \<and> 0 < len \<and>
    (gb_offset b = 0 \<and> (\<forall>c \<in> set p. gb_capacity c < len)
     \<or> gb_offset b = (gb_capacity b - len) div 16 * 16
        \<and> (\<exists>c \<in> set p. gb_base c = gb_base b \<and> gb_mapped c = gb_mapped b
             \<and> (\<forall>d \<in> set p. len \<le> gb_capacity d \<longrightarrow> gb_capacity c \<le> gb_capacity d)))"
proof (cases "min_index (\<lambda>b. gb_capacity b \<ge> len) 0 p")
  case None
  with assms(1) have "gb_new base len = Some b" by (simp add: pool_take_def)
  with gb_new_wf [OF _ assms(3)] None show ?thesis by (auto simp: min_index_None not_le)
next
  case (Some ik)
  obtain i k where ik: "ik = (i, k)" by (cases ik)
  note m = min_index_Some [OF Some [unfolded ik]]
  let ?c = "p ! i"
  have c: "?c \<in> set p" using m by simp
  then have wf: "gb_wf ?c" using assms(2) by (simp add: pool_inv_def)
  show ?thesis
  proof (cases "gb_reset ?c len")
    case None
    with m have "len = 0" by (auto simp: gb_reset_def split: if_splits)
    with Some ik None assms(1) show ?thesis
      by (simp add: pool_take_def swap_remove_def gb_new_def)
  next
    case (Some b')
    with \<open>min_index _ 0 p = Some ik\<close> ik assms(1) have "b' = b"
      by (simp add: pool_take_def swap_remove_def)
    with gb_reset_wf [OF Some wf] m c show ?thesis
      by (auto simp: gb_capacity_def intro!: bexI [of _ ?c])
  qed
qed



text \<open>The pool never holds more than eight buffers nor a large one, through any use of it.\<close>

lemma pool_lease_inv:
  assumes "pool_inv p" "pool_take p base len = (Some b, p')" "\<forall>a. base = Some a \<longrightarrow> a mod PAGE = 0"
  shows "pool_inv (pool_give p' b)"
  using pool_take_inv [OF assms(1), of base len] pool_take_cases [OF assms(2,1,3)] assms(2)
  by (auto intro: pool_give_inv)

end
