(* ===== verification/BTree.thy ===== *)
theory BTree
  imports Prelude
begin

text \<open>
  \<open>BTreeMap\<close> as an association list in ascending key order: insertion, removal and the two range
  queries the zone allocator makes, with the lemmas that evaluate them on a list split at a key.
\<close>

fun bt_insert :: "nat \<Rightarrow> 'v \<Rightarrow> (nat \<times> 'v) list \<Rightarrow> (nat \<times> 'v) list" where
  "bt_insert k v [] = [(k, v)]"
| "bt_insert k v ((a, b) # m) =
     (if k < a then (k, v) # (a, b) # m
      else if k = a then (k, v) # m
      else (a, b) # bt_insert k v m)"

definition bt_remove :: "nat \<Rightarrow> (nat \<times> 'v) list \<Rightarrow> (nat \<times> 'v) list" where
  "bt_remove k m = filter (\<lambda>(a, _). a \<noteq> k) m"

text \<open>\<open>range(..=s).next_back()\<close> and \<open>range(s..).next()\<close>.\<close>

definition bt_last_le :: "nat \<Rightarrow> (nat \<times> 'v) list \<Rightarrow> (nat \<times> 'v) option" where
  "bt_last_le s m = (case filter (\<lambda>(k, _). k \<le> s) m of [] \<Rightarrow> None | x # xs \<Rightarrow> Some (last (x # xs)))"

definition bt_last_lt :: "nat \<Rightarrow> (nat \<times> 'v) list \<Rightarrow> (nat \<times> 'v) option" where
  "bt_last_lt s m = (case filter (\<lambda>(k, _). k < s) m of [] \<Rightarrow> None | x # xs \<Rightarrow> Some (last (x # xs)))"

definition bt_first_ge :: "nat \<Rightarrow> (nat \<times> 'v) list \<Rightarrow> (nat \<times> 'v) option" where
  "bt_first_ge s m = find (\<lambda>(k, _). k \<ge> s) m"

abbreviation bt_sorted :: "(nat \<times> 'v) list \<Rightarrow> bool" where
  "bt_sorted m \<equiv> sorted_wrt (<) (map fst m)"

lemma fst_bt_insert [simp]: "fst ` set (bt_insert k v m) = insert k (fst ` set m)"
  by (induction k v m rule: bt_insert.induct) auto

lemma bt_sorted_insert: "bt_sorted m \<Longrightarrow> bt_sorted (bt_insert k v m)"
proof (induction k v m rule: bt_insert.induct)
  case (2 k v a b m)
  have "\<forall>x \<in> fst ` set m. a < x" "bt_sorted m" using 2(2) by auto
  moreover have "\<forall>x \<in> fst ` set (bt_insert k v m). a < x" if "a < k"
    using that calculation(1) by simp
  ultimately show ?case using 2 by auto
qed simp

lemma bt_sorted_remove: "bt_sorted m \<Longrightarrow> bt_sorted (bt_remove k m)"
  by (induction m) (auto simp: bt_remove_def)

lemma bt_insert_split:
  "\<forall>(a, b) \<in> set L. a < k \<Longrightarrow> \<forall>(a, b) \<in> set R. k < a \<Longrightarrow>
   bt_insert k v (L @ R) = L @ (k, v) # R"
proof (induction L)
  case Nil
  then show ?case by (cases R) auto
next
  case (Cons x L)
  then show ?case by (cases x) auto
qed

lemma bt_remove_id: "\<forall>(a, b) \<in> set L. a \<noteq> k \<Longrightarrow> bt_remove k L = L"
  unfolding bt_remove_def by (rule filter_True) auto

lemma bt_remove_append: "bt_remove k (L @ R) = bt_remove k L @ bt_remove k R"
  by (simp add: bt_remove_def)

lemma bt_remove_split:
  "\<forall>(a, b) \<in> set L. a \<noteq> k \<Longrightarrow> \<forall>(a, b) \<in> set R. a \<noteq> k \<Longrightarrow> bt_remove k (L @ (k, v) # R) = L @ R"
  by (simp add: bt_remove_append bt_remove_id) (simp add: bt_remove_def bt_remove_id [unfolded bt_remove_def])

lemma filter_split_le:
  "\<forall>x \<in> set L. P x \<Longrightarrow> \<forall>x \<in> set R. \<not> P x \<Longrightarrow> filter P (L @ R) = L"
  by simp

lemma bt_last_le_split:
  assumes "\<forall>(a, b) \<in> set L. a \<le> s" "\<forall>(a, b) \<in> set R. s < a"
  shows "bt_last_le s (L @ R) = (if L = [] then None else Some (last L))"
proof -
  have "filter (\<lambda>(k, _). k \<le> s) (L @ R) = L"
    using assms by (intro filter_split_le) (auto simp: not_le)
  then show ?thesis unfolding bt_last_le_def by (auto split: list.splits)
qed

lemma bt_last_lt_split:
  assumes "\<forall>(a, b) \<in> set L. a < s" "\<forall>(a, b) \<in> set R. s \<le> a"
  shows "bt_last_lt s (L @ R) = (if L = [] then None else Some (last L))"
proof -
  have "filter (\<lambda>(k, _). k < s) (L @ R) = L"
    using assms by (intro filter_split_le) (auto simp: not_less)
  then show ?thesis unfolding bt_last_lt_def by (auto split: list.splits)
qed

lemma bt_first_ge_split:
  assumes "\<forall>(a, b) \<in> set L. a < s" "\<forall>(a, b) \<in> set R. s \<le> a"
  shows "bt_first_ge s (L @ R) = (case R of [] \<Rightarrow> None | x # xs \<Rightarrow> Some x)"
  using assms unfolding bt_first_ge_def
proof (induction L)
  case Nil
  then show ?case by (cases R) auto
next
  case (Cons x L)
  then show ?case by (cases x) auto
qed

lemma bt_insert_again: "bt_sorted m \<Longrightarrow> bt_insert k v m = bt_insert k v (bt_remove k m)"
proof (induction m)
  case (Cons x m)
  obtain a b where x: "x = (a, b)" by (cases x)
  have gt: "\<forall>y \<in> fst ` set m. a < y" using Cons.prems x by auto
  show ?case
  proof (cases "k \<le> a")
    case True
    have "\<forall>(c, d) \<in> set m. c \<noteq> k" using gt True by force
    then have "bt_remove k m = m" by (rule bt_remove_id)
    moreover have "bt_insert k v m = (k, v) # m" using gt True by (cases m) (auto split: prod.splits)
    ultimately show ?thesis using True x by (auto simp: bt_remove_def)
  next
    case False
    with Cons x show ?thesis by (simp add: bt_remove_def)
  qed
qed (simp add: bt_remove_def)

end
