(* ===== verification/Shm.thy ===== *)
theory Shm
  imports BTree
begin

text \<open>
  The shared window's allocator (\<open>device/src/shm.rs\<close>): page-protection zones with a first-fit,
  coalescing free list. The abstract view of a zone is the set of its free bytes; the interface
  \<open>extent_allocator\<close> states the contract on that set, and the zone interprets it.
\<close>

datatype pgprot = WriteBack | WriteCombine | Uncached

definition pgprot_from_u8 :: "nat \<Rightarrow> pgprot option" where
  "pgprot_from_u8 v =
     (if v = 0 then Some WriteBack else if v = 1 then Some WriteCombine
      else if v = 2 then Some Uncached else None)"

record shm_region =
  sr_offset :: nat
  sr_length :: nat
  sr_pgprot :: pgprot

record zone =
  z_base :: nat
  z_size :: nat
  z_free :: "(nat \<times> nat) list"

abbreviation (input) PAGE_SIZE :: nat where "PAGE_SIZE \<equiv> 4096"

text \<open>\<open>(v + align - 1) & !(align - 1)\<close> on \<open>u64\<close>, which wraps near the top in a release build.\<close>

definition align_up :: "nat \<Rightarrow> nat \<Rightarrow> nat" where
  "align_up v al =
     unat ((word_of_nat v + word_of_nat al - 1 :: 64 word) AND NOT (word_of_nat al - 1))"

definition wadd :: "nat \<Rightarrow> nat \<Rightarrow> nat" where
  "wadd a b = (a + b) mod 2 ^ 64"

definition zone_new :: "nat \<Rightarrow> nat \<Rightarrow> zone" where
  "zone_new base sz = \<lparr>z_base = base, z_size = sz, z_free = (if sz > 0 then [(0, sz)] else [])\<rparr>"

definition zone_alloc :: "zone \<Rightarrow> nat \<Rightarrow> (nat \<times> zone) option" where
  "zone_alloc z len =
     (let want = align_up len PAGE_SIZE in
      if want = 0 then None
      else case find (\<lambda>(_, l). l \<ge> want) (z_free z) of
        None \<Rightarrow> None
      | Some (start, l) \<Rightarrow>
          let free = bt_remove start (z_free z);
              free = (if l > want then bt_insert (wadd start want) (l - want) free else free)
          in Some (wadd (z_base z) start, z\<lparr>z_free := free\<rparr>))"

definition zone_free_extent :: "zone \<Rightarrow> nat \<Rightarrow> nat \<Rightarrow> bool \<times> zone" where
  "zone_free_extent z offset len =
     (let want = align_up len PAGE_SIZE in
      if want = 0 \<or> offset < z_base z then (False, z)
      else let start = offset - z_base z in
        if wadd start want > z_size z then (False, z)
        else if (case bt_last_le start (z_free z) of
                   Some (ps, pl) \<Rightarrow> wadd ps pl > start | None \<Rightarrow> False) then (False, z)
        else if (case bt_first_ge start (z_free z) of
                   Some (ns, _) \<Rightarrow> wadd start want > ns | None \<Rightarrow> False) then (False, z)
        else
          let (s, l, free) =
                (case bt_last_lt start (z_free z) of
                   Some (ps, pl) \<Rightarrow>
                     if wadd ps pl = start then (ps, wadd want pl, bt_remove ps (z_free z))
                     else (start, want, z_free z)
                 | None \<Rightarrow> (start, want, z_free z));
              (l, free) =
                (case bt_first_ge (wadd s l) free of
                   Some (ns, nl) \<Rightarrow>
                     if wadd s l = ns then (wadd l nl, bt_remove ns free) else (l, free)
                 | None \<Rightarrow> (l, free))
          in (True, z\<lparr>z_free := bt_insert s l free\<rparr>))"

definition zone_free_bytes :: "zone \<Rightarrow> nat" where
  "zone_free_bytes z = sum_list (map snd (z_free z))"

definition zone_largest_free :: "zone \<Rightarrow> nat" where
  "zone_largest_free z = foldl max 0 (map snd (z_free z))"

section \<open>Rounding\<close>

lemma unat_and_not_mask:
  "unat (w AND NOT (mask n) :: 64 word) = unat w div 2 ^ n * 2 ^ n"
proof -
  have "unat (w AND NOT (mask n)) = push_bit n (drop_bit n (unat w))"
    by (auto simp: bit_eq_iff bit_simps dest: bit_imp_le_length)
  then show ?thesis by (simp add: push_bit_eq_mult drop_bit_eq_div)
qed

lemma align_up_page:
  "align_up v PAGE_SIZE = (v + 4095) mod 2 ^ 64 div 4096 * 4096"
proof -
  have m: "(word_of_nat PAGE_SIZE - 1 :: 64 word) = mask 12" by (simp add: mask_eq_exp_minus_1)
  have s: "(word_of_nat v + word_of_nat PAGE_SIZE - 1 :: 64 word) = word_of_nat (v + 4095)" by simp
  show ?thesis
    unfolding align_up_def m s unat_and_not_mask unat_of_nat by simp
qed

lemma align_up_dvd: "4096 dvd align_up v PAGE_SIZE"
  by (simp add: align_up_page)

lemma align_up_less: "align_up v PAGE_SIZE < 2 ^ 64"
proof -
  have "(v + 4095) mod 2 ^ 64 div 4096 * 4096 \<le> (v + 4095) mod 2 ^ 64" by simp
  also have "\<dots> < 2 ^ 64" by simp
  finally show ?thesis by (simp add: align_up_page)
qed

lemma align_up_ge: "v + 4095 < 2 ^ 64 \<Longrightarrow> v \<le> align_up v PAGE_SIZE"
  by (simp add: align_up_page)

section \<open>The free list as a set of bytes\<close>

definition extent :: "nat \<Rightarrow> nat \<Rightarrow> nat set" where
  "extent k l = {k..<k + l}"

definition free_set :: "(nat \<times> nat) list \<Rightarrow> nat set" where
  "free_set xs = (\<Union>(k, l) \<in> set xs. extent k l)"

definition free_ok :: "nat \<Rightarrow> (nat \<times> nat) list \<Rightarrow> bool" where
  "free_ok sz xs \<longleftrightarrow>
     (\<forall>(k, l) \<in> set xs. 0 < l \<and> k + l \<le> sz \<and> 4096 dvd k \<and> 4096 dvd l) \<and>
     sorted_wrt (\<lambda>(k, l) (k', l'). k + l < k') xs"

lemma free_set_simps [simp]:
  "free_set [] = {}"
  "free_set ((k, l) # xs) = extent k l \<union> free_set xs"
  "free_set (xs @ ys) = free_set xs \<union> free_set ys"
  by (auto simp: free_set_def)

lemma in_extent [simp]: "x \<in> extent k l \<longleftrightarrow> k \<le> x \<and> x < k + l"
  by (simp add: extent_def)

lemma in_free_set: "x \<in> free_set xs \<longleftrightarrow> (\<exists>k l. (k, l) \<in> set xs \<and> k \<le> x \<and> x < k + l)"
  by (force simp: free_set_def)

lemma in_free_setI: "(k, l) \<in> set xs \<Longrightarrow> k \<le> x \<Longrightarrow> x < k + l \<Longrightarrow> x \<in> free_set xs"
  by (auto simp: in_free_set)

lemma free_ok_entry:
  "free_ok sz xs \<Longrightarrow> (k, l) \<in> set xs \<Longrightarrow> 0 < l \<and> k + l \<le> sz \<and> 4096 dvd k \<and> 4096 dvd l"
  by (auto simp: free_ok_def)

lemma free_ok_apart:
  "free_ok sz xs \<Longrightarrow> (k, l) \<in> set xs \<Longrightarrow> (k', l') \<in> set xs \<Longrightarrow> (k, l) \<noteq> (k', l') \<Longrightarrow>
   k + l < k' \<or> k' + l' < k"
  unfolding free_ok_def
  by (induction xs) auto

lemma free_ok_append:
  "free_ok sz (xs @ ys) \<longleftrightarrow> free_ok sz xs \<and> free_ok sz ys \<and>
     (\<forall>(k, l) \<in> set xs. \<forall>(k', l') \<in> set ys. k + l < k')"
  by (auto simp: free_ok_def sorted_wrt_append)

lemma free_ok_Cons:
  "free_ok sz ((k, l) # ys) \<longleftrightarrow> 0 < l \<and> k + l \<le> sz \<and> 4096 dvd k \<and> 4096 dvd l \<and> free_ok sz ys \<and>
     (\<forall>(k', l') \<in> set ys. k + l < k')"
  by (auto simp: free_ok_def)

lemma free_ok_Nil [simp]: "free_ok sz []"
  by (simp add: free_ok_def)

text \<open>Coalescing: a contiguous range of free bytes lies inside one entry.\<close>

lemma free_run_in_entry:
  assumes ok: "free_ok sz xs" and w: "0 < w" and sub: "extent a w \<subseteq> free_set xs"
  shows "\<exists>(k, l) \<in> set xs. k \<le> a \<and> a + w \<le> k + l"
proof -
  have "a \<in> free_set xs" using sub w by auto
  then obtain k l where kl: "(k, l) \<in> set xs" "k \<le> a" "a < k + l" by (auto simp: in_free_set)
  have "a + w \<le> k + l"
  proof (rule ccontr)
    assume n: "\<not> a + w \<le> k + l"
    with kl have "k + l \<in> extent a w" by simp
    with sub have "k + l \<in> free_set xs" by blast
    then obtain k' l' where kl': "(k', l') \<in> set xs" "k' \<le> k + l" "k + l < k' + l'"
      by (auto simp: in_free_set)
    with free_ok_apart [OF ok kl(1) kl'(1)] kl free_ok_entry [OF ok kl(1)] show False by auto
  qed
  with kl show ?thesis by auto
qed

text \<open>The entries are exactly the maximal free runs, so the list is determined by the set.\<close>

lemma entry_iff_maximal:
  assumes ok: "free_ok sz xs"
  shows "(k, l) \<in> set xs \<longleftrightarrow>
    0 < l \<and> extent k l \<subseteq> free_set xs \<and> k + l \<notin> free_set xs \<and> (k = 0 \<or> k - 1 \<notin> free_set xs)"
    (is "?L \<longleftrightarrow> ?R")
proof
  assume m: ?L
  have "0 < l" using free_ok_entry [OF ok m] by simp
  moreover have "extent k l \<subseteq> free_set xs" using m by (auto intro: in_free_setI)
  moreover have "k + l \<notin> free_set xs"
    using free_ok_apart [OF ok m] \<open>0 < l\<close> by (fastforce simp: in_free_set)
  moreover have "k = 0 \<or> k - 1 \<notin> free_set xs"
    using free_ok_apart [OF ok m] \<open>0 < l\<close> by (fastforce simp: in_free_set)
  ultimately show ?R by blast
next
  assume r: ?R
  then obtain k' l' where m: "(k', l') \<in> set xs" "k' \<le> k" "k + l \<le> k' + l'"
    using free_run_in_entry [OF ok, of l k] by auto
  have "k' = k"
  proof (rule ccontr)
    assume "k' \<noteq> k"
    with m(2) have "k \<noteq> 0" "k' \<le> k - 1" "k - 1 < k' + l'" using m(3) r by auto
    with m(1) have "k - 1 \<in> free_set xs" by (auto simp: in_free_set)
    with r \<open>k \<noteq> 0\<close> show False by simp
  qed
  moreover have "l' = l"
  proof (rule ccontr)
    assume "l' \<noteq> l"
    with m(3) \<open>k' = k\<close> have "k' \<le> k + l" "k + l < k' + l'" by auto
    with m(1) have "k + l \<in> free_set xs" by (auto simp: in_free_set)
    with r show False by simp
  qed
  ultimately show ?L using m by simp
qed

lemma free_ok_sorted: "free_ok sz xs \<Longrightarrow> bt_sorted xs"
  by (induction xs) (fastforce simp: free_ok_Cons)+

lemma free_list_canonical:
  assumes "free_ok sz xs" "free_ok sz' ys" "free_set xs = free_set ys"
  shows "xs = ys"
proof -
  have "set xs = set ys"
    using entry_iff_maximal [OF assms(1)] entry_iff_maximal [OF assms(2)] assms(3) by auto
  moreover have "bt_sorted xs" "bt_sorted ys" using assms free_ok_sorted by blast+
  then have "distinct (map fst xs)" "sorted (map fst xs)" "distinct (map fst ys)" "sorted (map fst ys)"
    by (auto simp: strict_sorted_iff)
  ultimately show ?thesis
    using map_sorted_distinct_set_unique [of fst xs ys]
    by (metis distinct_map inj_on_Un sup.idem)
qed

section \<open>Zone operations against the set of free bytes\<close>

definition zone_ok :: "zone \<Rightarrow> bool" where
  "zone_ok z \<longleftrightarrow> free_ok (z_size z) (z_free z) \<and> z_base z + z_size z < 2 ^ 64 \<and>
     4096 dvd z_base z \<and> 4096 dvd z_size z"

text \<open>The free bytes of a zone, as offsets from the window's start.\<close>

definition zone_avail :: "zone \<Rightarrow> nat set" where
  "zone_avail z = (+) (z_base z) ` free_set (z_free z)"

lemma extent_shift: "extent (b + a) w = (+) b ` extent a w"
  by (simp add: extent_def add.commute add.left_commute)

lemma zone_avail_extent: "extent (z_base z + a) w \<subseteq> zone_avail z \<longleftrightarrow> extent a w \<subseteq> free_set (z_free z)"
  unfolding zone_avail_def extent_shift by (rule inj_image_subset_iff) simp

lemma find_split:
  "find P xs = Some x \<longleftrightarrow> (\<exists>L R. xs = L @ x # R \<and> P x \<and> (\<forall>y \<in> set L. \<not> P y))"
proof (induction xs)
  case (Cons a xs)
  show ?case
  proof (cases "P a")
    case True
    then show ?thesis by (auto simp: Cons_eq_append_conv)
  next
    case False
    have "(\<exists>L R. a # xs = L @ x # R \<and> P x \<and> (\<forall>y \<in> set L. \<not> P y)) \<longleftrightarrow>
      (\<exists>L R. xs = L @ x # R \<and> P x \<and> (\<forall>y \<in> set L. \<not> P y))"
      using False by (auto simp: Cons_eq_append_conv) (metis set_ConsD)
    with False Cons show ?thesis by simp
  qed
qed simp

lemma zone_alloc_split:
  assumes ok: "zone_ok z" and r: "zone_alloc z len = Some (a, z')"
  obtains L R k l where "z_free z = L @ (k, l) # R" "align_up len PAGE_SIZE \<le> l"
    "a = z_base z + k" "0 < align_up len PAGE_SIZE"
    "z' = z\<lparr>z_free := L @ (if align_up len PAGE_SIZE < l
       then [(k + align_up len PAGE_SIZE, l - align_up len PAGE_SIZE)] else []) @ R\<rparr>"
proof -
  let ?w = "align_up len PAGE_SIZE"
  from r have w: "0 < ?w" by (auto simp: zone_alloc_def Let_def split: if_splits)
  obtain k l where f: "find (\<lambda>(_, l). l \<ge> ?w) (z_free z) = Some (k, l)"
    using r by (auto simp: zone_alloc_def Let_def split: if_splits option.splits)
  then obtain L R where s: "z_free z = L @ (k, l) # R" and l: "?w \<le> l"
    by (auto simp: find_split)
  have fo: "free_ok (z_size z) (L @ (k, l) # R)" and b: "z_base z + z_size z < 2 ^ 64"
    using ok s by (auto simp: zone_ok_def)
  have before: "\<forall>(a, b) \<in> set L. a < k" and after: "\<forall>(a, b) \<in> set R. k + l < a" and kl: "k + l \<le> z_size z"
    using fo by (fastforce simp: free_ok_append free_ok_Cons)+
  have rem: "bt_remove k (z_free z) = L @ R"
    unfolding s using before after by (intro bt_remove_split) auto
  have ins: "bt_insert (k + ?w) (l - ?w) (L @ R) = L @ (k + ?w, l - ?w) # R"
    using before after l by (intro bt_insert_split) fastforce+
  have wa: "wadd k ?w = k + ?w" "wadd (z_base z) k = z_base z + k"
    using b kl l by (simp_all add: wadd_def)
  have "a = z_base z + k \<and> z' = z\<lparr>z_free := L @ (if ?w < l then [(k + ?w, l - ?w)] else []) @ R\<rparr>"
    using r w by (auto simp: zone_alloc_def Let_def f rem ins wa)
  with s l w show thesis by (intro that) auto
qed

lemma zone_alloc_spec:
  assumes ok: "zone_ok z" and r: "zone_alloc z len = Some (a, z')"
  defines "w \<equiv> align_up len PAGE_SIZE"
  shows "0 < w" "extent a w \<subseteq> zone_avail z" "zone_avail z' = zone_avail z - extent a w"
    "zone_ok z'" "z_base z' = z_base z" "z_size z' = z_size z" "4096 dvd a"
proof -
  obtain L R k l where s: "z_free z = L @ (k, l) # R" "w \<le> l" "a = z_base z + k" "0 < w"
    "z' = z\<lparr>z_free := L @ (if w < l then [(k + w, l - w)] else []) @ R\<rparr>"
    using zone_alloc_split [OF ok r] unfolding w_def by metis
  show "0 < w" "z_base z' = z_base z" "z_size z' = z_size z" using s by auto
  have fo: "free_ok (z_size z) (L @ (k, l) # R)" using ok s by (auto simp: zone_ok_def)
  have "extent k w \<subseteq> free_set (z_free z)" using s by auto
  then show "extent a w \<subseteq> zone_avail z" using s by (simp add: zone_avail_extent)
  have before: "\<forall>(a, b) \<in> set L. a + b < k" and after: "\<forall>(a, b) \<in> set R. k + l < a"
    and kl: "k + l \<le> z_size z" and d: "4096 dvd k" "4096 dvd l"
    using fo by (fastforce simp: free_ok_append free_ok_Cons)+
  have sp: "free_set (if w < l then [(k + w, l - w)] else []) = extent (k + w) (l - w)"
    using s by auto
  have "free_set L \<inter> extent k w = {}" using before by (fastforce simp: in_free_set)
  moreover have "free_set R \<inter> extent k w = {}" using after s(2) by (fastforce simp: in_free_set)
  moreover have "extent k l = extent k w \<union> extent (k + w) (l - w)" "extent k w \<inter> extent (k + w) (l - w) = {}"
    using s(2) by auto
  ultimately have "free_set (z_free z') = free_set (z_free z) - extent k w"
    unfolding s(5) s(1) by (simp add: sp) blast
  moreover have "extent a w = (+) (z_base z) ` extent k w"
    by (simp add: s(3) extent_shift)
  ultimately show "zone_avail z' = zone_avail z - extent a w"
    using s(5) by (simp add: zone_avail_def image_set_diff [OF inj_on_add, symmetric])
  have "4096 dvd w" unfolding w_def by (rule align_up_dvd)
  then have "free_ok (z_size z) (L @ (if w < l then [(k + w, l - w)] else []) @ R)"
    using fo s(2,4) d kl
    by (auto simp: free_ok_append free_ok_Cons)
  then show "zone_ok z'" using ok s(5) by (simp add: zone_ok_def)
  show "4096 dvd a" using s(3) d ok by (simp add: zone_ok_def)
qed

text \<open>First fit fails only where no contiguous free range would hold the rounded length.\<close>

lemma zone_alloc_None:
  assumes ok: "zone_ok z" and w_def: "w = align_up len PAGE_SIZE"
  shows "zone_alloc z len = None \<longleftrightarrow> w = 0 \<or> (\<forall>a. \<not> extent (z_base z + a) w \<subseteq> zone_avail z)"
proof (cases "w = 0")
  case True
  then show ?thesis by (simp add: zone_alloc_def w_def Let_def)
next
  case False
  have fo: "free_ok (z_size z) (z_free z)" using ok by (simp add: zone_ok_def)
  have "zone_alloc z len = None \<longleftrightarrow> find (\<lambda>(_, l). l \<ge> w) (z_free z) = None"
    using False by (auto simp: zone_alloc_def w_def Let_def split: option.splits)
  also have "\<dots> \<longleftrightarrow> (\<forall>(k, l) \<in> set (z_free z). \<not> w \<le> l)"
    by (auto simp: find_None_iff)
  also have "\<dots> \<longleftrightarrow> (\<forall>a. \<not> extent a w \<subseteq> free_set (z_free z))"
  proof
    assume n: "\<forall>(k, l) \<in> set (z_free z). \<not> w \<le> l"
    show "\<forall>a. \<not> extent a w \<subseteq> free_set (z_free z)"
    proof (intro allI notI)
      fix a
      assume "extent a w \<subseteq> free_set (z_free z)"
      from free_run_in_entry [OF fo _ this] False obtain k l
        where "(k, l) \<in> set (z_free z)" "k \<le> a" "a + w \<le> k + l" by auto
      with n show False by fastforce
    qed
  next
    assume n: "\<forall>a. \<not> extent a w \<subseteq> free_set (z_free z)"
    show "\<forall>(k, l) \<in> set (z_free z). \<not> w \<le> l"
    proof (clarify, goal_cases)
      case (1 k l)
      then have "extent k w \<subseteq> free_set (z_free z)" by (auto intro: in_free_setI)
      with n show False by blast
    qed
  qed
  finally show ?thesis using False by (simp add: zone_avail_extent)
qed

text \<open>Giving a range back: the two overlap checks decide disjointness from the free set.\<close>

lemma split_at:
  assumes "free_ok sz xs"
  obtains L R where "xs = L @ R" "\<forall>(k, l) \<in> set L. k < a" "\<forall>(k, l) \<in> set R. a \<le> k"
proof
  let ?P = "\<lambda>(k, l). k < a"
  show "xs = takeWhile ?P xs @ dropWhile ?P xs" by simp
  show "\<forall>(k, l) \<in> set (takeWhile ?P xs). k < a" by (auto dest: set_takeWhileD)
  have "bt_sorted xs" using assms by (rule free_ok_sorted)
  then show "\<forall>(k, l) \<in> set (dropWhile ?P xs). a \<le> k"
  proof (induction xs)
    case (Cons x xs)
    then show ?case by (cases x; cases "fst x < a") fastforce+
  qed simp
qed

lemma free_ok_last:
  assumes "free_ok sz (L @ R)" "L \<noteq> []" "(k, l) \<in> set L" "x = fst (last L) + snd (last L)"
  shows "k + l \<le> x"
proof -
  obtain L' k' l' where L: "L = L' @ [(k', l')]" using assms(2) by (metis append_butlast_last_id surj_pair)
  with assms show ?thesis by (fastforce simp: free_ok_append free_ok_Cons)
qed

lemma zone_free_checks:
  assumes ok: "free_ok sz xs" and sz: "sz < 2 ^ 64" and w: "0 < w" and aw: "a + w < 2 ^ 64"
  shows "(case bt_last_le a xs of Some (ps, pl) \<Rightarrow> wadd ps pl > a | None \<Rightarrow> False) \<or>
         (case bt_first_ge a xs of Some (ns, _) \<Rightarrow> wadd a w > ns | None \<Rightarrow> False) \<longleftrightarrow>
         extent a w \<inter> free_set xs \<noteq> {}"
    (is "?C1 \<or> ?C2 \<longleftrightarrow> _")
proof -
  obtain L R where xs: "xs = L @ R" and L: "\<forall>(k, l) \<in> set L. k < a" and R: "\<forall>(k, l) \<in> set R. a \<le> k"
    using split_at [OF ok] .
  have wa: "wadd k l = k + l" if "(k, l) \<in> set xs" for k l
    using free_ok_entry [OF ok that] sz by (simp add: wadd_def)
  have fge: "bt_first_ge a xs = (case R of [] \<Rightarrow> None | x # xs \<Rightarrow> Some x)"
    unfolding xs using L R by (rule bt_first_ge_split)
  show ?thesis
  proof (cases "\<exists>l. (a, l) \<in> set R")
    case True
    then obtain l where l: "(a, l) \<in> set R" by blast
    then obtain y R' where R': "R = y # R'" by (cases R) auto
    have y: "y = (a, l)"
    proof (rule ccontr)
      assume "y \<noteq> (a, l)"
      with l R' have "fst y < a" using ok xs by (cases y) (fastforce simp: free_ok_append free_ok_Cons)
      with R R' show False by (cases y) auto
    qed
    have "\<forall>(k, l) \<in> set R'. a < k" using ok xs R' y by (fastforce simp: free_ok_append free_ok_Cons)
    then have "bt_last_le a ((L @ [(a, l)]) @ R') = Some (a, l)"
      using L by (subst bt_last_le_split) auto
    then have "?C1" using wa [of a l] l free_ok_entry [OF ok, of a l] by (auto simp: xs R' y)
    moreover have "a \<in> extent a w \<inter> free_set xs"
      using w in_free_setI [of a l R a] l free_ok_entry [OF ok, of a l] xs by auto
    ultimately show ?thesis by blast
  next
    case False
    with R have R2: "\<forall>(k, l) \<in> set R. a < k" by (fastforce simp: order_less_le)
    have "bt_last_le a xs = (if L = [] then None else Some (last L))"
      unfolding xs using L R2 by (intro bt_last_le_split) fastforce+
    then have c1: "?C1 \<longleftrightarrow> (\<exists>(k, l) \<in> set L. a < k + l)"
    proof (cases "L = []")
      case False
      obtain k l where kl: "last L = (k, l)" by (cases "last L")
      with False have "(k, l) \<in> set L" by (metis last_in_set)
      moreover have "\<forall>(k', l') \<in> set L. k' + l' \<le> k + l"
        using free_ok_last [of sz L R] ok xs False kl by auto
      ultimately show ?thesis
        using \<open>bt_last_le a xs = _\<close> False kl wa [of k l] xs by fastforce
    qed simp
    have c2: "?C2 \<longleftrightarrow> (\<exists>(k, l) \<in> set R. k < a + w)"
    proof (cases R)
      case (Cons y R')
      then show ?thesis using fge aw ok xs
        by (cases y) (fastforce simp: wadd_def free_ok_append free_ok_Cons)
    qed (simp add: fge)
    have "extent a w \<inter> free_set L \<noteq> {} \<longleftrightarrow> (\<exists>(k, l) \<in> set L. a < k + l)"
    proof
      assume "extent a w \<inter> free_set L \<noteq> {}"
      then show "\<exists>(k, l) \<in> set L. a < k + l" by (fastforce simp: in_free_set)
    next
      assume "\<exists>(k, l) \<in> set L. a < k + l"
      with L w have "a \<in> extent a w \<inter> free_set L" by (fastforce simp: in_free_set)
      then show "extent a w \<inter> free_set L \<noteq> {}" by blast
    qed
    moreover have "extent a w \<inter> free_set R \<noteq> {} \<longleftrightarrow> (\<exists>(k, l) \<in> set R. k < a + w)"
    proof
      assume "extent a w \<inter> free_set R \<noteq> {}"
      then show "\<exists>(k, l) \<in> set R. k < a + w" by (fastforce simp: in_free_set)
    next
      assume "\<exists>(k, l) \<in> set R. k < a + w"
      then obtain k l where kl: "(k, l) \<in> set R" "k < a + w" by blast
      with R2 have "a < k" by blast
      with kl free_ok_entry [OF ok, of k l] xs in_free_setI [of k l R k]
      have "k \<in> extent a w \<inter> free_set R" by auto
      then show "extent a w \<inter> free_set R \<noteq> {}" by blast
    qed
    moreover have "extent a w \<inter> free_set xs \<noteq> {} \<longleftrightarrow>
        extent a w \<inter> free_set L \<noteq> {} \<or> extent a w \<inter> free_set R \<noteq> {}" unfolding xs by auto
    ultimately show ?thesis using c1 c2 by blast
  qed
qed

text \<open>Merging with the left neighbour, then with the right one, keeps the list canonical.\<close>

lemma merge_left:
  assumes ok: "free_ok sz (L @ R)" and L: "\<forall>(k, l) \<in> set L. k < a" and R: "\<forall>(k, l) \<in> set R. a \<le> k"
    and sz: "sz < 2 ^ 64" and aw: "a + w \<le> sz" and al: "4096 dvd a" "4096 dvd w"
    and dj: "extent a w \<inter> free_set (L @ R) = {}" and w: "0 < w"
  shows "\<exists>L' s l. (case bt_last_lt a (L @ R) of
             Some (ps, pl) \<Rightarrow> if wadd ps pl = a then (ps, wadd w pl, bt_remove ps (L @ R)) else (a, w, L @ R)
           | None \<Rightarrow> (a, w, L @ R)) = (s, l, L' @ R) \<and>
         s + l = a + w \<and> s \<le> a \<and> 4096 dvd s \<and> 4096 dvd l \<and> free_ok sz (L' @ R) \<and>
         (\<forall>(k', l') \<in> set L'. k' + l' < s) \<and>
         free_set L' \<union> extent s l = free_set L \<union> extent a w"
proof (cases L rule: rev_cases)
  case Nil
  have "bt_last_lt a ([] @ R) = None" using R by (subst bt_last_lt_split) auto
  with Nil al ok show ?thesis by - (rule exI [of _ "[]"], rule exI [of _ a], rule exI [of _ w], simp)
next
  case (snoc L' y)
  obtain k l where y: "y = (k, l)" by (cases y)
  have last: "bt_last_lt a (L @ R) = Some (k, l)" using L R snoc y by (subst bt_last_lt_split) auto
  have e: "0 < l" "k + l \<le> sz" "4096 dvd k" "4096 dvd l" and L': "\<forall>(k', l') \<in> set L'. k' + l' < k"
    and Rk: "\<forall>(k', l') \<in> set R. k + l < k'" and ok': "free_ok sz (L' @ R)"
    using ok snoc y by (fastforce simp: free_ok_append free_ok_Cons)+
  have "a \<in> extent a w" using w by simp
  then have "a \<notin> free_set L" using dj unfolding free_set_simps by blast
  then have kla: "k + l \<le> a" using L snoc y in_free_setI [of k l L a] by fastforce
  have wk: "wadd k l = k + l" "wadd w l = w + l" using e(2) sz kla aw by (simp_all add: wadd_def)
  show ?thesis
  proof (cases "k + l = a")
    case True
    have "bt_remove k (L @ R) = L' @ R"
      unfolding snoc y append_assoc append_Cons append_Nil
      using L' Rk by (intro bt_remove_split) fastforce+
    with True e L' ok' snoc y show ?thesis
      using last al
      by - (rule exI [of _ L'], rule exI [of _ k], rule exI [of _ "w + l"], auto simp: wk)
  next
    case False
    with kla have "\<forall>(k', l') \<in> set L. k' + l' < a" using L' snoc y e by fastforce
    with False ok al show ?thesis
      by - (rule exI [of _ L], rule exI [of _ a], rule exI [of _ w], simp add: last wk)
  qed
qed

lemma merge_right:
  assumes ok: "free_ok sz (L @ R)" and L: "\<forall>(k', l') \<in> set L. k' + l' < s"
    and R: "\<forall>(k, l) \<in> set R. s + l0 \<le> k"
    and sz: "sz < 2 ^ 64" and sl: "s + l0 \<le> sz" and al: "4096 dvd s" "4096 dvd l0" and w: "0 < l0"
  shows "\<exists>R' l. (case bt_first_ge (wadd s l0) (L @ R) of
             Some (ns, nl) \<Rightarrow> if wadd s l0 = ns then (wadd l0 nl, bt_remove ns (L @ R)) else (l0, L @ R)
           | None \<Rightarrow> (l0, L @ R)) = (l, L @ R') \<and>
         bt_insert s l (L @ R') = L @ (s, l) # R' \<and> free_ok sz (L @ (s, l) # R') \<and>
         extent s l \<union> free_set R' = extent s l0 \<union> free_set R"
proof -
  have wsl: "wadd s l0 = s + l0" using sl sz by (simp add: wadd_def)
  have L2: "\<forall>(k', l') \<in> set L. k' < s + l0" using L by fastforce
  note fge = bt_first_ge_split [OF L2 R]
  show ?thesis
  proof (cases R)
    case Nil
    have "bt_insert s l0 (L @ []) = L @ [(s, l0)]" using L by (intro bt_insert_split) fastforce+
    with Nil fge ok L al sl w show ?thesis
      by - (rule exI [of _ "[]"], rule exI [of _ l0], auto simp: wsl free_ok_append free_ok_Cons)
  next
    case (Cons y R')
    obtain k l where y: "y = (k, l)" by (cases y)
    have e: "0 < l" "k + l \<le> sz" "4096 dvd k" "4096 dvd l" and R': "\<forall>(k', l') \<in> set R'. k + l < k'"
      and skl: "s + l0 \<le> k"
      and ok': "free_ok sz L" "free_ok sz R'"
      using ok Cons y R by (auto simp: free_ok_append free_ok_Cons)
    show ?thesis
    proof (cases "s + l0 = k")
      case True
      have rem: "bt_remove k (L @ R) = L @ R'"
        unfolding Cons y using L2 R' True by (intro bt_remove_split) fastforce+
      have ins: "bt_insert s (l0 + l) (L @ R') = L @ (s, l0 + l) # R'"
        using L R' True by (intro bt_insert_split) fastforce+
      have "wadd l0 l = l0 + l" using True e(2) sz by (simp add: wadd_def)
      moreover have "free_ok sz (L @ (s, l0 + l) # R')"
        using ok Cons True e R' L al ok' by (auto simp: free_ok_append free_ok_Cons)
      ultimately show ?thesis
        using True rem ins fge Cons y
        by - (rule exI [of _ R'], rule exI [of _ "l0 + l"], auto simp: wsl)
    next
      case False
      have "bt_insert s l0 (L @ R) = L @ (s, l0) # R"
        using L R w by (intro bt_insert_split) fastforce+
      moreover have "free_ok sz (L @ (s, l0) # R)"
        using ok Cons y False skl e R' L al sl w
        by (auto simp: free_ok_append free_ok_Cons)
      ultimately show ?thesis
        using False fge Cons y by - (rule exI [of _ R], rule exI [of _ l0], auto simp: wsl)
    qed
  qed
qed

lemma zone_free_accept:
  assumes ok: "zone_ok z" and w: "w = align_up len PAGE_SIZE" "0 < w" and a: "offset = z_base z + a"
    and aw: "a + w < 2 ^ 64"
  shows "fst (zone_free_extent z offset len) \<longleftrightarrow>
    a + w \<le> z_size z \<and> extent a w \<inter> free_set (z_free z) = {}"
proof -
  have sz: "z_size z < 2 ^ 64" and fo: "free_ok (z_size z) (z_free z)" using ok by (auto simp: zone_ok_def)
  have "wadd a w = a + w" using aw by (simp add: wadd_def)
  then have "fst (zone_free_extent z offset len) \<longleftrightarrow> \<not> a + w > z_size z \<and>
     \<not> ((case bt_last_le a (z_free z) of Some (ps, pl) \<Rightarrow> wadd ps pl > a | None \<Rightarrow> False) \<or>
        (case bt_first_ge a (z_free z) of Some (ns, _) \<Rightarrow> wadd a w > ns | None \<Rightarrow> False))"
    using w(2) by (simp add: zone_free_extent_def Let_def w(1) [symmetric] a case_prod_beta)
  then show ?thesis using zone_free_checks [OF fo sz w(2) aw] by (simp add: not_less)
qed

lemma zone_free_merge:
  assumes ok: "zone_ok z" and w: "w = align_up len PAGE_SIZE" "0 < w" and a: "offset = z_base z + a"
    and aw: "a + w \<le> z_size z" and dj: "extent a w \<inter> free_set (z_free z) = {}" and al: "4096 dvd a"
  obtains f where "zone_free_extent z offset len = (True, z\<lparr>z_free := f\<rparr>)" "free_ok (z_size z) f"
    "free_set f = free_set (z_free z) \<union> extent a w"
proof -
  have sz: "z_size z < 2 ^ 64" and fo: "free_ok (z_size z) (z_free z)" using ok by (auto simp: zone_ok_def)
  have aw': "a + w < 2 ^ 64" using aw sz by simp
  have wd: "4096 dvd w" using w(1) align_up_dvd by simp
  obtain L R where xs: "z_free z = L @ R" and L: "\<forall>(k, l) \<in> set L. k < a" and R: "\<forall>(k, l) \<in> set R. a \<le> k"
    using split_at [OF fo] .
  have Ra: "\<forall>(k, l) \<in> set R. a + w \<le> k"
  proof (clarify, rule ccontr)
    fix k l assume kl: "(k, l) \<in> set R" "\<not> a + w \<le> k"
    with R free_ok_entry [OF fo, of k l] xs in_free_setI [of k l "z_free z" k]
    have "k \<in> extent a w \<inter> free_set (z_free z)" by auto
    with dj show False by blast
  qed
  obtain L' s l where ml: "(case bt_last_lt a (L @ R) of
             Some (ps, pl) \<Rightarrow> if wadd ps pl = a then (ps, wadd w pl, bt_remove ps (L @ R)) else (a, w, L @ R)
           | None \<Rightarrow> (a, w, L @ R)) = (s, l, L' @ R)" "s + l = a + w" "s \<le> a" "4096 dvd s" "4096 dvd l"
      "free_ok (z_size z) (L' @ R)" "\<forall>(k', l') \<in> set L'. k' + l' < s"
      "free_set L' \<union> extent s l = free_set L \<union> extent a w"
    using merge_left [OF fo [unfolded xs] L R sz aw al wd dj [unfolded xs] w(2)]
    by (elim exE conjE)
  have Rs: "\<forall>(k, l') \<in> set R. s + l \<le> k" using Ra ml(2) by simp
  have l: "0 < l" "s + l \<le> z_size z" using ml(2,3) w(2) aw by auto
  obtain R' l2 where mr: "(case bt_first_ge (wadd s l) (L' @ R) of
             Some (ns, nl) \<Rightarrow> if wadd s l = ns then (wadd l nl, bt_remove ns (L' @ R)) else (l, L' @ R)
           | None \<Rightarrow> (l, L' @ R)) = (l2, L' @ R')" "bt_insert s l2 (L' @ R') = L' @ (s, l2) # R'"
      "free_ok (z_size z) (L' @ (s, l2) # R')" "extent s l2 \<union> free_set R' = extent s l \<union> free_set R"
    using merge_right [OF ml(6,7) Rs sz l(2) ml(4,5) l(1)] by (elim exE conjE)
  have acc: "\<not> wadd a w > z_size z"
    "\<not> (case bt_last_le a (L @ R) of Some (ps, pl) \<Rightarrow> wadd ps pl > a | None \<Rightarrow> False)"
    "\<not> (case bt_first_ge a (L @ R) of Some (ns, _) \<Rightarrow> wadd a w > ns | None \<Rightarrow> False)"
    using zone_free_checks [OF fo sz w(2) aw'] dj aw aw' by (auto simp: wadd_def xs)
  have "zone_free_extent z offset len = (True, z\<lparr>z_free := L' @ (s, l2) # R'\<rparr>)"
    using w(2) acc [folded xs]
    by (simp add: zone_free_extent_def Let_def w(1) [symmetric] a ml(1) [folded xs] mr(1,2))
  moreover have "free_set (L' @ (s, l2) # R') = free_set (z_free z) \<union> extent a w"
    using ml(8) mr(4) by (simp add: xs) blast
  ultimately show thesis using mr(3) by (intro that)
qed

lemma sorted_wrt_middle:
  "sorted_wrt P (xs @ x # ys) \<Longrightarrow> (\<And>y z. P y z \<Longrightarrow> P z y) \<Longrightarrow> \<forall>y \<in> set (xs @ ys). P x y"
  by (auto simp: sorted_wrt_append)

lemma disjoint_sub: "A \<subseteq> B \<Longrightarrow> B \<inter> C = {} \<Longrightarrow> A \<inter> C = {}"
  by blast

lemma UN_disjoint: "\<forall>y \<in> S. X \<inter> f y = {} \<Longrightarrow> (\<Union>y \<in> S. f y) \<inter> X = {}"
  by blast

lemma disjoint_move:
  "(E \<union> X) \<inter> A = {} \<Longrightarrow> (E \<union> X) \<union> A = U \<Longrightarrow> X \<inter> E = {} \<Longrightarrow> X \<inter> (A \<union> E) = {} \<and> X \<union> (A \<union> E) = U"
  by blast

section \<open>The contract of an extent allocator\<close>

text \<open>
  What a client of the window relies on, whatever the free list looks like: an allocation takes its
  range out of the available set, freeing a taken range inside the span puts it back, and freeing
  anything that overlaps the available set is refused with the state unchanged.
\<close>

locale extent_allocator =
  fixes alloc :: "'s \<Rightarrow> nat \<Rightarrow> (nat \<times> 's) option"
    and release :: "'s \<Rightarrow> nat \<Rightarrow> nat \<Rightarrow> bool \<times> 's"
    and avail :: "'s \<Rightarrow> nat set"
    and rnd :: "nat \<Rightarrow> nat"
    and good :: "'s \<Rightarrow> bool"
    and place :: "'s \<Rightarrow> nat \<Rightarrow> nat \<Rightarrow> bool"
  assumes alloc_good: "good s \<Longrightarrow> alloc s n = Some (a, s') \<Longrightarrow>
      good s' \<and> 0 < rnd n \<and> extent a (rnd n) \<subseteq> avail s \<and> avail s' = avail s - extent a (rnd n) \<and>
      place s a n \<and> place s' = place s"
    and release_taken: "good s \<Longrightarrow> place s a n \<Longrightarrow> extent a (rnd n) \<inter> avail s = {} \<Longrightarrow>
      release s a n = (True, s') \<Longrightarrow> good s' \<and> avail s' = avail s \<union> extent a (rnd n) \<and> place s' = place s"
    and release_ok: "good s \<Longrightarrow> place s a n \<Longrightarrow> extent a (rnd n) \<inter> avail s = {} \<Longrightarrow> fst (release s a n)"
    and release_free: "good s \<Longrightarrow> place s a n \<Longrightarrow> extent a (rnd n) \<inter> avail s \<noteq> {} \<Longrightarrow> release s a n = (False, s)"

text \<open>A client that allocates lengths and frees, by position, what it holds.\<close>

datatype extent_op = Take nat | Give nat

fun extent_run ::
  "('s \<Rightarrow> nat \<Rightarrow> (nat \<times> 's) option) \<Rightarrow> ('s \<Rightarrow> nat \<Rightarrow> nat \<Rightarrow> bool \<times> 's) \<Rightarrow>
   extent_op list \<Rightarrow> 's \<Rightarrow> (nat \<times> nat) list \<Rightarrow> 's \<times> (nat \<times> nat) list" where
  "extent_run al rel [] s held = (s, held)"
| "extent_run al rel (Take n # ops) s held =
     (case al s n of None \<Rightarrow> extent_run al rel ops s held
      | Some (a, s') \<Rightarrow> extent_run al rel ops s' ((a, n) # held))"
| "extent_run al rel (Give i # ops) s held =
     (if i < length held then
        (case rel s (fst (held ! i)) (snd (held ! i)) of (ok, s') \<Rightarrow>
           extent_run al rel ops s' (if ok then take i held @ drop (Suc i) held else held))
      else extent_run al rel ops s held)"

context extent_allocator
begin

definition holds :: "nat set \<Rightarrow> 's \<Rightarrow> (nat \<times> nat) list \<Rightarrow> bool" where
  "holds U s held \<longleftrightarrow> good s \<and> (\<forall>(a, n) \<in> set held. place s a n \<and> 0 < rnd n) \<and>
     sorted_wrt (\<lambda>x y. (\<lambda>(a, n). extent a (rnd n)) x \<inter> (\<lambda>(a, n). extent a (rnd n)) y = {}) held \<and>
     (\<Union>(a, n) \<in> set held. extent a (rnd n)) \<inter> avail s = {} \<and>
     (\<Union>(a, n) \<in> set held. extent a (rnd n)) \<union> avail s = U"

lemma holds_member:
  assumes h: "holds U s held" and m: "(a, n) \<in> set held"
  shows "extent a (rnd n) \<subseteq> U" "extent a (rnd n) \<inter> avail s = {}" "0 < rnd n"
proof -
  let ?H = "\<Union>(a, n) \<in> set held. extent a (rnd n)"
  have sub: "extent a (rnd n) \<subseteq> ?H" using m by auto
  have H: "?H \<inter> avail s = {}" "?H \<union> avail s = U" using h by (simp_all add: holds_def)
  show "extent a (rnd n) \<subseteq> U" using sub H(2) by (metis le_supI1)
  show "extent a (rnd n) \<inter> avail s = {}" using sub H(1) by (rule disjoint_sub)
  show "0 < rnd n" using h m unfolding holds_def by (elim conjE) fast
qed

lemma holds_take:
  assumes h: "holds U s held" and al: "alloc s n = Some (a, s')"
  shows "holds U s' ((a, n) # held)"
proof -
  have g: "good s" using h by (simp add: holds_def)
  from alloc_good [OF g al] have r: "good s'" "0 < rnd n" "extent a (rnd n) \<subseteq> avail s"
    "avail s' = avail s - extent a (rnd n)" "place s a n" "place s' = place s" by blast+
  let ?H = "\<Union>(a, n) \<in> set held. extent a (rnd n)"
  have H: "?H \<inter> avail s = {}" "?H \<union> avail s = U"
    "sorted_wrt (\<lambda>x y. (\<lambda>(a, n). extent a (rnd n)) x \<inter> (\<lambda>(a, n). extent a (rnd n)) y = {}) held"
    "\<forall>(a, n) \<in> set held. place s a n \<and> 0 < rnd n"
    using h by (auto simp: holds_def)
  have "\<forall>y \<in> set held. extent a (rnd n) \<inter> (\<lambda>(a, n). extent a (rnd n)) y = {}"
    using H(1) r(3) by blast
  moreover have "(extent a (rnd n) \<union> ?H) \<inter> avail s' = {}" "(extent a (rnd n) \<union> ?H) \<union> avail s' = U"
    using H(1,2) r(3,4) by blast+
  ultimately show ?thesis using r H(3,4) by (simp add: holds_def)
qed

lemma holds_give:
  assumes h: "holds U s held" and i: "i < length held"
  shows "\<exists>s'. release s (fst (held ! i)) (snd (held ! i)) = (True, s') \<and>
    holds U s' (take i held @ drop (Suc i) held)"
proof -
  let ?x = "held ! i"
  have split: "held = take i held @ ?x # drop (Suc i) held" using i by (rule id_take_nth_drop)
  have g: "good s" "place s (fst ?x) (snd ?x)"
    using h i nth_mem [OF i] by (auto simp: holds_def)
  have d: "extent (fst ?x) (rnd (snd ?x)) \<inter> avail s = {}"
    using h nth_mem [OF i] unfolding holds_def by (fastforce simp: case_prod_beta)
  obtain s' where s': "release s (fst ?x) (snd ?x) = (True, s')"
    using release_ok [OF g d] by (metis prod.collapse)
  have r: "good s'" "avail s' = avail s \<union> extent (fst ?x) (rnd (snd ?x))" "place s' = place s"
    using release_taken [OF g d s'] by blast+
  let ?J = "take i held @ drop (Suc i) held"
  let ?e = "\<lambda>(a, n). extent a (rnd n)"
  have un: "(\<Union>y \<in> set held. ?e y) = ?e ?x \<union> (\<Union>y \<in> set ?J. ?e y)"
    by (subst split) auto
  have so: "sorted_wrt (\<lambda>x y. ?e x \<inter> ?e y = {}) (take i held @ ?x # drop (Suc i) held)"
    using h unfolding holds_def split [symmetric] by blast
  then have so': "sorted_wrt (\<lambda>x y. ?e x \<inter> ?e y = {}) ?J" by (auto simp: sorted_wrt_append)
  have ap: "\<forall>y \<in> set ?J. ?e ?x \<inter> ?e y = {}"
    by (rule sorted_wrt_middle [OF so]) blast
  have "set ?J \<subseteq> set held" by (auto dest: in_set_takeD in_set_dropD)
  then have pl: "\<forall>(a, n) \<in> set ?J. place s' a n \<and> 0 < rnd n"
    using h r(3) by (auto simp: holds_def)
  have H: "(?e ?x \<union> (\<Union>y \<in> set ?J. ?e y)) \<inter> avail s = {}" "(?e ?x \<union> (\<Union>y \<in> set ?J. ?e y)) \<union> avail s = U"
    using h un by (auto simp: holds_def)
  have av: "avail s' = avail s \<union> ?e ?x" using r(2) by (simp add: case_prod_beta)
  have "(\<Union>y \<in> set ?J. ?e y) \<inter> avail s' = {}" "(\<Union>y \<in> set ?J. ?e y) \<union> avail s' = U"
    using disjoint_move [OF H UN_disjoint [OF ap]] unfolding av by (rule conjunct1, rule conjunct2)
  then have "holds U s' ?J" using r(1) so' pl unfolding holds_def by blast
  with s' show ?thesis by blast
qed

lemma holds_run: "holds U s held \<Longrightarrow> case extent_run alloc release ops s held of (s', held') \<Rightarrow> holds U s' held'"
proof (induction ops arbitrary: s held)
  case (Cons x ops)
  show ?case
  proof (cases x)
    case (Take n)
    show ?thesis
    proof (cases "alloc s n")
      case None
      with Take Cons show ?thesis by simp
    next
      case (Some r)
      then obtain a s' where "alloc s n = Some (a, s')" by (cases r) auto
      with Take Cons(1) [OF holds_take [OF Cons(2) this]] show ?thesis by simp
    qed
  next
    case (Give i)
    show ?thesis
    proof (cases "i < length held")
      case False
      with Give Cons show ?thesis by simp
    next
      case True
      then obtain s' where r: "release s (fst (held ! i)) (snd (held ! i)) = (True, s')"
        and h: "holds U s' (take i held @ drop (Suc i) held)"
        using holds_give [OF Cons(2)] by blast
      with Give True Cons(1) [OF h] show ?thesis by simp
    qed
  qed
qed simp

end

section \<open>The zone provides the contract\<close>

abbreviation page_up :: "nat \<Rightarrow> nat" where "page_up n \<equiv> align_up n PAGE_SIZE"

text \<open>A range the zone could have handed out: page aligned, inside the zone.\<close>

definition zone_place :: "zone \<Rightarrow> nat \<Rightarrow> nat \<Rightarrow> bool" where
  "zone_place z a n \<longleftrightarrow> z_base z \<le> a \<and> 4096 dvd a \<and> a + page_up n \<le> z_base z + z_size z"

lemma zone_avail_span: "zone_ok z \<Longrightarrow> zone_avail z \<subseteq> extent (z_base z) (z_size z)"
  by (fastforce simp: zone_ok_def zone_avail_def in_free_set dest: free_ok_entry)

lemma extent_subset: "0 < w \<Longrightarrow> extent a w \<subseteq> extent b n \<Longrightarrow> b \<le> a \<and> a + w \<le> b + n"
  by (auto simp: extent_def)

lemma zone_alloc_place:
  assumes ok: "zone_ok z" and r: "zone_alloc z n = Some (a, z')"
  shows "zone_place z a n"
  using zone_alloc_spec [OF ok r] zone_avail_span [OF ok] extent_subset [of "page_up n" a "z_base z" "z_size z"]
  by (auto simp: zone_place_def)

lemma zone_place_cong: "z_base z' = z_base z \<Longrightarrow> z_size z' = z_size z \<Longrightarrow> zone_place z' = zone_place z"
  by (simp add: zone_place_def fun_eq_iff)

lemma zone_free_zero: "page_up n = 0 \<Longrightarrow> zone_free_extent z a n = (False, z)"
  by (simp add: zone_free_extent_def)

lemma zone_avail_disjoint:
  "extent (z_base z + a) w \<inter> zone_avail z = {} \<longleftrightarrow> extent a w \<inter> free_set (z_free z) = {}"
proof -
  have "extent (z_base z + a) w \<inter> zone_avail z = (+) (z_base z) ` (extent a w \<inter> free_set (z_free z))"
    unfolding zone_avail_def extent_shift by (rule image_Int [symmetric]) simp
  then show ?thesis by simp
qed

lemma zone_free_rejects: "\<not> fst (zone_free_extent z a n) \<Longrightarrow> snd (zone_free_extent z a n) = z"
  by (auto simp: zone_free_extent_def Let_def split: if_splits prod.splits)

lemma zone_free_spec:
  assumes ok: "zone_ok z" and p: "zone_place z a n" and w: "0 < page_up n"
  shows "fst (zone_free_extent z a n) \<longleftrightarrow> extent a (page_up n) \<inter> zone_avail z = {}"
    and "zone_free_extent z a n = (True, z') \<Longrightarrow>
      zone_ok z' \<and> zone_avail z' = zone_avail z \<union> extent a (page_up n) \<and>
      z_base z' = z_base z \<and> z_size z' = z_size z"
proof -
  obtain d where d: "a = z_base z + d" using p by (auto simp: zone_place_def le_iff_add)
  have dw: "d + page_up n \<le> z_size z" and dd: "4096 dvd d" and b: "d + page_up n < 2 ^ 64"
    using p ok d by (auto simp: zone_place_def zone_ok_def dvd_add_right_iff)
  show acc: "fst (zone_free_extent z a n) \<longleftrightarrow> extent a (page_up n) \<inter> zone_avail z = {}"
    using zone_free_accept [OF ok refl w d b] dw d by (simp add: zone_avail_disjoint)
  assume r: "zone_free_extent z a n = (True, z')"
  with acc have dj: "extent d (page_up n) \<inter> free_set (z_free z) = {}"
    by (simp add: d zone_avail_disjoint)
  from zone_free_merge [OF ok refl w d dw dj dd] r obtain f where
    "z' = z\<lparr>z_free := f\<rparr>" "free_ok (z_size z) f" "free_set f = free_set (z_free z) \<union> extent d (page_up n)"
    by auto
  then show "zone_ok z' \<and> zone_avail z' = zone_avail z \<union> extent a (page_up n) \<and>
      z_base z' = z_base z \<and> z_size z' = z_size z"
    using ok by (simp add: zone_ok_def zone_avail_def d extent_shift image_Un)
qed

interpretation zn: extent_allocator zone_alloc zone_free_extent zone_avail page_up zone_ok
    "\<lambda>z a n. zone_place z a n \<and> 0 < page_up n"
proof (unfold_locales, goal_cases)
  case (1 s n a s')
  then show ?case
    using zone_alloc_spec [OF 1] zone_alloc_place [OF 1] zone_place_cong [of s' s] by (simp add: fun_eq_iff)
next
  case (2 s a n s')
  then show ?case
    using zone_free_spec(2) [of s a n s'] zone_place_cong [of s' s] by (simp add: fun_eq_iff)
next
  case (3 s a n)
  then show ?case using zone_free_spec(1) [of s a n] by simp
next
  case (4 s a n)
  then have "\<not> fst (zone_free_extent s a n)" using zone_free_spec(1) [of s a n] by simp
  then show ?case using zone_free_rejects by (metis prod.collapse)
qed

lemma zone_new_ok:
  "base + sz < 2 ^ 64 \<Longrightarrow> 4096 dvd base \<Longrightarrow> 4096 dvd sz \<Longrightarrow> zone_ok (zone_new base sz)"
  by (simp add: zone_ok_def zone_new_def free_ok_Cons)

lemma zone_new_avail: "zone_avail (zone_new base sz) = extent base sz"
  using extent_shift [of base 0 sz] by (auto simp: zone_avail_def zone_new_def)

text \<open>The free list is determined by the set of free bytes, so freeing is the inverse of allocating.\<close>

lemma zone_eqI:
  assumes "zone_ok z" "zone_ok z'" "z_base z = z_base z'" "z_size z = z_size z'" "zone_avail z = zone_avail z'"
  shows "z = (z' :: zone)"
proof -
  have "free_set (z_free z) = free_set (z_free z')"
    using assms(3,5) inj_image_eq_iff [of "(+) (z_base z)"] by (simp add: zone_avail_def)
  then have "z_free z = z_free z'" using free_list_canonical assms(1,2) by (auto simp: zone_ok_def)
  with assms(3,4) show ?thesis by simp
qed

end
