(* ===== verification/ShmWindow.thy ===== *)
theory ShmWindow
  imports Shm
begin

text \<open>
  \<open>ShmAllocator\<close> (\<open>device/src/shm.rs\<close>): the three zones of the shared window and, for each byte of
  it, what backs the byte. \<open>None\<close> is the window's own memory (the memfd), \<open>Some fd\<close> a host
  descriptor mapped over it. Whether an \<open>mmap\<close> of the host succeeds is an argument. The zones are the
  state the \<open>extent_allocator\<close> contract is interpreted on, and its client lemmas give the whole
  window's properties.
\<close>

record zone_config =
  zc_uc :: nat
  zc_wc :: nat
  zc_wb :: nat

record shm_allocator =
  sa_uc :: zone
  sa_wc :: zone
  sa_wb :: zone
  sa_over :: "nat \<Rightarrow> nat option"
  sa_total :: nat

definition default_1gib :: zone_config where
  "default_1gib = \<lparr>zc_uc = 32 * 1024 * 1024, zc_wc = 768 * 1024 * 1024, zc_wb = 224 * 1024 * 1024\<rparr>"

definition default_256mib :: zone_config where
  "default_256mib = \<lparr>zc_uc = 4 * 1024 * 1024, zc_wc = 128 * 1024 * 1024, zc_wb = 124 * 1024 * 1024\<rparr>"

definition zc_total :: "zone_config \<Rightarrow> nat" where
  "zc_total cfg = zc_uc cfg + zc_wc cfg + zc_wb cfg"

text \<open>\<open>None\<close> where one of the assertions fails.\<close>

definition shm_new :: "zone_config \<Rightarrow> shm_allocator option" where
  "shm_new cfg =
     (if zc_uc cfg mod 4096 \<noteq> 0 \<or> zc_wc cfg mod 4096 \<noteq> 0 \<or> zc_wb cfg mod 4096 \<noteq> 0 \<or> zc_total cfg = 0
      then None
      else Some \<lparr>sa_uc = zone_new 0 (zc_uc cfg), sa_wc = zone_new (zc_uc cfg) (zc_wc cfg),
                 sa_wb = zone_new (zc_uc cfg + zc_wc cfg) (zc_wb cfg),
                 sa_over = (\<lambda>_. None), sa_total = zc_total cfg\<rparr>)"

definition shm_zone :: "shm_allocator \<Rightarrow> pgprot \<Rightarrow> zone" where
  "shm_zone sa p = (case p of Uncached \<Rightarrow> sa_uc sa | WriteCombine \<Rightarrow> sa_wc sa | WriteBack \<Rightarrow> sa_wb sa)"

definition shm_set_zone :: "shm_allocator \<Rightarrow> pgprot \<Rightarrow> zone \<Rightarrow> shm_allocator" where
  "shm_set_zone sa p z =
     (case p of Uncached \<Rightarrow> sa\<lparr>sa_uc := z\<rparr> | WriteCombine \<Rightarrow> sa\<lparr>sa_wc := z\<rparr> | WriteBack \<Rightarrow> sa\<lparr>sa_wb := z\<rparr>)"

definition shm_alloc :: "shm_allocator \<Rightarrow> nat \<Rightarrow> pgprot \<Rightarrow> (shm_region \<times> shm_allocator) option" where
  "shm_alloc sa len p =
     (case zone_alloc (shm_zone sa p) len of
        Some (offset, z) \<Rightarrow>
          Some (\<lparr>sr_offset = offset, sr_length = len, sr_pgprot = p\<rparr>, shm_set_zone sa p z)
      | None \<Rightarrow> None)"

definition shm_map_host_fd :: "shm_allocator \<Rightarrow> nat \<Rightarrow> nat \<Rightarrow> nat \<Rightarrow> bool \<Rightarrow> bool \<times> shm_allocator" where
  "shm_map_host_fd sa offset len fd mapped =
     (if mapped then (True, sa\<lparr>sa_over := (\<lambda>x. if offset \<le> x \<and> x < offset + len then Some fd else sa_over sa x)\<rparr>)
      else (False, sa))"

definition shm_unmap_host_fd :: "shm_allocator \<Rightarrow> nat \<Rightarrow> nat \<Rightarrow> bool \<Rightarrow> bool \<times> shm_allocator" where
  "shm_unmap_host_fd sa offset len mapped =
     (if mapped then (True, sa\<lparr>sa_over := (\<lambda>x. if offset \<le> x \<and> x < offset + len then None else sa_over sa x)\<rparr>)
      else (False, sa))"

definition shm_free :: "shm_allocator \<Rightarrow> shm_region \<Rightarrow> bool \<Rightarrow> bool \<times> shm_allocator" where
  "shm_free sa r mapped =
     (let len = align_up (sr_length r) PAGE_SIZE in
      case shm_unmap_host_fd sa (sr_offset r) len mapped of
        (False, sa) \<Rightarrow> (False, sa)
      | (True, sa) \<Rightarrow>
          (case zone_free_extent (shm_zone sa (sr_pgprot r)) (sr_offset r) len of
             (ok, z) \<Rightarrow> (ok, shm_set_zone sa (sr_pgprot r) z)))"

definition shm_free_bytes :: "shm_allocator \<Rightarrow> nat \<times> nat \<times> nat" where
  "shm_free_bytes sa = (zone_free_bytes (sa_uc sa), zone_free_bytes (sa_wc sa), zone_free_bytes (sa_wb sa))"

definition shm_largest_free :: "shm_allocator \<Rightarrow> nat \<times> nat \<times> nat" where
  "shm_largest_free sa = (zone_largest_free (sa_uc sa), zone_largest_free (sa_wc sa), zone_largest_free (sa_wb sa))"

text \<open>The window's user: allocations, mappings over what it holds, and frees, one after another.\<close>

datatype shm_op = SAlloc nat pgprot | SMap nat nat bool | SFree nat bool

fun shm_step :: "shm_op \<Rightarrow> shm_allocator \<times> shm_region list \<Rightarrow> shm_allocator \<times> shm_region list" where
  "shm_step (SAlloc len p) (sa, held) =
     (case shm_alloc sa len p of None \<Rightarrow> (sa, held) | Some (r, sa') \<Rightarrow> (sa', r # held))"
| "shm_step (SMap i fd mapped) (sa, held) =
     (if i < length held then
        (snd (shm_map_host_fd sa (sr_offset (held ! i)) (sr_length (held ! i)) fd mapped), held)
      else (sa, held))"
| "shm_step (SFree i mapped) (sa, held) =
     (if i < length held then
        (case shm_free sa (held ! i) mapped of
           (True, sa') \<Rightarrow> (sa', take i held @ drop (Suc i) held)
         | (False, sa') \<Rightarrow> (sa', held))
      else (sa, held))"

section \<open>One zone at a time\<close>

lemma shm_zone_set [simp]: "shm_zone (shm_set_zone sa p z) q = (if q = p then z else shm_zone sa q)"
  by (cases p; cases q) (auto simp: shm_zone_def shm_set_zone_def)

lemma shm_zone_over [simp]: "shm_zone (sa\<lparr>sa_over := f\<rparr>) p = shm_zone sa p"
  by (cases p) (auto simp: shm_zone_def)

lemma sa_over_set_zone [simp]: "sa_over (shm_set_zone sa p z) = sa_over sa"
  by (cases p) (auto simp: shm_set_zone_def)

lemma page_up_page_up [simp]: "page_up (page_up n) = page_up n"
proof -
  obtain k where k: "page_up n = 4096 * k" using align_up_dvd [of n] by (auto elim: dvdE)
  have "4096 * k < 2 ^ 64" using align_up_less [of n] k by simp
  then have "(4096 * k + 4095) mod 2 ^ 64 = 4096 * k + 4095" by simp
  then have "page_up (4096 * k) = 4096 * k" unfolding align_up_page by simp
  then show ?thesis by (simp add: k)
qed

lemma zone_free_page_up: "zone_free_extent z a (page_up n) = zone_free_extent z a n"
  by (simp add: zone_free_extent_def)

definition held_in :: "shm_region list \<Rightarrow> pgprot \<Rightarrow> (nat \<times> nat) list" where
  "held_in held p = map (\<lambda>r. (sr_offset r, sr_length r)) (filter (\<lambda>r. sr_pgprot r = p) held)"

text \<open>Each zone, with the held regions of its protection, satisfies the contract's invariant.\<close>

definition shm_inv :: "(pgprot \<Rightarrow> nat set) \<Rightarrow> shm_allocator \<times> shm_region list \<Rightarrow> bool" where
  "shm_inv U s = (\<forall>p. zn.holds (U p) (shm_zone (fst s) p) (held_in (snd s) p))"

lemma held_in_nth:
  assumes "i < length held" "sr_pgprot (held ! i) = p"
  obtains j where "j < length (held_in held p)"
    "held_in held p ! j = (sr_offset (held ! i), sr_length (held ! i))"
    "held_in (take i held @ drop (Suc i) held) p =
     take j (held_in held p) @ drop (Suc j) (held_in held p)"
proof
  have s: "held = take i held @ held ! i # drop (Suc i) held" using assms(1) by (rule id_take_nth_drop)
  let ?f = "\<lambda>xs. held_in xs p" and ?j = "length (held_in (take i held) p)"
  have h: "?f held = ?f (take i held) @ (sr_offset (held ! i), sr_length (held ! i)) # ?f (drop (Suc i) held)"
    by (subst s) (simp add: held_in_def assms(2))
  show "?j < length (?f held)" "?f held ! ?j = (sr_offset (held ! i), sr_length (held ! i))"
    "?f (take i held @ drop (Suc i) held) = take ?j (?f held) @ drop (Suc ?j) (?f held)"
    unfolding h by (simp_all add: nth_append) (simp add: held_in_def)
qed

lemma held_in_other:
  assumes "i < length held" "sr_pgprot (held ! i) \<noteq> p"
  shows "held_in (take i held @ drop (Suc i) held) p = held_in held p"
proof -
  have s: "held = take i held @ held ! i # drop (Suc i) held" using assms(1) by (rule id_take_nth_drop)
  have "held_in held p = held_in (take i held @ held ! i # drop (Suc i) held) p" using s by simp
  then show ?thesis using assms(2) by (simp add: held_in_def)
qed

lemma shm_inv_step:
  assumes "shm_inv U s"
  shows "shm_inv U (shm_step op s)"
proof -
  obtain sa held where s: "s = (sa, held)" by (cases s)
  have inv: "zn.holds (U p) (shm_zone sa p) (held_in held p)" for p
    using assms by (simp add: shm_inv_def s)
  show ?thesis
  proof (cases op)
    case (SAlloc n p)
    show ?thesis
    proof (cases "zone_alloc (shm_zone sa p) n")
      case None
      with SAlloc assms show ?thesis by (simp add: s shm_alloc_def)
    next
      case (Some r)
      then obtain a z where al: "zone_alloc (shm_zone sa p) n = Some (a, z)" by (cases r) auto
      from zn.holds_take [OF inv al] inv SAlloc al show ?thesis
        by (auto simp: s shm_alloc_def shm_inv_def held_in_def)
    qed
  next
    case (SMap i fd m)
    with assms show ?thesis by (auto simp: s shm_map_host_fd_def shm_inv_def)
  next
    case (SFree i m)
    show ?thesis
    proof (cases "i < length held \<and> m")
      case True
      define p where "p = sr_pgprot (held ! i)"
      obtain j where j: "j < length (held_in held p)"
        "held_in held p ! j = (sr_offset (held ! i), sr_length (held ! i))"
        "held_in (take i held @ drop (Suc i) held) p = take j (held_in held p) @ drop (Suc j) (held_in held p)"
        using held_in_nth [of i held p] True p_def by metis
      from zn.holds_give [OF inv j(1)] obtain z where
        z: "zone_free_extent (shm_zone sa p) (sr_offset (held ! i)) (sr_length (held ! i)) = (True, z)"
        "zn.holds (U p) z (held_in (take i held @ drop (Suc i) held) p)"
        by (auto simp: j)
      have "held_in (take i held @ drop (Suc i) held) q = held_in held q" if "q \<noteq> p" for q
        using held_in_other [of i held q] True that p_def by auto
      with True z inv SFree show ?thesis
        by (auto simp: s shm_free_def shm_unmap_host_fd_def shm_inv_def Let_def zone_free_page_up p_def [symmetric])
    next
      case False
      with SFree assms show ?thesis
        by (auto simp: s shm_free_def shm_unmap_host_fd_def)
    qed
  qed
qed

lemma shm_inv_run: "shm_inv U s \<Longrightarrow> shm_inv U (fold shm_step ops s)"
proof (induction ops arbitrary: s)
  case (Cons x ops)
  then show ?case using shm_inv_step [OF Cons(2), of x] by simp
qed simp

definition zone_span :: "zone_config \<Rightarrow> pgprot \<Rightarrow> nat set" where
  "zone_span cfg p =
     (case p of Uncached \<Rightarrow> extent 0 (zc_uc cfg) | WriteCombine \<Rightarrow> extent (zc_uc cfg) (zc_wc cfg)
      | WriteBack \<Rightarrow> extent (zc_uc cfg + zc_wc cfg) (zc_wb cfg))"

lemma shm_inv_new:
  assumes "shm_new cfg = Some sa" "zc_total cfg < 2 ^ 64"
  shows "shm_inv (zone_span cfg) (sa, [])"
proof -
  have "zn.holds (extent b n) (zone_new b n) []" if "b + n < 2 ^ 64" "4096 dvd b" "4096 dvd n" for b n
    using zone_new_ok [OF that] by (simp add: zn.holds_def zone_new_avail)
  with assms show ?thesis
    unfolding shm_inv_def
    by (auto simp: shm_new_def shm_zone_def zone_span_def held_in_def zc_total_def mod_eq_0_iff_dvd
        split: if_splits pgprot.splits)
qed

section \<open>The whole window\<close>

definition region_set :: "shm_region \<Rightarrow> nat set" where
  "region_set r = extent (sr_offset r) (page_up (sr_length r))"

lemma zone_span_disjoint: "p \<noteq> q \<Longrightarrow> zone_span cfg p \<inter> zone_span cfg q = {}"
  by (cases p; cases q) (auto simp: zone_span_def)

lemma held_in_UN: "(\<Union>(a, n) \<in> set (held_in held p). extent a (page_up n)) = (\<Union>r \<in> {r \<in> set held. sr_pgprot r = p}. region_set r)"
  by (auto simp: held_in_def region_set_def)

lemma shm_inv_region:
  assumes inv: "shm_inv U (sa, held)" and r: "r \<in> set held"
  shows "region_set r \<subseteq> U (sr_pgprot r)" "region_set r \<inter> zone_avail (shm_zone sa (sr_pgprot r)) = {}"
    "0 < page_up (sr_length r)"
proof -
  have h: "zn.holds (U (sr_pgprot r)) (shm_zone sa (sr_pgprot r)) (held_in held (sr_pgprot r))"
    using inv by (simp add: shm_inv_def)
  have m: "(sr_offset r, sr_length r) \<in> set (held_in held (sr_pgprot r))"
    using r by (auto simp: held_in_def)
  show "region_set r \<subseteq> U (sr_pgprot r)" "region_set r \<inter> zone_avail (shm_zone sa (sr_pgprot r)) = {}"
    "0 < page_up (sr_length r)"
    using zn.holds_member [OF h m] unfolding region_set_def .
qed

lemma shm_inv_apart:
  assumes inv: "shm_inv (zone_span cfg) (sa, held)" and ij: "i < j" "j < length held"
  shows "region_set (held ! i) \<inter> region_set (held ! j) = {}"
proof (cases "sr_pgprot (held ! i) = sr_pgprot (held ! j)")
  case False
  have "region_set (held ! i) \<subseteq> zone_span cfg (sr_pgprot (held ! i))"
    "region_set (held ! j) \<subseteq> zone_span cfg (sr_pgprot (held ! j))"
    using shm_inv_region(1) [OF inv] ij by simp_all
  with zone_span_disjoint [OF False, of cfg] show ?thesis by blast
next
  case True
  define p where "p = sr_pgprot (held ! i)"
  let ?P = "\<lambda>x y. (\<lambda>(a, n). extent a (page_up n)) x \<inter> (\<lambda>(a, n). extent a (page_up n)) y = {}"
  have h: "sorted_wrt ?P (held_in held p)"
    using inv by (simp add: shm_inv_def zn.holds_def)
  have s: "held = take i held @ held ! i # drop (Suc i) held" using ij by (intro id_take_nth_drop) simp
  have "held_in held p = held_in (take i held) p @ (sr_offset (held ! i), sr_length (held ! i)) # held_in (drop (Suc i) held) p"
    using arg_cong [OF s, of "\<lambda>xs. held_in xs p"] unfolding held_in_def p_def by simp
  with h have "\<forall>y \<in> set (held_in (drop (Suc i) held) p). ?P (sr_offset (held ! i), sr_length (held ! i)) y"
    by (simp add: sorted_wrt_append)
  moreover have "held ! j \<in> set (drop (Suc i) held)"
    using ij by (auto simp: in_set_conv_nth intro!: exI [of _ "j - Suc i"])
  then have "(sr_offset (held ! j), sr_length (held ! j)) \<in> set (held_in (drop (Suc i) held) p)"
    using True by (auto simp: held_in_def p_def)
  ultimately show ?thesis unfolding region_set_def by fastforce
qed

text \<open>Which bytes a host descriptor backs: only bytes of held regions.\<close>

definition over_inv :: "shm_allocator \<times> shm_region list \<Rightarrow> bool" where
  "over_inv s = (\<forall>x. sa_over (fst s) x \<noteq> None \<longrightarrow> (\<exists>r \<in> set (snd s). x \<in> region_set r))"

lemma len_le_page_up: "0 < page_up n \<Longrightarrow> n < 2 ^ 64 \<Longrightarrow> n \<le> page_up n"
proof -
  assume p: "0 < page_up n" and n: "n < 2 ^ 64"
  have "n + 4095 < 2 ^ 64"
  proof (rule ccontr)
    assume "\<not> n + 4095 < 2 ^ 64"
    then have "(n + 4095) mod 2 ^ 64 = n + 4095 - 2 ^ 64" using n by (simp add: le_mod_geq)
    with n \<open>\<not> n + 4095 < 2 ^ 64\<close> have "page_up n = 0" unfolding align_up_page by simp
    with p show False by simp
  qed
  then show "n \<le> page_up n" by (rule align_up_ge)
qed

lemma over_inv_step:
  assumes inv: "shm_inv U (sa, held)" and ov: "over_inv (sa, held)"
    and len: "\<forall>r \<in> set held. sr_length r < 2 ^ 64"
  shows "over_inv (shm_step op (sa, held))"
proof (cases op)
  case (SAlloc n p)
  then show ?thesis using ov by (auto simp: over_inv_def shm_alloc_def split: option.splits)
next
  case (SMap i fd m)
  show ?thesis
  proof (cases "i < length held")
    case True
    then have r: "held ! i \<in> set held" by simp
    have "sr_length (held ! i) \<le> page_up (sr_length (held ! i))"
      using len_le_page_up shm_inv_region(3) [OF inv r] len r by blast
    then have "\<forall>x. sr_offset (held ! i) \<le> x \<and> x < sr_offset (held ! i) + sr_length (held ! i) \<longrightarrow> x \<in> region_set (held ! i)"
      by (auto simp: region_set_def)
    with r ov SMap True show ?thesis by (auto simp: over_inv_def shm_map_host_fd_def)
  qed (use SMap ov in simp)
next
  case (SFree i m)
  show ?thesis
  proof (cases "i < length held \<and> m")
    case True
    have s: "set held = insert (held ! i) (set (take i held @ drop (Suc i) held))"
      using id_take_nth_drop [of i held] True by (metis Un_insert_right list.simps(15) set_append)
    show ?thesis
    proof (cases "fst (shm_free sa (held ! i) m)")
      case ok: True
      have over: "sa_over (snd (shm_free sa (held ! i) m)) x = (if x \<in> region_set (held ! i) then None else sa_over sa x)" for x
        using True by (auto simp: shm_free_def shm_unmap_host_fd_def Let_def region_set_def split: prod.splits)
      have "\<exists>r \<in> set (take i held @ drop (Suc i) held). x \<in> region_set r"
        if "sa_over (snd (shm_free sa (held ! i) m)) x \<noteq> None" for x
        using that ov s over [of x] by (auto simp: over_inv_def split: if_splits)
      with ok True SFree show ?thesis
        by (cases "shm_free sa (held ! i) m") (auto simp: over_inv_def)
    next
      case False
      have "\<exists>r \<in> set held. x \<in> region_set r"
        if "sa_over (snd (shm_free sa (held ! i) m)) x \<noteq> None" for x
        using that ov True
        by (auto simp: over_inv_def shm_free_def shm_unmap_host_fd_def Let_def region_set_def
            split: prod.splits if_splits)
      with False True SFree show ?thesis
        by (cases "shm_free sa (held ! i) m") (auto simp: over_inv_def)
    qed
  next
    case False
    with SFree ov show ?thesis
      by (auto simp: over_inv_def shm_free_def shm_unmap_host_fd_def)
  qed
qed

lemma shm_step_lens:
  assumes "\<forall>n p. op = SAlloc n p \<longrightarrow> n < 2 ^ 64" "\<forall>r \<in> set (snd s). sr_length r < 2 ^ 64"
  shows "\<forall>r \<in> set (snd (shm_step op s)). sr_length r < 2 ^ 64"
proof -
  obtain sa held where s: "s = (sa, held)" by (cases s)
  have "set (take i held @ drop (Suc i) held) \<subseteq> set held" for i
    by (auto dest: in_set_takeD in_set_dropD)
  then show ?thesis
    using assms by (cases op) (auto simp: s shm_alloc_def split: option.splits prod.splits bool.splits)
qed

definition sizes_ok :: "shm_op list \<Rightarrow> bool" where
  "sizes_ok ops = (\<forall>n p. SAlloc n p \<in> set ops \<longrightarrow> n < 2 ^ 64)"

lemma over_inv_run:
  assumes "shm_inv U s" "over_inv s" "\<forall>r \<in> set (snd s). sr_length r < 2 ^ 64" "sizes_ok ops"
  shows "over_inv (fold shm_step ops s)"
  using assms
proof (induction ops arbitrary: s)
  case (Cons op ops)
  obtain sa held where s: "s = (sa, held)" by (cases s)
  have "over_inv (shm_step op s)" using over_inv_step [of U sa held op] Cons(2,3,4) by (simp add: s)
  moreover have "\<forall>r \<in> set (snd (shm_step op s)). sr_length r < 2 ^ 64"
    using Cons(4,5) by (intro shm_step_lens) (auto simp: sizes_ok_def)
  moreover have "sizes_ok ops" using Cons(5) by (auto simp: sizes_ok_def)
  ultimately show ?case
    using Cons(1) [OF shm_inv_step [OF Cons(2)]] by simp
qed simp

lemma zone_fixed:
  "zone_alloc z n = Some (a, z') \<Longrightarrow> z_base z' = z_base z \<and> z_size z' = z_size z"
  "zone_free_extent z a n = (ok, z'') \<Longrightarrow> z_base z'' = z_base z \<and> z_size z'' = z_size z"
  by (auto simp: zone_alloc_def zone_free_extent_def Let_def split: option.splits if_splits prod.splits)

lemma shm_step_fixed:
  "z_base (shm_zone (fst (shm_step op s)) p) = z_base (shm_zone (fst s) p) \<and>
   z_size (shm_zone (fst (shm_step op s)) p) = z_size (shm_zone (fst s) p)"
proof -
  obtain sa held where s: "s = (sa, held)" by (cases s)
  have f: "z_base (snd (zone_free_extent z a n)) = z_base z" "z_size (snd (zone_free_extent z a n)) = z_size z" for z a n
    using zone_fixed(2) [of z a n] by (metis prod.collapse)+
  show ?thesis
  proof (cases op)
    case (SAlloc n q)
    show ?thesis
    proof (cases "zone_alloc (shm_zone sa q) n")
      case None
      with SAlloc show ?thesis by (simp add: s shm_alloc_def)
    next
      case (Some r)
      then obtain a z where "zone_alloc (shm_zone sa q) n = Some (a, z)" by (cases r) auto
      with zone_fixed(1) [OF this] SAlloc show ?thesis by (simp add: s shm_alloc_def)
    qed
  next
    case (SFree i m)
    have "z_base (shm_zone (snd (shm_free sa r m)) p) = z_base (shm_zone sa p) \<and>
        z_size (shm_zone (snd (shm_free sa r m)) p) = z_size (shm_zone sa p)" for r
      using f by (simp add: shm_free_def shm_unmap_host_fd_def Let_def case_prod_beta)
    with SFree show ?thesis by (simp add: s case_prod_beta split: bool.split)
  qed (auto simp: s shm_map_host_fd_def)
qed

lemma shm_run_fixed:
  "z_base (shm_zone (fst (fold shm_step ops s)) p) = z_base (shm_zone (fst s) p) \<and>
   z_size (shm_zone (fst (fold shm_step ops s)) p) = z_size (shm_zone (fst s) p)"
  by (induction ops arbitrary: s) (simp_all add: shm_step_fixed)

section \<open>Properties\<close>

text \<open>C34: First fit is complete: an allocation from a well-formed zone fails only when the rounded length is
  zero or no contiguous free range holds it, and otherwise takes exactly its page-aligned range out of
  the free bytes.\<close>

theorem zone_alloc_exact:
  assumes "zone_ok z" "w = align_up n PAGE_SIZE"
  shows "case zone_alloc z n of
      None \<Rightarrow> w = 0 \<or> (\<forall>a. \<not> extent (z_base z + a) w \<subseteq> zone_avail z)
    | Some (a, z') \<Rightarrow> zone_ok z' \<and> 0 < w \<and> 4096 dvd a \<and> extent a w \<subseteq> zone_avail z \<and>
        zone_avail z' = zone_avail z - extent a w"
proof (cases "zone_alloc z n")
  case None
  with zone_alloc_None [OF assms] show ?thesis by simp
next
  case (Some r)
  then obtain a z' where "zone_alloc z n = Some (a, z')" by (cases r) auto
  with zone_alloc_spec [OF assms(1) this] assms(2) show ?thesis by simp
qed

lemma zone_alloc_exact_witness:
  "zone_alloc (zone_new 8192 12288) 5000 = Some (8192, \<lparr>z_base = 8192, z_size = 12288, z_free = [(8192, 4096)]\<rparr>) \<and>
   zone_ok \<lparr>z_base = 8192, z_size = 12288, z_free = [(8192, 4096)]\<rparr>"
proof -
  have "align_up 5000 PAGE_SIZE = 8192" by (simp add: align_up_page)
  then have r: "zone_alloc (zone_new 8192 12288) 5000 = Some (8192, \<lparr>z_base = 8192, z_size = 12288, z_free = [(8192, 4096)]\<rparr>)"
    by (simp add: zone_alloc_def zone_new_def wadd_def bt_remove_def)
  have "zone_ok (zone_new 8192 12288)" by (rule zone_new_ok) simp_all
  from zone_alloc_exact [OF this refl, of 5000] r show ?thesis by simp
qed

text \<open>C33: Freeing what was allocated restores the zone exactly, free list included (the extents coalesce),
  and a second free of the same range is refused and changes nothing.\<close>

theorem zone_free_undoes_alloc:
  assumes "zone_ok z" "zone_alloc z n = Some (a, z')"
  shows "zone_free_extent z' a n = (True, z) \<and> zone_free_extent z a n = (False, z)"
proof -
  note sp = zone_alloc_spec [OF assms]
  have p: "zone_place z a n" "zone_place z' a n"
    using zone_alloc_place [OF assms] zone_place_cong [of z' z] sp by simp_all
  obtain ok z'' where f: "zone_free_extent z' a n = (ok, z'')" by (cases "zone_free_extent z' a n")
  have "ok" using zone_free_spec(1) [OF sp(4) p(2) sp(1)] sp(3) f by auto
  with f zone_free_spec(2) [OF sp(4) p(2) sp(1), of z''] have
    z'': "zone_ok z''" "zone_avail z'' = zone_avail z' \<union> extent a (page_up n)"
      "z_base z'' = z_base z" "z_size z'' = z_size z" using sp by simp_all
  have "zone_avail z'' = zone_avail z" using z''(2) sp(2,3) by blast
  then have "z'' = z" using zone_eqI [of z'' z] z'' assms(1) by simp
  moreover have "a \<in> extent a (page_up n) \<inter> zone_avail z" using sp(1,2) by auto
  then have "\<not> fst (zone_free_extent z a n)" using zone_free_spec(1) [OF assms(1) p(1) sp(1)] by blast
  then have "zone_free_extent z a n = (False, z)"
    using zone_free_rejects by (metis prod.collapse)
  ultimately show ?thesis using f \<open>ok\<close> by simp
qed

lemma zone_free_undoes_alloc_witness:
  "zone_free_extent \<lparr>z_base = 0, z_size = 8192, z_free = [(4096, 4096)]\<rparr> 0 4096 = (True, zone_new 0 8192)"
proof -
  have "align_up 4096 PAGE_SIZE = 4096" by (simp add: align_up_page)
  then have r: "zone_alloc (zone_new 0 8192) 4096 = Some (0, \<lparr>z_base = 0, z_size = 8192, z_free = [(4096, 4096)]\<rparr>)"
    by (simp add: zone_alloc_def zone_new_def wadd_def bt_remove_def)
  have "zone_ok (zone_new 0 8192)" by (rule zone_new_ok) simp_all
  from zone_free_undoes_alloc [OF this r] show ?thesis by simp
qed

text \<open>C28: Over any run of allocations, mappings and frees the regions held are pairwise disjoint, each inside
  the zone of its protection, the held and the free bytes of a zone partition its span, and once
  nothing is held every zone is back to its initial state.\<close>

theorem window_regions_partition:
  assumes new: "shm_new cfg = Some sa0" "zc_total cfg < 2 ^ 64"
    and run: "fold shm_step ops (sa0, []) = (sa, held)"
  shows "(\<forall>j < length held. \<forall>i < j. region_set (held ! i) \<inter> region_set (held ! j) = {}) \<and>
    (\<forall>r \<in> set held. region_set r \<subseteq> zone_span cfg (sr_pgprot r) \<and> region_set r \<noteq> {}) \<and>
    (\<forall>p. (\<Union>r \<in> {r \<in> set held. sr_pgprot r = p}. region_set r) \<union> zone_avail (shm_zone sa p) = zone_span cfg p) \<and>
    (held = [] \<longrightarrow> (\<forall>p. shm_zone sa p = shm_zone sa0 p))"
proof (intro conjI)
  have inv0: "shm_inv (zone_span cfg) (sa0, [])" by (rule shm_inv_new [OF new])
  then have inv: "shm_inv (zone_span cfg) (sa, held)"
    using shm_inv_run [of _ "(sa0, [])" ops] run by simp
  show "\<forall>j < length held. \<forall>i < j. region_set (held ! i) \<inter> region_set (held ! j) = {}"
    using shm_inv_apart [OF inv] by blast
  show "\<forall>r \<in> set held. region_set r \<subseteq> zone_span cfg (sr_pgprot r) \<and> region_set r \<noteq> {}"
    using shm_inv_region(1,3) [OF inv] by (auto simp: region_set_def extent_def)
  show "\<forall>p. (\<Union>r \<in> {r \<in> set held. sr_pgprot r = p}. region_set r) \<union> zone_avail (shm_zone sa p) = zone_span cfg p"
    using inv unfolding held_in_UN [symmetric] by (simp add: shm_inv_def zn.holds_def)
  show "held = [] \<longrightarrow> (\<forall>p. shm_zone sa p = shm_zone sa0 p)"
  proof (intro impI allI)
    fix p assume "held = []"
    then have "zn.holds (zone_span cfg p) (shm_zone sa p) []" "zn.holds (zone_span cfg p) (shm_zone sa0 p) []"
      using inv inv0 by (simp_all add: shm_inv_def held_in_def)
    moreover have "z_base (shm_zone sa p) = z_base (shm_zone sa0 p) \<and> z_size (shm_zone sa p) = z_size (shm_zone sa0 p)"
      using shm_run_fixed [of ops "(sa0, [])" p] run by simp
    ultimately show "shm_zone sa p = shm_zone sa0 p"
      by (intro zone_eqI) (simp_all add: zn.holds_def)
  qed
qed

lemma window_regions_partition_witness:
  "\<exists>sa0 sa held. shm_new default_256mib = Some sa0 \<and>
     fold shm_step [SAlloc 4096 WriteCombine, SAlloc 10 WriteCombine] (sa0, []) = (sa, held) \<and>
     length held = 2 \<and> region_set (held ! 0) \<inter> region_set (held ! 1) = {}"
proof -
  obtain sa0 where new: "shm_new default_256mib = Some sa0"
    by (simp add: shm_new_def default_256mib_def zc_total_def)
  have t: "zc_total default_256mib < 2 ^ 64" by (simp add: default_256mib_def zc_total_def)
  obtain sa held where run: "fold shm_step [SAlloc 4096 WriteCombine, SAlloc 10 WriteCombine] (sa0, []) = (sa, held)"
    by (cases "fold shm_step [SAlloc 4096 WriteCombine, SAlloc 10 WriteCombine] (sa0, [])")
  have "length held = 2"
    using new run
    by (auto simp: shm_new_def default_256mib_def zc_total_def shm_alloc_def shm_zone_def shm_set_zone_def
        zone_alloc_def zone_new_def align_up_page wadd_def bt_remove_def)
  with window_regions_partition [OF new t run] new run show ?thesis by auto
qed

text \<open>In the allocator's own view of the window, after any run, each byte of the window a host descriptor still backs lies in a region that is held:
  a freed range shows only the window's own memory.\<close>

theorem window_no_stale_backing:
  assumes new: "shm_new cfg = Some sa0" "zc_total cfg < 2 ^ 64" and sizes: "sizes_ok ops"
    and run: "fold shm_step ops (sa0, []) = (sa, held)" and over: "sa_over sa x = Some fd"
  shows "\<exists>r \<in> set held. x \<in> region_set r"
proof -
  have "over_inv (sa0, [])" using new by (auto simp: over_inv_def shm_new_def split: if_splits)
  from over_inv_run [OF shm_inv_new [OF new] this _ sizes] run over show ?thesis
    by (auto simp: over_inv_def)
qed

lemma window_no_stale_backing_witness:
  "\<exists>sa0 sa held. shm_new default_1gib = Some sa0 \<and>
     fold shm_step [SAlloc 4096 Uncached, SMap 0 7 True] (sa0, []) = (sa, held) \<and>
     sa_over sa 0 = Some 7 \<and> (\<exists>r \<in> set held. 0 \<in> region_set r)"
proof -
  obtain sa0 where new: "shm_new default_1gib = Some sa0"
    by (simp add: shm_new_def default_1gib_def zc_total_def)
  have t: "zc_total default_1gib < 2 ^ 64" by (simp add: default_1gib_def zc_total_def)
  obtain sa held where run: "fold shm_step [SAlloc 4096 Uncached, SMap 0 7 True] (sa0, []) = (sa, held)"
    by (cases "fold shm_step [SAlloc 4096 Uncached, SMap 0 7 True] (sa0, [])")
  have b: "sa_over sa 0 = Some 7"
    using new run
    by (auto simp: shm_new_def default_1gib_def zc_total_def shm_alloc_def shm_zone_def shm_set_zone_def
        zone_alloc_def zone_new_def align_up_page wadd_def bt_remove_def shm_map_host_fd_def)
  have "sizes_ok [SAlloc 4096 Uncached, SMap 0 7 True]" by (auto simp: sizes_ok_def)
  from window_no_stale_backing [OF new t this run b] new run b show ?thesis by auto
qed

end
