(* ===== verification/Mmap.thy ===== *)
theory Mmap
  imports Shm
begin

text \<open>
  Active guest mappings (\<open>device/src/mmap.rs\<close>): one entry per live \<open>NV_ESC_RM_MAP_MEMORY\<close>, keyed by the
  window offset the guest was given.
\<close>

record mmap_entry =
  me_host_addr :: nat
  me_length :: nat
  me_client :: nat
  me_memory :: nat
  me_fd :: nat
  me_region :: shm_region

type_synonym mmap_context = "(nat \<times> mmap_entry) list"

definition mc_insert :: "nat \<Rightarrow> mmap_entry \<Rightarrow> mmap_context \<Rightarrow> mmap_context" where
  "mc_insert off e m = AList.update off e m"

definition mc_remove :: "nat \<Rightarrow> mmap_context \<Rightarrow> mmap_entry option \<times> mmap_context" where
  "mc_remove off m = (map_of m off, AList.delete off m)"

definition mc_find_by_offset :: "nat \<Rightarrow> mmap_context \<Rightarrow> mmap_entry option" where
  "mc_find_by_offset off m = map_of m off"

definition mc_find_by_fd :: "nat \<Rightarrow> mmap_context \<Rightarrow> mmap_entry option" where
  "mc_find_by_fd h m = find (\<lambda>e. me_fd e = h) (map snd m)"

definition mc_fd_has_mapping :: "nat \<Rightarrow> mmap_context \<Rightarrow> bool" where
  "mc_fd_has_mapping h m = (\<exists>e \<in> set (map snd m). me_fd e = h)"

definition mc_find_by_object :: "nat \<Rightarrow> nat \<Rightarrow> mmap_context \<Rightarrow> mmap_entry option" where
  "mc_find_by_object client memory m =
     find (\<lambda>e. me_client e = client \<and> me_memory e = memory) (map snd m)"

definition mc_drain :: "mmap_context \<Rightarrow> mmap_entry list \<times> mmap_context" where
  "mc_drain m = (map snd m, [])"

text \<open>The keys are collected first and then removed one by one.\<close>

fun mc_remove_keys :: "nat list \<Rightarrow> mmap_context \<Rightarrow> mmap_entry list \<times> mmap_context" where
  "mc_remove_keys [] m = ([], m)"
| "mc_remove_keys (k # ks) m =
     (case mc_remove k m of (found, m') \<Rightarrow>
        case mc_remove_keys ks m' of (es, m'') \<Rightarrow>
          (case found of None \<Rightarrow> es | Some e \<Rightarrow> e # es, m''))"

definition mc_take_for_fd :: "nat \<Rightarrow> mmap_context \<Rightarrow> mmap_entry list \<times> mmap_context" where
  "mc_take_for_fd h m = mc_remove_keys (map fst (filter (\<lambda>(_, e). me_fd e = h) m)) m"

lemma mc_remove_keys_spec:
  assumes "keys_distinct m" "distinct ks" "set ks \<subseteq> fst ` set m"
  shows "mc_remove_keys ks m = (map (\<lambda>k. the (map_of m k)) ks, filter (\<lambda>(k, _). k \<notin> set ks) m)"
  using assms
proof (induction ks arbitrary: m)
  case Nil
  then show ?case by (simp add: case_prod_beta)
next
  case (Cons k ks)
  obtain e where e: "map_of m k = Some e" using Cons(4) by (auto dest: weak_map_of_SomeI)
  have "set ks \<subseteq> fst ` set (AList.delete k m)"
    using Cons(3,4) by (fastforce simp: set_delete)
  from Cons(1) [OF keys_distinct_delete [OF Cons(2)] _ this] Cons(3)
  have ih: "mc_remove_keys ks (AList.delete k m) =
      (map (\<lambda>x. the (map_of (AList.delete k m) x)) ks, filter (\<lambda>(x, _). x \<notin> set ks) (AList.delete k m))" by simp
  have "map (\<lambda>x. the (map_of (AList.delete k m) x)) ks = map (\<lambda>x. the (map_of m x)) ks"
    using Cons(3) by (auto simp: delete_conv')
  moreover have "filter (\<lambda>(x, _). x \<notin> set ks) (AList.delete k m) = filter (\<lambda>(x, _). x \<notin> set (k # ks)) m"
    by (auto simp: AList.delete_eq intro!: filter_cong)
  ultimately show ?case using e by (simp add: mc_remove_def ih)
qed

lemma mc_take_for_fd_spec:
  assumes "keys_distinct m"
  shows "mc_take_for_fd h m = (map snd (filter (\<lambda>(_, e). me_fd e = h) m), filter (\<lambda>(_, e). me_fd e \<noteq> h) m)"
proof -
  let ?ks = "map fst (filter (\<lambda>(_, e). me_fd e = h) m)"
  have d: "distinct ?ks" using assms by (rule distinct_map_filter)
  have s: "set ?ks \<subseteq> fst ` set m" by auto
  have v: "map_of m k = Some e" if "(k, e) \<in> set m" for k e using that assms by simp
  have k: "k \<in> set ?ks \<longleftrightarrow> me_fd e = h" if m: "(k, e) \<in> set m" for k e
  proof -
    have "k \<in> set ?ks \<longleftrightarrow> (\<exists>e'. (k, e') \<in> set m \<and> me_fd e' = h)" by force
    also have "\<dots> \<longleftrightarrow> me_fd e = h"
      using m v [OF m] v by (metis option.inject)
    finally show ?thesis .
  qed
  have "map (\<lambda>k. the (map_of m k)) ?ks = map snd (filter (\<lambda>(_, e). me_fd e = h) m)"
    unfolding map_map
  proof (rule map_cong [OF refl])
    fix x assume "x \<in> set (filter (\<lambda>(_, e). me_fd e = h) m)"
    then have "(fst x, snd x) \<in> set m" by simp
    from v [OF this] show "((\<lambda>k. the (map_of m k)) \<circ> fst) x = snd x" by simp
  qed
  moreover have "filter (\<lambda>(k, _). k \<notin> set ?ks) m = filter (\<lambda>(_, e). me_fd e \<noteq> h) m"
  proof (rule filter_cong [OF refl])
    fix x assume "x \<in> set m"
    then have "(fst x, snd x) \<in> set m" by simp
    from k [OF this] show "(case x of (k, _) \<Rightarrow> k \<notin> set ?ks) = (case x of (_, e) \<Rightarrow> me_fd e \<noteq> h)"
      by (simp only: case_prod_beta)
  qed
  ultimately show ?thesis unfolding mc_take_for_fd_def mc_remove_keys_spec [OF assms d s] by simp
qed

lemma mc_find_by_fd_none: "mc_find_by_fd h m = None \<longleftrightarrow> \<not> mc_fd_has_mapping h m"
  by (auto simp: mc_find_by_fd_def mc_fd_has_mapping_def find_None_iff)

end
