(* ===== verification/Vram.thy ===== *)
theory Vram
  imports Prelude
begin

text \<open>
  A guest's video memory (\<open>device/src/vram.rs\<close>): every object the guest made with its parent, the
  memory some of them hold, shared between duplicates, and the clients made on each open file.
  The two integers that a long run could wrap, the holder count (\<open>u32\<close>) and the next memory id (\<open>u64\<close>),
  wrap here as in a release build.
\<close>

abbreviation (input) MIB :: nat where "MIB \<equiv> 1048576"

record vobject =
  vo_parent :: nat
  vo_memory :: "nat option"

record vmemory =
  vm_bytes :: nat
  vm_holders :: nat

record vram =
  vr_limit :: "nat option"
  vr_objects :: "((nat \<times> nat) \<times> vobject) list"
  vr_memory :: "(nat \<times> vmemory) list"
  vr_next :: nat
  vr_files :: "(nat \<times> nat list) list"
  vr_in_use :: nat
  vr_peak :: nat
  vr_refused :: nat

definition vram_new :: "nat option \<Rightarrow> vram" where
  "vram_new limit_mib =
     \<lparr>vr_limit = map_option (\<lambda>m. min (m * MIB) u64_max) limit_mib, vr_objects = [], vr_memory = [],
      vr_next = 1, vr_files = [], vr_in_use = 0, vr_peak = 0, vr_refused = 0\<rparr>"

definition vram_limit_mib :: "vram \<Rightarrow> nat" where
  "vram_limit_mib v = (case vr_limit v of None \<Rightarrow> 0 | Some b \<Rightarrow> b div MIB)"

definition vram_remaining :: "vram \<Rightarrow> nat option" where
  "vram_remaining v = map_option (\<lambda>l. l - vr_in_use v) (vr_limit v)"

definition vram_admit :: "vram \<Rightarrow> nat \<Rightarrow> bool \<times> vram" where
  "vram_admit v bytes =
     (let fits = (case vr_limit v of
            None \<Rightarrow> True
          | Some l \<Rightarrow> vr_in_use v + bytes \<le> u64_max \<and> vr_in_use v + bytes \<le> l)
      in (fits, if fits then v else v\<lparr>vr_refused := vr_refused v + 1\<rparr>))"

definition drop_object :: "nat \<Rightarrow> nat \<Rightarrow> vram \<Rightarrow> vram" where
  "drop_object client handle v =
     (case map_of (vr_objects v) (client, handle) of
        None \<Rightarrow> v
      | Some ob \<Rightarrow>
          (let v = v\<lparr>vr_objects := AList.delete (client, handle) (vr_objects v)\<rparr> in
           case vo_memory ob of
             None \<Rightarrow> v
           | Some i \<Rightarrow>
               (case map_of (vr_memory v) i of
                  None \<Rightarrow> v
                | Some m \<Rightarrow>
                    let h = (if vm_holders m = 0 then u32_max else vm_holders m - 1) in
                    if h = 0 then
                      v\<lparr>vr_in_use := vr_in_use v - vm_bytes m, vr_memory := AList.delete i (vr_memory v)\<rparr>
                    else v\<lparr>vr_memory := AList.update i (m\<lparr>vm_holders := h\<rparr>) (vr_memory v)\<rparr>)))"

definition vram_allocated :: "nat \<Rightarrow> nat \<Rightarrow> nat \<Rightarrow> nat option \<Rightarrow> vram \<Rightarrow> vram" where
  "vram_allocated client parent handle bytes v =
     (let v = drop_object client handle v in
      case bytes of
        None \<Rightarrow> v\<lparr>vr_objects := AList.update (client, handle) \<lparr>vo_parent = parent, vo_memory = None\<rparr> (vr_objects v)\<rparr>
      | Some b \<Rightarrow>
          let i = vr_next v;
              used = min (vr_in_use v + b) u64_max
          in v\<lparr>vr_next := (i + 1) mod 2 ^ 64,
               vr_memory := AList.update i \<lparr>vm_bytes = b, vm_holders = 1\<rparr> (vr_memory v),
               vr_in_use := used,
               vr_peak := max (vr_peak v) used,
               vr_objects := AList.update (client, handle) \<lparr>vo_parent = parent, vo_memory = Some i\<rparr> (vr_objects v)\<rparr>)"

definition vram_duplicated :: "nat \<Rightarrow> nat \<Rightarrow> nat \<Rightarrow> nat \<Rightarrow> nat \<Rightarrow> vram \<Rightarrow> vram" where
  "vram_duplicated client parent handle src_client src_handle v =
     (let memory = Option.bind (map_of (vr_objects v) (src_client, src_handle)) vo_memory;
          v = (case Option.bind memory (\<lambda>i. map_option (Pair i) (map_of (vr_memory v) i)) of
                 None \<Rightarrow> v
               | Some (i, m) \<Rightarrow>
                   v\<lparr>vr_memory := AList.update i (m\<lparr>vm_holders := (vm_holders m + 1) mod 2 ^ 32\<rparr>) (vr_memory v)\<rparr>);
          v = drop_object client handle v
      in v\<lparr>vr_objects := AList.update (client, handle) \<lparr>vo_parent = parent, vo_memory = memory\<rparr> (vr_objects v)\<rparr>)"

text \<open>The children of each handle in a client, and the work list that collects what is under a handle.\<close>

definition child_pairs :: "nat \<Rightarrow> vram \<Rightarrow> (nat \<times> nat) list" where
  "child_pairs client v =
     map (\<lambda>((c, h), ob). (vo_parent ob, h)) (filter (\<lambda>((c, h), ob). c = client \<and> h \<noteq> vo_parent ob) (vr_objects v))"

fun group_pairs :: "(nat \<times> nat) list \<Rightarrow> (nat \<times> nat list) list" where
  "group_pairs [] = []"
| "group_pairs ((p, h) # xs) =
     (let g = group_pairs xs in AList.update p (h # (case map_of g p of None \<Rightarrow> [] | Some hs \<Rightarrow> hs)) g)"

lemma sum_list_delete_le:
  "map_of ch h = Some kids \<Longrightarrow>
   sum_list (map (f \<circ> snd) (AList.delete h ch)) + f kids \<le> (sum_list (map (f \<circ> snd) ch) :: nat)"
proof (induction ch)
  case (Cons x ch)
  have le: "sum_list (map (f \<circ> snd) (AList.delete h ys)) \<le> sum_list (map (f \<circ> snd) ys)" for ys
    by (induction ys) auto
  show ?case using Cons le [of ch] by (cases x) (auto simp: o_def split: if_splits)
qed simp

function doomed :: "(nat \<times> nat list) list \<Rightarrow> nat list \<Rightarrow> nat list" where
  "doomed ch [] = []"
| "doomed ch (h # todo) =
     h # (case map_of ch h of
            None \<Rightarrow> doomed ch todo
          | Some kids \<Rightarrow> doomed (AList.delete h ch) (todo @ kids))"
  by pat_completeness auto
termination
proof (relation "measure (\<lambda>(ch, todo). length todo + sum_list (map (length \<circ> snd) ch))", goal_cases)
  case (3 ch h todo kids)
  then show ?case using sum_list_delete_le [of ch h kids length] by simp
qed auto

definition vram_freed :: "nat \<Rightarrow> nat \<Rightarrow> vram \<Rightarrow> vram" where
  "vram_freed client handle v =
     (if handle = client then
        fold (drop_object client) (map (snd \<circ> fst) (filter (\<lambda>((c, _), _). c = client) (vr_objects v))) v
      else fold (drop_object client) (doomed (group_pairs (child_pairs client v)) [handle]) v)"

definition vram_client_opened :: "nat \<Rightarrow> nat \<Rightarrow> vram \<Rightarrow> vram" where
  "vram_client_opened f client v =
     (let cs = (case map_of (vr_files v) f of None \<Rightarrow> [] | Some cs \<Rightarrow> cs) in
      v\<lparr>vr_files := AList.update f (if client \<in> set cs then cs else cs @ [client]) (vr_files v)\<rparr>)"

definition vram_issued :: "vram \<Rightarrow> nat \<Rightarrow> nat \<Rightarrow> bool" where
  "vram_issued v f client = (case map_of (vr_files v) f of None \<Rightarrow> False | Some cs \<Rightarrow> client \<in> set cs)"

definition vram_client_freed :: "nat \<Rightarrow> vram \<Rightarrow> vram" where
  "vram_client_freed client v =
     vram_freed client client (v\<lparr>vr_files := map (\<lambda>(f, cs). (f, filter (\<lambda>c. c \<noteq> client) cs)) (vr_files v)\<rparr>)"

definition vram_file_closed :: "nat \<Rightarrow> vram \<Rightarrow> vram" where
  "vram_file_closed f v =
     (let cs = (case map_of (vr_files v) f of None \<Rightarrow> [] | Some cs \<Rightarrow> cs) in
      fold (\<lambda>c. vram_freed c c) cs (v\<lparr>vr_files := AList.delete f (vr_files v)\<rparr>))"

section \<open>What the counters mean\<close>

definition holders_of :: "((nat \<times> nat) \<times> vobject) list \<Rightarrow> nat \<Rightarrow> nat" where
  "holders_of obs i = length (filter (\<lambda>(_, ob). vo_memory ob = Some i) obs)"

text \<open>
  The books balance: \<open>ext\<close> counts the holders not yet named by an object, which is zero between operations.
  Each piece of memory has exactly as many holders as objects name it, at least one, and
  the bytes in use are the bytes of the memory held, each piece counted once.
\<close>

definition vram_books :: "(nat \<Rightarrow> nat) \<Rightarrow> vram \<Rightarrow> bool" where
  "vram_books ext v \<longleftrightarrow>
     keys_distinct (vr_objects v) \<and> keys_distinct (vr_memory v) \<and>
     (\<forall>(k, ob) \<in> set (vr_objects v). \<forall>i. vo_memory ob = Some i \<longrightarrow> map_of (vr_memory v) i \<noteq> None) \<and>
     (\<forall>(i, m) \<in> set (vr_memory v). i < vr_next v \<and> 0 < vm_holders m \<and> vm_holders m = holders_of (vr_objects v) i + ext i) \<and>
     vr_in_use v = sum_list (map (vm_bytes \<circ> snd) (vr_memory v)) \<and>
     vr_in_use v \<le> vr_peak v"

abbreviation vram_inv :: "vram \<Rightarrow> bool" where
  "vram_inv v \<equiv> vram_books (\<lambda>_. 0) v"

lemma sum_list_delete:
  "keys_distinct m \<Longrightarrow> map_of m k = Some x \<Longrightarrow>
   sum_list (map (f \<circ> snd) m) = f x + (sum_list (map (f \<circ> snd) (AList.delete k m)) :: nat)"
proof (induction m)
  case (Cons y m)
  then show ?case by (cases y) (auto simp: delete_id [unfolded o_def] dest: weak_map_of_SomeI split: if_splits)
qed simp

lemma sum_list_update_same:
  "keys_distinct m \<Longrightarrow> map_of m k = Some x \<Longrightarrow> f y = f x \<Longrightarrow>
   sum_list (map (f \<circ> snd) (AList.update k y m)) = (sum_list (map (f \<circ> snd) m) :: nat)"
  by (induction m) (auto split: if_splits)

lemma sum_list_update_new:
  "k \<notin> fst ` set m \<Longrightarrow> sum_list (map (f \<circ> snd) (AList.update k y m)) = f y + (sum_list (map (f \<circ> snd) m) :: nat)"
  by (induction m) auto

lemma holders_of_delete:
  "keys_distinct obs \<Longrightarrow> map_of obs k = Some ob \<Longrightarrow>
   holders_of obs i = holders_of (AList.delete k obs) i + (if vo_memory ob = Some i then 1 else 0)"
proof (induction obs)
  case (Cons y obs)
  then show ?case
    by (cases y) (auto simp: holders_of_def delete_id [unfolded o_def] dest: weak_map_of_SomeI split: if_splits)
qed simp

lemma holders_of_update_new:
  "k \<notin> fst ` set obs \<Longrightarrow>
   holders_of (AList.update k ob obs) i = holders_of obs i + (if vo_memory ob = Some i then 1 else 0)"
  by (induction obs) (auto simp: holders_of_def)

lemma holders_of_pos: "(k, ob) \<in> set obs \<Longrightarrow> vo_memory ob = Some i \<Longrightarrow> 0 < holders_of obs i"
  by (auto simp: holders_of_def length_pos_if_in_set filter_empty_conv)

lemma holders_of_le: "holders_of obs i \<le> length obs"
  by (simp add: holders_of_def)

section \<open>Dropping objects\<close>

lemma vram_invD:
  assumes "vram_books ext v"
  shows "keys_distinct (vr_objects v)" "keys_distinct (vr_memory v)"
    "(k, ob) \<in> set (vr_objects v) \<Longrightarrow> vo_memory ob = Some i \<Longrightarrow> \<exists>m. map_of (vr_memory v) i = Some m"
    "(i, m) \<in> set (vr_memory v) \<Longrightarrow> i < vr_next v \<and> 0 < vm_holders m \<and> vm_holders m = holders_of (vr_objects v) i + ext i"
    "vr_in_use v = sum_list (map (vm_bytes \<circ> snd) (vr_memory v))" "vr_in_use v \<le> vr_peak v"
  using assms unfolding vram_books_def by (blast | auto simp del: map_of_eq_None_iff)+

lemma vram_invI:
  assumes "keys_distinct (vr_objects v)" "keys_distinct (vr_memory v)"
    "\<And>k ob i. (k, ob) \<in> set (vr_objects v) \<Longrightarrow> vo_memory ob = Some i \<Longrightarrow> map_of (vr_memory v) i \<noteq> None"
    "\<And>i m. (i, m) \<in> set (vr_memory v) \<Longrightarrow> i < vr_next v \<and> 0 < vm_holders m \<and> vm_holders m = holders_of (vr_objects v) i + ext i"
    "vr_in_use v = sum_list (map (vm_bytes \<circ> snd) (vr_memory v))" "vr_in_use v \<le> vr_peak v"
  shows "vram_books ext v"
  unfolding vram_books_def
proof (intro conjI assms(1,2,5,6))
  show "\<forall>(k, ob) \<in> set (vr_objects v). \<forall>i. vo_memory ob = Some i \<longrightarrow> map_of (vr_memory v) i \<noteq> None"
    using assms(3) by blast
  show "\<forall>(i, m) \<in> set (vr_memory v). i < vr_next v \<and> 0 < vm_holders m \<and> vm_holders m = holders_of (vr_objects v) i + ext i"
    using assms(4) by blast
qed

lemma vram_inv_object:
  assumes inv: "vram_books ext v" and o: "map_of (vr_objects v) k = Some ob" and i: "vo_memory ob = Some i"
  obtains m where "map_of (vr_memory v) i = Some m" "vm_holders m = holders_of (vr_objects v) i + ext i"
    "0 < vm_holders m" "i < vr_next v"
proof -
  obtain m where m: "map_of (vr_memory v) i = Some m"
    using vram_invD(3) [OF inv map_of_SomeD [OF o] i] by blast
  with vram_invD(4) [OF inv map_of_SomeD [OF m]] show thesis by (intro that) auto
qed

lemma drop_object_inv:
  assumes inv: "vram_books ext v"
  shows "vram_books ext (drop_object c h v)"
proof (cases "map_of (vr_objects v) (c, h)")
  case None
  with inv show ?thesis by (simp add: drop_object_def)
next
  case (Some ob)
  let ?k = "(c, h)" and ?obs = "AList.delete (c, h) (vr_objects v)"
  note I = vram_invD [OF inv]
  have hd: "holders_of (vr_objects v) j = holders_of ?obs j + (if vo_memory ob = Some j then 1 else 0)" for j
    by (rule holders_of_delete [OF I(1) Some])
  show ?thesis
  proof (cases "vo_memory ob")
    case None
    then have r: "drop_object c h v = v\<lparr>vr_objects := ?obs\<rparr>" using Some by (simp add: drop_object_def Let_def)
    show ?thesis unfolding r
    proof (rule vram_invI, goal_cases)
      case (3 k ob i)
      then show ?case using I(3) [of k ob i] by (simp add: set_delete)
    next
      case (4 i m)
      then show ?case using I(4) [of i m] hd [of i] None by auto
    qed (use I in \<open>simp_all add: keys_distinct_delete\<close>)
  next
    case mem: (Some i)
    obtain m where m: "map_of (vr_memory v) i = Some m" "vm_holders m = holders_of (vr_objects v) i + ext i" "0 < vm_holders m"
      using vram_inv_object [OF inv Some mem] .
    have same: "holders_of ?obs j = holders_of (vr_objects v) j" if "j \<noteq> i" for j
      using hd [of j] mem that by simp
    show ?thesis
    proof (cases "vm_holders m = 1")
      case one: True
      then have no: "holders_of ?obs i = 0" "ext i = 0" using hd [of i] m mem by simp_all
      have r: "drop_object c h v = v\<lparr>vr_objects := ?obs,
          vr_in_use := vr_in_use v - vm_bytes m, vr_memory := AList.delete i (vr_memory v)\<rparr>"
        using Some mem m(1) one by (simp add: drop_object_def Let_def)
      show ?thesis unfolding r
      proof (rule vram_invI, goal_cases)
        case (3 k ob' j)
        then have "j \<noteq> i" using holders_of_pos [of k ob' ?obs i] no(1) by auto
        then show ?case using 3 I(3) [of k ob' j] by (simp add: set_delete delete_conv')
      next
        case (4 j x)
        then show ?case using I(4) [of j x] same [of j] by (auto simp: set_delete)
      qed (use I sum_list_delete [OF I(2) m(1), of vm_bytes] in \<open>simp_all add: keys_distinct_delete\<close>)
    next
      case more: False
      let ?m = "m\<lparr>vm_holders := vm_holders m - 1\<rparr>"
      have r: "drop_object c h v = v\<lparr>vr_objects := ?obs, vr_memory := AList.update i ?m (vr_memory v)\<rparr>"
        using Some mem m(1,3) more by (simp add: drop_object_def Let_def)
      show ?thesis unfolding r
      proof (rule vram_invI, goal_cases)
        case (3 k ob' j)
        then show ?case using I(3) [of k ob' j] by (simp add: set_delete update_conv')
      next
        case (4 j x)
        have "(j, x) = (i, ?m) \<or> (j, x) \<in> set (vr_memory v) \<and> j \<noteq> i"
          using 4 set_update_distinct [OF I(2), of i ?m] by auto
        then show ?case
          using I(4) [of j x] I(4) [OF map_of_SomeD [OF m(1)]] same [of j] hd [of i] m more mem by auto
      qed (use I sum_list_update_same [OF I(2) m(1), of vm_bytes ?m] in
          \<open>simp_all add: keys_distinct_delete keys_distinct_update\<close>)
    qed
  qed
qed

lemma drop_object_objects:
  "vr_objects (drop_object c h v) = filter (\<lambda>(k, _). k \<noteq> (c, h)) (vr_objects v)"
proof -
  have "filter (\<lambda>(k, _). k \<noteq> (c, h)) (vr_objects v) = AList.delete (c, h) (vr_objects v)"
    by (auto simp: AList.delete_eq intro!: filter_cong)
  then show ?thesis
    by (auto simp: drop_object_def Let_def delete_id map_of_eq_None_iff split: option.split)
qed

lemma drop_object_rest [simp]:
  "vr_limit (drop_object c h v) = vr_limit v" "vr_next (drop_object c h v) = vr_next v"
  "vr_peak (drop_object c h v) = vr_peak v" "vr_refused (drop_object c h v) = vr_refused v"
  "vr_files (drop_object c h v) = vr_files v" "vr_in_use (drop_object c h v) \<le> vr_in_use v"
  by (auto simp: drop_object_def Let_def split: option.split)

lemma fold_drop_inv: "vram_books ext v \<Longrightarrow> vram_books ext (fold (drop_object c) hs v)"
  by (induction hs arbitrary: v) (auto intro: drop_object_inv)

lemma fold_drop_objects:
  "vr_objects (fold (drop_object c) hs v) = filter (\<lambda>((c', h), _). \<not> (c' = c \<and> h \<in> set hs)) (vr_objects v)"
proof (induction hs arbitrary: v)
  case Nil
  then show ?case by (simp add: case_prod_beta)
next
  case (Cons h hs)
  then show ?case by (auto simp: drop_object_objects intro!: filter_cong)
qed

lemma fold_drop_rest:
  "vr_limit (fold (drop_object c) hs v) = vr_limit v \<and> vr_next (fold (drop_object c) hs v) = vr_next v \<and>
   vr_peak (fold (drop_object c) hs v) = vr_peak v \<and> vr_refused (fold (drop_object c) hs v) = vr_refused v \<and>
   vr_files (fold (drop_object c) hs v) = vr_files v \<and> vr_in_use (fold (drop_object c) hs v) \<le> vr_in_use v"
proof (induction hs arbitrary: v)
  case (Cons h hs)
  show ?case using Cons [of "drop_object c h v"] drop_object_rest(6) [of c h v] by (auto intro: order_trans)
qed simp

section \<open>What a free takes with it\<close>

lemma map_of_group_pairs:
  "map_of (group_pairs xs) p = (let hs = map snd (filter (\<lambda>(q, _). q = p) xs) in if hs = [] then None else Some hs)"
proof (induction xs)
  case (Cons x xs)
  obtain q h where "x = (q, h)" by (cases x)
  with Cons show ?case by (cases "p = q") (simp_all add: update_conv' Let_def)
qed simp

lemma kids_iff: "(\<exists>hs. map_of (group_pairs xs) p = Some hs \<and> h \<in> set hs) \<longleftrightarrow> (p, h) \<in> set xs"
proof -
  have "(\<exists>hs. map_of (group_pairs xs) p = Some hs \<and> h \<in> set hs) \<longleftrightarrow> h \<in> set (map snd (filter (\<lambda>(q, _). q = p) xs))"
    unfolding map_of_group_pairs Let_def by (metis empty_iff list.set(1) option.distinct(1) option.inject)
  also have "\<dots> \<longleftrightarrow> (p, h) \<in> set xs" by force
  finally show ?thesis .
qed

lemma doomed_sound:
  "x \<in> set (doomed ch todo) \<Longrightarrow> (\<And>p hs h. map_of ch p = Some hs \<Longrightarrow> h \<in> set hs \<Longrightarrow> (p, h) \<in> E) \<Longrightarrow>
   \<exists>t \<in> set todo. (t, x) \<in> E\<^sup>*"
proof (induction ch todo rule: doomed.induct)
  case (2 ch h todo)
  show ?case
  proof (cases "x = h")
    case False
    show ?thesis
    proof (cases "map_of ch h")
      case None
      with 2 False show ?thesis by auto
    next
      case (Some kids)
      have "(p, y) \<in> E" if "map_of (AList.delete h ch) p = Some hs" "y \<in> set hs" for p hs y
        using that 2(4) by (auto simp: delete_conv' split: if_splits)
      with 2(2) [OF Some] 2(3) False Some obtain t where t: "t \<in> set (todo @ kids)" "(t, x) \<in> E\<^sup>*" by auto
      show ?thesis
      proof (cases "t \<in> set kids")
        case True
        then have "(h, t) \<in> E" using 2(4) Some by blast
        with t show ?thesis by (metis converse_rtrancl_into_rtrancl list.set_intros(1))
      qed (use t in auto)
    qed
  qed auto
qed simp

lemma doomed_todo: "set todo \<subseteq> set (doomed ch todo)"
  by (induction ch todo rule: doomed.induct) (auto split: option.splits)

lemma doomed_closed:
  "\<forall>k. map_of ch k = (if k \<in> V then None else map_of ch0 k) \<Longrightarrow>
   \<forall>k \<in> V. \<forall>hs. map_of ch0 k = Some hs \<longrightarrow> set hs \<subseteq> V \<union> set todo \<Longrightarrow>
   \<forall>k \<in> V \<union> set (doomed ch todo). \<forall>hs. map_of ch0 k = Some hs \<longrightarrow> set hs \<subseteq> V \<union> set (doomed ch todo)"
proof (induction ch todo arbitrary: V rule: doomed.induct)
  case (2 ch h todo)
  have ih: "\<forall>k \<in> insert h V \<union> set X. \<forall>hs. map_of ch0 k = Some hs \<longrightarrow> set hs \<subseteq> insert h V \<union> set X"
    if "X = (case map_of ch h of None \<Rightarrow> doomed ch todo | Some kids \<Rightarrow> doomed (AList.delete h ch) (todo @ kids))" for X
  proof (cases "map_of ch h")
    case None
    have m: "\<forall>k. map_of ch k = (if k \<in> insert h V then None else map_of ch0 k)" using 2(3) None by auto
    have "\<forall>k \<in> insert h V. \<forall>hs. map_of ch0 k = Some hs \<longrightarrow> set hs \<subseteq> insert h V \<union> set todo"
    proof (intro ballI allI impI)
      fix k hs assume k: "k \<in> insert h V" "map_of ch0 k = Some hs"
      then have "k \<in> V" using 2(3) None by (metis insertE option.distinct(1))
      then show "set hs \<subseteq> insert h V \<union> set todo" using 2(4) k by auto
    qed
    from 2(1) [OF None m this] None that show ?thesis by simp
  next
    case (Some kids)
    have m: "\<forall>k. map_of (AList.delete h ch) k = (if k \<in> insert h V then None else map_of ch0 k)"
      using 2(3) by (auto simp: delete_conv')
    have "map_of ch0 h = Some kids" using 2(3) Some by (metis option.distinct(1))
    then have "\<forall>k \<in> insert h V. \<forall>hs. map_of ch0 k = Some hs \<longrightarrow> set hs \<subseteq> insert h V \<union> set (todo @ kids)"
      using 2(4) by auto
    from 2(2) [OF Some m this] Some that show ?thesis by simp
  qed
  from ih [OF refl] show ?case by simp
qed simp

lemma set_doomed: "set (doomed (group_pairs xs) [h]) = {x. (h, x) \<in> (set xs)\<^sup>*}"
proof
  show "set (doomed (group_pairs xs) [h]) \<subseteq> {x. (h, x) \<in> (set xs)\<^sup>*}"
    using doomed_sound [of _ "group_pairs xs" "[h]" "set xs"] kids_iff by fastforce
next
  let ?D = "set (doomed (group_pairs xs) [h])"
  have cl: "\<forall>k \<in> ?D. \<forall>hs. map_of (group_pairs xs) k = Some hs \<longrightarrow> set hs \<subseteq> ?D"
    using doomed_closed [of "group_pairs xs" "{}" "group_pairs xs" "[h]"] by simp
  have "x \<in> ?D" if "(h, x) \<in> (set xs)\<^sup>*" for x
    using that
  proof (induction rule: rtrancl_induct)
    case base
    show ?case using doomed_todo [of "[h]" "group_pairs xs"] by simp
  next
    case (step y z)
    then obtain hs where "map_of (group_pairs xs) y = Some hs" "z \<in> set hs" using kids_iff by metis
    with cl step(3) show ?case by blast
  qed
  then show "{x. (h, x) \<in> (set xs)\<^sup>*} \<subseteq> ?D" by blast
qed

declare doomed.simps(2) [simp del]
declare drop_object_rest(6) [simp del]

section \<open>Every operation keeps the books\<close>

lemma drop_object_key: "(c, h) \<notin> fst ` set (vr_objects (drop_object c h v))"
  by (auto simp: drop_object_objects)

lemma vram_allocated_inv:
  assumes inv: "vram_inv v" and room: "vr_next v + 1 < 2 ^ 64" "vr_in_use v + (case bytes of None \<Rightarrow> 0 | Some b \<Rightarrow> b) \<le> u64_max"
  shows "vram_inv (vram_allocated c p h bytes v)"
proof -
  define v1 where "v1 = drop_object c h v"
  have inv1: "vram_inv v1" using drop_object_inv [OF inv] by (simp add: v1_def)
  have new: "(c, h) \<notin> fst ` set (vr_objects v1)" unfolding v1_def by (rule drop_object_key)
  have nx: "vr_next v1 = vr_next v" "vr_in_use v1 \<le> vr_in_use v" using drop_object_rest(6) by (simp_all add: v1_def)
  note I = vram_invD [OF inv1]
  have so: "set (AList.update (c, h) x (vr_objects v1)) = insert ((c, h), x) (set (vr_objects v1))" for x
    using set_update_distinct [OF I(1), of "(c, h)" x] new by (auto simp: image_iff)
  show ?thesis
  proof (cases bytes)
    case None
    let ?o = "\<lparr>vo_parent = p, vo_memory = None\<rparr>"
    have r: "vram_allocated c p h bytes v = v1\<lparr>vr_objects := AList.update (c, h) ?o (vr_objects v1)\<rparr>"
      by (simp add: vram_allocated_def None v1_def Let_def)
    show ?thesis unfolding r
    proof (rule vram_invI, goal_cases)
      case (3 k ob i)
      then show ?case using I(3) [of k ob i] by (auto simp: so)
    next
      case (4 i m)
      then show ?case using I(4) [of i m] holders_of_update_new [OF new, of ?o i] by simp
    qed (use I in \<open>simp_all add: keys_distinct_update\<close>)
  next
    case (Some b)
    let ?i = "vr_next v1"
    let ?o = "\<lparr>vo_parent = p, vo_memory = Some ?i\<rparr>" and ?m = "\<lparr>vm_bytes = b, vm_holders = 1\<rparr>"
    have fresh: "?i \<notin> fst ` set (vr_memory v1)" using I(4) by fastforce
    have none: "holders_of (vr_objects v1) ?i = 0"
    proof -
      have "vo_memory ob \<noteq> Some ?i" if "(k, ob) \<in> set (vr_objects v1)" for k ob
        using I(3) [OF that, of ?i] fresh by (metis map_of_eq_None_iff option.distinct(1))
      then show ?thesis by (auto simp: holders_of_def filter_empty_conv)
    qed
    have r: "vram_allocated c p h bytes v = v1\<lparr>vr_next := ?i + 1, vr_memory := AList.update ?i ?m (vr_memory v1),
        vr_in_use := vr_in_use v1 + b, vr_peak := max (vr_peak v1) (vr_in_use v1 + b),
        vr_objects := AList.update (c, h) ?o (vr_objects v1)\<rparr>"
      using room nx Some by (simp add: vram_allocated_def v1_def [symmetric] Let_def)
    show ?thesis unfolding r
    proof (rule vram_invI, goal_cases)
      case (3 k ob i)
      then show ?case using I(3) [of k ob i] by (auto simp: so update_conv')
    next
      case (4 i m)
      then have "(i, m) = (?i, ?m) \<or> (i, m) \<in> set (vr_memory v1) \<and> i \<noteq> ?i"
        using set_update_distinct [OF I(2), of ?i ?m] by auto
      then show ?case using I(4) [of i m] holders_of_update_new [OF new, of ?o i] none by auto
    qed (use I sum_list_update_new [OF fresh, of vm_bytes ?m] in \<open>simp_all add: keys_distinct_update\<close>)
  qed
qed

lemma vram_duplicated_inv:
  assumes inv: "vram_inv v" and room: "length (vr_objects v) + 1 < 2 ^ 32"
  shows "vram_inv (vram_duplicated c p h sc sh v)"
proof -
  define mem where "mem = Option.bind (map_of (vr_objects v) (sc, sh)) vo_memory"
  define ext where "ext = (\<lambda>j. if mem = Some j then 1 else 0 :: nat)"
  define v1 where "v1 = (case Option.bind mem (\<lambda>i. map_option (Pair i) (map_of (vr_memory v) i)) of
                 None \<Rightarrow> v
               | Some (i, m) \<Rightarrow>
                   v\<lparr>vr_memory := AList.update i (m\<lparr>vm_holders := (vm_holders m + 1) mod 2 ^ 32\<rparr>) (vr_memory v)\<rparr>)"
  note I = vram_invD [OF inv]
  have inv1: "vram_books ext v1"
  proof (cases mem)
    case None
    then show ?thesis using inv by (simp add: v1_def ext_def)
  next
    case (Some i)
    then obtain ob where ob: "map_of (vr_objects v) (sc, sh) = Some ob" "vo_memory ob = Some i"
      unfolding mem_def by (auto simp: bind_eq_Some_conv)
    obtain m where m: "map_of (vr_memory v) i = Some m" "vm_holders m = holders_of (vr_objects v) i"
      using vram_inv_object [OF inv ob] by auto
    have "vm_holders m + 1 < 2 ^ 32" using m(2) holders_of_le [of "vr_objects v" i] room by simp
    then have r: "v1 = v\<lparr>vr_memory := AList.update i (m\<lparr>vm_holders := vm_holders m + 1\<rparr>) (vr_memory v)\<rparr>"
      by (simp add: v1_def Some m)
    let ?m = "m\<lparr>vm_holders := vm_holders m + 1\<rparr>"
    show ?thesis unfolding r
    proof (rule vram_invI, goal_cases)
      case (3 k ob i)
      then show ?case using I(3) [of k ob i] by (auto simp: update_conv')
    next
      case (4 j x)
      then have "(j, x) = (i, ?m) \<or> (j, x) \<in> set (vr_memory v) \<and> j \<noteq> i"
        using set_update_distinct [OF I(2), of i ?m] by auto
      then show ?case using I(4) [of j x] I(4) [OF map_of_SomeD [OF m(1)]] Some by (auto simp: ext_def)
    qed (use I sum_list_update_same [OF I(2) m(1), of vm_bytes ?m] in \<open>simp_all add: keys_distinct_update\<close>)
  qed
  have mem1: "map_of (vr_memory v1) i \<noteq> None" if e: "mem = Some i" for i
  proof -
    obtain ob where "map_of (vr_objects v) (sc, sh) = Some ob" "vo_memory ob = Some i"
      using e unfolding mem_def bind_eq_Some_conv by blast
    then obtain m where m: "map_of (vr_memory v) i = Some m" using vram_inv_object [OF inv] by metis
    then have "vr_memory v1 = AList.update i (m\<lparr>vm_holders := (vm_holders m + 1) mod 2 ^ 32\<rparr>) (vr_memory v)"
      unfolding v1_def e by simp
    then show ?thesis by (simp add: update_conv')
  qed
  define v2 where "v2 = drop_object c h v1"
  have inv2: "vram_books ext v2" unfolding v2_def by (rule drop_object_inv [OF inv1])
  note J = vram_invD [OF inv2]
  have new: "(c, h) \<notin> fst ` set (vr_objects v2)" unfolding v2_def by (rule drop_object_key)
  have mem2: "map_of (vr_memory v2) i \<noteq> None" if e: "mem = Some i" for i
  proof -
    have "1 \<le> ext i" using e by (simp add: ext_def)
    have "map_of (vr_memory (drop_object c h v1)) i \<noteq> None"
    proof (cases "\<exists>ob. map_of (vr_objects v1) (c, h) = Some ob \<and> vo_memory ob = Some i")
      case True
      then obtain ob where ob: "map_of (vr_objects v1) (c, h) = Some ob" "vo_memory ob = Some i" by blast
      obtain m where "map_of (vr_memory v1) i = Some m" "vm_holders m = holders_of (vr_objects v1) i + ext i"
        using vram_inv_object [OF inv1 ob] by auto
      moreover have "0 < holders_of (vr_objects v1) i" using holders_of_pos [OF map_of_SomeD [OF ob(1)] ob(2)] .
      ultimately show ?thesis using ob \<open>1 \<le> ext i\<close>
        by (auto simp: drop_object_def Let_def update_conv')
    next
      case False
      with mem1 [OF e] show ?thesis
        by (auto simp: drop_object_def Let_def update_conv' delete_conv' split: option.split)
    qed
    then show ?thesis by (simp add: v2_def)
  qed
  let ?o = "\<lparr>vo_parent = p, vo_memory = mem\<rparr>"
  have so: "set (AList.update (c, h) ?o (vr_objects v2)) = insert ((c, h), ?o) (set (vr_objects v2))"
    using set_update_distinct [OF J(1), of "(c, h)" ?o] new by (auto simp: image_iff)
  have r: "vram_duplicated c p h sc sh v = v2\<lparr>vr_objects := AList.update (c, h) ?o (vr_objects v2)\<rparr>"
    unfolding vram_duplicated_def v2_def v1_def mem_def Let_def ..
  show ?thesis unfolding r
  proof (rule vram_invI, goal_cases)
    case (3 k ob i)
    then show ?case using J(3) [of k ob i] mem2 [of i] by (auto simp: so)
  next
    case (4 i m)
    then show ?case using J(4) [of i m] holders_of_update_new [OF new, of ?o i] by (auto simp: ext_def)
  qed (use J in \<open>simp_all add: keys_distinct_update\<close>)
qed

lemma vram_freed_inv: "vram_inv v \<Longrightarrow> vram_inv (vram_freed c h v)"
  by (simp add: vram_freed_def fold_drop_inv)

lemma vram_freed_rest:
  "vr_limit (vram_freed c h v) = vr_limit v \<and> vr_next (vram_freed c h v) = vr_next v \<and>
   vr_peak (vram_freed c h v) = vr_peak v \<and> vr_refused (vram_freed c h v) = vr_refused v \<and>
   vr_files (vram_freed c h v) = vr_files v \<and> vr_in_use (vram_freed c h v) \<le> vr_in_use v"
  using fold_drop_rest [of c _ v] by (simp add: vram_freed_def)

lemma vram_books_files [simp]: "vram_books ext (v\<lparr>vr_files := fs\<rparr>) = vram_books ext v"
  by (simp add: vram_books_def)

lemma vram_books_refused [simp]: "vram_books ext (v\<lparr>vr_refused := n\<rparr>) = vram_books ext v"
  by (simp add: vram_books_def)

lemma fold_freed:
  "(vram_inv v \<longrightarrow> vram_inv (fold (\<lambda>c. vram_freed c c) cs v)) \<and>
   vr_limit (fold (\<lambda>c. vram_freed c c) cs v) = vr_limit v \<and> vr_next (fold (\<lambda>c. vram_freed c c) cs v) = vr_next v \<and>
   vr_files (fold (\<lambda>c. vram_freed c c) cs v) = vr_files v \<and>
   vr_in_use (fold (\<lambda>c. vram_freed c c) cs v) \<le> vr_in_use v \<and>
   length (vr_objects (fold (\<lambda>c. vram_freed c c) cs v)) \<le> length (vr_objects v)"
proof (induction cs arbitrary: v)
  case (Cons c cs)
  have "length (vr_objects (vram_freed c c v)) \<le> length (vr_objects v)"
    by (simp add: vram_freed_def fold_drop_objects)
  then show ?case
    using Cons [of "vram_freed c c v"] vram_freed_rest [of c c v] vram_freed_inv [of v c c] by (auto intro: order_trans)
qed simp

text \<open>What a guest makes the books record: admission before an allocation, the charge after it.\<close>

datatype vram_op =
    VAlloc nat nat nat nat nat \<comment> \<open>client, parent, handle, bytes asked, bytes taken\<close>
  | VObject nat nat nat
  | VDup nat nat nat nat nat
  | VFree nat nat
  | VOpen nat nat
  | VClientFree nat
  | VClose nat

fun vram_step :: "vram_op \<Rightarrow> vram \<Rightarrow> vram" where
  "vram_step (VAlloc c p h asked took) v =
     (case vram_admit v asked of (True, v) \<Rightarrow> vram_allocated c p h (Some took) v | (False, v) \<Rightarrow> v)"
| "vram_step (VObject c p h) v = vram_allocated c p h None v"
| "vram_step (VDup c p h sc sh) v = vram_duplicated c p h sc sh v"
| "vram_step (VFree c h) v = vram_freed c h v"
| "vram_step (VOpen f c) v = vram_client_opened f c v"
| "vram_step (VClientFree c) v = vram_client_freed c v"
| "vram_step (VClose f) v = vram_file_closed f v"

fun vram_taken :: "vram_op list \<Rightarrow> nat" where
  "vram_taken [] = 0"
| "vram_taken (VAlloc c p h asked took # ops) = took + vram_taken ops"
| "vram_taken (x # ops) = vram_taken ops"

definition rounds_by :: "nat \<Rightarrow> vram_op list \<Rightarrow> bool" where
  "rounds_by r ops = (\<forall>c p h asked took. VAlloc c p h asked took \<in> set ops \<longrightarrow> took \<le> asked + r)"

lemma length_update_le: "length (AList.update k x m) \<le> Suc (length m)"
  by (induction m) auto

lemma drop_object_length: "length (vr_objects (drop_object c h v)) \<le> length (vr_objects v)"
  by (simp add: drop_object_objects)

lemma vram_allocated_rest:
  "vr_limit (vram_allocated c p h b v) = vr_limit v \<and>
   vr_next (vram_allocated c p h b v) \<le> vr_next v + 1 \<and>
   vr_in_use (vram_allocated c p h b v) \<le> vr_in_use v + (case b of None \<Rightarrow> 0 | Some x \<Rightarrow> x) \<and>
   length (vr_objects (vram_allocated c p h b v)) \<le> length (vr_objects v) + 1"
proof -
  have "length (AList.update (c, h) x (vr_objects (drop_object c h v))) \<le> Suc (length (vr_objects v))" for x
    using length_update_le [of "(c, h)" x "vr_objects (drop_object c h v)"] drop_object_length [of c h v] by simp
  then show ?thesis
    using drop_object_rest(6) [of c h v]
    by (auto simp: vram_allocated_def Let_def min_def split: option.split)
qed

lemma vram_duplicated_rest:
  "vr_limit (vram_duplicated c p h sc sh v) = vr_limit v \<and>
   vr_next (vram_duplicated c p h sc sh v) = vr_next v \<and>
   vr_in_use (vram_duplicated c p h sc sh v) \<le> vr_in_use v \<and>
   length (vr_objects (vram_duplicated c p h sc sh v)) \<le> length (vr_objects v) + 1"
proof -
  define v1 where "v1 = (case Option.bind (Option.bind (map_of (vr_objects v) (sc, sh)) vo_memory)
                 (\<lambda>i. map_option (Pair i) (map_of (vr_memory v) i)) of
                 None \<Rightarrow> v
               | Some (i, m) \<Rightarrow>
                   v\<lparr>vr_memory := AList.update i (m\<lparr>vm_holders := (vm_holders m + 1) mod 2 ^ 32\<rparr>) (vr_memory v)\<rparr>)"
  have e: "vr_limit v1 = vr_limit v" "vr_next v1 = vr_next v" "vr_in_use v1 = vr_in_use v" "vr_objects v1 = vr_objects v"
    by (auto simp: v1_def split: option.split)
  have r: "vram_duplicated c p h sc sh v = (drop_object c h v1)\<lparr>vr_objects := AList.update (c, h)
      \<lparr>vo_parent = p, vo_memory = Option.bind (map_of (vr_objects v) (sc, sh)) vo_memory\<rparr> (vr_objects (drop_object c h v1))\<rparr>"
    unfolding vram_duplicated_def v1_def Let_def ..
  show ?thesis unfolding r
    using e drop_object_rest(6) [of c h v1] drop_object_length [of c h v1]
      length_update_le [of "(c, h)" _ "vr_objects (drop_object c h v1)"]
    by (auto intro: order_trans)
qed

lemma vram_freed_length: "length (vr_objects (vram_freed c h v)) \<le> length (vr_objects v)"
  by (simp add: vram_freed_def fold_drop_objects)

lemma vram_step_bounds:
  assumes inv: "vram_inv v"
    and b: "vr_next v \<le> n" "length (vr_objects v) \<le> n" "vr_in_use v \<le> u"
    and room: "n + 1 < 2 ^ 32" "u + vram_taken [op] \<le> u64_max"
  shows "vram_inv (vram_step op v) \<and> vr_next (vram_step op v) \<le> n + 1 \<and>
    length (vr_objects (vram_step op v)) \<le> n + 1 \<and> vr_in_use (vram_step op v) \<le> u + vram_taken [op] \<and>
    vr_limit (vram_step op v) = vr_limit v"
proof (cases op)
  case (VAlloc c p h asked took)
  let ?v = "snd (vram_admit v asked)"
  have a: "vram_inv ?v" "vr_next ?v = vr_next v" "vr_objects ?v = vr_objects v" "vr_in_use ?v = vr_in_use v" "vr_limit ?v = vr_limit v"
    using inv by (simp_all add: vram_admit_def Let_def)
  have i: "vram_inv (vram_allocated c p h (Some took) ?v)"
    using vram_allocated_inv [OF a(1), of "Some took" c p h] a b room VAlloc by simp
  show ?thesis
    using i a b vram_allocated_rest [of c p h "Some took" ?v] VAlloc
    by (cases "vram_admit v asked"; cases "fst (vram_admit v asked)") auto
next
  case (VObject c p h)
  then show ?thesis using vram_allocated_inv [OF inv, of None c p h] vram_allocated_rest [of c p h None v] b room by auto
next
  case (VDup c p h sc sh)
  then show ?thesis using vram_duplicated_inv [OF inv, of c p h sc sh] vram_duplicated_rest [of c p h sc sh v] b room by auto
next
  case (VFree c h)
  then show ?thesis using vram_freed_inv [OF inv, of c h] vram_freed_rest [of c h v] vram_freed_length [of c h v] b by auto
next
  case (VOpen f c)
  then show ?thesis using inv b by (simp add: vram_client_opened_def Let_def)
next
  case (VClientFree c)
  let ?v = "v\<lparr>vr_files := map (\<lambda>(f, cs). (f, filter (\<lambda>x. x \<noteq> c) cs)) (vr_files v)\<rparr>"
  show ?thesis
    using vram_freed_inv [of ?v c c] vram_freed_rest [of c c ?v] vram_freed_length [of c c ?v] inv b VClientFree
    by (simp add: vram_client_freed_def)
next
  case (VClose f)
  define cs where "cs = (case map_of (vr_files v) f of None \<Rightarrow> [] | Some cs \<Rightarrow> cs)"
  have "vram_step op v = fold (\<lambda>c. vram_freed c c) cs (v\<lparr>vr_files := AList.delete f (vr_files v)\<rparr>)"
    by (simp add: VClose vram_file_closed_def cs_def)
  then show ?thesis using fold_freed [of "v\<lparr>vr_files := AList.delete f (vr_files v)\<rparr>" cs] inv b VClose
    by simp
qed

lemma vram_run_bounds:
  assumes "vram_inv v" "vr_next v \<le> n" "length (vr_objects v) \<le> n" "vr_in_use v \<le> u"
    "n + length ops < 2 ^ 32" "u + vram_taken ops \<le> u64_max"
  shows "vram_inv (fold vram_step ops v) \<and> vr_limit (fold vram_step ops v) = vr_limit v"
  using assms
proof (induction ops arbitrary: v n u)
  case (Cons op ops)
  have t: "vram_taken (op # ops) = vram_taken [op] + vram_taken ops" by (cases op) auto
  have "vram_inv (vram_step op v) \<and> vr_next (vram_step op v) \<le> n + 1 \<and>
    length (vr_objects (vram_step op v)) \<le> n + 1 \<and> vr_in_use (vram_step op v) \<le> u + vram_taken [op] \<and>
    vr_limit (vram_step op v) = vr_limit v"
    by (rule vram_step_bounds) (use Cons t in simp_all)
  with Cons(1) [of "vram_step op v" "n + 1" "u + vram_taken [op]"] Cons(6,7) t show ?case by simp
qed simp

lemma vram_new_inv: "vram_inv (vram_new l)"
  by (simp add: vram_books_def vram_new_def)

text \<open>The limit: no step takes the use past it by more than the rounding of one allocation.\<close>

lemma vram_step_limit:
  assumes lim: "vr_limit v = Some l" "vr_in_use v \<le> l + r" and rb: "rounds_by r [op]"
  shows "vr_in_use (vram_step op v) \<le> l + r \<and> vr_limit (vram_step op v) = Some l"
proof (cases op)
  case (VAlloc c p h asked took)
  let ?v = "snd (vram_admit v asked)"
  have a: "vr_in_use ?v = vr_in_use v" "vr_limit ?v = vr_limit v" by (simp_all add: vram_admit_def Let_def)
  have t: "took \<le> asked + r" using rb VAlloc by (auto simp: rounds_by_def)
  have f: "fst (vram_admit v asked) \<Longrightarrow> vr_in_use v + asked \<le> l"
    using lim by (simp add: vram_admit_def Let_def split: if_splits)
  show ?thesis
    using a t f lim vram_allocated_rest [of c p h "Some took" ?v] VAlloc
    by (cases "vram_admit v asked"; cases "fst (vram_admit v asked)") auto
next
  case (VObject c p h)
  then show ?thesis using vram_allocated_rest [of c p h None v] lim by auto
next
  case (VDup c p h sc sh)
  then show ?thesis using vram_duplicated_rest [of c p h sc sh v] lim by auto
next
  case (VFree c h)
  then show ?thesis using vram_freed_rest [of c h v] lim by auto
next
  case (VOpen f c)
  then show ?thesis using lim by (simp add: vram_client_opened_def Let_def)
next
  case (VClientFree c)
  then show ?thesis
    using vram_freed_rest [of c c "v\<lparr>vr_files := map (\<lambda>(f, cs). (f, filter (\<lambda>x. x \<noteq> c) cs)) (vr_files v)\<rparr>"] lim
    by (simp add: vram_client_freed_def)
next
  case (VClose f)
  define cs where "cs = (case map_of (vr_files v) f of None \<Rightarrow> [] | Some cs \<Rightarrow> cs)"
  have "vram_step op v = fold (\<lambda>c. vram_freed c c) cs (v\<lparr>vr_files := AList.delete f (vr_files v)\<rparr>)"
    by (simp add: VClose vram_file_closed_def cs_def)
  then show ?thesis using fold_freed [of "v\<lparr>vr_files := AList.delete f (vr_files v)\<rparr>" cs] lim by simp
qed

lemma vram_run_limit:
  assumes "vr_limit v = Some l" "vr_in_use v \<le> l + r" "rounds_by r ops"
  shows "vr_in_use (fold vram_step ops v) \<le> l + r"
  using assms
proof (induction ops arbitrary: v)
  case (Cons op ops)
  have "rounds_by r [op]" "rounds_by r ops" using Cons(4) by (auto simp: rounds_by_def)
  with vram_step_limit [OF Cons(2,3)] Cons(1) [of "vram_step op v"] show ?case by auto
qed simp

lemma vram_freed_client_objects:
  "vr_objects (vram_freed c c v) = filter (\<lambda>((c', h), _). c' \<noteq> c) (vr_objects v)"
proof -
  have "h \<in> set (map (snd \<circ> fst) (filter (\<lambda>((c', _), _). c' = c) (vr_objects v)))" if "((c, h), ob) \<in> set (vr_objects v)" for h ob
    using that by force
  then show ?thesis by (auto simp: vram_freed_def fold_drop_objects intro!: filter_cong)
qed

lemma fold_freed_objects:
  "vr_objects (fold (\<lambda>c. vram_freed c c) cs v) = filter (\<lambda>((c, h), _). c \<notin> set cs) (vr_objects v)"
proof (induction cs arbitrary: v)
  case (Cons c cs)
  then show ?case by (auto simp: vram_freed_client_objects intro!: filter_cong)
qed (simp add: case_prod_beta)

section \<open>Properties\<close>

text \<open>C29: From a new table, any run of allocations, duplications, frees and file closes keeps the books: each
  piece of memory is counted once, as long as some object holds it, its holder count is the number of
  those objects, and the bytes in use are their sum.\<close>

theorem vram_books_balance:
  assumes "length ops + 1 < 2 ^ 32" "vram_taken ops \<le> u64_max" "v = fold vram_step ops (vram_new l)"
  shows "vr_in_use v = sum_list (map (vm_bytes \<circ> snd) (vr_memory v)) \<and>
    (\<forall>(i, m) \<in> set (vr_memory v). 0 < vm_holders m \<and>
       vm_holders m = length (filter (\<lambda>(_, ob). vo_memory ob = Some i) (vr_objects v))) \<and>
    (\<forall>(k, ob) \<in> set (vr_objects v). \<forall>i. vo_memory ob = Some i \<longrightarrow> i \<in> fst ` set (vr_memory v))"
proof -
  have inv: "vram_inv v"
    using vram_run_bounds [OF vram_new_inv [of l], of 1 0 ops] assms by (simp add: vram_new_def)
  have "i \<in> fst ` set (vr_memory v)" if "(k, ob) \<in> set (vr_objects v)" "vo_memory ob = Some i" for k ob i
    using vram_invD(3) [OF inv that] by (metis fst_conv image_eqI map_of_SomeD)
  moreover have "0 < vm_holders m \<and> vm_holders m = length (filter (\<lambda>(_, ob). vo_memory ob = Some i) (vr_objects v))"
    if "(i, m) \<in> set (vr_memory v)" for i m
    using vram_invD(4) [OF inv that] unfolding holders_of_def by auto
  ultimately show ?thesis using vram_invD(5) [OF inv] by blast
qed

lemma vram_books_balance_witness:
  "\<exists>v. v = fold vram_step [VObject 1 1 1, VAlloc 1 1 16 4096 65536, VDup 2 2 32 1 16, VFree 1 16] (vram_new None) \<and>
     vr_in_use v = sum_list (map (vm_bytes \<circ> snd) (vr_memory v)) \<and> vr_in_use v = 65536"
proof -
  let ?ops = "[VObject 1 1 1, VAlloc 1 1 16 4096 65536, VDup 2 2 32 1 16, VFree 1 16]"
  have "vr_in_use (fold vram_step ?ops (vram_new None)) = 65536"
    by (simp add: vram_new_def vram_allocated_def vram_admit_def vram_duplicated_def vram_freed_def
        drop_object_def child_pairs_def doomed.simps Let_def)
  with vram_books_balance [of ?ops _ None, OF _ _ refl] show ?thesis by simp
qed



text \<open>C36: A free releases exactly the object and everything allocated below it in its client, and freeing the client
  releases all of it; what other clients hold is untouched.\<close>

theorem vram_freed_subtree:
  "vr_objects (vram_freed c h v) =
     (if h = c then filter (\<lambda>((c', h'), _). c' \<noteq> c) (vr_objects v)
      else filter (\<lambda>((c', h'), _). \<not> (c' = c \<and> (h, h') \<in> (set (child_pairs c v))\<^sup>*)) (vr_objects v))"
proof (cases "h = c")
  case True
  then show ?thesis by (simp add: vram_freed_client_objects)
next
  case False
  then show ?thesis unfolding vram_freed_def fold_drop_objects if_not_P [OF False] set_doomed by simp
qed

text \<open>Closing a file frees every client made on it, and after it none of them is issued on that file.\<close>

theorem vram_file_closed_releases:
  assumes "vram_issued v f c"
  shows "(\<forall>(k, ob) \<in> set (vr_objects (vram_file_closed f v)). fst k \<noteq> c) \<and>
    \<not> vram_issued (vram_file_closed f v) f c \<and>
    (\<forall>g d. g \<noteq> f \<longrightarrow> vram_issued (vram_file_closed f v) g d = vram_issued v g d)"
proof -
  obtain cs where cs: "map_of (vr_files v) f = Some cs" "c \<in> set cs"
    using assms by (auto simp: vram_issued_def split: option.splits)
  let ?v = "v\<lparr>vr_files := AList.delete f (vr_files v)\<rparr>"
  have r: "vram_file_closed f v = fold (\<lambda>c. vram_freed c c) cs ?v"
    by (simp add: vram_file_closed_def cs)
  have "vr_files (vram_file_closed f v) = AList.delete f (vr_files v)" using fold_freed [of ?v cs] unfolding r by simp
  then show ?thesis
    using cs(2) by (auto simp: r fold_freed_objects vram_issued_def delete_conv')
qed

lemma vram_file_closed_releases_witness:
  "\<not> vram_issued (vram_file_closed 7 (vram_client_opened 7 5 (vram_new None))) 7 5"
  by (rule vram_file_closed_releases [THEN conjunct2, THEN conjunct1])
    (simp add: vram_issued_def vram_client_opened_def vram_new_def)

end
