(* ===== verification/Aperture.thy ===== *)
theory Aperture
  imports BTree "HOL-Library.Product_Lexorder"
begin

text \<open>
  The UVM aperture (\<open>device/src/nvidia/aperture.rs\<close>): where each semaphore pool of the guest sits in the
  region the VMM offers. Errno values of a refusal are the left summand.
\<close>

abbreviation (input) APERTURE_LEN :: nat where "APERTURE_LEN \<equiv> 1073741824"
abbreviation (input) APERTURE_ALIGN :: nat where "APERTURE_ALIGN \<equiv> 2097152"
abbreviation (input) POOL_MAX_LEN :: nat where "POOL_MAX_LEN \<equiv> 67108864"
abbreviation (input) MAX_POOLS :: nat where "MAX_POOLS \<equiv> 64"
abbreviation (input) MAX_POOL_BYTES :: nat where "MAX_POOL_BYTES \<equiv> 268435456"
abbreviation (input) HVA_MIN :: nat where "HVA_MIN \<equiv> 4294967296"
abbreviation (input) HVA_MAX :: nat where "HVA_MAX \<equiv> 35184372088832"
abbreviation (input) EINVAL :: int where "EINVAL \<equiv> 22"
abbreviation (input) EEXIST :: int where "EEXIST \<equiv> 17"
abbreviation (input) ENOSPC :: int where "ENOSPC \<equiv> 28"

record pool =
  po_handle :: nat
  po_addr :: nat
  po_offset :: nat
  po_len :: nat

type_synonym aperture = "(nat \<times> pool) list"

definition div_ceil :: "nat \<Rightarrow> nat \<Rightarrow> nat" where
  "div_ceil a b = (a + b - 1) div b"

text \<open>The walk over the taken ranges in order, stopping at the first gap that holds \<open>len\<close>.\<close>

fun first_gap :: "nat \<Rightarrow> nat \<Rightarrow> (nat \<times> nat) list \<Rightarrow> nat" where
  "first_gap len p [] = p"
| "first_gap len p ((off, l) # taken) =
     (if p + len \<le> off then p
      else first_gap len (div_ceil (off + l) APERTURE_ALIGN * APERTURE_ALIGN) taken)"

definition ap_admit :: "aperture \<Rightarrow> nat \<Rightarrow> nat \<Rightarrow> nat \<Rightarrow> int + pool" where
  "ap_admit a handle addr len =
     (if len = 0 \<or> len mod 4096 \<noteq> 0 \<or> len > POOL_MAX_LEN \<or> addr mod 4096 \<noteq> 0 \<or> addr < HVA_MIN
         \<or> addr + len > u64_max \<or> addr + len > HVA_MAX
      then Inl EINVAL
      else
        let used = sum_list (map (po_len \<circ> snd) a) in
        if length a \<ge> MAX_POOLS \<or> used + len > MAX_POOL_BYTES then Inl ENOSPC
        else if \<exists>p \<in> set (map snd a). po_addr p < addr + len \<and> addr < po_addr p + po_len p then Inl EEXIST
        else
          let at0 = first_gap len 0 (sort (map (\<lambda>(_, p). (po_offset p, po_len p)) a)) in
          if at0 + len > APERTURE_LEN then Inl ENOSPC
          else Inr \<lparr>po_handle = handle, po_addr = addr, po_offset = at0, po_len = len\<rparr>)"

definition ap_insert :: "nat \<Rightarrow> pool \<Rightarrow> aperture \<Rightarrow> aperture" where
  "ap_insert i p a = bt_insert i p a"

definition ap_remove :: "nat \<Rightarrow> aperture \<Rightarrow> pool option \<times> aperture" where
  "ap_remove i a = (map_of a i, bt_remove i a)"

fun ap_remove_ids :: "nat list \<Rightarrow> aperture \<Rightarrow> (nat \<times> pool) list \<times> aperture" where
  "ap_remove_ids [] a = ([], a)"
| "ap_remove_ids (i # ks) a =
     (case ap_remove i a of (found, a') \<Rightarrow>
        case ap_remove_ids ks a' of (ps, a'') \<Rightarrow>
          (case found of None \<Rightarrow> ps | Some p \<Rightarrow> (i, p) # ps, a''))"

definition ap_take_for_handle :: "nat \<Rightarrow> aperture \<Rightarrow> (nat \<times> pool) list \<times> aperture" where
  "ap_take_for_handle h a = ap_remove_ids (map fst (filter (\<lambda>(_, p). po_handle p = h) a)) a"

definition ap_take_all :: "aperture \<Rightarrow> (nat \<times> pool) list \<times> aperture" where
  "ap_take_all a = (a, [])"

section \<open>What the aperture keeps\<close>

definition pool_ok :: "pool \<Rightarrow> bool" where
  "pool_ok p \<longleftrightarrow> 0 < po_len p \<and> po_len p \<le> POOL_MAX_LEN \<and> po_len p mod 4096 = 0 \<and>
     po_offset p mod APERTURE_ALIGN = 0 \<and> po_offset p + po_len p \<le> APERTURE_LEN \<and>
     po_addr p mod 4096 = 0 \<and> HVA_MIN \<le> po_addr p \<and> po_addr p + po_len p \<le> HVA_MAX"

definition pools_apart :: "pool \<Rightarrow> pool \<Rightarrow> bool" where
  "pools_apart p q \<longleftrightarrow>
     (po_offset p + po_len p \<le> po_offset q \<or> po_offset q + po_len q \<le> po_offset p) \<and>
     (po_addr p + po_len p \<le> po_addr q \<or> po_addr q + po_len q \<le> po_addr p)"

definition ap_inv :: "aperture \<Rightarrow> bool" where
  "ap_inv a \<longleftrightarrow> bt_sorted a \<and> (\<forall>(i, p) \<in> set a. pool_ok p) \<and>
     (\<forall>(i, p) \<in> set a. \<forall>(j, q) \<in> set a. i \<noteq> j \<longrightarrow> pools_apart p q) \<and>
     length a \<le> MAX_POOLS \<and> sum_list (map (po_len \<circ> snd) a) \<le> MAX_POOL_BYTES"

text \<open>The gap found lies clear of every range taken, whatever the ranges' order of allocation.\<close>

lemma div_ceil_up: "n \<le> div_ceil n APERTURE_ALIGN * APERTURE_ALIGN"
  by (simp add: div_ceil_def)

lemma div_ceil_least: "n \<le> m \<Longrightarrow> m mod APERTURE_ALIGN = 0 \<Longrightarrow> div_ceil n APERTURE_ALIGN * APERTURE_ALIGN \<le> m"
proof -
  assume n: "n \<le> m" and "m mod APERTURE_ALIGN = 0"
  then obtain k where k: "m = APERTURE_ALIGN * k" by (auto elim: dvdE simp: mod_eq_0_iff_dvd)
  have "(n + 2097151) div 2097152 \<le> (m + 2097151) div 2097152" using n by (intro div_le_mono) simp
  also have "\<dots> = k" unfolding k by simp
  finally show ?thesis unfolding div_ceil_def k by simp
qed

lemma first_gap_clear:
  assumes "sorted_wrt (\<lambda>x y. fst x + snd x \<le> fst y) taken"
    "\<And>x. x \<in> set taken \<Longrightarrow> p \<le> fst x \<and> fst x mod APERTURE_ALIGN = 0" "p mod APERTURE_ALIGN = 0"
  shows "p \<le> first_gap len p taken \<and> first_gap len p taken mod APERTURE_ALIGN = 0 \<and>
    (\<forall>x \<in> set taken. first_gap len p taken + len \<le> fst x \<or> fst x + snd x \<le> first_gap len p taken)"
  using assms
proof (induction len p taken rule: first_gap.induct)
  case (2 len p off l taken)
  have after: "\<And>x. x \<in> set taken \<Longrightarrow> off + l \<le> fst x" using 2(2) by auto
  have al: "\<And>x. x \<in> set taken \<Longrightarrow> fst x mod APERTURE_ALIGN = 0" using 2(3) by auto
  have p: "p \<le> off" using 2(3) [of "(off, l)"] by simp
  show ?case
  proof (cases "p + len \<le> off")
    case True
    have "\<forall>x \<in> set ((off, l) # taken). p + len \<le> fst x" using True after by fastforce
    with True 2(4) show ?thesis by simp
  next
    case False
    let ?p = "div_ceil (off + l) APERTURE_ALIGN * APERTURE_ALIGN"
    have u: "off + l \<le> ?p" by (rule div_ceil_up)
    have "?p \<le> fst x \<and> fst x mod APERTURE_ALIGN = 0" if "x \<in> set taken" for x
      using div_ceil_least [OF after [OF that] al [OF that]] al [OF that] by blast
    moreover have "sorted_wrt (\<lambda>x y. fst x + snd x \<le> fst y) taken" using 2(2) by simp
    ultimately have ih: "?p \<le> first_gap len ?p taken \<and> first_gap len ?p taken mod APERTURE_ALIGN = 0 \<and>
      (\<forall>x \<in> set taken. first_gap len ?p taken + len \<le> fst x \<or> fst x + snd x \<le> first_gap len ?p taken)"
      by (intro 2(1) [OF False]) simp_all
    have e: "first_gap len p ((off, l) # taken) = first_gap len ?p taken" using False by simp
    show ?thesis unfolding e using ih u p by auto
  qed
qed simp

lemma ap_taken_sorted:
  assumes "ap_inv a"
  shows "sorted_wrt (\<lambda>x y. fst x + snd x \<le> fst y) (sort (map (\<lambda>(_, p). (po_offset p, po_len p)) a))"
proof -
  let ?xs = "map (\<lambda>(_, p). (po_offset p, po_len p)) a"
  have d: "distinct (map fst a)" using assms by (auto simp: ap_inv_def strict_sorted_iff)
  have apart: "fst x + snd x \<le> fst y \<or> fst y + snd y \<le> fst x"
    if x: "x \<in> set ?xs" and y: "y \<in> set ?xs" and "x \<noteq> y" for x y
  proof -
    obtain i p where p: "(i, p) \<in> set a" "x = (po_offset p, po_len p)" using x by auto
    obtain j q where q: "(j, q) \<in> set a" "y = (po_offset q, po_len q)" using y by auto
    have "i \<noteq> j" using p q \<open>x \<noteq> y\<close> d by (metis eq_key_imp_eq_value)
    then have "pools_apart p q" using assms p(1) q(1) unfolding ap_inv_def by blast
    then show ?thesis by (auto simp: pools_apart_def p(2) q(2))
  qed
  have pos: "0 < snd x" if "x \<in> set ?xs" for x
    using that assms by (auto simp: ap_inv_def pool_ok_def)
  have "distinct ?xs"
  proof -
    have "(\<lambda>(_, p). (po_offset p, po_len p)) u \<noteq> (\<lambda>(_, p). (po_offset p, po_len p)) w"
      if "u \<in> set a" "w \<in> set a" "u \<noteq> w" for u w
    proof -
      obtain i p j q where e: "u = (i, p)" "w = (j, q)" by (cases u; cases w)
      have "i \<noteq> j" using that e d by (metis eq_key_imp_eq_value)
      then have "pools_apart p q" "pool_ok p" "pool_ok q" using assms that e unfolding ap_inv_def by blast+
      then show ?thesis by (auto simp: e pools_apart_def pool_ok_def)
    qed
    then have "inj_on (\<lambda>(_, p). (po_offset p, po_len p)) (set a)" unfolding inj_on_def by blast
    then show ?thesis using d by (simp add: distinct_map)
  qed
  then have "sorted_wrt (<) (sort ?xs)" by (simp add: strict_sorted_iff)
  then show ?thesis
  proof (rule sorted_wrt_mono_rel [rotated])
    fix x y assume m: "x \<in> set (sort ?xs)" "y \<in> set (sort ?xs)" and lt: "x < y"
    then show "fst x + snd x \<le> fst y"
      using apart [of x y] pos [of x] pos [of y] by (auto simp: less_prod_def)
  qed
qed

lemma ap_admit_ok:
  assumes inv: "ap_inv a" and ad: "ap_admit a h addr len = Inr p"
  shows "pool_ok p" "\<forall>(i, q) \<in> set a. pools_apart p q" "length a < MAX_POOLS"
    "sum_list (map (po_len \<circ> snd) a) + po_len p \<le> MAX_POOL_BYTES"
    "po_handle p = h" "po_addr p = addr" "po_len p = len"
proof -
  let ?taken = "sort (map (\<lambda>(_, p). (po_offset p, po_len p)) a)"
  define g where "g = first_gap len 0 ?taken"
  have c: "0 < len" "len mod 4096 = 0" "len \<le> POOL_MAX_LEN" "addr mod 4096 = 0" "HVA_MIN \<le> addr" "addr + len \<le> HVA_MAX"
    "length a < MAX_POOLS" "sum_list (map (po_len \<circ> snd) a) + len \<le> MAX_POOL_BYTES"
    "\<not> (\<exists>p \<in> set (map snd a). po_addr p < addr + len \<and> addr < po_addr p + po_len p)"
    "g + len \<le> APERTURE_LEN" "p = \<lparr>po_handle = h, po_addr = addr, po_offset = g, po_len = len\<rparr>"
    using ad unfolding ap_admit_def Let_def g_def [symmetric] by (auto split: if_splits)
  have al: "0 \<le> fst x \<and> fst x mod APERTURE_ALIGN = 0" if "x \<in> set ?taken" for x
    using that inv by (auto simp: ap_inv_def pool_ok_def)
  have gap: "g mod APERTURE_ALIGN = 0 \<and> (\<forall>x \<in> set ?taken. g + len \<le> fst x \<or> fst x + snd x \<le> g)"
    using first_gap_clear [OF ap_taken_sorted [OF inv] al, of len] unfolding g_def by simp
  show "pool_ok p" using c gap by (simp add: pool_ok_def)
  show "\<forall>(i, q) \<in> set a. pools_apart p q"
  proof (clarify)
    fix i q assume m: "(i, q) \<in> set a"
    then have "(po_offset q, po_len q) \<in> set ?taken" by force
    with gap have "g + len \<le> po_offset q \<or> po_offset q + po_len q \<le> g" by fastforce
    moreover have "\<not> (po_addr q < addr + len \<and> addr < po_addr q + po_len q)" using c(9) m by force
    ultimately show "pools_apart p q" by (auto simp: pools_apart_def c(11))
  qed
  show "length a < MAX_POOLS" "sum_list (map (po_len \<circ> snd) a) + po_len p \<le> MAX_POOL_BYTES"
    "po_handle p = h" "po_addr p = addr" "po_len p = len" using c by simp_all
qed

lemma set_bt_insert_new:
  "i \<notin> fst ` set a \<Longrightarrow> set (bt_insert i p a) = insert (i, p) (set a) \<and>
     length (bt_insert i p a) = Suc (length a) \<and>
     sum_list (map f (bt_insert i p a)) = f (i, p) + (sum_list (map f a) :: nat)"
  by (induction i p a rule: bt_insert.induct) (auto simp: image_iff)

lemma ap_inv_filter: "ap_inv a \<Longrightarrow> ap_inv (filter P a)"
proof -
  assume inv: "ap_inv a"
  have "bt_sorted a" using inv by (simp add: ap_inv_def)
  then have "bt_sorted (filter P a)" by (induction a) auto
  moreover have "sum_list (map (po_len \<circ> snd) (filter P a)) \<le> sum_list (map (po_len \<circ> snd) a)" by (induction a) auto
  moreover have "length (filter P a) \<le> length a" by simp
  moreover have "\<forall>(i, p) \<in> set (filter P a). pool_ok p"
    "\<forall>(i, p) \<in> set (filter P a). \<forall>(j, q) \<in> set (filter P a). i \<noteq> j \<longrightarrow> pools_apart p q"
    using inv unfolding ap_inv_def by auto
  ultimately show "ap_inv (filter P a)" using inv unfolding ap_inv_def by linarith
qed

text \<open>A pool placed under an id in use takes the place of the other, and the ranges stay apart.\<close>

lemma ap_inv_place:
  assumes inv: "ap_inv a" and ad: "ap_admit a h addr len = Inr p"
  shows "ap_inv (ap_insert i p a)"
proof -
  let ?a = "bt_remove i a"
  note ok = ap_admit_ok [OF inv ad]
  have sub: "set ?a \<subseteq> set a" and new: "i \<notin> fst ` set ?a" by (auto simp: bt_remove_def)
  have inv': "ap_inv ?a" unfolding bt_remove_def by (rule ap_inv_filter [OF inv])
  have "length ?a \<le> length a" by (simp add: bt_remove_def)
  moreover have "sum_list (map (po_len \<circ> snd) ?a) \<le> sum_list (map (po_len \<circ> snd) a)"
    unfolding bt_remove_def by (induction a) auto
  ultimately have le: "length ?a < MAX_POOLS" "sum_list (map (po_len \<circ> snd) ?a) + po_len p \<le> MAX_POOL_BYTES"
    using ok(3,4) by linarith+
  have e: "ap_insert i p a = bt_insert i p ?a" using inv bt_insert_again [of a i p] by (simp add: ap_insert_def ap_inv_def)
  note st = set_bt_insert_new [OF new, of p "po_len \<circ> snd"]
  have sym: "pools_apart q p" if "pools_apart p q" for q using that by (auto simp: pools_apart_def)
  have "\<forall>(j, q) \<in> insert (i, p) (set ?a). \<forall>(k, r) \<in> insert (i, p) (set ?a). j \<noteq> k \<longrightarrow> pools_apart q r"
    using inv' ok(2) sym sub unfolding ap_inv_def by blast
  moreover have "bt_sorted (bt_insert i p ?a)" using inv' by (auto simp: ap_inv_def intro: bt_sorted_insert)
  moreover have "\<forall>(j, q) \<in> insert (i, p) (set ?a). pool_ok q" using inv' ok(1) unfolding ap_inv_def by blast
  ultimately show ?thesis using st le by (simp add: ap_inv_def e)
qed

lemma ap_remove_ids_inv: "ap_inv a \<Longrightarrow> ap_inv (snd (ap_remove_ids ks a))"
proof (induction ks arbitrary: a)
  case (Cons i ks)
  have "ap_inv (bt_remove i a)" unfolding bt_remove_def by (rule ap_inv_filter [OF Cons(2)])
  from Cons(1) [OF this] show ?case by (simp add: ap_remove_def case_prod_beta)
qed simp

lemma ap_remove_ids_spec:
  "keys_distinct a \<Longrightarrow> set (fst (ap_remove_ids ks a)) = {x \<in> set a. fst x \<in> set ks} \<and>
     snd (ap_remove_ids ks a) = filter (\<lambda>x. fst x \<notin> set ks) a"
proof (induction ks arbitrary: a)
  case (Cons i ks)
  let ?a = "bt_remove i a"
  have d: "keys_distinct ?a" using Cons.prems by (simp add: bt_remove_def distinct_map_filter)
  have m: "map_of a i = Some p \<longleftrightarrow> (i, p) \<in> set a" for p using Cons.prems by simp
  have s: "set (fst (ap_remove_ids (i # ks) a)) = (case map_of a i of None \<Rightarrow> {} | Some p \<Rightarrow> {(i, p)}) \<union> set (fst (ap_remove_ids ks ?a))"
    by (simp add: ap_remove_def case_prod_beta split: option.splits)
  have "(case map_of a i of None \<Rightarrow> {} | Some p \<Rightarrow> {(i, p)}) = {x \<in> set a. fst x = i}"
  proof (cases "map_of a i")
    case None
    then have "i \<notin> fst ` set a" by (simp add: map_of_eq_None_iff)
    with None show ?thesis by (force simp: image_iff)
  next
    case (Some p)
    then have e: "(i, q) \<in> set a \<longleftrightarrow> q = p" for q using m [of q] by auto
    then have "{x \<in> set a. fst x = i} = {(i, p)}" by force
    with Some show ?thesis by simp
  qed
  with s Cons.IH [OF d] have "set (fst (ap_remove_ids (i # ks) a)) = {x \<in> set a. fst x \<in> set (i # ks)}"
    by (auto simp: bt_remove_def)
  moreover have "snd (ap_remove_ids (i # ks) a) = filter (\<lambda>x. fst x \<notin> set ks) ?a"
    using Cons.IH [OF d] by (simp add: ap_remove_def case_prod_beta)
  then have "snd (ap_remove_ids (i # ks) a) = filter (\<lambda>x. fst x \<notin> set (i # ks)) a"
    by (auto simp: bt_remove_def case_prod_beta intro!: filter_cong)
  ultimately show ?case by blast
qed simp

lemma ap_inv_distinct: "ap_inv a \<Longrightarrow> keys_distinct a"
  by (auto simp: ap_inv_def strict_sorted_iff)

lemma ap_take_for_handle_spec:
  assumes "ap_inv a"
  shows "set (fst (ap_take_for_handle h a)) = {x \<in> set a. po_handle (snd x) = h}"
    "snd (ap_take_for_handle h a) = filter (\<lambda>x. po_handle (snd x) \<noteq> h) a"
proof -
  let ?ks = "map fst (filter (\<lambda>(_, p). po_handle p = h) a)"
  have k: "fst x \<in> set ?ks \<longleftrightarrow> po_handle (snd x) = h" if x: "x \<in> set a" for x
  proof -
    have "y = x" if "y \<in> set a" "fst y = fst x" for y
      using that x ap_inv_distinct [OF assms] by (metis distinct_map inj_onD)
    then show ?thesis using x by (force simp: case_prod_beta)
  qed
  note spec = ap_remove_ids_spec [OF ap_inv_distinct [OF assms], of ?ks, folded ap_take_for_handle_def]
  show "set (fst (ap_take_for_handle h a)) = {x \<in> set a. po_handle (snd x) = h}" using spec k by blast
  show "snd (ap_take_for_handle h a) = filter (\<lambda>x. po_handle (snd x) \<noteq> h) a"
    using spec k by (metis (mono_tags, lifting) filter_cong)
qed

text \<open>Two pools of the books differ in where they start.\<close>

lemma ap_inv_offset:
  assumes "ap_inv a" "(i, p) \<in> set a" "(j, q) \<in> set a" "po_offset p = po_offset q"
  shows "(i, p) = (j, q)"
proof (cases "i = j")
  case True
  with assms(2,3) ap_inv_distinct [OF assms(1)] show ?thesis by (metis eq_key_imp_eq_value)
next
  case False
  then have "pools_apart p q" "pool_ok p" "pool_ok q" using assms(1-3) unfolding ap_inv_def by blast+
  with assms(4) show ?thesis by (auto simp: pools_apart_def pool_ok_def)
qed

text \<open>The aperture's history: pools placed under the ids the backend chose, and taken out again.\<close>

datatype ap_op = Place nat nat nat nat \<comment> \<open>id, handle, address, length\<close> | Unplace nat | CloseHandle nat

fun ap_step :: "ap_op \<Rightarrow> aperture \<Rightarrow> aperture" where
  "ap_step (Place i h addr len) a =
     (case ap_admit a h addr len of Inl _ \<Rightarrow> a | Inr p \<Rightarrow> if map_of a i = None then ap_insert i p a else a)"
| "ap_step (Unplace i) a = snd (ap_remove i a)"
| "ap_step (CloseHandle h) a = snd (ap_take_for_handle h a)"

lemma ap_step_inv: "ap_inv a \<Longrightarrow> ap_inv (ap_step op a)"
proof (cases op)
  case (Place i h addr len)
  assume inv: "ap_inv a"
  show ?thesis
  proof (cases "ap_admit a h addr len")
    case (Inr p)
    with ap_inv_place [OF inv Inr, of i] inv Place show ?thesis by simp
  qed (use Place inv in simp)
qed (auto simp: ap_remove_def bt_remove_def ap_inv_filter ap_take_for_handle_def ap_remove_ids_inv)

lemma ap_run_inv: "ap_inv a \<Longrightarrow> ap_inv (fold ap_step ops a)"
  by (induction ops arbitrary: a) (simp_all add: ap_step_inv)

section \<open>Properties\<close>

text \<open>Over any history of placements and removals, the pools in the aperture stay within it on 2 MiB
  boundaries, no two share a byte of the aperture or of the host address band, each address range is
  in that band, and the caps on their number and total size hold.\<close>

theorem aperture_pools_disjoint:
  assumes "a = fold ap_step ops []"
  shows "(\<forall>(i, p) \<in> set a. po_offset p mod APERTURE_ALIGN = 0 \<and> po_offset p + po_len p \<le> APERTURE_LEN \<and>
      HVA_MIN \<le> po_addr p \<and> po_addr p + po_len p \<le> HVA_MAX) \<and>
    (\<forall>(i, p) \<in> set a. \<forall>(j, q) \<in> set a. i \<noteq> j \<longrightarrow>
      {po_offset p..<po_offset p + po_len p} \<inter> {po_offset q..<po_offset q + po_len q} = {} \<and>
      {po_addr p..<po_addr p + po_len p} \<inter> {po_addr q..<po_addr q + po_len q} = {}) \<and>
    length a \<le> MAX_POOLS \<and> sum_list (map (po_len \<circ> snd) a) \<le> MAX_POOL_BYTES"
proof -
  have inv: "ap_inv a" unfolding assms by (rule ap_run_inv) (simp add: ap_inv_def)
  have ok: "pool_ok p" if "(i, p) \<in> set a" for i p using inv that unfolding ap_inv_def by blast
  have "pools_apart p q" if "(i, p) \<in> set a" "(j, q) \<in> set a" "i \<noteq> j" for i p j q
    using inv that unfolding ap_inv_def by blast
  then have "{po_offset p..<po_offset p + po_len p} \<inter> {po_offset q..<po_offset q + po_len q} = {} \<and>
      {po_addr p..<po_addr p + po_len p} \<inter> {po_addr q..<po_addr q + po_len q} = {}"
    if "(i, p) \<in> set a" "(j, q) \<in> set a" "i \<noteq> j" for i p j q
    using that by (fastforce simp: pools_apart_def)
  then show ?thesis using inv ok unfolding pool_ok_def ap_inv_def by fast
qed

lemma aperture_pools_disjoint_witness:
  "length (fold ap_step [Place 1 9 4294967296 4096, Place 2 9 4294971392 8192, Unplace 1] []) \<le> MAX_POOLS \<and>
   fold ap_step [Place 1 9 4294967296 4096, Place 2 9 4294971392 8192, Unplace 1] [] =
     [(2, \<lparr>po_handle = 9, po_addr = 4294971392, po_offset = 2097152, po_len = 8192\<rparr>)]"
proof -
  have "fold ap_step [Place 1 9 4294967296 4096, Place 2 9 4294971392 8192, Unplace 1] [] =
     [(2, \<lparr>po_handle = 9, po_addr = 4294971392, po_offset = 2097152, po_len = 8192\<rparr>)]"
    by (simp add: ap_admit_def Let_def div_ceil_def ap_insert_def ap_remove_def bt_remove_def)
  with aperture_pools_disjoint [OF refl, of "[Place 1 9 4294967296 4096, Place 2 9 4294971392 8192, Unplace 1]"]
  show ?thesis by blast
qed

end
