(* ===== verification/GuestMem.thy ===== *)
theory GuestMem
  imports PageRuns
begin

text \<open>
  Building one host address over a guest's pages (\<open>stitch\<close>, \<open>device/src/guestmem.rs\<close>). The transport's
  \<open>GuestRam::backing\<close> is an argument: where a guest-physical address lives, as a file, an offset and the bytes
  left in that region. The two \<open>mmap\<close> calls are arguments too: the base the reservation got, if any,
  and whether the mapping of each run succeeded. The result lists what was mapped over the reservation.
\<close>

abbreviation (input) MAX_BYTES :: nat where "MAX_BYTES \<equiv> 268435456"

record backing =
  bk_fd :: nat
  bk_offset :: nat
  bk_len :: nat

record placed =
  pl_at :: nat
  pl_len :: nat
  pl_fd :: nat
  pl_offset :: nat

record stitched =
  st_addr :: nat
  st_len :: nat
  st_map :: "placed list"

datatype stitch_error =
    NoPages | TooManyRuns nat | BadSize nat | NotWholePages nat
  | RunEmpty nat | RunNotPages nat | RunWraps nat | TotalWraps | TotalMismatch nat
  | ReserveFailed | NotGuestRam nat | RunLeavesRegion nat | MapFailed nat

fun check_runs :: "nat \<Rightarrow> nat \<Rightarrow> run list \<Rightarrow> stitch_error + nat" where
  "check_runs i tot [] = Inr tot"
| "check_runs i tot (r # rs) =
     (if run_len r = 0 then Inl (RunEmpty i)
      else if run_gpa r mod 4096 \<noteq> 0 \<or> run_len r mod 4096 \<noteq> 0 then Inl (RunNotPages i)
      else if run_gpa r + run_len r > u64_max then Inl (RunWraps i)
      else if tot + run_len r > u64_max then Inl TotalWraps
      else check_runs (Suc i) (tot + run_len r) rs)"

fun place_runs ::
  "(nat \<Rightarrow> backing option) \<Rightarrow> (nat \<Rightarrow> bool) \<Rightarrow> nat \<Rightarrow> nat \<Rightarrow> run list \<Rightarrow> stitch_error + placed list" where
  "place_runs ram mapped i p [] = Inr []"
| "place_runs ram mapped i p (r # rs) =
     (case ram (run_gpa r) of
        None \<Rightarrow> Inl (NotGuestRam i)
      | Some b \<Rightarrow>
          if run_len r > bk_len b then Inl (RunLeavesRegion i)
          else if \<not> mapped i then Inl (MapFailed i)
          else (case place_runs ram mapped (Suc i) (p + run_len r) rs of
                  Inl e \<Rightarrow> Inl e
                | Inr ps \<Rightarrow>
                    Inr (\<lparr>pl_at = p, pl_len = run_len r, pl_fd = bk_fd b, pl_offset = bk_offset b\<rparr> # ps)))"

definition stitch ::
  "(nat \<Rightarrow> backing option) \<Rightarrow> nat option \<Rightarrow> (nat \<Rightarrow> bool) \<Rightarrow> run list \<Rightarrow> nat \<Rightarrow> stitch_error + stitched" where
  "stitch ram reserved mapped runs want =
     (if runs = [] then Inl NoPages
      else if length runs > MAX_RUNS then Inl (TooManyRuns (length runs))
      else if want = 0 \<or> want > MAX_BYTES then Inl (BadSize want)
      else if want mod 4096 \<noteq> 0 then Inl (NotWholePages want)
      else case check_runs 0 0 runs of
        Inl e \<Rightarrow> Inl e
      | Inr tot \<Rightarrow>
          if tot \<noteq> want then Inl (TotalMismatch tot)
          else (case reserved of
                  None \<Rightarrow> Inl ReserveFailed
                | Some base \<Rightarrow>
                    (case place_runs ram mapped 0 0 runs of
                       Inl e \<Rightarrow> Inl e
                     | Inr ps \<Rightarrow> Inr \<lparr>st_addr = base, st_len = want, st_map = ps\<rparr>)))"

section \<open>Which guest byte is where\<close>

text \<open>The guest-physical address of byte \<open>k\<close> of the registration, and what the span shows at byte \<open>k\<close>.\<close>

fun run_byte :: "run list \<Rightarrow> nat \<Rightarrow> nat option" where
  "run_byte [] k = None"
| "run_byte (r # rs) k = (if k < run_len r then Some (run_gpa r + k) else run_byte rs (k - run_len r))"

definition span_byte :: "placed list \<Rightarrow> nat \<Rightarrow> (nat \<times> nat) option" where
  "span_byte ps k =
     map_option (\<lambda>p. (pl_fd p, pl_offset p + (k - pl_at p))) (find (\<lambda>p. pl_at p \<le> k \<and> k < pl_at p + pl_len p) ps)"

text \<open>A memory table in which a region's bytes follow each other in its file.\<close>

definition ram_linear :: "(nat \<Rightarrow> backing option) \<Rightarrow> bool" where
  "ram_linear ram \<longleftrightarrow> (\<forall>g b d. ram g = Some b \<and> d < bk_len b \<longrightarrow>
     ram (g + d) = Some \<lparr>bk_fd = bk_fd b, bk_offset = bk_offset b + d, bk_len = bk_len b - d\<rparr>)"

lemma check_runs_ok:
  "check_runs i tot rs = Inr n \<Longrightarrow>
   n = tot + sum_list (map run_len rs) \<and>
   (\<forall>r \<in> set rs. 0 < run_len r \<and> run_gpa r mod 4096 = 0 \<and> run_len r mod 4096 = 0 \<and> run_gpa r + run_len r < 2 ^ 64)"
proof (induction rs arbitrary: i tot)
  case (Cons r rs)
  have r: "run_len r \<noteq> 0" "run_gpa r mod 4096 = 0" "run_len r mod 4096 = 0" "run_gpa r + run_len r < 2 ^ 64"
    and rest: "check_runs (Suc i) (tot + run_len r) rs = Inr n"
    using Cons(2) by (simp_all split: if_splits)
  from Cons(1) [OF rest] r show ?case by simp
qed simp

lemma place_runs_Cons:
  assumes "place_runs ram mapped i p (r # rs) = Inr ps"
  obtains b ps' where "ram (run_gpa r) = Some b" "run_len r \<le> bk_len b"
    "place_runs ram mapped (Suc i) (p + run_len r) rs = Inr ps'"
    "ps = \<lparr>pl_at = p, pl_len = run_len r, pl_fd = bk_fd b, pl_offset = bk_offset b\<rparr> # ps'"
  using assms by (auto split: option.splits if_splits sum.splits)

lemma place_runs_at:
  "place_runs ram mapped i p rs = Inr ps \<Longrightarrow> x \<in> set ps \<Longrightarrow>
   p \<le> pl_at x \<and> pl_at x + pl_len x \<le> p + sum_list (map run_len rs)"
proof (induction rs arbitrary: i p ps)
  case (Cons r rs)
  obtain b ps' where "ram (run_gpa r) = Some b" "run_len r \<le> bk_len b"
    and ps': "place_runs ram mapped (Suc i) (p + run_len r) rs = Inr ps'"
    and ps: "ps = \<lparr>pl_at = p, pl_len = run_len r, pl_fd = bk_fd b, pl_offset = bk_offset b\<rparr> # ps'"
    by (rule place_runs_Cons [OF Cons(2)])
  show ?case
  proof (cases "x \<in> set ps'")
    case True
    from Cons(1) [OF ps' this] show ?thesis by simp
  qed (use Cons(3) ps in simp)
qed simp

lemma place_runs_byte:
  assumes "ram_linear ram"
  shows "place_runs ram mapped i p rs = Inr ps \<Longrightarrow> k < sum_list (map run_len rs) \<Longrightarrow>
    \<exists>g b. run_byte rs k = Some g \<and> ram g = Some b \<and> span_byte ps (p + k) = Some (bk_fd b, bk_offset b)"
proof (induction rs arbitrary: i p ps k)
  case (Cons r rs)
  obtain b ps' where b: "ram (run_gpa r) = Some b" "run_len r \<le> bk_len b"
    and ps': "place_runs ram mapped (Suc i) (p + run_len r) rs = Inr ps'"
    and ps: "ps = \<lparr>pl_at = p, pl_len = run_len r, pl_fd = bk_fd b, pl_offset = bk_offset b\<rparr> # ps'"
    by (rule place_runs_Cons [OF Cons(2)])
  show ?case
  proof (cases "k < run_len r")
    case True
    with b have "ram (run_gpa r + k) = Some \<lparr>bk_fd = bk_fd b, bk_offset = bk_offset b + k, bk_len = bk_len b - k\<rparr>"
      using assms unfolding ram_linear_def by auto
    with True show ?thesis by (simp add: ps span_byte_def)
  next
    case False
    have k: "k - run_len r < sum_list (map run_len rs)" using Cons(3) False by simp
    have e: "p + run_len r + (k - run_len r) = p + k" using False by simp
    from Cons(1) [OF ps' k] False show ?thesis by (simp add: ps span_byte_def e)
  qed
qed simp

section \<open>Properties\<close>

text \<open>A span handed to RM is exactly the guest's memory that was sent: as long as the pages, within one region
  run by run, and every byte of it is the byte of guest memory at the same place of the registration.\<close>

theorem stitch_aliases_exactly:
  assumes "ram_linear ram" "stitch ram reserved mapped runs want = Inr s"
  shows "st_len s = want \<and> sum_list (map run_len runs) = want \<and> want mod 4096 = 0 \<and>
    (\<forall>p \<in> set (st_map s). pl_at p + pl_len p \<le> want) \<and>
    (\<forall>k < want. \<exists>g b. run_byte runs k = Some g \<and> ram g = Some b \<and>
       span_byte (st_map s) k = Some (bk_fd b, bk_offset b))"
proof -
  obtain base ps where c: "check_runs 0 0 runs = Inr want" "want mod 4096 = 0"
    and pl: "place_runs ram mapped 0 0 runs = Inr ps" and s: "s = \<lparr>st_addr = base, st_len = want, st_map = ps\<rparr>"
    using assms(2) by (auto simp: stitch_def split: if_splits sum.splits option.splits)
  have w: "sum_list (map run_len runs) = want" using check_runs_ok [OF c(1)] by simp
  have "\<forall>k < want. \<exists>g b. run_byte runs k = Some g \<and> ram g = Some b \<and> span_byte ps k = Some (bk_fd b, bk_offset b)"
    using place_runs_byte [OF assms(1) pl] w by simp
  moreover have "\<forall>p \<in> set ps. pl_at p + pl_len p \<le> want" using place_runs_at [OF pl] w by simp
  ultimately show ?thesis using c(2) w by (simp add: s)
qed

lemma stitch_aliases_exactly_witness:
  "span_byte [\<lparr>pl_at = 0, pl_len = 4096, pl_fd = 3, pl_offset = 8192\<rparr>] 5 = Some (3, 8197)"
proof -
  let ?ram = "\<lambda>g :: nat. if g < 16384 then Some \<lparr>bk_fd = 3, bk_offset = g, bk_len = 16384 - g\<rparr> else None"
  let ?runs = "[\<lparr>run_gpa = 8192, run_len = 4096\<rparr>]"
  let ?s = "\<lparr>st_addr = 0, st_len = 4096, st_map = [\<lparr>pl_at = 0, pl_len = 4096, pl_fd = 3, pl_offset = 8192\<rparr>]\<rparr>"
  have "stitch ?ram (Some 0) (\<lambda>_. True) ?runs 4096 = Inr ?s" by (simp add: stitch_def)
  moreover have "ram_linear ?ram" by (auto simp: ram_linear_def split: if_splits)
  ultimately have "\<exists>g b. run_byte ?runs 5 = Some g \<and> ?ram g = Some b \<and> span_byte (st_map ?s) 5 = Some (bk_fd b, bk_offset b)"
    using stitch_aliases_exactly [of ?ram "Some 0" "\<lambda>_. True" ?runs 4096 ?s] by fastforce
  then show ?thesis by auto
qed

end
