(* ===== verification/DriverVersions.thy ===== *)
theory DriverVersions
  imports Caps
begin

text \<open>
  Driver versions (\<open>gen/src/version.rs\<close>), the choice of a release's table by range, and the search in
  a sorted table (the \<open>select\<close>, \<open>table_for\<close> and \<open>find\<close> functions that the modules of \<open>gen/src\<close> share).
  Both are interfaces: \<open>version_profiles\<close> and \<open>sorted_table\<close>, interpreted by each table theory.
\<close>

datatype driver_version = DriverVersion (dv_major: nat) (dv_minor: nat) (dv_patch: nat)

text \<open>The derived \<open>Ord\<close>: field by field in declaration order.\<close>

instantiation driver_version :: linorder
begin

definition less_driver_version :: "driver_version \<Rightarrow> driver_version \<Rightarrow> bool" where
  "less_driver_version v w \<longleftrightarrow>
     dv_major v < dv_major w \<or>
     dv_major v = dv_major w \<and> (dv_minor v < dv_minor w \<or> dv_minor v = dv_minor w \<and> dv_patch v < dv_patch w)"

definition less_eq_driver_version :: "driver_version \<Rightarrow> driver_version \<Rightarrow> bool" where
  "less_eq_driver_version v w \<longleftrightarrow> v < w \<or> v = (w :: driver_version)"

instance
proof
  fix x y z :: driver_version
  show "x < y \<longleftrightarrow> x \<le> y \<and> \<not> y \<le> x"
    by (cases x; cases y) (auto simp: less_driver_version_def less_eq_driver_version_def)
  show "x \<le> x" by (simp add: less_eq_driver_version_def)
  show "x \<le> y \<Longrightarrow> y \<le> z \<Longrightarrow> x \<le> z"
    by (cases x; cases y; cases z) (auto simp: less_driver_version_def less_eq_driver_version_def)
  show "x \<le> y \<Longrightarrow> y \<le> x \<Longrightarrow> x = y"
    by (cases x; cases y) (auto simp: less_driver_version_def less_eq_driver_version_def)
  show "x \<le> y \<or> y \<le> x"
    by (cases x; cases y) (auto simp: less_driver_version_def less_eq_driver_version_def)
qed

end

text \<open>Decimal digits, and \<open>u32::from_str\<close>: an optional plus sign, at least one digit, no overflow.\<close>

definition is_digit :: "char \<Rightarrow> bool" where
  "is_digit c \<longleftrightarrow> 48 \<le> (of_char c :: nat) \<and> (of_char c :: nat) \<le> 57"

definition digit_value :: "char \<Rightarrow> nat" where
  "digit_value c = of_char c - 48"

fun digits_value :: "nat \<Rightarrow> string \<Rightarrow> nat option" where
  "digits_value acc [] = Some acc"
| "digits_value acc (c # cs) =
     (if is_digit c \<and> acc * 10 + digit_value c \<le> u32_max then digits_value (acc * 10 + digit_value c) cs
      else None)"

definition parse_u32 :: "string \<Rightarrow> nat option" where
  "parse_u32 s =
     (let s = (case s of c # cs \<Rightarrow> if c = CHR ''+'' then cs else s | [] \<Rightarrow> [])
      in if s = [] then None else digits_value 0 s)"

text \<open>\<open>splitn(3, '.')\<close>: at most two splits, the rest of the string is the last part.\<close>

fun splitn :: "nat \<Rightarrow> char \<Rightarrow> string \<Rightarrow> string list" where
  "splitn 0 c s = []"
| "splitn (Suc 0) c s = [s]"
| "splitn (Suc (Suc n)) c s =
     (let l = takeWhile (\<lambda>x. x \<noteq> c) s; r = dropWhile (\<lambda>x. x \<noteq> c) s in
      case r of [] \<Rightarrow> [l] | _ # r \<Rightarrow> l # splitn (Suc n) c r)"

definition dv_parse :: "string \<Rightarrow> driver_version option" where
  "dv_parse s =
     (case splitn 3 (CHR ''.'') (trim s) of
        [a, b, c] \<Rightarrow>
          (case (parse_u32 a, parse_u32 b, parse_u32 c) of
             (Some x, Some y, Some z) \<Rightarrow> Some (DriverVersion x y z)
           | _ \<Rightarrow> None)
      | _ \<Rightarrow> None)"

definition digit_char :: "nat \<Rightarrow> char" where
  "digit_char d = char_of (48 + d)"

fun show_nat :: "nat \<Rightarrow> string" where
  "show_nat n = (if n < 10 then [digit_char n] else show_nat (n div 10) @ [digit_char (n mod 10)])"

declare show_nat.simps [simp del]

text \<open>\<open>{}.{}.{:02}\<close>.\<close>

definition dv_display :: "driver_version \<Rightarrow> string" where
  "dv_display v =
     show_nat (dv_major v) @ ''.'' @ show_nat (dv_minor v) @ ''.'' @
     (if dv_patch v < 10 then ''0'' else []) @ show_nat (dv_patch v)"

definition dv_wf :: "driver_version \<Rightarrow> bool" where
  "dv_wf v \<longleftrightarrow> dv_major v \<le> u32_max \<and> dv_minor v \<le> u32_max \<and> dv_patch v \<le> u32_max"

section \<open>Choosing a release's table\<close>

text \<open>\<open>PROFILES.iter().rev().find(|p| p.version <= v)\<close>.\<close>

definition profile_for :: "(driver_version \<times> 'a) list \<Rightarrow> driver_version \<Rightarrow> (driver_version \<times> 'a) option" where
  "profile_for ps v = find (\<lambda>(w, _). w \<le> v) (rev ps)"

locale version_profiles =
  fixes ps :: "(driver_version \<times> 'a) list"
  assumes ascending: "sorted_wrt (<) (map fst ps)"
begin

lemma profile_for_None: "profile_for ps v = None \<longleftrightarrow> (\<forall>(w, x) \<in> set ps. v < w)"
  by (auto simp: profile_for_def find_None_iff not_le)

lemma profile_for_Some:
  "profile_for ps v = Some (w, x) \<longleftrightarrow>
   (w, x) \<in> set ps \<and> w \<le> v \<and> (\<forall>(w', x') \<in> set ps. w' \<le> v \<longrightarrow> w' \<le> w)"
  using ascending unfolding profile_for_def
proof (induction ps rule: rev_induct)
  case (snoc p ps)
  obtain w' x' where p: "p = (w', x')" by (cases p)
  have lt: "\<forall>(u, y) \<in> set ps. u < w'" and asc: "sorted_wrt (<) (map fst ps)"
    using snoc(2) p by (auto simp: sorted_wrt_append)
  show ?case
  proof (cases "w' \<le> v")
    case True
    then have "find (\<lambda>(w, _). w \<le> v) (rev (ps @ [p])) = Some (w', x')" by (simp add: p)
    moreover have "(w, x) \<in> set ps \<Longrightarrow> \<not> w' \<le> w" using lt by fastforce
    ultimately show ?thesis using True lt by (auto simp: p less_imp_le)
  next
    case False
    then have "find (\<lambda>(w, _). w \<le> v) (rev (ps @ [p])) = find (\<lambda>(w, _). w \<le> v) (rev ps)" by (simp add: p)
    then show ?thesis using snoc(1) [OF asc] False by (auto simp: p)
  qed
qed simp

lemma profile_for_exact: "(v, x) \<in> set ps \<Longrightarrow> profile_for ps v = Some (v, x)"
  by (auto simp: profile_for_Some)

lemma profile_for_member: "profile_for ps v = Some p \<Longrightarrow> p \<in> set ps"
  by (cases p) (auto simp: profile_for_Some)

end

section \<open>Search in a sorted table\<close>

text \<open>\<open>slice::binary_search_by_key\<close> between two bounds; \<open>fuel\<close> is the length, each step halves the rest.\<close>

fun bsearch :: "('a \<Rightarrow> nat) \<Rightarrow> 'a list \<Rightarrow> nat \<Rightarrow> nat \<Rightarrow> nat \<Rightarrow> nat \<Rightarrow> nat option" where
  "bsearch key xs k lo hi 0 = None"
| "bsearch key xs k lo hi (Suc n) =
     (if lo \<ge> hi then None
      else let mid = lo + (hi - lo) div 2 in
        if key (xs ! mid) = k then Some mid
        else if key (xs ! mid) < k then bsearch key xs k (mid + 1) hi n
        else bsearch key xs k lo mid n)"

definition table_find :: "('a \<Rightarrow> nat) \<Rightarrow> 'a list \<Rightarrow> nat \<Rightarrow> 'a option" where
  "table_find key xs k = map_option ((!) xs) (bsearch key xs k 0 (length xs) (Suc (length xs)))"

locale sorted_table =
  fixes key :: "'a \<Rightarrow> nat" and xs :: "'a list"
  assumes ascending: "sorted_wrt (<) (map key xs)"
begin

lemma key_mono: "i < j \<Longrightarrow> j < length xs \<Longrightarrow> key (xs ! i) < key (xs ! j)"
  using ascending by (auto simp: sorted_wrt_map sorted_wrt_iff_nth_less)

lemma bsearch_Some: "bsearch key xs k lo hi n = Some i \<Longrightarrow> hi \<le> length xs \<Longrightarrow> i < length xs \<and> key (xs ! i) = k"
proof (induction key xs k lo hi n rule: bsearch.induct)
  case (2 key xs k lo hi n)
  then show ?case by (auto simp: Let_def split: if_splits)
qed simp

lemma bsearch_None:
  "bsearch key xs k lo hi n = None \<Longrightarrow> hi - lo < n \<Longrightarrow> hi \<le> length xs \<Longrightarrow> lo \<le> i \<Longrightarrow> i < hi \<Longrightarrow> key (xs ! i) \<noteq> k"
proof (induction n arbitrary: lo hi)
  case (Suc n)
  let ?mid = "lo + (hi - lo) div 2"
  have m: "lo \<le> ?mid" "?mid < hi" "?mid < length xs" using Suc(4,5,6) by linarith+
  have km: "key (xs ! ?mid) \<noteq> k" using Suc(2,5,6) by (auto simp: Let_def split: if_splits)
  show ?case
  proof (cases "key (xs ! ?mid) < k")
    case True
    have r: "bsearch key xs k (?mid + 1) hi n = None" using Suc(2,5,6) True by (auto simp: Let_def split: if_splits)
    show ?thesis
    proof (cases "i \<le> ?mid")
      case le: True
      then have "key (xs ! i) \<le> key (xs ! ?mid)" using key_mono [of i ?mid] m by (cases "i = ?mid") auto
      with True show ?thesis by simp
    next
      case False
      then show ?thesis using Suc(1) [OF r] Suc(3,4,6) m by simp
    qed
  next
    case False
    have r: "bsearch key xs k lo ?mid n = None" using Suc(2,5,6) False km by (auto simp: Let_def split: if_splits)
    show ?thesis
    proof (cases "i < ?mid")
      case lt: True
      then show ?thesis using Suc(1) [OF r] Suc(3,4,5) m by simp
    next
      case ge: False
      then have "key (xs ! ?mid) \<le> key (xs ! i)" using key_mono [of ?mid i] Suc(4,6) by (cases "i = ?mid") auto
      with False km show ?thesis by simp
    qed
  qed
qed simp

text \<open>The search finds exactly the entry with the key, where there is one.\<close>

lemma table_find_Some: "table_find key xs k = Some x \<longleftrightarrow> x \<in> set xs \<and> key x = k"
proof
  assume "table_find key xs k = Some x"
  then obtain i where i: "bsearch key xs k 0 (length xs) (Suc (length xs)) = Some i" "x = xs ! i"
    by (auto simp: table_find_def simp del: bsearch.simps)
  from bsearch_Some [OF i(1)] i(2) show "x \<in> set xs \<and> key x = k" by simp
next
  assume r: "x \<in> set xs \<and> key x = k"
  then obtain i where i: "i < length xs" "xs ! i = x" by (auto simp: in_set_conv_nth)
  obtain j where j: "bsearch key xs k 0 (length xs) (Suc (length xs)) = Some j"
    using bsearch_None [of k 0 "length xs" "Suc (length xs)" i] i r by (cases "bsearch key xs k 0 (length xs) (Suc (length xs))") auto
  then have "j < length xs" "key (xs ! j) = k" using bsearch_Some by blast+
  then have "j = i" using key_mono [of i j] key_mono [of j i] i r by (metis linorder_neqE_nat nat_neq_iff)
  with i j show "table_find key xs k = Some x" by (simp add: table_find_def)
qed

lemma table_find_None: "table_find key xs k = None \<longleftrightarrow> k \<notin> key ` set xs"
proof (cases "table_find key xs k")
  case None
  then have "x \<notin> set xs \<or> key x \<noteq> k" for x using table_find_Some [of k x] by simp
  with None show ?thesis by auto
next
  case (Some x)
  then show ?thesis using table_find_Some [of k x] by auto
qed

lemma table_find_linear: "table_find key xs k = find (\<lambda>x. key x = k) xs"
proof (cases "find (\<lambda>x. key x = k) xs")
  case None
  then have "k \<notin> key ` set xs" by (auto simp: find_None_iff)
  with None show ?thesis by (simp add: table_find_None [THEN iffD2])
next
  case (Some x)
  then have "x \<in> set xs \<and> key x = k" by (auto simp: find_Some_iff)
  with Some show ?thesis by (simp add: table_find_Some [THEN iffD2])
qed

end

section \<open>Printing and reading a version\<close>

lemma digit_char_props:
  assumes "d < 10"
  shows "is_digit (digit_char d)" "digit_value (digit_char d) = d" "digit_char d \<noteq> CHR ''.''"
    "digit_char d \<noteq> CHR ''+''" "\<not> is_space (digit_char d)"
proof -
  have v: "(of_char (digit_char d) :: nat) = 48 + d" using assms by (simp add: digit_char_def)
  then show "is_digit (digit_char d)" "digit_value (digit_char d) = d" using assms
    by (simp_all add: is_digit_def digit_value_def)
  have "c = digit_char d \<Longrightarrow> (of_char c :: nat) = 48 + d" for c using v by simp
  then show "digit_char d \<noteq> CHR ''.''" "digit_char d \<noteq> CHR ''+''" "\<not> is_space (digit_char d)"
    unfolding is_space_def by fastforce+
qed

lemma digits_value_append:
  "digits_value acc (s @ t) = (case digits_value acc s of None \<Rightarrow> None | Some a \<Rightarrow> digits_value a t)"
  by (induction acc s rule: digits_value.induct) auto

lemma show_nat_props:
  "show_nat n \<noteq> [] \<and> (\<forall>c \<in> set (show_nat n). is_digit c \<and> c \<noteq> CHR ''.'' \<and> c \<noteq> CHR ''+'' \<and> \<not> is_space c) \<and>
   (n \<le> u32_max \<longrightarrow> digits_value 0 (show_nat n) = Some n)"
proof (induction n rule: show_nat.induct)
  case (1 n)
  show ?case
  proof (cases "n < 10")
    case True
    then show ?thesis using digit_char_props [OF True] by (simp add: show_nat.simps [of n])
  next
    case False
    have d: "n mod 10 < 10" by simp
    have s: "show_nat n = show_nat (n div 10) @ [digit_char (n mod 10)]" using False by (simp add: show_nat.simps [of n])
    have "n \<le> u32_max \<longrightarrow> n div 10 \<le> u32_max" using div_le_dividend [of n 10] by linarith
    then show ?thesis using 1 [OF False] digit_char_props [OF d] unfolding s
      by (auto simp: digits_value_append)
  qed
qed

lemma parse_u32_digits:
  "s \<noteq> [] \<Longrightarrow> \<forall>c \<in> set s. c \<noteq> CHR ''+'' \<Longrightarrow> parse_u32 s = digits_value 0 s"
  by (cases s) (auto simp: parse_u32_def)

lemma splitn_dot:
  "\<forall>c \<in> set a. c \<noteq> CHR ''.'' \<Longrightarrow> splitn (Suc (Suc n)) (CHR ''.'') (a @ CHR ''.'' # r) = a # splitn (Suc n) (CHR ''.'') r"
  by (simp add: takeWhile_append dropWhile_append)

lemma trim_no_space: "\<forall>c \<in> set s. \<not> is_space c \<Longrightarrow> trim s = s"
proof -
  have d: "\<forall>c \<in> set t. \<not> is_space c \<Longrightarrow> dropWhile is_space t = t" for t by (cases t) auto
  assume "\<forall>c \<in> set s. \<not> is_space c"
  then show "trim s = s" using d [of s] d [of "rev s"] by (simp add: trim_def)
qed

section \<open>Properties\<close>

text \<open>A version printed is read back as the same version.\<close>

theorem version_round_trip:
  assumes "dv_wf v"
  shows "dv_parse (dv_display v) = Some v"
proof -
  obtain a b c where v: "v = DriverVersion a b c" by (cases v)
  define q where "q = (if c < 10 then ''0'' else []) @ show_nat c"
  have d: "dv_display v = show_nat a @ CHR ''.'' # (show_nat b @ CHR ''.'' # q)"
    by (simp add: dv_display_def v q_def)
  have bound: "a \<le> u32_max" "b \<le> u32_max" "c \<le> u32_max" using assms by (simp_all add: dv_wf_def v)
  have zero: "is_digit CHR ''0''" "digit_value CHR ''0'' = 0" "\<not> is_space CHR ''0''" "\<not> is_space (CHR ''.'')"
    by (simp_all add: is_digit_def digit_value_def is_space_def)
  have p: "q \<noteq> []" "\<forall>x \<in> set q. x \<noteq> CHR ''.'' \<and> x \<noteq> CHR ''+'' \<and> \<not> is_space x" "digits_value 0 q = Some c"
    using show_nat_props [of c] bound zero unfolding q_def by (auto simp: digits_value_append)
  note A = show_nat_props [of a, THEN conjunct2, THEN conjunct1] and B = show_nat_props [of b, THEN conjunct2, THEN conjunct1]
  have t: "trim (dv_display v) = dv_display v"
    unfolding d by (rule trim_no_space) (use A B p(2) zero(4) in \<open>simp add: ball_Un\<close>)
  have "splitn 3 (CHR ''.'') (dv_display v) = [show_nat a, show_nat b, q]"
  proof -
    have "\<forall>c \<in> set (show_nat a). c \<noteq> CHR ''.''" "\<forall>c \<in> set (show_nat b). c \<noteq> CHR ''.''" using A B by auto
    from splitn_dot [OF this(1), of 1] splitn_dot [OF this(2), of 0] show ?thesis
      by (simp add: d numeral_3_eq_3 del: splitn.simps(3))
  qed
  moreover have "parse_u32 (show_nat a) = Some a" "parse_u32 (show_nat b) = Some b" "parse_u32 q = Some c"
    using show_nat_props [of a] show_nat_props [of b] p bound by (simp_all add: parse_u32_digits)
  ultimately show ?thesis unfolding dv_parse_def t by (simp add: v)
qed

lemma version_round_trip_witness: "dv_parse (dv_display (DriverVersion 535 129 3)) = Some (DriverVersion 535 129 3)"
  by (rule version_round_trip) (simp add: dv_wf_def)

end
