(* ===== verification/IoctlTables.thy ===== *)
theory IoctlTables
  imports DriverVersions
begin

text \<open>
  The escapes (\<open>gen/src/ioctl.rs\<close>) and the per-release ioctl tables (\<open>gen/src/versions\<close>): what size of
  parameters each escape takes and how it is handled.
\<close>

abbreviation (input) NV_ESC_CARD_INFO :: nat where "NV_ESC_CARD_INFO \<equiv> 0xC8"
abbreviation (input) NV_ESC_REGISTER_FD :: nat where "NV_ESC_REGISTER_FD \<equiv> 0xC9"
abbreviation (input) NV_ESC_ALLOC_OS_EVENT :: nat where "NV_ESC_ALLOC_OS_EVENT \<equiv> 0xCE"
abbreviation (input) NV_ESC_FREE_OS_EVENT :: nat where "NV_ESC_FREE_OS_EVENT \<equiv> 0xCF"
abbreviation (input) NV_ESC_STATUS_CODE :: nat where "NV_ESC_STATUS_CODE \<equiv> 0xD1"
abbreviation (input) NV_ESC_CHECK_VERSION_STR :: nat where "NV_ESC_CHECK_VERSION_STR \<equiv> 0xD2"
abbreviation (input) NV_ESC_IOCTL_XFER_CMD :: nat where "NV_ESC_IOCTL_XFER_CMD \<equiv> 0xD3"
abbreviation (input) NV_ESC_ATTACH_GPUS_TO_FD :: nat where "NV_ESC_ATTACH_GPUS_TO_FD \<equiv> 0xD4"
abbreviation (input) NV_ESC_QUERY_DEVICE_INTR :: nat where "NV_ESC_QUERY_DEVICE_INTR \<equiv> 0xD5"
abbreviation (input) NV_ESC_SYS_PARAMS :: nat where "NV_ESC_SYS_PARAMS \<equiv> 0xD6"
abbreviation (input) NV_ESC_NUMA_INFO :: nat where "NV_ESC_NUMA_INFO \<equiv> 0xD7"
abbreviation (input) NV_ESC_EXPORT_TO_DMABUF_FD :: nat where "NV_ESC_EXPORT_TO_DMABUF_FD \<equiv> 0xD9"
abbreviation (input) NV_ESC_WAIT_OPEN_COMPLETE :: nat where "NV_ESC_WAIT_OPEN_COMPLETE \<equiv> 0xDA"
abbreviation (input) NV_ESC_RM_ALLOC_MEMORY :: nat where "NV_ESC_RM_ALLOC_MEMORY \<equiv> 0x27"
abbreviation (input) NV_ESC_RM_ALLOC_OBJECT :: nat where "NV_ESC_RM_ALLOC_OBJECT \<equiv> 0x28"
abbreviation (input) NV_ESC_RM_FREE :: nat where "NV_ESC_RM_FREE \<equiv> 0x29"
abbreviation (input) NV_ESC_RM_CONTROL :: nat where "NV_ESC_RM_CONTROL \<equiv> 0x2A"
abbreviation (input) NV_ESC_RM_ALLOC :: nat where "NV_ESC_RM_ALLOC \<equiv> 0x2B"
abbreviation (input) NV_ESC_RM_DUP_OBJECT :: nat where "NV_ESC_RM_DUP_OBJECT \<equiv> 0x34"
abbreviation (input) NV_ESC_RM_SHARE :: nat where "NV_ESC_RM_SHARE \<equiv> 0x35"
abbreviation (input) NV_ESC_RM_I2C_ACCESS :: nat where "NV_ESC_RM_I2C_ACCESS \<equiv> 0x39"
abbreviation (input) NV_ESC_RM_IDLE_CHANNELS :: nat where "NV_ESC_RM_IDLE_CHANNELS \<equiv> 0x41"
abbreviation (input) NV_ESC_RM_VID_HEAP_CONTROL :: nat where "NV_ESC_RM_VID_HEAP_CONTROL \<equiv> 0x4A"
abbreviation (input) NV_ESC_RM_ACCESS_REGISTRY :: nat where "NV_ESC_RM_ACCESS_REGISTRY \<equiv> 0x4D"
abbreviation (input) NV_ESC_RM_MAP_MEMORY :: nat where "NV_ESC_RM_MAP_MEMORY \<equiv> 0x4E"
abbreviation (input) NV_ESC_RM_UNMAP_MEMORY :: nat where "NV_ESC_RM_UNMAP_MEMORY \<equiv> 0x4F"
abbreviation (input) NV_ESC_RM_GET_EVENT_DATA :: nat where "NV_ESC_RM_GET_EVENT_DATA \<equiv> 0x52"
abbreviation (input) NV_ESC_RM_ALLOC_CONTEXT_DMA2 :: nat where "NV_ESC_RM_ALLOC_CONTEXT_DMA2 \<equiv> 0x54"
abbreviation (input) NV_ESC_RM_ADD_VBLANK_CALLBACK :: nat where "NV_ESC_RM_ADD_VBLANK_CALLBACK \<equiv> 0x56"
abbreviation (input) NV_ESC_RM_MAP_MEMORY_DMA :: nat where "NV_ESC_RM_MAP_MEMORY_DMA \<equiv> 0x57"
abbreviation (input) NV_ESC_RM_UNMAP_MEMORY_DMA :: nat where "NV_ESC_RM_UNMAP_MEMORY_DMA \<equiv> 0x58"
abbreviation (input) NV_ESC_RM_BIND_CONTEXT_DMA :: nat where "NV_ESC_RM_BIND_CONTEXT_DMA \<equiv> 0x59"
abbreviation (input) NV_ESC_RM_EXPORT_OBJECT_TO_FD :: nat where "NV_ESC_RM_EXPORT_OBJECT_TO_FD \<equiv> 0x5C"
abbreviation (input) NV_ESC_RM_IMPORT_OBJECT_FROM_FD :: nat where "NV_ESC_RM_IMPORT_OBJECT_FROM_FD \<equiv> 0x5D"
abbreviation (input) NV_ESC_RM_UPDATE_DEVICE_MAPPING_INFO :: nat where "NV_ESC_RM_UPDATE_DEVICE_MAPPING_INFO \<equiv> 0x5E"
abbreviation (input) NV_ESC_RM_LOCKLESS_DIAGNOSTIC :: nat where "NV_ESC_RM_LOCKLESS_DIAGNOSTIC \<equiv> 0x5F"

datatype ioctl_kind = Simple | FdCarrying | Mapping | RmControl | RmAlloc | VidHeapControl | IdleChannels | Bytes

datatype ioctl_entry = IoctlEntry (ioe_escape: nat) (ioe_size: "nat option") (ioe_kind: ioctl_kind)

text \<open>\<open>_IOC\<close> on \<open>u32\<close>: shifts drop what leaves the word.\<close>

definition ioc :: "nat \<Rightarrow> nat \<Rightarrow> nat \<Rightarrow> nat \<Rightarrow> nat" where
  "ioc dir ty nr sz =
     unat ((push_bit 30 (word_of_nat dir) OR push_bit 16 (word_of_nat sz) OR push_bit 8 (word_of_nat ty)
            OR word_of_nat nr) :: 32 word)"

definition ioctl_table_535_129_03 :: "ioctl_entry list" where
  "ioctl_table_535_129_03 = [
     IoctlEntry NV_ESC_RM_ALLOC_MEMORY (Some 56) FdCarrying, IoctlEntry NV_ESC_RM_FREE (Some 16) Simple,
     IoctlEntry NV_ESC_RM_CONTROL (Some 32) RmControl, IoctlEntry NV_ESC_RM_ALLOC (Some 48) RmAlloc,
     IoctlEntry NV_ESC_RM_DUP_OBJECT (Some 28) Simple, IoctlEntry NV_ESC_RM_SHARE (Some 24) Simple,
     IoctlEntry NV_ESC_RM_IDLE_CHANNELS (Some 56) IdleChannels,
     IoctlEntry NV_ESC_RM_VID_HEAP_CONTROL (Some 184) VidHeapControl,
     IoctlEntry NV_ESC_RM_MAP_MEMORY (Some 56) Mapping, IoctlEntry NV_ESC_RM_UNMAP_MEMORY (Some 32) Simple,
     IoctlEntry NV_ESC_RM_ALLOC_CONTEXT_DMA2 (Some 56) Simple,
     IoctlEntry NV_ESC_RM_MAP_MEMORY_DMA (Some 56) Simple,
     IoctlEntry NV_ESC_RM_UNMAP_MEMORY_DMA (Some 40) Simple,
     IoctlEntry NV_ESC_RM_UPDATE_DEVICE_MAPPING_INFO (Some 40) Simple,
     IoctlEntry NV_ESC_CARD_INFO (None) Bytes, IoctlEntry NV_ESC_REGISTER_FD (Some 4) FdCarrying,
     IoctlEntry NV_ESC_ALLOC_OS_EVENT (Some 16) FdCarrying,
     IoctlEntry NV_ESC_FREE_OS_EVENT (Some 16) FdCarrying,
     IoctlEntry NV_ESC_CHECK_VERSION_STR (Some 72) Simple, IoctlEntry NV_ESC_ATTACH_GPUS_TO_FD (None) Bytes,
     IoctlEntry NV_ESC_SYS_PARAMS (Some 8) Simple, IoctlEntry NV_ESC_NUMA_INFO (None) Bytes,
     IoctlEntry NV_ESC_EXPORT_TO_DMABUF_FD (Some 2600) FdCarrying]"

definition ioctl_table_580_178_04 :: "ioctl_entry list" where
  "ioctl_table_580_178_04 = [
     IoctlEntry NV_ESC_RM_ALLOC_MEMORY (Some 56) FdCarrying, IoctlEntry NV_ESC_RM_FREE (Some 16) Simple,
     IoctlEntry NV_ESC_RM_CONTROL (Some 32) RmControl, IoctlEntry NV_ESC_RM_ALLOC (Some 48) RmAlloc,
     IoctlEntry NV_ESC_RM_DUP_OBJECT (Some 28) Simple, IoctlEntry NV_ESC_RM_SHARE (Some 24) Simple,
     IoctlEntry NV_ESC_RM_IDLE_CHANNELS (Some 56) IdleChannels,
     IoctlEntry NV_ESC_RM_VID_HEAP_CONTROL (Some 184) VidHeapControl,
     IoctlEntry NV_ESC_RM_MAP_MEMORY (Some 56) Mapping, IoctlEntry NV_ESC_RM_UNMAP_MEMORY (Some 32) Simple,
     IoctlEntry NV_ESC_RM_ALLOC_CONTEXT_DMA2 (Some 56) Simple,
     IoctlEntry NV_ESC_RM_MAP_MEMORY_DMA (Some 64) Simple,
     IoctlEntry NV_ESC_RM_UNMAP_MEMORY_DMA (Some 48) Simple,
     IoctlEntry NV_ESC_RM_UPDATE_DEVICE_MAPPING_INFO (Some 40) Simple,
     IoctlEntry NV_ESC_CARD_INFO (None) Bytes, IoctlEntry NV_ESC_REGISTER_FD (Some 4) FdCarrying,
     IoctlEntry NV_ESC_ALLOC_OS_EVENT (Some 16) FdCarrying,
     IoctlEntry NV_ESC_FREE_OS_EVENT (Some 16) FdCarrying,
     IoctlEntry NV_ESC_CHECK_VERSION_STR (Some 72) Simple, IoctlEntry NV_ESC_ATTACH_GPUS_TO_FD (None) Bytes,
     IoctlEntry NV_ESC_SYS_PARAMS (Some 8) Simple, IoctlEntry NV_ESC_NUMA_INFO (None) Bytes,
     IoctlEntry NV_ESC_EXPORT_TO_DMABUF_FD (Some 2608) FdCarrying,
     IoctlEntry NV_ESC_WAIT_OPEN_COMPLETE (Some 8) Simple]"

definition ioctl_table_595_71_05 :: "ioctl_entry list" where
  "ioctl_table_595_71_05 = [
     IoctlEntry NV_ESC_RM_ALLOC_MEMORY (Some 56) FdCarrying, IoctlEntry NV_ESC_RM_FREE (Some 16) Simple,
     IoctlEntry NV_ESC_RM_CONTROL (Some 32) RmControl, IoctlEntry NV_ESC_RM_ALLOC (Some 48) RmAlloc,
     IoctlEntry NV_ESC_RM_DUP_OBJECT (Some 28) Simple, IoctlEntry NV_ESC_RM_SHARE (Some 24) Simple,
     IoctlEntry NV_ESC_RM_IDLE_CHANNELS (Some 56) IdleChannels,
     IoctlEntry NV_ESC_RM_VID_HEAP_CONTROL (Some 184) VidHeapControl,
     IoctlEntry NV_ESC_RM_MAP_MEMORY (Some 56) Mapping, IoctlEntry NV_ESC_RM_UNMAP_MEMORY (Some 32) Simple,
     IoctlEntry NV_ESC_RM_ALLOC_CONTEXT_DMA2 (Some 56) Simple,
     IoctlEntry NV_ESC_RM_MAP_MEMORY_DMA (Some 64) Simple,
     IoctlEntry NV_ESC_RM_UNMAP_MEMORY_DMA (Some 48) Simple,
     IoctlEntry NV_ESC_RM_UPDATE_DEVICE_MAPPING_INFO (Some 40) Simple,
     IoctlEntry NV_ESC_CARD_INFO (None) Bytes, IoctlEntry NV_ESC_REGISTER_FD (Some 4) FdCarrying,
     IoctlEntry NV_ESC_ALLOC_OS_EVENT (Some 16) FdCarrying,
     IoctlEntry NV_ESC_FREE_OS_EVENT (Some 16) FdCarrying,
     IoctlEntry NV_ESC_CHECK_VERSION_STR (Some 72) Simple, IoctlEntry NV_ESC_ATTACH_GPUS_TO_FD (None) Bytes,
     IoctlEntry NV_ESC_SYS_PARAMS (Some 8) Simple, IoctlEntry NV_ESC_NUMA_INFO (None) Bytes,
     IoctlEntry NV_ESC_EXPORT_TO_DMABUF_FD (Some 2608) FdCarrying,
     IoctlEntry NV_ESC_WAIT_OPEN_COMPLETE (Some 8) Simple]"

definition ioctl_profiles :: "(driver_version \<times> ioctl_entry list) list" where
  "ioctl_profiles =
     [(DriverVersion 535 129 3, ioctl_table_535_129_03),
      (DriverVersion 580 178 4, ioctl_table_580_178_04),
      (DriverVersion 595 71 5, ioctl_table_595_71_05)]"

definition ioctl_table_for :: "driver_version \<Rightarrow> ioctl_entry list option" where
  "ioctl_table_for v = map_option snd (profile_for ioctl_profiles v)"

definition ioctl_is_supported :: "driver_version \<Rightarrow> bool" where
  "ioctl_is_supported v \<longleftrightarrow> ioctl_table_for v \<noteq> None"

definition ioctl_lookup :: "ioctl_entry list \<Rightarrow> nat \<Rightarrow> ioctl_entry option" where
  "ioctl_lookup t escape = find (\<lambda>e. ioe_escape e = escape) t"

interpretation iop: version_profiles ioctl_profiles
  by unfold_locales (simp add: ioctl_profiles_def less_driver_version_def)

section \<open>Properties\<close>

text \<open>A host release resolves to the table of the newest known release that is not newer than it, and to no
  table only where it is older than every known one.\<close>

theorem ioctl_table_for_nearest:
  "case ioctl_table_for v of
     None \<Rightarrow> v < DriverVersion 535 129 3
   | Some t \<Rightarrow> \<exists>w. (w, t) \<in> set ioctl_profiles \<and> w \<le> v \<and> (\<forall>p \<in> set ioctl_profiles. \<not> (w < fst p \<and> fst p \<le> v))"
proof (cases "profile_for ioctl_profiles v")
  case None
  then have "\<forall>(w, x) \<in> set ioctl_profiles. v < w" by (simp only: iop.profile_for_None)
  then have "v < DriverVersion 535 129 3" by (simp add: ioctl_profiles_def)
  with None show ?thesis by (simp add: ioctl_table_for_def)
next
  case (Some p)
  obtain w t where p: "p = (w, t)" by (cases p)
  have "(w, t) \<in> set ioctl_profiles \<and> w \<le> v \<and> (\<forall>(w', x') \<in> set ioctl_profiles. w' \<le> v \<longrightarrow> w' \<le> w)"
    using Some p iop.profile_for_Some by blast
  then have "(w, t) \<in> set ioctl_profiles \<and> w \<le> v \<and> (\<forall>p \<in> set ioctl_profiles. \<not> (w < fst p \<and> fst p \<le> v))"
    by (fastforce simp: not_less)
  with Some p show ?thesis by (auto simp: ioctl_table_for_def)
qed

lemma ioctl_table_for_nearest_witness:
  "\<exists>t w. ioctl_table_for (DriverVersion 600 0 0) = Some t \<and> (w, t) \<in> set ioctl_profiles \<and> w \<le> DriverVersion 600 0 0 \<and>
    \<not> (w < DriverVersion 580 178 4)"
proof -
  have s: "ioctl_table_for (DriverVersion 600 0 0) \<noteq> None"
    by (simp add: ioctl_table_for_def profile_for_def ioctl_profiles_def less_eq_driver_version_def less_driver_version_def)
  have m: "(DriverVersion 580 178 4, ioctl_table_580_178_04) \<in> set ioctl_profiles" by (simp add: ioctl_profiles_def)
  have le: "DriverVersion 580 178 4 \<le> DriverVersion 600 0 0" by (simp add: less_eq_driver_version_def less_driver_version_def)
  from s obtain t where "ioctl_table_for (DriverVersion 600 0 0) = Some t" by blast
  with ioctl_table_for_nearest [of "DriverVersion 600 0 0"] m le show ?thesis by fastforce
qed

end
