(* ===== verification/OsDescTables.thy ===== *)
theory OsDescTables
  imports DriverVersions
begin

text \<open>
  Where each release keeps a CPU address on the three routes that let a caller name memory by one
  (\<open>gen/src/osdesc\<close>).
\<close>

abbreviation (input) usize_max :: nat where "usize_max \<equiv> 2 ^ 64 - 1"

record route =
  ro_params_size :: nat
  ro_address_at :: nat
  ro_limit_at :: nat
  ro_type_at :: nat

definition ro_address :: "route \<Rightarrow> bytes \<Rightarrow> nat option" where
  "ro_address r p = get_u64 p (ro_address_at r)"

definition ro_length :: "route \<Rightarrow> bytes \<Rightarrow> nat option" where
  "ro_length r p =
     Option.bind (get_u64 p (ro_limit_at r)) (\<lambda>n. if n + 1 \<le> u64_max then Some (n + 1) else None)"

definition ro_desc_type :: "route \<Rightarrow> bytes \<Rightarrow> nat option" where
  "ro_desc_type r p = (if ro_type_at r = usize_max then None else get_u32 p (ro_type_at r))"

record osdesc =
  od_class :: nat
  od_virtual_address :: nat
  od_vid_heap_function :: nat
  od_alloc :: route
  od_alloc_memory :: route
  od_alloc_memory_class_at :: nat
  od_alloc_memory_status_at :: nat
  od_vid_heap :: route
  od_vid_heap_function_at :: nat
  od_vid_heap_status_at :: nat
  od_vid_heap_hmemory_at :: nat
  od_types :: "(nat \<times> string) list"

definition od_type_name :: "osdesc \<Rightarrow> nat \<Rightarrow> string option" where
  "od_type_name d v = map_option snd (find (\<lambda>(x, _). x = v) (od_types d))"

definition od_vid_heap_registers :: "osdesc \<Rightarrow> bytes \<Rightarrow> bool" where
  "od_vid_heap_registers d p \<longleftrightarrow> get_u32 p (od_vid_heap_function_at d) = Some (od_vid_heap_function d)"

definition osdesc_535_129_03 :: osdesc where
  "osdesc_535_129_03 = \<lparr>
     od_class = 0x00000071,
     od_virtual_address = 0,
     od_vid_heap_function = 27,
     od_alloc = \<lparr>ro_params_size = 40, ro_address_at = 16, ro_limit_at = 24, ro_type_at = 32\<rparr>,
     od_alloc_memory = \<lparr>ro_params_size = 48, ro_address_at = 24, ro_limit_at = 32, ro_type_at = usize_max\<rparr>,
     od_alloc_memory_class_at = 12,
     od_alloc_memory_status_at = 40,
     od_vid_heap = \<lparr>ro_params_size = 184, ro_address_at = 64, ro_limit_at = 72, ro_type_at = 80\<rparr>,
     od_vid_heap_function_at = 8,
     od_vid_heap_status_at = 20,
     od_vid_heap_hmemory_at = 40,
     od_types = [
       (0, ''NVOS32_DESCRIPTOR_TYPE_VIRTUAL_ADDRESS''), (1, ''NVOS32_DESCRIPTOR_TYPE_OS_PAGE_ARRAY''),
       (2, ''NVOS32_DESCRIPTOR_TYPE_OS_IO_MEMORY''), (3, ''NVOS32_DESCRIPTOR_TYPE_OS_PHYS_ADDR''),
       (4, ''NVOS32_DESCRIPTOR_TYPE_OS_FILE_HANDLE''), (5, ''NVOS32_DESCRIPTOR_TYPE_OS_DMA_BUF_PTR''),
       (6, ''NVOS32_DESCRIPTOR_TYPE_OS_SGT_PTR''), (7, ''NVOS32_DESCRIPTOR_TYPE_KERNEL_VIRTUAL_ADDRESS'')]\<rparr>"

definition osdesc_580_178_04 :: osdesc where
  "osdesc_580_178_04 = \<lparr>
     od_class = 0x00000071,
     od_virtual_address = 0,
     od_vid_heap_function = 27,
     od_alloc = \<lparr>ro_params_size = 40, ro_address_at = 16, ro_limit_at = 24, ro_type_at = 32\<rparr>,
     od_alloc_memory = \<lparr>ro_params_size = 48, ro_address_at = 24, ro_limit_at = 32, ro_type_at = usize_max\<rparr>,
     od_alloc_memory_class_at = 12,
     od_alloc_memory_status_at = 40,
     od_vid_heap = \<lparr>ro_params_size = 184, ro_address_at = 64, ro_limit_at = 72, ro_type_at = 80\<rparr>,
     od_vid_heap_function_at = 8,
     od_vid_heap_status_at = 20,
     od_vid_heap_hmemory_at = 40,
     od_types = [
       (0, ''NVOS32_DESCRIPTOR_TYPE_VIRTUAL_ADDRESS''), (1, ''NVOS32_DESCRIPTOR_TYPE_OS_PAGE_ARRAY''),
       (2, ''NVOS32_DESCRIPTOR_TYPE_OS_IO_MEMORY''), (3, ''NVOS32_DESCRIPTOR_TYPE_OS_PHYS_ADDR''),
       (4, ''NVOS32_DESCRIPTOR_TYPE_OS_FILE_HANDLE''), (5, ''NVOS32_DESCRIPTOR_TYPE_OS_DMA_BUF_PTR''),
       (6, ''NVOS32_DESCRIPTOR_TYPE_OS_SGT_PTR''), (7, ''NVOS32_DESCRIPTOR_TYPE_KERNEL_VIRTUAL_ADDRESS'')]\<rparr>"

definition osdesc_595_71_05 :: osdesc where
  "osdesc_595_71_05 = \<lparr>
     od_class = 0x00000071,
     od_virtual_address = 0,
     od_vid_heap_function = 27,
     od_alloc = \<lparr>ro_params_size = 40, ro_address_at = 16, ro_limit_at = 24, ro_type_at = 32\<rparr>,
     od_alloc_memory = \<lparr>ro_params_size = 48, ro_address_at = 24, ro_limit_at = 32, ro_type_at = usize_max\<rparr>,
     od_alloc_memory_class_at = 12,
     od_alloc_memory_status_at = 40,
     od_vid_heap = \<lparr>ro_params_size = 184, ro_address_at = 64, ro_limit_at = 72, ro_type_at = 80\<rparr>,
     od_vid_heap_function_at = 8,
     od_vid_heap_status_at = 20,
     od_vid_heap_hmemory_at = 40,
     od_types = [
       (0, ''NVOS32_DESCRIPTOR_TYPE_VIRTUAL_ADDRESS''), (1, ''NVOS32_DESCRIPTOR_TYPE_OS_PAGE_ARRAY''),
       (2, ''NVOS32_DESCRIPTOR_TYPE_OS_IO_MEMORY''), (3, ''NVOS32_DESCRIPTOR_TYPE_OS_PHYS_ADDR''),
       (4, ''NVOS32_DESCRIPTOR_TYPE_OS_FILE_HANDLE''), (5, ''NVOS32_DESCRIPTOR_TYPE_OS_DMA_BUF_PTR''),
       (6, ''NVOS32_DESCRIPTOR_TYPE_OS_SGT_PTR''), (7, ''NVOS32_DESCRIPTOR_TYPE_KERNEL_VIRTUAL_ADDRESS'')]\<rparr>"

definition osdesc_595_104_02 :: osdesc where
  "osdesc_595_104_02 = \<lparr>
     od_class = 0x00000071,
     od_virtual_address = 0,
     od_vid_heap_function = 27,
     od_alloc = \<lparr>ro_params_size = 40, ro_address_at = 16, ro_limit_at = 24, ro_type_at = 32\<rparr>,
     od_alloc_memory = \<lparr>ro_params_size = 48, ro_address_at = 24, ro_limit_at = 32, ro_type_at = usize_max\<rparr>,
     od_alloc_memory_class_at = 12,
     od_alloc_memory_status_at = 40,
     od_vid_heap = \<lparr>ro_params_size = 184, ro_address_at = 64, ro_limit_at = 72, ro_type_at = 80\<rparr>,
     od_vid_heap_function_at = 8,
     od_vid_heap_status_at = 20,
     od_vid_heap_hmemory_at = 40,
     od_types = [
       (0, ''NVOS32_DESCRIPTOR_TYPE_VIRTUAL_ADDRESS''), (1, ''NVOS32_DESCRIPTOR_TYPE_OS_PAGE_ARRAY''),
       (2, ''NVOS32_DESCRIPTOR_TYPE_OS_IO_MEMORY''), (3, ''NVOS32_DESCRIPTOR_TYPE_OS_PHYS_ADDR''),
       (4, ''NVOS32_DESCRIPTOR_TYPE_OS_FILE_HANDLE''), (5, ''NVOS32_DESCRIPTOR_TYPE_OS_DMA_BUF_PTR''),
       (6, ''NVOS32_DESCRIPTOR_TYPE_OS_SGT_PTR''), (7, ''NVOS32_DESCRIPTOR_TYPE_KERNEL_VIRTUAL_ADDRESS'')]\<rparr>"

definition osdesc_615_71_09 :: osdesc where
  "osdesc_615_71_09 = \<lparr>
     od_class = 0x00000071,
     od_virtual_address = 0,
     od_vid_heap_function = 27,
     od_alloc = \<lparr>ro_params_size = 40, ro_address_at = 16, ro_limit_at = 24, ro_type_at = 32\<rparr>,
     od_alloc_memory = \<lparr>ro_params_size = 48, ro_address_at = 24, ro_limit_at = 32, ro_type_at = usize_max\<rparr>,
     od_alloc_memory_class_at = 12,
     od_alloc_memory_status_at = 40,
     od_vid_heap = \<lparr>ro_params_size = 184, ro_address_at = 64, ro_limit_at = 72, ro_type_at = 80\<rparr>,
     od_vid_heap_function_at = 8,
     od_vid_heap_status_at = 20,
     od_vid_heap_hmemory_at = 40,
     od_types = [
       (0, ''NVOS32_DESCRIPTOR_TYPE_VIRTUAL_ADDRESS''), (1, ''NVOS32_DESCRIPTOR_TYPE_OS_PAGE_ARRAY''),
       (2, ''NVOS32_DESCRIPTOR_TYPE_OS_IO_MEMORY''), (3, ''NVOS32_DESCRIPTOR_TYPE_OS_PHYS_ADDR''),
       (4, ''NVOS32_DESCRIPTOR_TYPE_OS_FILE_HANDLE''), (5, ''NVOS32_DESCRIPTOR_TYPE_OS_DMA_BUF_PTR''),
       (6, ''NVOS32_DESCRIPTOR_TYPE_OS_SGT_PTR''), (7, ''NVOS32_DESCRIPTOR_TYPE_KERNEL_VIRTUAL_ADDRESS'')]\<rparr>"

definition osdesc_profiles :: "(driver_version \<times> osdesc) list" where
  "osdesc_profiles =
     [(DriverVersion 535 129 3, osdesc_535_129_03),
      (DriverVersion 580 178 4, osdesc_580_178_04),
      (DriverVersion 595 71 5, osdesc_595_71_05),
      (DriverVersion 595 104 2, osdesc_595_104_02),
      (DriverVersion 615 71 9, osdesc_615_71_09)]"

definition osdesc_select :: "driver_version \<Rightarrow> osdesc option" where
  "osdesc_select v = map_option snd (profile_for osdesc_profiles v)"

lemmas osdesc_tables = osdesc_535_129_03_def osdesc_580_178_04_def osdesc_595_71_05_def
  osdesc_595_104_02_def osdesc_615_71_09_def

interpretation odp: version_profiles osdesc_profiles
  by unfold_locales (simp add: osdesc_profiles_def less_driver_version_def)

section \<open>Properties\<close>

text \<open>A route's fields lie inside its parameter block.\<close>

definition route_fits :: "route \<Rightarrow> bool" where
  "route_fits r \<longleftrightarrow> ro_address_at r + 8 \<le> ro_params_size r \<and> ro_limit_at r + 8 \<le> ro_params_size r \<and>
     (ro_type_at r = usize_max \<or> ro_type_at r + 4 \<le> ro_params_size r)"

text \<open>Every release known describes the three address routes identically, so the nearest older table of an
  unknown release names the same offsets; and each field lies inside its parameter block.\<close>

theorem osdesc_releases_agree:
  assumes "osdesc_select v = Some d"
  shows "d = osdesc_615_71_09 \<and> route_fits (od_alloc d) \<and> route_fits (od_alloc_memory d) \<and> route_fits (od_vid_heap d) \<and>
    od_alloc_memory_class_at d + 4 \<le> ro_params_size (od_alloc_memory d) \<and>
    od_alloc_memory_status_at d + 4 \<le> ro_params_size (od_alloc_memory d) \<and>
    od_vid_heap_function_at d + 4 \<le> ro_params_size (od_vid_heap d) \<and>
    od_vid_heap_status_at d + 4 \<le> ro_params_size (od_vid_heap d) \<and>
    od_vid_heap_hmemory_at d + 4 \<le> ro_params_size (od_vid_heap d)"
proof -
  obtain w where "profile_for osdesc_profiles v = Some (w, d)" using assms by (auto simp: osdesc_select_def)
  then have "(w, d) \<in> set osdesc_profiles" using odp.profile_for_member by blast
  then have "d = osdesc_615_71_09" by (auto simp: osdesc_profiles_def osdesc_tables)
  then show ?thesis by (simp add: osdesc_615_71_09_def route_fits_def)
qed

lemma osdesc_releases_agree_witness: "od_alloc_memory_class_at (the (osdesc_select (DriverVersion 600 0 0))) = 12"
proof -
  have "osdesc_select (DriverVersion 600 0 0) = Some osdesc_595_104_02"
    by (simp add: osdesc_select_def profile_for_def osdesc_profiles_def less_driver_version_def less_eq_driver_version_def)
  from osdesc_releases_agree [OF this] this show ?thesis by (simp add: osdesc_tables)
qed

end
