(* ===== verification/UvmTables.thy ===== *)
theory UvmTables
  imports DriverVersions
begin

text \<open>
  The UVM commands each release takes, their exact sizes and where their descriptors sit, and the
  flags the backend initialises a UVM file with (\<open>gen/src/uvm\<close>).
\<close>

datatype uvm_fd = FdCtl | FdUvm | FdForeign

datatype fd_slot = FdSlot (fs_kind: uvm_fd) (fs_at: nat) (fs_handle: "nat option")

datatype uvm_cmd = UvmCmd (uc_num: nat) (uc_size: nat) (uc_fds: "fd_slot list")

record init_flags =
  if_disable_hmm :: "nat option"
  if_multi_process_sharing_mode :: nat
  if_disable_pageable_access :: "nat option"
  if_disable_pageable_migrations :: "nat option"
  if_mask :: nat

definition if_ours :: "init_flags \<Rightarrow> nat" where
  "if_ours i =
     (let f = if_multi_process_sharing_mode i;
          f = (case if_disable_hmm i of None \<Rightarrow> f | Some b \<Rightarrow> f OR b)
      in case if_disable_pageable_access i of None \<Rightarrow> f | Some b \<Rightarrow> f OR b)"

definition if_can_disable_pageable_access :: "init_flags \<Rightarrow> bool" where
  "if_can_disable_pageable_access i \<longleftrightarrow> if_disable_pageable_access i \<noteq> None"

definition uvm_cmd_535_129_03 :: "uvm_cmd list" where
  "uvm_cmd_535_129_03 = [
     UvmCmd 0x00000001 24 [], UvmCmd 0x00000002 24 [], UvmCmd 0x00000003 48 [], UvmCmd 0x00000004 24 [],
     UvmCmd 0x00000005 48 [], UvmCmd 0x00000006 16 [], UvmCmd 0x00000007 272 [], UvmCmd 0x00000009 44 [],
     UvmCmd 0x0000000a 24 [], UvmCmd 0x0000000b 8 [], UvmCmd 0x0000000c 908 [], UvmCmd 0x0000000d 48 [],
     UvmCmd 0x0000000e 32 [], UvmCmd 0x0000000f 12 [], UvmCmd 0x00000010 56 [], UvmCmd 0x00000011 20 [],
     UvmCmd 0x00000012 536 [], UvmCmd 0x00000013 16 [], UvmCmd 0x00000014 520 [], UvmCmd 0x00000017 16 [],
     UvmCmd 0x00000018 16 [], UvmCmd 0x00000019 32 [FdSlot FdCtl 16 (Some 20)], UvmCmd 0x0000001a 20 [],
     UvmCmd 0x0000001b 56 [FdSlot FdCtl 16 (Some 20)], UvmCmd 0x0000001c 28 [], UvmCmd 0x0000001d 36 [],
     UvmCmd 0x0000001e 36 [], UvmCmd 0x0000001f 32 [],
     UvmCmd 0x00000021 1200 [FdSlot FdCtl 1184 (Some 1188)], UvmCmd 0x00000022 24 [],
     UvmCmd 0x00000023 24 [], UvmCmd 0x00000024 64 [], UvmCmd 0x00000025 40 [FdSlot FdCtl 24 (Some 28)],
     UvmCmd 0x00000026 20 [], UvmCmd 0x00000027 8 [], UvmCmd 0x00000028 272 [], UvmCmd 0x00000029 272 [],
     UvmCmd 0x0000002a 40 [], UvmCmd 0x0000002b 24 [], UvmCmd 0x0000002c 24 [], UvmCmd 0x0000002d 24 [],
     UvmCmd 0x0000002e 40 [], UvmCmd 0x0000002f 40 [], UvmCmd 0x00000033 80 [], UvmCmd 0x00000035 32 [],
     UvmCmd 0x00000036 20 [], UvmCmd 0x00000037 20 [], UvmCmd 0x00000038 56 [FdSlot FdUvm 44 (None)],
     UvmCmd 0x00000039 8 [], UvmCmd 0x0000003a 16 [], UvmCmd 0x0000003b 16 [], UvmCmd 0x0000003c 16 [],
     UvmCmd 0x0000003d 16 [], UvmCmd 0x0000003e 40 [], UvmCmd 0x0000003f 40 [], UvmCmd 0x00000040 16 [],
     UvmCmd 0x00000041 40 [], UvmCmd 0x00000042 40 [], UvmCmd 0x00000043 4 [], UvmCmd 0x00000044 1184 [],
     UvmCmd 0x00000045 4 [], UvmCmd 0x00000046 24 [], UvmCmd 0x00000047 24 [], UvmCmd 0x00000048 24 [],
     UvmCmd 0x00000049 24 [], UvmCmd 0x0000004a 40 [], UvmCmd 0x0000004b 8 [FdSlot FdUvm 0 (None)],
     UvmCmd 0x000007ff 8 [], UvmCmd 0x30000001 16 [], UvmCmd 0x30000002 0 []]"

definition uvm_init_535_129_03 :: init_flags where
  "uvm_init_535_129_03 = \<lparr>if_disable_hmm = Some 0x1, if_multi_process_sharing_mode = 0x2,
     if_disable_pageable_access = None, if_disable_pageable_migrations = None, if_mask = 0x3\<rparr>"

definition uvm_cmd_580_178_04 :: "uvm_cmd list" where
  "uvm_cmd_580_178_04 = [
     UvmCmd 0x00000001 24 [], UvmCmd 0x00000002 24 [], UvmCmd 0x00000003 48 [], UvmCmd 0x00000004 24 [],
     UvmCmd 0x00000005 48 [], UvmCmd 0x00000006 16 [], UvmCmd 0x00000007 272 [], UvmCmd 0x00000009 44 [],
     UvmCmd 0x0000000a 24 [], UvmCmd 0x0000000b 8 [], UvmCmd 0x0000000c 908 [], UvmCmd 0x0000000d 48 [],
     UvmCmd 0x0000000e 32 [], UvmCmd 0x0000000f 12 [], UvmCmd 0x00000010 56 [], UvmCmd 0x00000011 20 [],
     UvmCmd 0x00000012 536 [], UvmCmd 0x00000013 16 [], UvmCmd 0x00000014 520 [], UvmCmd 0x00000017 16 [],
     UvmCmd 0x00000018 16 [], UvmCmd 0x00000019 32 [FdSlot FdCtl 16 (Some 20)], UvmCmd 0x0000001a 20 [],
     UvmCmd 0x0000001b 56 [FdSlot FdCtl 16 (Some 20)], UvmCmd 0x0000001c 28 [], UvmCmd 0x0000001d 36 [],
     UvmCmd 0x0000001e 36 [], UvmCmd 0x0000001f 32 [],
     UvmCmd 0x00000021 9264 [FdSlot FdCtl 9248 (Some 9252)], UvmCmd 0x00000022 24 [],
     UvmCmd 0x00000023 24 [], UvmCmd 0x00000025 40 [FdSlot FdCtl 24 (Some 28)], UvmCmd 0x00000026 20 [],
     UvmCmd 0x00000027 8 [], UvmCmd 0x00000028 272 [], UvmCmd 0x00000029 272 [], UvmCmd 0x0000002a 40 [],
     UvmCmd 0x0000002b 24 [], UvmCmd 0x0000002c 24 [], UvmCmd 0x0000002d 24 [], UvmCmd 0x0000002e 40 [],
     UvmCmd 0x0000002f 40 [], UvmCmd 0x00000033 80 [], UvmCmd 0x00000035 32 [], UvmCmd 0x00000036 20 [],
     UvmCmd 0x00000037 20 [], UvmCmd 0x00000038 56 [FdSlot FdUvm 44 (None)], UvmCmd 0x00000039 8 [],
     UvmCmd 0x0000003a 16 [], UvmCmd 0x0000003b 16 [], UvmCmd 0x0000003c 16 [], UvmCmd 0x0000003d 16 [],
     UvmCmd 0x0000003e 40 [], UvmCmd 0x0000003f 40 [], UvmCmd 0x00000040 16 [], UvmCmd 0x00000041 40 [],
     UvmCmd 0x00000042 40 [], UvmCmd 0x00000043 4 [], UvmCmd 0x00000044 9248 [], UvmCmd 0x00000045 4 [],
     UvmCmd 0x00000046 24 [], UvmCmd 0x00000047 24 [], UvmCmd 0x00000048 24 [], UvmCmd 0x00000049 24 [],
     UvmCmd 0x0000004a 40 [], UvmCmd 0x0000004b 8 [FdSlot FdUvm 0 (None)], UvmCmd 0x0000004c 0 [],
     UvmCmd 0x0000004d 0 [], UvmCmd 0x0000004e 56 [FdSlot FdCtl 40 (Some 44)], UvmCmd 0x0000004f 4 [],
     UvmCmd 0x00000050 32 [], UvmCmd 0x000007ff 8 [], UvmCmd 0x30000001 16 [], UvmCmd 0x30000002 0 []]"

definition uvm_init_580_178_04 :: init_flags where
  "uvm_init_580_178_04 = \<lparr>if_disable_hmm = Some 0x1, if_multi_process_sharing_mode = 0x2,
     if_disable_pageable_access = None, if_disable_pageable_migrations = None, if_mask = 0x3\<rparr>"

definition uvm_cmd_595_71_05 :: "uvm_cmd list" where
  "uvm_cmd_595_71_05 = [
     UvmCmd 0x00000001 24 [], UvmCmd 0x00000002 24 [], UvmCmd 0x00000003 48 [], UvmCmd 0x00000004 24 [],
     UvmCmd 0x00000005 48 [], UvmCmd 0x00000006 16 [], UvmCmd 0x00000007 272 [], UvmCmd 0x0000000a 8 [],
     UvmCmd 0x0000000c 904 [], UvmCmd 0x0000000d 40 [], UvmCmd 0x0000000e 40 [], UvmCmd 0x0000000f 8 [],
     UvmCmd 0x00000010 56 [], UvmCmd 0x00000011 16 [], UvmCmd 0x00000014 520 [], UvmCmd 0x00000017 16 [],
     UvmCmd 0x00000018 16 [], UvmCmd 0x00000019 32 [FdSlot FdCtl 16 (Some 20)], UvmCmd 0x0000001a 20 [],
     UvmCmd 0x0000001b 56 [FdSlot FdCtl 16 (Some 20)], UvmCmd 0x0000001c 12 [], UvmCmd 0x0000001d 36 [],
     UvmCmd 0x0000001e 36 [], UvmCmd 0x0000001f 32 [],
     UvmCmd 0x00000021 9264 [FdSlot FdCtl 9248 (Some 9252)], UvmCmd 0x00000022 16 [],
     UvmCmd 0x00000023 24 [], UvmCmd 0x00000025 40 [FdSlot FdCtl 24 (Some 28)], UvmCmd 0x00000026 20 [],
     UvmCmd 0x00000027 8 [], UvmCmd 0x00000028 272 [], UvmCmd 0x00000029 272 [], UvmCmd 0x0000002a 40 [],
     UvmCmd 0x0000002b 24 [], UvmCmd 0x0000002c 24 [], UvmCmd 0x0000002d 24 [], UvmCmd 0x0000002e 40 [],
     UvmCmd 0x0000002f 40 [], UvmCmd 0x00000033 80 [], UvmCmd 0x00000035 32 [],
     UvmCmd 0x00000038 56 [FdSlot FdUvm 44 (None)], UvmCmd 0x00000039 8 [], UvmCmd 0x0000003a 16 [],
     UvmCmd 0x0000003b 16 [], UvmCmd 0x0000003c 16 [], UvmCmd 0x0000003d 16 [], UvmCmd 0x0000003e 40 [],
     UvmCmd 0x0000003f 40 [], UvmCmd 0x00000040 16 [], UvmCmd 0x00000041 40 [], UvmCmd 0x00000042 40 [],
     UvmCmd 0x00000043 4 [], UvmCmd 0x00000044 9248 [], UvmCmd 0x00000045 4 [], UvmCmd 0x00000046 24 [],
     UvmCmd 0x00000047 24 [], UvmCmd 0x00000048 24 [], UvmCmd 0x00000049 24 [], UvmCmd 0x0000004a 40 [],
     UvmCmd 0x0000004b 8 [FdSlot FdUvm 0 (None)], UvmCmd 0x0000004c 0 [], UvmCmd 0x0000004d 0 [],
     UvmCmd 0x0000004e 56 [FdSlot FdCtl 40 (Some 44)], UvmCmd 0x0000004f 4 [], UvmCmd 0x00000050 32 [],
     UvmCmd 0x000007ff 8 [], UvmCmd 0x30000001 16 [], UvmCmd 0x30000002 0 []]"

definition uvm_init_595_71_05 :: init_flags where
  "uvm_init_595_71_05 = \<lparr>if_disable_hmm = Some 0x1, if_multi_process_sharing_mode = 0x2,
     if_disable_pageable_access = None, if_disable_pageable_migrations = None, if_mask = 0x3\<rparr>"

definition uvm_cmd_595_104_02 :: "uvm_cmd list" where
  "uvm_cmd_595_104_02 = [
     UvmCmd 0x00000001 24 [], UvmCmd 0x00000002 24 [], UvmCmd 0x00000003 48 [], UvmCmd 0x00000004 24 [],
     UvmCmd 0x00000005 48 [], UvmCmd 0x00000006 16 [], UvmCmd 0x00000007 272 [], UvmCmd 0x0000000a 8 [],
     UvmCmd 0x0000000c 904 [], UvmCmd 0x0000000d 40 [], UvmCmd 0x0000000e 40 [], UvmCmd 0x0000000f 8 [],
     UvmCmd 0x00000010 56 [], UvmCmd 0x00000011 16 [], UvmCmd 0x00000014 520 [], UvmCmd 0x00000017 16 [],
     UvmCmd 0x00000018 16 [], UvmCmd 0x00000019 32 [FdSlot FdCtl 16 (Some 20)], UvmCmd 0x0000001a 20 [],
     UvmCmd 0x0000001b 56 [FdSlot FdCtl 16 (Some 20)], UvmCmd 0x0000001c 12 [], UvmCmd 0x0000001d 36 [],
     UvmCmd 0x0000001e 36 [], UvmCmd 0x0000001f 32 [],
     UvmCmd 0x00000021 9264 [FdSlot FdCtl 9248 (Some 9252)], UvmCmd 0x00000022 16 [],
     UvmCmd 0x00000023 24 [], UvmCmd 0x00000025 40 [FdSlot FdCtl 24 (Some 28)], UvmCmd 0x00000026 20 [],
     UvmCmd 0x00000027 8 [], UvmCmd 0x00000028 272 [], UvmCmd 0x00000029 272 [], UvmCmd 0x0000002a 40 [],
     UvmCmd 0x0000002b 24 [], UvmCmd 0x0000002c 24 [], UvmCmd 0x0000002d 24 [], UvmCmd 0x0000002e 40 [],
     UvmCmd 0x0000002f 40 [], UvmCmd 0x00000033 80 [], UvmCmd 0x00000035 32 [],
     UvmCmd 0x00000038 56 [FdSlot FdUvm 44 (None)], UvmCmd 0x00000039 8 [], UvmCmd 0x0000003a 16 [],
     UvmCmd 0x0000003b 16 [], UvmCmd 0x0000003c 16 [], UvmCmd 0x0000003d 16 [], UvmCmd 0x0000003e 40 [],
     UvmCmd 0x0000003f 40 [], UvmCmd 0x00000040 16 [], UvmCmd 0x00000041 40 [], UvmCmd 0x00000042 40 [],
     UvmCmd 0x00000043 4 [], UvmCmd 0x00000044 9248 [], UvmCmd 0x00000045 4 [], UvmCmd 0x00000046 24 [],
     UvmCmd 0x00000047 24 [], UvmCmd 0x00000048 24 [], UvmCmd 0x00000049 24 [], UvmCmd 0x0000004a 40 [],
     UvmCmd 0x0000004b 8 [FdSlot FdUvm 0 (None)], UvmCmd 0x0000004c 0 [], UvmCmd 0x0000004d 0 [],
     UvmCmd 0x0000004e 56 [FdSlot FdCtl 40 (Some 44)], UvmCmd 0x0000004f 4 [], UvmCmd 0x00000050 32 [],
     UvmCmd 0x000007ff 8 [], UvmCmd 0x30000001 16 [], UvmCmd 0x30000002 0 []]"

definition uvm_init_595_104_02 :: init_flags where
  "uvm_init_595_104_02 = \<lparr>if_disable_hmm = Some 0x1, if_multi_process_sharing_mode = 0x2,
     if_disable_pageable_access = None, if_disable_pageable_migrations = None, if_mask = 0x3\<rparr>"

definition uvm_cmd_615_71_09 :: "uvm_cmd list" where
  "uvm_cmd_615_71_09 = [
     UvmCmd 0x00000001 24 [], UvmCmd 0x00000002 24 [], UvmCmd 0x00000003 48 [], UvmCmd 0x00000004 24 [],
     UvmCmd 0x00000005 48 [], UvmCmd 0x00000006 16 [], UvmCmd 0x00000007 272 [], UvmCmd 0x0000000a 8 [],
     UvmCmd 0x0000000c 904 [], UvmCmd 0x0000000d 40 [], UvmCmd 0x0000000e 40 [], UvmCmd 0x0000000f 8 [],
     UvmCmd 0x00000010 56 [], UvmCmd 0x00000011 16 [], UvmCmd 0x00000014 520 [],
     UvmCmd 0x00000019 32 [FdSlot FdCtl 16 (Some 20)], UvmCmd 0x0000001a 20 [],
     UvmCmd 0x0000001b 56 [FdSlot FdCtl 16 (Some 20)], UvmCmd 0x0000001c 12 [], UvmCmd 0x0000001d 36 [],
     UvmCmd 0x0000001e 36 [], UvmCmd 0x00000021 9264 [FdSlot FdCtl 9248 (Some 9252)],
     UvmCmd 0x00000022 16 [], UvmCmd 0x00000023 24 [], UvmCmd 0x00000025 40 [FdSlot FdCtl 24 (Some 28)],
     UvmCmd 0x00000026 20 [], UvmCmd 0x00000027 8 [], UvmCmd 0x0000002a 40 [], UvmCmd 0x0000002b 24 [],
     UvmCmd 0x0000002c 24 [], UvmCmd 0x0000002d 24 [], UvmCmd 0x0000002e 40 [], UvmCmd 0x0000002f 40 [],
     UvmCmd 0x00000033 80 [], UvmCmd 0x00000038 56 [FdSlot FdUvm 44 (None)], UvmCmd 0x00000039 8 [],
     UvmCmd 0x0000003a 16 [], UvmCmd 0x0000003b 16 [], UvmCmd 0x0000003c 16 [], UvmCmd 0x0000003d 16 [],
     UvmCmd 0x0000003e 40 [], UvmCmd 0x0000003f 40 [], UvmCmd 0x00000040 16 [], UvmCmd 0x00000041 40 [],
     UvmCmd 0x00000042 40 [], UvmCmd 0x00000043 4 [], UvmCmd 0x00000044 9248 [], UvmCmd 0x00000045 4 [],
     UvmCmd 0x00000046 24 [], UvmCmd 0x00000047 24 [], UvmCmd 0x00000048 24 [], UvmCmd 0x00000049 24 [],
     UvmCmd 0x0000004a 40 [], UvmCmd 0x0000004b 8 [FdSlot FdUvm 0 (None)], UvmCmd 0x0000004c 0 [],
     UvmCmd 0x0000004d 0 [], UvmCmd 0x0000004e 56 [FdSlot FdCtl 40 (Some 44)], UvmCmd 0x0000004f 4 [],
     UvmCmd 0x00000050 32 [], UvmCmd 0x00000051 80 [], UvmCmd 0x00000052 8 [],
     UvmCmd 0x00000053 24 [FdSlot FdForeign 16 (None)], UvmCmd 0x00000054 40 [], UvmCmd 0x00000055 40 [],
     UvmCmd 0x000007ff 8 [], UvmCmd 0x30000001 16 [], UvmCmd 0x30000002 0 []]"

definition uvm_init_615_71_09 :: init_flags where
  "uvm_init_615_71_09 = \<lparr>if_disable_hmm = Some 0x1, if_multi_process_sharing_mode = 0x2,
     if_disable_pageable_access = Some 0x4, if_disable_pageable_migrations = Some 0x1, if_mask = 0x7\<rparr>"

definition uvm_profiles :: "(driver_version \<times> (uvm_cmd list \<times> init_flags)) list" where
  "uvm_profiles =
     [(DriverVersion 535 129 3, uvm_cmd_535_129_03, uvm_init_535_129_03),
      (DriverVersion 580 178 4, uvm_cmd_580_178_04, uvm_init_580_178_04),
      (DriverVersion 595 71 5, uvm_cmd_595_71_05, uvm_init_595_71_05),
      (DriverVersion 595 104 2, uvm_cmd_595_104_02, uvm_init_595_104_02),
      (DriverVersion 615 71 9, uvm_cmd_615_71_09, uvm_init_615_71_09)]"

record uvm_selected =
  us_cmd :: "uvm_cmd list"
  us_init :: init_flags
  us_exact :: bool

definition uvm_select :: "driver_version \<Rightarrow> uvm_selected option" where
  "uvm_select v =
     map_option (\<lambda>(w, cmd, i). \<lparr>us_cmd = cmd, us_init = i, us_exact = (w = v)\<rparr>) (profile_for uvm_profiles v)"

definition uvm_find :: "uvm_cmd list \<Rightarrow> nat \<Rightarrow> uvm_cmd option" where
  "uvm_find t num = table_find uc_num t num"

definition uvm_entry :: "uvm_selected \<Rightarrow> nat \<Rightarrow> uvm_cmd option" where
  "uvm_entry s num =
     (case uvm_find (us_cmd s) num of
        None \<Rightarrow> None
      | Some e \<Rightarrow>
          if us_exact s then Some e
          else if list_all (\<lambda>(_, cmd, _). uvm_find cmd num = Some e) uvm_profiles then Some e
          else None)"

definition uvm_pageable_must_be_off :: "uvm_selected \<Rightarrow> bool" where
  "uvm_pageable_must_be_off s \<longleftrightarrow> \<not> if_can_disable_pageable_access (us_init s)"

definition uvm_init_flags :: "uvm_selected \<Rightarrow> nat" where
  "uvm_init_flags s = if_ours (us_init s)"

lemmas uvm_cmd_tables = uvm_cmd_535_129_03_def uvm_cmd_580_178_04_def uvm_cmd_595_71_05_def
  uvm_cmd_595_104_02_def uvm_cmd_615_71_09_def

lemmas uvm_init_tables = uvm_init_535_129_03_def uvm_init_580_178_04_def uvm_init_595_71_05_def
  uvm_init_595_104_02_def uvm_init_615_71_09_def

interpretation uvp: version_profiles uvm_profiles
  by unfold_locales (simp add: uvm_profiles_def less_driver_version_def)

interpretation uvt535: sorted_table uc_num uvm_cmd_535_129_03
  by unfold_locales (simp add: uvm_cmd_535_129_03_def)
interpretation uvt580: sorted_table uc_num uvm_cmd_580_178_04
  by unfold_locales (simp add: uvm_cmd_580_178_04_def)
interpretation uvt595a: sorted_table uc_num uvm_cmd_595_71_05
  by unfold_locales (simp add: uvm_cmd_595_71_05_def)
interpretation uvt595b: sorted_table uc_num uvm_cmd_595_104_02
  by unfold_locales (simp add: uvm_cmd_595_104_02_def)
interpretation uvt615: sorted_table uc_num uvm_cmd_615_71_09
  by unfold_locales (simp add: uvm_cmd_615_71_09_def)

text \<open>A command whose descriptors the backend can find: at most one, inside the block, its handle too.\<close>

definition uvm_cmd_ok :: "uvm_cmd \<Rightarrow> bool" where
  "uvm_cmd_ok c \<longleftrightarrow> length (uc_fds c) \<le> 1 \<and>
     list_all (\<lambda>f. fs_at f + 4 \<le> uc_size c \<and> (case fs_handle f of None \<Rightarrow> True | Some h \<Rightarrow> h + 4 \<le> uc_size c)) (uc_fds c)"

lemma uvm_table_ok:
  "list_all uvm_cmd_ok uvm_cmd_535_129_03" "list_all uvm_cmd_ok uvm_cmd_580_178_04"
  "list_all uvm_cmd_ok uvm_cmd_595_71_05" "list_all uvm_cmd_ok uvm_cmd_595_104_02"
  "list_all uvm_cmd_ok uvm_cmd_615_71_09"
  by (simp_all add: uvm_cmd_tables uvm_cmd_ok_def)

lemma uvm_find_member:
  "(w, cmd, i) \<in> set uvm_profiles \<Longrightarrow> uvm_find cmd num = Some e \<Longrightarrow> e \<in> set cmd \<and> uc_num e = num \<and> uvm_cmd_ok e"
  using uvm_table_ok
  by (auto simp: uvm_profiles_def uvm_find_def uvt535.table_find_Some uvt580.table_find_Some
      uvt595a.table_find_Some uvt595b.table_find_Some uvt615.table_find_Some list_all_iff)

lemma uvm_select_member:
  assumes "uvm_select v = Some s"
  obtains w where "(w, us_cmd s, us_init s) \<in> set uvm_profiles" "us_exact s = (w = v)" "w \<le> v"
proof -
  obtain w cmd i where "profile_for uvm_profiles v = Some (w, cmd, i)" "s = \<lparr>us_cmd = cmd, us_init = i, us_exact = (w = v)\<rparr>"
    using assms by (auto simp: uvm_select_def)
  then show thesis using uvp.profile_for_Some by (intro that [of w]) auto
qed

section \<open>Properties\<close>

text \<open>A UVM command the selected table admits is the one asked for; its descriptor, if it has one, and that
  descriptor's handle lie inside its parameter block; and on a release without a table of its own every
  known release describes the command identically.\<close>

theorem uvm_entry_sound:
  assumes "uvm_select v = Some s" "uvm_entry s num = Some e"
  shows "uc_num e = num \<and> length (uc_fds e) \<le> 1 \<and>
    (\<forall>f \<in> set (uc_fds e). fs_at f + 4 \<le> uc_size e \<and> (\<forall>h. fs_handle f = Some h \<longrightarrow> h + 4 \<le> uc_size e)) \<and>
    (us_exact s \<or> (\<forall>(w, cmd, i) \<in> set uvm_profiles. e \<in> set cmd))"
proof -
  obtain w where w: "(w, us_cmd s, us_init s) \<in> set uvm_profiles" using uvm_select_member [OF assms(1)] by blast
  have f: "uvm_find (us_cmd s) num = Some e"
    and all: "us_exact s \<or> list_all (\<lambda>(_, cmd, _). uvm_find cmd num = Some e) uvm_profiles"
    using assms(2) by (auto simp: uvm_entry_def split: option.splits if_splits)
  have ok: "uc_num e = num" "uvm_cmd_ok e" using uvm_find_member [OF w f] by simp_all
  have "us_exact s \<or> (\<forall>(w, cmd, i) \<in> set uvm_profiles. e \<in> set cmd)"
    using all uvm_find_member unfolding list_all_iff by fast
  with ok show ?thesis by (auto simp: uvm_cmd_ok_def list_all_iff)
qed

lemma uvm_entry_sound_witness:
  "fs_at (hd (uc_fds (UvmCmd 0x25 40 [FdSlot FdCtl 24 (Some 28)]))) + 4 \<le> 40"
proof -
  have s: "uvm_select (DriverVersion 595 71 5) = Some \<lparr>us_cmd = uvm_cmd_595_71_05, us_init = uvm_init_595_71_05, us_exact = True\<rparr>"
    by (simp add: uvm_select_def profile_for_def uvm_profiles_def less_driver_version_def less_eq_driver_version_def)
  have "uvm_find uvm_cmd_595_71_05 0x25 = Some (UvmCmd 0x25 40 [FdSlot FdCtl 24 (Some 28)])"
    unfolding uvm_find_def uvt595a.table_find_Some by (simp add: uvm_cmd_595_71_05_def)
  then have e: "uvm_entry \<lparr>us_cmd = uvm_cmd_595_71_05, us_init = uvm_init_595_71_05, us_exact = True\<rparr> 0x25 =
      Some (UvmCmd 0x25 40 [FdSlot FdCtl 24 (Some 28)])"
    by (simp add: uvm_entry_def)
  from uvm_entry_sound [OF s e] show ?thesis by simp
qed

text \<open>Whatever the release, the flags the backend opens a UVM file with ask for multi-process sharing, turn HMM
  off where the release has a bit for it, and use no bit outside the release's mask; pageable access is
  turned off by a flag exactly where it need not be proved off by asking.\<close>

theorem uvm_init_flags_sound:
  assumes "uvm_select v = Some s"
  shows "uvm_init_flags s AND if_multi_process_sharing_mode (us_init s) = if_multi_process_sharing_mode (us_init s) \<and>
    (\<forall>b. if_disable_hmm (us_init s) = Some b \<longrightarrow> uvm_init_flags s AND b = b) \<and>
    uvm_init_flags s AND if_mask (us_init s) = uvm_init_flags s \<and>
    (uvm_pageable_must_be_off s \<longleftrightarrow> (\<nexists>b. if_disable_pageable_access (us_init s) = Some b \<and> uvm_init_flags s AND b = b))"
proof -
  obtain w where "(w, us_cmd s, us_init s) \<in> set uvm_profiles" using uvm_select_member [OF assms] by blast
  then have "us_init s \<in> {uvm_init_535_129_03, uvm_init_580_178_04, uvm_init_595_71_05, uvm_init_595_104_02, uvm_init_615_71_09}"
    by (auto simp: uvm_profiles_def)
  then show ?thesis
    by (auto simp: uvm_init_flags_def uvm_pageable_must_be_off_def if_can_disable_pageable_access_def if_ours_def uvm_init_tables)
qed

lemma uvm_init_flags_sound_witness:
  "uvm_init_flags \<lparr>us_cmd = uvm_cmd_615_71_09, us_init = uvm_init_615_71_09, us_exact = False\<rparr> AND 2 = 2"
proof -
  have s: "uvm_select (DriverVersion 700 1 1) = Some \<lparr>us_cmd = uvm_cmd_615_71_09, us_init = uvm_init_615_71_09, us_exact = False\<rparr>"
    by (simp add: uvm_select_def profile_for_def uvm_profiles_def less_driver_version_def less_eq_driver_version_def)
  from uvm_init_flags_sound [OF s] show ?thesis by (simp add: uvm_init_615_71_09_def)
qed

end
