(* ===== verification/RmCtrlTables.thy ===== *)
theory RmCtrlTables
  imports DriverVersions
begin

text \<open>
  RM controls whose parameters carry a pointer RM dereferences (\<open>gen/src/rmctrl\<close>): where each pointer sits,
  how its length is derived and which way it is copied. The five release tables are split where the source
  files are long; \<open>None\<close> from \<open>count_elements\<close> means the caller refuses.
\<close>

abbreviation (input) MAX_EMBEDDED_BYTES :: nat where "MAX_EMBEDDED_BYTES \<equiv> 1048576"

datatype elem_count = CFixed nat | CField nat nat | CSquared nat nat

datatype embedded_ptr =
  EmbeddedPtr (ep_offset: nat) (ep_count: elem_count) (ep_elem: nat) (ep_in: bool) (ep_out: bool)

datatype rmctrl_entry =
  RmCtrlEntry (rc_cmd: nat) (rc_size: nat) (rc_refuse: bool) (rc_ptrs: "embedded_ptr list")

definition count_read :: "nat \<Rightarrow> nat \<Rightarrow> bytes \<Rightarrow> nat option" where
  "count_read offset width p =
     (if offset + width > u64_max then None
      else case slice_at p offset width of
        None \<Rightarrow> None
      | Some b \<Rightarrow> if width \<in> set [1, 2, 4, 8] then Some (of_le b) else None)"

fun count_elements :: "elem_count \<Rightarrow> bytes \<Rightarrow> nat option" where
  "count_elements (CFixed n) p = Some n"
| "count_elements (CField offset width) p = count_read offset width p"
| "count_elements (CSquared offset width) p =
     (case count_read offset width p of None \<Rightarrow> None | Some n \<Rightarrow> if n * n \<le> u64_max then Some (n * n) else None)"

definition ep_bytes :: "embedded_ptr \<Rightarrow> bytes \<Rightarrow> nat option" where
  "ep_bytes e p =
     (case count_elements (ep_count e) p of
        None \<Rightarrow> None
      | Some n \<Rightarrow>
          if n * ep_elem e > u64_max then None
          else if n * ep_elem e \<le> MAX_EMBEDDED_BYTES then Some (n * ep_elem e) else None)"

definition rmctrl_535_129_03_a :: "rmctrl_entry list" where
  "rmctrl_535_129_03_a = [
     RmCtrlEntry 0x00000127 168 False [EmbeddedPtr 160 (CSquared 128 4) 4 False True],
     RmCtrlEntry 0x00000130 40 False [EmbeddedPtr 8 (CField 16 2) 1 True False, EmbeddedPtr 24 (CField 32 2) 1 False True],
     RmCtrlEntry 0x00000602 16 False [EmbeddedPtr 0 (CField 12 4) 1 False True],
     RmCtrlEntry 0x00410110 16 False [EmbeddedPtr 8 (CField 0 4) 8 True True],
     RmCtrlEntry 0x00730168 40 False [EmbeddedPtr 8 (CField 16 2) 1 True False, EmbeddedPtr 24 (CField 32 2) 1 False True],
     RmCtrlEntry 0x00800201 16 False [EmbeddedPtr 8 (CField 0 4) 4 True True],
     RmCtrlEntry 0x00801102 16 False [EmbeddedPtr 8 (CField 0 4) 1 False True],
     RmCtrlEntry 0x00801104 16 False [EmbeddedPtr 8 (CField 0 4) 8 True True]]"

definition rmctrl_535_129_03_b :: "rmctrl_entry list" where
  "rmctrl_535_129_03_b = [
     RmCtrlEntry 0x00801301 16 False [EmbeddedPtr 8 (CField 0 4) 1 False True],
     RmCtrlEntry 0x00801401 16 False [EmbeddedPtr 8 (CField 0 4) 1 False True],
     RmCtrlEntry 0x00801701 16 False [EmbeddedPtr 8 (CField 0 4) 1 False True],
     RmCtrlEntry 0x00801705 48 False [EmbeddedPtr 40 (CField 0 4) 4 True True],
     RmCtrlEntry 0x0080170d 24 False [EmbeddedPtr 8 (CField 0 4) 4 True False, EmbeddedPtr 16 (CField 0 4) 4 True True],
     RmCtrlEntry 0x0080180f 64 False [EmbeddedPtr 48 (CFixed 1) 16 False True],
     RmCtrlEntry 0x00801b01 16 False [EmbeddedPtr 8 (CField 0 4) 1 False True],
     RmCtrlEntry 0x20800122 48 False [EmbeddedPtr 24 (CField 20 4) 32 True True],
     RmCtrlEntry 0x20800123 16 False [EmbeddedPtr 8 (CField 0 4) 4 True True]]"

definition rmctrl_535_129_03_c :: "rmctrl_entry list" where
  "rmctrl_535_129_03_c = [
     RmCtrlEntry 0x20800124 16 False [EmbeddedPtr 8 (CField 4 4) 4 True True],
     RmCtrlEntry 0x20800610 40 False [EmbeddedPtr 16 (CField 28 4) 1 True True],
     RmCtrlEntry 0x20800802 16 False [EmbeddedPtr 8 (CField 0 4) 8 True True],
     RmCtrlEntry 0x20800803 1064 False [EmbeddedPtr 1048 (CField 1056 4) 1 False True],
     RmCtrlEntry 0x20800806 40 False [EmbeddedPtr 16 (CField 24 4) 1 False True],
     RmCtrlEntry 0x20801201 32 False [EmbeddedPtr 8 (CField 0 4) 8 True True],
     RmCtrlEntry 0x20801301 16 False [EmbeddedPtr 8 (CField 0 4) 8 True True],
     RmCtrlEntry 0x20801336 0 True [],
     RmCtrlEntry 0x20801802 16 False [EmbeddedPtr 8 (CField 0 4) 8 True True],
     RmCtrlEntry 0x20802204 32 False [EmbeddedPtr 16 (CField 24 4) 1 False True]]"

definition rmctrl_535_129_03_d :: "rmctrl_entry list" where
  "rmctrl_535_129_03_d = [
     RmCtrlEntry 0x20802402 16 False [EmbeddedPtr 0 (CField 12 4) 1 False True],
     RmCtrlEntry 0x20802a01 16 False [EmbeddedPtr 8 (CField 4 4) 1 False True],
     RmCtrlEntry 0x402c0102 32 False [EmbeddedPtr 24 (CField 16 4) 1 True True],
     RmCtrlEntry 0x402c0105 0 True [],
     RmCtrlEntry 0x83de0315 24 False [EmbeddedPtr 16 (CField 4 4) 1 False True],
     RmCtrlEntry 0x83de0316 24 False [EmbeddedPtr 16 (CField 4 4) 1 True False],
     RmCtrlEntry 0x83de0326 3616 False [EmbeddedPtr 0 (CField 8 4) 1 False True],
     RmCtrlEntry 0x83de0327 3616 False [EmbeddedPtr 0 (CField 8 4) 1 True False],
     RmCtrlEntry 0xb06f010c 16 False [EmbeddedPtr 8 (CField 4 4) 1 False True],
     RmCtrlEntry 0xb06f010d 16 False [EmbeddedPtr 8 (CField 4 4) 1 True True]]"

definition rmctrl_535_129_03 :: "rmctrl_entry list" where
  "rmctrl_535_129_03 = rmctrl_535_129_03_a @ rmctrl_535_129_03_b @ rmctrl_535_129_03_c @ rmctrl_535_129_03_d"

definition rmctrl_580_178_04_a :: "rmctrl_entry list" where
  "rmctrl_580_178_04_a = [
     RmCtrlEntry 0x00000127 176 False [EmbeddedPtr 160 (CSquared 128 4) 4 False True, EmbeddedPtr 168 (CSquared 128 4) 4 False True],
     RmCtrlEntry 0x00000130 40 False [EmbeddedPtr 8 (CField 16 2) 1 True False, EmbeddedPtr 24 (CField 32 2) 1 False True],
     RmCtrlEntry 0x00000602 16 False [EmbeddedPtr 0 (CField 12 4) 1 False True],
     RmCtrlEntry 0x00410110 16 False [EmbeddedPtr 8 (CField 0 4) 8 True True],
     RmCtrlEntry 0x00730120 40 False [EmbeddedPtr 8 (CField 16 2) 1 True False, EmbeddedPtr 24 (CField 32 2) 1 False True],
     RmCtrlEntry 0x00800201 16 False [EmbeddedPtr 8 (CField 0 4) 4 True True],
     RmCtrlEntry 0x00801102 16 False [EmbeddedPtr 8 (CField 0 4) 1 False True]]"

definition rmctrl_580_178_04_b :: "rmctrl_entry list" where
  "rmctrl_580_178_04_b = [
     RmCtrlEntry 0x00801104 16 False [EmbeddedPtr 8 (CField 0 4) 8 True True],
     RmCtrlEntry 0x00801301 16 False [EmbeddedPtr 8 (CField 0 4) 1 False True],
     RmCtrlEntry 0x00801401 16 False [EmbeddedPtr 8 (CField 0 4) 1 False True],
     RmCtrlEntry 0x00801701 16 False [EmbeddedPtr 8 (CField 0 4) 1 False True],
     RmCtrlEntry 0x0080170d 24 False [EmbeddedPtr 8 (CField 0 4) 4 True False, EmbeddedPtr 16 (CField 0 4) 4 True True],
     RmCtrlEntry 0x0080180f 64 False [EmbeddedPtr 48 (CFixed 1) 16 False True],
     RmCtrlEntry 0x20800122 48 False [EmbeddedPtr 24 (CField 20 4) 32 True True],
     RmCtrlEntry 0x20800123 16 False [EmbeddedPtr 8 (CField 0 4) 4 True True],
     RmCtrlEntry 0x20800124 16 False [EmbeddedPtr 8 (CField 4 4) 4 True True]]"

definition rmctrl_580_178_04_c :: "rmctrl_entry list" where
  "rmctrl_580_178_04_c = [
     RmCtrlEntry 0x2080016e 16 False [EmbeddedPtr 8 (CField 0 4) 32 False True],
     RmCtrlEntry 0x208001e8 32 False [EmbeddedPtr 24 (CField 4 4) 4 True True],
     RmCtrlEntry 0x20800610 40 False [EmbeddedPtr 16 (CField 28 4) 1 True True],
     RmCtrlEntry 0x20800802 16 False [EmbeddedPtr 8 (CField 0 4) 8 True True],
     RmCtrlEntry 0x20800803 1064 False [EmbeddedPtr 1048 (CField 1056 4) 1 False True],
     RmCtrlEntry 0x20800806 40 False [EmbeddedPtr 16 (CField 24 4) 1 False True],
     RmCtrlEntry 0x20801201 32 False [EmbeddedPtr 8 (CField 0 4) 8 True True],
     RmCtrlEntry 0x20801336 0 True [],
     RmCtrlEntry 0x20802204 32 False [EmbeddedPtr 16 (CField 24 4) 1 False True],
     RmCtrlEntry 0x20802402 16 False [EmbeddedPtr 0 (CField 12 4) 1 False True]]"

definition rmctrl_580_178_04_d :: "rmctrl_entry list" where
  "rmctrl_580_178_04_d = [
     RmCtrlEntry 0x20802a01 16 False [EmbeddedPtr 8 (CField 4 4) 1 False True],
     RmCtrlEntry 0x402c0102 32 False [EmbeddedPtr 24 (CField 16 4) 1 True True],
     RmCtrlEntry 0x402c0105 0 True [],
     RmCtrlEntry 0x83de0315 24 False [EmbeddedPtr 16 (CField 4 4) 1 False True],
     RmCtrlEntry 0x83de0316 24 False [EmbeddedPtr 16 (CField 4 4) 1 True False],
     RmCtrlEntry 0x83de0326 3616 False [EmbeddedPtr 0 (CField 8 4) 1 False True],
     RmCtrlEntry 0x83de0327 3616 False [EmbeddedPtr 0 (CField 8 4) 1 True False],
     RmCtrlEntry 0xa0bc0101 32 False [EmbeddedPtr 24 (CField 16 4) 16 True True],
     RmCtrlEntry 0xb06f010c 16 False [EmbeddedPtr 8 (CField 4 4) 1 False True],
     RmCtrlEntry 0xb06f010d 16 False [EmbeddedPtr 8 (CField 4 4) 1 True True]]"

definition rmctrl_580_178_04 :: "rmctrl_entry list" where
  "rmctrl_580_178_04 = rmctrl_580_178_04_a @ rmctrl_580_178_04_b @ rmctrl_580_178_04_c @ rmctrl_580_178_04_d"

definition rmctrl_595_71_05_a :: "rmctrl_entry list" where
  "rmctrl_595_71_05_a = [
     RmCtrlEntry 0x00000127 176 False [EmbeddedPtr 160 (CSquared 128 4) 4 False True, EmbeddedPtr 168 (CSquared 128 4) 4 False True],
     RmCtrlEntry 0x00000130 40 False [EmbeddedPtr 8 (CField 16 2) 1 True False, EmbeddedPtr 24 (CField 32 2) 1 False True],
     RmCtrlEntry 0x00000602 16 False [EmbeddedPtr 0 (CField 12 4) 1 False True],
     RmCtrlEntry 0x00410110 16 False [EmbeddedPtr 8 (CField 0 4) 8 True True],
     RmCtrlEntry 0x00730120 40 False [EmbeddedPtr 8 (CField 16 2) 1 True False, EmbeddedPtr 24 (CField 32 2) 1 False True],
     RmCtrlEntry 0x00800201 16 False [EmbeddedPtr 8 (CField 0 4) 4 True True],
     RmCtrlEntry 0x00801102 16 False [EmbeddedPtr 8 (CField 0 4) 1 False True]]"

definition rmctrl_595_71_05_b :: "rmctrl_entry list" where
  "rmctrl_595_71_05_b = [
     RmCtrlEntry 0x00801104 16 False [EmbeddedPtr 8 (CField 0 4) 8 True True],
     RmCtrlEntry 0x00801301 16 False [EmbeddedPtr 8 (CField 0 4) 1 False True],
     RmCtrlEntry 0x00801401 16 False [EmbeddedPtr 8 (CField 0 4) 1 False True],
     RmCtrlEntry 0x00801701 16 False [EmbeddedPtr 8 (CField 0 4) 1 False True],
     RmCtrlEntry 0x0080170d 24 False [EmbeddedPtr 8 (CField 0 4) 4 True False, EmbeddedPtr 16 (CField 0 4) 4 True True],
     RmCtrlEntry 0x0080180f 64 False [EmbeddedPtr 48 (CFixed 1) 16 False True],
     RmCtrlEntry 0x20800122 48 False [EmbeddedPtr 24 (CField 20 4) 32 True True],
     RmCtrlEntry 0x20800123 16 False [EmbeddedPtr 8 (CField 0 4) 4 True True],
     RmCtrlEntry 0x20800124 16 False [EmbeddedPtr 8 (CField 4 4) 4 True True]]"

definition rmctrl_595_71_05_c :: "rmctrl_entry list" where
  "rmctrl_595_71_05_c = [
     RmCtrlEntry 0x2080016e 16 False [EmbeddedPtr 8 (CField 0 4) 32 False True],
     RmCtrlEntry 0x208001e8 32 False [EmbeddedPtr 24 (CField 4 4) 4 True True],
     RmCtrlEntry 0x20800610 40 False [EmbeddedPtr 16 (CField 28 4) 1 True True],
     RmCtrlEntry 0x20800802 16 False [EmbeddedPtr 8 (CField 0 4) 8 True True],
     RmCtrlEntry 0x20800803 1064 False [EmbeddedPtr 1048 (CField 1056 4) 1 False True],
     RmCtrlEntry 0x20800806 40 False [EmbeddedPtr 16 (CField 24 4) 1 False True],
     RmCtrlEntry 0x20801201 32 False [EmbeddedPtr 8 (CField 0 4) 8 True True],
     RmCtrlEntry 0x20801336 0 True [],
     RmCtrlEntry 0x20802204 32 False [EmbeddedPtr 16 (CField 24 4) 1 False True],
     RmCtrlEntry 0x20802402 16 False [EmbeddedPtr 0 (CField 12 4) 1 False True]]"

definition rmctrl_595_71_05_d :: "rmctrl_entry list" where
  "rmctrl_595_71_05_d = [
     RmCtrlEntry 0x20802a01 16 False [EmbeddedPtr 8 (CField 4 4) 1 False True],
     RmCtrlEntry 0x402c0102 32 False [EmbeddedPtr 24 (CField 16 4) 1 True True],
     RmCtrlEntry 0x402c0105 0 True [],
     RmCtrlEntry 0x83de0315 24 False [EmbeddedPtr 16 (CField 4 4) 1 False True],
     RmCtrlEntry 0x83de0316 24 False [EmbeddedPtr 16 (CField 4 4) 1 True False],
     RmCtrlEntry 0x83de0326 3616 False [EmbeddedPtr 0 (CField 8 4) 1 False True],
     RmCtrlEntry 0x83de0327 3616 False [EmbeddedPtr 0 (CField 8 4) 1 True False],
     RmCtrlEntry 0xa0830103 16 False [EmbeddedPtr 0 (CField 8 4) 1 False True],
     RmCtrlEntry 0xa0bc0101 32 False [EmbeddedPtr 24 (CField 16 4) 16 True True],
     RmCtrlEntry 0xb06f010c 16 False [EmbeddedPtr 8 (CField 4 4) 1 False True]]"

definition rmctrl_595_71_05_e :: "rmctrl_entry list" where
  "rmctrl_595_71_05_e = [
     RmCtrlEntry 0xb06f010d 16 False [EmbeddedPtr 8 (CField 4 4) 1 True True]]"

definition rmctrl_595_71_05 :: "rmctrl_entry list" where
  "rmctrl_595_71_05 = rmctrl_595_71_05_a @ rmctrl_595_71_05_b @ rmctrl_595_71_05_c @ rmctrl_595_71_05_d @ rmctrl_595_71_05_e"

definition rmctrl_595_104_02_a :: "rmctrl_entry list" where
  "rmctrl_595_104_02_a = [
     RmCtrlEntry 0x00000127 176 False [EmbeddedPtr 160 (CSquared 128 4) 4 False True, EmbeddedPtr 168 (CSquared 128 4) 4 False True],
     RmCtrlEntry 0x00000130 40 False [EmbeddedPtr 8 (CField 16 2) 1 True False, EmbeddedPtr 24 (CField 32 2) 1 False True],
     RmCtrlEntry 0x00000602 16 False [EmbeddedPtr 0 (CField 12 4) 1 False True],
     RmCtrlEntry 0x00410110 16 False [EmbeddedPtr 8 (CField 0 4) 8 True True],
     RmCtrlEntry 0x00730120 40 False [EmbeddedPtr 8 (CField 16 2) 1 True False, EmbeddedPtr 24 (CField 32 2) 1 False True],
     RmCtrlEntry 0x00800201 16 False [EmbeddedPtr 8 (CField 0 4) 4 True True],
     RmCtrlEntry 0x00801102 16 False [EmbeddedPtr 8 (CField 0 4) 1 False True]]"

definition rmctrl_595_104_02_b :: "rmctrl_entry list" where
  "rmctrl_595_104_02_b = [
     RmCtrlEntry 0x00801104 16 False [EmbeddedPtr 8 (CField 0 4) 8 True True],
     RmCtrlEntry 0x00801301 16 False [EmbeddedPtr 8 (CField 0 4) 1 False True],
     RmCtrlEntry 0x00801401 16 False [EmbeddedPtr 8 (CField 0 4) 1 False True],
     RmCtrlEntry 0x00801701 16 False [EmbeddedPtr 8 (CField 0 4) 1 False True],
     RmCtrlEntry 0x0080170d 24 False [EmbeddedPtr 8 (CField 0 4) 4 True False, EmbeddedPtr 16 (CField 0 4) 4 True True],
     RmCtrlEntry 0x0080180f 64 False [EmbeddedPtr 48 (CFixed 1) 16 False True],
     RmCtrlEntry 0x20800122 48 False [EmbeddedPtr 24 (CField 20 4) 32 True True],
     RmCtrlEntry 0x20800123 16 False [EmbeddedPtr 8 (CField 0 4) 4 True True],
     RmCtrlEntry 0x20800124 16 False [EmbeddedPtr 8 (CField 4 4) 4 True True]]"

definition rmctrl_595_104_02_c :: "rmctrl_entry list" where
  "rmctrl_595_104_02_c = [
     RmCtrlEntry 0x2080016e 16 False [EmbeddedPtr 8 (CField 0 4) 32 False True],
     RmCtrlEntry 0x208001e8 32 False [EmbeddedPtr 24 (CField 4 4) 4 True True],
     RmCtrlEntry 0x20800610 40 False [EmbeddedPtr 16 (CField 28 4) 1 True True],
     RmCtrlEntry 0x20800802 16 False [EmbeddedPtr 8 (CField 0 4) 8 True True],
     RmCtrlEntry 0x20800803 1064 False [EmbeddedPtr 1048 (CField 1056 4) 1 False True],
     RmCtrlEntry 0x20800806 40 False [EmbeddedPtr 16 (CField 24 4) 1 False True],
     RmCtrlEntry 0x20801201 32 False [EmbeddedPtr 8 (CField 0 4) 8 True True],
     RmCtrlEntry 0x20801336 0 True [],
     RmCtrlEntry 0x20802204 32 False [EmbeddedPtr 16 (CField 24 4) 1 False True],
     RmCtrlEntry 0x20802402 16 False [EmbeddedPtr 0 (CField 12 4) 1 False True]]"

definition rmctrl_595_104_02_d :: "rmctrl_entry list" where
  "rmctrl_595_104_02_d = [
     RmCtrlEntry 0x20802a01 16 False [EmbeddedPtr 8 (CField 4 4) 1 False True],
     RmCtrlEntry 0x402c0102 32 False [EmbeddedPtr 24 (CField 16 4) 1 True True],
     RmCtrlEntry 0x402c0105 0 True [],
     RmCtrlEntry 0x83de0315 24 False [EmbeddedPtr 16 (CField 4 4) 1 False True],
     RmCtrlEntry 0x83de0316 24 False [EmbeddedPtr 16 (CField 4 4) 1 True False],
     RmCtrlEntry 0x83de0326 3616 False [EmbeddedPtr 0 (CField 8 4) 1 False True],
     RmCtrlEntry 0x83de0327 3616 False [EmbeddedPtr 0 (CField 8 4) 1 True False],
     RmCtrlEntry 0xa0830103 16 False [EmbeddedPtr 0 (CField 8 4) 1 False True],
     RmCtrlEntry 0xa0bc0101 32 False [EmbeddedPtr 24 (CField 16 4) 16 True True],
     RmCtrlEntry 0xb06f010c 16 False [EmbeddedPtr 8 (CField 4 4) 1 False True]]"

definition rmctrl_595_104_02_e :: "rmctrl_entry list" where
  "rmctrl_595_104_02_e = [
     RmCtrlEntry 0xb06f010d 16 False [EmbeddedPtr 8 (CField 4 4) 1 True True]]"

definition rmctrl_595_104_02 :: "rmctrl_entry list" where
  "rmctrl_595_104_02 = rmctrl_595_104_02_a @ rmctrl_595_104_02_b @ rmctrl_595_104_02_c @ rmctrl_595_104_02_d @ rmctrl_595_104_02_e"

definition rmctrl_615_71_09_a :: "rmctrl_entry list" where
  "rmctrl_615_71_09_a = [
     RmCtrlEntry 0x00000127 176 False [EmbeddedPtr 160 (CSquared 128 4) 4 False True, EmbeddedPtr 168 (CSquared 128 4) 4 False True],
     RmCtrlEntry 0x00000130 40 False [EmbeddedPtr 8 (CField 16 2) 1 True False, EmbeddedPtr 24 (CField 32 2) 1 False True],
     RmCtrlEntry 0x00000602 16 False [EmbeddedPtr 0 (CField 12 4) 1 False True],
     RmCtrlEntry 0x00410110 16 False [EmbeddedPtr 8 (CField 0 4) 8 True True],
     RmCtrlEntry 0x00730120 40 False [EmbeddedPtr 8 (CField 16 2) 1 True False, EmbeddedPtr 24 (CField 32 2) 1 False True],
     RmCtrlEntry 0x00800201 16 False [EmbeddedPtr 8 (CField 0 4) 4 True True],
     RmCtrlEntry 0x00801102 16 False [EmbeddedPtr 8 (CField 0 4) 1 False True]]"

definition rmctrl_615_71_09_b :: "rmctrl_entry list" where
  "rmctrl_615_71_09_b = [
     RmCtrlEntry 0x00801104 16 False [EmbeddedPtr 8 (CField 0 4) 8 True True],
     RmCtrlEntry 0x00801301 16 False [EmbeddedPtr 8 (CField 0 4) 1 False True],
     RmCtrlEntry 0x00801401 16 False [EmbeddedPtr 8 (CField 0 4) 1 False True],
     RmCtrlEntry 0x00801701 16 False [EmbeddedPtr 8 (CField 0 4) 1 False True],
     RmCtrlEntry 0x0080170d 24 False [EmbeddedPtr 8 (CField 0 4) 4 True False, EmbeddedPtr 16 (CField 0 4) 4 True True],
     RmCtrlEntry 0x0080180f 64 False [EmbeddedPtr 48 (CFixed 1) 16 False True],
     RmCtrlEntry 0x20800122 48 False [EmbeddedPtr 24 (CField 20 4) 32 True True],
     RmCtrlEntry 0x20800123 16 False [EmbeddedPtr 8 (CField 0 4) 4 True True],
     RmCtrlEntry 0x20800124 16 False [EmbeddedPtr 8 (CField 4 4) 4 True True]]"

definition rmctrl_615_71_09_c :: "rmctrl_entry list" where
  "rmctrl_615_71_09_c = [
     RmCtrlEntry 0x2080016e 16 False [EmbeddedPtr 8 (CField 0 4) 32 False True],
     RmCtrlEntry 0x208001e8 32 False [EmbeddedPtr 24 (CField 4 4) 4 True True],
     RmCtrlEntry 0x208001f2 120 False [EmbeddedPtr 8 (CField 4 4) 1 True True, EmbeddedPtr 24 (CField 16 4) 1 True True, EmbeddedPtr 64 (CField 56 4) 1 True True, EmbeddedPtr 40 (CField 32 4) 1 True True],
     RmCtrlEntry 0x20800610 40 False [EmbeddedPtr 16 (CField 28 4) 1 True True],
     RmCtrlEntry 0x20800802 16 False [EmbeddedPtr 8 (CField 0 4) 8 True True],
     RmCtrlEntry 0x20800803 1064 False [EmbeddedPtr 1048 (CField 1056 4) 1 False True],
     RmCtrlEntry 0x20800806 40 False [EmbeddedPtr 16 (CField 24 4) 1 False True]]"

definition rmctrl_615_71_09_d :: "rmctrl_entry list" where
  "rmctrl_615_71_09_d = [
     RmCtrlEntry 0x20801201 32 False [EmbeddedPtr 8 (CField 0 4) 8 True True],
     RmCtrlEntry 0x20801336 0 True [],
     RmCtrlEntry 0x20802204 32 False [EmbeddedPtr 16 (CField 24 4) 1 False True],
     RmCtrlEntry 0x20802402 16 False [EmbeddedPtr 0 (CField 12 4) 1 False True],
     RmCtrlEntry 0x20802a01 16 False [EmbeddedPtr 8 (CField 4 4) 1 False True],
     RmCtrlEntry 0x402c0102 32 False [EmbeddedPtr 24 (CField 16 4) 1 True True],
     RmCtrlEntry 0x402c0105 0 True [],
     RmCtrlEntry 0x83de0315 24 False [EmbeddedPtr 16 (CField 4 4) 1 False True],
     RmCtrlEntry 0x83de0316 24 False [EmbeddedPtr 16 (CField 4 4) 1 True False],
     RmCtrlEntry 0x83de0326 3616 False [EmbeddedPtr 0 (CField 8 4) 1 False True],
     RmCtrlEntry 0x83de0327 3616 False [EmbeddedPtr 0 (CField 8 4) 1 True False]]"

definition rmctrl_615_71_09_e :: "rmctrl_entry list" where
  "rmctrl_615_71_09_e = [
     RmCtrlEntry 0xa0830103 16 False [EmbeddedPtr 0 (CField 8 4) 1 False True],
     RmCtrlEntry 0xa0bc0101 32 False [EmbeddedPtr 24 (CField 16 4) 16 True True],
     RmCtrlEntry 0xb06f010c 16 False [EmbeddedPtr 8 (CField 4 4) 1 False True],
     RmCtrlEntry 0xb06f010d 16 False [EmbeddedPtr 8 (CField 4 4) 1 True True]]"

definition rmctrl_615_71_09 :: "rmctrl_entry list" where
  "rmctrl_615_71_09 = rmctrl_615_71_09_a @ rmctrl_615_71_09_b @ rmctrl_615_71_09_c @ rmctrl_615_71_09_d @ rmctrl_615_71_09_e"

definition rmctrl_profiles :: "(driver_version \<times> rmctrl_entry list) list" where
  "rmctrl_profiles =
     [(DriverVersion 535 129 3, rmctrl_535_129_03),
      (DriverVersion 580 178 4, rmctrl_580_178_04),
      (DriverVersion 595 71 5, rmctrl_595_71_05),
      (DriverVersion 595 104 2, rmctrl_595_104_02),
      (DriverVersion 615 71 9, rmctrl_615_71_09)]"

record rmctrl_selected =
  rs_table :: "rmctrl_entry list"
  rs_exact :: bool

definition rmctrl_select :: "driver_version \<Rightarrow> rmctrl_selected option" where
  "rmctrl_select v =
     map_option (\<lambda>(w, t). \<lparr>rs_table = t, rs_exact = (w = v)\<rparr>) (profile_for rmctrl_profiles v)"

definition rmctrl_lookup :: "rmctrl_entry list \<Rightarrow> nat \<Rightarrow> rmctrl_entry option" where
  "rmctrl_lookup t cmd = table_find rc_cmd t cmd"

definition rmctrl_in_any_table :: "nat \<Rightarrow> bool" where
  "rmctrl_in_any_table cmd \<longleftrightarrow> list_ex (\<lambda>(_, t). rmctrl_lookup t cmd \<noteq> None) rmctrl_profiles"

lemmas rmctrl_tables = rmctrl_535_129_03_a_def rmctrl_535_129_03_b_def rmctrl_535_129_03_c_def
   rmctrl_535_129_03_d_def rmctrl_535_129_03_def rmctrl_580_178_04_a_def rmctrl_580_178_04_b_def
   rmctrl_580_178_04_c_def rmctrl_580_178_04_d_def rmctrl_580_178_04_def rmctrl_595_71_05_a_def
   rmctrl_595_71_05_b_def rmctrl_595_71_05_c_def rmctrl_595_71_05_d_def rmctrl_595_71_05_e_def
   rmctrl_595_71_05_def rmctrl_595_104_02_a_def rmctrl_595_104_02_b_def rmctrl_595_104_02_c_def
   rmctrl_595_104_02_d_def rmctrl_595_104_02_e_def rmctrl_595_104_02_def rmctrl_615_71_09_a_def
   rmctrl_615_71_09_b_def rmctrl_615_71_09_c_def rmctrl_615_71_09_d_def rmctrl_615_71_09_e_def
   rmctrl_615_71_09_def

interpretation rcp: version_profiles rmctrl_profiles
  by unfold_locales (simp add: rmctrl_profiles_def less_driver_version_def)

interpretation rct0: sorted_table rc_cmd rmctrl_535_129_03
  by unfold_locales (simp add: rmctrl_535_129_03_a_def rmctrl_535_129_03_b_def rmctrl_535_129_03_c_def rmctrl_535_129_03_d_def rmctrl_535_129_03_def)
interpretation rct1: sorted_table rc_cmd rmctrl_580_178_04
  by unfold_locales (simp add: rmctrl_580_178_04_a_def rmctrl_580_178_04_b_def rmctrl_580_178_04_c_def rmctrl_580_178_04_d_def rmctrl_580_178_04_def)
interpretation rct2: sorted_table rc_cmd rmctrl_595_71_05
  by unfold_locales (simp add: rmctrl_595_71_05_a_def rmctrl_595_71_05_b_def rmctrl_595_71_05_c_def rmctrl_595_71_05_d_def rmctrl_595_71_05_e_def rmctrl_595_71_05_def)
interpretation rct3: sorted_table rc_cmd rmctrl_595_104_02
  by unfold_locales (simp add: rmctrl_595_104_02_a_def rmctrl_595_104_02_b_def rmctrl_595_104_02_c_def rmctrl_595_104_02_d_def rmctrl_595_104_02_e_def rmctrl_595_104_02_def)
interpretation rct4: sorted_table rc_cmd rmctrl_615_71_09
  by unfold_locales (simp add: rmctrl_615_71_09_a_def rmctrl_615_71_09_b_def rmctrl_615_71_09_c_def rmctrl_615_71_09_d_def rmctrl_615_71_09_e_def rmctrl_615_71_09_def)

text \<open>What the backend needs of an entry before it can supply the buffers: each pointer and each count inside the block.\<close>

fun count_ok :: "nat \<Rightarrow> elem_count \<Rightarrow> bool" where
  "count_ok sz (CFixed n) \<longleftrightarrow> n \<le> u64_max"
| "count_ok sz (CField offset width) \<longleftrightarrow> offset + width \<le> sz \<and> width \<in> set [1, 2, 4, 8]"
| "count_ok sz (CSquared offset width) \<longleftrightarrow> offset + width \<le> sz \<and> width \<in> set [1, 2, 4, 8]"

definition rmctrl_entry_ok :: "rmctrl_entry \<Rightarrow> bool" where
  "rmctrl_entry_ok e \<longleftrightarrow>
     (if rc_refuse e then rc_ptrs e = []
      else list_all (\<lambda>q. ep_offset q + 8 \<le> rc_size e \<and> count_ok (rc_size e) (ep_count q) \<and> 0 < ep_elem q \<and>
        (ep_in q \<or> ep_out q)) (rc_ptrs e)) \<and> rc_size e \<le> u32_max"

lemma rmctrl_table_ok:
  "list_all rmctrl_entry_ok rmctrl_535_129_03" "list_all rmctrl_entry_ok rmctrl_580_178_04"
  "list_all rmctrl_entry_ok rmctrl_595_71_05" "list_all rmctrl_entry_ok rmctrl_595_104_02"
  "list_all rmctrl_entry_ok rmctrl_615_71_09"
  by (simp_all add: rmctrl_tables rmctrl_entry_ok_def)

lemma rmctrl_lookup_member:
  "(w, t) \<in> set rmctrl_profiles \<Longrightarrow> rmctrl_lookup t cmd = Some e \<longleftrightarrow> e \<in> set t \<and> rc_cmd e = cmd"
  by (auto simp: rmctrl_profiles_def rmctrl_lookup_def rct0.table_find_Some rct1.table_find_Some
      rct2.table_find_Some rct3.table_find_Some rct4.table_find_Some)

lemma rmctrl_profile_ok: "(w, t) \<in> set rmctrl_profiles \<Longrightarrow> e \<in> set t \<Longrightarrow> rmctrl_entry_ok e"
  using rmctrl_table_ok by (auto simp: rmctrl_profiles_def list_all_iff)

lemma rmctrl_select_member:
  assumes "rmctrl_select v = Some s"
  obtains w where "(w, rs_table s) \<in> set rmctrl_profiles" "rs_exact s = (w = v)" "w \<le> v"
proof -
  obtain w t where "profile_for rmctrl_profiles v = Some (w, t)" "s = \<lparr>rs_table = t, rs_exact = (w = v)\<rparr>"
    using assms by (auto simp: rmctrl_select_def)
  then show thesis using rcp.profile_for_Some by (intro that [of w]) auto
qed

lemma count_read_Some:
  "offset + width \<le> length p \<Longrightarrow> length p \<le> u32_max \<Longrightarrow> width \<in> set [1, 2, 4, 8] \<Longrightarrow> count_read offset width p \<noteq> None"
  by (auto simp: count_read_def slice_at_def)

section \<open>Properties\<close>

text \<open>C40: A control the selected table describes is the one asked for, and on a block of the described size each of its
  pointers and each count it reads lies inside the block, so that the only reason to refuse its length is
  that it is too large.\<close>

theorem rmctrl_lookup_fits:
  assumes "rmctrl_select v = Some s" "rmctrl_lookup (rs_table s) cmd = Some e" "\<not> rc_refuse e" "length p = rc_size e"
    "q \<in> set (rc_ptrs e)"
  shows "rc_cmd e = cmd \<and> ep_offset q + 8 \<le> length p \<and> (ep_in q \<or> ep_out q) \<and>
    (case ep_count q of CFixed n \<Rightarrow> True | CField offset width \<Rightarrow> offset + width \<le> length p
      | CSquared offset width \<Rightarrow> offset + width \<le> length p) \<and>
    (ep_bytes q p = None \<longleftrightarrow> (case ep_count q of
        CFixed n \<Rightarrow> n * ep_elem q > MAX_EMBEDDED_BYTES
      | CField offset width \<Rightarrow> of_le (take width (drop offset p)) * ep_elem q > MAX_EMBEDDED_BYTES
      | CSquared offset width \<Rightarrow> (of_le (take width (drop offset p)))\<^sup>2 * ep_elem q > MAX_EMBEDDED_BYTES))"
proof -
  obtain w where w: "(w, rs_table s) \<in> set rmctrl_profiles" using rmctrl_select_member [OF assms(1)] by blast
  have e: "e \<in> set (rs_table s)" "rc_cmd e = cmd" using assms(2) rmctrl_lookup_member [OF w] by auto
  have ok: "rmctrl_entry_ok e" using rmctrl_profile_ok [OF w e(1)] .
  then have q: "ep_offset q + 8 \<le> length p" "count_ok (length p) (ep_count q)" "0 < ep_elem q" "ep_in q \<or> ep_out q"
    "length p \<le> u32_max"
    using assms(3,4,5) by (auto simp: rmctrl_entry_ok_def list_all_iff)
  have mono: "n * n > u64_max \<Longrightarrow> n * n * ep_elem q > MAX_EMBEDDED_BYTES" for n
  proof -
    assume "n * n > u64_max"
    then have "n * n > MAX_EMBEDDED_BYTES" by simp
    also have "n * n \<le> n * n * ep_elem q" using q(3) by (cases "ep_elem q") auto
    finally show ?thesis .
  qed
  show ?thesis
    using q e(2) mono
    by (cases "ep_count q")
      (auto simp: ep_bytes_def count_read_def slice_at_def power2_eq_square not_le not_less)
qed

lemma rmctrl_lookup_fits_witness:
  "ep_offset (EmbeddedPtr 8 (CField 0 4) 8 True True) + 8 \<le> length (replicate 16 (0 :: byte)) \<and>
   rmctrl_lookup rmctrl_615_71_09 0x00410110 = Some (RmCtrlEntry 0x00410110 16 False [EmbeddedPtr 8 (CField 0 4) 8 True True])"
proof -
  let ?e = "RmCtrlEntry 0x00410110 16 False [EmbeddedPtr 8 (CField 0 4) 8 True True]"
  let ?s = "\<lparr>rs_table = rmctrl_615_71_09, rs_exact = True\<rparr>"
  have s: "rmctrl_select (DriverVersion 615 71 9) = Some ?s"
    by (simp add: rmctrl_select_def profile_for_def rmctrl_profiles_def less_driver_version_def less_eq_driver_version_def)
  have l: "rmctrl_lookup rmctrl_615_71_09 0x00410110 = Some ?e"
    unfolding rmctrl_lookup_def rct4.table_find_Some by (simp add: rmctrl_615_71_09_def rmctrl_615_71_09_a_def)
  then have l': "rmctrl_lookup (rs_table ?s) 0x00410110 = Some ?e" by simp
  from rmctrl_lookup_fits [OF s l', of "replicate 16 0" "EmbeddedPtr 8 (CField 0 4) 8 True True"] l show ?thesis by simp
qed

end
