(* ===== verification/VidmemTables.thy ===== *)
theory VidmemTables
  imports DriverVersions
begin

text \<open>
  What a video memory limit needs to know about each release (\<open>gen/src/vidmem\<close>): which allocations take video
  memory, and which of the values the guest is told report it.
\<close>

datatype fb_role = RoleTotal | RoleFree | RoleReserved | RolePosition | RoleBar1

datatype fb_index = FbIndex (fbi_name: string) (fbi_index: nat) (fbi_role: fb_role)

record info_list =
  li_size :: nat
  li_count :: nat
  li_list :: nat

record alloc_layout =
  al_h_memory :: nat
  al_flags :: nat
  al_attr :: nat
  al_size :: nat
  al_limit :: nat

record layout =
  la_fb_info :: "fb_index list"
  la_fb_absent :: "string list"
  la_cmd_fb_get_info :: nat
  la_cmd_fb_get_info_v2 :: nat
  la_fb_info_max_list :: nat
  la_fb_info_entry_size :: nat
  la_fb_info_entry_index :: nat
  la_fb_info_entry_data :: nat
  la_fb_get_info_v1 :: info_list
  la_fb_get_info_v2 :: info_list
  la_nvos32_size :: nat
  la_nvos32_function :: nat
  la_nvos32_status :: nat
  la_nvos32_total :: nat
  la_nvos32_free :: nat
  la_nvos32_info_attr :: nat
  la_nvos32_info_offset :: nat
  la_nvos32_info_size :: nat
  la_nvos32_info_base :: nat
  la_nvos32_fn_alloc_size :: nat
  la_nvos32_fn_alloc_tiled_pitch_height :: nat
  la_nvos32_fn_alloc_size_range :: nat
  la_nvos32_fn_free :: nat
  la_nvos32_fn_info :: nat
  la_nvos32_fn_hw_alloc :: nat
  la_nvos32_fn_hw_free :: nat
  la_nvos32_alloc_size :: alloc_layout
  la_nvos32_alloc_tiled_pitch_height :: alloc_layout
  la_nvos32_alloc_size_range :: alloc_layout
  la_mem_alloc_size :: nat
  la_mem_alloc :: alloc_layout
  la_attr_location :: "nat \<times> nat"
  la_attr_location_vidmem :: nat
  la_alloc_flags_virtual :: nat

text \<open>\<open>takes_vidmem\<close> on \<open>u32\<close> words: the location bits of \<open>attr\<close>, and the virtual flag clear.\<close>

definition takes_vidmem :: "layout \<Rightarrow> nat \<Rightarrow> nat \<Rightarrow> bool" where
  "takes_vidmem l attr flags =
     (let (lo, hi) = la_attr_location l;
          width = hi - lo + 1;
          loc = drop_bit lo attr AND (2 ^ width - 1)
      in loc = la_attr_location_vidmem l \<and> flags AND la_alloc_flags_virtual l = 0)"

definition la_index :: "layout \<Rightarrow> string \<Rightarrow> nat option" where
  "la_index l name = map_option fbi_index (find (\<lambda>i. fbi_name i = name) (la_fb_info l))"

definition la_role :: "layout \<Rightarrow> nat \<Rightarrow> fb_role option" where
  "la_role l index = map_option fbi_role (find (\<lambda>i. fbi_index i = index) (la_fb_info l))"

definition vidmem_535_129_03 :: layout where
  "vidmem_535_129_03 = \<lparr>
     la_fb_info = [
       FbIndex ''RAM_SIZE'' 0x7 RoleTotal, FbIndex ''TOTAL_RAM_SIZE'' 0x8 RoleTotal,
       FbIndex ''HEAP_SIZE'' 0x9 RoleTotal, FbIndex ''MAPPABLE_HEAP_SIZE'' 0xa RoleTotal,
       FbIndex ''USABLE_RAM_SIZE'' 0x20 RoleTotal, FbIndex ''HEAP_FREE'' 0x16 RoleFree,
       FbIndex ''LARGEST_FREE_REGION_SIZE_KB'' 0x12 RoleFree,
       FbIndex ''VISTA_RESERVED_HEAP_SIZE'' 0x15 RoleReserved, FbIndex ''FB_TAX_SIZE_KB'' 0x10 RoleReserved,
       FbIndex ''HEAP_OFFLINE_SIZE'' 0x27 RoleReserved,
       FbIndex ''SUSPEND_RESUME_RSVD_SIZE'' 0x29 RoleReserved,
       FbIndex ''PROTECTED_MEM_SIZE_TOTAL_KB'' 0x33 RoleReserved,
       FbIndex ''PROTECTED_MEM_SIZE_FREE_KB'' 0x34 RoleReserved, FbIndex ''HEAP_BASE_KB'' 0x11 RolePosition,
       FbIndex ''HEAP_START'' 0x1e RolePosition, FbIndex ''LARGEST_FREE_REGION_BASE_KB'' 0x13 RolePosition,
       FbIndex ''BAR1_SIZE'' 0x5 RoleBar1, FbIndex ''BAR1_AVAIL_SIZE'' 0x1d RoleBar1,
       FbIndex ''BAR1_MAX_CONTIGUOUS_AVAIL_SIZE'' 0x1f RoleBar1,
       FbIndex ''SMOOTHDISP_RSVD_BAR1_SIZE'' 0x26 RoleBar1],
     la_fb_absent = [''HEAP_RECLAIMABLE''],
     la_cmd_fb_get_info = 0x20801301,
     la_cmd_fb_get_info_v2 = 0x20801303,
     la_fb_info_max_list = 54,
     la_fb_info_entry_size = 8,
     la_fb_info_entry_index = 0,
     la_fb_info_entry_data = 4,
     la_fb_get_info_v1 = \<lparr>li_size = 16, li_count = 0, li_list = 8\<rparr>,
     la_fb_get_info_v2 = \<lparr>li_size = 436, li_count = 0, li_list = 4\<rparr>,
     la_nvos32_size = 184,
     la_nvos32_function = 8,
     la_nvos32_status = 20,
     la_nvos32_total = 24,
     la_nvos32_free = 32,
     la_nvos32_info_attr = 40,
     la_nvos32_info_offset = 48,
     la_nvos32_info_size = 56,
     la_nvos32_info_base = 64,
     la_nvos32_fn_alloc_size = 2,
     la_nvos32_fn_alloc_tiled_pitch_height = 6,
     la_nvos32_fn_alloc_size_range = 14,
     la_nvos32_fn_free = 3,
     la_nvos32_fn_info = 5,
     la_nvos32_fn_hw_alloc = 19,
     la_nvos32_fn_hw_free = 20,
     la_nvos32_alloc_size = \<lparr>al_h_memory = 44, al_flags = 52, al_attr = 56, al_size = 88, al_limit = 112\<rparr>,
     la_nvos32_alloc_tiled_pitch_height = \<lparr>al_h_memory = 44, al_flags = 52, al_attr = 64, al_size = 88, al_limit = 112\<rparr>,
     la_nvos32_alloc_size_range = \<lparr>al_h_memory = 44, al_flags = 52, al_attr = 56, al_size = 80, al_limit = 104\<rparr>,
     la_mem_alloc_size = 120,
     la_mem_alloc = \<lparr>al_h_memory = u32_max, al_flags = 8, al_attr = 24, al_size = 64, al_limit = 88\<rparr>,
     la_attr_location = (25, 26),
     la_attr_location_vidmem = 0x0,
     la_alloc_flags_virtual = 0x00080000\<rparr>"

definition vidmem_580_178_04 :: layout where
  "vidmem_580_178_04 = \<lparr>
     la_fb_info = [
       FbIndex ''RAM_SIZE'' 0x7 RoleTotal, FbIndex ''TOTAL_RAM_SIZE'' 0x8 RoleTotal,
       FbIndex ''HEAP_SIZE'' 0x9 RoleTotal, FbIndex ''MAPPABLE_HEAP_SIZE'' 0xa RoleTotal,
       FbIndex ''USABLE_RAM_SIZE'' 0x20 RoleTotal, FbIndex ''HEAP_FREE'' 0x16 RoleFree,
       FbIndex ''LARGEST_FREE_REGION_SIZE_KB'' 0x12 RoleFree,
       FbIndex ''VISTA_RESERVED_HEAP_SIZE'' 0x15 RoleReserved, FbIndex ''FB_TAX_SIZE_KB'' 0x10 RoleReserved,
       FbIndex ''HEAP_OFFLINE_SIZE'' 0x27 RoleReserved,
       FbIndex ''SUSPEND_RESUME_RSVD_SIZE'' 0x29 RoleReserved,
       FbIndex ''PROTECTED_MEM_SIZE_TOTAL_KB'' 0x33 RoleReserved,
       FbIndex ''PROTECTED_MEM_SIZE_FREE_KB'' 0x34 RoleReserved, FbIndex ''HEAP_BASE_KB'' 0x11 RolePosition,
       FbIndex ''HEAP_START'' 0x1e RolePosition, FbIndex ''LARGEST_FREE_REGION_BASE_KB'' 0x13 RolePosition,
       FbIndex ''BAR1_SIZE'' 0x5 RoleBar1, FbIndex ''BAR1_AVAIL_SIZE'' 0x1d RoleBar1,
       FbIndex ''BAR1_MAX_CONTIGUOUS_AVAIL_SIZE'' 0x1f RoleBar1,
       FbIndex ''SMOOTHDISP_RSVD_BAR1_SIZE'' 0x26 RoleBar1],
     la_fb_absent = [''HEAP_RECLAIMABLE''],
     la_cmd_fb_get_info = 0x20801301,
     la_cmd_fb_get_info_v2 = 0x20801303,
     la_fb_info_max_list = 128,
     la_fb_info_entry_size = 8,
     la_fb_info_entry_index = 0,
     la_fb_info_entry_data = 4,
     la_fb_get_info_v1 = \<lparr>li_size = 16, li_count = 0, li_list = 8\<rparr>,
     la_fb_get_info_v2 = \<lparr>li_size = 1028, li_count = 0, li_list = 4\<rparr>,
     la_nvos32_size = 184,
     la_nvos32_function = 8,
     la_nvos32_status = 20,
     la_nvos32_total = 24,
     la_nvos32_free = 32,
     la_nvos32_info_attr = 40,
     la_nvos32_info_offset = 48,
     la_nvos32_info_size = 56,
     la_nvos32_info_base = 64,
     la_nvos32_fn_alloc_size = 2,
     la_nvos32_fn_alloc_tiled_pitch_height = 6,
     la_nvos32_fn_alloc_size_range = 14,
     la_nvos32_fn_free = 3,
     la_nvos32_fn_info = 5,
     la_nvos32_fn_hw_alloc = 19,
     la_nvos32_fn_hw_free = 20,
     la_nvos32_alloc_size = \<lparr>al_h_memory = 44, al_flags = 52, al_attr = 56, al_size = 88, al_limit = 112\<rparr>,
     la_nvos32_alloc_tiled_pitch_height = \<lparr>al_h_memory = 44, al_flags = 52, al_attr = 64, al_size = 88, al_limit = 112\<rparr>,
     la_nvos32_alloc_size_range = \<lparr>al_h_memory = 44, al_flags = 52, al_attr = 56, al_size = 80, al_limit = 104\<rparr>,
     la_mem_alloc_size = 128,
     la_mem_alloc = \<lparr>al_h_memory = u32_max, al_flags = 8, al_attr = 24, al_size = 64, al_limit = 88\<rparr>,
     la_attr_location = (25, 26),
     la_attr_location_vidmem = 0x0,
     la_alloc_flags_virtual = 0x00080000\<rparr>"

definition vidmem_595_71_05 :: layout where
  "vidmem_595_71_05 = \<lparr>
     la_fb_info = [
       FbIndex ''RAM_SIZE'' 0x7 RoleTotal, FbIndex ''TOTAL_RAM_SIZE'' 0x8 RoleTotal,
       FbIndex ''HEAP_SIZE'' 0x9 RoleTotal, FbIndex ''MAPPABLE_HEAP_SIZE'' 0xa RoleTotal,
       FbIndex ''USABLE_RAM_SIZE'' 0x20 RoleTotal, FbIndex ''HEAP_FREE'' 0x16 RoleFree,
       FbIndex ''LARGEST_FREE_REGION_SIZE_KB'' 0x12 RoleFree,
       FbIndex ''VISTA_RESERVED_HEAP_SIZE'' 0x15 RoleReserved, FbIndex ''FB_TAX_SIZE_KB'' 0x10 RoleReserved,
       FbIndex ''HEAP_OFFLINE_SIZE'' 0x27 RoleReserved,
       FbIndex ''SUSPEND_RESUME_RSVD_SIZE'' 0x29 RoleReserved,
       FbIndex ''PROTECTED_MEM_SIZE_TOTAL_KB'' 0x33 RoleReserved,
       FbIndex ''PROTECTED_MEM_SIZE_FREE_KB'' 0x34 RoleReserved, FbIndex ''HEAP_BASE_KB'' 0x11 RolePosition,
       FbIndex ''HEAP_START'' 0x1e RolePosition, FbIndex ''LARGEST_FREE_REGION_BASE_KB'' 0x13 RolePosition,
       FbIndex ''BAR1_SIZE'' 0x5 RoleBar1, FbIndex ''BAR1_AVAIL_SIZE'' 0x1d RoleBar1,
       FbIndex ''BAR1_MAX_CONTIGUOUS_AVAIL_SIZE'' 0x1f RoleBar1,
       FbIndex ''SMOOTHDISP_RSVD_BAR1_SIZE'' 0x26 RoleBar1],
     la_fb_absent = [''HEAP_RECLAIMABLE''],
     la_cmd_fb_get_info = 0x20801301,
     la_cmd_fb_get_info_v2 = 0x20801303,
     la_fb_info_max_list = 128,
     la_fb_info_entry_size = 8,
     la_fb_info_entry_index = 0,
     la_fb_info_entry_data = 4,
     la_fb_get_info_v1 = \<lparr>li_size = 16, li_count = 0, li_list = 8\<rparr>,
     la_fb_get_info_v2 = \<lparr>li_size = 1028, li_count = 0, li_list = 4\<rparr>,
     la_nvos32_size = 184,
     la_nvos32_function = 8,
     la_nvos32_status = 20,
     la_nvos32_total = 24,
     la_nvos32_free = 32,
     la_nvos32_info_attr = 40,
     la_nvos32_info_offset = 48,
     la_nvos32_info_size = 56,
     la_nvos32_info_base = 64,
     la_nvos32_fn_alloc_size = 2,
     la_nvos32_fn_alloc_tiled_pitch_height = 6,
     la_nvos32_fn_alloc_size_range = 14,
     la_nvos32_fn_free = 3,
     la_nvos32_fn_info = 5,
     la_nvos32_fn_hw_alloc = 19,
     la_nvos32_fn_hw_free = 20,
     la_nvos32_alloc_size = \<lparr>al_h_memory = 44, al_flags = 52, al_attr = 56, al_size = 88, al_limit = 112\<rparr>,
     la_nvos32_alloc_tiled_pitch_height = \<lparr>al_h_memory = 44, al_flags = 52, al_attr = 64, al_size = 88, al_limit = 112\<rparr>,
     la_nvos32_alloc_size_range = \<lparr>al_h_memory = 44, al_flags = 52, al_attr = 56, al_size = 80, al_limit = 104\<rparr>,
     la_mem_alloc_size = 128,
     la_mem_alloc = \<lparr>al_h_memory = u32_max, al_flags = 8, al_attr = 24, al_size = 64, al_limit = 88\<rparr>,
     la_attr_location = (25, 26),
     la_attr_location_vidmem = 0x0,
     la_alloc_flags_virtual = 0x00080000\<rparr>"

definition vidmem_595_104_02 :: layout where
  "vidmem_595_104_02 = \<lparr>
     la_fb_info = [
       FbIndex ''RAM_SIZE'' 0x7 RoleTotal, FbIndex ''TOTAL_RAM_SIZE'' 0x8 RoleTotal,
       FbIndex ''HEAP_SIZE'' 0x9 RoleTotal, FbIndex ''MAPPABLE_HEAP_SIZE'' 0xa RoleTotal,
       FbIndex ''USABLE_RAM_SIZE'' 0x20 RoleTotal, FbIndex ''HEAP_FREE'' 0x16 RoleFree,
       FbIndex ''LARGEST_FREE_REGION_SIZE_KB'' 0x12 RoleFree, FbIndex ''HEAP_RECLAIMABLE'' 0x3c RoleFree,
       FbIndex ''VISTA_RESERVED_HEAP_SIZE'' 0x15 RoleReserved, FbIndex ''FB_TAX_SIZE_KB'' 0x10 RoleReserved,
       FbIndex ''HEAP_OFFLINE_SIZE'' 0x27 RoleReserved,
       FbIndex ''SUSPEND_RESUME_RSVD_SIZE'' 0x29 RoleReserved,
       FbIndex ''PROTECTED_MEM_SIZE_TOTAL_KB'' 0x33 RoleReserved,
       FbIndex ''PROTECTED_MEM_SIZE_FREE_KB'' 0x34 RoleReserved, FbIndex ''HEAP_BASE_KB'' 0x11 RolePosition,
       FbIndex ''HEAP_START'' 0x1e RolePosition, FbIndex ''LARGEST_FREE_REGION_BASE_KB'' 0x13 RolePosition,
       FbIndex ''BAR1_SIZE'' 0x5 RoleBar1, FbIndex ''BAR1_AVAIL_SIZE'' 0x1d RoleBar1,
       FbIndex ''BAR1_MAX_CONTIGUOUS_AVAIL_SIZE'' 0x1f RoleBar1,
       FbIndex ''SMOOTHDISP_RSVD_BAR1_SIZE'' 0x26 RoleBar1],
     la_fb_absent = [],
     la_cmd_fb_get_info = 0x20801301,
     la_cmd_fb_get_info_v2 = 0x20801303,
     la_fb_info_max_list = 128,
     la_fb_info_entry_size = 8,
     la_fb_info_entry_index = 0,
     la_fb_info_entry_data = 4,
     la_fb_get_info_v1 = \<lparr>li_size = 16, li_count = 0, li_list = 8\<rparr>,
     la_fb_get_info_v2 = \<lparr>li_size = 1028, li_count = 0, li_list = 4\<rparr>,
     la_nvos32_size = 184,
     la_nvos32_function = 8,
     la_nvos32_status = 20,
     la_nvos32_total = 24,
     la_nvos32_free = 32,
     la_nvos32_info_attr = 40,
     la_nvos32_info_offset = 48,
     la_nvos32_info_size = 56,
     la_nvos32_info_base = 64,
     la_nvos32_fn_alloc_size = 2,
     la_nvos32_fn_alloc_tiled_pitch_height = 6,
     la_nvos32_fn_alloc_size_range = 14,
     la_nvos32_fn_free = 3,
     la_nvos32_fn_info = 5,
     la_nvos32_fn_hw_alloc = 19,
     la_nvos32_fn_hw_free = 20,
     la_nvos32_alloc_size = \<lparr>al_h_memory = 44, al_flags = 52, al_attr = 56, al_size = 88, al_limit = 112\<rparr>,
     la_nvos32_alloc_tiled_pitch_height = \<lparr>al_h_memory = 44, al_flags = 52, al_attr = 64, al_size = 88, al_limit = 112\<rparr>,
     la_nvos32_alloc_size_range = \<lparr>al_h_memory = 44, al_flags = 52, al_attr = 56, al_size = 80, al_limit = 104\<rparr>,
     la_mem_alloc_size = 128,
     la_mem_alloc = \<lparr>al_h_memory = u32_max, al_flags = 8, al_attr = 24, al_size = 64, al_limit = 88\<rparr>,
     la_attr_location = (25, 26),
     la_attr_location_vidmem = 0x0,
     la_alloc_flags_virtual = 0x00080000\<rparr>"

definition vidmem_615_71_09 :: layout where
  "vidmem_615_71_09 = \<lparr>
     la_fb_info = [
       FbIndex ''RAM_SIZE'' 0x7 RoleTotal, FbIndex ''TOTAL_RAM_SIZE'' 0x8 RoleTotal,
       FbIndex ''HEAP_SIZE'' 0x9 RoleTotal, FbIndex ''MAPPABLE_HEAP_SIZE'' 0xa RoleTotal,
       FbIndex ''USABLE_RAM_SIZE'' 0x20 RoleTotal, FbIndex ''HEAP_FREE'' 0x16 RoleFree,
       FbIndex ''LARGEST_FREE_REGION_SIZE_KB'' 0x12 RoleFree, FbIndex ''HEAP_RECLAIMABLE'' 0x44 RoleFree,
       FbIndex ''VISTA_RESERVED_HEAP_SIZE'' 0x15 RoleReserved, FbIndex ''FB_TAX_SIZE_KB'' 0x10 RoleReserved,
       FbIndex ''HEAP_OFFLINE_SIZE'' 0x27 RoleReserved,
       FbIndex ''SUSPEND_RESUME_RSVD_SIZE'' 0x29 RoleReserved,
       FbIndex ''PROTECTED_MEM_SIZE_TOTAL_KB'' 0x33 RoleReserved,
       FbIndex ''PROTECTED_MEM_SIZE_FREE_KB'' 0x34 RoleReserved, FbIndex ''HEAP_BASE_KB'' 0x11 RolePosition,
       FbIndex ''HEAP_START'' 0x1e RolePosition, FbIndex ''LARGEST_FREE_REGION_BASE_KB'' 0x13 RolePosition,
       FbIndex ''BAR1_SIZE'' 0x5 RoleBar1, FbIndex ''BAR1_AVAIL_SIZE'' 0x1d RoleBar1,
       FbIndex ''BAR1_MAX_CONTIGUOUS_AVAIL_SIZE'' 0x1f RoleBar1,
       FbIndex ''SMOOTHDISP_RSVD_BAR1_SIZE'' 0x26 RoleBar1],
     la_fb_absent = [],
     la_cmd_fb_get_info = 0x20801301,
     la_cmd_fb_get_info_v2 = 0x20801303,
     la_fb_info_max_list = 128,
     la_fb_info_entry_size = 8,
     la_fb_info_entry_index = 0,
     la_fb_info_entry_data = 4,
     la_fb_get_info_v1 = \<lparr>li_size = 16, li_count = 0, li_list = 8\<rparr>,
     la_fb_get_info_v2 = \<lparr>li_size = 1028, li_count = 0, li_list = 4\<rparr>,
     la_nvos32_size = 184,
     la_nvos32_function = 8,
     la_nvos32_status = 20,
     la_nvos32_total = 24,
     la_nvos32_free = 32,
     la_nvos32_info_attr = 40,
     la_nvos32_info_offset = 48,
     la_nvos32_info_size = 56,
     la_nvos32_info_base = 64,
     la_nvos32_fn_alloc_size = 2,
     la_nvos32_fn_alloc_tiled_pitch_height = 6,
     la_nvos32_fn_alloc_size_range = 14,
     la_nvos32_fn_free = 3,
     la_nvos32_fn_info = 5,
     la_nvos32_fn_hw_alloc = 19,
     la_nvos32_fn_hw_free = 20,
     la_nvos32_alloc_size = \<lparr>al_h_memory = 44, al_flags = 52, al_attr = 56, al_size = 88, al_limit = 112\<rparr>,
     la_nvos32_alloc_tiled_pitch_height = \<lparr>al_h_memory = 44, al_flags = 52, al_attr = 64, al_size = 88, al_limit = 112\<rparr>,
     la_nvos32_alloc_size_range = \<lparr>al_h_memory = 44, al_flags = 52, al_attr = 56, al_size = 80, al_limit = 104\<rparr>,
     la_mem_alloc_size = 128,
     la_mem_alloc = \<lparr>al_h_memory = u32_max, al_flags = 8, al_attr = 24, al_size = 64, al_limit = 88\<rparr>,
     la_attr_location = (25, 26),
     la_attr_location_vidmem = 0x0,
     la_alloc_flags_virtual = 0x00080000\<rparr>"

definition vidmem_profiles :: "(driver_version \<times> layout) list" where
  "vidmem_profiles =
     [(DriverVersion 535 129 3, vidmem_535_129_03),
      (DriverVersion 580 178 4, vidmem_580_178_04),
      (DriverVersion 595 71 5, vidmem_595_71_05),
      (DriverVersion 595 104 2, vidmem_595_104_02),
      (DriverVersion 615 71 9, vidmem_615_71_09)]"

record vidmem_selected =
  vs_layout :: layout
  vs_exact :: bool

definition vidmem_select :: "driver_version \<Rightarrow> vidmem_selected option" where
  "vidmem_select v =
     map_option (\<lambda>(w, l). \<lparr>vs_layout = l, vs_exact = (w = v)\<rparr>) (profile_for vidmem_profiles v)"

interpretation vmp: version_profiles vidmem_profiles
  by unfold_locales (simp add: vidmem_profiles_def less_driver_version_def)

lemmas vidmem_tables = vidmem_535_129_03_def vidmem_580_178_04_def vidmem_595_71_05_def
  vidmem_595_104_02_def vidmem_615_71_09_def

lemma vidmem_select_member:
  "vidmem_select v = Some s \<Longrightarrow>
   vs_layout s \<in> {vidmem_535_129_03, vidmem_580_178_04, vidmem_595_71_05, vidmem_595_104_02, vidmem_615_71_09}"
  using vmp.profile_for_member [of v] by (fastforce simp: vidmem_select_def vidmem_profiles_def)

text \<open>An allocation block's fields lie inside it.\<close>

definition alloc_fits :: "nat \<Rightarrow> alloc_layout \<Rightarrow> bool" where
  "alloc_fits n a \<longleftrightarrow> al_flags a + 4 \<le> n \<and> al_attr a + 4 \<le> n \<and> al_size a + 8 \<le> n \<and> al_limit a + 8 \<le> n \<and>
     (al_h_memory a = u32_max \<or> al_h_memory a + 4 \<le> n)"

definition layout_ok :: "layout \<Rightarrow> bool" where
  "layout_ok l \<longleftrightarrow> alloc_fits (la_nvos32_size l) (la_nvos32_alloc_size l) \<and>
     alloc_fits (la_nvos32_size l) (la_nvos32_alloc_tiled_pitch_height l) \<and>
     alloc_fits (la_nvos32_size l) (la_nvos32_alloc_size_range l) \<and> alloc_fits (la_mem_alloc_size l) (la_mem_alloc l) \<and>
     la_nvos32_total l + 8 \<le> la_nvos32_size l \<and> la_nvos32_free l + 8 \<le> la_nvos32_size l \<and>
     la_nvos32_function l + 4 \<le> la_nvos32_size l \<and> la_nvos32_status l + 4 \<le> la_nvos32_size l \<and>
     la_nvos32_info_size l + 8 \<le> la_nvos32_size l \<and>
     li_list (la_fb_get_info_v2 l) + la_fb_info_max_list l * la_fb_info_entry_size l \<le> li_size (la_fb_get_info_v2 l) \<and>
     la_fb_info_entry_index l + 4 \<le> la_fb_info_entry_size l \<and> la_fb_info_entry_data l + 4 \<le> la_fb_info_entry_size l \<and>
     distinct (map fbi_index (la_fb_info l)) \<and> distinct (map fbi_name (la_fb_info l)) \<and>
     RoleTotal \<in> set (map fbi_role (la_fb_info l)) \<and> RoleFree \<in> set (map fbi_role (la_fb_info l))"

lemma vidmem_layouts_ok:
  "layout_ok vidmem_535_129_03" "layout_ok vidmem_580_178_04" "layout_ok vidmem_595_71_05"
  "layout_ok vidmem_595_104_02" "layout_ok vidmem_615_71_09"
  by (simp_all add: layout_ok_def alloc_fits_def vidmem_tables)

section \<open>Properties\<close>

text \<open>Of every release's layout, each field the limit reads or rewrites lies inside its block and no two reported
  indices share a number; and an allocation counts as video memory exactly where the two location bits
  of its attributes say so and it is not virtual.\<close>

theorem vidmem_layout_sound:
  assumes "vidmem_select v = Some s"
  shows "layout_ok (vs_layout s) \<and>
    (takes_vidmem (vs_layout s) attr flags \<longleftrightarrow> \<not> bit attr 25 \<and> \<not> bit attr 26 \<and> \<not> bit flags 19)"
proof -
  have l: "la_attr_location (vs_layout s) = (25, 26)" "la_attr_location_vidmem (vs_layout s) = 0"
    "la_alloc_flags_virtual (vs_layout s) = 0x80000" "layout_ok (vs_layout s)"
    using vidmem_select_member [OF assms] vidmem_layouts_ok by (auto simp: vidmem_tables)
  have f: "flags AND 0x80000 = 0 \<longleftrightarrow> \<not> bit flags 19"
  proof -
    have "(0x80000 :: nat) = 2 ^ 19" by simp
    then show ?thesis by (simp only: and_exp_eq_0_iff_not_bit)
  qed
  have a: "drop_bit 25 attr AND 3 = 0 \<longleftrightarrow> \<not> bit attr 25 \<and> \<not> bit attr 26"
  proof -
    have "drop_bit 25 attr AND 3 = take_bit 2 (drop_bit 25 attr)"
      by (simp add: take_bit_eq_mask mask_eq_exp_minus_1)
    moreover have "take_bit 2 x = 0 \<longleftrightarrow> (\<forall>n < 2. \<not> bit x n)" for x :: nat
      by (auto simp: bit_eq_iff bit_take_bit_iff)
    moreover have "(\<forall>n < 2. \<not> bit (drop_bit 25 attr) n) \<longleftrightarrow> \<not> bit attr 25 \<and> \<not> bit attr 26"
      by (auto simp: bit_drop_bit_eq less_2_cases_iff)
    ultimately show ?thesis by simp
  qed
  show ?thesis using l a f by (simp add: takes_vidmem_def)
qed

lemma vidmem_layout_sound_witness:
  "takes_vidmem vidmem_580_178_04 0 0 \<and> \<not> takes_vidmem vidmem_580_178_04 0 0x80000"
proof -
  have s: "vidmem_select (DriverVersion 590 0 0) = Some \<lparr>vs_layout = vidmem_580_178_04, vs_exact = False\<rparr>"
    by (simp add: vidmem_select_def profile_for_def vidmem_profiles_def less_driver_version_def less_eq_driver_version_def)
  have "bit (0x80000 :: nat) 19" by (simp add: bit_iff_odd)
  with vidmem_layout_sound [OF s, of 0 0] vidmem_layout_sound [OF s, of 0 "0x80000"] show ?thesis by simp
qed

end
