(* ===== verification/RmAllowTables.thy ===== *)
theory RmAllowTables
  imports DriverVersions
begin

text \<open>
  What each release exports to an unprivileged caller (\<open>gen/src/rmallow/v*.rs\<close>): controls with their exact parameter
  sizes, deprecated controls, allocatable classes, the rule for commands forwarded to GSP, and the
  classes whose control forwards everything. The long tables are split as the source lines run.
\<close>

datatype allow_ctrl = AllowCtrl (ac_cmd: nat) (ac_size: nat)
datatype allow_class = AllowClass (acl_id: nat) (acl_size: nat) (acl_required: bool)
datatype deprec_ctrl = DeprecCtrl (dc_cmd: nat) (dc_size: nat) (dc_allowed: bool)
datatype gss_rule = GssRule (gs_mask: nat) (gs_privileged: nat) (gs_max: nat)

definition rma_ctrl_535_129_03_a :: "allow_ctrl list" where
  "rma_ctrl_535_129_03_a = [
     AllowCtrl 0x00000102 104, AllowCtrl 0x00000104 152, AllowCtrl 0x00000108 132, AllowCtrl 0x00000110 12,
     AllowCtrl 0x00000111 4, AllowCtrl 0x00000121 520, AllowCtrl 0x00000122 8, AllowCtrl 0x00000123 136,
     AllowCtrl 0x00000124 2048, AllowCtrl 0x00000127 168, AllowCtrl 0x0000012a 28, AllowCtrl 0x0000012b 4252,
     AllowCtrl 0x0000012c 148, AllowCtrl 0x0000012d 1164, AllowCtrl 0x0000012e 148, AllowCtrl 0x0000012f 514,
     AllowCtrl 0x00000130 40, AllowCtrl 0x00000132 8, AllowCtrl 0x00000134 65, AllowCtrl 0x00000135 1,
     AllowCtrl 0x00000136 4, AllowCtrl 0x00000137 16, AllowCtrl 0x00000138 8, AllowCtrl 0x00000139 8,
     AllowCtrl 0x0000013a 1352, AllowCtrl 0x0000013b 52, AllowCtrl 0x0000013e 776, AllowCtrl 0x00000140 8,
     AllowCtrl 0x00000141 136, AllowCtrl 0x00000142 28, AllowCtrl 0x00000143 1164, AllowCtrl 0x00000144 514,
     AllowCtrl 0x00000145 8, AllowCtrl 0x00000146 148, AllowCtrl 0x00000147 148, AllowCtrl 0x000001f0 4,
     AllowCtrl 0x00000201 128, AllowCtrl 0x00000202 40, AllowCtrl 0x00000203 8, AllowCtrl 0x00000204 4,
     AllowCtrl 0x00000205 32, AllowCtrl 0x00000214 256, AllowCtrl 0x00000215 132, AllowCtrl 0x00000216 128,
     AllowCtrl 0x00000219 1152, AllowCtrl 0x0000021b 12, AllowCtrl 0x00000240 8, AllowCtrl 0x00000274 272,
     AllowCtrl 0x00000275 268, AllowCtrl 0x00000279 12, AllowCtrl 0x0000027b 4, AllowCtrl 0x00000281 12,
     AllowCtrl 0x00000282 396, AllowCtrl 0x00000283 48, AllowCtrl 0x00000285 24, AllowCtrl 0x00000287 1,
     AllowCtrl 0x00000301 16, AllowCtrl 0x00000302 12, AllowCtrl 0x00000501 8, AllowCtrl 0x00000502 8,
     AllowCtrl 0x00000601 8, AllowCtrl 0x00000603 16, AllowCtrl 0x00000607 2436, AllowCtrl 0x00000901 104,
     AllowCtrl 0x00000902 1, AllowCtrl 0x00000a01 1, AllowCtrl 0x00000a04 2244, AllowCtrl 0x00000b02 12,
     AllowCtrl 0x00000b03 48, AllowCtrl 0x00000b04 16012, AllowCtrl 0x00000c01 1056, AllowCtrl 0x00000d01 12,
     AllowCtrl 0x00000d02 16, AllowCtrl 0x00000d03 12, AllowCtrl 0x00000d04 12, AllowCtrl 0x00000d05 12,
     AllowCtrl 0x00000d06 16, AllowCtrl 0x00000d07 12, AllowCtrl 0x00003d02 40, AllowCtrl 0x00003d05 24,
     AllowCtrl 0x00003d06 20, AllowCtrl 0x00003d08 76, AllowCtrl 0x00003d0a 76, AllowCtrl 0x00003d0b 2128,
     AllowCtrl 0x00003d0c 652, AllowCtrl 0x00020102 4, AllowCtrl 0x00020103 4, AllowCtrl 0x00040110 16,
     AllowCtrl 0x000f0101 0, AllowCtrl 0x000f0102 0, AllowCtrl 0x00410110 16, AllowCtrl 0x00410112 16,
     AllowCtrl 0x00410116 4, AllowCtrl 0x00410118 8, AllowCtrl 0x00410120 4, AllowCtrl 0x00410121 4,
     AllowCtrl 0x00730102 12, AllowCtrl 0x00730108 20, AllowCtrl 0x00730109 12, AllowCtrl 0x0073010a 12,
     AllowCtrl 0x00730120 12, AllowCtrl 0x00730122 16, AllowCtrl 0x00730124 12, AllowCtrl 0x00730125 20,
     AllowCtrl 0x00730126 16, AllowCtrl 0x00730138 2, AllowCtrl 0x0073015b 12, AllowCtrl 0x00730168 40,
     AllowCtrl 0x00730211 16, AllowCtrl 0x00730250 72, AllowCtrl 0x007302ad 36, AllowCtrl 0x00731140 16,
     AllowCtrl 0x00731142 16, AllowCtrl 0x00800201 16, AllowCtrl 0x00800280 4, AllowCtrl 0x00800288 4,
     AllowCtrl 0x00800289 4, AllowCtrl 0x0080028c 12, AllowCtrl 0x0080028d 4, AllowCtrl 0x0080028e 1,
     AllowCtrl 0x00800291 72, AllowCtrl 0x00800292 644, AllowCtrl 0x00800293 8, AllowCtrl 0x00800294 4,
     AllowCtrl 0x00801102 16, AllowCtrl 0x00801104 16, AllowCtrl 0x00801107 32, AllowCtrl 0x00801108 32,
     AllowCtrl 0x00801109 48, AllowCtrl 0x00801110 448, AllowCtrl 0x00801301 16, AllowCtrl 0x00801306 72,
     AllowCtrl 0x00801307 3, AllowCtrl 0x00801401 16, AllowCtrl 0x00801402 3, AllowCtrl 0x00801701 16,
     AllowCtrl 0x00801705 48, AllowCtrl 0x00801707 12, AllowCtrl 0x0080170d 24, AllowCtrl 0x0080170e 12,
     AllowCtrl 0x0080170f 16, AllowCtrl 0x00801713 2, AllowCtrl 0x00801714 16396, AllowCtrl 0x00801801 184,
     AllowCtrl 0x00801805 4, AllowCtrl 0x00801806 192, AllowCtrl 0x00801809 208, AllowCtrl 0x0080180a 184,
     AllowCtrl 0x0080180c 8, AllowCtrl 0x0080180d 12]"

definition rma_ctrl_535_129_03_b :: "allow_ctrl list" where
  "rma_ctrl_535_129_03_b = [
     AllowCtrl 0x0080180e 16, AllowCtrl 0x0080180f 64, AllowCtrl 0x00801810 4, AllowCtrl 0x00801b01 16,
     AllowCtrl 0x00801c02 12, AllowCtrl 0x00801f02 16, AllowCtrl 0x00900101 8, AllowCtrl 0x00900103 8,
     AllowCtrl 0x00900105 1, AllowCtrl 0x00900107 8, AllowCtrl 0x00da0001 8, AllowCtrl 0x00da0002 24,
     AllowCtrl 0x00da0003 32, AllowCtrl 0x00da0004 16, AllowCtrl 0x00da0005 24, AllowCtrl 0x00f80101 32,
     AllowCtrl 0x00f80103 2064, AllowCtrl 0x00f80104 528, AllowCtrl 0x00f80105 24, AllowCtrl 0x00f80106 2064,
     AllowCtrl 0x00fd0101 32, AllowCtrl 0x00fd0102 40, AllowCtrl 0x00fd0103 8, AllowCtrl 0x00fd0104 16,
     AllowCtrl 0x00fd0105 24, AllowCtrl 0x00fe0002 16, AllowCtrl 0x20800102 516, AllowCtrl 0x20800110 132,
     AllowCtrl 0x20800111 64, AllowCtrl 0x20800112 12, AllowCtrl 0x20800118 4, AllowCtrl 0x20800119 4,
     AllowCtrl 0x20800122 48, AllowCtrl 0x20800123 16, AllowCtrl 0x20800124 16, AllowCtrl 0x20800125 12,
     AllowCtrl 0x20800128 4, AllowCtrl 0x2080012f 984, AllowCtrl 0x20800131 4, AllowCtrl 0x20800133 8,
     AllowCtrl 0x20800137 4, AllowCtrl 0x20800138 8, AllowCtrl 0x20800139 8, AllowCtrl 0x2080013f 136,
     AllowCtrl 0x20800142 4, AllowCtrl 0x20800145 0, AllowCtrl 0x20800146 0, AllowCtrl 0x20800147 144,
     AllowCtrl 0x2080014a 268, AllowCtrl 0x2080014b 5, AllowCtrl 0x2080014c 1, AllowCtrl 0x2080014d 8,
     AllowCtrl 0x20800153 8, AllowCtrl 0x20800154 8, AllowCtrl 0x20800155 8, AllowCtrl 0x20800156 16,
     AllowCtrl 0x20800157 0, AllowCtrl 0x2080015a 1204, AllowCtrl 0x2080015b 2004, AllowCtrl 0x2080015f 24,
     AllowCtrl 0x20800160 16, AllowCtrl 0x20800168 56, AllowCtrl 0x20800169 504, AllowCtrl 0x2080016b 24,
     AllowCtrl 0x2080016c 8, AllowCtrl 0x2080016d 12, AllowCtrl 0x2080016e 16, AllowCtrl 0x2080016f 8,
     AllowCtrl 0x20800170 252, AllowCtrl 0x20800173 12, AllowCtrl 0x20800174 264, AllowCtrl 0x20800175 1800,
     AllowCtrl 0x2080017a 496, AllowCtrl 0x2080017b 12, AllowCtrl 0x2080017c 13316, AllowCtrl 0x2080017e 8,
     AllowCtrl 0x20800181 280, AllowCtrl 0x20800182 516, AllowCtrl 0x20800185 1288, AllowCtrl 0x20800188 8,
     AllowCtrl 0x2080018b 40, AllowCtrl 0x2080018d 3812, AllowCtrl 0x2080018e 14408, AllowCtrl 0x20800192 4,
     AllowCtrl 0x20800195 260, AllowCtrl 0x20800196 16, AllowCtrl 0x20800199 8, AllowCtrl 0x2080019b 2504,
     AllowCtrl 0x208001a0 1544, AllowCtrl 0x208001a2 124, AllowCtrl 0x208001a3 40, AllowCtrl 0x208001a4 16,
     AllowCtrl 0x208001a6 1832, AllowCtrl 0x208001ab 1, AllowCtrl 0x208001ae 1, AllowCtrl 0x208001af 16388,
     AllowCtrl 0x20800301 20, AllowCtrl 0x20800302 0, AllowCtrl 0x20800303 4, AllowCtrl 0x20800304 8,
     AllowCtrl 0x20800306 8, AllowCtrl 0x20800308 4, AllowCtrl 0x20800401 16, AllowCtrl 0x20800402 0,
     AllowCtrl 0x20800403 8, AllowCtrl 0x20800404 4, AllowCtrl 0x20800406 264, AllowCtrl 0x20800407 1,
     AllowCtrl 0x20800601 532, AllowCtrl 0x20800602 276, AllowCtrl 0x20800603 276, AllowCtrl 0x20800604 276,
     AllowCtrl 0x20800808 32, AllowCtrl 0x20800809 8, AllowCtrl 0x2080080b 8, AllowCtrl 0x2080080e 1308,
     AllowCtrl 0x20800810 124, AllowCtrl 0x20800a69 1, AllowCtrl 0x20801102 24, AllowCtrl 0x20801103 132,
     AllowCtrl 0x20801108 8, AllowCtrl 0x20801109 2056, AllowCtrl 0x2080110b 536, AllowCtrl 0x2080110d 8,
     AllowCtrl 0x20801118 24, AllowCtrl 0x20801201 32, AllowCtrl 0x20801205 16, AllowCtrl 0x20801206 40,
     AllowCtrl 0x20801207 24, AllowCtrl 0x20801208 24, AllowCtrl 0x20801209 40, AllowCtrl 0x2080120a 152,
     AllowCtrl 0x2080120e 24, AllowCtrl 0x2080120f 1176, AllowCtrl 0x20801210 32, AllowCtrl 0x20801211 104,
     AllowCtrl 0x20801212 24, AllowCtrl 0x20801213 12, AllowCtrl 0x20801215 32, AllowCtrl 0x20801218 16,
     AllowCtrl 0x2080121b 6168, AllowCtrl 0x2080121c 24, AllowCtrl 0x2080121d 3208, AllowCtrl 0x2080121e 4,
     AllowCtrl 0x20801227 48, AllowCtrl 0x20801228 448, AllowCtrl 0x2080122a 24, AllowCtrl 0x2080122b 24,
     AllowCtrl 0x2080122c 32, AllowCtrl 0x2080122d 32]"

definition rma_ctrl_535_129_03_c :: "allow_ctrl list" where
  "rma_ctrl_535_129_03_c = [
     AllowCtrl 0x20801230 32, AllowCtrl 0x20801231 20, AllowCtrl 0x20801233 24, AllowCtrl 0x20801234 8,
     AllowCtrl 0x20801235 24, AllowCtrl 0x20801236 152, AllowCtrl 0x20801237 8, AllowCtrl 0x20801238 24,
     AllowCtrl 0x20801239 24, AllowCtrl 0x20801301 16, AllowCtrl 0x20801303 436, AllowCtrl 0x2080130b 16,
     AllowCtrl 0x2080130c 24, AllowCtrl 0x2080130e 4024, AllowCtrl 0x2080130f 8, AllowCtrl 0x20801310 16,
     AllowCtrl 0x20801312 8, AllowCtrl 0x20801313 12, AllowCtrl 0x20801315 16, AllowCtrl 0x20801318 92,
     AllowCtrl 0x20801319 92, AllowCtrl 0x20801320 776, AllowCtrl 0x20801322 2056, AllowCtrl 0x20801328 20,
     AllowCtrl 0x20801342 88, AllowCtrl 0x20801344 6152, AllowCtrl 0x20801346 3080, AllowCtrl 0x20801347 20,
     AllowCtrl 0x20801348 1040, AllowCtrl 0x20801352 32, AllowCtrl 0x20801701 16, AllowCtrl 0x20801702 4,
     AllowCtrl 0x20801703 4, AllowCtrl 0x20801708 1, AllowCtrl 0x20801709 1, AllowCtrl 0x20801801 16,
     AllowCtrl 0x20801802 16, AllowCtrl 0x20801803 200, AllowCtrl 0x20801806 8, AllowCtrl 0x20801807 8,
     AllowCtrl 0x2080180e 16, AllowCtrl 0x20801812 8, AllowCtrl 0x20801813 76, AllowCtrl 0x20801814 4,
     AllowCtrl 0x20801815 8, AllowCtrl 0x20801816 18, AllowCtrl 0x20801817 12, AllowCtrl 0x20801818 8,
     AllowCtrl 0x20801819 32, AllowCtrl 0x20801820 4, AllowCtrl 0x20801821 640, AllowCtrl 0x20801822 9,
     AllowCtrl 0x20801823 420, AllowCtrl 0x20801824 1, AllowCtrl 0x20801825 128, AllowCtrl 0x20801826 3,
     AllowCtrl 0x20801827 12, AllowCtrl 0x20801828 76, AllowCtrl 0x20801829 4, AllowCtrl 0x2080182a 104,
     AllowCtrl 0x2080182b 28, AllowCtrl 0x2080182d 120, AllowCtrl 0x2080200a 8, AllowCtrl 0x2080205b 4,
     AllowCtrl 0x2080206e 8, AllowCtrl 0x2080206f 8, AllowCtrl 0x20802092 4, AllowCtrl 0x20802093 1,
     AllowCtrl 0x20802096 34000, AllowCtrl 0x20802205 4, AllowCtrl 0x20802209 4, AllowCtrl 0x2080220a 0,
     AllowCtrl 0x2080220b 0, AllowCtrl 0x2080220c 0, AllowCtrl 0x20802210 0, AllowCtrl 0x20802213 8200,
     AllowCtrl 0x20802401 8, AllowCtrl 0x20802502 16, AllowCtrl 0x20802503 2052, AllowCtrl 0x20802609 8,
     AllowCtrl 0x20802a01 16, AllowCtrl 0x20802a02 8, AllowCtrl 0x20802a03 8, AllowCtrl 0x20802a0a 68,
     AllowCtrl 0x20803001 16, AllowCtrl 0x20803002 5896, AllowCtrl 0x20803003 3620,
     AllowCtrl 0x20803004 8464, AllowCtrl 0x20803009 80, AllowCtrl 0x2080300e 8, AllowCtrl 0x20803015 1040,
     AllowCtrl 0x20803018 32, AllowCtrl 0x2080303f 4, AllowCtrl 0x20803042 12, AllowCtrl 0x20803101 12,
     AllowCtrl 0x20803118 8, AllowCtrl 0x20803120 24, AllowCtrl 0x20803122 44, AllowCtrl 0x20803125 16,
     AllowCtrl 0x20803400 40, AllowCtrl 0x20803501 24, AllowCtrl 0x20803504 16, AllowCtrl 0x20803601 72,
     AllowCtrl 0x20803602 72, AllowCtrl 0x20803801 1928, AllowCtrl 0x20803d02 4, AllowCtrl 0x20803d07 1,
     AllowCtrl 0x20804101 8, AllowCtrl 0x2080a083 24, AllowCtrl 0x208f0401 12, AllowCtrl 0x208f0402 4,
     AllowCtrl 0x208f0403 16, AllowCtrl 0x208f0506 28, AllowCtrl 0x208f050e 24, AllowCtrl 0x208f0701 12,
     AllowCtrl 0x208f0702 8, AllowCtrl 0x208f0703 8, AllowCtrl 0x208f0704 8, AllowCtrl 0x208f1101 16,
     AllowCtrl 0x208f1102 16, AllowCtrl 0x208f1105 8, AllowCtrl 0x30f10101 8, AllowCtrl 0x30f10102 16,
     AllowCtrl 0x30f10103 32, AllowCtrl 0x30f10104 32, AllowCtrl 0x30f10105 52, AllowCtrl 0x30f10106 52,
     AllowCtrl 0x30f10110 24, AllowCtrl 0x30f10111 24, AllowCtrl 0x30f10112 16, AllowCtrl 0x30f10113 16,
     AllowCtrl 0x30f10114 64, AllowCtrl 0x30f10120 4, AllowCtrl 0x30f10121 4, AllowCtrl 0x30f10130 4,
     AllowCtrl 0x30f10140 4, AllowCtrl 0x30f10141 4, AllowCtrl 0x30f10150 8, AllowCtrl 0x30f10151 8,
     AllowCtrl 0x30f10153 4, AllowCtrl 0x30f10160 88, AllowCtrl 0x30f10170 4, AllowCtrl 0x30f10172 8,
     AllowCtrl 0x30f10173 8, AllowCtrl 0x30f10180 8, AllowCtrl 0x30f10185 32, AllowCtrl 0x30f10186 8,
     AllowCtrl 0x30f10187 1, AllowCtrl 0x30f10188 1, AllowCtrl 0x402c0101 16]"

definition rma_ctrl_535_129_03_d :: "allow_ctrl list" where
  "rma_ctrl_535_129_03_d = [
     AllowCtrl 0x402c0102 32, AllowCtrl 0x402c0103 64, AllowCtrl 0x402c0104 194, AllowCtrl 0x402c0105 96,
     AllowCtrl 0x503c0102 16, AllowCtrl 0x503c0103 4, AllowCtrl 0x503c0104 32, AllowCtrl 0x503c0105 4,
     AllowCtrl 0x503c0106 4, AllowCtrl 0x506f0105 8, AllowCtrl 0x50700115 8, AllowCtrl 0x50700116 16,
     AllowCtrl 0x50700118 24, AllowCtrl 0x50700119 8, AllowCtrl 0x50700203 24, AllowCtrl 0x50700204 24,
     AllowCtrl 0x50700205 16, AllowCtrl 0x5070020b 16, AllowCtrl 0x5070020c 16, AllowCtrl 0x50700301 104,
     AllowCtrl 0x50700302 104, AllowCtrl 0x50700303 72, AllowCtrl 0x50700304 72, AllowCtrl 0x50700305 16,
     AllowCtrl 0x50700430 44, AllowCtrl 0x50700431 52, AllowCtrl 0x50700709 8, AllowCtrl 0x50700902 0,
     AllowCtrl 0x50700903 8, AllowCtrl 0x50800101 584, AllowCtrl 0x50800102 4, AllowCtrl 0x50800103 584,
     AllowCtrl 0x83de0307 4, AllowCtrl 0x83de0308 4, AllowCtrl 0x83de0309 4, AllowCtrl 0x83de030b 56,
     AllowCtrl 0x83de030c 4824, AllowCtrl 0x83de030f 8, AllowCtrl 0x83de0310 8, AllowCtrl 0x83de0313 4,
     AllowCtrl 0x83de0314 4, AllowCtrl 0x83de0315 24, AllowCtrl 0x83de0316 24, AllowCtrl 0x83de0317 8,
     AllowCtrl 0x83de0318 0, AllowCtrl 0x83de031a 1544, AllowCtrl 0x83de031b 1544, AllowCtrl 0x83de031c 1048,
     AllowCtrl 0x83de031d 3208, AllowCtrl 0x83de031f 4, AllowCtrl 0x83de0320 4, AllowCtrl 0x83de0321 8,
     AllowCtrl 0x83de0322 8, AllowCtrl 0x83de0323 8, AllowCtrl 0x83de0324 8, AllowCtrl 0x83de0325 12,
     AllowCtrl 0x83de0326 3616, AllowCtrl 0x83de0327 3616, AllowCtrl 0x83de0328 72, AllowCtrl 0x906f0101 16,
     AllowCtrl 0x906f0102 12, AllowCtrl 0x906f0105 1, AllowCtrl 0x906f0106 104, AllowCtrl 0x906f0203 8,
     AllowCtrl 0x90720101 8, AllowCtrl 0x90740101 16, AllowCtrl 0x90740102 8, AllowCtrl 0x90740103 32,
     AllowCtrl 0x90960101 40, AllowCtrl 0x90960102 12, AllowCtrl 0x90960103 64, AllowCtrl 0x90960104 60,
     AllowCtrl 0x90960105 12, AllowCtrl 0x90960106 12, AllowCtrl 0x90960107 56, AllowCtrl 0x90cc0101 0,
     AllowCtrl 0x90cc0102 0, AllowCtrl 0x90cc0103 12, AllowCtrl 0x90cc0301 12, AllowCtrl 0x90cc0302 4,
     AllowCtrl 0x90cd0101 8, AllowCtrl 0x90cd0102 8, AllowCtrl 0x90cd0104 0, AllowCtrl 0x90cd0105 524,
     AllowCtrl 0x90e60101 16, AllowCtrl 0x90e60102 8, AllowCtrl 0x90e70113 16, AllowCtrl 0xa06c0101 2,
     AllowCtrl 0xa06c0102 4, AllowCtrl 0xa06c0103 8, AllowCtrl 0xa06c0104 8, AllowCtrl 0xa06c0105 8,
     AllowCtrl 0xa06c0106 4, AllowCtrl 0xa06c0109 8, AllowCtrl 0xa06f0101 16, AllowCtrl 0xa06f0102 12,
     AllowCtrl 0xa06f0103 2, AllowCtrl 0xa06f0104 4, AllowCtrl 0xa06f0107 104, AllowCtrl 0xa06f0108 1,
     AllowCtrl 0xa06f0112 1, AllowCtrl 0xa0810101 4968, AllowCtrl 0xa0810102 10760,
     AllowCtrl 0xa0810103 4960, AllowCtrl 0xa0810104 264, AllowCtrl 0xa0810105 264, AllowCtrl 0xa0810106 8,
     AllowCtrl 0xa0810107 164, AllowCtrl 0xa0810109 0, AllowCtrl 0xa0810110 20, AllowCtrl 0xa0810111 776,
     AllowCtrl 0xa0810112 1, AllowCtrl 0xa0810113 32, AllowCtrl 0xa0810114 256, AllowCtrl 0xa0810115 1,
     AllowCtrl 0xa0810117 12, AllowCtrl 0xa0810118 4, AllowCtrl 0xa0840101 256, AllowCtrl 0xa0840102 4,
     AllowCtrl 0xa0840103 776, AllowCtrl 0xa0840104 8, AllowCtrl 0xa0840105 16, AllowCtrl 0xa0840106 4,
     AllowCtrl 0xa0840107 12, AllowCtrl 0xa084010a 184, AllowCtrl 0xa084010b 0, AllowCtrl 0xa16f0101 16,
     AllowCtrl 0xa16f0102 12, AllowCtrl 0xa16f0103 2, AllowCtrl 0xa26f0101 16, AllowCtrl 0xa26f0102 12,
     AllowCtrl 0xa26f0103 2, AllowCtrl 0xb0690105 4, AllowCtrl 0xb06f0101 16, AllowCtrl 0xb06f0102 12,
     AllowCtrl 0xb06f0103 2, AllowCtrl 0xb06f0104 4, AllowCtrl 0xb06f010b 8, AllowCtrl 0xb06f010c 16,
     AllowCtrl 0xb06f010e 12, AllowCtrl 0xb06f010f 4, AllowCtrl 0xb06f0111 4104, AllowCtrl 0xb0cc0101 1,
     AllowCtrl 0xb0cc0102 0, AllowCtrl 0xb0cc0103 1, AllowCtrl 0xb0cc0104 0, AllowCtrl 0xb0cc0105 56,
     AllowCtrl 0xb0cc0106 4, AllowCtrl 0xb0cc0107 0, AllowCtrl 0xb0cc0108 0]"

definition rma_ctrl_535_129_03_e :: "allow_ctrl list" where
  "rma_ctrl_535_129_03_e = [
     AllowCtrl 0xb0cc0109 48, AllowCtrl 0xb0cc010a 3980, AllowCtrl 0xb0cc010b 0, AllowCtrl 0xb0cc010c 0,
     AllowCtrl 0xb0cc010d 4, AllowCtrl 0xb0cc010e 256, AllowCtrl 0xb0cc010f 256, AllowCtrl 0xb0cc0113 8,
     AllowCtrl 0xb0cc0114 4, AllowCtrl 0xb0cc0117 1, AllowCtrl 0xb0cc0118 1, AllowCtrl 0xb0cc0301 12,
     AllowCtrl 0xb0cc0302 4, AllowCtrl 0xc06f0101 16, AllowCtrl 0xc06f0102 12, AllowCtrl 0xc06f0103 2,
     AllowCtrl 0xc06f0104 4, AllowCtrl 0xc36f0101 16, AllowCtrl 0xc36f0102 12, AllowCtrl 0xc36f0103 2,
     AllowCtrl 0xc36f0104 4, AllowCtrl 0xc36f0108 4, AllowCtrl 0xc36f010a 4, AllowCtrl 0xc3700101 28,
     AllowCtrl 0xc3700102 20, AllowCtrl 0xc3700103 20, AllowCtrl 0xc3700201 36, AllowCtrl 0xc3700602 16,
     AllowCtrl 0xc3720101 1924, AllowCtrl 0xc3720102 220, AllowCtrl 0xc3720103 8, AllowCtrl 0xc3720104 16,
     AllowCtrl 0xc56f010b 124, AllowCtrl 0xc56f010c 128, AllowCtrl 0xc6370101 460, AllowCtrl 0xc6370102 36,
     AllowCtrl 0xc6370103 452, AllowCtrl 0xc6370104 364, AllowCtrl 0xc63701a9 280, AllowCtrl 0xc6380101 57,
     AllowCtrl 0xcb330101 5, AllowCtrl 0xcb330104 1, AllowCtrl 0xcb330106 24, AllowCtrl 0xcb330109 9228,
     AllowCtrl 0xcb33010a 12336, AllowCtrl 0xcb33010b 12, AllowCtrl 0xcbca0101 16, AllowCtrl 0xcbca0102 0,
     AllowCtrl 0xcbca0103 1, AllowCtrl 0xcbca0104 1]"

definition rma_ctrl_535_129_03 :: "allow_ctrl list" where
  "rma_ctrl_535_129_03 = rma_ctrl_535_129_03_a @ rma_ctrl_535_129_03_b @ rma_ctrl_535_129_03_c @ rma_ctrl_535_129_03_d @ rma_ctrl_535_129_03_e"

definition rma_deprec_535_129_03 :: "deprec_ctrl list" where
  "rma_deprec_535_129_03 = [
     DeprecCtrl 0x00000101 40 True, DeprecCtrl 0x0073136a 64 False, DeprecCtrl 0x00801c01 24 True,
     DeprecCtrl 0x20800101 16 True, DeprecCtrl 0x20800802 16 True, DeprecCtrl 0x20801802 16 True]"

definition rma_class_535_129_03 :: "allow_class list" where
  "rma_class_535_129_03 = [
     AllowClass 0x00000000 4 False, AllowClass 0x00000001 4 False, AllowClass 0x00000002 32 True,
     AllowClass 0x00000004 0 False, AllowClass 0x00000005 24 True, AllowClass 0x0000000f 16 True,
     AllowClass 0x00000020 4 False, AllowClass 0x0000003e 120 True, AllowClass 0x0000003f 0 False,
     AllowClass 0x00000040 120 True, AllowClass 0x00000041 4 False, AllowClass 0x00000042 120 True,
     AllowClass 0x00000060 4 True, AllowClass 0x00000070 24 True, AllowClass 0x00000071 40 True,
     AllowClass 0x00000073 0 False, AllowClass 0x00000078 24 True, AllowClass 0x00000079 24 True,
     AllowClass 0x0000007d 0 False, AllowClass 0x0000007e 24 True, AllowClass 0x00000080 56 False,
     AllowClass 0x000000b1 120 True, AllowClass 0x000000da 16 True, AllowClass 0x000000db 8 True,
     AllowClass 0x000000de 4 True, AllowClass 0x000000f3 56 True, AllowClass 0x000000f8 48 True,
     AllowClass 0x000000fd 40 True, AllowClass 0x000000fe 1 True, AllowClass 0x00002080 4 False,
     AllowClass 0x00002081 4 False, AllowClass 0x0000208f 0 False, AllowClass 0x000030f1 4 True,
     AllowClass 0x0000402c 0 False, AllowClass 0x0000503b 72 True, AllowClass 0x0000503c 4 False,
     AllowClass 0x00005080 1 False, AllowClass 0x000050a0 120 True, AllowClass 0x000083de 12 True,
     AllowClass 0x0000844c 0 False, AllowClass 0x0000900e 0 False, AllowClass 0x0000902d 16 False,
     AllowClass 0x00009067 12 True, AllowClass 0x0000906f 360 True, AllowClass 0x00009072 12 True,
     AllowClass 0x00009074 0 False, AllowClass 0x00009096 0 False, AllowClass 0x000090cc 0 False,
     AllowClass 0x000090cd 72 True, AllowClass 0x000090ce 120 True, AllowClass 0x000090e6 0 False,
     AllowClass 0x000090e7 0 False, AllowClass 0x000090ec 0 False, AllowClass 0x000090f1 48 True,
     AllowClass 0x0000a06c 20 True, AllowClass 0x0000a06f 360 True, AllowClass 0x0000a081 0 False,
     AllowClass 0x0000a084 1656 True, AllowClass 0x0000a140 16 False, AllowClass 0x0000a16f 360 True,
     AllowClass 0x0000b06f 360 True, AllowClass 0x0000b0b5 8 False, AllowClass 0x0000b2cc 8 True,
     AllowClass 0x0000b4b7 12 False, AllowClass 0x0000b8b0 12 False, AllowClass 0x0000b8d1 12 False,
     AllowClass 0x0000b8fa 8 False, AllowClass 0x0000c06f 360 True, AllowClass 0x0000c0b5 8 False,
     AllowClass 0x0000c361 0 False, AllowClass 0x0000c365 4 True, AllowClass 0x0000c36f 360 True,
     AllowClass 0x0000c461 0 False, AllowClass 0x0000c46f 360 True, AllowClass 0x0000c4b0 12 False,
     AllowClass 0x0000c4b7 12 False, AllowClass 0x0000c4d1 12 False, AllowClass 0x0000c561 0 False,
     AllowClass 0x0000c56f 360 True, AllowClass 0x0000c597 16 False, AllowClass 0x0000c5b5 8 False,
     AllowClass 0x0000c5c0 16 False, AllowClass 0x0000c637 16 True, AllowClass 0x0000c638 16 True,
     AllowClass 0x0000c639 8 True, AllowClass 0x0000c640 8 True, AllowClass 0x0000c661 2 False,
     AllowClass 0x0000c697 16 False, AllowClass 0x0000c6b0 12 False, AllowClass 0x0000c6b5 8 False,
     AllowClass 0x0000c6c0 16 False, AllowClass 0x0000c6fa 8 False, AllowClass 0x0000c797 16 False,
     AllowClass 0x0000c7b0 12 False, AllowClass 0x0000c7b5 8 False, AllowClass 0x0000c7b7 12 False,
     AllowClass 0x0000c7c0 16 False, AllowClass 0x0000c7fa 8 False, AllowClass 0x0000c86f 360 True,
     AllowClass 0x0000c8b5 8 False, AllowClass 0x0000c997 16 False, AllowClass 0x0000c9b0 12 False,
     AllowClass 0x0000c9b7 12 False, AllowClass 0x0000c9c0 16 False, AllowClass 0x0000c9d1 12 False,
     AllowClass 0x0000c9fa 8 False, AllowClass 0x0000cb33 4 False, AllowClass 0x0000cb97 16 False,
     AllowClass 0x0000cba2 0 False, AllowClass 0x0000cbc0 16 False, AllowClass 0x0000cbca 0 False]"

definition rma_gss_535_129_03 :: gss_rule where
  "rma_gss_535_129_03 = GssRule 0x00008000 0x0000c000 1048576"

definition rma_catch_all_535_129_03 :: "nat list" where
  "rma_catch_all_535_129_03 = [0x2081]"

definition rma_ctrl_580_178_04_a :: "allow_ctrl list" where
  "rma_ctrl_580_178_04_a = [
     AllowCtrl 0x00000102 108, AllowCtrl 0x00000104 152, AllowCtrl 0x00000108 132, AllowCtrl 0x00000110 12,
     AllowCtrl 0x00000111 4, AllowCtrl 0x00000121 520, AllowCtrl 0x00000122 8, AllowCtrl 0x00000123 136,
     AllowCtrl 0x00000124 2048, AllowCtrl 0x00000127 176, AllowCtrl 0x0000012a 28, AllowCtrl 0x0000012b 8348,
     AllowCtrl 0x0000012c 148, AllowCtrl 0x0000012d 1164, AllowCtrl 0x0000012e 148, AllowCtrl 0x0000012f 514,
     AllowCtrl 0x00000130 40, AllowCtrl 0x00000132 8, AllowCtrl 0x00000133 1288, AllowCtrl 0x00000134 65,
     AllowCtrl 0x00000135 1, AllowCtrl 0x00000136 4, AllowCtrl 0x00000137 16, AllowCtrl 0x00000138 8,
     AllowCtrl 0x00000139 8, AllowCtrl 0x0000013a 1352, AllowCtrl 0x0000013b 876, AllowCtrl 0x0000013e 1032,
     AllowCtrl 0x00000140 8, AllowCtrl 0x00000141 136, AllowCtrl 0x00000142 28, AllowCtrl 0x00000143 1164,
     AllowCtrl 0x00000144 514, AllowCtrl 0x00000145 8, AllowCtrl 0x00000146 148, AllowCtrl 0x00000147 148,
     AllowCtrl 0x000001f0 4, AllowCtrl 0x00000201 128, AllowCtrl 0x00000202 40, AllowCtrl 0x00000203 8,
     AllowCtrl 0x00000204 4, AllowCtrl 0x00000205 32, AllowCtrl 0x00000214 384, AllowCtrl 0x00000215 132,
     AllowCtrl 0x00000216 128, AllowCtrl 0x00000219 1152, AllowCtrl 0x0000021b 12, AllowCtrl 0x00000240 8,
     AllowCtrl 0x00000274 272, AllowCtrl 0x00000275 268, AllowCtrl 0x00000279 12, AllowCtrl 0x0000027b 4,
     AllowCtrl 0x00000281 32, AllowCtrl 0x00000282 396, AllowCtrl 0x00000283 48, AllowCtrl 0x00000285 24,
     AllowCtrl 0x00000287 2, AllowCtrl 0x00000288 3076, AllowCtrl 0x00000289 4, AllowCtrl 0x00000290 4,
     AllowCtrl 0x00000301 16, AllowCtrl 0x00000302 12, AllowCtrl 0x00000488 4, AllowCtrl 0x00000489 3224,
     AllowCtrl 0x00000501 8, AllowCtrl 0x00000502 12, AllowCtrl 0x00000601 8, AllowCtrl 0x00000603 16,
     AllowCtrl 0x00000607 2436, AllowCtrl 0x00000901 104, AllowCtrl 0x00000902 1, AllowCtrl 0x00000a01 1,
     AllowCtrl 0x00000a04 2244, AllowCtrl 0x00000b02 12, AllowCtrl 0x00000b03 48, AllowCtrl 0x00000b04 16012,
     AllowCtrl 0x00000d01 12, AllowCtrl 0x00000d02 16, AllowCtrl 0x00000d03 12, AllowCtrl 0x00000d04 12,
     AllowCtrl 0x00000d05 12, AllowCtrl 0x00000d06 16, AllowCtrl 0x00000d07 12, AllowCtrl 0x00000d08 16,
     AllowCtrl 0x00003d02 40, AllowCtrl 0x00003d05 24, AllowCtrl 0x00003d06 20, AllowCtrl 0x00003d08 80,
     AllowCtrl 0x00003d0a 76, AllowCtrl 0x00003d0b 2128, AllowCtrl 0x00003d0c 652, AllowCtrl 0x00020102 4,
     AllowCtrl 0x00020103 4, AllowCtrl 0x00040110 16, AllowCtrl 0x000f0101 0, AllowCtrl 0x000f0102 0,
     AllowCtrl 0x00410110 16, AllowCtrl 0x00410112 16, AllowCtrl 0x00410116 4, AllowCtrl 0x00410118 8,
     AllowCtrl 0x00410120 4, AllowCtrl 0x00410121 4, AllowCtrl 0x00730101 2, AllowCtrl 0x00730102 12,
     AllowCtrl 0x00730104 20, AllowCtrl 0x00730105 16, AllowCtrl 0x00730106 12, AllowCtrl 0x00730107 12,
     AllowCtrl 0x00730108 16, AllowCtrl 0x0073010a 12, AllowCtrl 0x0073010b 20, AllowCtrl 0x0073010c 16,
     AllowCtrl 0x00730116 12, AllowCtrl 0x00730120 40, AllowCtrl 0x00730159 12, AllowCtrl 0x00730160 12,
     AllowCtrl 0x00730211 16, AllowCtrl 0x00730250 72, AllowCtrl 0x007302ad 36, AllowCtrl 0x00731140 16,
     AllowCtrl 0x00731142 16, AllowCtrl 0x00731176 8, AllowCtrl 0x00731179 12, AllowCtrl 0x00800201 16,
     AllowCtrl 0x00800280 4, AllowCtrl 0x00800288 4, AllowCtrl 0x00800289 8, AllowCtrl 0x0080028c 12,
     AllowCtrl 0x0080028d 4, AllowCtrl 0x0080028e 1, AllowCtrl 0x00800290 0, AllowCtrl 0x00800291 80,
     AllowCtrl 0x00800292 804, AllowCtrl 0x00800293 8, AllowCtrl 0x00800294 4, AllowCtrl 0x00800297 8,
     AllowCtrl 0x00800298 8, AllowCtrl 0x00801102 16, AllowCtrl 0x00801104 16, AllowCtrl 0x00801107 32,
     AllowCtrl 0x00801108 32, AllowCtrl 0x00801109 48, AllowCtrl 0x00801110 488, AllowCtrl 0x00801301 16,
     AllowCtrl 0x00801306 80, AllowCtrl 0x00801307 3, AllowCtrl 0x00801308 4, AllowCtrl 0x00801401 16,
     AllowCtrl 0x00801402 3, AllowCtrl 0x00801701 16]"

definition rma_ctrl_580_178_04_b :: "allow_ctrl list" where
  "rma_ctrl_580_178_04_b = [
     AllowCtrl 0x00801707 12, AllowCtrl 0x0080170d 24, AllowCtrl 0x0080170e 12, AllowCtrl 0x0080170f 16,
     AllowCtrl 0x00801713 2, AllowCtrl 0x00801714 16396, AllowCtrl 0x00801801 184, AllowCtrl 0x00801805 4,
     AllowCtrl 0x00801806 192, AllowCtrl 0x00801809 208, AllowCtrl 0x0080180c 8, AllowCtrl 0x0080180d 12,
     AllowCtrl 0x0080180e 16, AllowCtrl 0x0080180f 64, AllowCtrl 0x00801810 4, AllowCtrl 0x00801909 1,
     AllowCtrl 0x00801b02 12, AllowCtrl 0x00801c02 12, AllowCtrl 0x00801f02 16, AllowCtrl 0x0080200a 8,
     AllowCtrl 0x00900101 8, AllowCtrl 0x00900103 8, AllowCtrl 0x00900105 1, AllowCtrl 0x00900107 8,
     AllowCtrl 0x0090010b 4, AllowCtrl 0x00da0001 8, AllowCtrl 0x00da0002 40, AllowCtrl 0x00da0003 32,
     AllowCtrl 0x00da0004 16, AllowCtrl 0x00da0005 24, AllowCtrl 0x00da0006 40, AllowCtrl 0x00de0001 8,
     AllowCtrl 0x00e00101 1048, AllowCtrl 0x00e00102 1540, AllowCtrl 0x00e00103 244,
     AllowCtrl 0x00f10001 10248, AllowCtrl 0x00f10002 2056, AllowCtrl 0x00f10003 2, AllowCtrl 0x00f80101 32,
     AllowCtrl 0x00f80102 2136, AllowCtrl 0x00f80103 2064, AllowCtrl 0x00f80104 528, AllowCtrl 0x00f80105 24,
     AllowCtrl 0x00f90101 32, AllowCtrl 0x00fb0101 2136, AllowCtrl 0x00fd0101 32, AllowCtrl 0x00fd0102 40,
     AllowCtrl 0x00fd0103 8, AllowCtrl 0x00fd0104 16, AllowCtrl 0x00fd0105 24, AllowCtrl 0x00fd0106 32,
     AllowCtrl 0x00fd0107 4, AllowCtrl 0x00fe0101 229392, AllowCtrl 0x00fe0102 4, AllowCtrl 0x01000101 0,
     AllowCtrl 0x01000102 1, AllowCtrl 0x01000103 1, AllowCtrl 0x01000104 1, AllowCtrl 0x01000105 1,
     AllowCtrl 0x01000106 1, AllowCtrl 0x01000107 1, AllowCtrl 0x01000108 1, AllowCtrl 0x01000109 1,
     AllowCtrl 0x0100010a 16, AllowCtrl 0x20800102 564, AllowCtrl 0x20800110 132, AllowCtrl 0x20800111 64,
     AllowCtrl 0x20800112 12, AllowCtrl 0x20800118 4, AllowCtrl 0x20800119 4, AllowCtrl 0x20800122 48,
     AllowCtrl 0x20800123 16, AllowCtrl 0x20800124 16, AllowCtrl 0x20800125 12, AllowCtrl 0x20800128 4,
     AllowCtrl 0x2080012f 1464, AllowCtrl 0x20800131 4, AllowCtrl 0x20800133 8, AllowCtrl 0x20800137 4,
     AllowCtrl 0x20800138 8, AllowCtrl 0x20800139 8, AllowCtrl 0x2080013f 136, AllowCtrl 0x20800142 4,
     AllowCtrl 0x20800145 0, AllowCtrl 0x20800146 0, AllowCtrl 0x20800147 144, AllowCtrl 0x2080014a 268,
     AllowCtrl 0x2080014b 5, AllowCtrl 0x2080014c 1, AllowCtrl 0x2080014d 8, AllowCtrl 0x20800153 8,
     AllowCtrl 0x20800154 8, AllowCtrl 0x20800155 8, AllowCtrl 0x20800156 16, AllowCtrl 0x20800157 0,
     AllowCtrl 0x2080015a 1204, AllowCtrl 0x2080015b 2004, AllowCtrl 0x2080015f 24, AllowCtrl 0x20800160 16,
     AllowCtrl 0x20800168 56, AllowCtrl 0x20800169 504, AllowCtrl 0x2080016b 24, AllowCtrl 0x2080016c 8,
     AllowCtrl 0x2080016d 12, AllowCtrl 0x2080016e 16, AllowCtrl 0x2080016f 8, AllowCtrl 0x20800170 340,
     AllowCtrl 0x20800173 12, AllowCtrl 0x20800174 392, AllowCtrl 0x20800175 1864, AllowCtrl 0x2080017a 672,
     AllowCtrl 0x2080017b 12, AllowCtrl 0x2080017c 13316, AllowCtrl 0x2080017e 8, AllowCtrl 0x20800181 280,
     AllowCtrl 0x20800182 564, AllowCtrl 0x20800185 5768, AllowCtrl 0x20800188 8, AllowCtrl 0x2080018b 40,
     AllowCtrl 0x2080018d 3812, AllowCtrl 0x2080018e 14408, AllowCtrl 0x20800192 4, AllowCtrl 0x20800195 260,
     AllowCtrl 0x20800196 16, AllowCtrl 0x2080019b 2608, AllowCtrl 0x2080019f 220, AllowCtrl 0x208001a0 1672,
     AllowCtrl 0x208001a2 168, AllowCtrl 0x208001a3 56, AllowCtrl 0x208001a4 16, AllowCtrl 0x208001a6 1832,
     AllowCtrl 0x208001a9 0, AllowCtrl 0x208001aa 0, AllowCtrl 0x208001ab 1, AllowCtrl 0x208001ac 0,
     AllowCtrl 0x208001ad 0, AllowCtrl 0x208001ae 1, AllowCtrl 0x208001af 16388, AllowCtrl 0x208001b0 1284,
     AllowCtrl 0x208001b1 16, AllowCtrl 0x208001b2 4, AllowCtrl 0x208001e5 152, AllowCtrl 0x208001e6 4,
     AllowCtrl 0x208001e8 32, AllowCtrl 0x208001e9 24, AllowCtrl 0x20800301 20, AllowCtrl 0x20800302 0,
     AllowCtrl 0x20800303 4, AllowCtrl 0x20800304 8, AllowCtrl 0x20800306 8]"

definition rma_ctrl_580_178_04_c :: "allow_ctrl list" where
  "rma_ctrl_580_178_04_c = [
     AllowCtrl 0x20800308 4, AllowCtrl 0x20800309 20, AllowCtrl 0x20800401 16, AllowCtrl 0x20800402 0,
     AllowCtrl 0x20800403 8, AllowCtrl 0x20800404 4, AllowCtrl 0x20800406 264, AllowCtrl 0x20800407 1,
     AllowCtrl 0x20800513 1432, AllowCtrl 0x20800601 532, AllowCtrl 0x20800602 276, AllowCtrl 0x20800603 276,
     AllowCtrl 0x20800604 276, AllowCtrl 0x20800808 48, AllowCtrl 0x20800809 8, AllowCtrl 0x2080080b 8,
     AllowCtrl 0x2080080e 1308, AllowCtrl 0x20800810 124, AllowCtrl 0x20800a69 1, AllowCtrl 0x20800ada 9220,
     AllowCtrl 0x20801102 24, AllowCtrl 0x20801103 132, AllowCtrl 0x20801108 8, AllowCtrl 0x20801109 2056,
     AllowCtrl 0x2080110b 536, AllowCtrl 0x2080110d 8, AllowCtrl 0x2080110e 22424, AllowCtrl 0x20801118 24,
     AllowCtrl 0x2080111a 520, AllowCtrl 0x20801120 20, AllowCtrl 0x20801121 24, AllowCtrl 0x20801122 44,
     AllowCtrl 0x20801123 1552, AllowCtrl 0x20801124 1540, AllowCtrl 0x20801201 32, AllowCtrl 0x20801205 16,
     AllowCtrl 0x20801206 40, AllowCtrl 0x20801207 24, AllowCtrl 0x20801208 24, AllowCtrl 0x20801209 40,
     AllowCtrl 0x2080120a 152, AllowCtrl 0x2080120e 24, AllowCtrl 0x2080120f 1944, AllowCtrl 0x20801210 32,
     AllowCtrl 0x20801211 112, AllowCtrl 0x20801212 24, AllowCtrl 0x20801213 12, AllowCtrl 0x20801215 32,
     AllowCtrl 0x20801218 16, AllowCtrl 0x2080121b 9240, AllowCtrl 0x2080121c 24, AllowCtrl 0x2080121d 3208,
     AllowCtrl 0x2080121e 4, AllowCtrl 0x20801227 48, AllowCtrl 0x20801228 488, AllowCtrl 0x2080122a 24,
     AllowCtrl 0x2080122b 24, AllowCtrl 0x2080122c 32, AllowCtrl 0x2080122d 32, AllowCtrl 0x20801230 32,
     AllowCtrl 0x20801231 20, AllowCtrl 0x20801233 24, AllowCtrl 0x20801234 8, AllowCtrl 0x20801235 24,
     AllowCtrl 0x20801236 152, AllowCtrl 0x20801237 8, AllowCtrl 0x20801238 24, AllowCtrl 0x20801239 24,
     AllowCtrl 0x2080123a 16, AllowCtrl 0x2080123c 2044, AllowCtrl 0x2080123d 2044,
     AllowCtrl 0x20801303 1028, AllowCtrl 0x2080130c 24, AllowCtrl 0x2080130e 4024, AllowCtrl 0x20801310 16,
     AllowCtrl 0x20801313 12, AllowCtrl 0x20801315 16, AllowCtrl 0x20801320 904, AllowCtrl 0x20801322 2056,
     AllowCtrl 0x20801328 20, AllowCtrl 0x20801342 56, AllowCtrl 0x20801344 6152, AllowCtrl 0x20801346 3848,
     AllowCtrl 0x20801347 20, AllowCtrl 0x20801348 1040, AllowCtrl 0x20801352 32, AllowCtrl 0x20801353 8,
     AllowCtrl 0x20801354 24, AllowCtrl 0x20801355 4, AllowCtrl 0x20801357 4, AllowCtrl 0x20801358 4,
     AllowCtrl 0x20801360 200, AllowCtrl 0x20801701 16, AllowCtrl 0x20801702 4, AllowCtrl 0x20801703 4,
     AllowCtrl 0x2080170d 2052, AllowCtrl 0x2080170e 516, AllowCtrl 0x2080170f 56, AllowCtrl 0x20801801 16,
     AllowCtrl 0x20801803 200, AllowCtrl 0x20801812 8, AllowCtrl 0x20801813 76, AllowCtrl 0x20801814 4,
     AllowCtrl 0x20801815 8, AllowCtrl 0x20801816 18, AllowCtrl 0x20801817 12, AllowCtrl 0x20801818 8,
     AllowCtrl 0x20801819 32, AllowCtrl 0x20801820 4, AllowCtrl 0x20801821 640, AllowCtrl 0x20801822 9,
     AllowCtrl 0x20801823 420, AllowCtrl 0x20801824 1, AllowCtrl 0x20801825 128, AllowCtrl 0x20801826 3,
     AllowCtrl 0x20801827 12, AllowCtrl 0x20801828 76, AllowCtrl 0x20801829 12, AllowCtrl 0x2080182a 112,
     AllowCtrl 0x2080182b 28, AllowCtrl 0x2080182d 168, AllowCtrl 0x20801830 4, AllowCtrl 0x20801831 80,
     AllowCtrl 0x20801832 8, AllowCtrl 0x2080200a 8, AllowCtrl 0x2080200b 780, AllowCtrl 0x2080205a 4,
     AllowCtrl 0x2080205b 4, AllowCtrl 0x2080205d 4, AllowCtrl 0x20802068 4, AllowCtrl 0x20802069 8,
     AllowCtrl 0x2080206e 12, AllowCtrl 0x2080206f 12, AllowCtrl 0x20802087 12, AllowCtrl 0x20802092 4,
     AllowCtrl 0x20802093 1, AllowCtrl 0x20802096 55888, AllowCtrl 0x20802205 4, AllowCtrl 0x20802209 4,
     AllowCtrl 0x2080220a 0, AllowCtrl 0x2080220b 0, AllowCtrl 0x2080220c 0, AllowCtrl 0x20802210 0,
     AllowCtrl 0x20802213 8200, AllowCtrl 0x20802401 8, AllowCtrl 0x20802502 16, AllowCtrl 0x20802503 2052,
     AllowCtrl 0x20802609 8, AllowCtrl 0x20802a01 16, AllowCtrl 0x20802a02 8]"

definition rma_ctrl_580_178_04_d :: "allow_ctrl list" where
  "rma_ctrl_580_178_04_d = [
     AllowCtrl 0x20802a03 8, AllowCtrl 0x20802a0a 136, AllowCtrl 0x20803001 48, AllowCtrl 0x20803002 13344,
     AllowCtrl 0x20803003 7224, AllowCtrl 0x20803004 16928, AllowCtrl 0x20803009 80, AllowCtrl 0x2080300e 8,
     AllowCtrl 0x20803015 2080, AllowCtrl 0x20803018 72, AllowCtrl 0x2080303f 8, AllowCtrl 0x20803042 12,
     AllowCtrl 0x20803050 28712, AllowCtrl 0x20803074 16, AllowCtrl 0x20803082 1304, AllowCtrl 0x20803083 39,
     AllowCtrl 0x20803085 24, AllowCtrl 0x20803087 1, AllowCtrl 0x20803088 56, AllowCtrl 0x2080308f 536,
     AllowCtrl 0x20803091 264, AllowCtrl 0x2080309b 64, AllowCtrl 0x20803101 12, AllowCtrl 0x20803118 8,
     AllowCtrl 0x20803120 24, AllowCtrl 0x20803122 44, AllowCtrl 0x20803125 16, AllowCtrl 0x20803400 96,
     AllowCtrl 0x20803401 40, AllowCtrl 0x20803404 2, AllowCtrl 0x20803406 1, AllowCtrl 0x20803501 24,
     AllowCtrl 0x20803504 16, AllowCtrl 0x20803601 72, AllowCtrl 0x20803602 88, AllowCtrl 0x20803604 1040,
     AllowCtrl 0x20803801 1928, AllowCtrl 0x20803d02 4, AllowCtrl 0x20803d07 1, AllowCtrl 0x20804101 8,
     AllowCtrl 0x20804102 8, AllowCtrl 0x208081ea 4, AllowCtrl 0x208f0401 12, AllowCtrl 0x208f0403 16,
     AllowCtrl 0x208f0506 28, AllowCtrl 0x208f050e 24, AllowCtrl 0x208f0510 3, AllowCtrl 0x208f0511 16,
     AllowCtrl 0x208f0701 12, AllowCtrl 0x208f0702 8, AllowCtrl 0x208f0703 8, AllowCtrl 0x208f0704 8,
     AllowCtrl 0x208f1101 16, AllowCtrl 0x208f1102 16, AllowCtrl 0x208f1105 8, AllowCtrl 0x208f1206 12,
     AllowCtrl 0x208f1901 16, AllowCtrl 0x208f1902 16, AllowCtrl 0x208f1903 65552, AllowCtrl 0x30f10101 8,
     AllowCtrl 0x30f10102 16, AllowCtrl 0x30f10103 36, AllowCtrl 0x30f10105 52, AllowCtrl 0x30f10106 52,
     AllowCtrl 0x30f10110 24, AllowCtrl 0x30f10113 16, AllowCtrl 0x30f10114 64, AllowCtrl 0x30f10120 4,
     AllowCtrl 0x30f10121 4, AllowCtrl 0x30f10130 4, AllowCtrl 0x30f10140 4, AllowCtrl 0x30f10150 8,
     AllowCtrl 0x30f10151 8, AllowCtrl 0x30f10153 4, AllowCtrl 0x30f10160 96, AllowCtrl 0x30f10170 4,
     AllowCtrl 0x30f10173 8, AllowCtrl 0x30f10187 1, AllowCtrl 0x402c0101 16, AllowCtrl 0x402c0102 32,
     AllowCtrl 0x402c0103 64, AllowCtrl 0x402c0104 194, AllowCtrl 0x402c0105 96, AllowCtrl 0x503c0102 16,
     AllowCtrl 0x503c0103 4, AllowCtrl 0x503c0104 32, AllowCtrl 0x503c0105 4, AllowCtrl 0x503c0106 4,
     AllowCtrl 0x506f0105 8, AllowCtrl 0x50700115 8, AllowCtrl 0x50700116 16, AllowCtrl 0x50700118 24,
     AllowCtrl 0x50700119 8, AllowCtrl 0x50700203 24, AllowCtrl 0x50700204 24, AllowCtrl 0x50700205 16,
     AllowCtrl 0x5070020b 16, AllowCtrl 0x5070020c 16, AllowCtrl 0x50700709 8, AllowCtrl 0x50800101 584,
     AllowCtrl 0x50800102 4, AllowCtrl 0x50800103 584, AllowCtrl 0x83de0301 0, AllowCtrl 0x83de0302 0,
     AllowCtrl 0x83de0307 4, AllowCtrl 0x83de0308 4, AllowCtrl 0x83de0309 4, AllowCtrl 0x83de030b 56,
     AllowCtrl 0x83de030c 4824, AllowCtrl 0x83de030f 8, AllowCtrl 0x83de0310 8, AllowCtrl 0x83de0313 4,
     AllowCtrl 0x83de0314 4, AllowCtrl 0x83de0315 24, AllowCtrl 0x83de0316 24, AllowCtrl 0x83de0317 8,
     AllowCtrl 0x83de0318 0, AllowCtrl 0x83de031a 1544, AllowCtrl 0x83de031b 1544, AllowCtrl 0x83de031c 1048,
     AllowCtrl 0x83de031d 3208, AllowCtrl 0x83de031f 4, AllowCtrl 0x83de0320 4, AllowCtrl 0x83de0321 8,
     AllowCtrl 0x83de0322 8, AllowCtrl 0x83de0323 8, AllowCtrl 0x83de0324 8, AllowCtrl 0x83de0325 12,
     AllowCtrl 0x83de0326 3616, AllowCtrl 0x83de0327 3616, AllowCtrl 0x83de0328 72, AllowCtrl 0x83de032a 4,
     AllowCtrl 0x83de032b 4, AllowCtrl 0x906f0101 16, AllowCtrl 0x906f0102 16, AllowCtrl 0x906f0105 1,
     AllowCtrl 0x906f0106 104, AllowCtrl 0x90720101 8, AllowCtrl 0x90740101 16, AllowCtrl 0x90740102 8,
     AllowCtrl 0x90740103 32, AllowCtrl 0x90960101 40, AllowCtrl 0x90960102 12, AllowCtrl 0x90960103 64,
     AllowCtrl 0x90960104 60, AllowCtrl 0x90960105 12, AllowCtrl 0x90960106 12, AllowCtrl 0x90960107 56,
     AllowCtrl 0x90cc0101 0, AllowCtrl 0x90cc0102 0]"

definition rma_ctrl_580_178_04_e :: "allow_ctrl list" where
  "rma_ctrl_580_178_04_e = [
     AllowCtrl 0x90cc0103 12, AllowCtrl 0x90cc0301 12, AllowCtrl 0x90cc0302 4, AllowCtrl 0x90cd0101 8,
     AllowCtrl 0x90cd0102 8, AllowCtrl 0x90cd0104 0, AllowCtrl 0x90cd0105 524, AllowCtrl 0x90e60101 16,
     AllowCtrl 0x90e60102 8, AllowCtrl 0x90e70113 16, AllowCtrl 0x90e70119 8, AllowCtrl 0xa06c0101 3,
     AllowCtrl 0xa06c0102 4, AllowCtrl 0xa06c0103 8, AllowCtrl 0xa06c0104 8, AllowCtrl 0xa06c0105 8,
     AllowCtrl 0xa06c0106 4, AllowCtrl 0xa06c0109 8, AllowCtrl 0xa06f0103 3, AllowCtrl 0xa06f0104 4,
     AllowCtrl 0xa06f0108 1, AllowCtrl 0xa06f0112 1, AllowCtrl 0xa06f0113 4, AllowCtrl 0xa0800103 76,
     AllowCtrl 0xa0800104 8, AllowCtrl 0xa0800301 72, AllowCtrl 0xa0810102 19592, AllowCtrl 0xa0810103 5432,
     AllowCtrl 0xa0810104 524, AllowCtrl 0xa0810105 524, AllowCtrl 0xa0810106 8, AllowCtrl 0xa0810109 0,
     AllowCtrl 0xa0810110 20, AllowCtrl 0xa0810111 1160, AllowCtrl 0xa0810112 1, AllowCtrl 0xa0810113 32,
     AllowCtrl 0xa0810114 256, AllowCtrl 0xa0810115 1, AllowCtrl 0xa0810117 12, AllowCtrl 0xa0810118 8,
     AllowCtrl 0xa081011b 56, AllowCtrl 0xa081011c 208, AllowCtrl 0xa081011d 1, AllowCtrl 0xa081011e 8,
     AllowCtrl 0xa081011f 8, AllowCtrl 0xa0810120 152, AllowCtrl 0xa0810122 4, AllowCtrl 0xa0810124 56,
     AllowCtrl 0xa0840101 256, AllowCtrl 0xa0840102 4, AllowCtrl 0xa0840103 776, AllowCtrl 0xa0840104 8,
     AllowCtrl 0xa0840105 16, AllowCtrl 0xa0840106 4, AllowCtrl 0xa0840107 12, AllowCtrl 0xa084010a 184,
     AllowCtrl 0xa084010b 0, AllowCtrl 0xa084010c 4, AllowCtrl 0xa084010d 1608, AllowCtrl 0xa084010e 8,
     AllowCtrl 0xa0bc0101 32, AllowCtrl 0xa0bc0102 984, AllowCtrl 0xa0bd0101 992, AllowCtrl 0xb0690105 4,
     AllowCtrl 0xb06f010b 8, AllowCtrl 0xb06f010c 16, AllowCtrl 0xb06f010e 12, AllowCtrl 0xb06f010f 4,
     AllowCtrl 0xb06f0111 4104, AllowCtrl 0xb0cc0101 1, AllowCtrl 0xb0cc0102 0, AllowCtrl 0xb0cc0103 1,
     AllowCtrl 0xb0cc0104 0, AllowCtrl 0xb0cc0105 56, AllowCtrl 0xb0cc0106 4, AllowCtrl 0xb0cc0107 0,
     AllowCtrl 0xb0cc0108 0, AllowCtrl 0xb0cc0109 48, AllowCtrl 0xb0cc010a 3980, AllowCtrl 0xb0cc010b 0,
     AllowCtrl 0xb0cc010c 0, AllowCtrl 0xb0cc010d 4, AllowCtrl 0xb0cc010e 256, AllowCtrl 0xb0cc010f 256,
     AllowCtrl 0xb0cc0113 8, AllowCtrl 0xb0cc0114 4, AllowCtrl 0xb0cc0115 124, AllowCtrl 0xb0cc0116 194,
     AllowCtrl 0xb0cc0117 1, AllowCtrl 0xb0cc0118 1, AllowCtrl 0xb0cc0119 1, AllowCtrl 0xb0cc011a 0,
     AllowCtrl 0xb0cc0201 8, AllowCtrl 0xb0cc0202 48, AllowCtrl 0xb0cc0203 5, AllowCtrl 0xb0cc0301 12,
     AllowCtrl 0xb0cc0302 4, AllowCtrl 0xc36f0108 4, AllowCtrl 0xc36f010a 4, AllowCtrl 0xc3700101 28,
     AllowCtrl 0xc3700102 20, AllowCtrl 0xc3700103 20, AllowCtrl 0xc3700201 36, AllowCtrl 0xc3700602 16,
     AllowCtrl 0xc3720101 2048, AllowCtrl 0xc3720102 220, AllowCtrl 0xc3720103 8, AllowCtrl 0xc3720104 16,
     AllowCtrl 0xc56f010b 144, AllowCtrl 0xc56f010c 128, AllowCtrl 0xc56f010e 8, AllowCtrl 0xc6370101 460,
     AllowCtrl 0xc6370102 36, AllowCtrl 0xc6370103 452, AllowCtrl 0xc6370104 364, AllowCtrl 0xc6370105 96,
     AllowCtrl 0xc63701a9 280, AllowCtrl 0xc63701aa 57, AllowCtrl 0xc6380101 57, AllowCtrl 0xc7630103 536,
     AllowCtrl 0xcb330101 6, AllowCtrl 0xcb330104 1, AllowCtrl 0xcb330106 24, AllowCtrl 0xcb330109 9228,
     AllowCtrl 0xcb33010a 12336, AllowCtrl 0xcb33010b 12, AllowCtrl 0xcb33010c 8, AllowCtrl 0xcbca0101 16,
     AllowCtrl 0xcbca0102 0, AllowCtrl 0xcbca0103 1, AllowCtrl 0xcbca0104 1]"

definition rma_ctrl_580_178_04 :: "allow_ctrl list" where
  "rma_ctrl_580_178_04 = rma_ctrl_580_178_04_a @ rma_ctrl_580_178_04_b @ rma_ctrl_580_178_04_c @ rma_ctrl_580_178_04_d @ rma_ctrl_580_178_04_e"

definition rma_deprec_580_178_04 :: "deprec_ctrl list" where
  "rma_deprec_580_178_04 = [
     DeprecCtrl 0x00000101 40 True, DeprecCtrl 0x0073136a 64 False, DeprecCtrl 0x00801b01 16 True,
     DeprecCtrl 0x00801c01 24 True, DeprecCtrl 0x20800101 16 True, DeprecCtrl 0x20800802 16 True,
     DeprecCtrl 0x20801301 16 True, DeprecCtrl 0x20801802 16 True]"

definition rma_class_580_178_04 :: "allow_class list" where
  "rma_class_580_178_04 = [
     AllowClass 0x00000000 4 False, AllowClass 0x00000001 4 False, AllowClass 0x00000002 32 True,
     AllowClass 0x00000004 0 False, AllowClass 0x00000005 24 True, AllowClass 0x0000000f 16 True,
     AllowClass 0x00000020 4 False, AllowClass 0x0000003e 128 True, AllowClass 0x0000003f 0 False,
     AllowClass 0x00000040 128 True, AllowClass 0x00000041 4 False, AllowClass 0x00000042 128 True,
     AllowClass 0x00000060 4 True, AllowClass 0x00000070 24 True, AllowClass 0x00000071 40 True,
     AllowClass 0x00000073 0 False, AllowClass 0x00000078 24 True, AllowClass 0x00000079 24 True,
     AllowClass 0x0000007d 0 False, AllowClass 0x0000007e 24 True, AllowClass 0x00000080 56 False,
     AllowClass 0x000000b1 120 True, AllowClass 0x000000c3 4 True, AllowClass 0x000000da 16 True,
     AllowClass 0x000000db 8 True, AllowClass 0x000000de 8 True, AllowClass 0x000000e0 244 True,
     AllowClass 0x000000f1 32 True, AllowClass 0x000000f3 56 True, AllowClass 0x000000f8 48 True,
     AllowClass 0x000000f9 64 True, AllowClass 0x000000fb 32 True, AllowClass 0x000000fd 80 True,
     AllowClass 0x000000fe 24 True, AllowClass 0x00000100 0 False, AllowClass 0x00000101 0 False,
     AllowClass 0x00002080 4 False, AllowClass 0x00002081 4 False, AllowClass 0x0000208f 0 False,
     AllowClass 0x000030f1 4 True, AllowClass 0x0000402c 0 False, AllowClass 0x0000503b 72 True,
     AllowClass 0x0000503c 4 False, AllowClass 0x00005080 1 False, AllowClass 0x000050a0 128 True,
     AllowClass 0x000083de 12 True, AllowClass 0x0000844c 0 False, AllowClass 0x0000900e 0 False,
     AllowClass 0x0000902d 16 False, AllowClass 0x00009067 12 True, AllowClass 0x0000906f 368 True,
     AllowClass 0x00009072 12 True, AllowClass 0x00009074 0 False, AllowClass 0x00009096 0 False,
     AllowClass 0x000090cc 0 False, AllowClass 0x000090cd 72 True, AllowClass 0x000090ce 128 True,
     AllowClass 0x000090e6 0 False, AllowClass 0x000090e7 0 False, AllowClass 0x000090ec 0 False,
     AllowClass 0x000090f1 56 True, AllowClass 0x0000a06c 20 True, AllowClass 0x0000a06f 368 True,
     AllowClass 0x0000a080 0 False, AllowClass 0x0000a081 0 False, AllowClass 0x0000a084 88 True,
     AllowClass 0x0000a0bc 20 True, AllowClass 0x0000a0bd 20 True, AllowClass 0x0000a140 16 False,
     AllowClass 0x0000a16f 368 True, AllowClass 0x0000b06f 368 True, AllowClass 0x0000b0b5 8 False,
     AllowClass 0x0000b1cc 4 True, AllowClass 0x0000b2cc 8 True, AllowClass 0x0000b4b7 12 False,
     AllowClass 0x0000b8b0 12 False, AllowClass 0x0000b8d1 12 False, AllowClass 0x0000b8fa 12 False,
     AllowClass 0x0000c06f 368 True, AllowClass 0x0000c0b5 8 False, AllowClass 0x0000c361 0 False,
     AllowClass 0x0000c365 4 True, AllowClass 0x0000c36f 368 True, AllowClass 0x0000c461 0 False,
     AllowClass 0x0000c46f 368 True, AllowClass 0x0000c4b0 12 False, AllowClass 0x0000c4b7 12 False,
     AllowClass 0x0000c4d1 12 False, AllowClass 0x0000c561 0 False, AllowClass 0x0000c56f 368 True,
     AllowClass 0x0000c597 16 False, AllowClass 0x0000c5b5 8 False, AllowClass 0x0000c5c0 16 False,
     AllowClass 0x0000c637 16 True, AllowClass 0x0000c638 16 True, AllowClass 0x0000c639 8 True,
     AllowClass 0x0000c640 8 True, AllowClass 0x0000c661 2 False, AllowClass 0x0000c697 16 False,
     AllowClass 0x0000c6b0 12 False, AllowClass 0x0000c6b5 8 False, AllowClass 0x0000c6c0 16 False,
     AllowClass 0x0000c6fa 12 False, AllowClass 0x0000c761 2 False, AllowClass 0x0000c763 528 True,
     AllowClass 0x0000c797 16 False, AllowClass 0x0000c7b0 12 False, AllowClass 0x0000c7b5 8 False,
     AllowClass 0x0000c7b7 12 False, AllowClass 0x0000c7c0 16 False, AllowClass 0x0000c7fa 12 False,
     AllowClass 0x0000c863 528 True, AllowClass 0x0000c86f 368 True, AllowClass 0x0000c8b5 8 False,
     AllowClass 0x0000c96f 368 True, AllowClass 0x0000c997 16 False, AllowClass 0x0000c9b0 12 False,
     AllowClass 0x0000c9b5 8 False, AllowClass 0x0000c9b7 12 False, AllowClass 0x0000c9c0 16 False,
     AllowClass 0x0000c9d1 12 False, AllowClass 0x0000c9fa 12 False, AllowClass 0x0000ca6f 368 True,
     AllowClass 0x0000cab5 8 False, AllowClass 0x0000cb33 4 False, AllowClass 0x0000cb97 16 False,
     AllowClass 0x0000cba2 0 False, AllowClass 0x0000cbc0 16 False, AllowClass 0x0000cbca 0 False,
     AllowClass 0x0000cd40 16 False, AllowClass 0x0000cd97 16 False, AllowClass 0x0000cdb0 12 False,
     AllowClass 0x0000cdc0 16 False, AllowClass 0x0000cdd1 12 False, AllowClass 0x0000cdfa 12 False,
     AllowClass 0x0000ce97 16 False, AllowClass 0x0000ceb0 12 False, AllowClass 0x0000ceb7 12 False,
     AllowClass 0x0000cec0 16 False, AllowClass 0x0000ced0 12 False, AllowClass 0x0000cefa 12 False,
     AllowClass 0x0000cfb0 12 False, AllowClass 0x0000cfb7 12 False, AllowClass 0x0000cfd1 12 False,
     AllowClass 0x0000cffa 12 False, AllowClass 0x0000d1b0 12 False, AllowClass 0x0000d1b7 12 False,
     AllowClass 0x0000d1fa 12 False]"

definition rma_gss_580_178_04 :: gss_rule where
  "rma_gss_580_178_04 = GssRule 0x00008000 0x0000c000 1048576"

definition rma_catch_all_580_178_04 :: "nat list" where
  "rma_catch_all_580_178_04 = [0x2081]"

definition rma_ctrl_595_71_05_a :: "allow_ctrl list" where
  "rma_ctrl_595_71_05_a = [
     AllowCtrl 0x00000102 108, AllowCtrl 0x00000104 152, AllowCtrl 0x00000108 132, AllowCtrl 0x00000110 12,
     AllowCtrl 0x00000111 4, AllowCtrl 0x00000121 520, AllowCtrl 0x00000122 8, AllowCtrl 0x00000123 136,
     AllowCtrl 0x00000127 176, AllowCtrl 0x0000012a 28, AllowCtrl 0x0000012b 8348, AllowCtrl 0x0000012c 148,
     AllowCtrl 0x0000012d 1164, AllowCtrl 0x0000012e 148, AllowCtrl 0x0000012f 514, AllowCtrl 0x00000130 40,
     AllowCtrl 0x00000132 8, AllowCtrl 0x00000133 1288, AllowCtrl 0x00000134 65, AllowCtrl 0x00000135 1,
     AllowCtrl 0x00000136 4, AllowCtrl 0x00000137 16, AllowCtrl 0x00000138 8, AllowCtrl 0x00000139 8,
     AllowCtrl 0x0000013a 1352, AllowCtrl 0x0000013b 884, AllowCtrl 0x0000013e 1032, AllowCtrl 0x00000140 8,
     AllowCtrl 0x00000141 136, AllowCtrl 0x00000142 28, AllowCtrl 0x00000143 1164, AllowCtrl 0x00000144 514,
     AllowCtrl 0x00000145 8, AllowCtrl 0x00000146 148, AllowCtrl 0x00000147 148, AllowCtrl 0x000001f0 4,
     AllowCtrl 0x00000201 128, AllowCtrl 0x00000202 40, AllowCtrl 0x00000203 8, AllowCtrl 0x00000204 4,
     AllowCtrl 0x00000205 32, AllowCtrl 0x00000214 384, AllowCtrl 0x00000215 132, AllowCtrl 0x00000216 128,
     AllowCtrl 0x00000219 1152, AllowCtrl 0x0000021b 12, AllowCtrl 0x00000274 272, AllowCtrl 0x00000275 268,
     AllowCtrl 0x00000279 12, AllowCtrl 0x0000027b 4, AllowCtrl 0x00000281 32, AllowCtrl 0x00000283 48,
     AllowCtrl 0x00000285 24, AllowCtrl 0x00000287 2, AllowCtrl 0x00000288 3076, AllowCtrl 0x00000289 4,
     AllowCtrl 0x00000290 4, AllowCtrl 0x00000301 16, AllowCtrl 0x00000302 12, AllowCtrl 0x00000488 4,
     AllowCtrl 0x00000489 3224, AllowCtrl 0x00000501 8, AllowCtrl 0x00000502 12, AllowCtrl 0x00000601 8,
     AllowCtrl 0x00000603 16, AllowCtrl 0x00000607 2436, AllowCtrl 0x00000901 104, AllowCtrl 0x00000902 1,
     AllowCtrl 0x00000a01 1, AllowCtrl 0x00000a04 2244, AllowCtrl 0x00000b02 12, AllowCtrl 0x00000b03 48,
     AllowCtrl 0x00000b04 16012, AllowCtrl 0x00000d01 12, AllowCtrl 0x00000d02 16, AllowCtrl 0x00000d03 12,
     AllowCtrl 0x00000d04 12, AllowCtrl 0x00000d05 12, AllowCtrl 0x00000d06 16, AllowCtrl 0x00000d07 12,
     AllowCtrl 0x00000d08 16, AllowCtrl 0x00003d02 40, AllowCtrl 0x00003d05 24, AllowCtrl 0x00003d06 20,
     AllowCtrl 0x00003d08 80, AllowCtrl 0x00003d0a 76, AllowCtrl 0x00003d0b 2128, AllowCtrl 0x00003d0c 652,
     AllowCtrl 0x00020102 4, AllowCtrl 0x00020103 4, AllowCtrl 0x00040110 16, AllowCtrl 0x000f0101 0,
     AllowCtrl 0x000f0102 0, AllowCtrl 0x00410110 16, AllowCtrl 0x00410112 16, AllowCtrl 0x00410116 4,
     AllowCtrl 0x00410118 8, AllowCtrl 0x00410120 4, AllowCtrl 0x00410121 4, AllowCtrl 0x00730101 2,
     AllowCtrl 0x00730102 12, AllowCtrl 0x00730104 20, AllowCtrl 0x00730105 16, AllowCtrl 0x00730106 12,
     AllowCtrl 0x00730107 12, AllowCtrl 0x00730108 16, AllowCtrl 0x0073010a 12, AllowCtrl 0x0073010b 20,
     AllowCtrl 0x0073010c 16, AllowCtrl 0x00730116 12, AllowCtrl 0x00730120 40, AllowCtrl 0x00730159 12,
     AllowCtrl 0x00730160 12, AllowCtrl 0x00730211 16, AllowCtrl 0x00730250 72, AllowCtrl 0x007302ad 36,
     AllowCtrl 0x00731140 16, AllowCtrl 0x00731142 16, AllowCtrl 0x00731176 8, AllowCtrl 0x00731179 12,
     AllowCtrl 0x00800201 16, AllowCtrl 0x00800280 4, AllowCtrl 0x00800288 4, AllowCtrl 0x00800289 8,
     AllowCtrl 0x0080028c 12, AllowCtrl 0x0080028d 4, AllowCtrl 0x0080028e 1, AllowCtrl 0x00800290 0,
     AllowCtrl 0x00800291 80, AllowCtrl 0x00800292 804, AllowCtrl 0x00800293 8, AllowCtrl 0x00800294 4,
     AllowCtrl 0x00800297 8, AllowCtrl 0x00800298 8, AllowCtrl 0x00801102 16, AllowCtrl 0x00801104 16,
     AllowCtrl 0x00801107 32, AllowCtrl 0x00801108 32, AllowCtrl 0x00801109 48, AllowCtrl 0x00801110 496,
     AllowCtrl 0x00801301 16, AllowCtrl 0x00801306 80, AllowCtrl 0x00801307 3, AllowCtrl 0x00801308 4,
     AllowCtrl 0x00801401 16, AllowCtrl 0x00801402 3, AllowCtrl 0x00801701 16, AllowCtrl 0x00801707 12,
     AllowCtrl 0x0080170d 24, AllowCtrl 0x0080170e 12]"

definition rma_ctrl_595_71_05_b :: "allow_ctrl list" where
  "rma_ctrl_595_71_05_b = [
     AllowCtrl 0x0080170f 16, AllowCtrl 0x00801713 2, AllowCtrl 0x00801714 16396, AllowCtrl 0x00801801 184,
     AllowCtrl 0x00801805 4, AllowCtrl 0x00801806 192, AllowCtrl 0x00801809 208, AllowCtrl 0x0080180c 8,
     AllowCtrl 0x0080180d 12, AllowCtrl 0x0080180e 16, AllowCtrl 0x0080180f 64, AllowCtrl 0x00801909 1,
     AllowCtrl 0x00801b02 12, AllowCtrl 0x00801c02 12, AllowCtrl 0x00801f02 16, AllowCtrl 0x0080200a 8,
     AllowCtrl 0x00900101 8, AllowCtrl 0x00900103 8, AllowCtrl 0x00900105 1, AllowCtrl 0x00900107 8,
     AllowCtrl 0x0090010b 4, AllowCtrl 0x00da0001 8, AllowCtrl 0x00da0002 40, AllowCtrl 0x00da0003 32,
     AllowCtrl 0x00da0004 16, AllowCtrl 0x00da0005 24, AllowCtrl 0x00da0006 40, AllowCtrl 0x00de0001 8,
     AllowCtrl 0x00e00101 1048, AllowCtrl 0x00e00102 1540, AllowCtrl 0x00e00103 244,
     AllowCtrl 0x00f10001 11272, AllowCtrl 0x00f10002 2056, AllowCtrl 0x00f10003 2, AllowCtrl 0x00f80101 32,
     AllowCtrl 0x00f80102 2136, AllowCtrl 0x00f80103 2064, AllowCtrl 0x00f80104 528, AllowCtrl 0x00f80105 24,
     AllowCtrl 0x00f90101 32, AllowCtrl 0x00fb0101 2136, AllowCtrl 0x00fd0101 32, AllowCtrl 0x00fd0102 40,
     AllowCtrl 0x00fd0103 8, AllowCtrl 0x00fd0104 16, AllowCtrl 0x00fd0105 24, AllowCtrl 0x00fd0106 40,
     AllowCtrl 0x00fd0107 4, AllowCtrl 0x00fe0101 229392, AllowCtrl 0x00fe0102 4, AllowCtrl 0x01000101 0,
     AllowCtrl 0x01000102 1, AllowCtrl 0x01000103 1, AllowCtrl 0x01000104 1, AllowCtrl 0x01000105 1,
     AllowCtrl 0x01000106 1, AllowCtrl 0x01000107 1, AllowCtrl 0x01000108 1, AllowCtrl 0x01000109 1,
     AllowCtrl 0x0100010a 16, AllowCtrl 0x0100010b 1, AllowCtrl 0x0100010c 1, AllowCtrl 0x0100010d 1,
     AllowCtrl 0x20800102 564, AllowCtrl 0x20800110 68, AllowCtrl 0x20800111 64, AllowCtrl 0x20800112 12,
     AllowCtrl 0x20800118 4, AllowCtrl 0x20800119 4, AllowCtrl 0x20800122 48, AllowCtrl 0x20800123 16,
     AllowCtrl 0x20800124 16, AllowCtrl 0x20800125 12, AllowCtrl 0x2080012f 1664, AllowCtrl 0x20800131 4,
     AllowCtrl 0x20800133 8, AllowCtrl 0x20800137 4, AllowCtrl 0x20800138 8, AllowCtrl 0x20800139 8,
     AllowCtrl 0x2080013f 136, AllowCtrl 0x20800142 4, AllowCtrl 0x20800145 0, AllowCtrl 0x20800146 0,
     AllowCtrl 0x20800147 144, AllowCtrl 0x2080014a 268, AllowCtrl 0x2080014b 5, AllowCtrl 0x2080014c 1,
     AllowCtrl 0x2080014d 8, AllowCtrl 0x20800153 8, AllowCtrl 0x20800154 8, AllowCtrl 0x20800155 8,
     AllowCtrl 0x20800156 16, AllowCtrl 0x20800157 0, AllowCtrl 0x2080015a 1204, AllowCtrl 0x2080015b 2004,
     AllowCtrl 0x2080015f 24, AllowCtrl 0x20800160 16, AllowCtrl 0x20800168 56, AllowCtrl 0x20800169 504,
     AllowCtrl 0x2080016b 24, AllowCtrl 0x2080016c 8, AllowCtrl 0x2080016d 12, AllowCtrl 0x2080016e 16,
     AllowCtrl 0x2080016f 8, AllowCtrl 0x20800170 340, AllowCtrl 0x20800173 12, AllowCtrl 0x20800174 392,
     AllowCtrl 0x20800175 1864, AllowCtrl 0x2080017a 672, AllowCtrl 0x2080017b 12,
     AllowCtrl 0x2080017c 13316, AllowCtrl 0x2080017e 8, AllowCtrl 0x20800181 280, AllowCtrl 0x20800182 564,
     AllowCtrl 0x20800185 5768, AllowCtrl 0x20800188 8, AllowCtrl 0x2080018b 40, AllowCtrl 0x2080018d 3812,
     AllowCtrl 0x2080018e 14408, AllowCtrl 0x20800192 4, AllowCtrl 0x20800195 260, AllowCtrl 0x20800196 16,
     AllowCtrl 0x2080019b 2608, AllowCtrl 0x2080019f 400, AllowCtrl 0x208001a0 1672,
     AllowCtrl 0x208001a2 168, AllowCtrl 0x208001a3 56, AllowCtrl 0x208001a4 16, AllowCtrl 0x208001a6 1832,
     AllowCtrl 0x208001a9 0, AllowCtrl 0x208001aa 0, AllowCtrl 0x208001ab 1, AllowCtrl 0x208001ac 0,
     AllowCtrl 0x208001ad 0, AllowCtrl 0x208001ae 1, AllowCtrl 0x208001af 16388, AllowCtrl 0x208001b0 1284,
     AllowCtrl 0x208001b1 16, AllowCtrl 0x208001b2 4, AllowCtrl 0x208001e5 152, AllowCtrl 0x208001e6 4,
     AllowCtrl 0x208001e8 32, AllowCtrl 0x208001e9 24, AllowCtrl 0x208001ea 4, AllowCtrl 0x208001f1 4,
     AllowCtrl 0x20800301 20, AllowCtrl 0x20800302 0, AllowCtrl 0x20800303 4, AllowCtrl 0x20800304 8,
     AllowCtrl 0x20800306 8]"

definition rma_ctrl_595_71_05_c :: "allow_ctrl list" where
  "rma_ctrl_595_71_05_c = [
     AllowCtrl 0x20800308 4, AllowCtrl 0x20800309 20, AllowCtrl 0x20800401 16, AllowCtrl 0x20800402 0,
     AllowCtrl 0x20800403 8, AllowCtrl 0x20800404 4, AllowCtrl 0x20800406 264, AllowCtrl 0x20800407 1,
     AllowCtrl 0x20800513 1432, AllowCtrl 0x20800601 532, AllowCtrl 0x20800602 276, AllowCtrl 0x20800603 276,
     AllowCtrl 0x20800604 276, AllowCtrl 0x20800808 48, AllowCtrl 0x20800809 8, AllowCtrl 0x2080080b 8,
     AllowCtrl 0x2080080e 1308, AllowCtrl 0x20800810 124, AllowCtrl 0x20800a69 1, AllowCtrl 0x20800ada 9220,
     AllowCtrl 0x20801102 24, AllowCtrl 0x20801108 8, AllowCtrl 0x20801109 2056, AllowCtrl 0x2080110b 536,
     AllowCtrl 0x2080110d 8, AllowCtrl 0x2080110e 24024, AllowCtrl 0x20801118 24, AllowCtrl 0x2080111a 520,
     AllowCtrl 0x2080111c 520, AllowCtrl 0x20801120 20, AllowCtrl 0x20801121 24, AllowCtrl 0x20801122 44,
     AllowCtrl 0x20801123 1552, AllowCtrl 0x20801124 1540, AllowCtrl 0x20801201 32, AllowCtrl 0x20801205 16,
     AllowCtrl 0x20801206 40, AllowCtrl 0x20801207 24, AllowCtrl 0x20801208 24, AllowCtrl 0x20801209 40,
     AllowCtrl 0x2080120a 152, AllowCtrl 0x2080120e 24, AllowCtrl 0x2080120f 1944, AllowCtrl 0x20801210 32,
     AllowCtrl 0x20801211 112, AllowCtrl 0x20801212 24, AllowCtrl 0x20801213 12, AllowCtrl 0x20801215 32,
     AllowCtrl 0x20801218 16, AllowCtrl 0x2080121b 9240, AllowCtrl 0x2080121c 24, AllowCtrl 0x2080121e 4,
     AllowCtrl 0x20801227 48, AllowCtrl 0x20801228 496, AllowCtrl 0x2080122a 24, AllowCtrl 0x2080122b 24,
     AllowCtrl 0x2080122c 32, AllowCtrl 0x2080122d 32, AllowCtrl 0x20801230 32, AllowCtrl 0x20801231 20,
     AllowCtrl 0x20801233 24, AllowCtrl 0x20801234 8, AllowCtrl 0x20801235 24, AllowCtrl 0x20801236 152,
     AllowCtrl 0x20801237 8, AllowCtrl 0x20801238 24, AllowCtrl 0x20801239 24, AllowCtrl 0x2080123a 16,
     AllowCtrl 0x2080123c 2044, AllowCtrl 0x2080123d 2044, AllowCtrl 0x2080123e 8, AllowCtrl 0x20801303 1028,
     AllowCtrl 0x2080130c 24, AllowCtrl 0x2080130e 4024, AllowCtrl 0x20801310 16, AllowCtrl 0x20801313 12,
     AllowCtrl 0x20801315 16, AllowCtrl 0x20801320 904, AllowCtrl 0x20801322 2056, AllowCtrl 0x20801328 20,
     AllowCtrl 0x20801342 56, AllowCtrl 0x20801344 6152, AllowCtrl 0x20801346 3848, AllowCtrl 0x20801347 20,
     AllowCtrl 0x20801348 1040, AllowCtrl 0x20801352 32, AllowCtrl 0x20801353 8, AllowCtrl 0x20801354 24,
     AllowCtrl 0x20801355 4, AllowCtrl 0x20801357 4, AllowCtrl 0x20801358 4, AllowCtrl 0x20801360 200,
     AllowCtrl 0x20801361 8208, AllowCtrl 0x20801362 48, AllowCtrl 0x20801701 16, AllowCtrl 0x20801702 4,
     AllowCtrl 0x20801703 4, AllowCtrl 0x2080170d 2052, AllowCtrl 0x2080170e 516, AllowCtrl 0x2080170f 56,
     AllowCtrl 0x20801801 16, AllowCtrl 0x20801803 200, AllowCtrl 0x20801812 8, AllowCtrl 0x20801813 76,
     AllowCtrl 0x20801814 4, AllowCtrl 0x20801815 8, AllowCtrl 0x20801816 18, AllowCtrl 0x20801817 12,
     AllowCtrl 0x20801818 8, AllowCtrl 0x20801819 32, AllowCtrl 0x20801820 4, AllowCtrl 0x20801823 420,
     AllowCtrl 0x20801824 1, AllowCtrl 0x20801825 128, AllowCtrl 0x20801826 3, AllowCtrl 0x20801827 12,
     AllowCtrl 0x20801828 76, AllowCtrl 0x20801829 12, AllowCtrl 0x2080182a 112, AllowCtrl 0x2080182b 28,
     AllowCtrl 0x2080182d 168, AllowCtrl 0x20801830 4, AllowCtrl 0x20801831 88, AllowCtrl 0x20801832 8,
     AllowCtrl 0x20801836 8, AllowCtrl 0x20801837 56, AllowCtrl 0x2080200a 8, AllowCtrl 0x2080200b 780,
     AllowCtrl 0x2080205a 4, AllowCtrl 0x2080205b 4, AllowCtrl 0x2080205d 4, AllowCtrl 0x20802068 4,
     AllowCtrl 0x20802069 8, AllowCtrl 0x2080206e 12, AllowCtrl 0x2080206f 12, AllowCtrl 0x20802087 12,
     AllowCtrl 0x20802092 4, AllowCtrl 0x20802093 1, AllowCtrl 0x20802096 55888, AllowCtrl 0x20802205 4,
     AllowCtrl 0x20802209 4, AllowCtrl 0x2080220a 0, AllowCtrl 0x2080220b 0, AllowCtrl 0x2080220c 0,
     AllowCtrl 0x20802210 0, AllowCtrl 0x20802213 8200, AllowCtrl 0x20802401 8, AllowCtrl 0x20802502 16,
     AllowCtrl 0x20802503 2052, AllowCtrl 0x20802609 8]"

definition rma_ctrl_595_71_05_d :: "allow_ctrl list" where
  "rma_ctrl_595_71_05_d = [
     AllowCtrl 0x20802a01 16, AllowCtrl 0x20802a02 8, AllowCtrl 0x20802a03 8, AllowCtrl 0x20802a0a 136,
     AllowCtrl 0x20803001 48, AllowCtrl 0x20803002 13864, AllowCtrl 0x20803003 7224,
     AllowCtrl 0x20803004 16928, AllowCtrl 0x20803009 80, AllowCtrl 0x2080300e 8, AllowCtrl 0x20803015 2080,
     AllowCtrl 0x20803018 72, AllowCtrl 0x2080303f 12, AllowCtrl 0x20803042 12, AllowCtrl 0x20803050 28712,
     AllowCtrl 0x20803074 16, AllowCtrl 0x20803082 1304, AllowCtrl 0x20803083 39, AllowCtrl 0x20803085 48,
     AllowCtrl 0x20803087 2, AllowCtrl 0x20803088 56, AllowCtrl 0x2080308f 536, AllowCtrl 0x20803091 264,
     AllowCtrl 0x2080309b 64, AllowCtrl 0x20803101 12, AllowCtrl 0x20803118 8, AllowCtrl 0x20803120 24,
     AllowCtrl 0x20803122 44, AllowCtrl 0x20803125 16, AllowCtrl 0x20803400 96, AllowCtrl 0x20803401 40,
     AllowCtrl 0x20803404 2, AllowCtrl 0x20803406 1, AllowCtrl 0x20803501 24, AllowCtrl 0x20803504 16,
     AllowCtrl 0x20803601 72, AllowCtrl 0x20803602 88, AllowCtrl 0x20803604 1040, AllowCtrl 0x20803801 1928,
     AllowCtrl 0x20803b01 268, AllowCtrl 0x20803d02 4, AllowCtrl 0x20803d07 1, AllowCtrl 0x20804101 8,
     AllowCtrl 0x20804102 8, AllowCtrl 0x208f0401 12, AllowCtrl 0x208f0403 16, AllowCtrl 0x208f0506 28,
     AllowCtrl 0x208f050e 24, AllowCtrl 0x208f0510 3, AllowCtrl 0x208f0511 16, AllowCtrl 0x208f0701 12,
     AllowCtrl 0x208f0702 8, AllowCtrl 0x208f0703 8, AllowCtrl 0x208f0704 8, AllowCtrl 0x208f1101 16,
     AllowCtrl 0x208f1102 16, AllowCtrl 0x208f1105 8, AllowCtrl 0x208f1206 12, AllowCtrl 0x208f1901 16,
     AllowCtrl 0x208f1902 16, AllowCtrl 0x208f1903 65552, AllowCtrl 0x30f10101 8, AllowCtrl 0x30f10102 16,
     AllowCtrl 0x30f10103 36, AllowCtrl 0x30f10105 52, AllowCtrl 0x30f10106 68, AllowCtrl 0x30f10110 24,
     AllowCtrl 0x30f10113 16, AllowCtrl 0x30f10114 64, AllowCtrl 0x30f10120 4, AllowCtrl 0x30f10121 4,
     AllowCtrl 0x30f10130 4, AllowCtrl 0x30f10140 4, AllowCtrl 0x30f10150 8, AllowCtrl 0x30f10151 8,
     AllowCtrl 0x30f10153 4, AllowCtrl 0x30f10160 96, AllowCtrl 0x30f10170 4, AllowCtrl 0x30f10173 8,
     AllowCtrl 0x30f10187 1, AllowCtrl 0x402c0101 16, AllowCtrl 0x402c0102 32, AllowCtrl 0x402c0103 64,
     AllowCtrl 0x402c0104 194, AllowCtrl 0x402c0105 96, AllowCtrl 0x503c0102 16, AllowCtrl 0x503c0103 4,
     AllowCtrl 0x503c0104 32, AllowCtrl 0x503c0105 4, AllowCtrl 0x503c0106 4, AllowCtrl 0x506f0105 8,
     AllowCtrl 0x50700115 8, AllowCtrl 0x50700116 16, AllowCtrl 0x50700118 24, AllowCtrl 0x50700119 8,
     AllowCtrl 0x50700203 24, AllowCtrl 0x50700204 24, AllowCtrl 0x50700205 16, AllowCtrl 0x5070020b 16,
     AllowCtrl 0x5070020c 16, AllowCtrl 0x50700709 8, AllowCtrl 0x50800101 584, AllowCtrl 0x50800102 4,
     AllowCtrl 0x50800103 584, AllowCtrl 0x83de0301 0, AllowCtrl 0x83de0302 0, AllowCtrl 0x83de0307 4,
     AllowCtrl 0x83de0308 4, AllowCtrl 0x83de0309 4, AllowCtrl 0x83de030b 56, AllowCtrl 0x83de030c 4824,
     AllowCtrl 0x83de030f 8, AllowCtrl 0x83de0310 8, AllowCtrl 0x83de0313 4, AllowCtrl 0x83de0314 4,
     AllowCtrl 0x83de0315 24, AllowCtrl 0x83de0316 24, AllowCtrl 0x83de0317 8, AllowCtrl 0x83de0318 0,
     AllowCtrl 0x83de031a 1544, AllowCtrl 0x83de031b 1544, AllowCtrl 0x83de031c 1048,
     AllowCtrl 0x83de031d 3208, AllowCtrl 0x83de031f 4, AllowCtrl 0x83de0320 4, AllowCtrl 0x83de0321 8,
     AllowCtrl 0x83de0322 8, AllowCtrl 0x83de0323 8, AllowCtrl 0x83de0324 8, AllowCtrl 0x83de0325 12,
     AllowCtrl 0x83de0326 3616, AllowCtrl 0x83de0327 3616, AllowCtrl 0x83de0328 72, AllowCtrl 0x83de0329 1,
     AllowCtrl 0x83de032a 4, AllowCtrl 0x83de032b 4, AllowCtrl 0x906f0101 16, AllowCtrl 0x906f0102 16,
     AllowCtrl 0x906f0105 1, AllowCtrl 0x906f0106 104, AllowCtrl 0x90720101 8, AllowCtrl 0x90740101 16,
     AllowCtrl 0x90740102 8, AllowCtrl 0x90740103 32, AllowCtrl 0x90960101 40, AllowCtrl 0x90960102 12,
     AllowCtrl 0x90960103 64, AllowCtrl 0x90960104 60, AllowCtrl 0x90960105 12, AllowCtrl 0x90960106 12]"

definition rma_ctrl_595_71_05_e :: "allow_ctrl list" where
  "rma_ctrl_595_71_05_e = [
     AllowCtrl 0x90960107 56, AllowCtrl 0x90cc0101 0, AllowCtrl 0x90cc0102 0, AllowCtrl 0x90cc0103 12,
     AllowCtrl 0x90cc0301 12, AllowCtrl 0x90cc0302 4, AllowCtrl 0x90cd0101 8, AllowCtrl 0x90cd0102 8,
     AllowCtrl 0x90cd0104 0, AllowCtrl 0x90cd0105 524, AllowCtrl 0x90e60101 16, AllowCtrl 0x90e60102 8,
     AllowCtrl 0x90e70102 20, AllowCtrl 0x90e70113 16, AllowCtrl 0x90e70119 8, AllowCtrl 0xa06c0101 3,
     AllowCtrl 0xa06c0102 4, AllowCtrl 0xa06c0103 8, AllowCtrl 0xa06c0104 8, AllowCtrl 0xa06c0105 8,
     AllowCtrl 0xa06c0106 4, AllowCtrl 0xa06c0109 8, AllowCtrl 0xa06f0103 3, AllowCtrl 0xa06f0104 4,
     AllowCtrl 0xa06f0108 1, AllowCtrl 0xa06f0112 1, AllowCtrl 0xa06f0113 4, AllowCtrl 0xa0800103 76,
     AllowCtrl 0xa0800104 8, AllowCtrl 0xa0800301 72, AllowCtrl 0xa0810102 19592, AllowCtrl 0xa0810103 5432,
     AllowCtrl 0xa0810104 524, AllowCtrl 0xa0810105 524, AllowCtrl 0xa0810106 8, AllowCtrl 0xa0810109 0,
     AllowCtrl 0xa0810110 20, AllowCtrl 0xa0810111 1160, AllowCtrl 0xa0810112 1, AllowCtrl 0xa0810113 32,
     AllowCtrl 0xa0810114 256, AllowCtrl 0xa0810115 1, AllowCtrl 0xa0810117 12, AllowCtrl 0xa0810118 8,
     AllowCtrl 0xa081011b 56, AllowCtrl 0xa081011c 208, AllowCtrl 0xa081011d 1, AllowCtrl 0xa081011e 8,
     AllowCtrl 0xa081011f 8, AllowCtrl 0xa0810120 152, AllowCtrl 0xa0810122 4, AllowCtrl 0xa0810124 56,
     AllowCtrl 0xa0830101 8, AllowCtrl 0xa0830102 12, AllowCtrl 0xa0830103 16, AllowCtrl 0xa0830104 1,
     AllowCtrl 0xa0830105 4, AllowCtrl 0xa0830106 8, AllowCtrl 0xa0840101 256, AllowCtrl 0xa0840102 4,
     AllowCtrl 0xa0840103 776, AllowCtrl 0xa0840104 8, AllowCtrl 0xa0840105 16, AllowCtrl 0xa0840106 4,
     AllowCtrl 0xa0840107 12, AllowCtrl 0xa084010a 184, AllowCtrl 0xa084010b 0, AllowCtrl 0xa084010c 4,
     AllowCtrl 0xa084010d 1608, AllowCtrl 0xa084010e 8, AllowCtrl 0xa0bc0101 32, AllowCtrl 0xa0bc0102 984,
     AllowCtrl 0xa0bd0101 992, AllowCtrl 0xb0690105 4, AllowCtrl 0xb06f010b 8, AllowCtrl 0xb06f010c 16,
     AllowCtrl 0xb06f010e 12, AllowCtrl 0xb06f010f 4, AllowCtrl 0xb06f0111 4104, AllowCtrl 0xb0cc0101 1,
     AllowCtrl 0xb0cc0102 0, AllowCtrl 0xb0cc0103 1, AllowCtrl 0xb0cc0104 0, AllowCtrl 0xb0cc0105 56,
     AllowCtrl 0xb0cc0106 4, AllowCtrl 0xb0cc0107 0, AllowCtrl 0xb0cc0108 0, AllowCtrl 0xb0cc0109 48,
     AllowCtrl 0xb0cc010a 3980, AllowCtrl 0xb0cc010b 0, AllowCtrl 0xb0cc010c 0, AllowCtrl 0xb0cc010d 4,
     AllowCtrl 0xb0cc010e 256, AllowCtrl 0xb0cc010f 256, AllowCtrl 0xb0cc0113 8, AllowCtrl 0xb0cc0114 4,
     AllowCtrl 0xb0cc0115 124, AllowCtrl 0xb0cc0116 194, AllowCtrl 0xb0cc0117 1, AllowCtrl 0xb0cc0118 1,
     AllowCtrl 0xb0cc0119 1, AllowCtrl 0xb0cc011a 0, AllowCtrl 0xb0cc0201 8, AllowCtrl 0xb0cc0202 48,
     AllowCtrl 0xb0cc0203 7, AllowCtrl 0xb0cc0301 12, AllowCtrl 0xb0cc0302 4, AllowCtrl 0xc36f0108 4,
     AllowCtrl 0xc36f010a 4, AllowCtrl 0xc3700101 28, AllowCtrl 0xc3700102 20, AllowCtrl 0xc3700103 20,
     AllowCtrl 0xc3700201 36, AllowCtrl 0xc3700602 16, AllowCtrl 0xc3720101 2048, AllowCtrl 0xc3720102 220,
     AllowCtrl 0xc3720103 8, AllowCtrl 0xc3720104 16, AllowCtrl 0xc56f010b 144, AllowCtrl 0xc56f010c 128,
     AllowCtrl 0xc56f010e 8, AllowCtrl 0xc6370101 460, AllowCtrl 0xc6370102 36, AllowCtrl 0xc6370103 452,
     AllowCtrl 0xc6370104 364, AllowCtrl 0xc6370105 96, AllowCtrl 0xc63701a9 280, AllowCtrl 0xc63701aa 57,
     AllowCtrl 0xc6380101 57, AllowCtrl 0xc7630103 536, AllowCtrl 0xcb330101 6, AllowCtrl 0xcb330104 1,
     AllowCtrl 0xcb330106 24, AllowCtrl 0xcb330109 9228, AllowCtrl 0xcb33010a 12336, AllowCtrl 0xcb33010b 12,
     AllowCtrl 0xcb33010c 8, AllowCtrl 0xcbca0101 16, AllowCtrl 0xcbca0102 0, AllowCtrl 0xcbca0103 1,
     AllowCtrl 0xcbca0104 1]"

definition rma_ctrl_595_71_05 :: "allow_ctrl list" where
  "rma_ctrl_595_71_05 = rma_ctrl_595_71_05_a @ rma_ctrl_595_71_05_b @ rma_ctrl_595_71_05_c @ rma_ctrl_595_71_05_d @ rma_ctrl_595_71_05_e"

definition rma_deprec_595_71_05 :: "deprec_ctrl list" where
  "rma_deprec_595_71_05 = [
     DeprecCtrl 0x00000101 40 True, DeprecCtrl 0x0073136a 64 False, DeprecCtrl 0x00801b01 16 True,
     DeprecCtrl 0x00801c01 24 True, DeprecCtrl 0x20800101 16 True, DeprecCtrl 0x20800802 16 True,
     DeprecCtrl 0x20801301 16 True, DeprecCtrl 0x20801802 16 True]"

definition rma_class_595_71_05 :: "allow_class list" where
  "rma_class_595_71_05 = [
     AllowClass 0x00000000 4 False, AllowClass 0x00000001 4 False, AllowClass 0x00000002 32 True,
     AllowClass 0x00000004 0 False, AllowClass 0x00000005 24 True, AllowClass 0x0000000f 16 True,
     AllowClass 0x00000020 4 False, AllowClass 0x0000003e 128 True, AllowClass 0x0000003f 0 False,
     AllowClass 0x00000040 128 True, AllowClass 0x00000041 4 False, AllowClass 0x00000060 4 True,
     AllowClass 0x00000070 24 True, AllowClass 0x00000071 40 True, AllowClass 0x00000073 0 False,
     AllowClass 0x00000078 24 True, AllowClass 0x00000079 24 True, AllowClass 0x0000007d 0 False,
     AllowClass 0x0000007e 24 True, AllowClass 0x00000080 56 False, AllowClass 0x000000b1 120 True,
     AllowClass 0x000000c3 4 True, AllowClass 0x000000da 16 True, AllowClass 0x000000db 8 True,
     AllowClass 0x000000de 8 True, AllowClass 0x000000e0 244 True, AllowClass 0x000000f1 32 True,
     AllowClass 0x000000f8 48 True, AllowClass 0x000000f9 64 True, AllowClass 0x000000fb 32 True,
     AllowClass 0x000000fd 80 True, AllowClass 0x000000fe 24 True, AllowClass 0x00000100 0 False,
     AllowClass 0x00000101 0 False, AllowClass 0x00002080 4 False, AllowClass 0x00002081 4 False,
     AllowClass 0x0000208f 0 False, AllowClass 0x000030f1 4 True, AllowClass 0x0000402c 0 False,
     AllowClass 0x0000503b 88 True, AllowClass 0x0000503c 4 False, AllowClass 0x00005080 1 False,
     AllowClass 0x000050a0 128 True, AllowClass 0x000083de 12 True, AllowClass 0x0000844c 0 False,
     AllowClass 0x0000900e 0 False, AllowClass 0x0000902d 16 False, AllowClass 0x00009067 12 True,
     AllowClass 0x0000906f 368 True, AllowClass 0x00009072 12 True, AllowClass 0x00009074 0 False,
     AllowClass 0x00009096 0 False, AllowClass 0x000090cc 0 False, AllowClass 0x000090cd 72 True,
     AllowClass 0x000090ce 128 True, AllowClass 0x000090e6 0 False, AllowClass 0x000090e7 0 False,
     AllowClass 0x000090ec 0 False, AllowClass 0x000090f1 56 True, AllowClass 0x0000a06c 20 True,
     AllowClass 0x0000a06f 368 True, AllowClass 0x0000a080 0 False, AllowClass 0x0000a081 0 False,
     AllowClass 0x0000a083 0 False, AllowClass 0x0000a084 88 True, AllowClass 0x0000a0bc 20 True,
     AllowClass 0x0000a0bd 20 True, AllowClass 0x0000a140 16 False, AllowClass 0x0000a16f 368 True,
     AllowClass 0x0000b06f 368 True, AllowClass 0x0000b0b5 8 False, AllowClass 0x0000b1cc 4 True,
     AllowClass 0x0000b2cc 8 True, AllowClass 0x0000b4b7 12 False, AllowClass 0x0000b8b0 12 False,
     AllowClass 0x0000b8d1 12 False, AllowClass 0x0000b8fa 12 False, AllowClass 0x0000c06f 368 True,
     AllowClass 0x0000c0b5 8 False, AllowClass 0x0000c361 0 False, AllowClass 0x0000c365 4 True,
     AllowClass 0x0000c36f 368 True, AllowClass 0x0000c461 0 False, AllowClass 0x0000c46f 368 True,
     AllowClass 0x0000c4b0 12 False, AllowClass 0x0000c4b7 12 False, AllowClass 0x0000c4d1 12 False,
     AllowClass 0x0000c561 0 False, AllowClass 0x0000c56f 368 True, AllowClass 0x0000c597 16 False,
     AllowClass 0x0000c5b5 8 False, AllowClass 0x0000c5c0 16 False, AllowClass 0x0000c637 16 True,
     AllowClass 0x0000c638 16 True, AllowClass 0x0000c639 8 True, AllowClass 0x0000c640 8 True,
     AllowClass 0x0000c661 2 False, AllowClass 0x0000c697 16 False, AllowClass 0x0000c6b0 12 False,
     AllowClass 0x0000c6b5 8 False, AllowClass 0x0000c6c0 16 False, AllowClass 0x0000c6fa 12 False,
     AllowClass 0x0000c761 2 False, AllowClass 0x0000c763 528 True, AllowClass 0x0000c797 16 False,
     AllowClass 0x0000c7b0 12 False, AllowClass 0x0000c7b5 8 False, AllowClass 0x0000c7b7 12 False,
     AllowClass 0x0000c7c0 16 False, AllowClass 0x0000c7fa 12 False, AllowClass 0x0000c863 528 True,
     AllowClass 0x0000c86f 368 True, AllowClass 0x0000c8b5 8 False, AllowClass 0x0000c96f 368 True,
     AllowClass 0x0000c997 16 False, AllowClass 0x0000c9b0 12 False, AllowClass 0x0000c9b5 8 False,
     AllowClass 0x0000c9b7 12 False, AllowClass 0x0000c9c0 16 False, AllowClass 0x0000c9d1 12 False,
     AllowClass 0x0000c9fa 12 False, AllowClass 0x0000ca6f 368 True, AllowClass 0x0000cab5 8 False,
     AllowClass 0x0000cb33 4 False, AllowClass 0x0000cb97 16 False, AllowClass 0x0000cba2 0 False,
     AllowClass 0x0000cbc0 16 False, AllowClass 0x0000cbca 0 False, AllowClass 0x0000cd40 16 False,
     AllowClass 0x0000cd97 16 False, AllowClass 0x0000cdb0 12 False, AllowClass 0x0000cdc0 16 False,
     AllowClass 0x0000cdd1 12 False, AllowClass 0x0000cdfa 12 False, AllowClass 0x0000ce97 16 False,
     AllowClass 0x0000ceb0 12 False, AllowClass 0x0000ceb7 12 False, AllowClass 0x0000cec0 16 False,
     AllowClass 0x0000ced0 12 False, AllowClass 0x0000cefa 12 False, AllowClass 0x0000cfb0 12 False,
     AllowClass 0x0000cfb7 12 False, AllowClass 0x0000cfd1 12 False, AllowClass 0x0000cffa 12 False,
     AllowClass 0x0000d1b0 12 False, AllowClass 0x0000d1b7 12 False, AllowClass 0x0000d1fa 12 False]"

definition rma_gss_595_71_05 :: gss_rule where
  "rma_gss_595_71_05 = GssRule 0x00008000 0x0000c000 1048576"

definition rma_catch_all_595_71_05 :: "nat list" where
  "rma_catch_all_595_71_05 = [0x2081]"

definition rma_ctrl_595_104_02_a :: "allow_ctrl list" where
  "rma_ctrl_595_104_02_a = [
     AllowCtrl 0x00000102 108, AllowCtrl 0x00000104 152, AllowCtrl 0x00000108 132, AllowCtrl 0x00000110 12,
     AllowCtrl 0x00000111 4, AllowCtrl 0x00000121 520, AllowCtrl 0x00000122 8, AllowCtrl 0x00000123 136,
     AllowCtrl 0x00000127 176, AllowCtrl 0x0000012a 28, AllowCtrl 0x0000012b 8348, AllowCtrl 0x0000012c 148,
     AllowCtrl 0x0000012d 1164, AllowCtrl 0x0000012e 148, AllowCtrl 0x0000012f 514, AllowCtrl 0x00000130 40,
     AllowCtrl 0x00000132 8, AllowCtrl 0x00000133 1288, AllowCtrl 0x00000134 65, AllowCtrl 0x00000135 1,
     AllowCtrl 0x00000136 4, AllowCtrl 0x00000137 16, AllowCtrl 0x00000138 8, AllowCtrl 0x00000139 8,
     AllowCtrl 0x0000013a 1352, AllowCtrl 0x0000013b 884, AllowCtrl 0x0000013e 1032, AllowCtrl 0x00000140 8,
     AllowCtrl 0x00000141 136, AllowCtrl 0x00000142 28, AllowCtrl 0x00000143 1164, AllowCtrl 0x00000144 514,
     AllowCtrl 0x00000145 8, AllowCtrl 0x00000146 148, AllowCtrl 0x00000147 148, AllowCtrl 0x000001f0 4,
     AllowCtrl 0x00000201 128, AllowCtrl 0x00000202 40, AllowCtrl 0x00000203 8, AllowCtrl 0x00000204 4,
     AllowCtrl 0x00000205 32, AllowCtrl 0x00000214 384, AllowCtrl 0x00000215 132, AllowCtrl 0x00000216 128,
     AllowCtrl 0x00000219 1152, AllowCtrl 0x0000021b 12, AllowCtrl 0x00000274 272, AllowCtrl 0x00000275 268,
     AllowCtrl 0x00000279 12, AllowCtrl 0x0000027b 4, AllowCtrl 0x00000281 32, AllowCtrl 0x00000283 48,
     AllowCtrl 0x00000285 24, AllowCtrl 0x00000287 2, AllowCtrl 0x00000288 3076, AllowCtrl 0x00000289 4,
     AllowCtrl 0x00000290 4, AllowCtrl 0x00000301 16, AllowCtrl 0x00000302 12, AllowCtrl 0x00000488 4,
     AllowCtrl 0x00000489 3224, AllowCtrl 0x00000501 8, AllowCtrl 0x00000502 12, AllowCtrl 0x00000601 8,
     AllowCtrl 0x00000603 16, AllowCtrl 0x00000607 2436, AllowCtrl 0x00000901 104, AllowCtrl 0x00000902 1,
     AllowCtrl 0x00000a01 1, AllowCtrl 0x00000a04 2244, AllowCtrl 0x00000b02 12, AllowCtrl 0x00000b03 48,
     AllowCtrl 0x00000b04 16012, AllowCtrl 0x00000d01 12, AllowCtrl 0x00000d02 16, AllowCtrl 0x00000d03 12,
     AllowCtrl 0x00000d04 12, AllowCtrl 0x00000d05 12, AllowCtrl 0x00000d06 16, AllowCtrl 0x00000d07 12,
     AllowCtrl 0x00000d08 16, AllowCtrl 0x00003d02 40, AllowCtrl 0x00003d05 24, AllowCtrl 0x00003d06 20,
     AllowCtrl 0x00003d08 80, AllowCtrl 0x00003d0a 76, AllowCtrl 0x00003d0b 2128, AllowCtrl 0x00003d0c 652,
     AllowCtrl 0x00020102 4, AllowCtrl 0x00020103 4, AllowCtrl 0x00040110 16, AllowCtrl 0x000f0101 0,
     AllowCtrl 0x000f0102 0, AllowCtrl 0x00410110 16, AllowCtrl 0x00410112 16, AllowCtrl 0x00410116 4,
     AllowCtrl 0x00410118 8, AllowCtrl 0x00410120 4, AllowCtrl 0x00410121 4, AllowCtrl 0x00730101 2,
     AllowCtrl 0x00730102 12, AllowCtrl 0x00730104 20, AllowCtrl 0x00730105 16, AllowCtrl 0x00730106 12,
     AllowCtrl 0x00730107 12, AllowCtrl 0x00730108 16, AllowCtrl 0x0073010a 12, AllowCtrl 0x0073010b 20,
     AllowCtrl 0x0073010c 16, AllowCtrl 0x00730116 12, AllowCtrl 0x00730120 40, AllowCtrl 0x00730159 12,
     AllowCtrl 0x00730160 12, AllowCtrl 0x00730211 16, AllowCtrl 0x00730250 72, AllowCtrl 0x007302ad 36,
     AllowCtrl 0x00731140 16, AllowCtrl 0x00731142 16, AllowCtrl 0x00731176 8, AllowCtrl 0x00731179 12,
     AllowCtrl 0x00800201 16, AllowCtrl 0x00800280 4, AllowCtrl 0x00800288 4, AllowCtrl 0x00800289 8,
     AllowCtrl 0x0080028c 12, AllowCtrl 0x0080028d 4, AllowCtrl 0x0080028e 1, AllowCtrl 0x00800290 0,
     AllowCtrl 0x00800291 80, AllowCtrl 0x00800292 804, AllowCtrl 0x00800293 8, AllowCtrl 0x00800294 4,
     AllowCtrl 0x00800297 8, AllowCtrl 0x00800298 8, AllowCtrl 0x00801102 16, AllowCtrl 0x00801104 16,
     AllowCtrl 0x00801107 32, AllowCtrl 0x00801108 32, AllowCtrl 0x00801109 48, AllowCtrl 0x00801110 496,
     AllowCtrl 0x00801301 16, AllowCtrl 0x00801306 88, AllowCtrl 0x00801307 3, AllowCtrl 0x00801308 4,
     AllowCtrl 0x00801401 16, AllowCtrl 0x00801402 3, AllowCtrl 0x00801701 16, AllowCtrl 0x00801707 12,
     AllowCtrl 0x0080170d 24, AllowCtrl 0x0080170e 12]"

definition rma_ctrl_595_104_02_b :: "allow_ctrl list" where
  "rma_ctrl_595_104_02_b = [
     AllowCtrl 0x0080170f 16, AllowCtrl 0x00801713 2, AllowCtrl 0x00801714 16396, AllowCtrl 0x00801801 184,
     AllowCtrl 0x00801805 4, AllowCtrl 0x00801806 192, AllowCtrl 0x00801809 208, AllowCtrl 0x0080180c 8,
     AllowCtrl 0x0080180d 12, AllowCtrl 0x0080180e 16, AllowCtrl 0x0080180f 64, AllowCtrl 0x00801909 1,
     AllowCtrl 0x00801b02 12, AllowCtrl 0x00801c02 12, AllowCtrl 0x00801f02 16, AllowCtrl 0x0080200a 8,
     AllowCtrl 0x00900101 8, AllowCtrl 0x00900103 8, AllowCtrl 0x00900105 1, AllowCtrl 0x00900107 8,
     AllowCtrl 0x0090010b 4, AllowCtrl 0x00da0001 8, AllowCtrl 0x00da0002 40, AllowCtrl 0x00da0003 32,
     AllowCtrl 0x00da0004 16, AllowCtrl 0x00da0005 24, AllowCtrl 0x00da0006 40, AllowCtrl 0x00de0001 8,
     AllowCtrl 0x00e00101 1048, AllowCtrl 0x00e00102 1540, AllowCtrl 0x00e00103 244,
     AllowCtrl 0x00f10001 11272, AllowCtrl 0x00f10002 2056, AllowCtrl 0x00f10003 2, AllowCtrl 0x00f80101 32,
     AllowCtrl 0x00f80102 2136, AllowCtrl 0x00f80103 2064, AllowCtrl 0x00f80104 528, AllowCtrl 0x00f80105 24,
     AllowCtrl 0x00f90101 32, AllowCtrl 0x00fb0101 2136, AllowCtrl 0x00fd0101 32, AllowCtrl 0x00fd0102 40,
     AllowCtrl 0x00fd0103 8, AllowCtrl 0x00fd0104 16, AllowCtrl 0x00fd0105 24, AllowCtrl 0x00fd0106 40,
     AllowCtrl 0x00fd0107 4, AllowCtrl 0x00fe0101 229392, AllowCtrl 0x00fe0102 4, AllowCtrl 0x01000101 0,
     AllowCtrl 0x01000102 1, AllowCtrl 0x01000103 1, AllowCtrl 0x01000104 1, AllowCtrl 0x01000105 1,
     AllowCtrl 0x01000106 1, AllowCtrl 0x01000107 1, AllowCtrl 0x01000108 1, AllowCtrl 0x01000109 1,
     AllowCtrl 0x0100010a 16, AllowCtrl 0x0100010b 1, AllowCtrl 0x0100010c 1, AllowCtrl 0x0100010d 1,
     AllowCtrl 0x20800102 564, AllowCtrl 0x20800110 68, AllowCtrl 0x20800111 64, AllowCtrl 0x20800112 12,
     AllowCtrl 0x20800118 4, AllowCtrl 0x20800119 4, AllowCtrl 0x20800122 48, AllowCtrl 0x20800123 16,
     AllowCtrl 0x20800124 16, AllowCtrl 0x20800125 12, AllowCtrl 0x2080012f 1664, AllowCtrl 0x20800131 4,
     AllowCtrl 0x20800133 8, AllowCtrl 0x20800137 4, AllowCtrl 0x20800138 8, AllowCtrl 0x20800139 8,
     AllowCtrl 0x2080013f 136, AllowCtrl 0x20800142 4, AllowCtrl 0x20800145 0, AllowCtrl 0x20800146 0,
     AllowCtrl 0x20800147 144, AllowCtrl 0x2080014a 268, AllowCtrl 0x2080014b 5, AllowCtrl 0x2080014c 1,
     AllowCtrl 0x2080014d 8, AllowCtrl 0x20800153 8, AllowCtrl 0x20800154 8, AllowCtrl 0x20800155 8,
     AllowCtrl 0x20800156 16, AllowCtrl 0x20800157 0, AllowCtrl 0x2080015a 1204, AllowCtrl 0x2080015b 2004,
     AllowCtrl 0x2080015f 24, AllowCtrl 0x20800160 16, AllowCtrl 0x20800168 56, AllowCtrl 0x20800169 504,
     AllowCtrl 0x2080016b 24, AllowCtrl 0x2080016c 8, AllowCtrl 0x2080016d 12, AllowCtrl 0x2080016e 16,
     AllowCtrl 0x2080016f 8, AllowCtrl 0x20800170 340, AllowCtrl 0x20800173 12, AllowCtrl 0x20800174 392,
     AllowCtrl 0x20800175 1864, AllowCtrl 0x2080017a 672, AllowCtrl 0x2080017b 12,
     AllowCtrl 0x2080017c 13316, AllowCtrl 0x2080017e 8, AllowCtrl 0x20800181 280, AllowCtrl 0x20800182 564,
     AllowCtrl 0x20800185 5768, AllowCtrl 0x20800188 8, AllowCtrl 0x2080018b 40, AllowCtrl 0x2080018d 3812,
     AllowCtrl 0x2080018e 14408, AllowCtrl 0x20800192 4, AllowCtrl 0x20800195 260, AllowCtrl 0x20800196 16,
     AllowCtrl 0x2080019b 2608, AllowCtrl 0x2080019f 400, AllowCtrl 0x208001a0 1672,
     AllowCtrl 0x208001a2 168, AllowCtrl 0x208001a3 56, AllowCtrl 0x208001a4 16, AllowCtrl 0x208001a6 1832,
     AllowCtrl 0x208001a9 0, AllowCtrl 0x208001aa 0, AllowCtrl 0x208001ab 1, AllowCtrl 0x208001ac 0,
     AllowCtrl 0x208001ad 0, AllowCtrl 0x208001ae 1, AllowCtrl 0x208001af 16388, AllowCtrl 0x208001b0 1284,
     AllowCtrl 0x208001b1 16, AllowCtrl 0x208001b2 4, AllowCtrl 0x208001e5 152, AllowCtrl 0x208001e6 4,
     AllowCtrl 0x208001e8 32, AllowCtrl 0x208001e9 24, AllowCtrl 0x208001ea 4, AllowCtrl 0x208001f1 4,
     AllowCtrl 0x20800301 20, AllowCtrl 0x20800302 0, AllowCtrl 0x20800303 4, AllowCtrl 0x20800304 8,
     AllowCtrl 0x20800306 8]"

definition rma_ctrl_595_104_02_c :: "allow_ctrl list" where
  "rma_ctrl_595_104_02_c = [
     AllowCtrl 0x20800308 4, AllowCtrl 0x20800309 20, AllowCtrl 0x20800401 16, AllowCtrl 0x20800402 0,
     AllowCtrl 0x20800403 8, AllowCtrl 0x20800404 4, AllowCtrl 0x20800406 264, AllowCtrl 0x20800407 1,
     AllowCtrl 0x20800513 1432, AllowCtrl 0x20800601 532, AllowCtrl 0x20800602 276, AllowCtrl 0x20800603 276,
     AllowCtrl 0x20800604 276, AllowCtrl 0x20800808 48, AllowCtrl 0x20800809 8, AllowCtrl 0x2080080b 8,
     AllowCtrl 0x2080080e 1308, AllowCtrl 0x20800810 124, AllowCtrl 0x20800a69 1, AllowCtrl 0x20800ada 9220,
     AllowCtrl 0x20801102 24, AllowCtrl 0x20801108 8, AllowCtrl 0x20801109 2056, AllowCtrl 0x2080110b 536,
     AllowCtrl 0x2080110d 8, AllowCtrl 0x2080110e 24024, AllowCtrl 0x20801118 24, AllowCtrl 0x2080111a 520,
     AllowCtrl 0x2080111c 520, AllowCtrl 0x20801120 20, AllowCtrl 0x20801121 24, AllowCtrl 0x20801122 44,
     AllowCtrl 0x20801123 1552, AllowCtrl 0x20801124 1540, AllowCtrl 0x20801201 32, AllowCtrl 0x20801205 16,
     AllowCtrl 0x20801206 40, AllowCtrl 0x20801207 24, AllowCtrl 0x20801208 24, AllowCtrl 0x20801209 40,
     AllowCtrl 0x2080120a 152, AllowCtrl 0x2080120e 24, AllowCtrl 0x2080120f 1944, AllowCtrl 0x20801210 32,
     AllowCtrl 0x20801211 112, AllowCtrl 0x20801212 24, AllowCtrl 0x20801213 12, AllowCtrl 0x20801215 32,
     AllowCtrl 0x20801218 16, AllowCtrl 0x2080121b 9240, AllowCtrl 0x2080121c 24, AllowCtrl 0x2080121e 4,
     AllowCtrl 0x20801227 48, AllowCtrl 0x20801228 496, AllowCtrl 0x2080122a 24, AllowCtrl 0x2080122b 24,
     AllowCtrl 0x2080122c 32, AllowCtrl 0x2080122d 32, AllowCtrl 0x20801230 32, AllowCtrl 0x20801231 20,
     AllowCtrl 0x20801233 24, AllowCtrl 0x20801234 8, AllowCtrl 0x20801235 24, AllowCtrl 0x20801236 152,
     AllowCtrl 0x20801237 8, AllowCtrl 0x20801238 24, AllowCtrl 0x20801239 24, AllowCtrl 0x2080123a 16,
     AllowCtrl 0x2080123c 2044, AllowCtrl 0x2080123d 2044, AllowCtrl 0x2080123e 8, AllowCtrl 0x20801303 1028,
     AllowCtrl 0x2080130c 24, AllowCtrl 0x2080130e 4024, AllowCtrl 0x20801310 16, AllowCtrl 0x20801313 12,
     AllowCtrl 0x20801315 16, AllowCtrl 0x20801320 904, AllowCtrl 0x20801322 2056, AllowCtrl 0x20801328 20,
     AllowCtrl 0x20801342 56, AllowCtrl 0x20801344 6152, AllowCtrl 0x20801346 3848, AllowCtrl 0x20801347 20,
     AllowCtrl 0x20801348 1040, AllowCtrl 0x20801352 32, AllowCtrl 0x20801353 8, AllowCtrl 0x20801354 24,
     AllowCtrl 0x20801355 4, AllowCtrl 0x20801357 4, AllowCtrl 0x20801358 4, AllowCtrl 0x20801360 200,
     AllowCtrl 0x20801361 8208, AllowCtrl 0x20801362 48, AllowCtrl 0x20801701 16, AllowCtrl 0x20801702 4,
     AllowCtrl 0x20801703 4, AllowCtrl 0x2080170d 2052, AllowCtrl 0x2080170e 516, AllowCtrl 0x2080170f 56,
     AllowCtrl 0x20801801 16, AllowCtrl 0x20801803 200, AllowCtrl 0x20801812 8, AllowCtrl 0x20801813 76,
     AllowCtrl 0x20801814 4, AllowCtrl 0x20801815 8, AllowCtrl 0x20801816 18, AllowCtrl 0x20801817 12,
     AllowCtrl 0x20801818 8, AllowCtrl 0x20801819 32, AllowCtrl 0x20801820 4, AllowCtrl 0x20801823 420,
     AllowCtrl 0x20801824 1, AllowCtrl 0x20801825 128, AllowCtrl 0x20801826 3, AllowCtrl 0x20801827 12,
     AllowCtrl 0x20801828 76, AllowCtrl 0x20801829 12, AllowCtrl 0x2080182a 112, AllowCtrl 0x2080182b 28,
     AllowCtrl 0x2080182d 168, AllowCtrl 0x20801830 4, AllowCtrl 0x20801831 88, AllowCtrl 0x20801832 8,
     AllowCtrl 0x20801836 8, AllowCtrl 0x20801837 56, AllowCtrl 0x2080183c 28, AllowCtrl 0x2080200a 8,
     AllowCtrl 0x2080200b 780, AllowCtrl 0x2080205a 4, AllowCtrl 0x2080205b 4, AllowCtrl 0x2080205d 4,
     AllowCtrl 0x20802068 4, AllowCtrl 0x20802069 8, AllowCtrl 0x2080206e 12, AllowCtrl 0x2080206f 12,
     AllowCtrl 0x20802087 12, AllowCtrl 0x20802092 4, AllowCtrl 0x20802093 1, AllowCtrl 0x20802096 55888,
     AllowCtrl 0x20802205 4, AllowCtrl 0x20802209 4, AllowCtrl 0x2080220a 0, AllowCtrl 0x2080220b 0,
     AllowCtrl 0x2080220c 0, AllowCtrl 0x20802210 0, AllowCtrl 0x20802213 8200, AllowCtrl 0x20802401 8,
     AllowCtrl 0x20802502 16, AllowCtrl 0x20802503 2052]"

definition rma_ctrl_595_104_02_d :: "allow_ctrl list" where
  "rma_ctrl_595_104_02_d = [
     AllowCtrl 0x20802609 8, AllowCtrl 0x20802a01 16, AllowCtrl 0x20802a02 8, AllowCtrl 0x20802a03 8,
     AllowCtrl 0x20802a0a 136, AllowCtrl 0x20803001 48, AllowCtrl 0x20803002 13864,
     AllowCtrl 0x20803003 7224, AllowCtrl 0x20803004 16928, AllowCtrl 0x20803009 80, AllowCtrl 0x2080300e 8,
     AllowCtrl 0x20803015 2080, AllowCtrl 0x20803018 72, AllowCtrl 0x2080303f 12, AllowCtrl 0x20803042 12,
     AllowCtrl 0x20803050 28712, AllowCtrl 0x20803074 16, AllowCtrl 0x20803082 1304, AllowCtrl 0x20803083 39,
     AllowCtrl 0x20803085 48, AllowCtrl 0x20803087 2, AllowCtrl 0x20803088 56, AllowCtrl 0x2080308f 536,
     AllowCtrl 0x20803091 264, AllowCtrl 0x2080309b 64, AllowCtrl 0x20803101 12, AllowCtrl 0x20803118 8,
     AllowCtrl 0x20803120 24, AllowCtrl 0x20803122 44, AllowCtrl 0x20803125 16, AllowCtrl 0x20803400 96,
     AllowCtrl 0x20803401 40, AllowCtrl 0x20803404 2, AllowCtrl 0x20803406 1, AllowCtrl 0x20803501 24,
     AllowCtrl 0x20803504 16, AllowCtrl 0x20803601 72, AllowCtrl 0x20803602 88, AllowCtrl 0x20803604 1040,
     AllowCtrl 0x20803801 1928, AllowCtrl 0x20803b01 268, AllowCtrl 0x20803d02 4, AllowCtrl 0x20803d07 1,
     AllowCtrl 0x20804101 8, AllowCtrl 0x20804102 8, AllowCtrl 0x208f0401 12, AllowCtrl 0x208f0403 16,
     AllowCtrl 0x208f0506 28, AllowCtrl 0x208f050e 24, AllowCtrl 0x208f0510 3, AllowCtrl 0x208f0511 16,
     AllowCtrl 0x208f0701 12, AllowCtrl 0x208f0702 8, AllowCtrl 0x208f0703 8, AllowCtrl 0x208f0704 8,
     AllowCtrl 0x208f1101 16, AllowCtrl 0x208f1102 16, AllowCtrl 0x208f1105 8, AllowCtrl 0x208f1206 12,
     AllowCtrl 0x208f1901 16, AllowCtrl 0x208f1902 16, AllowCtrl 0x208f1903 65552, AllowCtrl 0x30f10101 8,
     AllowCtrl 0x30f10102 16, AllowCtrl 0x30f10103 36, AllowCtrl 0x30f10105 52, AllowCtrl 0x30f10106 68,
     AllowCtrl 0x30f10110 24, AllowCtrl 0x30f10113 16, AllowCtrl 0x30f10114 64, AllowCtrl 0x30f10120 4,
     AllowCtrl 0x30f10121 4, AllowCtrl 0x30f10130 4, AllowCtrl 0x30f10140 4, AllowCtrl 0x30f10150 8,
     AllowCtrl 0x30f10151 8, AllowCtrl 0x30f10153 4, AllowCtrl 0x30f10160 96, AllowCtrl 0x30f10170 4,
     AllowCtrl 0x30f10173 8, AllowCtrl 0x30f10187 1, AllowCtrl 0x402c0101 16, AllowCtrl 0x402c0102 32,
     AllowCtrl 0x402c0103 64, AllowCtrl 0x402c0104 194, AllowCtrl 0x402c0105 96, AllowCtrl 0x503c0102 16,
     AllowCtrl 0x503c0103 4, AllowCtrl 0x503c0104 32, AllowCtrl 0x503c0105 4, AllowCtrl 0x503c0106 4,
     AllowCtrl 0x506f0105 8, AllowCtrl 0x50700115 8, AllowCtrl 0x50700116 16, AllowCtrl 0x50700118 24,
     AllowCtrl 0x50700119 8, AllowCtrl 0x50700203 24, AllowCtrl 0x50700204 24, AllowCtrl 0x50700205 16,
     AllowCtrl 0x5070020b 16, AllowCtrl 0x5070020c 16, AllowCtrl 0x50700709 8, AllowCtrl 0x50800101 584,
     AllowCtrl 0x50800102 4, AllowCtrl 0x50800103 584, AllowCtrl 0x83de0301 0, AllowCtrl 0x83de0302 0,
     AllowCtrl 0x83de0307 4, AllowCtrl 0x83de0308 4, AllowCtrl 0x83de0309 4, AllowCtrl 0x83de030b 56,
     AllowCtrl 0x83de030c 4824, AllowCtrl 0x83de030f 8, AllowCtrl 0x83de0310 8, AllowCtrl 0x83de0313 4,
     AllowCtrl 0x83de0314 4, AllowCtrl 0x83de0315 24, AllowCtrl 0x83de0316 24, AllowCtrl 0x83de0317 8,
     AllowCtrl 0x83de0318 0, AllowCtrl 0x83de031a 1544, AllowCtrl 0x83de031b 1544, AllowCtrl 0x83de031c 1048,
     AllowCtrl 0x83de031d 3208, AllowCtrl 0x83de031f 4, AllowCtrl 0x83de0320 4, AllowCtrl 0x83de0321 8,
     AllowCtrl 0x83de0322 8, AllowCtrl 0x83de0323 8, AllowCtrl 0x83de0324 8, AllowCtrl 0x83de0325 12,
     AllowCtrl 0x83de0326 3616, AllowCtrl 0x83de0327 3616, AllowCtrl 0x83de0328 72, AllowCtrl 0x83de0329 1,
     AllowCtrl 0x83de032a 4, AllowCtrl 0x83de032b 4, AllowCtrl 0x906f0101 16, AllowCtrl 0x906f0102 16,
     AllowCtrl 0x906f0105 1, AllowCtrl 0x906f0106 104, AllowCtrl 0x90720101 8, AllowCtrl 0x90740101 16,
     AllowCtrl 0x90740102 8, AllowCtrl 0x90740103 32, AllowCtrl 0x90960101 40, AllowCtrl 0x90960102 12,
     AllowCtrl 0x90960103 64, AllowCtrl 0x90960104 60, AllowCtrl 0x90960105 12]"

definition rma_ctrl_595_104_02_e :: "allow_ctrl list" where
  "rma_ctrl_595_104_02_e = [
     AllowCtrl 0x90960106 12, AllowCtrl 0x90960107 56, AllowCtrl 0x90cc0101 0, AllowCtrl 0x90cc0102 0,
     AllowCtrl 0x90cc0103 12, AllowCtrl 0x90cc0301 12, AllowCtrl 0x90cc0302 4, AllowCtrl 0x90cd0101 8,
     AllowCtrl 0x90cd0102 8, AllowCtrl 0x90cd0104 0, AllowCtrl 0x90cd0105 524, AllowCtrl 0x90e60101 16,
     AllowCtrl 0x90e60102 8, AllowCtrl 0x90e70102 20, AllowCtrl 0x90e70113 16, AllowCtrl 0x90e70119 8,
     AllowCtrl 0xa06c0101 3, AllowCtrl 0xa06c0102 4, AllowCtrl 0xa06c0103 8, AllowCtrl 0xa06c0104 8,
     AllowCtrl 0xa06c0105 8, AllowCtrl 0xa06c0106 4, AllowCtrl 0xa06c0109 8, AllowCtrl 0xa06f0103 3,
     AllowCtrl 0xa06f0104 4, AllowCtrl 0xa06f0108 1, AllowCtrl 0xa06f0112 1, AllowCtrl 0xa06f0113 4,
     AllowCtrl 0xa0800103 76, AllowCtrl 0xa0800104 8, AllowCtrl 0xa0800301 72, AllowCtrl 0xa0810102 19592,
     AllowCtrl 0xa0810103 5432, AllowCtrl 0xa0810104 524, AllowCtrl 0xa0810105 524, AllowCtrl 0xa0810106 8,
     AllowCtrl 0xa0810109 0, AllowCtrl 0xa0810110 20, AllowCtrl 0xa0810111 1160, AllowCtrl 0xa0810112 1,
     AllowCtrl 0xa0810113 32, AllowCtrl 0xa0810114 256, AllowCtrl 0xa0810115 1, AllowCtrl 0xa0810117 12,
     AllowCtrl 0xa0810118 8, AllowCtrl 0xa081011b 56, AllowCtrl 0xa081011c 208, AllowCtrl 0xa081011d 1,
     AllowCtrl 0xa081011e 8, AllowCtrl 0xa081011f 8, AllowCtrl 0xa0810120 152, AllowCtrl 0xa0810122 4,
     AllowCtrl 0xa0810124 80, AllowCtrl 0xa0830101 8, AllowCtrl 0xa0830102 12, AllowCtrl 0xa0830103 16,
     AllowCtrl 0xa0830104 1, AllowCtrl 0xa0830105 4, AllowCtrl 0xa0830106 8, AllowCtrl 0xa0840101 256,
     AllowCtrl 0xa0840102 4, AllowCtrl 0xa0840103 776, AllowCtrl 0xa0840104 8, AllowCtrl 0xa0840105 16,
     AllowCtrl 0xa0840106 4, AllowCtrl 0xa0840107 12, AllowCtrl 0xa084010a 184, AllowCtrl 0xa084010b 0,
     AllowCtrl 0xa084010c 4, AllowCtrl 0xa084010d 1608, AllowCtrl 0xa084010e 8, AllowCtrl 0xa0bc0101 32,
     AllowCtrl 0xa0bc0102 984, AllowCtrl 0xa0bd0101 992, AllowCtrl 0xb0690105 4, AllowCtrl 0xb06f010b 8,
     AllowCtrl 0xb06f010c 16, AllowCtrl 0xb06f010e 12, AllowCtrl 0xb06f010f 4, AllowCtrl 0xb06f0111 4104,
     AllowCtrl 0xb0cc0101 1, AllowCtrl 0xb0cc0102 0, AllowCtrl 0xb0cc0103 1, AllowCtrl 0xb0cc0104 0,
     AllowCtrl 0xb0cc0105 56, AllowCtrl 0xb0cc0106 4, AllowCtrl 0xb0cc0107 0, AllowCtrl 0xb0cc0108 0,
     AllowCtrl 0xb0cc0109 48, AllowCtrl 0xb0cc010a 3980, AllowCtrl 0xb0cc010b 0, AllowCtrl 0xb0cc010c 0,
     AllowCtrl 0xb0cc010d 4, AllowCtrl 0xb0cc010e 256, AllowCtrl 0xb0cc010f 256, AllowCtrl 0xb0cc0113 8,
     AllowCtrl 0xb0cc0114 4, AllowCtrl 0xb0cc0115 124, AllowCtrl 0xb0cc0116 194, AllowCtrl 0xb0cc0117 1,
     AllowCtrl 0xb0cc0118 1, AllowCtrl 0xb0cc0119 1, AllowCtrl 0xb0cc011a 0, AllowCtrl 0xb0cc0201 8,
     AllowCtrl 0xb0cc0202 48, AllowCtrl 0xb0cc0203 7, AllowCtrl 0xb0cc0301 12, AllowCtrl 0xb0cc0302 4,
     AllowCtrl 0xc36f0108 4, AllowCtrl 0xc36f010a 4, AllowCtrl 0xc3700101 28, AllowCtrl 0xc3700102 20,
     AllowCtrl 0xc3700103 20, AllowCtrl 0xc3700201 36, AllowCtrl 0xc3700602 16, AllowCtrl 0xc3720101 2048,
     AllowCtrl 0xc3720102 220, AllowCtrl 0xc3720103 8, AllowCtrl 0xc3720104 16, AllowCtrl 0xc56f010b 144,
     AllowCtrl 0xc56f010c 128, AllowCtrl 0xc56f010e 8, AllowCtrl 0xc6370101 460, AllowCtrl 0xc6370102 36,
     AllowCtrl 0xc6370103 452, AllowCtrl 0xc6370104 364, AllowCtrl 0xc6370105 96, AllowCtrl 0xc63701a9 280,
     AllowCtrl 0xc63701aa 57, AllowCtrl 0xc6380101 57, AllowCtrl 0xc7630103 536, AllowCtrl 0xcb330101 6,
     AllowCtrl 0xcb330104 1, AllowCtrl 0xcb330106 24, AllowCtrl 0xcb330109 9228, AllowCtrl 0xcb33010a 12336,
     AllowCtrl 0xcb33010b 12, AllowCtrl 0xcb33010c 8, AllowCtrl 0xcbca0101 16, AllowCtrl 0xcbca0102 0,
     AllowCtrl 0xcbca0103 1, AllowCtrl 0xcbca0104 1]"

definition rma_ctrl_595_104_02 :: "allow_ctrl list" where
  "rma_ctrl_595_104_02 = rma_ctrl_595_104_02_a @ rma_ctrl_595_104_02_b @ rma_ctrl_595_104_02_c @ rma_ctrl_595_104_02_d @ rma_ctrl_595_104_02_e"

definition rma_deprec_595_104_02 :: "deprec_ctrl list" where
  "rma_deprec_595_104_02 = [
     DeprecCtrl 0x00000101 40 True, DeprecCtrl 0x0073136a 64 False, DeprecCtrl 0x00801b01 16 True,
     DeprecCtrl 0x00801c01 24 True, DeprecCtrl 0x20800101 16 True, DeprecCtrl 0x20800802 16 True,
     DeprecCtrl 0x20801301 16 True, DeprecCtrl 0x20801802 16 True]"

definition rma_class_595_104_02 :: "allow_class list" where
  "rma_class_595_104_02 = [
     AllowClass 0x00000000 4 False, AllowClass 0x00000001 4 False, AllowClass 0x00000002 32 True,
     AllowClass 0x00000004 0 False, AllowClass 0x00000005 24 True, AllowClass 0x0000000f 16 True,
     AllowClass 0x00000020 4 False, AllowClass 0x0000003e 128 True, AllowClass 0x0000003f 0 False,
     AllowClass 0x00000040 128 True, AllowClass 0x00000041 4 False, AllowClass 0x00000060 4 True,
     AllowClass 0x00000070 24 True, AllowClass 0x00000071 40 True, AllowClass 0x00000073 0 False,
     AllowClass 0x00000078 24 True, AllowClass 0x00000079 24 True, AllowClass 0x0000007d 0 False,
     AllowClass 0x0000007e 24 True, AllowClass 0x00000080 56 False, AllowClass 0x000000b1 120 True,
     AllowClass 0x000000c3 4 True, AllowClass 0x000000da 16 True, AllowClass 0x000000db 8 True,
     AllowClass 0x000000de 8 True, AllowClass 0x000000e0 244 True, AllowClass 0x000000f1 32 True,
     AllowClass 0x000000f8 48 True, AllowClass 0x000000f9 64 True, AllowClass 0x000000fb 32 True,
     AllowClass 0x000000fd 80 True, AllowClass 0x000000fe 24 True, AllowClass 0x00000100 0 False,
     AllowClass 0x00000101 0 False, AllowClass 0x00002080 4 False, AllowClass 0x00002081 4 False,
     AllowClass 0x0000208f 0 False, AllowClass 0x000030f1 4 True, AllowClass 0x0000402c 0 False,
     AllowClass 0x0000503b 88 True, AllowClass 0x0000503c 4 False, AllowClass 0x00005080 1 False,
     AllowClass 0x000050a0 128 True, AllowClass 0x000083de 12 True, AllowClass 0x0000844c 0 False,
     AllowClass 0x0000900e 0 False, AllowClass 0x0000902d 16 False, AllowClass 0x00009067 12 True,
     AllowClass 0x0000906f 368 True, AllowClass 0x00009072 12 True, AllowClass 0x00009074 0 False,
     AllowClass 0x00009096 0 False, AllowClass 0x000090cc 0 False, AllowClass 0x000090cd 72 True,
     AllowClass 0x000090ce 128 True, AllowClass 0x000090e6 0 False, AllowClass 0x000090e7 0 False,
     AllowClass 0x000090ec 0 False, AllowClass 0x000090f1 56 True, AllowClass 0x0000a06c 20 True,
     AllowClass 0x0000a06f 368 True, AllowClass 0x0000a080 0 False, AllowClass 0x0000a081 0 False,
     AllowClass 0x0000a083 0 False, AllowClass 0x0000a084 88 True, AllowClass 0x0000a0bc 20 True,
     AllowClass 0x0000a0bd 20 True, AllowClass 0x0000a140 16 False, AllowClass 0x0000a16f 368 True,
     AllowClass 0x0000b06f 368 True, AllowClass 0x0000b0b5 8 False, AllowClass 0x0000b1cc 4 True,
     AllowClass 0x0000b2cc 8 True, AllowClass 0x0000b4b7 12 False, AllowClass 0x0000b8b0 12 False,
     AllowClass 0x0000b8d1 12 False, AllowClass 0x0000b8fa 12 False, AllowClass 0x0000c06f 368 True,
     AllowClass 0x0000c0b5 8 False, AllowClass 0x0000c361 0 False, AllowClass 0x0000c365 4 True,
     AllowClass 0x0000c36f 368 True, AllowClass 0x0000c461 0 False, AllowClass 0x0000c46f 368 True,
     AllowClass 0x0000c4b0 12 False, AllowClass 0x0000c4b7 12 False, AllowClass 0x0000c4d1 12 False,
     AllowClass 0x0000c561 0 False, AllowClass 0x0000c56f 368 True, AllowClass 0x0000c597 16 False,
     AllowClass 0x0000c5b5 8 False, AllowClass 0x0000c5c0 16 False, AllowClass 0x0000c637 16 True,
     AllowClass 0x0000c638 16 True, AllowClass 0x0000c639 8 True, AllowClass 0x0000c640 8 True,
     AllowClass 0x0000c661 2 False, AllowClass 0x0000c697 16 False, AllowClass 0x0000c6b0 12 False,
     AllowClass 0x0000c6b5 8 False, AllowClass 0x0000c6c0 16 False, AllowClass 0x0000c6fa 12 False,
     AllowClass 0x0000c761 2 False, AllowClass 0x0000c763 528 True, AllowClass 0x0000c797 16 False,
     AllowClass 0x0000c7b0 12 False, AllowClass 0x0000c7b5 8 False, AllowClass 0x0000c7b7 12 False,
     AllowClass 0x0000c7c0 16 False, AllowClass 0x0000c7fa 12 False, AllowClass 0x0000c863 528 True,
     AllowClass 0x0000c86f 368 True, AllowClass 0x0000c8b5 8 False, AllowClass 0x0000c96f 368 True,
     AllowClass 0x0000c997 16 False, AllowClass 0x0000c9b0 12 False, AllowClass 0x0000c9b5 8 False,
     AllowClass 0x0000c9b7 12 False, AllowClass 0x0000c9c0 16 False, AllowClass 0x0000c9d1 12 False,
     AllowClass 0x0000c9fa 12 False, AllowClass 0x0000ca6f 368 True, AllowClass 0x0000cab5 8 False,
     AllowClass 0x0000cb33 4 False, AllowClass 0x0000cb97 16 False, AllowClass 0x0000cba2 0 False,
     AllowClass 0x0000cbc0 16 False, AllowClass 0x0000cbca 0 False, AllowClass 0x0000cd40 16 False,
     AllowClass 0x0000cd97 16 False, AllowClass 0x0000cdb0 12 False, AllowClass 0x0000cdc0 16 False,
     AllowClass 0x0000cdd1 12 False, AllowClass 0x0000cdfa 12 False, AllowClass 0x0000ce97 16 False,
     AllowClass 0x0000ceb0 12 False, AllowClass 0x0000ceb7 12 False, AllowClass 0x0000cec0 16 False,
     AllowClass 0x0000ced0 12 False, AllowClass 0x0000cefa 12 False, AllowClass 0x0000cfb0 12 False,
     AllowClass 0x0000cfb7 12 False, AllowClass 0x0000cfd1 12 False, AllowClass 0x0000cffa 12 False,
     AllowClass 0x0000d1b0 12 False, AllowClass 0x0000d1b7 12 False, AllowClass 0x0000d1fa 12 False]"

definition rma_gss_595_104_02 :: gss_rule where
  "rma_gss_595_104_02 = GssRule 0x00008000 0x0000c000 1048576"

definition rma_catch_all_595_104_02 :: "nat list" where
  "rma_catch_all_595_104_02 = [0x2081]"

definition rma_ctrl_615_71_09_a :: "allow_ctrl list" where
  "rma_ctrl_615_71_09_a = [
     AllowCtrl 0x00000102 108, AllowCtrl 0x00000104 156, AllowCtrl 0x00000108 132, AllowCtrl 0x00000110 12,
     AllowCtrl 0x00000111 4, AllowCtrl 0x00000121 520, AllowCtrl 0x00000122 8, AllowCtrl 0x00000123 136,
     AllowCtrl 0x00000127 176, AllowCtrl 0x0000012a 28, AllowCtrl 0x0000012b 8348, AllowCtrl 0x0000012c 148,
     AllowCtrl 0x0000012d 1164, AllowCtrl 0x0000012e 148, AllowCtrl 0x0000012f 514, AllowCtrl 0x00000130 40,
     AllowCtrl 0x00000132 8, AllowCtrl 0x00000133 1288, AllowCtrl 0x00000134 65, AllowCtrl 0x00000135 1,
     AllowCtrl 0x00000136 4, AllowCtrl 0x00000137 16, AllowCtrl 0x00000138 8, AllowCtrl 0x00000139 8,
     AllowCtrl 0x0000013a 1352, AllowCtrl 0x0000013b 876, AllowCtrl 0x0000013e 1032, AllowCtrl 0x00000140 8,
     AllowCtrl 0x00000141 136, AllowCtrl 0x00000142 28, AllowCtrl 0x00000143 1164, AllowCtrl 0x00000144 514,
     AllowCtrl 0x00000145 8, AllowCtrl 0x00000146 148, AllowCtrl 0x00000147 148, AllowCtrl 0x000001f0 4,
     AllowCtrl 0x00000201 128, AllowCtrl 0x00000202 40, AllowCtrl 0x00000203 8, AllowCtrl 0x00000204 4,
     AllowCtrl 0x00000205 32, AllowCtrl 0x00000214 384, AllowCtrl 0x00000215 132, AllowCtrl 0x00000216 128,
     AllowCtrl 0x00000219 1152, AllowCtrl 0x0000021b 12, AllowCtrl 0x00000274 272, AllowCtrl 0x00000275 268,
     AllowCtrl 0x00000279 12, AllowCtrl 0x0000027b 4, AllowCtrl 0x00000283 48, AllowCtrl 0x00000285 24,
     AllowCtrl 0x00000287 2, AllowCtrl 0x00000288 3076, AllowCtrl 0x00000289 4, AllowCtrl 0x00000290 4,
     AllowCtrl 0x00000301 16, AllowCtrl 0x00000302 12, AllowCtrl 0x00000488 4, AllowCtrl 0x00000489 3224,
     AllowCtrl 0x00000501 8, AllowCtrl 0x00000502 12, AllowCtrl 0x00000601 8, AllowCtrl 0x00000603 16,
     AllowCtrl 0x00000607 2436, AllowCtrl 0x00000901 104, AllowCtrl 0x00000902 1, AllowCtrl 0x00000a01 1,
     AllowCtrl 0x00000a04 2244, AllowCtrl 0x00000b02 12, AllowCtrl 0x00000b03 48, AllowCtrl 0x00000b04 16012,
     AllowCtrl 0x00000b06 64, AllowCtrl 0x00000d01 12, AllowCtrl 0x00000d02 16, AllowCtrl 0x00000d03 12,
     AllowCtrl 0x00000d04 12, AllowCtrl 0x00000d05 12, AllowCtrl 0x00000d06 16, AllowCtrl 0x00000d07 12,
     AllowCtrl 0x00000d08 16, AllowCtrl 0x00003d02 40, AllowCtrl 0x00003d05 24, AllowCtrl 0x00003d06 20,
     AllowCtrl 0x00003d08 80, AllowCtrl 0x00003d0a 76, AllowCtrl 0x00003d0b 2128, AllowCtrl 0x00003d0c 652,
     AllowCtrl 0x00003d0e 1032, AllowCtrl 0x00003d0f 4, AllowCtrl 0x00020102 4, AllowCtrl 0x00020103 4,
     AllowCtrl 0x00040110 16, AllowCtrl 0x000f0101 0, AllowCtrl 0x000f0102 0, AllowCtrl 0x00410110 16,
     AllowCtrl 0x00410112 16, AllowCtrl 0x00410116 4, AllowCtrl 0x00410118 8, AllowCtrl 0x00410120 4,
     AllowCtrl 0x00410121 4, AllowCtrl 0x00730101 2, AllowCtrl 0x00730102 12, AllowCtrl 0x00730104 20,
     AllowCtrl 0x00730105 16, AllowCtrl 0x00730106 12, AllowCtrl 0x00730107 12, AllowCtrl 0x00730108 16,
     AllowCtrl 0x0073010a 12, AllowCtrl 0x0073010b 20, AllowCtrl 0x0073010c 20, AllowCtrl 0x00730116 12,
     AllowCtrl 0x00730120 40, AllowCtrl 0x00730159 12, AllowCtrl 0x00730160 12, AllowCtrl 0x00730211 16,
     AllowCtrl 0x00730250 72, AllowCtrl 0x007302ad 36, AllowCtrl 0x00731140 16, AllowCtrl 0x00731142 16,
     AllowCtrl 0x00731176 8, AllowCtrl 0x00800201 16, AllowCtrl 0x00800280 4, AllowCtrl 0x00800288 4,
     AllowCtrl 0x00800289 8, AllowCtrl 0x0080028c 12, AllowCtrl 0x0080028d 4, AllowCtrl 0x0080028e 1,
     AllowCtrl 0x00800290 0, AllowCtrl 0x00800291 80, AllowCtrl 0x00800292 804, AllowCtrl 0x00800293 8,
     AllowCtrl 0x00800294 4, AllowCtrl 0x00800297 8, AllowCtrl 0x00800298 8, AllowCtrl 0x00801102 16,
     AllowCtrl 0x00801104 16, AllowCtrl 0x00801107 32, AllowCtrl 0x00801108 32, AllowCtrl 0x00801109 48,
     AllowCtrl 0x00801110 528, AllowCtrl 0x00801301 16, AllowCtrl 0x00801306 88, AllowCtrl 0x00801307 3,
     AllowCtrl 0x00801308 4, AllowCtrl 0x00801401 16, AllowCtrl 0x00801402 3, AllowCtrl 0x00801701 16,
     AllowCtrl 0x00801707 12, AllowCtrl 0x0080170d 24]"

definition rma_ctrl_615_71_09_b :: "allow_ctrl list" where
  "rma_ctrl_615_71_09_b = [
     AllowCtrl 0x0080170e 12, AllowCtrl 0x0080170f 16, AllowCtrl 0x00801713 2, AllowCtrl 0x00801714 16396,
     AllowCtrl 0x00801801 184, AllowCtrl 0x00801805 4, AllowCtrl 0x00801806 192, AllowCtrl 0x00801809 208,
     AllowCtrl 0x0080180c 8, AllowCtrl 0x0080180d 12, AllowCtrl 0x0080180e 16, AllowCtrl 0x0080180f 64,
     AllowCtrl 0x00801909 1, AllowCtrl 0x00801b02 12, AllowCtrl 0x00801c02 12, AllowCtrl 0x00801f02 16,
     AllowCtrl 0x0080200a 1, AllowCtrl 0x00900101 8, AllowCtrl 0x00900103 8, AllowCtrl 0x00900105 1,
     AllowCtrl 0x00900107 8, AllowCtrl 0x0090010b 4, AllowCtrl 0x0090010e 4, AllowCtrl 0x00da0001 8,
     AllowCtrl 0x00da0002 40, AllowCtrl 0x00da0003 32, AllowCtrl 0x00da0004 16, AllowCtrl 0x00da0005 24,
     AllowCtrl 0x00da0006 40, AllowCtrl 0x00de0001 8, AllowCtrl 0x00e00101 1048, AllowCtrl 0x00e00102 1540,
     AllowCtrl 0x00e00103 244, AllowCtrl 0x00f10001 11272, AllowCtrl 0x00f10002 2056, AllowCtrl 0x00f10003 2,
     AllowCtrl 0x00f80101 32, AllowCtrl 0x00f80102 2136, AllowCtrl 0x00f80103 2064, AllowCtrl 0x00f80104 528,
     AllowCtrl 0x00f80105 24, AllowCtrl 0x00f90101 32, AllowCtrl 0x00fb0101 2136, AllowCtrl 0x00fd0101 32,
     AllowCtrl 0x00fd0102 40, AllowCtrl 0x00fd0103 8, AllowCtrl 0x00fd0104 16, AllowCtrl 0x00fd0105 24,
     AllowCtrl 0x00fd0106 48, AllowCtrl 0x00fd0107 4, AllowCtrl 0x00fe0101 229392, AllowCtrl 0x00fe0102 4,
     AllowCtrl 0x01000101 0, AllowCtrl 0x01000102 1, AllowCtrl 0x01000103 1, AllowCtrl 0x01000104 1,
     AllowCtrl 0x01000105 1, AllowCtrl 0x01000106 1, AllowCtrl 0x01000107 1, AllowCtrl 0x01000108 1,
     AllowCtrl 0x01000109 1, AllowCtrl 0x0100010a 16, AllowCtrl 0x0100010b 1, AllowCtrl 0x0100010c 1,
     AllowCtrl 0x0100010d 1, AllowCtrl 0x20800102 580, AllowCtrl 0x20800110 68, AllowCtrl 0x20800111 64,
     AllowCtrl 0x20800112 12, AllowCtrl 0x20800118 4, AllowCtrl 0x20800119 4, AllowCtrl 0x20800122 48,
     AllowCtrl 0x20800123 16, AllowCtrl 0x20800124 16, AllowCtrl 0x20800125 12, AllowCtrl 0x2080012f 1664,
     AllowCtrl 0x20800131 4, AllowCtrl 0x20800133 8, AllowCtrl 0x20800137 4, AllowCtrl 0x20800138 8,
     AllowCtrl 0x20800139 8, AllowCtrl 0x2080013f 136, AllowCtrl 0x20800142 4, AllowCtrl 0x20800145 0,
     AllowCtrl 0x20800146 0, AllowCtrl 0x20800147 144, AllowCtrl 0x2080014a 268, AllowCtrl 0x2080014b 5,
     AllowCtrl 0x2080014c 1, AllowCtrl 0x2080014d 8, AllowCtrl 0x20800153 8, AllowCtrl 0x20800154 8,
     AllowCtrl 0x20800155 8, AllowCtrl 0x20800156 16, AllowCtrl 0x20800157 0, AllowCtrl 0x2080015a 1204,
     AllowCtrl 0x2080015b 2004, AllowCtrl 0x2080015f 24, AllowCtrl 0x20800160 16, AllowCtrl 0x20800168 76,
     AllowCtrl 0x20800169 504, AllowCtrl 0x2080016b 24, AllowCtrl 0x2080016c 8, AllowCtrl 0x2080016d 12,
     AllowCtrl 0x2080016e 16, AllowCtrl 0x2080016f 8, AllowCtrl 0x20800170 340, AllowCtrl 0x20800173 12,
     AllowCtrl 0x20800174 392, AllowCtrl 0x20800175 1864, AllowCtrl 0x2080017a 672, AllowCtrl 0x2080017b 12,
     AllowCtrl 0x2080017c 13316, AllowCtrl 0x2080017e 8, AllowCtrl 0x20800181 280, AllowCtrl 0x20800182 580,
     AllowCtrl 0x20800185 5768, AllowCtrl 0x20800188 8, AllowCtrl 0x2080018b 40, AllowCtrl 0x2080018d 3812,
     AllowCtrl 0x2080018e 14408, AllowCtrl 0x20800192 4, AllowCtrl 0x20800195 260, AllowCtrl 0x20800196 16,
     AllowCtrl 0x2080019b 2624, AllowCtrl 0x2080019f 688, AllowCtrl 0x208001a0 1672,
     AllowCtrl 0x208001a2 168, AllowCtrl 0x208001a3 320, AllowCtrl 0x208001a4 16, AllowCtrl 0x208001a6 1832,
     AllowCtrl 0x208001a9 0, AllowCtrl 0x208001aa 0, AllowCtrl 0x208001ab 1, AllowCtrl 0x208001ac 0,
     AllowCtrl 0x208001ad 0, AllowCtrl 0x208001ae 1, AllowCtrl 0x208001af 16388, AllowCtrl 0x208001b0 1284,
     AllowCtrl 0x208001b1 16, AllowCtrl 0x208001b2 4, AllowCtrl 0x208001e5 152, AllowCtrl 0x208001e6 4,
     AllowCtrl 0x208001e8 32, AllowCtrl 0x208001e9 24, AllowCtrl 0x208001ea 4, AllowCtrl 0x208001f1 4,
     AllowCtrl 0x208001fa 1, AllowCtrl 0x20800301 20, AllowCtrl 0x20800302 0]"

definition rma_ctrl_615_71_09_c :: "allow_ctrl list" where
  "rma_ctrl_615_71_09_c = [
     AllowCtrl 0x20800303 4, AllowCtrl 0x20800304 8, AllowCtrl 0x20800306 8, AllowCtrl 0x20800308 4,
     AllowCtrl 0x20800309 20, AllowCtrl 0x2080030b 4, AllowCtrl 0x20800401 16, AllowCtrl 0x20800402 0,
     AllowCtrl 0x20800403 8, AllowCtrl 0x20800404 4, AllowCtrl 0x20800406 264, AllowCtrl 0x20800407 1,
     AllowCtrl 0x20800513 1432, AllowCtrl 0x20800601 532, AllowCtrl 0x20800602 276, AllowCtrl 0x20800603 276,
     AllowCtrl 0x20800604 276, AllowCtrl 0x20800808 48, AllowCtrl 0x20800809 8, AllowCtrl 0x2080080b 8,
     AllowCtrl 0x2080080e 1308, AllowCtrl 0x20800810 124, AllowCtrl 0x20800a69 1, AllowCtrl 0x20800ada 9220,
     AllowCtrl 0x20801037 6024, AllowCtrl 0x20801102 24, AllowCtrl 0x20801108 8, AllowCtrl 0x20801109 2056,
     AllowCtrl 0x2080110b 536, AllowCtrl 0x2080110d 8, AllowCtrl 0x2080110e 24024, AllowCtrl 0x20801118 24,
     AllowCtrl 0x2080111a 520, AllowCtrl 0x2080111c 520, AllowCtrl 0x20801120 20, AllowCtrl 0x20801121 24,
     AllowCtrl 0x20801122 44, AllowCtrl 0x20801123 1552, AllowCtrl 0x20801124 1540, AllowCtrl 0x20801201 32,
     AllowCtrl 0x20801205 16, AllowCtrl 0x20801206 40, AllowCtrl 0x20801207 24, AllowCtrl 0x20801208 24,
     AllowCtrl 0x20801209 40, AllowCtrl 0x2080120a 152, AllowCtrl 0x2080120e 24, AllowCtrl 0x2080120f 4120,
     AllowCtrl 0x20801210 32, AllowCtrl 0x20801211 112, AllowCtrl 0x20801212 24, AllowCtrl 0x20801213 12,
     AllowCtrl 0x20801215 32, AllowCtrl 0x20801218 16, AllowCtrl 0x2080121b 10264, AllowCtrl 0x2080121c 24,
     AllowCtrl 0x2080121e 4, AllowCtrl 0x20801227 48, AllowCtrl 0x20801228 528, AllowCtrl 0x2080122a 24,
     AllowCtrl 0x2080122b 24, AllowCtrl 0x2080122c 32, AllowCtrl 0x2080122d 32, AllowCtrl 0x20801230 32,
     AllowCtrl 0x20801231 20, AllowCtrl 0x20801233 24, AllowCtrl 0x20801234 8, AllowCtrl 0x20801235 24,
     AllowCtrl 0x20801236 152, AllowCtrl 0x20801237 8, AllowCtrl 0x20801238 24, AllowCtrl 0x20801239 24,
     AllowCtrl 0x2080123a 16, AllowCtrl 0x2080123c 2044, AllowCtrl 0x2080123d 2044, AllowCtrl 0x2080123e 8,
     AllowCtrl 0x20801303 1028, AllowCtrl 0x2080130c 24, AllowCtrl 0x2080130e 4024, AllowCtrl 0x20801310 16,
     AllowCtrl 0x20801313 12, AllowCtrl 0x20801315 16, AllowCtrl 0x20801320 904, AllowCtrl 0x20801322 2056,
     AllowCtrl 0x20801328 20, AllowCtrl 0x2080132f 9728, AllowCtrl 0x20801342 56, AllowCtrl 0x20801344 6152,
     AllowCtrl 0x20801346 3848, AllowCtrl 0x20801347 20, AllowCtrl 0x20801348 1040, AllowCtrl 0x20801352 32,
     AllowCtrl 0x20801353 8, AllowCtrl 0x20801354 24, AllowCtrl 0x20801355 4, AllowCtrl 0x20801357 4,
     AllowCtrl 0x20801358 4, AllowCtrl 0x20801360 200, AllowCtrl 0x20801361 8208, AllowCtrl 0x20801362 48,
     AllowCtrl 0x20801701 16, AllowCtrl 0x20801702 4, AllowCtrl 0x20801703 4, AllowCtrl 0x2080170d 2052,
     AllowCtrl 0x2080170e 516, AllowCtrl 0x2080170f 56, AllowCtrl 0x20801801 16, AllowCtrl 0x20801803 200,
     AllowCtrl 0x20801812 8, AllowCtrl 0x20801813 76, AllowCtrl 0x20801814 4, AllowCtrl 0x20801815 8,
     AllowCtrl 0x20801816 18, AllowCtrl 0x20801817 12, AllowCtrl 0x20801818 8, AllowCtrl 0x20801819 32,
     AllowCtrl 0x20801820 4, AllowCtrl 0x20801823 420, AllowCtrl 0x20801824 1, AllowCtrl 0x20801825 128,
     AllowCtrl 0x20801826 3, AllowCtrl 0x20801827 12, AllowCtrl 0x20801828 76, AllowCtrl 0x20801829 12,
     AllowCtrl 0x2080182a 112, AllowCtrl 0x2080182b 28, AllowCtrl 0x2080182d 168, AllowCtrl 0x20801830 4,
     AllowCtrl 0x20801831 88, AllowCtrl 0x20801832 8, AllowCtrl 0x20801836 8, AllowCtrl 0x20801837 56,
     AllowCtrl 0x2080183c 28, AllowCtrl 0x2080200a 8, AllowCtrl 0x2080200b 780, AllowCtrl 0x2080205a 4,
     AllowCtrl 0x2080205b 4, AllowCtrl 0x2080205d 4, AllowCtrl 0x20802068 4, AllowCtrl 0x20802069 8,
     AllowCtrl 0x2080206e 12, AllowCtrl 0x2080206f 12, AllowCtrl 0x20802087 12, AllowCtrl 0x20802092 4,
     AllowCtrl 0x20802093 1, AllowCtrl 0x20802096 55888, AllowCtrl 0x20802205 4, AllowCtrl 0x20802209 4,
     AllowCtrl 0x2080220a 0, AllowCtrl 0x2080220b 0]"

definition rma_ctrl_615_71_09_d :: "allow_ctrl list" where
  "rma_ctrl_615_71_09_d = [
     AllowCtrl 0x2080220c 0, AllowCtrl 0x20802210 0, AllowCtrl 0x20802213 8200, AllowCtrl 0x20802401 8,
     AllowCtrl 0x20802502 16, AllowCtrl 0x20802503 2052, AllowCtrl 0x20802609 8, AllowCtrl 0x20802a01 16,
     AllowCtrl 0x20802a02 8, AllowCtrl 0x20802a03 8, AllowCtrl 0x20802a0a 136, AllowCtrl 0x20802a0c 12,
     AllowCtrl 0x20803001 48, AllowCtrl 0x20803002 13864, AllowCtrl 0x20803003 7224,
     AllowCtrl 0x20803004 16928, AllowCtrl 0x20803009 80, AllowCtrl 0x2080300e 8, AllowCtrl 0x20803015 2080,
     AllowCtrl 0x20803018 72, AllowCtrl 0x2080303f 12, AllowCtrl 0x20803042 12, AllowCtrl 0x20803050 28720,
     AllowCtrl 0x20803074 24, AllowCtrl 0x20803082 1304, AllowCtrl 0x20803083 39, AllowCtrl 0x20803085 48,
     AllowCtrl 0x20803087 2, AllowCtrl 0x20803088 56, AllowCtrl 0x2080308f 536, AllowCtrl 0x20803091 264,
     AllowCtrl 0x2080309b 64, AllowCtrl 0x208030a4 4, AllowCtrl 0x20803101 12, AllowCtrl 0x20803118 8,
     AllowCtrl 0x20803120 24, AllowCtrl 0x20803122 44, AllowCtrl 0x20803125 16, AllowCtrl 0x20803400 96,
     AllowCtrl 0x20803401 40, AllowCtrl 0x20803404 2, AllowCtrl 0x20803406 1, AllowCtrl 0x20803501 24,
     AllowCtrl 0x20803504 32, AllowCtrl 0x20803601 72, AllowCtrl 0x20803602 88, AllowCtrl 0x20803604 1040,
     AllowCtrl 0x20803801 1928, AllowCtrl 0x20803b01 268, AllowCtrl 0x20803d02 4, AllowCtrl 0x20803d07 1,
     AllowCtrl 0x20804101 8, AllowCtrl 0x20804102 8, AllowCtrl 0x208081f3 1, AllowCtrl 0x208081f4 2052,
     AllowCtrl 0x208081f5 16, AllowCtrl 0x208f0401 12, AllowCtrl 0x208f0403 16, AllowCtrl 0x208f0506 28,
     AllowCtrl 0x208f050e 24, AllowCtrl 0x208f0510 3, AllowCtrl 0x208f0511 16, AllowCtrl 0x208f0701 12,
     AllowCtrl 0x208f0702 8, AllowCtrl 0x208f0703 8, AllowCtrl 0x208f0704 8, AllowCtrl 0x208f1101 16,
     AllowCtrl 0x208f1102 16, AllowCtrl 0x208f1105 8, AllowCtrl 0x208f1206 12, AllowCtrl 0x208f1901 16,
     AllowCtrl 0x208f1902 16, AllowCtrl 0x208f1903 65560, AllowCtrl 0x30f10101 8, AllowCtrl 0x30f10102 16,
     AllowCtrl 0x30f10103 36, AllowCtrl 0x30f10105 52, AllowCtrl 0x30f10106 68, AllowCtrl 0x30f10110 24,
     AllowCtrl 0x30f10113 16, AllowCtrl 0x30f10114 64, AllowCtrl 0x30f10120 4, AllowCtrl 0x30f10121 4,
     AllowCtrl 0x30f10130 4, AllowCtrl 0x30f10140 4, AllowCtrl 0x30f10150 8, AllowCtrl 0x30f10151 8,
     AllowCtrl 0x30f10153 4, AllowCtrl 0x30f10160 96, AllowCtrl 0x30f10170 4, AllowCtrl 0x30f10173 8,
     AllowCtrl 0x30f10187 1, AllowCtrl 0x402c0101 16, AllowCtrl 0x402c0102 32, AllowCtrl 0x402c0103 64,
     AllowCtrl 0x402c0104 194, AllowCtrl 0x402c0105 96, AllowCtrl 0x503c0102 16, AllowCtrl 0x503c0103 4,
     AllowCtrl 0x503c0104 32, AllowCtrl 0x503c0105 4, AllowCtrl 0x503c0106 4, AllowCtrl 0x506f0105 8,
     AllowCtrl 0x50700115 8, AllowCtrl 0x50700116 16, AllowCtrl 0x50700118 24, AllowCtrl 0x50700119 8,
     AllowCtrl 0x50700203 24, AllowCtrl 0x50700204 24, AllowCtrl 0x50700205 16, AllowCtrl 0x5070020b 16,
     AllowCtrl 0x5070020c 16, AllowCtrl 0x50700709 8, AllowCtrl 0x50800101 584, AllowCtrl 0x50800102 4,
     AllowCtrl 0x50800103 584, AllowCtrl 0x83de022d 1, AllowCtrl 0x83de022e 4, AllowCtrl 0x83de0301 0,
     AllowCtrl 0x83de0302 0, AllowCtrl 0x83de0307 4, AllowCtrl 0x83de0308 4, AllowCtrl 0x83de0309 4,
     AllowCtrl 0x83de030b 56, AllowCtrl 0x83de030c 4824, AllowCtrl 0x83de030f 8, AllowCtrl 0x83de0310 8,
     AllowCtrl 0x83de0313 4, AllowCtrl 0x83de0314 4, AllowCtrl 0x83de0315 24, AllowCtrl 0x83de0316 24,
     AllowCtrl 0x83de0317 8, AllowCtrl 0x83de0318 0, AllowCtrl 0x83de031a 1544, AllowCtrl 0x83de031b 1544,
     AllowCtrl 0x83de031c 1048, AllowCtrl 0x83de031d 3208, AllowCtrl 0x83de031f 4, AllowCtrl 0x83de0320 4,
     AllowCtrl 0x83de0321 8, AllowCtrl 0x83de0322 8, AllowCtrl 0x83de0323 8, AllowCtrl 0x83de0324 8,
     AllowCtrl 0x83de0325 12, AllowCtrl 0x83de0326 3616, AllowCtrl 0x83de0327 3616, AllowCtrl 0x83de0328 72,
     AllowCtrl 0x83de0329 1, AllowCtrl 0x83de032a 4, AllowCtrl 0x83de032b 4]"

definition rma_ctrl_615_71_09_e :: "allow_ctrl list" where
  "rma_ctrl_615_71_09_e = [
     AllowCtrl 0x906f0101 16, AllowCtrl 0x906f0102 16, AllowCtrl 0x906f0105 1, AllowCtrl 0x906f0106 104,
     AllowCtrl 0x90720101 8, AllowCtrl 0x90740101 16, AllowCtrl 0x90740102 8, AllowCtrl 0x90740103 32,
     AllowCtrl 0x90960101 40, AllowCtrl 0x90960102 12, AllowCtrl 0x90960103 64, AllowCtrl 0x90960104 60,
     AllowCtrl 0x90960105 12, AllowCtrl 0x90960106 12, AllowCtrl 0x90960107 56, AllowCtrl 0x90cc0101 0,
     AllowCtrl 0x90cc0102 0, AllowCtrl 0x90cc0103 12, AllowCtrl 0x90cc0301 12, AllowCtrl 0x90cc0302 4,
     AllowCtrl 0x90cd0101 8, AllowCtrl 0x90cd0102 8, AllowCtrl 0x90cd0104 0, AllowCtrl 0x90cd0105 524,
     AllowCtrl 0x90e60101 16, AllowCtrl 0x90e60102 8, AllowCtrl 0x90e70102 20, AllowCtrl 0x90e70113 16,
     AllowCtrl 0x90e70119 8, AllowCtrl 0xa06c0101 3, AllowCtrl 0xa06c0102 4, AllowCtrl 0xa06c0103 8,
     AllowCtrl 0xa06c0104 8, AllowCtrl 0xa06c0105 8, AllowCtrl 0xa06c0106 4, AllowCtrl 0xa06c0109 8,
     AllowCtrl 0xa06f0103 3, AllowCtrl 0xa06f0104 4, AllowCtrl 0xa06f0108 1, AllowCtrl 0xa06f0112 1,
     AllowCtrl 0xa06f0113 4, AllowCtrl 0xa0800103 76, AllowCtrl 0xa0800104 8, AllowCtrl 0xa0800301 72,
     AllowCtrl 0xa0810102 19592, AllowCtrl 0xa0810103 5440, AllowCtrl 0xa0810104 524,
     AllowCtrl 0xa0810105 524, AllowCtrl 0xa0810106 8, AllowCtrl 0xa0810109 0, AllowCtrl 0xa0810110 20,
     AllowCtrl 0xa0810111 1160, AllowCtrl 0xa0810112 1, AllowCtrl 0xa0810113 32, AllowCtrl 0xa0810114 256,
     AllowCtrl 0xa0810115 1, AllowCtrl 0xa0810117 12, AllowCtrl 0xa0810118 8, AllowCtrl 0xa081011b 56,
     AllowCtrl 0xa081011c 208, AllowCtrl 0xa081011d 1, AllowCtrl 0xa081011e 8, AllowCtrl 0xa081011f 8,
     AllowCtrl 0xa0810120 152, AllowCtrl 0xa0810122 4, AllowCtrl 0xa0810124 80, AllowCtrl 0xa0830101 8,
     AllowCtrl 0xa0830102 12, AllowCtrl 0xa0830103 16, AllowCtrl 0xa0830104 1, AllowCtrl 0xa0830105 4,
     AllowCtrl 0xa0830106 8, AllowCtrl 0xa0840101 256, AllowCtrl 0xa0840102 4, AllowCtrl 0xa0840103 776,
     AllowCtrl 0xa0840104 8, AllowCtrl 0xa0840105 16, AllowCtrl 0xa0840106 4, AllowCtrl 0xa0840107 12,
     AllowCtrl 0xa084010a 184, AllowCtrl 0xa084010b 0, AllowCtrl 0xa084010c 4, AllowCtrl 0xa084010d 1608,
     AllowCtrl 0xa084010e 8, AllowCtrl 0xa0bc0101 32, AllowCtrl 0xa0bc0102 984, AllowCtrl 0xa0bd0101 992,
     AllowCtrl 0xb0690105 4, AllowCtrl 0xb06f010b 8, AllowCtrl 0xb06f010c 16, AllowCtrl 0xb06f010e 12,
     AllowCtrl 0xb06f010f 4, AllowCtrl 0xb06f0111 4104, AllowCtrl 0xb0cc0101 1, AllowCtrl 0xb0cc0102 0,
     AllowCtrl 0xb0cc0103 1, AllowCtrl 0xb0cc0104 0, AllowCtrl 0xb0cc0105 56, AllowCtrl 0xb0cc0106 4,
     AllowCtrl 0xb0cc0107 0, AllowCtrl 0xb0cc0108 0, AllowCtrl 0xb0cc0109 48, AllowCtrl 0xb0cc010a 3980,
     AllowCtrl 0xb0cc010b 0, AllowCtrl 0xb0cc010c 0, AllowCtrl 0xb0cc010d 4, AllowCtrl 0xb0cc010e 256,
     AllowCtrl 0xb0cc010f 256, AllowCtrl 0xb0cc0113 8, AllowCtrl 0xb0cc0114 4, AllowCtrl 0xb0cc0115 124,
     AllowCtrl 0xb0cc0116 194, AllowCtrl 0xb0cc0117 1, AllowCtrl 0xb0cc0118 1, AllowCtrl 0xb0cc0119 1,
     AllowCtrl 0xb0cc011a 0, AllowCtrl 0xb0cc0201 8, AllowCtrl 0xb0cc0202 48, AllowCtrl 0xb0cc0203 6,
     AllowCtrl 0xb0cc0301 12, AllowCtrl 0xb0cc0302 4, AllowCtrl 0xc36f0108 4, AllowCtrl 0xc36f010a 4,
     AllowCtrl 0xc3700101 28, AllowCtrl 0xc3700102 20, AllowCtrl 0xc3700103 20, AllowCtrl 0xc3700201 36,
     AllowCtrl 0xc3700602 16, AllowCtrl 0xc3700901 16, AllowCtrl 0xc3720101 2048, AllowCtrl 0xc3720102 220,
     AllowCtrl 0xc3720104 16, AllowCtrl 0xc56f010b 144, AllowCtrl 0xc56f010c 128, AllowCtrl 0xc56f010e 8,
     AllowCtrl 0xc6370101 492, AllowCtrl 0xc6370102 36, AllowCtrl 0xc6370103 484, AllowCtrl 0xc6370104 364,
     AllowCtrl 0xc6370105 104, AllowCtrl 0xc63701a9 280, AllowCtrl 0xc63701aa 57, AllowCtrl 0xc6380101 57,
     AllowCtrl 0xc7630103 536, AllowCtrl 0xcb330101 6, AllowCtrl 0xcb330104 1, AllowCtrl 0xcb330106 24,
     AllowCtrl 0xcb330109 9228, AllowCtrl 0xcb33010a 12336, AllowCtrl 0xcb33010b 12]"

definition rma_ctrl_615_71_09_f :: "allow_ctrl list" where
  "rma_ctrl_615_71_09_f = [
     AllowCtrl 0xcb33010c 8, AllowCtrl 0xcbca0101 16, AllowCtrl 0xcbca0102 0, AllowCtrl 0xcbca0103 1,
     AllowCtrl 0xcbca0104 1, AllowCtrl 0xd0cd0101 32]"

definition rma_ctrl_615_71_09 :: "allow_ctrl list" where
  "rma_ctrl_615_71_09 = rma_ctrl_615_71_09_a @ rma_ctrl_615_71_09_b @ rma_ctrl_615_71_09_c @ rma_ctrl_615_71_09_d @ rma_ctrl_615_71_09_e @ rma_ctrl_615_71_09_f"

definition rma_deprec_615_71_09 :: "deprec_ctrl list" where
  "rma_deprec_615_71_09 = [
     DeprecCtrl 0x00000101 40 True, DeprecCtrl 0x0073136a 64 False, DeprecCtrl 0x00801b01 16 True,
     DeprecCtrl 0x00801c01 24 True, DeprecCtrl 0x20800101 16 True, DeprecCtrl 0x20800802 16 True,
     DeprecCtrl 0x20801301 16 True, DeprecCtrl 0x20801802 16 True]"

definition rma_class_615_71_09_a :: "allow_class list" where
  "rma_class_615_71_09_a = [
     AllowClass 0x00000000 4 False, AllowClass 0x00000001 4 False, AllowClass 0x00000002 32 True,
     AllowClass 0x00000004 0 False, AllowClass 0x00000005 24 True, AllowClass 0x0000000f 16 True,
     AllowClass 0x00000020 4 False, AllowClass 0x0000003e 128 True, AllowClass 0x0000003f 0 False,
     AllowClass 0x00000040 128 True, AllowClass 0x00000041 4 False, AllowClass 0x00000060 4 True,
     AllowClass 0x00000070 24 True, AllowClass 0x00000071 40 True, AllowClass 0x00000073 0 False,
     AllowClass 0x00000078 24 True, AllowClass 0x00000079 24 True, AllowClass 0x0000007d 0 False,
     AllowClass 0x0000007e 24 True, AllowClass 0x00000080 56 False, AllowClass 0x000000b1 120 True,
     AllowClass 0x000000c3 4 True, AllowClass 0x000000da 16 True, AllowClass 0x000000db 8 True,
     AllowClass 0x000000de 8 True, AllowClass 0x000000e0 244 True, AllowClass 0x000000f1 32 True,
     AllowClass 0x000000f8 48 True, AllowClass 0x000000f9 64 True, AllowClass 0x000000fb 32 True,
     AllowClass 0x000000fd 80 True, AllowClass 0x000000fe 24 True, AllowClass 0x00000100 0 False,
     AllowClass 0x00000101 0 False, AllowClass 0x00002080 4 False, AllowClass 0x00002081 4 False,
     AllowClass 0x0000208f 0 False, AllowClass 0x000030f1 4 True, AllowClass 0x0000402c 0 False,
     AllowClass 0x0000503b 88 True, AllowClass 0x0000503c 4 False, AllowClass 0x00005080 1 False,
     AllowClass 0x000050a0 128 True, AllowClass 0x000083de 12 True, AllowClass 0x0000844c 0 False,
     AllowClass 0x0000900e 0 False, AllowClass 0x0000902d 16 False, AllowClass 0x00009067 12 True,
     AllowClass 0x0000906f 376 True, AllowClass 0x00009072 12 True, AllowClass 0x00009074 0 False,
     AllowClass 0x00009096 0 False, AllowClass 0x000090cc 0 False, AllowClass 0x000090cd 72 True,
     AllowClass 0x000090ce 128 True, AllowClass 0x000090e6 0 False, AllowClass 0x000090e7 0 False,
     AllowClass 0x000090ec 0 False, AllowClass 0x000090f1 56 True, AllowClass 0x0000a06c 28 True,
     AllowClass 0x0000a06f 376 True, AllowClass 0x0000a080 0 False, AllowClass 0x0000a081 0 False,
     AllowClass 0x0000a083 0 False, AllowClass 0x0000a084 88 True, AllowClass 0x0000a0bc 20 True,
     AllowClass 0x0000a0bd 20 True, AllowClass 0x0000a140 16 False, AllowClass 0x0000a16f 376 True,
     AllowClass 0x0000b06f 376 True, AllowClass 0x0000b0b5 8 False, AllowClass 0x0000b0cd 8 True,
     AllowClass 0x0000b0ce 16 True, AllowClass 0x0000b1cc 4 True, AllowClass 0x0000b2cc 8 True,
     AllowClass 0x0000b4b7 12 False, AllowClass 0x0000b8b0 12 False, AllowClass 0x0000b8d1 12 False,
     AllowClass 0x0000b8fa 12 False, AllowClass 0x0000c06f 376 True, AllowClass 0x0000c0b5 8 False,
     AllowClass 0x0000c361 0 False, AllowClass 0x0000c365 4 True, AllowClass 0x0000c36f 376 True,
     AllowClass 0x0000c461 0 False, AllowClass 0x0000c46f 376 True, AllowClass 0x0000c4b0 12 False,
     AllowClass 0x0000c4b7 12 False, AllowClass 0x0000c4d1 12 False, AllowClass 0x0000c561 0 False,
     AllowClass 0x0000c56f 376 True, AllowClass 0x0000c597 16 False, AllowClass 0x0000c5b5 8 False,
     AllowClass 0x0000c5c0 16 False, AllowClass 0x0000c637 16 True, AllowClass 0x0000c638 16 True,
     AllowClass 0x0000c639 8 True, AllowClass 0x0000c640 8 True, AllowClass 0x0000c661 2 False,
     AllowClass 0x0000c697 16 False, AllowClass 0x0000c6b0 12 False, AllowClass 0x0000c6b5 8 False,
     AllowClass 0x0000c6c0 16 False, AllowClass 0x0000c6fa 12 False, AllowClass 0x0000c761 2 False,
     AllowClass 0x0000c763 528 True, AllowClass 0x0000c797 16 False, AllowClass 0x0000c7b0 12 False,
     AllowClass 0x0000c7b5 8 False, AllowClass 0x0000c7b7 12 False, AllowClass 0x0000c7c0 16 False,
     AllowClass 0x0000c7fa 12 False, AllowClass 0x0000c863 528 True, AllowClass 0x0000c86f 376 True,
     AllowClass 0x0000c8b5 8 False, AllowClass 0x0000c96f 376 True, AllowClass 0x0000c997 16 False,
     AllowClass 0x0000c9b0 12 False, AllowClass 0x0000c9b5 8 False, AllowClass 0x0000c9b7 12 False,
     AllowClass 0x0000c9c0 16 False, AllowClass 0x0000c9d1 12 False, AllowClass 0x0000c9fa 12 False,
     AllowClass 0x0000ca6f 376 True, AllowClass 0x0000cab5 8 False, AllowClass 0x0000cb33 4 False,
     AllowClass 0x0000cb97 16 False, AllowClass 0x0000cba2 0 False, AllowClass 0x0000cbc0 16 False,
     AllowClass 0x0000cbca 0 False, AllowClass 0x0000cd40 16 False, AllowClass 0x0000cd97 16 False,
     AllowClass 0x0000cdb0 12 False, AllowClass 0x0000cdc0 16 False, AllowClass 0x0000cdcd 8 True,
     AllowClass 0x0000cdd1 12 False, AllowClass 0x0000cdfa 12 False, AllowClass 0x0000ce97 16 False,
     AllowClass 0x0000ceb0 12 False, AllowClass 0x0000ceb7 12 False, AllowClass 0x0000cec0 16 False,
     AllowClass 0x0000ced0 12 False, AllowClass 0x0000cefa 12 False, AllowClass 0x0000cfb0 12 False,
     AllowClass 0x0000cfb7 12 False, AllowClass 0x0000cfd1 12 False, AllowClass 0x0000cffa 12 False,
     AllowClass 0x0000d0cd 8 True, AllowClass 0x0000d1b0 12 False, AllowClass 0x0000d1b7 12 False]"

definition rma_class_615_71_09_b :: "allow_class list" where
  "rma_class_615_71_09_b = [
     AllowClass 0x0000d1fa 12 False, AllowClass 0x0000d2b0 12 False, AllowClass 0x0000d2d1 12 False,
     AllowClass 0x0000d2fa 12 False]"

definition rma_class_615_71_09 :: "allow_class list" where
  "rma_class_615_71_09 = rma_class_615_71_09_a @ rma_class_615_71_09_b"

definition rma_gss_615_71_09 :: gss_rule where
  "rma_gss_615_71_09 = GssRule 0x00008000 0x0000c000 2097152"

definition rma_catch_all_615_71_09 :: "nat list" where
  "rma_catch_all_615_71_09 = [0x2081]"

section \<open>The tables are searchable\<close>

fun asc :: "nat \<Rightarrow> nat list \<Rightarrow> bool" where
  "asc lo [] = True"
| "asc lo (x # xs) = (lo < x \<and> asc x xs)"

fun asc_list :: "nat list \<Rightarrow> bool" where
  "asc_list [] = True"
| "asc_list (x # xs) = asc x xs"

lemma asc_above: "asc lo xs \<Longrightarrow> sorted_wrt (<) xs \<and> (\<forall>x \<in> set xs. lo < x)"
  by (induction lo xs rule: asc.induct) fastforce+

lemma asc_sorted: "asc_list xs \<Longrightarrow> sorted_wrt (<) xs"
  by (cases xs) (auto dest: asc_above)

lemma asc_append: "asc lo (xs @ ys) \<longleftrightarrow> asc lo xs \<and> asc (last (lo # xs)) ys"
  by (induction lo xs rule: asc.induct) auto

interpretation ra_ctrl0: sorted_table ac_cmd rma_ctrl_535_129_03
  by unfold_locales (rule asc_sorted, simp add: asc_append rma_ctrl_535_129_03_def rma_ctrl_535_129_03_a_def rma_ctrl_535_129_03_b_def rma_ctrl_535_129_03_c_def rma_ctrl_535_129_03_d_def rma_ctrl_535_129_03_e_def)

interpretation ra_deprec0: sorted_table dc_cmd rma_deprec_535_129_03
  by unfold_locales (rule asc_sorted, simp add: asc_append rma_deprec_535_129_03_def)

interpretation ra_class0: sorted_table acl_id rma_class_535_129_03
  by unfold_locales (rule asc_sorted, simp add: asc_append rma_class_535_129_03_def)

interpretation ra_ctrl1: sorted_table ac_cmd rma_ctrl_580_178_04
  by unfold_locales (rule asc_sorted, simp add: asc_append rma_ctrl_580_178_04_def rma_ctrl_580_178_04_a_def rma_ctrl_580_178_04_b_def rma_ctrl_580_178_04_c_def rma_ctrl_580_178_04_d_def rma_ctrl_580_178_04_e_def)

interpretation ra_deprec1: sorted_table dc_cmd rma_deprec_580_178_04
  by unfold_locales (rule asc_sorted, simp add: asc_append rma_deprec_580_178_04_def)

interpretation ra_class1: sorted_table acl_id rma_class_580_178_04
  by unfold_locales (rule asc_sorted, simp add: asc_append rma_class_580_178_04_def)

interpretation ra_ctrl2: sorted_table ac_cmd rma_ctrl_595_71_05
  by unfold_locales (rule asc_sorted, simp add: asc_append rma_ctrl_595_71_05_def rma_ctrl_595_71_05_a_def rma_ctrl_595_71_05_b_def rma_ctrl_595_71_05_c_def rma_ctrl_595_71_05_d_def rma_ctrl_595_71_05_e_def)

interpretation ra_deprec2: sorted_table dc_cmd rma_deprec_595_71_05
  by unfold_locales (rule asc_sorted, simp add: asc_append rma_deprec_595_71_05_def)

interpretation ra_class2: sorted_table acl_id rma_class_595_71_05
  by unfold_locales (rule asc_sorted, simp add: asc_append rma_class_595_71_05_def)

interpretation ra_ctrl3: sorted_table ac_cmd rma_ctrl_595_104_02
  by unfold_locales (rule asc_sorted, simp add: asc_append rma_ctrl_595_104_02_def rma_ctrl_595_104_02_a_def rma_ctrl_595_104_02_b_def rma_ctrl_595_104_02_c_def rma_ctrl_595_104_02_d_def rma_ctrl_595_104_02_e_def)

interpretation ra_deprec3: sorted_table dc_cmd rma_deprec_595_104_02
  by unfold_locales (rule asc_sorted, simp add: asc_append rma_deprec_595_104_02_def)

interpretation ra_class3: sorted_table acl_id rma_class_595_104_02
  by unfold_locales (rule asc_sorted, simp add: asc_append rma_class_595_104_02_def)

interpretation ra_ctrl4: sorted_table ac_cmd rma_ctrl_615_71_09
  by unfold_locales (rule asc_sorted, simp add: asc_append rma_ctrl_615_71_09_def rma_ctrl_615_71_09_a_def rma_ctrl_615_71_09_b_def rma_ctrl_615_71_09_c_def rma_ctrl_615_71_09_d_def rma_ctrl_615_71_09_e_def rma_ctrl_615_71_09_f_def)

interpretation ra_deprec4: sorted_table dc_cmd rma_deprec_615_71_09
  by unfold_locales (rule asc_sorted, simp add: asc_append rma_deprec_615_71_09_def)

interpretation ra_class4: sorted_table acl_id rma_class_615_71_09
  by unfold_locales (rule asc_sorted, simp add: asc_append rma_class_615_71_09_def rma_class_615_71_09_a_def rma_class_615_71_09_b_def)

end
