(* ===== verification/RmAllow.thy ===== *)
theory RmAllow
  imports RmAllowTables
begin

text \<open>
  The rule a guest's RM controls and classes are held to (\<open>gen/src/rmallow/mod.rs\<close>): the deny list, then what RM itself
  would ask, in its order; on a release without tables of its own every known release has to agree.
\<close>

datatype ctrl_allow = Exact nat | UpTo nat

definition gss_holds :: "gss_rule \<Rightarrow> nat \<Rightarrow> bool" where
  "gss_holds g cmd \<longleftrightarrow> cmd AND gs_mask g \<noteq> 0"

definition gss_needs_root :: "gss_rule \<Rightarrow> nat \<Rightarrow> bool" where
  "gss_needs_root g cmd \<longleftrightarrow> cmd AND gs_privileged g = gs_privileged g"

definition range_holds :: "nat \<Rightarrow> nat \<Rightarrow> bool" where
  "range_holds class_id cmd \<longleftrightarrow> drop_bit 16 cmd = class_id"

definition deny_list :: "(nat \<times> string) list" where
  "deny_list =
     [(0x2080018d, ''NV2080_CTRL_CMD_GPU_GET_PIDS''),
      (0x2080018e, ''NV2080_CTRL_CMD_GPU_GET_PID_INFO''),
      (0x00000b02, ''NV0000_CTRL_CMD_GPUACCT_GET_ACCOUNTING_STATE''),
      (0x00000b03, ''NV0000_CTRL_CMD_GPUACCT_GET_PROC_ACCOUNTING_INFO''),
      (0x00000b04, ''NV0000_CTRL_CMD_GPUACCT_GET_ACCOUNTING_PIDS''),
      (0x00000b06, ''NV0000_CTRL_CMD_GPUACCT_GET_PROC_ACCOUNTING_INFO_V2''),
      (0x00000901, ''NV0000_CTRL_CMD_SET_SUB_PROCESS_ID''),
      (0x00000902, ''NV0000_CTRL_CMD_DISABLE_SUB_PROCESS_USERD_ISOLATION'')]"

definition denied :: "nat \<Rightarrow> string option" where
  "denied cmd = map_option snd (find (\<lambda>(c, _). c = cmd) deny_list)"

record rm_profile =
  rp_ctrl :: "allow_ctrl list"
  rp_class :: "allow_class list"
  rp_deprec :: "deprec_ctrl list"
  rp_catch_all :: "nat list"
  rp_gss :: gss_rule

definition rm_profiles :: "(driver_version \<times> rm_profile) list" where
  "rm_profiles =
     [(DriverVersion 535 129 3, \<lparr>rp_ctrl = rma_ctrl_535_129_03, rp_class = rma_class_535_129_03, rp_deprec = rma_deprec_535_129_03,
         rp_catch_all = rma_catch_all_535_129_03, rp_gss = rma_gss_535_129_03\<rparr>),
      (DriverVersion 580 178 4, \<lparr>rp_ctrl = rma_ctrl_580_178_04, rp_class = rma_class_580_178_04, rp_deprec = rma_deprec_580_178_04,
         rp_catch_all = rma_catch_all_580_178_04, rp_gss = rma_gss_580_178_04\<rparr>),
      (DriverVersion 595 71 5, \<lparr>rp_ctrl = rma_ctrl_595_71_05, rp_class = rma_class_595_71_05, rp_deprec = rma_deprec_595_71_05,
         rp_catch_all = rma_catch_all_595_71_05, rp_gss = rma_gss_595_71_05\<rparr>),
      (DriverVersion 595 104 2, \<lparr>rp_ctrl = rma_ctrl_595_104_02, rp_class = rma_class_595_104_02, rp_deprec = rma_deprec_595_104_02,
         rp_catch_all = rma_catch_all_595_104_02, rp_gss = rma_gss_595_104_02\<rparr>),
      (DriverVersion 615 71 9, \<lparr>rp_ctrl = rma_ctrl_615_71_09, rp_class = rma_class_615_71_09, rp_deprec = rma_deprec_615_71_09,
         rp_catch_all = rma_catch_all_615_71_09, rp_gss = rma_gss_615_71_09\<rparr>)]"

record rm_selected =
  ra_profile :: rm_profile
  ra_exact :: bool

definition rm_select :: "driver_version \<Rightarrow> rm_selected option" where
  "rm_select v =
     map_option (\<lambda>(w, p). \<lparr>ra_profile = p, ra_exact = (w = v)\<rparr>) (profile_for rm_profiles v)"

definition find_ctrl :: "allow_ctrl list \<Rightarrow> nat \<Rightarrow> allow_ctrl option" where
  "find_ctrl t cmd = table_find ac_cmd t cmd"

definition find_deprec :: "deprec_ctrl list \<Rightarrow> nat \<Rightarrow> deprec_ctrl option" where
  "find_deprec t cmd = table_find dc_cmd t cmd"

definition find_class :: "allow_class list \<Rightarrow> nat \<Rightarrow> allow_class option" where
  "find_class t i = table_find acl_id t i"

definition agreed :: "rm_selected \<Rightarrow> (rm_profile \<Rightarrow> bool) \<Rightarrow> bool" where
  "agreed s f \<longleftrightarrow> ra_exact s \<or> list_all (\<lambda>(_, p). f p) rm_profiles"

definition rm_max_params :: "rm_selected \<Rightarrow> nat" where
  "rm_max_params s =
     (if ra_exact s then gs_max (rp_gss (ra_profile s))
      else case map (\<lambda>(_, p). gs_max (rp_gss p)) rm_profiles of
        [] \<Rightarrow> gs_max (rp_gss (ra_profile s))
      | x # xs \<Rightarrow> foldl min x xs)"

definition ctrl_rule :: "rm_selected \<Rightarrow> nat \<Rightarrow> ctrl_allow option" where
  "ctrl_rule s cmd =
     (if denied cmd \<noteq> None then None
      else case find_deprec (rp_deprec (ra_profile s)) cmd of
        Some e \<Rightarrow>
          if \<not> dc_allowed e \<or> \<not> agreed s (\<lambda>p. find_deprec (rp_deprec p) cmd = Some e) then None
          else Some (Exact (dc_size e))
      | None \<Rightarrow>
          let gss = rp_gss (ra_profile s) in
          if gss_holds gss cmd then
            (if gss_needs_root gss cmd \<or>
                \<not> agreed s (\<lambda>p. gs_mask (rp_gss p) = gs_mask gss \<and> gs_privileged (rp_gss p) = gs_privileged gss)
             then None else Some (UpTo (rm_max_params s)))
          else case find_ctrl (rp_ctrl (ra_profile s)) cmd of
            Some e \<Rightarrow>
              if \<not> agreed s (\<lambda>p. case find_ctrl (rp_ctrl p) cmd of None \<Rightarrow> False | Some x \<Rightarrow> ac_size x = ac_size e)
              then None else Some (Exact (ac_size e))
          | None \<Rightarrow>
              (case find (\<lambda>r. range_holds r cmd) (rp_catch_all (ra_profile s)) of
                 None \<Rightarrow> None
               | Some r \<Rightarrow>
                   if \<not> agreed s (\<lambda>p. r \<in> set (rp_catch_all p)) then None
                   else Some (UpTo (rm_max_params s))))"

definition class_entry :: "rm_selected \<Rightarrow> nat \<Rightarrow> allow_class option" where
  "class_entry s i =
     (case find_class (rp_class (ra_profile s)) i of
        None \<Rightarrow> None
      | Some e \<Rightarrow> if agreed s (\<lambda>p. find_class (rp_class p) i = Some e) then Some e else None)"

interpretation rap: version_profiles rm_profiles
  by unfold_locales (simp add: rm_profiles_def less_driver_version_def)

section \<open>Searches as membership\<close>

lemma find_deprec_Some:
  "(w, p) \<in> set rm_profiles \<Longrightarrow> find_deprec (rp_deprec p) cmd = Some e \<longleftrightarrow> e \<in> set (rp_deprec p) \<and> dc_cmd e = cmd"
  by (auto simp: rm_profiles_def find_deprec_def ra_deprec0.table_find_Some ra_deprec1.table_find_Some
      ra_deprec2.table_find_Some ra_deprec3.table_find_Some ra_deprec4.table_find_Some)

lemma find_ctrl_Some:
  "(w, p) \<in> set rm_profiles \<Longrightarrow> find_ctrl (rp_ctrl p) cmd = Some e \<longleftrightarrow> e \<in> set (rp_ctrl p) \<and> ac_cmd e = cmd"
  by (auto simp: rm_profiles_def find_ctrl_def ra_ctrl0.table_find_Some ra_ctrl1.table_find_Some
      ra_ctrl2.table_find_Some ra_ctrl3.table_find_Some ra_ctrl4.table_find_Some)

lemma find_class_Some:
  "(w, p) \<in> set rm_profiles \<Longrightarrow> find_class (rp_class p) i = Some e \<longleftrightarrow> e \<in> set (rp_class p) \<and> acl_id e = i"
  by (auto simp: rm_profiles_def find_class_def ra_class0.table_find_Some ra_class1.table_find_Some
      ra_class2.table_find_Some ra_class3.table_find_Some ra_class4.table_find_Some)

lemma rm_select_member:
  assumes "rm_select v = Some s"
  obtains w where "(w, ra_profile s) \<in> set rm_profiles" "ra_exact s = (w = v)" "w \<le> v"
proof -
  obtain w p where "profile_for rm_profiles v = Some (w, p)" "s = \<lparr>ra_profile = p, ra_exact = (w = v)\<rparr>"
    using assms by (auto simp: rm_select_def)
  then show thesis using rap.profile_for_Some by (intro that [of w]) auto
qed

lemma rm_gss_same:
  "(w, p) \<in> set rm_profiles \<Longrightarrow> gs_mask (rp_gss p) = 0x8000 \<and> gs_privileged (rp_gss p) = 0xc000 \<and>
     1048576 \<le> gs_max (rp_gss p) \<and> gs_max (rp_gss p) \<le> 2097152 \<and> rp_catch_all p = [0x2081]"
  by (auto simp: rm_profiles_def rma_gss_535_129_03_def rma_gss_580_178_04_def rma_gss_595_71_05_def rma_gss_595_104_02_def rma_gss_615_71_09_def rma_catch_all_535_129_03_def rma_catch_all_580_178_04_def rma_catch_all_595_71_05_def rma_catch_all_595_104_02_def rma_catch_all_615_71_09_def)

lemma rm_max_params_le:
  assumes "(w, p) \<in> set rm_profiles" "\<not> ra_exact s"
  shows "rm_max_params s \<le> gs_max (rp_gss p)"
  using assms by (auto simp: rm_max_params_def rm_profiles_def rma_gss_535_129_03_def rma_gss_580_178_04_def rma_gss_595_71_05_def rma_gss_595_104_02_def rma_gss_615_71_09_def rma_catch_all_535_129_03_def rma_catch_all_580_178_04_def rma_catch_all_595_71_05_def rma_catch_all_595_104_02_def rma_catch_all_615_71_09_def)

section \<open>What the tables have in common\<close>

lemma deprec_cmds:
  "(w, p) \<in> set rm_profiles \<Longrightarrow> e \<in> set (rp_deprec p) \<Longrightarrow>
   dc_cmd e \<in> {0x101, 0x73136a, 0x801b01, 0x801c01, 0x20800101, 0x20800802, 0x20801301, 0x20801802}"
  by (auto simp: rm_profiles_def rma_deprec_535_129_03_def rma_deprec_580_178_04_def rma_deprec_595_71_05_def rma_deprec_595_104_02_def rma_deprec_615_71_09_def)

lemma deprec_not_gss:
  "(w, p) \<in> set rm_profiles \<Longrightarrow> e \<in> set (rp_deprec p) \<Longrightarrow> (w', p') \<in> set rm_profiles \<Longrightarrow>
   \<not> gss_holds (rp_gss p') (dc_cmd e)"
  using deprec_cmds [of w p e] rm_gss_same [of w' p'] by (auto simp: gss_holds_def)

text \<open>No command the newest release exports is one some release converts.\<close>

lemma newest_ctrl_not_deprec:
  "list_all (\<lambda>a. ac_cmd a \<notin> {0x101, 0x73136a, 0x801b01, 0x801c01, 0x20800101, 0x20800802, 0x20801301, 0x20801802})
     rma_ctrl_615_71_09"
  by (simp add: rma_ctrl_615_71_09_def rma_ctrl_615_71_09_a_def rma_ctrl_615_71_09_b_def rma_ctrl_615_71_09_c_def rma_ctrl_615_71_09_d_def rma_ctrl_615_71_09_e_def rma_ctrl_615_71_09_f_def)

text \<open>No release exports a control of the class whose control forwards everything.\<close>

definition not_binapi :: "allow_ctrl list \<Rightarrow> bool" where
  "not_binapi t = list_all (\<lambda>a. ac_cmd a < 0x20810000 \<or> 0x20820000 \<le> ac_cmd a) t"

lemma ctrl_not_binapi:
  "not_binapi rma_ctrl_535_129_03" "not_binapi rma_ctrl_580_178_04" "not_binapi rma_ctrl_595_71_05"
  "not_binapi rma_ctrl_595_104_02" "not_binapi rma_ctrl_615_71_09"
  by (simp_all add: not_binapi_def rma_ctrl_535_129_03_def rma_ctrl_535_129_03_a_def rma_ctrl_535_129_03_b_def rma_ctrl_535_129_03_c_def rma_ctrl_535_129_03_d_def rma_ctrl_535_129_03_e_def rma_ctrl_580_178_04_def rma_ctrl_580_178_04_a_def rma_ctrl_580_178_04_b_def rma_ctrl_580_178_04_c_def rma_ctrl_580_178_04_d_def rma_ctrl_580_178_04_e_def rma_ctrl_595_71_05_def rma_ctrl_595_71_05_a_def rma_ctrl_595_71_05_b_def rma_ctrl_595_71_05_c_def rma_ctrl_595_71_05_d_def rma_ctrl_595_71_05_e_def rma_ctrl_595_104_02_def rma_ctrl_595_104_02_a_def rma_ctrl_595_104_02_b_def rma_ctrl_595_104_02_c_def rma_ctrl_595_104_02_d_def rma_ctrl_595_104_02_e_def rma_ctrl_615_71_09_def rma_ctrl_615_71_09_a_def rma_ctrl_615_71_09_b_def rma_ctrl_615_71_09_c_def rma_ctrl_615_71_09_d_def rma_ctrl_615_71_09_e_def rma_ctrl_615_71_09_f_def)

lemma binapi_range: "range_holds 0x2081 cmd \<longleftrightarrow> 0x20810000 \<le> cmd \<and> cmd < 0x20820000"
  by (auto simp: range_holds_def drop_bit_eq_div)

lemma find_ctrl_binapi:
  assumes p: "(w, p) \<in> set rm_profiles" and r: "range_holds 0x2081 cmd"
  shows "find_ctrl (rp_ctrl p) cmd = None"
proof (cases "find_ctrl (rp_ctrl p) cmd")
  case (Some a)
  have "not_binapi (rp_ctrl p)" using p ctrl_not_binapi by (auto simp: rm_profiles_def)
  then show ?thesis using Some r find_ctrl_Some [OF p] by (auto simp: not_binapi_def list_all_iff binapi_range)
qed simp

lemma find_deprec_None_if:
  assumes p: "(w, p) \<in> set rm_profiles"
    and c: "cmd \<notin> {0x101, 0x73136a, 0x801b01, 0x801c01, 0x20800101, 0x20800802, 0x20801301, 0x20801802}"
  shows "find_deprec (rp_deprec p) cmd = None"
proof (cases "find_deprec (rp_deprec p) cmd")
  case (Some e)
  then have "e \<in> set (rp_deprec p)" "dc_cmd e = cmd" using find_deprec_Some [OF p] by auto
  with deprec_cmds [OF p, of e] c show ?thesis by blast
qed simp

section \<open>Properties\<close>

text \<open>C37: A control the rule permits is not on the deny list, and it is permitted for exactly one of RM's four reasons in
  RM's order: a deprecated control whose modern form is unprivileged, at the old size; a command forwarded to GSP
  whose number does not ask for root; an exported control at its size; or a command of a class that forwards.\<close>

theorem ctrl_rule_reasons:
  assumes "rm_select v = Some s" "ctrl_rule s cmd = Some r"
  shows "cmd \<notin> fst ` set deny_list \<and>
    ((\<exists>e \<in> set (rp_deprec (ra_profile s)). dc_cmd e = cmd \<and> dc_allowed e \<and> r = Exact (dc_size e)) \<or>
     cmd \<notin> dc_cmd ` set (rp_deprec (ra_profile s)) \<and>
     (cmd AND 0x8000 \<noteq> 0 \<and> cmd AND 0xc000 \<noteq> 0xc000 \<and> r = UpTo (rm_max_params s) \<or>
      cmd AND 0x8000 = 0 \<and>
      ((\<exists>e \<in> set (rp_ctrl (ra_profile s)). ac_cmd e = cmd \<and> r = Exact (ac_size e)) \<or>
       cmd \<notin> ac_cmd ` set (rp_ctrl (ra_profile s)) \<and> cmd div 65536 = 0x2081 \<and> r = UpTo (rm_max_params s))))"
proof -
  obtain w where p: "(w, ra_profile s) \<in> set rm_profiles" using rm_select_member [OF assms(1)] by blast
  have d: "denied cmd = None" using assms(2) by (auto simp: ctrl_rule_def split: if_splits)
  then have deny: "cmd \<notin> fst ` set deny_list" by (auto simp: denied_def find_None_iff image_iff)
  show ?thesis
  proof (cases "find_deprec (rp_deprec (ra_profile s)) cmd")
    case (Some e)
    then have "dc_allowed e" "r = Exact (dc_size e)" using assms(2) d by (auto simp: ctrl_rule_def split: if_splits)
    then show ?thesis using deny Some find_deprec_Some [OF p] by blast
  next
    case none: None
    then have nd: "cmd \<notin> dc_cmd ` set (rp_deprec (ra_profile s))" using find_deprec_Some [OF p, of cmd] by auto
    show ?thesis
    proof (cases "gss_holds (rp_gss (ra_profile s)) cmd")
      case True
      then have "\<not> gss_needs_root (rp_gss (ra_profile s)) cmd" "r = UpTo (rm_max_params s)"
        using assms(2) d none by (auto simp: ctrl_rule_def Let_def split: if_splits)
      then show ?thesis using True deny nd rm_gss_same [OF p] by (simp add: gss_holds_def gss_needs_root_def)
    next
      case False
      then have z: "cmd AND 0x8000 = 0" using rm_gss_same [OF p] by (simp add: gss_holds_def)
      show ?thesis
      proof (cases "find_ctrl (rp_ctrl (ra_profile s)) cmd")
        case (Some e)
        then have "r = Exact (ac_size e)" using assms(2) d none False by (auto simp: ctrl_rule_def Let_def split: if_splits)
        then show ?thesis using z deny nd Some find_ctrl_Some [OF p, of cmd e] by blast
      next
        case None
        then have nc: "cmd \<notin> ac_cmd ` set (rp_ctrl (ra_profile s))" using find_ctrl_Some [OF p, of cmd] by auto
        have "range_holds 0x2081 cmd" "r = UpTo (rm_max_params s)"
          using assms(2) d none False None rm_gss_same [OF p]
          by (auto simp: ctrl_rule_def Let_def split: if_splits option.splits)
        then show ?thesis using z deny nd nc by (simp add: range_holds_def drop_bit_eq_div)
      qed
    qed
  qed
qed

lemma ctrl_rule_reasons_witness:
  "ctrl_rule \<lparr>ra_profile = snd (last rm_profiles), ra_exact = True\<rparr> 0x9000 = Some (UpTo 2097152) \<and>
   (0x9000 :: nat) \<notin> fst ` set deny_list"
proof -
  let ?s = "\<lparr>ra_profile = snd (last rm_profiles), ra_exact = True\<rparr>"
  have s: "rm_select (DriverVersion 615 71 9) = Some ?s"
    by (simp add: rm_select_def profile_for_def rm_profiles_def less_driver_version_def less_eq_driver_version_def)
  have p: "(DriverVersion 615 71 9, ra_profile ?s) \<in> set rm_profiles" by (simp add: rm_profiles_def)
  have "find_deprec (rp_deprec (ra_profile ?s)) 0x9000 = None" by (rule find_deprec_None_if [OF p]) simp
  then have r: "ctrl_rule ?s 0x9000 = Some (UpTo 2097152)"
    by (simp add: ctrl_rule_def denied_def deny_list_def Let_def gss_holds_def gss_needs_root_def agreed_def rm_max_params_def
        rm_profiles_def rma_gss_615_71_09_def)
  from ctrl_rule_reasons [OF s r] r show ?thesis by blast
qed

text \<open>C31: On a release without tables of its own, whatever the rule permits every known release's own rule permits too,
  with the same exact size or a ceiling at least as high.\<close>

theorem ctrl_rule_conservative:
  assumes "rm_select v = Some s" "\<not> ra_exact s" "ctrl_rule s cmd = Some r" "(w, p) \<in> set rm_profiles"
  shows "case r of
      Exact n \<Rightarrow> ctrl_rule \<lparr>ra_profile = p, ra_exact = True\<rparr> cmd = Some (Exact n)
    | UpTo n \<Rightarrow> \<exists>m \<ge> n. ctrl_rule \<lparr>ra_profile = p, ra_exact = True\<rparr> cmd = Some (UpTo m)"
proof -
  let ?P = "ra_profile s"
  obtain u where P: "(u, ?P) \<in> set rm_profiles" using rm_select_member [OF assms(1)] by blast
  note p = assms(4)
  have d: "denied cmd = None" using assms(3) by (auto simp: ctrl_rule_def split: if_splits)
  have ag: "agreed s f \<Longrightarrow> f q" if "(x, q) \<in> set rm_profiles" for f x q
    using that assms(2) by (auto simp: agreed_def list_all_iff)
  have mx: "rm_max_params s \<le> rm_max_params \<lparr>ra_profile = p, ra_exact = True\<rparr>"
    using rm_max_params_le [OF p assms(2)] by (simp add: rm_max_params_def)
  show ?thesis
  proof (cases "find_deprec (rp_deprec ?P) cmd")
    case (Some e)
    then have "dc_allowed e" "r = Exact (dc_size e)" and a: "agreed s (\<lambda>p. find_deprec (rp_deprec p) cmd = Some e)"
      using assms(3) d by (auto simp: ctrl_rule_def split: if_splits)
    then show ?thesis using ag [OF p a] d by (simp add: ctrl_rule_def agreed_def)
  next
    case none: None
    show ?thesis
    proof (cases "gss_holds (rp_gss ?P) cmd")
      case True
      then have r: "\<not> gss_needs_root (rp_gss ?P) cmd" "r = UpTo (rm_max_params s)"
        using assms(3) d none by (auto simp: ctrl_rule_def Let_def split: if_splits)
      have same: "gss_holds (rp_gss p) cmd" "\<not> gss_needs_root (rp_gss p) cmd"
        using True r rm_gss_same [OF p] rm_gss_same [OF P] by (simp_all add: gss_holds_def gss_needs_root_def)
      have "find_deprec (rp_deprec p) cmd = None"
        using same(1) deprec_not_gss [OF p _ p] find_deprec_Some [OF p, of cmd] by (metis not_None_eq)
      with same d r mx show ?thesis by (auto simp: ctrl_rule_def Let_def agreed_def)
    next
      case False
      then have ng: "\<not> gss_holds (rp_gss p) cmd"
        using rm_gss_same [OF p] rm_gss_same [OF P] by (simp add: gss_holds_def)
      show ?thesis
      proof (cases "find_ctrl (rp_ctrl ?P) cmd")
        case (Some e)
        then have r: "r = Exact (ac_size e)" and
          a: "agreed s (\<lambda>p. case find_ctrl (rp_ctrl p) cmd of None \<Rightarrow> False | Some x \<Rightarrow> ac_size x = ac_size e)"
          using assms(3) d none False by (auto simp: ctrl_rule_def Let_def split: if_splits)
        have "(DriverVersion 615 71 9, snd (last rm_profiles)) \<in> set rm_profiles" by (simp add: rm_profiles_def)
        from ag [OF this a] find_ctrl_Some [OF this, of cmd]
        have "\<exists>x \<in> set rma_ctrl_615_71_09. ac_cmd x = cmd" by (auto simp: rm_profiles_def split: option.splits)
        then have "find_deprec (rp_deprec p) cmd = None"
          using newest_ctrl_not_deprec by (intro find_deprec_None_if [OF p]) (auto simp: list_all_iff)
        with ag [OF p a] d ng r show ?thesis by (auto simp: ctrl_rule_def Let_def agreed_def split: option.splits)
      next
        case None
        have r: "range_holds 0x2081 cmd" "r = UpTo (rm_max_params s)"
          using assms(3) d none False None rm_gss_same [OF P]
          by (auto simp: ctrl_rule_def Let_def split: if_splits option.splits)
        have "find_deprec (rp_deprec p) cmd = None"
          using r(1) by (intro find_deprec_None_if [OF p]) (auto simp: binapi_range)
        with find_ctrl_binapi [OF p r(1)] d ng r mx rm_gss_same [OF p] show ?thesis
          by (auto simp: ctrl_rule_def Let_def agreed_def)
      qed
    qed
  qed
qed

lemma ctrl_rule_conservative_witness:
  "\<exists>m \<ge> 1048576. ctrl_rule \<lparr>ra_profile = snd (last rm_profiles), ra_exact = True\<rparr> 0x9000 = Some (UpTo m)"
proof -
  let ?s = "\<lparr>ra_profile = snd (hd rm_profiles), ra_exact = False\<rparr>"
  have s: "rm_select (DriverVersion 550 0 0) = Some ?s"
    by (simp add: rm_select_def profile_for_def rm_profiles_def less_driver_version_def less_eq_driver_version_def)
  have p: "(DriverVersion 535 129 3, ra_profile ?s) \<in> set rm_profiles" by (simp add: rm_profiles_def)
  have "find_deprec (rp_deprec (ra_profile ?s)) 0x9000 = None" by (rule find_deprec_None_if [OF p]) simp
  then have r: "ctrl_rule ?s 0x9000 = Some (UpTo 1048576)"
    by (simp add: ctrl_rule_def denied_def deny_list_def Let_def gss_holds_def gss_needs_root_def agreed_def rm_max_params_def
        rm_profiles_def rma_gss_535_129_03_def rma_gss_580_178_04_def rma_gss_595_71_05_def rma_gss_595_104_02_def rma_gss_615_71_09_def)
  have q: "(DriverVersion 615 71 9, snd (last rm_profiles)) \<in> set rm_profiles" by (simp add: rm_profiles_def)
  from ctrl_rule_conservative [OF s _ r q] show ?thesis by simp
qed

text \<open>A class the rule permits is an entry of the selected release under its own number, and on a release without
  tables of its own every known release has the identical entry.\<close>

theorem class_entry_sound:
  assumes "rm_select v = Some s" "class_entry s i = Some e"
  shows "acl_id e = i \<and> e \<in> set (rp_class (ra_profile s)) \<and>
    (ra_exact s \<or> (\<forall>(w, p) \<in> set rm_profiles. e \<in> set (rp_class p)))"
proof -
  obtain w where p: "(w, ra_profile s) \<in> set rm_profiles" using rm_select_member [OF assms(1)] by blast
  have f: "find_class (rp_class (ra_profile s)) i = Some e" and a: "agreed s (\<lambda>p. find_class (rp_class p) i = Some e)"
    using assms(2) by (auto simp: class_entry_def split: option.splits if_splits)
  have "\<not> ra_exact s \<Longrightarrow> (x, q) \<in> set rm_profiles \<Longrightarrow> e \<in> set (rp_class q)" for x q
    using a find_class_Some [of x q i e] by (auto simp: agreed_def list_all_iff)
  then show ?thesis using f find_class_Some [OF p, of i e] by blast
qed

lemma class_entry_sound_witness:
  "acl_id (AllowClass 0 4 False) = 0 \<and>
   class_entry \<lparr>ra_profile = snd (last rm_profiles), ra_exact = True\<rparr> 0 = Some (AllowClass 0 4 False)"
proof -
  let ?s = "\<lparr>ra_profile = snd (last rm_profiles), ra_exact = True\<rparr>"
  have s: "rm_select (DriverVersion 615 71 9) = Some ?s"
    by (simp add: rm_select_def profile_for_def rm_profiles_def less_driver_version_def less_eq_driver_version_def)
  have p: "(DriverVersion 615 71 9, ra_profile ?s) \<in> set rm_profiles" by (simp add: rm_profiles_def)
  have "find_class (rp_class (ra_profile ?s)) 0 = Some (AllowClass 0 4 False)"
    unfolding find_class_Some [OF p] by (simp add: rm_profiles_def rma_class_615_71_09_def rma_class_615_71_09_a_def rma_class_615_71_09_b_def)
  then have e: "class_entry ?s 0 = Some (AllowClass 0 4 False)" by (simp add: class_entry_def agreed_def)
  from class_entry_sound [OF s e] e show ?thesis by blast
qed

end
