(* ===== verification/Backend.thy ===== *)
theory Backend
  imports Messages Caps HandleTable GuardPool ShmWindow Mmap Vram Aperture GuestMem
    IoctlTables OsDescTables UvmTables RmCtrlTables VidmemTables RmAllow
begin

text \<open>
  The backend's state (\<open>NvidiaBackend\<close> of \<open>device/src/nvidia/mod.rs\<close>), its constructor and setters, the device
  paths, and the writing of responses (\<open>nvidia/resp.rs\<close>).

  What the backend reaches outside itself is the record \<open>env\<close>: the host driver behind the trait
  \<open>HostDriver\<close>, the transport's \<open>WindowPlacer\<close>, and the system calls. Each is a function of the actions taken
  so far, which the state keeps as \<open>bk_trace\<close>, newest first, so the environment may answer the same
  question differently each time. A response is the list of bytes written into a buffer of \<open>cap\<close> bytes.
\<close>

section \<open>The environment\<close>

datatype event =
    EvOpen string
  | EvClose fd
  | EvIoctl fd nat bytes "(nat \<times> bytes) list"
  | EvPlace nat nat fd nat
  | EvWithdraw nat nat
  | EvPlacePool nat nat fd nat
  | EvWithdrawPool nat nat
  | EvRemap nat nat
  | EvLease nat
  | EvSpan nat
  | EvUnspan nat nat

record dri_device =
  dd_name :: string
  dd_major :: nat
  dd_minor :: nat
  dd_slot_index :: nat
  dd_dev_info :: "nat list"

text \<open>
  \<open>en_ioctl\<close> answers the errno, if the call failed, and what the parameter block and each buffer a pointer in
  it may reach (address and contents) hold afterwards. \<open>en_mmap\<close> is the address of a fresh mapping,
  \<open>en_heap\<close> that of a fresh vector, \<open>en_remap\<close> whether the window's memory was mapped back over a range.
\<close>

record env =
  en_open :: "event list \<Rightarrow> string \<Rightarrow> int + fd"
  en_ioctl :: "event list \<Rightarrow> fd \<Rightarrow> nat \<Rightarrow> bytes \<Rightarrow> (nat \<times> bytes) list \<Rightarrow> int option \<times> bytes \<times> bytes list"
  en_place :: "event list \<Rightarrow> nat \<Rightarrow> nat \<Rightarrow> fd \<Rightarrow> nat \<Rightarrow> bool"
  en_place_pool :: "event list \<Rightarrow> nat \<Rightarrow> nat \<Rightarrow> fd \<Rightarrow> nat \<Rightarrow> bool"
  en_remap :: "event list \<Rightarrow> nat \<Rightarrow> nat \<Rightarrow> bool"
  en_mmap :: "event list \<Rightarrow> nat \<Rightarrow> nat option"
  en_heap :: "event list \<Rightarrow> nat \<Rightarrow> nat"
  en_map_run :: "event list \<Rightarrow> nat \<Rightarrow> bool"
  en_dri :: "event list \<Rightarrow> dri_device list"
  en_proc_files :: "event list \<Rightarrow> (bytes \<times> bytes) list"
  en_sys_files :: "event list \<Rightarrow> (bytes \<times> bytes) list"

abbreviation (input) EPERM :: int where "EPERM \<equiv> 1"
abbreviation (input) ENOENT :: int where "ENOENT \<equiv> 2"
abbreviation (input) EIO :: int where "EIO \<equiv> 5"
abbreviation (input) EBADF :: int where "EBADF \<equiv> 9"
abbreviation (input) ENOMEM :: int where "ENOMEM \<equiv> 12"
abbreviation (input) EBUSY :: int where "EBUSY \<equiv> 16"
abbreviation (input) ENODEV :: int where "ENODEV \<equiv> 19"
abbreviation (input) ENOTTY :: int where "ENOTTY \<equiv> 25"
abbreviation (input) EPROTO :: int where "EPROTO \<equiv> 71"
abbreviation (input) ENOTSUP :: int where "ENOTSUP \<equiv> 95"

section \<open>The state\<close>

record live_map =
  lm_key :: "nat \<times> nat"
  lm_region :: shm_region
  lm_length :: nat

datatype registration = RegAlloc | RegAllocMemory | RegVidHeap

text \<open>The keys of the two tallies of refusals, which the code keeps as the text it logs.\<close>

datatype allow_key = AkControl nat | AkClass nat | AkUvm nat | AkUvmInitialize | AkRoute registration
datatype caps_key = CkUvmTools | CkUvm | CkModeset | CkRenderNode | CkClass nat

text \<open>
  \<open>bk_window\<close> says whether the transport has supplied a placer, and \<open>bk_guest_ram\<close> is the table of guest memory
  it supplied.
\<close>

record backend =
  bk_msg :: msg_type
  bk_handle :: nat
  bk_data_len :: nat
  bk_handles :: handle_table
  bk_shm :: shm_allocator
  bk_active :: mmap_context
  bk_kinds :: "(nat \<times> device_kind) list"
  bk_driver :: "driver_version option"
  bk_abi :: "ioctl_entry list option"
  bk_rmctrl :: "rmctrl_selected option"
  bk_rmallow :: "rm_selected option"
  bk_uvm :: "uvm_selected option"
  bk_osdesc :: "osdesc option"
  bk_vidmem :: "vidmem_selected option"
  bk_untracked_frees :: nat
  bk_guest_ram :: "(nat \<Rightarrow> backing option) option"
  bk_reg_served :: nat
  bk_reg_peak :: nat
  bk_registrations :: "((nat \<times> nat) \<times> (nat \<times> stitched)) list"
  bk_uvm_denied :: "nat list"
  bk_allow_refused :: "(allow_key \<times> nat) list"
  bk_window :: bool
  bk_dri_maps :: "((nat \<times> nat) \<times> nat) list"
  bk_dri_given :: "dri_device list option"
  bk_aperture :: aperture
  bk_msg_counts :: "(msg_type \<times> nat) list"
  bk_live :: "(nat \<times> live_map) list"
  bk_guards :: guard_pool
  bk_caps :: caps
  bk_caps_refused :: "(caps_key \<times> nat) list"
  bk_rm_classes :: "(nat \<times> nat) list"
  bk_rm_controls :: "(nat \<times> nat) list"
  bk_ioctls_by_ns :: "((char \<times> nat) \<times> nat) list"
  bk_abi_refused :: "(nat \<times> nat) list"
  bk_watch_added :: "(nat \<times> fd) list"
  bk_watch_removed :: "nat list"
  bk_next_mapping_id :: nat
  bk_vram :: vram
  bk_trace :: "event list"

text \<open>\<open>NvidiaBackend::new\<close>; \<open>None\<close> where \<open>ShmAllocator::new\<close> panics on the zone sizes.\<close>

definition backend_new :: "zone_config \<Rightarrow> backend option" where
  "backend_new cfg = map_option (\<lambda>sa.
     \<lparr>bk_msg = Ioctl, bk_handle = 0, bk_data_len = 0, bk_handles = ht_new, bk_shm = sa, bk_active = [],
      bk_kinds = [], bk_driver = None, bk_abi = None, bk_rmctrl = None, bk_rmallow = None, bk_uvm = None,
      bk_osdesc = None, bk_vidmem = None, bk_untracked_frees = 0, bk_guest_ram = None, bk_reg_served = 0,
      bk_reg_peak = 0, bk_registrations = [], bk_uvm_denied = [], bk_allow_refused = [], bk_window = False,
      bk_dri_maps = [], bk_dri_given = None, bk_aperture = [], bk_msg_counts = [], bk_live = [],
      bk_guards = [], bk_caps = caps_default, bk_caps_refused = [], bk_rm_classes = [], bk_rm_controls = [],
      bk_ioctls_by_ns = [], bk_abi_refused = [], bk_watch_added = [], bk_watch_removed = [],
      bk_next_mapping_id = 1, bk_vram = vram_new None, bk_trace = []\<rparr>) (shm_new cfg)"

section \<open>Setters\<close>

definition set_caps :: "caps \<Rightarrow> backend \<Rightarrow> backend" where
  "set_caps c bk = bk\<lparr>bk_caps := c\<rparr>"

definition set_window :: "backend \<Rightarrow> backend" where
  "set_window bk = bk\<lparr>bk_window := True\<rparr>"

definition set_guest_ram :: "(nat \<Rightarrow> backing option) \<Rightarrow> backend \<Rightarrow> backend" where
  "set_guest_ram ram bk = bk\<lparr>bk_guest_ram := Some ram\<rparr>"

definition take_watch_updates :: "backend \<Rightarrow> ((nat \<times> fd) list \<times> nat list) \<times> backend" where
  "take_watch_updates bk =
     ((bk_watch_added bk, bk_watch_removed bk), bk\<lparr>bk_watch_added := [], bk_watch_removed := []\<rparr>)"

text \<open>\<open>set_vram_limit_mib\<close>; the boolean is the result being \<open>Ok\<close>.\<close>

definition set_vram_limit_mib :: "nat option \<Rightarrow> backend \<Rightarrow> bool \<times> backend" where
  "set_vram_limit_mib mib bk =
     (if mib \<noteq> None \<and> \<not> (case bk_vidmem bk of None \<Rightarrow> False | Some s \<Rightarrow> vs_exact s) then (False, bk)
      else (True, bk\<lparr>bk_vram := vram_new mib\<rparr>))"

text \<open>The tables are stored one by one as they are found; the first release without one ends it.\<close>

datatype version_error = NoAbiProfile | NoPointerTable | NoAllowlist | NoUvmTable | NoOsDescTable

definition set_host_driver_version :: "driver_version \<Rightarrow> backend \<Rightarrow> version_error option \<times> backend" where
  "set_host_driver_version v bk =
     (case ioctl_table_for v of
        None \<Rightarrow> (Some NoAbiProfile, bk)
      | Some t \<Rightarrow>
          let bk = bk\<lparr>bk_driver := Some v, bk_abi := Some t\<rparr> in
          (case rmctrl_select v of
             None \<Rightarrow> (Some NoPointerTable, bk)
           | Some sel \<Rightarrow>
               let bk = bk\<lparr>bk_rmctrl := Some sel\<rparr> in
               (case rm_select v of
                  None \<Rightarrow> (Some NoAllowlist, bk)
                | Some allow \<Rightarrow>
                    let bk = bk\<lparr>bk_rmallow := Some allow\<rparr> in
                    (case uvm_select v of
                       None \<Rightarrow> (Some NoUvmTable, bk)
                     | Some uvm \<Rightarrow>
                         let bk = bk\<lparr>bk_uvm := Some uvm\<rparr> in
                         (case osdesc_select v of
                            None \<Rightarrow> (Some NoOsDescTable, bk)
                          | Some d \<Rightarrow>
                              (None, bk\<lparr>bk_osdesc := Some d, bk_vidmem := vidmem_select v\<rparr>))))))"

section \<open>Device paths\<close>

definition bytes_of_string :: "string \<Rightarrow> bytes" where
  "bytes_of_string s = map of_char s"

text \<open>\<open>device_path_with\<close>: \<open>None\<close> is the error of an unknown or out-of-range device.\<close>

definition device_path_with :: "nat \<Rightarrow> dri_device list \<Rightarrow> string option" where
  "device_path_with ty dri =
     (case device_kind_from_type ty of
        None \<Rightarrow> None
      | Some (Gpu n) \<Rightarrow> if n \<ge> 8 then None else Some (''/dev/nvidia'' @ show_nat n)
      | Some Ctl \<Rightarrow> Some ''/dev/nvidiactl''
      | Some Uvm \<Rightarrow> Some ''/dev/nvidia-uvm''
      | Some UvmTools \<Rightarrow> Some ''/dev/nvidia-uvm-tools''
      | Some Modeset \<Rightarrow> Some ''/dev/nvidia-modeset''
      | Some (Dri n) \<Rightarrow> if n < length dri then Some (''/dev/dri/'' @ dd_name (dri ! n)) else None)"

section \<open>Responses\<close>

datatype status = StOk | StInvalidMsgType | StInvalidDevice | StOpenFailed | StBadHandle | StIoctlFailed | StBufferTooSmall

fun status_errno :: "status \<Rightarrow> int" where
  "status_errno StOk = 0"
| "status_errno StInvalidMsgType = EPROTO"
| "status_errno StInvalidDevice = ENODEV"
| "status_errno StOpenFailed = EIO"
| "status_errno StBadHandle = EBADF"
| "status_errno StIoctlFailed = EIO"
| "status_errno StBufferTooSmall = ENOSPC"

definition write_hdr :: "nat \<Rightarrow> backend \<Rightarrow> nat \<Rightarrow> int \<Rightarrow> bytes" where
  "write_hdr cap bk handle st =
     (if cap < 16 then []
      else enc_msg_header \<lparr>mh_type = msg_type_code (bk_msg bk), mh_handle = handle, mh_status = st, mh_padding = 0\<rparr>)"

definition write_error_resp :: "nat \<Rightarrow> backend \<Rightarrow> status \<Rightarrow> int \<Rightarrow> bytes" where
  "write_error_resp cap bk st errno =
     (let e = (if errno \<noteq> 0 then \<bar>errno\<bar> else status_errno st) in write_hdr cap bk 0 (- e))"

text \<open>Header, the three lengths, then the bytes; the split follows the request's own.\<close>

definition write_ioctl_resp_deep :: "nat \<Rightarrow> backend \<Rightarrow> bytes \<Rightarrow> nat \<Rightarrow> bytes" where
  "write_ioctl_resp_deep cap bk out deep =
     (let data_len = min (bk_data_len bk) (length out);
          deep_len = min deep (length out - data_len);
          nested_len = length out - data_len - deep_len
      in if cap < 16 + 12 + length out then write_error_resp cap bk StBufferTooSmall 0
         else enc_msg_header \<lparr>mh_type = msg_type_code (bk_msg bk), mh_handle = bk_handle bk, mh_status = 0, mh_padding = 0\<rparr> @
              enc_ioctl_resp \<lparr>ip_data_len = data_len, ip_nested_len = nested_len, ip_deep_len = deep_len\<rparr> @ out)"

definition write_ioctl_resp :: "nat \<Rightarrow> backend \<Rightarrow> bytes \<Rightarrow> bytes" where
  "write_ioctl_resp cap bk out = write_ioctl_resp_deep cap bk out 0"

section \<open>Shared steps\<close>

definition note_event :: "event \<Rightarrow> backend \<Rightarrow> backend" where
  "note_event e bk = bk\<lparr>bk_trace := e # bk_trace bk\<rparr>"

text \<open>A buffer keeps its length whatever is written to it.\<close>

definition overwrite :: "bytes \<Rightarrow> bytes \<Rightarrow> bytes" where
  "overwrite old new = take (length old) new @ drop (length new) old"

text \<open>\<open>self.host.ioctl\<close>, with the buffers a pointer in the block may reach.\<close>

definition host_ioctl ::
  "env \<Rightarrow> fd \<Rightarrow> nat \<Rightarrow> bytes \<Rightarrow> (nat \<times> bytes) list \<Rightarrow> backend \<Rightarrow> int option \<times> bytes \<times> (nat \<times> bytes) list \<times> backend" where
  "host_ioctl E f request arg bufs bk =
     (case en_ioctl E (bk_trace bk) f request arg bufs of
        (errno, arg', bufs') \<Rightarrow>
          (errno, overwrite arg arg',
           map2 (\<lambda>(a, b) b'. (a, overwrite b b')) bufs (bufs' @ replicate (length bufs) []),
           note_event (EvIoctl f request arg bufs) bk))"

definition note_allow_refusal :: "allow_key \<Rightarrow> backend \<Rightarrow> backend" where
  "note_allow_refusal k bk = bk\<lparr>bk_allow_refused := bump k (bk_allow_refused bk)\<rparr>"

definition refuse_for_caps :: "caps_key \<Rightarrow> backend \<Rightarrow> backend" where
  "refuse_for_caps k bk = bk\<lparr>bk_caps_refused := bump k (bk_caps_refused bk)\<rparr>"

text \<open>\<open>self.shm.free\<close>, whose failure every caller only logs.\<close>

definition shm_release :: "env \<Rightarrow> shm_region \<Rightarrow> backend \<Rightarrow> backend" where
  "shm_release E r bk =
     (let len = align_up (sr_length r) PAGE_SIZE in
      note_event (EvRemap (sr_offset r) len)
        (bk\<lparr>bk_shm := snd (shm_free (bk_shm bk) r (en_remap E (bk_trace bk) (sr_offset r) len))\<rparr>))"

text \<open>\<open>as u64\<close> of an \<open>i32\<close> extends its sign.\<close>

definition sext64 :: "int \<Rightarrow> nat" where
  "sext64 i = nat (i mod 2 ^ 64)"

definition next_id :: "nat \<Rightarrow> nat" where
  "next_id i = max ((i + 1) mod 2 ^ 32) 1"

text \<open>\<open>GuardPool::lease\<close>, and the lease's end.\<close>

definition lease :: "env \<Rightarrow> nat \<Rightarrow> backend \<Rightarrow> guarded_buf option \<times> backend" where
  "lease E len bk =
     (case pool_take (bk_guards bk) (en_mmap E (bk_trace bk) len) len of
        (b, p) \<Rightarrow> (b, note_event (EvLease len) (bk\<lparr>bk_guards := p\<rparr>)))"

definition release_lease :: "guarded_buf \<Rightarrow> backend \<Rightarrow> backend" where
  "release_lease b bk = bk\<lparr>bk_guards := pool_give (bk_guards bk) b\<rparr>"

end
