(* ===== verification/WindowOps.thy ===== *)
theory WindowOps
  imports Backend
begin

text \<open>
  Mapping messages: placing device memory in the shared window (\<open>nvidia/window.rs\<close>) and UVM pools in the
  aperture (the backend half of \<open>nvidia/aperture.rs\<close>).
\<close>

section \<open>Pools of a UVM file\<close>

definition unmap_uvm_pool :: "nat \<Rightarrow> pool \<Rightarrow> backend \<Rightarrow> backend" where
  "unmap_uvm_pool i p bk =
     (if bk_window bk then note_event (EvWithdrawPool (po_offset p) (po_len p)) bk else bk)"

definition drop_pools_for_file :: "nat \<Rightarrow> backend \<Rightarrow> backend" where
  "drop_pools_for_file handle bk =
     (case ap_take_for_handle handle (bk_aperture bk) of
        (ps, a) \<Rightarrow> fold (\<lambda>(i, p). unmap_uvm_pool i p) ps (bk\<lparr>bk_aperture := a\<rparr>))"

text \<open>The reply of a successful mapping.\<close>

definition write_mmap_resp :: "nat \<Rightarrow> backend \<Rightarrow> nat \<Rightarrow> nat \<Rightarrow> nat \<Rightarrow> bytes" where
  "write_mmap_resp cap bk offset len i =
     (if cap < 16 + 24 then write_error_resp cap bk StBufferTooSmall 0
      else write_hdr cap bk (bk_handle bk) 0 @
           enc_mmap_resp \<lparr>mp_guest_phys_addr = offset, mp_size = len, mp_mapping_id = i, mp_padding = 0\<rparr>)"

definition map_uvm_pool :: "env \<Rightarrow> nat \<Rightarrow> nat \<Rightarrow> nat \<Rightarrow> backend \<Rightarrow> bytes \<times> backend" where
  "map_uvm_pool E cap sz offset bk =
     (let handle = bk_handle bk in
      case ht_get_raw (bk_handles bk) handle of
        None \<Rightarrow> (write_error_resp cap bk StBadHandle ENOENT, bk)
      | Some host_fd \<Rightarrow>
          (case ap_admit (bk_aperture bk) handle offset sz of
             Inl errno \<Rightarrow> (write_error_resp cap bk StIoctlFailed errno, bk)
           | Inr p \<Rightarrow>
               if \<not> bk_window bk then (write_error_resp cap bk StIoctlFailed ENOTSUP, bk)
               else
                 let ok = en_place_pool E (bk_trace bk) (po_offset p) (po_len p) host_fd (po_addr p);
                     bk = note_event (EvPlacePool (po_offset p) (po_len p) host_fd (po_addr p)) bk in
                 if \<not> ok then (write_error_resp cap bk StIoctlFailed EINVAL, bk)
                 else
                   let i = bk_next_mapping_id bk;
                       bk = bk\<lparr>bk_next_mapping_id := next_id i, bk_aperture := ap_insert i p (bk_aperture bk)\<rparr>
                   in (write_mmap_resp cap bk (po_offset p) (po_len p) i, bk)))"

section \<open>The window\<close>

definition whole_pages :: "nat \<Rightarrow> nat" where
  "whole_pages len = div_ceil len 4096 * 4096"

text \<open>The caching of a mapping made without a record of its arming, and the file offset it starts at.\<close>

definition unrecorded_prot :: "device_kind option \<Rightarrow> pgprot" where
  "unrecorded_prot k = (case k of Some (Gpu n) \<Rightarrow> WriteCombine | Some (Dri n) \<Rightarrow> WriteCombine | _ \<Rightarrow> WriteBack)"

definition unrecorded_fd_offset :: "device_kind option \<Rightarrow> nat \<Rightarrow> nat" where
  "unrecorded_fd_offset k offset = (case k of Some (Dri n) \<Rightarrow> offset | _ \<Rightarrow> 0)"

definition place_unrecorded :: "env \<Rightarrow> nat \<Rightarrow> nat \<Rightarrow> nat \<Rightarrow> fd \<Rightarrow> pgprot \<Rightarrow> backend \<Rightarrow> bytes \<times> backend" where
  "place_unrecorded E cap sz fd_offset host_fd prot bk =
     (let handle = bk_handle bk; len = max sz 4096 in
      case shm_alloc (bk_shm bk) len prot of
        None \<Rightarrow> (write_error_resp cap bk StIoctlFailed ENOMEM, bk)
      | Some (region, shm) \<Rightarrow>
          let ok = en_place E (bk_trace bk) (sr_offset region) len host_fd fd_offset;
              bk = note_event (EvPlace (sr_offset region) len host_fd fd_offset) (bk\<lparr>bk_shm := shm\<rparr>) in
          if \<not> ok then
            let bk = shm_release E region bk in (write_error_resp cap bk StIoctlFailed EINVAL, bk)
          else
            let i = bk_next_mapping_id bk;
                bk = bk\<lparr>bk_next_mapping_id := next_id i,
                        bk_dri_maps := AList.update (handle, fd_offset) i (bk_dri_maps bk),
                        bk_live := AList.update i
                          \<lparr>lm_key = (handle, fd_offset), lm_region = region, lm_length = len\<rparr> (bk_live bk),
                        bk_active := mc_insert (sr_offset region)
                          \<lparr>me_host_addr = 0, me_length = len, me_client = 0, me_memory = 0, me_fd = handle,
                           me_region = region\<rparr> (bk_active bk)\<rparr>
            in (write_mmap_resp cap bk (sr_offset region) (whole_pages len) i, bk))"

definition map_unrecorded :: "env \<Rightarrow> nat \<Rightarrow> nat \<Rightarrow> nat \<Rightarrow> backend \<Rightarrow> bytes \<times> backend" where
  "map_unrecorded E cap sz offset bk =
     (let handle = bk_handle bk in
      case ht_get_raw (bk_handles bk) handle of
        None \<Rightarrow> (write_error_resp cap bk StBadHandle ENOENT, bk)
      | Some host_fd \<Rightarrow>
          let kind = map_of (bk_kinds bk) handle;
              prot = unrecorded_prot kind;
              fd_offset = unrecorded_fd_offset kind offset in
          (case Option.bind (map_of (bk_dri_maps bk) (handle, fd_offset))
                  (\<lambda>i. map_option (\<lambda>l. (i, l)) (map_of (bk_live bk) i)) of
             Some (i, l) \<Rightarrow>
               (write_mmap_resp cap bk (sr_offset (lm_region l)) (whole_pages (lm_length l)) i, bk)
           | None \<Rightarrow>
               if \<not> bk_window bk then (write_error_resp cap bk StIoctlFailed ENOTSUP, bk)
               else place_unrecorded E cap sz fd_offset host_fd prot bk))"

definition handle_mmap :: "env \<Rightarrow> nat \<Rightarrow> bytes \<Rightarrow> backend \<Rightarrow> bytes \<times> backend" where
  "handle_mmap E cap payload bk =
     (if length payload < 24 then (write_error_resp cap bk StInvalidMsgType EINVAL, bk)
      else
        let req = dec_mmap_req payload; kind = map_of (bk_kinds bk) (bk_handle bk) in
        if kind = Some Uvm then map_uvm_pool E cap (mr_size req) (mr_offset req) bk
        else if (case kind of Some (Dri n) \<Rightarrow> True | _ \<Rightarrow> False) then
          map_unrecorded E cap (mr_size req) (mr_offset req) bk
        else case mc_find_by_fd (bk_handle bk) (bk_active bk) of
          None \<Rightarrow> map_unrecorded E cap (mr_size req) (mr_offset req) bk
        | Some e \<Rightarrow>
            if mr_size req > whole_pages (sr_length (me_region e)) then
              (write_error_resp cap bk StIoctlFailed EINVAL, bk)
            else (write_mmap_resp cap bk (sr_offset (me_region e)) (whole_pages (sr_length (me_region e))) 0, bk))"

definition handle_munmap :: "env \<Rightarrow> nat \<Rightarrow> bytes \<Rightarrow> backend \<Rightarrow> bytes \<times> backend" where
  "handle_munmap E cap payload bk =
     (if length payload < 8 then (write_error_resp cap bk StInvalidMsgType EINVAL, bk)
      else
        let i = ur_mapping_id (dec_munmap_req payload) in
        case ap_remove i (bk_aperture bk) of
          (Some p, a) \<Rightarrow>
            let bk = unmap_uvm_pool i p (bk\<lparr>bk_aperture := a\<rparr>) in (write_hdr cap bk 0 0, bk)
        | (None, _) \<Rightarrow>
            (case map_of (bk_live bk) i of
               None \<Rightarrow> (write_hdr cap bk 0 0, bk)
             | Some l \<Rightarrow>
                 let bk = bk\<lparr>bk_live := AList.delete i (bk_live bk),
                             bk_dri_maps := AList.delete (lm_key l) (bk_dri_maps bk)\<rparr>;
                     bk = (if bk_window bk then note_event (EvWithdraw (sr_offset (lm_region l)) (lm_length l)) bk
                           else bk);
                     bk = bk\<lparr>bk_active := snd (mc_remove (sr_offset (lm_region l)) (bk_active bk))\<rparr>;
                     bk = shm_release E (lm_region l) bk
                 in (write_hdr cap bk 0 0, bk)))"

end
