(* ===== verification/OpenClose.thy ===== *)
theory OpenClose
  imports WindowOps
begin

text \<open>
  Open and close (\<open>nvidia/open.rs\<close>): host descriptors in and out of the handle table, with what a file's close
  releases, and the release of guest memory registered with RM (\<open>nvidia/osdesc.rs\<close>).
\<close>

section \<open>Registered spans\<close>

text \<open>Dropping a \<open>Stitched\<close> unmaps its span.\<close>

definition drop_span :: "stitched \<Rightarrow> backend \<Rightarrow> backend" where
  "drop_span s bk = note_event (EvUnspan (st_addr s) (st_len s)) bk"

definition retain_registrations :: "((nat \<times> nat) \<times> (nat \<times> stitched) \<Rightarrow> bool) \<Rightarrow> backend \<Rightarrow> backend" where
  "retain_registrations keep bk =
     fold (\<lambda>(_, _, s). drop_span s) (filter (\<lambda>x. \<not> keep x) (bk_registrations bk))
       (bk\<lparr>bk_registrations := filter keep (bk_registrations bk)\<rparr>)"

definition release_registrations :: "nat \<Rightarrow> nat \<Rightarrow> backend \<Rightarrow> backend" where
  "release_registrations client object bk =
     retain_registrations (\<lambda>((c, ob), _). \<not> (c = client \<and> (client = object \<or> ob = object))) bk"

definition drop_registrations_for_file :: "nat \<Rightarrow> backend \<Rightarrow> backend" where
  "drop_registrations_for_file file bk = retain_registrations (\<lambda>(_, f, _). f \<noteq> file) bk"

section \<open>Open\<close>

definition open_refusal :: "caps \<Rightarrow> nat \<Rightarrow> caps_key option" where
  "open_refusal c ty =
     (case device_kind_from_type ty of
        Some UvmTools \<Rightarrow> Some CkUvmTools
      | Some Uvm \<Rightarrow> if caps_has c COMPUTE then None else Some CkUvm
      | Some Modeset \<Rightarrow> if caps_has c GRAPHICS then None else Some CkModeset
      | Some (Dri n) \<Rightarrow> if caps_has c GRAPHICS then None else Some CkRenderNode
      | _ \<Rightarrow> None)"

definition handle_open :: "env \<Rightarrow> nat \<Rightarrow> bytes \<Rightarrow> backend \<Rightarrow> bytes \<times> backend" where
  "handle_open E cap payload bk =
     (if length payload < 8 then (write_error_resp cap bk StInvalidDevice 0, bk)
      else
        let ty = or_device_type (dec_open_req payload) in
        case open_refusal (bk_caps bk) ty of
          Some k \<Rightarrow> let bk = refuse_for_caps k bk in (write_error_resp cap bk StOpenFailed ENODEV, bk)
        | None \<Rightarrow>
            let dri = (case bk_dri_given bk of Some ds \<Rightarrow> ds | None \<Rightarrow> en_dri E (bk_trace bk)) in
            (case device_path_with ty dri of
               None \<Rightarrow> (write_error_resp cap bk StInvalidDevice 0, bk)
             | Some path \<Rightarrow>
                 let res = en_open E (bk_trace bk) path; bk = note_event (EvOpen path) bk in
                 (case res of
                    Inl errno \<Rightarrow> (write_error_resp cap bk StOpenFailed errno, bk)
                  | Inr raw_fd \<Rightarrow>
                      (case ht_insert (bk_handles bk) raw_fd of
                         (h, t) \<Rightarrow>
                           let bk = bk\<lparr>bk_handles := t,
                                       bk_kinds := (case device_kind_from_type ty of
                                          Some k \<Rightarrow> AList.update h k (bk_kinds bk) | None \<Rightarrow> bk_kinds bk),
                                       bk_watch_added := bk_watch_added bk @ [(h mod 2 ^ 32, raw_fd)]\<rparr>
                           in (write_hdr cap bk (h mod 2 ^ 32) 0, bk)))))"

section \<open>Close\<close>

text \<open>What the file leaves behind, taken away before its handle.\<close>

definition release_file :: "env \<Rightarrow> backend \<Rightarrow> backend" where
  "release_file E bk =
     (let handle = bk_handle bk;
          (es, m) = mc_take_for_fd handle (bk_active bk);
          bk = fold (\<lambda>e. shm_release E (me_region e)) es (bk\<lparr>bk_active := m\<rparr>);
          bk = (if map_of (bk_kinds bk) handle = Some Uvm then drop_pools_for_file handle bk else bk);
          bk = (if map_of (bk_kinds bk) handle = Some Ctl then bk\<lparr>bk_vram := vram_file_closed handle (bk_vram bk)\<rparr>
                else bk)
      in drop_registrations_for_file handle bk)"

definition handle_close :: "env \<Rightarrow> nat \<Rightarrow> backend \<Rightarrow> bytes \<times> backend" where
  "handle_close E cap bk =
     (let handle = bk_handle bk; bk = release_file E bk in
      case ht_remove (bk_handles bk) handle of
        (Some f, t) \<Rightarrow>
          let bk = note_event (EvClose f) (bk\<lparr>bk_handles := t, bk_watch_removed := bk_watch_removed bk @ [handle]\<rparr>)
          in (write_hdr cap bk 0 0, bk)
      | (None, t) \<Rightarrow> (write_error_resp cap bk StBadHandle 0, bk))"

end
