(* ===== verification/RmCtrlPlan.thy ===== *)
theory RmCtrlPlan
  imports Backend Segments
begin

text \<open>
  Pointers inside an RM control's parameters (\<open>device/src/nvidia/rmctrl.rs\<close>): what each described pointer
  needs (\<open>plan\<close>), the buffers the backend gives them (\<open>install\<close>), and what goes back (\<open>restore\<close>,
  \<open>reply\<close>). A slice out of range is a panic and is the outer \<open>None\<close>.
\<close>

abbreviation (input) NV_ERR_NOT_SUPPORTED :: nat where "NV_ERR_NOT_SUPPORTED \<equiv> 0x56"
abbreviation (input) NV_ERR_NO_MEMORY :: nat where "NV_ERR_NO_MEMORY \<equiv> 0x51"
abbreviation (input) MAX_TOTAL_BYTES :: nat where "MAX_TOTAL_BYTES \<equiv> 2 * MAX_EMBEDDED_BYTES"

record slot =
  sl_ptr :: nat
  sl_len :: nat
  sl_in :: bool
  sl_out :: bool

datatype source = FromSegment | FromLegacy

type_synonym legacy = "(nat \<times> bytes) option"

text \<open>What the guest sent for one pointer, from either encoding.\<close>

definition sent :: "seg_table option \<Rightarrow> legacy \<Rightarrow> nat \<Rightarrow> (bytes \<times> source) option" where
  "sent segs legacy ptr =
     (case Option.bind segs (\<lambda>s. seg_find s (ptr mod 2 ^ 32)) of
        Some b \<Rightarrow> Some (b, FromSegment)
      | None \<Rightarrow>
          (case legacy of
             Some (off, b) \<Rightarrow> if off = ptr then Some (b, FromLegacy) else None
           | None \<Rightarrow> None))"

text \<open>Whether the bytes sent for a pointer RM reads through are as many as its length admits.\<close>

definition sent_ok :: "(bytes \<times> source) option \<Rightarrow> nat \<Rightarrow> bool" where
  "sent_ok s len =
     (case s of
        Some (b, FromSegment) \<Rightarrow> length b = len
      | Some (b, FromLegacy) \<Rightarrow> length b \<le> len
      | None \<Rightarrow> False)"

fun plan_ptrs :: "bytes \<Rightarrow> seg_table option \<Rightarrow> legacy \<Rightarrow> nat \<Rightarrow> embedded_ptr list \<Rightarrow> (nat + slot list) option" where
  "plan_ptrs params segs legacy tot [] = Some (Inr [])"
| "plan_ptrs params segs legacy tot (p # ps) =
     (case get_u64 params (ep_offset p) of
        None \<Rightarrow> None
      | Some guest \<Rightarrow>
          if guest = 0 then plan_ptrs params segs legacy tot ps
          else (case ep_bytes p params of
                  None \<Rightarrow> Some (Inl NV_ERR_NOT_SUPPORTED)
                | Some len \<Rightarrow>
                    let tot = min (tot + len) u64_max in
                    if tot > MAX_TOTAL_BYTES then Some (Inl NV_ERR_NOT_SUPPORTED)
                    else if ep_in p \<and> len > 0 \<and> \<not> sent_ok (sent segs legacy (ep_offset p)) len
                    then Some (Inl NV_ERR_NOT_SUPPORTED)
                    else map_option (map_sum id (Cons
                           \<lparr>sl_ptr = ep_offset p, sl_len = len, sl_in = ep_in p, sl_out = ep_out p\<rparr>))
                         (plan_ptrs params segs legacy tot ps)))"

definition plan :: "rmctrl_entry \<Rightarrow> bytes \<Rightarrow> seg_table option \<Rightarrow> legacy \<Rightarrow> (nat + slot list) option" where
  "plan e params segs legacy =
     (if rc_refuse e then Some (Inl NV_ERR_NOT_SUPPORTED)
      else if length params < rc_size e then Some (Inl NV_ERR_NOT_SUPPORTED)
      else plan_ptrs params segs legacy 0 (rc_ptrs e))"

definition reply_fits :: "slot list \<Rightarrow> nat \<Rightarrow> bool \<Rightarrow> bool" where
  "reply_fits slots have segmented =
     (let lens = map sl_len (filter (\<lambda>s. sl_out s \<and> sl_len s > 0) slots) in
      if lens = [] then True
      else if \<not> segmented then length lens = 1 \<and> hd lens \<le> have
      else (case seg_encoded_len lens of Some n \<Rightarrow> n \<le> have | None \<Rightarrow> False))"

text \<open>One installed pointer: its buffer with what it holds, and the guest's own value of the field.\<close>

record embedded =
  em_slot :: slot
  em_buf :: guarded_buf
  em_data :: bytes
  em_saved :: bytes

definition embedded_fill :: "slot \<Rightarrow> (bytes \<times> source) option \<Rightarrow> bytes option" where
  "embedded_fill s got =
     (let zero = replicate (max (sl_len s) 1) 0 in
      if sl_in s then
        (case got of
           None \<Rightarrow> Some zero
         | Some (b, _) \<Rightarrow> if length b \<le> length zero then Some (put_at zero 0 b) else None)
      else Some zero)"

text \<open>
  The left result is a status with the block as far as it was rewritten when the buffers ran out; the leases
  taken so far end with it.
\<close>

fun install ::
  "env \<Rightarrow> seg_table option \<Rightarrow> legacy \<Rightarrow> slot list \<Rightarrow> bytes \<Rightarrow> embedded list \<Rightarrow> backend \<Rightarrow>
     ((nat \<times> bytes + bytes \<times> embedded list) \<times> backend) option" where
  "install E segs legacy [] params acc bk = Some (Inr (params, acc), bk)"
| "install E segs legacy (s # ss) params acc bk =
     (case lease E (max (sl_len s) 1) bk of
        (None, bk) \<Rightarrow> Some (Inl (NV_ERR_NO_MEMORY, params), fold (release_lease \<circ> em_buf) acc bk)
      | (Some b, bk) \<Rightarrow>
          (case embedded_fill s (sent segs legacy (sl_ptr s)) of
             None \<Rightarrow> None
           | Some contents \<Rightarrow>
               (case slice_at params (sl_ptr s) 8 of
                  None \<Rightarrow> None
                | Some saved \<Rightarrow>
                    install E segs legacy ss (put_at params (sl_ptr s) (le_bytes 8 (gb_ptr b)))
                      (acc @ [\<lparr>em_slot = s, em_buf = b, em_data = contents, em_saved = saved\<rparr>]) bk)))"

definition restore_ptrs :: "embedded list \<Rightarrow> bytes \<Rightarrow> bytes" where
  "restore_ptrs es params = fold (\<lambda>e p. put_at p (sl_ptr (em_slot e)) (em_saved e)) es params"

definition embedded_reply :: "embedded list \<Rightarrow> (nat \<times> bytes) list" where
  "embedded_reply es =
     map (\<lambda>e. (sl_ptr (em_slot e) mod 2 ^ 32, take (sl_len (em_slot e)) (em_data e)))
       (filter (\<lambda>e. sl_out (em_slot e) \<and> sl_len (em_slot e) > 0) es)"

section \<open>Lemmas\<close>

lemma slice_at_SomeD: "slice_at b at n = Some s \<Longrightarrow> at + n \<le> length b \<and> s = take n (drop at b) \<and> length s = n"
  by (auto simp: slice_at_def split: if_splits)

text \<open>What an installation leaves: the block keeps its length, and there is one entry per slot, in order.\<close>

lemma install_keeps:
  assumes "install E segs legacy ss params acc bk = Some (Inr (params', es), bk')"
  shows "length params' = length params \<and> (\<exists>new. es = acc @ new \<and> map em_slot new = ss)"
  using assms
proof (induction ss arbitrary: params acc bk)
  case Nil
  then show ?case by simp
next
  case (Cons s ss)
  from Cons.prems obtain b bk1 contents saved where
      "lease E (max (sl_len s) 1) bk = (Some b, bk1)"
    and sl: "slice_at params (sl_ptr s) 8 = Some saved"
    and rest: "install E segs legacy ss (put_at params (sl_ptr s) (le_bytes 8 (gb_ptr b)))
        (acc @ [\<lparr>em_slot = s, em_buf = b, em_data = contents, em_saved = saved\<rparr>]) bk1 = Some (Inr (params', es), bk')"
    by (auto split: prod.splits option.splits)
  from Cons.IH [OF rest] slice_at_SomeD [OF sl] show ?case by auto
qed

lemma install_refuses_keeps:
  assumes "install E segs legacy ss params acc bk = Some (Inl (st, params'), bk')"
  shows "length params' = length params"
  using assms
proof (induction ss arbitrary: params acc bk)
  case Nil
  then show ?case by simp
next
  case (Cons s ss)
  show ?case
  proof (cases "lease E (max (sl_len s) 1) bk")
    case (Pair g bk1)
    show ?thesis
    proof (cases g)
      case None
      with Cons.prems Pair show ?thesis by simp
    next
      case (Some b)
      with Cons.prems Pair obtain contents saved where
          sl: "slice_at params (sl_ptr s) 8 = Some saved"
        and rest: "install E segs legacy ss (put_at params (sl_ptr s) (le_bytes 8 (gb_ptr b)))
          (acc @ [\<lparr>em_slot = s, em_buf = b, em_data = contents, em_saved = saved\<rparr>]) bk1 = Some (Inl (st, params'), bk')"
        by (auto split: option.splits)
      from Cons.IH [OF rest] slice_at_SomeD [OF sl] show ?thesis by simp
    qed
  qed
qed

section \<open>What RM is given\<close>

text \<open>Two ranges of a block that share no byte, and a control whose pointers and counts are such ranges.\<close>

definition apart :: "nat \<Rightarrow> nat \<Rightarrow> nat \<Rightarrow> nat \<Rightarrow> bool" where
  "apart a n b m \<longleftrightarrow> a + n \<le> b \<or> b + m \<le> a"

fun count_apart :: "elem_count \<Rightarrow> nat \<Rightarrow> bool" where
  "count_apart (CFixed n) at \<longleftrightarrow> True"
| "count_apart (CField offset width) at \<longleftrightarrow> apart offset width at 8"
| "count_apart (CSquared offset width) at \<longleftrightarrow> apart offset width at 8"

definition ptrs_apart :: "embedded_ptr list \<Rightarrow> bool" where
  "ptrs_apart ps \<longleftrightarrow> sorted_wrt (\<lambda>a b. apart a 8 b 8) (map ep_offset ps) \<and>
     list_all (\<lambda>p. list_all (\<lambda>q. count_apart (ep_count p) (ep_offset q)) ps) ps"

text \<open>Each pointer is null or the address of a buffer as long as RM will take it to be, and never empty.\<close>

definition pointers_served :: "embedded_ptr list \<Rightarrow> bytes \<Rightarrow> (nat \<times> bytes) list \<Rightarrow> bool" where
  "pointers_served ps buf bs \<longleftrightarrow>
     (\<forall>p \<in> set ps. u64_at buf (ep_offset p) = 0 \<or>
        (\<exists>x \<in> set bs. take 8 (drop (ep_offset p) buf) = le_bytes 8 (fst x) \<and>
           (\<exists>n. ep_bytes p buf = Some n \<and> length (snd x) = max n 1)))"

lemma take_drop_put_at_apart:
  "apart a n p (length ys) \<Longrightarrow> p + length ys \<le> length xs \<Longrightarrow> take n (drop a (put_at xs p ys)) = take n (drop a xs)"
  by (auto simp: apart_def take_drop_put_at_before take_drop_put_at_after)

text \<open>The slots of a plan: one for each pointer that is not null, in order, with the length RM will use.\<close>

lemma plan_ptrs_spec:
  assumes "plan_ptrs params segs legacy n ps = Some (Inr ss)"
  shows "(\<forall>p \<in> set ps. u64_at params (ep_offset p) = 0 \<or>
      (\<exists>s \<in> set ss. sl_ptr s = ep_offset p \<and> ep_bytes p params = Some (sl_len s))) \<and>
    (\<forall>s \<in> set ss. sl_ptr s + 8 \<le> length params \<and> sl_ptr s \<in> ep_offset ` set ps \<and> u64_at params (sl_ptr s) \<noteq> 0) \<and>
    (sorted_wrt (\<lambda>a b. apart a 8 b 8) (map ep_offset ps) \<longrightarrow> sorted_wrt (\<lambda>a b. apart a 8 b 8) (map sl_ptr ss))"
  using assms
proof (induction params segs legacy n ps arbitrary: ss rule: plan_ptrs.induct)
  case (1 params segs legacy tot)
  then show ?case by simp
next
  case (2 params segs legacy tot p ps)
  obtain guest where g: "get_u64 params (ep_offset p) = Some guest"
    using 2(3) by (auto split: option.splits)
  show ?case
  proof (cases "guest = 0")
    case True
    with 2 g show ?thesis by (fastforce simp: get_le_Some_iff)
  next
    case False
    with 2(3) g obtain len ss' where
        l: "ep_bytes p params = Some len" "\<not> min (tot + len) u64_max > MAX_TOTAL_BYTES"
          "\<not> (ep_in p \<and> len > 0 \<and> \<not> sent_ok (sent segs legacy (ep_offset p)) len)"
        and rest: "plan_ptrs params segs legacy (min (tot + len) u64_max) ps = Some (Inr ss')"
        and ss: "ss = \<lparr>sl_ptr = ep_offset p, sl_len = len, sl_in = ep_in p, sl_out = ep_out p\<rparr> # ss'"
      by (auto simp: Let_def map_sum_Inr_iff split: option.splits if_splits)
    from 2(2) [OF g False l(1) refl l(2,3) rest] l(1) g False show ?thesis
      by (auto simp: ss get_le_Some_iff)
  qed
qed

lemma plan_spec:
  assumes "plan e params segs legacy = Some (Inr ss)"
  shows "plan_ptrs params segs legacy 0 (rc_ptrs e) = Some (Inr ss)"
  using assms by (simp add: plan_def split: if_splits)

lemma embedded_fill_length: "embedded_fill s got = Some d \<Longrightarrow> length d = max (sl_len s) 1"
  by (auto simp: embedded_fill_def Let_def split: if_splits option.splits prod.splits)

lemma install_spec:
  assumes "install E segs legacy ss params acc bk = Some (Inr (params', es), bk')"
    and "sorted_wrt (\<lambda>a b. apart a 8 b 8) (map sl_ptr ss)"
  shows "(\<forall>a n. (\<forall>s \<in> set ss. apart a n (sl_ptr s) 8) \<longrightarrow> take n (drop a params') = take n (drop a params)) \<and>
    (\<forall>s \<in> set ss. \<exists>e \<in> set es. em_slot e = s \<and> take 8 (drop (sl_ptr s) params') = le_bytes 8 (gb_ptr (em_buf e)) \<and>
       length (em_data e) = max (sl_len s) 1)"
  using assms
proof (induction ss arbitrary: params acc bk)
  case Nil
  then show ?case by simp
next
  case (Cons s ss)
  from Cons.prems(1) obtain b bk1 contents saved where
      fill: "embedded_fill s (sent segs legacy (sl_ptr s)) = Some contents"
    and sl: "slice_at params (sl_ptr s) 8 = Some saved"
    and rest: "install E segs legacy ss (put_at params (sl_ptr s) (le_bytes 8 (gb_ptr b)))
        (acc @ [\<lparr>em_slot = s, em_buf = b, em_data = contents, em_saved = saved\<rparr>]) bk1 = Some (Inr (params', es), bk')"
    by (auto split: prod.splits option.splits)
  let ?p = "put_at params (sl_ptr s) (le_bytes 8 (gb_ptr b))" and ?e = "\<lparr>em_slot = s, em_buf = b, em_data = contents, em_saved = saved\<rparr>"
  note inside = slice_at_SomeD [OF sl]
  from Cons.IH [OF rest] Cons.prems(2) have
      away: "(\<forall>x \<in> set ss. apart a n (sl_ptr x) 8) \<Longrightarrow> take n (drop a params') = take n (drop a ?p)" and
      others: "\<forall>x \<in> set ss. \<exists>e \<in> set es. em_slot e = x \<and> take 8 (drop (sl_ptr x) params') = le_bytes 8 (gb_ptr (em_buf e)) \<and>
        length (em_data e) = max (sl_len x) 1" for a n
    by simp_all
  have "?e \<in> set es" using install_keeps [OF rest] by auto
  moreover have "take 8 (drop (sl_ptr s) params') = le_bytes 8 (gb_ptr b)"
    using away [of "sl_ptr s" 8] Cons.prems(2) inside take_drop_put_at_same [of "sl_ptr s" "le_bytes 8 (gb_ptr b)" params] by simp
  moreover have "length contents = max (sl_len s) 1" by (rule embedded_fill_length [OF fill])
  ultimately have mine: "\<exists>e \<in> set es. em_slot e = s \<and> take 8 (drop (sl_ptr s) params') = le_bytes 8 (gb_ptr (em_buf e)) \<and>
      length (em_data e) = max (sl_len s) 1" by (intro bexI [of _ ?e]) simp_all
  have "take n (drop a params') = take n (drop a params)" if "\<forall>x \<in> set (s # ss). apart a n (sl_ptr x) 8" for a n
    using that away [of a n] inside take_drop_put_at_apart [of a n "sl_ptr s" "le_bytes 8 (gb_ptr b)" params] by simp
  with mine others show ?case by simp
qed

lemma sorted_apart:
  assumes "sorted_wrt (\<lambda>a b. apart a 8 b 8) (map ep_offset ps)" "p \<in> set ps" "q \<in> set ps" "ep_offset p \<noteq> ep_offset q"
  shows "apart (ep_offset p) 8 (ep_offset q) 8"
  using assms by (induction ps) (auto simp: apart_def)

lemma ep_bytes_cong:
  assumes "length b = length c"
    and "\<And>at w. (\<forall>q \<in> set ps. apart at w (ep_offset q) 8) \<Longrightarrow> take w (drop at b) = take w (drop at c)"
    and "\<forall>q \<in> set ps. count_apart (ep_count p) (ep_offset q)"
  shows "ep_bytes p b = ep_bytes p c"
proof -
  have read: "count_read at w b = count_read at w c" if "\<forall>q \<in> set ps. apart at w (ep_offset q) 8" for at w
    using assms(1) assms(2) [OF that] by (simp add: count_read_def slice_at_def)
  have "count_elements (ep_count p) b = count_elements (ep_count p) c"
    using assms(3) read by (cases "ep_count p") auto
  then show ?thesis by (simp add: ep_bytes_def)
qed

lemma install_serves:
  assumes plan: "plan_ptrs params segs legacy 0 ps = Some (Inr ss)" and apart: "ptrs_apart ps"
    and run: "install E segs legacy ss params [] bk = Some (Inr (params', es), bk')"
  shows "pointers_served ps params' (map (\<lambda>e. (gb_ptr (em_buf e), em_data e)) es)"
proof -
  have sorted: "sorted_wrt (\<lambda>a b. apart a 8 b 8) (map ep_offset ps)"
    and counts: "\<forall>p \<in> set ps. \<forall>q \<in> set ps. count_apart (ep_count p) (ep_offset q)"
    using apart by (simp_all add: ptrs_apart_def list_all_iff)
  have pl: "\<forall>p \<in> set ps. u64_at params (ep_offset p) = 0 \<or>
        (\<exists>s \<in> set ss. sl_ptr s = ep_offset p \<and> ep_bytes p params = Some (sl_len s))"
      "\<forall>s \<in> set ss. sl_ptr s \<in> ep_offset ` set ps \<and> u64_at params (sl_ptr s) \<noteq> 0"
      "sorted_wrt (\<lambda>a b. apart a 8 b 8) (map sl_ptr ss)"
    using plan_ptrs_spec [OF plan] sorted by simp_all
  note inst = install_spec [OF run pl(3)]
  have same: "take n (drop a params') = take n (drop a params)" if "\<forall>q \<in> set ps. apart a n (ep_offset q) 8" for a n
    using inst that pl(2) by fastforce
  have len: "length params' = length params" using install_keeps [OF run] by simp
  have bytes: "ep_bytes p params' = ep_bytes p params" if "p \<in> set ps" for p
    by (rule ep_bytes_cong [OF len same]) (use counts that in auto)
  show ?thesis
    unfolding pointers_served_def
  proof
    fix p assume p: "p \<in> set ps"
    show "u64_at params' (ep_offset p) = 0 \<or>
        (\<exists>x \<in> set (map (\<lambda>e. (gb_ptr (em_buf e), em_data e)) es). take 8 (drop (ep_offset p) params') = le_bytes 8 (fst x) \<and>
           (\<exists>n. ep_bytes p params' = Some n \<and> length (snd x) = max n 1))"
    proof (cases "u64_at params (ep_offset p) = 0")
      case True
      have "apart (ep_offset p) 8 (sl_ptr s) 8" if "s \<in> set ss" for s
        using pl(2) that True sorted_apart [OF sorted p] by fastforce
      then have "take 8 (drop (ep_offset p) params') = take 8 (drop (ep_offset p) params)" using inst by blast
      with True show ?thesis by (simp add: le_at_def)
    next
      case False
      then obtain s where s: "s \<in> set ss" "sl_ptr s = ep_offset p" "ep_bytes p params = Some (sl_len s)"
        using pl(1) p by auto
      with inst obtain e where "e \<in> set es" "take 8 (drop (ep_offset p) params') = le_bytes 8 (gb_ptr (em_buf e))"
          "length (em_data e) = max (sl_len s) 1" by metis
      with s(3) bytes [OF p] show ?thesis by auto
    qed
  qed
qed

end
