(* ===== verification/Nested.thy ===== *)
theory Nested
  imports RmCtrlPlan
begin

text \<open>
  Ioctls whose parameters point at a second block (\<open>device/src/nvidia/nested.rs\<close>): RM_CONTROL, RM_ALLOC and the
  NVKMS and DRM calls shaped like them. The result \<open>None\<close> is a panic. Log lines are not modelled, but the
  slices taken for one outside the logging macro are.
\<close>

text \<open>Descriptors the guest sent as handles: the block and what to put back afterwards.\<close>

type_synonym fd_saved = "(nat \<times> bytes) option"

definition event_fd :: "backend \<Rightarrow> nat \<Rightarrow> bytes \<Rightarrow> bytes \<times> fd_saved \<Rightarrow> bytes \<times> fd_saved" where
  "event_fd bk escape outer st =
     (case st of (buf, saved) \<Rightarrow>
        if escape = 0x2b \<and> length outer \<ge> 16 \<and> u32_at outer 12 \<in> {0x05, 0x79} \<and> length buf \<ge> 20 then
          (case ht_get_raw (bk_handles bk) (sext64 (sint32 (u32_at buf 16))) of
             Some f \<Rightarrow> (put_at buf 16 (le_bytes 4 f), Some (16, take 4 (drop 16 buf)))
           | None \<Rightarrow> (buf, saved))
        else (buf, saved))"

definition swap_fd :: "backend \<Rightarrow> nat \<Rightarrow> bytes \<Rightarrow> (bytes \<times> fd_saved) option" where
  "swap_fd bk at0 buf =
     (case ht_get_raw (bk_handles bk) (sext64 (sint32 (u32_at buf at0))) of
        Some f \<Rightarrow> Some (put_at buf at0 (le_bytes 4 f), Some (at0, take 4 (drop at0 buf)))
      | None \<Rightarrow> None)"

definition control_fd :: "backend \<Rightarrow> nat \<Rightarrow> bytes \<Rightarrow> bytes \<times> fd_saved \<Rightarrow> (bytes \<times> fd_saved) option" where
  "control_fd bk escape outer st =
     (case st of (buf, saved) \<Rightarrow>
        if escape = 0x2a \<and> length outer \<ge> 12 \<and> u32_at outer 8 = 0x3d05 \<and> length buf \<ge> 20 then swap_fd bk 16 buf
        else if escape = 0x2a \<and> length outer \<ge> 12 \<and> u32_at outer 8 = 0x3d06 \<and> length buf \<ge> 4 then swap_fd bk 0 buf
        else Some (buf, saved))"

text \<open>The three translations in order; an error is the status and errno answered.\<close>

definition translate_fds ::
  "backend \<Rightarrow> nat \<Rightarrow> bytes \<Rightarrow> nat option \<Rightarrow> bytes \<Rightarrow> status \<times> int + bytes \<times> fd_saved" where
  "translate_fds bk escape outer nfd buf =
     (case control_fd bk escape outer (event_fd bk escape outer (buf, None)) of
        None \<Rightarrow> Inl (StBadHandle, 0)
      | Some (buf, saved) \<Rightarrow>
          (case nfd of
             None \<Rightarrow> Inr (buf, saved)
           | Some off \<Rightarrow>
               if length buf < off + 4 then Inl (StInvalidMsgType, EINVAL)
               else (case swap_fd bk off buf of None \<Rightarrow> Inl (StBadHandle, 0) | Some r \<Rightarrow> Inr r)))"

text \<open>The segment table of a deep block, and the control the release's table describes.\<close>

definition deep_segments :: "(nat \<times> bytes) option \<Rightarrow> seg_table option" where
  "deep_segments deep =
     (case deep of Some (off, b) \<Rightarrow> if off mod 2 ^ 32 = SEGMENTED then seg_parse b else None | None \<Rightarrow> None)"

definition deep_legacy :: "(nat \<times> bytes) option \<Rightarrow> legacy" where
  "deep_legacy deep =
     (case deep of Some (off, b) \<Rightarrow> if off mod 2 ^ 32 \<noteq> SEGMENTED then Some (off, b) else None | None \<Rightarrow> None)"

definition described :: "backend \<Rightarrow> nat \<Rightarrow> bytes \<Rightarrow> rmctrl_entry option" where
  "described bk escape outer =
     (if escape = 0x2a \<and> length outer \<ge> 12 then
        Option.bind (bk_rmctrl bk) (\<lambda>sel. rmctrl_lookup (rs_table sel) (u32_at outer 8))
      else None)"

definition drift_refused :: "backend \<Rightarrow> nat \<Rightarrow> bytes \<Rightarrow> bool" where
  "drift_refused bk escape outer \<longleftrightarrow> escape = 0x2a \<and> length outer \<ge> 12 \<and>
     (case bk_rmctrl bk of
        None \<Rightarrow> True
      | Some sel \<Rightarrow> rmctrl_lookup (rs_table sel) (u32_at outer 8) = None \<and> \<not> rs_exact sel \<and>
          rmctrl_in_any_table (u32_at outer 8))"

definition put_rights :: "bytes option \<Rightarrow> bytes \<Rightarrow> bytes" where
  "put_rights rights outer = (case rights of Some saved \<Rightarrow> put_at outer 24 saved | None \<Rightarrow> outer)"

text \<open>A refusal: the status in RM's own word, the caller's pointer back, the nested block as it stands.\<close>

definition refuse_nested :: "nat \<Rightarrow> backend \<Rightarrow> nat \<Rightarrow> nat \<Rightarrow> bytes \<Rightarrow> bytes option \<Rightarrow> bytes \<Rightarrow> bytes \<Rightarrow> bytes" where
  "refuse_nested cap bk st ptr_offset caller_ptr rights outer buf =
     (let outer = (if length outer \<ge> 32 then put_at outer 28 (le_bytes 4 st) else outer);
          outer = put_rights rights (put_at outer ptr_offset caller_ptr)
      in write_ioctl_resp_deep cap bk (outer @ buf) 0)"

text \<open>A described control's pointers: \<open>Inl\<close> is the refusal with the block to send back.\<close>

definition embed ::
  "env \<Rightarrow> rmctrl_entry option \<Rightarrow> (nat \<times> bytes) option \<Rightarrow> bytes \<Rightarrow> backend \<Rightarrow>
     ((nat \<times> bytes + bytes \<times> embedded list option) \<times> backend) option" where
  "embed E entry deep buf bk =
     (case entry of
        None \<Rightarrow> Some (Inr (buf, None), bk)
      | Some e \<Rightarrow>
          let segs = deep_segments deep; legacy = deep_legacy deep;
              have = (case deep of Some (_, b) \<Rightarrow> length b | None \<Rightarrow> 0) in
          (case plan e buf segs legacy of
             None \<Rightarrow> None
           | Some (Inl st) \<Rightarrow> Some (Inl (st, buf), bk)
           | Some (Inr slots) \<Rightarrow>
               if \<not> reply_fits slots have (segs \<noteq> None) then Some (Inl (NV_ERR_NOT_SUPPORTED, buf), bk)
               else (case install E segs legacy slots buf [] bk of
                       None \<Rightarrow> None
                     | Some (Inl r, bk) \<Rightarrow> Some (Inl r, bk)
                     | Some (Inr (buf, es), bk) \<Rightarrow> Some (Inr (buf, Some es), bk))))"

text \<open>
  The single pointer an undescribed call may carry: the padded buffer, its address, where the pointer sits
  and the guest's value of it. The left result is the refusal.
\<close>

definition deep_pointer ::
  "env \<Rightarrow> (nat \<times> bytes) option \<Rightarrow> bool \<Rightarrow> bytes \<Rightarrow> backend \<Rightarrow>
     unit + bytes \<times> (nat \<times> bytes) option \<times> (nat \<times> bytes) option" where
  "deep_pointer E deep taken buf bk =
     (case deep of
        None \<Rightarrow> Inr (buf, None, None)
      | Some (off, b) \<Rightarrow>
          if taken \<or> deep_segments deep \<noteq> None then Inr (buf, None, None)
          else if off + 8 > length buf then Inl ()
          else
            let n = max (length b) 65536; a = en_heap E (bk_trace bk) n in
            Inr (put_at buf off (le_bytes 8 a), Some (a, b @ replicate (n - length b) 0),
                 Some (off, take 8 (drop off buf))))"

text \<open>What the deep block of the reply holds; \<open>None\<close> is a slice past the buffer's end.\<close>

definition deep_reply ::
  "(nat \<times> bytes) option \<Rightarrow> embedded list option \<Rightarrow> bytes option \<Rightarrow> bytes option" where
  "deep_reply deep es deep_buf =
     (let asked = (case deep of Some (_, b) \<Rightarrow> length b | None \<Rightarrow> 0);
          own = (case deep_buf of Some b \<Rightarrow> b | None \<Rightarrow> []) in
      case es of
        None \<Rightarrow> if asked \<le> length own then Some (take asked own) else None
      | Some es \<Rightarrow>
          let out = embedded_reply es in
          if out = [] then Some []
          else if deep_segments deep = None then Some (snd (hd out))
          else (case seg_encode asked out of
                  Some b \<Rightarrow> Some (b @ replicate (asked - length b) 0)
                | None \<Rightarrow> Some (replicate asked 0)))"

text \<open>The call with a nested block, from the forwarded pointers to the reply.\<close>

definition nested_forward ::
  "env \<Rightarrow> nat \<Rightarrow> fd \<Rightarrow> nat \<Rightarrow> (nat \<times> bytes) option \<Rightarrow> nat \<Rightarrow> bytes \<Rightarrow> bytes option \<Rightarrow> fd_saved \<Rightarrow>
     guarded_buf \<Rightarrow> bytes \<Rightarrow> bytes \<Rightarrow> embedded list option \<Rightarrow> backend \<Rightarrow> (bytes \<times> backend) option" where
  "nested_forward E cap host_fd request deep ptr_offset caller_ptr rights saved g outer buf es bk =
     (case deep_pointer E deep (es \<noteq> None) buf bk of
        Inl () \<Rightarrow> Some (write_error_resp cap bk StInvalidMsgType EINVAL, bk)
      | Inr (buf, deep_buf, deep_saved) \<Rightarrow>
          let bufs = (gb_ptr g, buf) # map (\<lambda>e. (gb_ptr (em_buf e), em_data e)) (case es of Some es \<Rightarrow> es | None \<Rightarrow> []) @
                     (case deep_buf of Some d \<Rightarrow> [d] | None \<Rightarrow> []) in
          (case host_ioctl E host_fd request outer bufs bk of
             (Some errno, _, _, bk) \<Rightarrow> Some (write_error_resp cap bk StIoctlFailed errno, bk)
           | (None, outer, bufs, bk) \<Rightarrow>
               let datas = map snd bufs;
                   buf = hd datas;
                   es = map_option (\<lambda>es. map2 (\<lambda>e d. e\<lparr>em_data := d\<rparr>) es (tl datas)) es;
                   deep_buf = map_option (\<lambda>_. last datas) deep_buf;
                   buf = (case saved of Some (off, v) \<Rightarrow> put_at buf off v | None \<Rightarrow> buf);
                   outer = put_rights rights (put_at outer ptr_offset caller_ptr);
                   buf = (case deep_saved of Some (off, v) \<Rightarrow> put_at buf off v | None \<Rightarrow> buf);
                   buf = (case es of Some es \<Rightarrow> restore_ptrs es buf | None \<Rightarrow> buf) in
               (case deep_reply deep es deep_buf of
                  None \<Rightarrow> None
                | Some d \<Rightarrow> Some (write_ioctl_resp_deep cap bk (outer @ buf @ d) (length d), bk))))"

definition nested_with_block ::
  "env \<Rightarrow> nat \<Rightarrow> fd \<Rightarrow> nat \<Rightarrow> (nat \<times> bytes) option \<Rightarrow> nat option \<Rightarrow> nat \<Rightarrow> bytes \<Rightarrow> bytes option \<Rightarrow>
     guarded_buf \<Rightarrow> bytes \<Rightarrow> bytes \<Rightarrow> backend \<Rightarrow> (bytes \<times> backend) option" where
  "nested_with_block E cap host_fd request deep nfd ptr_offset caller_ptr rights g outer buf bk =
     (let escape = request mod 256 in
      case translate_fds bk escape outer nfd buf of
        Inl (st, errno) \<Rightarrow> Some (write_error_resp cap bk st errno, bk)
      | Inr (buf, saved) \<Rightarrow>
          let outer = put_at outer ptr_offset (le_bytes 8 (gb_ptr g)) in
          if drift_refused bk escape outer then
            Some (refuse_nested cap bk NV_ERR_NOT_SUPPORTED ptr_offset caller_ptr rights outer buf, bk)
          else (case embed E (described bk escape outer) deep buf bk of
                  None \<Rightarrow> None
                | Some (Inl (st, buf), bk) \<Rightarrow> Some (refuse_nested cap bk st ptr_offset caller_ptr None outer buf, bk)
                | Some (Inr (buf, es), bk) \<Rightarrow>
                    map_option (\<lambda>(r, bk). (r, fold (release_lease \<circ> em_buf) (case es of Some es \<Rightarrow> es | None \<Rightarrow> []) bk))
                      (nested_forward E cap host_fd request deep ptr_offset caller_ptr rights saved g outer buf es bk)))"

text \<open>The call without one; its log line slices the block whatever the log level.\<close>

definition nested_flat ::
  "env \<Rightarrow> nat \<Rightarrow> fd \<Rightarrow> nat \<Rightarrow> nat \<Rightarrow> bytes \<Rightarrow> bytes option \<Rightarrow> bytes \<Rightarrow> backend \<Rightarrow> (bytes \<times> backend) option" where
  "nested_flat E cap host_fd request ptr_offset caller_ptr rights outer bk =
     (let escape = request mod 256 in
      case host_ioctl E host_fd request outer [] bk of
        (Some errno, _, _, bk) \<Rightarrow> Some (write_error_resp cap bk StIoctlFailed errno, bk)
      | (None, outer, _, bk) \<Rightarrow>
          if escape = 0x2a \<and> length outer < 32 \<or> escape = 0x2b \<and> length outer < 44 then None
          else Some (write_ioctl_resp cap bk (put_rights rights (put_at outer ptr_offset caller_ptr)), bk))"

definition dispatch_nested ::
  "env \<Rightarrow> nat \<Rightarrow> fd \<Rightarrow> nat \<Rightarrow> bytes \<Rightarrow> nat \<Rightarrow> nat \<Rightarrow> (nat \<times> bytes) option \<Rightarrow> nat option \<Rightarrow> backend \<Rightarrow>
     (bytes \<times> backend) option" where
  "dispatch_nested E cap host_fd request param_in outer_size ptr_offset deep nfd bk =
     (if length param_in < outer_size then Some (write_error_resp cap bk StIoctlFailed EINVAL, bk)
      else
        let outer = take outer_size param_in; nested_in = drop outer_size param_in in
        (case slice_at param_in ptr_offset 8 of
           None \<Rightarrow> None
         | Some caller_ptr \<Rightarrow>
             let rights = (if request mod 256 = 0x2b \<and> length outer \<ge> 32 then Some (take 8 (drop 24 outer)) else None);
                 outer = (if rights = None then outer else put_at outer 24 (replicate 8 0)) in
             if nested_in = [] then nested_flat E cap host_fd request ptr_offset caller_ptr rights outer bk
             else (case lease E (length nested_in) bk of
                     (None, bk) \<Rightarrow> Some (write_error_resp cap bk StIoctlFailed ENOMEM, bk)
                   | (Some g, bk) \<Rightarrow>
                       map_option (\<lambda>(r, bk). (r, release_lease g bk))
                         (nested_with_block E cap host_fd request deep nfd ptr_offset caller_ptr rights g outer nested_in bk))))"

section \<open>Lemmas\<close>

lemma length_swap_fd: "swap_fd bk at0 buf = Some (b, s) \<Longrightarrow> at0 + 4 \<le> length buf \<Longrightarrow> length b = length buf"
  by (auto simp: swap_fd_def split: option.splits)

lemma length_event_fd: "event_fd bk e outer (buf, s) = (b, s') \<Longrightarrow> length b = length buf"
  by (auto simp: event_fd_def split: if_splits option.splits)

lemma length_control_fd: "control_fd bk e outer (buf, s) = Some (b, s') \<Longrightarrow> length b = length buf"
  by (auto simp: control_fd_def split: if_splits dest: length_swap_fd)

lemma length_translate_fds:
  assumes "translate_fds bk e outer nfd buf = Inr (b, s)"
  shows "length b = length buf"
proof -
  obtain b1 s1 where 1: "event_fd bk e outer (buf, None) = (b1, s1)" by (cases "event_fd bk e outer (buf, None)")
  with assms obtain b2 s2 where 2: "control_fd bk e outer (b1, s1) = Some (b2, s2)"
    by (auto simp: translate_fds_def split: option.splits)
  note l = length_event_fd [OF 1] length_control_fd [OF 2]
  show ?thesis
  proof (cases nfd)
    case None
    with assms 1 2 l show ?thesis by (simp add: translate_fds_def)
  next
    case (Some off)
    with assms 1 2 have "off + 4 \<le> length b2" "swap_fd bk off b2 = Some (b, s)"
      by (auto simp: translate_fds_def split: option.splits if_splits)
    with l show ?thesis by (simp add: length_swap_fd)
  qed
qed

lemma length_deep_pointer: "deep_pointer E deep taken buf bk = Inr (b, d, s) \<Longrightarrow> length b = length buf"
  by (auto simp: deep_pointer_def Let_def split: option.splits if_splits)

lemma length_embed: "embed E entry deep buf bk = Some (Inr (b, es), bk') \<Longrightarrow> length b = length buf"
  by (auto simp: embed_def Let_def split: option.splits sum.splits if_splits prod.splits dest: install_keeps)

text \<open>The buffers a described control's pointers reach, as the host gets them.\<close>

definition embedded_bufs :: "embedded list \<Rightarrow> (nat \<times> bytes) list" where
  "embedded_bufs es = map (\<lambda>e. (gb_ptr (em_buf e), em_data e)) es"

lemma embed_serves:
  assumes "embed E (Some e) deep buf bk = Some (Inr (b, es), bk')" "ptrs_apart (rc_ptrs e)"
  shows "\<exists>l. es = Some l \<and> pointers_served (rc_ptrs e) b (embedded_bufs l)"
proof -
  obtain ss where p: "plan e buf (deep_segments deep) (deep_legacy deep) = Some (Inr ss)"
    using assms(1) by (auto simp: embed_def Let_def split: option.splits sum.splits)
  with assms(1) obtain l where "install E (deep_segments deep) (deep_legacy deep) ss buf [] bk = Some (Inr (b, l), bk')" "es = Some l"
    by (auto simp: embed_def Let_def split: if_splits option.splits sum.splits prod.splits)
  then show ?thesis
    using install_serves [OF plan_spec [OF p] assms(2)] unfolding embedded_bufs_def by blast
qed

text \<open>
  What a forwarded block is of the one the guest sent: the same outside the pointer and, for an allocation, the
  rights; the pointer addresses a buffer as long as the nested block, or is the guest's own where there is none;
  and the pointers inside the nested block of a described control are served.
\<close>

definition block_forwarded :: "backend \<Rightarrow> nat \<Rightarrow> bytes \<Rightarrow> nat \<Rightarrow> nat \<Rightarrow> bytes \<Rightarrow> (nat \<times> bytes) list \<Rightarrow> bool" where
  "block_forwarded bk request param outer_size ptr b bs \<longleftrightarrow>
     length b = outer_size \<and> outer_size \<le> length param \<and>
     (\<forall>i < outer_size. \<not> (ptr \<le> i \<and> i < ptr + 8) \<and> \<not> (request mod 256 = 0x2b \<and> 24 \<le> i \<and> i < 32) \<longrightarrow>
        b ! i = param ! i) \<and>
     (if length param = outer_size then bs = []
      else bs \<noteq> [] \<and> length (snd (hd bs)) = length param - outer_size \<and>
        take 8 (drop ptr b) = le_bytes 8 (fst (hd bs)) \<and>
        (\<forall>e. described bk (request mod 256) b = Some e \<and> ptrs_apart (rc_ptrs e) \<longrightarrow>
           pointers_served (rc_ptrs e) (snd (hd bs)) (tl bs)))"

lemma block_forwarded_same:
  assumes "block_forwarded bk request param outer_size ptr b bs" "p + n \<le> ptr \<or> ptr + 8 \<le> p" "p + n \<le> outer_size"
    "request mod 256 \<noteq> 0x2b \<or> p + n \<le> 24 \<or> 32 \<le> p"
  shows "le_at n b p = le_at n param p"
proof -
  have len: "length b = outer_size" "outer_size \<le> length param" using assms(1) by (simp_all add: block_forwarded_def)
  have "take n (drop p b) = take n (drop p param)"
  proof (rule nth_equalityI)
    show "length (take n (drop p b)) = length (take n (drop p param))" using len assms(3) by simp
  next
    fix i assume "i < length (take n (drop p b))"
    then have i: "i < n" "p + i < outer_size" using assms(3) len by auto
    have "b ! (p + i) = param ! (p + i)"
      using assms(1,2,4) i unfolding block_forwarded_def by auto
    with i len assms(3) show "take n (drop p b) ! i = take n (drop p param) ! i" by simp
  qed
  then show ?thesis by (simp add: le_at_def)
qed

end
