(* ===== verification/Simple.thy ===== *)
theory Simple
  imports Backend
begin

text \<open>
  Ioctls forwarded as one flat parameter block (\<open>device/src/nvidia/simple.rs\<close>), and what the first successful
  version check teaches the backend (\<open>learn_driver_version\<close> of \<open>nvidia/ioctl.rs\<close>).
\<close>

section \<open>The version reply\<close>

text \<open>
  \<open>str::trim\<close> on UTF-8: the encodings of Unicode's white space are taken off both ends. What is left parses
  as a version only if it is ASCII, so a reply that is not UTF-8 teaches nothing either way.
\<close>

definition space_codes :: "bytes list" where
  "space_codes =
     [[0x09], [0x0a], [0x0b], [0x0c], [0x0d], [0x20], [0xc2, 0x85], [0xc2, 0xa0], [0xe1, 0x9a, 0x80]] @
     map (\<lambda>x. [0xe2, 0x80, x]) [0x80, 0x81, 0x82, 0x83, 0x84, 0x85, 0x86, 0x87, 0x88, 0x89, 0x8a, 0xa8, 0xa9, 0xaf] @
     [[0xe2, 0x81, 0x9f], [0xe3, 0x80, 0x80]]"

fun strip_codes :: "nat \<Rightarrow> bytes list \<Rightarrow> bytes \<Rightarrow> bytes" where
  "strip_codes 0 cs b = b"
| "strip_codes (Suc n) cs b =
     (case find (\<lambda>c. take (length c) b = c) cs of None \<Rightarrow> b | Some c \<Rightarrow> strip_codes n cs (drop (length c) b))"

definition trim_utf8 :: "bytes \<Rightarrow> bytes" where
  "trim_utf8 b =
     (let b = strip_codes (length b) space_codes b
      in rev (strip_codes (length b) (map rev space_codes) (rev b)))"

definition version_text :: "bytes \<Rightarrow> driver_version option" where
  "version_text b =
     (let t = trim_utf8 b in
      if \<forall>x \<in> set t. unat x < 128 then dv_parse (map (\<lambda>x. char_of (unat x)) t) else None)"

definition learn_driver_version :: "bytes \<Rightarrow> backend \<Rightarrow> backend" where
  "learn_driver_version param bk =
     (if bk_driver bk \<noteq> None \<or> length param < 12 then bk
      else case version_text (takeWhile (\<lambda>x. x \<noteq> 0) (drop 8 param)) of
        None \<Rightarrow> bk
      | Some v \<Rightarrow>
          bk\<lparr>bk_driver := Some v, bk_abi := ioctl_table_for v, bk_rmctrl := rmctrl_select v,
             bk_rmallow := rm_select v, bk_uvm := uvm_select v, bk_osdesc := osdesc_select v,
             bk_vidmem := vidmem_select v\<rparr>)"

section \<open>The forwarder\<close>

text \<open>
  The first call; on \<open>EBUSY\<close> from \<open>NV_ESC_SYS_PARAMS\<close> a second one with command 2 where the first was 0, and a
  block of zeros as if it had succeeded where that fails or was not tried.
\<close>

definition dispatch_simple :: "env \<Rightarrow> nat \<Rightarrow> fd \<Rightarrow> nat \<Rightarrow> bytes \<Rightarrow> backend \<Rightarrow> bytes \<times> backend" where
  "dispatch_simple E cap host_fd request param_in bk =
     (let escape = request mod 256;
          retry = (escape = 0xd6 \<and> length param_in \<ge> 4 \<and> hd param_in = 0);
          param = (if escape = 0xd2 \<and> length param_in \<ge> 4 then put_at param_in 0 [0x32] else param_in) in
      case host_ioctl E host_fd request param [] bk of
        (None, param, _, bk) \<Rightarrow>
          let bk = (if escape = 0xd2 then learn_driver_version param bk else bk)
          in (write_ioctl_resp cap bk param, bk)
      | (Some errno, param, _, bk) \<Rightarrow>
          if escape = 0xd6 \<and> errno = EBUSY \<and> retry then
            (case host_ioctl E host_fd request (put_at param 0 [2]) [] bk of
               (None, param, _, bk) \<Rightarrow> (write_ioctl_resp cap bk param, bk)
             | (Some _, param, _, bk) \<Rightarrow> (write_ioctl_resp cap bk (replicate (length param) 0), bk))
          else if escape = 0xd6 \<and> errno = EBUSY then
            (write_ioctl_resp cap bk (replicate (length param) 0), bk)
          else (write_error_resp cap bk StIoctlFailed errno, bk))"

end
