(* ===== verification/RmFd.thy ===== *)
theory RmFd
  imports Backend
begin

text \<open>
  RM escapes that carry a descriptor or a mapping (\<open>device/src/nvidia/rm_fd.rs\<close>).
\<close>

definition fd_offset_of :: "nat \<Rightarrow> nat option" where
  "fd_offset_of escape =
     (if escape = NV_ESC_REGISTER_FD then Some 0
      else if escape = NV_ESC_ALLOC_OS_EVENT then Some 8
      else if escape = NV_ESC_FREE_OS_EVENT then Some 8
      else if escape = NV_ESC_RM_ALLOC_MEMORY then Some 48
      else None)"

definition dispatch_fd_carrying :: "env \<Rightarrow> nat \<Rightarrow> fd \<Rightarrow> nat \<Rightarrow> nat \<Rightarrow> bytes \<Rightarrow> backend \<Rightarrow> bytes \<times> backend" where
  "dispatch_fd_carrying E cap host_fd request escape param_in bk =
     (case fd_offset_of escape of
        None \<Rightarrow> (write_error_resp cap bk StIoctlFailed ENOTTY, bk)
      | Some off \<Rightarrow>
          if length param_in < off + 4 then (write_error_resp cap bk StIoctlFailed EINVAL, bk)
          else
            let emb = sint32 (u32_at param_in off) in
            if emb < 0 then
              (case host_ioctl E host_fd request param_in [] bk of
                 (Some errno, _, _, bk) \<Rightarrow> (write_error_resp cap bk StIoctlFailed errno, bk)
               | (None, param, _, bk) \<Rightarrow> (write_ioctl_resp cap bk param, bk))
            else (case ht_get_raw (bk_handles bk) (nat emb) of
              None \<Rightarrow> (write_error_resp cap bk StBadHandle 0, bk)
            | Some host_embedded \<Rightarrow>
                (case host_ioctl E host_fd request (put_at param_in off (le_bytes 4 host_embedded)) [] bk of
                   (Some errno, _, _, bk) \<Rightarrow> (write_error_resp cap bk StIoctlFailed errno, bk)
                 | (None, param, _, bk) \<Rightarrow>
                     (write_ioctl_resp cap bk (put_at param off (take 4 (drop off param_in))), bk))))"

definition dispatch_update_device_mapping_info :: "env \<Rightarrow> nat \<Rightarrow> fd \<Rightarrow> nat \<Rightarrow> bytes \<Rightarrow> backend \<Rightarrow> bytes \<times> backend" where
  "dispatch_update_device_mapping_info E cap host_fd request param_in bk =
     (if length param_in < 40 then (write_error_resp cap bk StIoctlFailed EINVAL, bk)
      else
        let host_old = (case mc_find_by_object (u32_at param_in 0) (u32_at param_in 8) (bk_active bk) of
                          Some e \<Rightarrow> me_host_addr e | None \<Rightarrow> u64_at param_in 16);
            param = put_at (put_at param_in 16 (le_bytes 8 host_old)) 24 (le_bytes 8 host_old) in
        case host_ioctl E host_fd request param [] bk of
          (Some errno, _, _, bk) \<Rightarrow> (write_error_resp cap bk StIoctlFailed errno, bk)
        | (None, param, _, bk) \<Rightarrow>
            (write_ioctl_resp cap bk (put_at (put_at param 16 (le_bytes 8 0)) 24 (le_bytes 8 0)), bk))"

text \<open>The caching type in bits 23 to 25 of the flags.\<close>

definition caching_prot :: "nat \<Rightarrow> pgprot" where
  "caching_prot flags =
     (let c = flags div 2 ^ 23 mod 8 in
      if c = 0 \<or> c = 5 then WriteBack
      else if c = 2 \<or> c = 6 then WriteCombine
      else Uncached)"

text \<open>What follows RM's success: a region of the window, the placement, the record, and the offset in place
  of the host's address.\<close>

definition map_memory_place :: "env \<Rightarrow> nat \<Rightarrow> nat \<Rightarrow> fd \<Rightarrow> bytes \<Rightarrow> backend \<Rightarrow> bytes \<times> backend" where
  "map_memory_place E cap guest_fd host_map_fd param bk =
     (let len = u64_at param 24; prot = caching_prot (u32_at param 44) in
      case shm_alloc (bk_shm bk) len prot of
        None \<Rightarrow> (write_error_resp cap bk StIoctlFailed ENOMEM, bk)
      | Some (region, shm) \<Rightarrow>
          let ok = en_place E (bk_trace bk) (sr_offset region) len host_map_fd 0;
              bk = note_event (EvPlace (sr_offset region) len host_map_fd 0) (bk\<lparr>bk_shm := shm\<rparr>) in
          if \<not> ok then
            let bk = shm_release E region bk in (write_error_resp cap bk StIoctlFailed ENOMEM, bk)
          else
            let bk = bk\<lparr>bk_active := mc_insert (sr_offset region)
                      \<lparr>me_host_addr = u64_at param 32, me_length = len, me_client = u32_at param 0,
                       me_memory = u32_at param 8, me_fd = guest_fd, me_region = region\<rparr> (bk_active bk)\<rparr>
            in (write_ioctl_resp cap bk (put_at param 32 (le_bytes 8 (sr_offset region))), bk))"

definition dispatch_map_memory :: "env \<Rightarrow> nat \<Rightarrow> fd \<Rightarrow> nat \<Rightarrow> bytes \<Rightarrow> backend \<Rightarrow> bytes \<times> backend" where
  "dispatch_map_memory E cap host_fd request param_in bk =
     (if length param_in < 56 then (write_error_resp cap bk StIoctlFailed EINVAL, bk)
      else
        let guest_fd = sext64 (sint32 (u32_at param_in 48)) in
        case ht_get_raw (bk_handles bk) guest_fd of
          None \<Rightarrow> (write_error_resp cap bk StBadHandle 0, bk)
        | Some host_map_fd \<Rightarrow>
            if \<not> bk_window bk then (write_error_resp cap bk StIoctlFailed ENOTSUP, bk)
            else
              (case host_ioctl E host_fd request (put_at param_in 48 (le_bytes 4 host_map_fd)) [] bk of
                 (Some errno, _, _, bk) \<Rightarrow> (write_error_resp cap bk StIoctlFailed errno, bk)
               | (None, param, _, bk) \<Rightarrow>
                   let rm_status = u32_at param 40;
                       param = put_at param 48 (take 4 (drop 48 param_in)) in
                   if rm_status \<noteq> 0 then (write_ioctl_resp cap bk param, bk)
                   else map_memory_place E cap guest_fd host_map_fd param bk))"

definition dispatch_unmap_memory :: "env \<Rightarrow> nat \<Rightarrow> fd \<Rightarrow> nat \<Rightarrow> bytes \<Rightarrow> backend \<Rightarrow> bytes \<times> backend" where
  "dispatch_unmap_memory E cap host_fd request param_in bk =
     (if length param_in < 32 then (write_error_resp cap bk StIoctlFailed EINVAL, bk)
      else
        let guest_linear = u64_at param_in 16 in
        case mc_remove guest_linear (bk_active bk) of
          (None, _) \<Rightarrow>
            (case host_ioctl E host_fd request param_in [] bk of
               (Some errno, _, _, bk) \<Rightarrow> (write_error_resp cap bk StIoctlFailed errno, bk)
             | (None, param, _, bk) \<Rightarrow> (write_ioctl_resp cap bk param, bk))
        | (Some e, m) \<Rightarrow>
            let bk = bk\<lparr>bk_active := m\<rparr> in
            (case host_ioctl E host_fd request (put_at param_in 16 (le_bytes 8 (me_host_addr e))) [] bk of
               (Some errno, _, _, bk) \<Rightarrow>
                 let bk = bk\<lparr>bk_active := mc_insert guest_linear e (bk_active bk)\<rparr>
                 in (write_error_resp cap bk StIoctlFailed errno, bk)
             | (None, param, _, bk) \<Rightarrow>
                 let bk = (if u32_at param 24 = 0 then shm_release E (me_region e) bk
                           else bk\<lparr>bk_active := mc_insert guest_linear e (bk_active bk)\<rparr>)
                 in (write_ioctl_resp cap bk (put_at param 16 (le_bytes 8 0)), bk)))"

end
