(* ===== verification/UvmDispatch.thy ===== *)
theory UvmDispatch
  imports Backend
begin

text \<open>
  UVM ioctls (\<open>device/src/nvidia/uvm.rs\<close>): shape and descriptors are checked, the initialisation flags are the
  backend's own. A slice out of range of the parameters is a panic, \<open>None\<close>.
\<close>

abbreviation (input) UVM_PAGEABLE_MEM_ACCESS :: nat where "UVM_PAGEABLE_MEM_ACCESS \<equiv> 0x27"
abbreviation (input) UVM_INITIALIZE :: nat where "UVM_INITIALIZE \<equiv> 0x30000001"

text \<open>\<open>uvm_descriptor\<close>: the host descriptor for the guest's, \<open>Inl ()\<close> a refusal.\<close>

definition uvm_descriptor :: "backend \<Rightarrow> fd_slot \<Rightarrow> int \<Rightarrow> bytes \<Rightarrow> (unit + int) option" where
  "uvm_descriptor bk sl raw params =
     (if fs_kind sl = FdForeign then Some (Inl ())
      else if raw = -1 then Some (Inr (-1))
      else if raw < 0 then Some (Inl ())
      else case ht_get_raw (bk_handles bk) (nat raw) of
        None \<Rightarrow> Some (Inl ())
      | Some f \<Rightarrow>
          let want = (case fs_kind sl of FdCtl \<Rightarrow> Ctl | _ \<Rightarrow> Uvm) in
          if map_of (bk_kinds bk) (nat raw) \<noteq> Some want then Some (Inl ())
          else (case fs_handle sl of
                  None \<Rightarrow> Some (Inr (int f))
                | Some at0 \<Rightarrow>
                    (case get_u32 params at0 of
                       None \<Rightarrow> None
                     | Some client \<Rightarrow>
                         if vram_issued (bk_vram bk) (nat raw) client then Some (Inr (int f)) else Some (Inl ()))))"

text \<open>The loop over the descriptor slots: the rewritten block and what to put back, or the refusal.\<close>

fun uvm_translate ::
  "backend \<Rightarrow> fd_slot list \<Rightarrow> bytes \<Rightarrow> (nat \<times> bytes) list \<Rightarrow> (unit + bytes \<times> (nat \<times> bytes) list) option" where
  "uvm_translate bk [] param restore = Some (Inr (param, restore))"
| "uvm_translate bk (sl # sls) param restore =
     (case slice_at param (fs_at sl) 4 of
        None \<Rightarrow> None
      | Some raw \<Rightarrow>
          (case uvm_descriptor bk sl (sint32 (of_le raw)) param of
             None \<Rightarrow> None
           | Some (Inl ()) \<Rightarrow> Some (Inl ())
           | Some (Inr host) \<Rightarrow>
               uvm_translate bk sls (put_at param (fs_at sl) (le_bytes 4 (of_sint32 host))) (restore @ [(fs_at sl, raw)])))"

definition uvm_pageable_access_is_off :: "env \<Rightarrow> fd \<Rightarrow> backend \<Rightarrow> bool \<times> backend" where
  "uvm_pageable_access_is_off E host_fd bk =
     (case host_ioctl E host_fd UVM_PAGEABLE_MEM_ACCESS (replicate 8 0) [] bk of
        (Some errno, _, _, bk) \<Rightarrow> (False, bk)
      | (None, p, _, bk) \<Rightarrow> (u32_at p 4 = 0 \<and> p ! 0 = 0, bk))"

text \<open>The forwarded call, once the block is translated.\<close>

definition uvm_forward ::
  "env \<Rightarrow> nat \<Rightarrow> fd \<Rightarrow> nat \<Rightarrow> uvm_selected \<Rightarrow> bytes \<Rightarrow> (nat \<times> bytes) list \<Rightarrow> backend \<Rightarrow> (bytes \<times> backend) option" where
  "uvm_forward E cap host_fd request sel param restore bk =
     (let init = (request = UVM_INITIALIZE) in
      if init \<and> length param < 8 then None
      else
        let param = (if init then put_at param 0 (le_bytes 8 (uvm_init_flags sel)) else param) in
        (case host_ioctl E host_fd request param [] bk of
           (Some errno, _, _, bk) \<Rightarrow> Some (write_error_resp cap bk StIoctlFailed errno, bk)
         | (None, param, _, bk) \<Rightarrow>
             let param = fold (\<lambda>(at0, v) p. put_at p at0 v) restore param in
             if init \<and> uvm_pageable_must_be_off sel then
               (case uvm_pageable_access_is_off E host_fd bk of
                  (True, bk) \<Rightarrow> Some (write_ioctl_resp cap bk param, bk)
                | (False, bk) \<Rightarrow>
                    let bk = note_allow_refusal AkUvmInitialize
                               (bk\<lparr>bk_uvm_denied := List.insert (bk_handle bk) (bk_uvm_denied bk)\<rparr>) in
                    if bk_driver bk = None then None
                    else Some (write_error_resp cap bk StIoctlFailed EPERM, bk))
             else Some (write_ioctl_resp cap bk param, bk)))"

definition dispatch_uvm :: "env \<Rightarrow> nat \<Rightarrow> fd \<Rightarrow> nat \<Rightarrow> bytes \<Rightarrow> backend \<Rightarrow> (bytes \<times> backend) option" where
  "dispatch_uvm E cap host_fd request param_in bk =
     (if bk_handle bk \<in> set (bk_uvm_denied bk) then Some (write_error_resp cap bk StIoctlFailed EPERM, bk)
      else case bk_uvm bk of
        None \<Rightarrow>
          let bk = note_allow_refusal (AkUvm request) bk in Some (write_error_resp cap bk StIoctlFailed EPERM, bk)
      | Some sel \<Rightarrow>
          if request > u32_max then
            let bk = note_allow_refusal (AkUvm request) bk in Some (write_error_resp cap bk StIoctlFailed ENOTTY, bk)
          else (case uvm_entry sel request of
            None \<Rightarrow>
              let bk = note_allow_refusal (AkUvm request) bk in Some (write_error_resp cap bk StIoctlFailed ENOTTY, bk)
          | Some e \<Rightarrow>
              if length param_in \<noteq> uc_size e then
                let bk = note_allow_refusal (AkUvm request) bk in
                Some (write_error_resp cap bk StIoctlFailed EINVAL, bk)
              else (case uvm_translate bk (uc_fds e) param_in [] of
                      None \<Rightarrow> None
                    | Some (Inl ()) \<Rightarrow>
                        let bk = note_allow_refusal (AkUvm request) bk in
                        Some (write_error_resp cap bk StBadHandle 0, bk)
                    | Some (Inr (param, restore)) \<Rightarrow>
                        uvm_forward E cap host_fd request sel param restore bk)))"

end
