(* ===== verification/OsDescServe.thy ===== *)
theory OsDescServe
  imports OpenClose Nested Simple RmFd
begin

text \<open>
  Memory named by a CPU address (\<open>device/src/nvidia/osdesc.rs\<close>): the three routes, the translation of the
  guest's pages into one span, the forwarded call and what of it is kept.
\<close>

definition registration_by_address :: "backend \<Rightarrow> nat \<Rightarrow> nat option \<Rightarrow> bytes \<Rightarrow> registration option" where
  "registration_by_address bk escape class params =
     (case bk_osdesc bk of
        None \<Rightarrow> None
      | Some d \<Rightarrow>
          if escape = NV_ESC_RM_ALLOC \<and> class = Some (od_class d) then Some RegAlloc
          else if escape = NV_ESC_RM_ALLOC_MEMORY then
            (if get_u32 params (od_alloc_memory_class_at d) = Some (od_class d) then Some RegAllocMemory else None)
          else if escape = NV_ESC_RM_VID_HEAP_CONTROL then
            (if od_vid_heap_registers d params then Some RegVidHeap else None)
          else None)"

record shape =
  sh_route :: route
  sh_params_at :: nat
  sh_status_at :: nat
  sh_hmemory_at :: nat

definition shape_of :: "osdesc \<Rightarrow> registration \<Rightarrow> nat \<Rightarrow> shape" where
  "shape_of d r data_len =
     (case r of
        RegAlloc \<Rightarrow>
          \<lparr>sh_route = od_alloc d, sh_params_at = data_len, sh_status_at = 40, sh_hmemory_at = 8\<rparr>
      | RegAllocMemory \<Rightarrow>
          \<lparr>sh_route = od_alloc_memory d, sh_params_at = 0, sh_status_at = od_alloc_memory_status_at d, sh_hmemory_at = 8\<rparr>
      | RegVidHeap \<Rightarrow>
          \<lparr>sh_route = od_vid_heap d, sh_params_at = 0, sh_status_at = od_vid_heap_status_at d,
           sh_hmemory_at = od_vid_heap_hmemory_at d\<rparr>)"

text \<open>The span over the guest's pages; the inner \<open>None\<close> is a refusal, the outer one a panic.\<close>

definition translate :: "env \<Rightarrow> (nat \<times> bytes) option \<Rightarrow> nat \<Rightarrow> backend \<Rightarrow> (stitched option \<times> backend) option" where
  "translate E deep want bk =
     (case (bk_guest_ram bk, deep) of
        (Some ram, Some (off, b)) \<Rightarrow>
          if off mod 2 ^ 32 \<noteq> PAGE_RUNS then Some (None, bk)
          else (case runs_parse b of
                  None \<Rightarrow> Some (None, bk)
                | Some t \<Rightarrow>
                    if None \<in> set (runs_iter t) then None
                    else (case stitch ram (en_mmap E (bk_trace bk) want) (en_map_run E (bk_trace bk))
                                 (map the (runs_iter t)) want of
                            Inl _ \<Rightarrow> Some (None, bk)
                          | Inr s \<Rightarrow> Some (Some s, note_event (EvSpan want) bk)))
      | _ \<Rightarrow> Some (None, bk))"

definition refuse_registration :: "nat \<Rightarrow> registration \<Rightarrow> shape \<Rightarrow> bytes \<Rightarrow> backend \<Rightarrow> bytes \<times> backend" where
  "refuse_registration cap route s param_in bk =
     (let bk = note_allow_refusal (AkRoute route) bk in
      if sh_status_at s + 4 > length param_in then (write_error_resp cap bk StIoctlFailed EINVAL, bk)
      else (write_ioctl_resp cap bk (put_at param_in (sh_status_at s) (le_bytes 4 NV_ERR_NOT_SUPPORTED)), bk))"

text \<open>RM's answer decides whether the span is kept, under the object RM made.\<close>

definition keep_registration :: "shape \<Rightarrow> stitched \<Rightarrow> bytes \<Rightarrow> backend \<Rightarrow> backend" where
  "keep_registration s st resp bk =
     (let out = drop 28 resp in
      if length resp < 28 \<or> mh_status (dec_msg_header resp) \<noteq> 0 \<or> get_u32 out (sh_status_at s) \<noteq> Some 0 then drop_span st bk
      else case (get_u32 out 0, get_u32 out (sh_hmemory_at s)) of
        (Some client, Some object) \<Rightarrow>
          let old = map_of (bk_registrations bk) (client, object);
              regs = AList.update (client, object) (bk_handle bk, st) (bk_registrations bk);
              bk = bk\<lparr>bk_registrations := regs, bk_reg_served := bk_reg_served bk + 1,
                      bk_reg_peak := max (bk_reg_peak bk) (length regs)\<rparr>
          in (case old of Some (_, st') \<Rightarrow> drop_span st' bk | None \<Rightarrow> bk)
      | _ \<Rightarrow> drop_span st bk)"

definition forward_registration ::
  "env \<Rightarrow> nat \<Rightarrow> fd \<Rightarrow> nat \<Rightarrow> registration \<Rightarrow> bytes \<Rightarrow> backend \<Rightarrow> (bytes \<times> backend) option" where
  "forward_registration E cap host_fd request route forwarded bk =
     (case route of
        RegAlloc \<Rightarrow> dispatch_nested E cap host_fd request forwarded 48 16 None None bk
      | RegAllocMemory \<Rightarrow> Some (dispatch_fd_carrying E cap host_fd request NV_ESC_RM_ALLOC_MEMORY forwarded bk)
      | RegVidHeap \<Rightarrow> Some (dispatch_simple E cap host_fd request forwarded bk))"

definition serve_registration ::
  "env \<Rightarrow> nat \<Rightarrow> fd \<Rightarrow> nat \<Rightarrow> registration \<Rightarrow> nat \<Rightarrow> bytes \<Rightarrow> (nat \<times> bytes) option \<Rightarrow> backend \<Rightarrow>
     (bytes \<times> backend) option" where
  "serve_registration E cap host_fd request route data_len param_in deep bk =
     (case bk_osdesc bk of
        None \<Rightarrow> None
      | Some d \<Rightarrow>
          let s = shape_of d route data_len;
              params = drop (sh_params_at s) param_in in
          (case (ro_address (sh_route s) params, ro_length (sh_route s) params) of
             (Some addr, Some len) \<Rightarrow>
               if (case ro_desc_type (sh_route s) params of Some t \<Rightarrow> t \<noteq> od_virtual_address d | None \<Rightarrow> False)
               then Some (refuse_registration cap route s param_in bk)
               else (case translate E deep len bk of
                       None \<Rightarrow> None
                     | Some (None, bk) \<Rightarrow> Some (refuse_registration cap route s param_in bk)
                     | Some (Some st, bk) \<Rightarrow>
                         let at0 = sh_params_at s + ro_address_at (sh_route s) in
                         if at0 + 8 > length param_in then None
                         else (case forward_registration E cap host_fd request route
                                      (put_at param_in at0 (le_bytes 8 (st_addr st))) bk of
                                 None \<Rightarrow> None
                               | Some (r, bk) \<Rightarrow> Some (r, keep_registration s st r bk)))
           | _ \<Rightarrow> Some (refuse_registration cap route s param_in bk)))"

end
