(* ===== verification/VidmemHooks.thy ===== *)
theory VidmemHooks
  imports Backend
begin

text \<open>
  Holding a guest to its video memory (\<open>device/src/nvidia/vidmem.rs\<close>): the check before the host sees an
  allocation, and the charge, the release and the rewriting of figures after it answered. The result
  \<open>None\<close> is the panic of \<open>read_struct\<close> on a payload shorter than the request.
\<close>

definition put_le :: "nat \<Rightarrow> bytes \<Rightarrow> nat \<Rightarrow> nat \<Rightarrow> bytes" where
  "put_le w b at0 v = (if at0 + w \<le> length b then put_at b at0 (le_bytes w v) else b)"

definition nvos32_alloc :: "layout \<Rightarrow> nat \<Rightarrow> alloc_layout option" where
  "nvos32_alloc l fn =
     (if fn = la_nvos32_fn_alloc_size l then Some (la_nvos32_alloc_size l)
      else if fn = la_nvos32_fn_alloc_tiled_pitch_height l then Some (la_nvos32_alloc_tiled_pitch_height l)
      else if fn = la_nvos32_fn_alloc_size_range l then Some (la_nvos32_alloc_size_range l)
      else None)"

text \<open>The loop over the list's entries, \<open>n\<close> of them left from entry \<open>i\<close>; it stops where one leaves the list.\<close>

fun clamp_from :: "layout \<Rightarrow> nat \<Rightarrow> nat \<Rightarrow> nat \<Rightarrow> nat \<Rightarrow> bytes \<Rightarrow> bytes" where
  "clamp_from l tot free i 0 list = list"
| "clamp_from l tot free i (Suc n) list =
     (let p = i * la_fb_info_entry_size l in
      case (get_u32 list (p + la_fb_info_entry_index l), get_u32 list (p + la_fb_info_entry_data l)) of
        (Some index, Some data) \<Rightarrow>
          let list = (case la_role l index of
                        Some RoleTotal \<Rightarrow> if data > tot then put_le 4 list (p + la_fb_info_entry_data l) tot else list
                      | Some RoleFree \<Rightarrow> if data > free then put_le 4 list (p + la_fb_info_entry_data l) free else list
                      | _ \<Rightarrow> list)
          in clamp_from l tot free (Suc i) n list
      | _ \<Rightarrow> list)"

definition clamp_fb_info :: "layout \<Rightarrow> bytes \<Rightarrow> nat \<Rightarrow> nat \<Rightarrow> nat \<Rightarrow> bytes" where
  "clamp_fb_info l list count tot free = clamp_from l tot free 0 (min count (la_fb_info_max_list l)) list"

definition vidmem_layout :: "backend \<Rightarrow> layout option" where
  "vidmem_layout bk =
     (case bk_vidmem bk of Some s \<Rightarrow> if vs_exact s then Some (vs_layout s) else None | None \<Rightarrow> None)"

section \<open>Before the host\<close>

text \<open>
  What an allocation asks for and where RM's status goes: the \<open>?\<close> of the source is \<open>Option.bind\<close>.
\<close>

definition alloc_asks :: "layout \<Rightarrow> alloc_layout \<Rightarrow> bytes \<Rightarrow> nat \<Rightarrow> (nat \<times> nat) option" where
  "alloc_asks l a b st =
     Option.bind (get_u32 b (al_attr a)) (\<lambda>attr.
     Option.bind (get_u32 b (al_flags a)) (\<lambda>flags.
       if takes_vidmem l attr flags then map_option (\<lambda>n. (n, st)) (get_u64 b (al_size a)) else None))"

definition vidmem_asks :: "layout \<Rightarrow> nat \<Rightarrow> bytes \<Rightarrow> bytes \<Rightarrow> (nat \<times> nat) option" where
  "vidmem_asks l escape outer nested =
     (if escape = NV_ESC_RM_ALLOC then
        (if get_u32 outer 12 \<noteq> Some 0x40 \<or> length nested < la_mem_alloc_size l then None
         else alloc_asks l (la_mem_alloc l) nested (if length outer \<ge> 44 then 40 else 28))
      else if escape = NV_ESC_RM_VID_HEAP_CONTROL then
        Option.bind (get_u32 outer (la_nvos32_function l)) (\<lambda>fn.
        Option.bind (nvos32_alloc l fn) (\<lambda>a. alloc_asks l a outer (la_nvos32_status l)))
      else None)"

definition vidmem_admit :: "nat \<Rightarrow> bytes \<Rightarrow> backend \<Rightarrow> (bytes option \<times> backend) option" where
  "vidmem_admit cap payload bk =
     (case vidmem_layout bk of
        None \<Rightarrow> Some (None, bk)
      | Some l \<Rightarrow>
          (case read_struct 24 dec_ioctl_req payload 0 of
             None \<Rightarrow> None
           | Some req \<Rightarrow>
               let body = drop 24 payload; dl = ir_data_len req; nl = ir_nested_len req in
               if ir_cmd req div 256 mod 256 \<noteq> 0x46 \<or> length body < dl + nl then Some (None, bk)
               else (case vidmem_asks l (ir_cmd req mod 256) (take dl body) (take nl (drop dl body)) of
                       None \<Rightarrow> Some (None, bk)
                     | Some (n, status_at) \<Rightarrow>
                         (case vram_admit (bk_vram bk) n of
                            (True, v) \<Rightarrow> Some (None, bk\<lparr>bk_vram := v\<rparr>)
                          | (False, v) \<Rightarrow>
                              let bk = bk\<lparr>bk_vram := v, bk_data_len := dl\<rparr> in
                              Some (Some (write_ioctl_resp cap bk
                                      (put_le 4 (take (dl + nl) body) status_at 0x51)), bk)))))"

section \<open>After the host\<close>

definition word_or_max :: "bytes \<Rightarrow> nat \<Rightarrow> nat" where
  "word_or_max b at0 = (case get_u32 b at0 of Some n \<Rightarrow> n | None \<Rightarrow> u32_max)"

abbreviation (input) NV_OK :: nat where "NV_OK \<equiv> 0"
definition root_classes :: "nat list" where "root_classes = [0x0, 0x1, 0x41]"

definition note_alloc :: "layout \<Rightarrow> bytes \<Rightarrow> bytes \<Rightarrow> vram \<Rightarrow> vram" where
  "note_alloc l outer nested v =
     (let w = word_or_max;
          st = (if length outer \<ge> 44 then w outer 40 else w outer 28);
          a = la_mem_alloc l in
      if st \<noteq> NV_OK \<or> w outer 12 \<in> set root_classes then v
      else vram_allocated (w outer 0) (w outer 4) (w outer 8)
             (if w outer 12 = 0x40 \<and> takes_vidmem l (w nested (al_attr a)) (w nested (al_flags a))
              then get_u64 nested (al_size a) else None) v)"

definition cap_u64 :: "nat \<Rightarrow> nat \<Rightarrow> bytes \<Rightarrow> bytes" where
  "cap_u64 at0 c b = (case get_u64 b at0 of Some n \<Rightarrow> put_le 8 b at0 (min n c) | None \<Rightarrow> b)"

text \<open>The heap ioctl: the block, what is charged, and whether an untracked free was seen.\<close>

definition note_heap :: "layout \<Rightarrow> bytes \<Rightarrow> vram \<Rightarrow> bytes \<times> vram \<times> nat" where
  "note_heap l outer v =
     (let w = word_or_max; fn = w outer (la_nvos32_function l) in
      if w outer (la_nvos32_status l) \<noteq> NV_OK then (outer, v, 0)
      else case nvos32_alloc l fn of
        Some a \<Rightarrow>
          if \<not> takes_vidmem l (w outer (al_attr a)) (w outer (al_flags a)) then (outer, v, 0)
          else (outer, vram_allocated (w outer 0) (w outer 4) (w outer (al_h_memory a)) (get_u64 outer (al_size a)) v, 0)
      | None \<Rightarrow>
          if fn = la_nvos32_fn_info l then
            (case (vr_limit v, vram_remaining v) of
               (Some limit, Some left) \<Rightarrow>
                 (cap_u64 (la_nvos32_info_size l) left
                   (cap_u64 (la_nvos32_free l) left (cap_u64 (la_nvos32_total l) limit outer)), v, 0)
             | _ \<Rightarrow> (outer, v, 0))
          else if fn = la_nvos32_fn_free l then (outer, v, 1)
          else (outer, v, 0))"

definition note_control :: "layout \<Rightarrow> bytes \<Rightarrow> bytes \<Rightarrow> bytes \<Rightarrow> vram \<Rightarrow> bytes \<times> bytes" where
  "note_control l outer nested deep v =
     (let w = word_or_max; cmd = w outer 8 in
      if w outer 28 \<noteq> NV_OK then (nested, deep)
      else case (vr_limit v, vram_remaining v) of
        (Some limit, Some left) \<Rightarrow>
          let tot = min (limit div 1024) u32_max; free = min (left div 1024) u32_max in
          if cmd = la_cmd_fb_get_info_v2 l then
            let b = la_fb_get_info_v2 l; count = w nested (li_count b) in
            if li_list b \<le> length nested then
              (take (li_list b) nested @ clamp_fb_info l (drop (li_list b) nested) count tot free, deep)
            else (nested, deep)
          else if cmd = la_cmd_fb_get_info l then
            (nested, clamp_fb_info l deep (w nested (li_count (la_fb_get_info_v1 l))) tot free)
          else (nested, deep)
      | _ \<Rightarrow> (nested, deep))"

text \<open>By escape and length of the outer block: the three parts of the reply and the state.\<close>

definition note_parts ::
  "layout \<Rightarrow> nat \<Rightarrow> bytes \<Rightarrow> bytes \<Rightarrow> bytes \<Rightarrow> backend \<Rightarrow> (bytes \<times> bytes \<times> bytes) \<times> backend" where
  "note_parts l escape outer nested deep bk =
     (let w = word_or_max; v = bk_vram bk in
      if escape = NV_ESC_RM_ALLOC \<and> length outer \<ge> 32 then
        ((outer, nested, deep), bk\<lparr>bk_vram := note_alloc l outer nested v\<rparr>)
      else if escape = NV_ESC_RM_VID_HEAP_CONTROL \<and> length outer \<ge> la_nvos32_size l then
        (case note_heap l outer v of
           (outer, v, k) \<Rightarrow> ((outer, nested, deep), bk\<lparr>bk_vram := v, bk_untracked_frees := bk_untracked_frees bk + k\<rparr>))
      else if escape = NV_ESC_RM_FREE \<and> length outer \<ge> 16 then
        ((outer, nested, deep),
         if w outer 12 = NV_OK \<and> w outer 8 \<noteq> w outer 0 then bk\<lparr>bk_vram := vram_freed (w outer 0) (w outer 8) v\<rparr> else bk)
      else if escape = NV_ESC_RM_DUP_OBJECT \<and> length outer \<ge> 28 then
        ((outer, nested, deep),
         if w outer 24 = NV_OK then
           bk\<lparr>bk_vram := vram_duplicated (w outer 0) (w outer 4) (w outer 8) (w outer 12) (w outer 16) v\<rparr>
         else bk)
      else if escape = NV_ESC_RM_CONTROL \<and> length outer \<ge> 32 then
        (case note_control l outer nested deep v of (nested, deep) \<Rightarrow> ((outer, nested, deep), bk))
      else ((outer, nested, deep), bk))"

definition vidmem_note :: "bytes \<Rightarrow> bytes \<Rightarrow> backend \<Rightarrow> (bytes \<times> backend) option" where
  "vidmem_note payload resp bk =
     (case vidmem_layout bk of
        None \<Rightarrow> Some (resp, bk)
      | Some l \<Rightarrow>
          (case read_struct 24 dec_ioctl_req payload 0 of
             None \<Rightarrow> None
           | Some req \<Rightarrow>
               if ir_cmd req div 256 mod 256 \<noteq> 0x46 \<or> length resp < 28 \<or> mh_status (dec_msg_header resp) \<noteq> 0
               then Some (resp, bk)
               else
                 let r = dec_ioctl_resp (drop 16 resp); out = drop 28 resp;
                     dl = ip_data_len r; nl = ip_nested_len r; pl = ip_deep_len r in
                 if length out < dl + nl + pl then Some (resp, bk)
                 else (case note_parts l (ir_cmd req mod 256) (take dl out) (take nl (drop dl out))
                              (take pl (drop (dl + nl) out)) bk of
                         ((outer, nested, deep), bk) \<Rightarrow>
                           Some (take 28 resp @ outer @ nested @ deep @ drop (dl + nl + pl) out, bk))))"

end
