(* ===== verification/IoctlDispatch.thy ===== *)
theory IoctlDispatch
  imports OsDescServe VidmemHooks UvmDispatch
begin

text \<open>
  The ioctl message (\<open>device/src/nvidia/ioctl.rs\<close>): the ABI check, the RM allowlist, the routing of each namespace
  to its handler, and the records kept from RM's answers. The result \<open>None\<close> is a panic.
\<close>

section \<open>Checks\<close>

datatype abi_check = AbiOk | NoProfile | UnknownEscape | VariableLength | SizeMismatch nat nat

definition check_abi :: "backend \<Rightarrow> nat \<Rightarrow> nat \<Rightarrow> abi_check" where
  "check_abi bk escape param_size =
     (case bk_abi bk of
        None \<Rightarrow> NoProfile
      | Some t \<Rightarrow>
          (case ioctl_lookup t escape of
             None \<Rightarrow> UnknownEscape
           | Some e \<Rightarrow>
               (case ioe_size e of
                  None \<Rightarrow> VariableLength
                | Some expected \<Rightarrow> if expected = param_size then AbiOk else SizeMismatch expected param_size)))"

datatype refusal = NotServed | NoAllowlistKnown | NotExported | WrongSize | SentLess

text \<open>Why a control is refused, in the order the code asks.\<close>

definition rm_control_refusal :: "backend \<Rightarrow> nat \<Rightarrow> nat \<Rightarrow> nat \<Rightarrow> refusal option" where
  "rm_control_refusal bk cmd declared arrived =
     (if denied cmd \<noteq> None then Some NotServed
      else case bk_rmallow bk of
        None \<Rightarrow> Some NoAllowlistKnown
      | Some sel \<Rightarrow>
          (case ctrl_rule sel cmd of
             None \<Rightarrow> Some NotExported
           | Some (Exact want) \<Rightarrow>
               if declared \<noteq> want then Some WrongSize
               else if arrived \<noteq> declared then Some SentLess else None
           | Some (UpTo m) \<Rightarrow>
               if declared > m then Some WrongSize
               else if arrived \<noteq> declared then Some SentLess else None))"

definition rm_class_refusal :: "backend \<Rightarrow> nat \<Rightarrow> nat \<Rightarrow> refusal option" where
  "rm_class_refusal bk class have =
     (case bk_rmallow bk of
        None \<Rightarrow> Some NoAllowlistKnown
      | Some sel \<Rightarrow>
          (case class_entry sel class of
             None \<Rightarrow> Some NotExported
           | Some e \<Rightarrow>
               if have = 0 then (if acl_required e then Some SentLess else None)
               else if have \<noteq> acl_size e then Some WrongSize else None))"

text \<open>The three answers given without the host: RM's own status in the caller's block.\<close>

definition refuse_alloc_class :: "nat \<Rightarrow> nat \<Rightarrow> bytes \<Rightarrow> backend \<Rightarrow> bytes \<times> backend" where
  "refuse_alloc_class cap class param_in bk =
     (let bk = refuse_for_caps (CkClass class) bk in
      if length param_in < 44 then (write_error_resp cap bk StIoctlFailed EINVAL, bk)
      else (write_ioctl_resp cap bk (put_at param_in 40 (le_bytes 4 0x22)), bk))"

definition refuse_control :: "nat \<Rightarrow> nat \<Rightarrow> bytes \<Rightarrow> backend \<Rightarrow> bytes \<times> backend" where
  "refuse_control cap cmd param_in bk =
     (let bk = note_allow_refusal (AkControl cmd) bk in
      if length param_in < 32 then (write_error_resp cap bk StIoctlFailed EINVAL, bk)
      else (write_ioctl_resp cap bk (put_at param_in 28 (le_bytes 4 0x56)), bk))"

definition refuse_alloc :: "nat \<Rightarrow> nat \<Rightarrow> bytes \<Rightarrow> backend \<Rightarrow> bytes \<times> backend" where
  "refuse_alloc cap class param_in bk =
     (let bk = note_allow_refusal (AkClass class) bk in
      if length param_in < 44 then (write_error_resp cap bk StIoctlFailed EINVAL, bk)
      else (write_ioctl_resp cap bk (put_at param_in 40 (le_bytes 4 0x22)), bk))"

section \<open>NVIDIA's own escapes\<close>

definition serve_control ::
  "env \<Rightarrow> nat \<Rightarrow> fd \<Rightarrow> nat \<Rightarrow> ioctl_req \<Rightarrow> bytes \<Rightarrow> (nat \<times> bytes) option \<Rightarrow> backend \<Rightarrow> (bytes \<times> backend) option" where
  "serve_control E cap host_fd request ireq param_in deep bk =
     (if length param_in \<ge> 12 then
        let cmd = u32_at param_in 8;
            bk = bk\<lparr>bk_rm_controls := bump cmd (bk_rm_controls bk)\<rparr>;
            declared = (if length param_in \<ge> 28 then u32_at param_in 24 else 0) in
        if rm_control_refusal bk cmd declared (ir_nested_len ireq) \<noteq> None then
          Some (refuse_control cap cmd param_in bk)
        else dispatch_nested E cap host_fd request param_in 32 16 deep None bk
      else dispatch_nested E cap host_fd request param_in 32 16 deep None bk)"

definition serve_alloc ::
  "env \<Rightarrow> nat \<Rightarrow> fd \<Rightarrow> nat \<Rightarrow> ioctl_req \<Rightarrow> bytes \<Rightarrow> (nat \<times> bytes) option \<Rightarrow> backend \<Rightarrow> (bytes \<times> backend) option" where
  "serve_alloc E cap host_fd request ireq param_in deep bk =
     (if length param_in \<ge> 16 then
        let class = u32_at param_in 12;
            bk = bk\<lparr>bk_rm_classes := bump class (bk_rm_classes bk)\<rparr> in
        if (case caps_for_class class of Some b \<Rightarrow> \<not> caps_has (bk_caps bk) b | None \<Rightarrow> False) then
          Some (refuse_alloc_class cap class param_in bk)
        else if rm_class_refusal bk class (ir_nested_len ireq) \<noteq> None then
          Some (refuse_alloc cap class param_in bk)
        else (case registration_by_address bk NV_ESC_RM_ALLOC (Some class) (drop (ir_data_len ireq) param_in) of
                Some route \<Rightarrow> serve_registration E cap host_fd request route (ir_data_len ireq) param_in deep bk
              | None \<Rightarrow> dispatch_nested E cap host_fd request param_in 48 16 deep None bk)
      else dispatch_nested E cap host_fd request param_in 48 16 deep None bk)"

definition dispatch_rm ::
  "env \<Rightarrow> nat \<Rightarrow> fd \<Rightarrow> nat \<Rightarrow> ioctl_req \<Rightarrow> bytes \<Rightarrow> (nat \<times> bytes) option \<Rightarrow> backend \<Rightarrow> (bytes \<times> backend) option" where
  "dispatch_rm E cap host_fd request ireq param_in deep bk =
     (let escape = request mod 256 in
      if escape = NV_ESC_REGISTER_FD \<or> escape = NV_ESC_ALLOC_OS_EVENT \<or> escape = NV_ESC_FREE_OS_EVENT then
        Some (dispatch_fd_carrying E cap host_fd request escape param_in bk)
      else if escape = NV_ESC_RM_ALLOC_MEMORY then
        (case registration_by_address bk escape None param_in of
           Some route \<Rightarrow> serve_registration E cap host_fd request route 0 param_in deep bk
         | None \<Rightarrow> Some (dispatch_fd_carrying E cap host_fd request escape param_in bk))
      else if escape = NV_ESC_RM_MAP_MEMORY then Some (dispatch_map_memory E cap host_fd request param_in bk)
      else if escape = NV_ESC_RM_UNMAP_MEMORY then Some (dispatch_unmap_memory E cap host_fd request param_in bk)
      else if escape = NV_ESC_RM_UPDATE_DEVICE_MAPPING_INFO then
        Some (dispatch_update_device_mapping_info E cap host_fd request param_in bk)
      else if escape = NV_ESC_RM_CONTROL then serve_control E cap host_fd request ireq param_in deep bk
      else if escape = NV_ESC_RM_ALLOC then serve_alloc E cap host_fd request ireq param_in deep bk
      else if escape = NV_ESC_RM_VID_HEAP_CONTROL then
        (case registration_by_address bk escape None param_in of
           Some route \<Rightarrow> serve_registration E cap host_fd request route 0 param_in deep bk
         | None \<Rightarrow> Some (dispatch_simple E cap host_fd request param_in bk))
      else Some (dispatch_simple E cap host_fd request param_in bk))"

section \<open>The other namespaces\<close>

definition drm_outer_size :: "nat \<Rightarrow> nat option" where
  "drm_outer_size escape =
     (if escape = 0x41 then Some 32 else if escape = 0x49 then Some 24
      else if escape = 0x4d then Some 24 else None)"

definition nvkms_fd_offset :: "bytes \<Rightarrow> nat option" where
  "nvkms_fd_offset param_in = (if length param_in \<ge> 4 \<and> u32_at param_in 0 = 16 then Some 16 else None)"

definition ioctl_namespace :: "bool \<Rightarrow> nat \<Rightarrow> char" where
  "ioctl_namespace on_uvm ty =
     (if on_uvm then CHR ''u'' else if ty = 0x46 then CHR ''F'' else if ty = 0x64 then CHR ''d''
      else if ty = 0x6d then CHR ''m'' else CHR ''?'')"

text \<open>What follows the request's framing: counting, the ABI check and the routing.\<close>

definition route_ioctl ::
  "env \<Rightarrow> nat \<Rightarrow> fd \<Rightarrow> ioctl_req \<Rightarrow> bytes \<Rightarrow> (nat \<times> bytes) option \<Rightarrow> backend \<Rightarrow> (bytes \<times> backend) option" where
  "route_ioctl E cap host_fd ireq param_in deep bk =
     (let request = ir_cmd ireq; escape = request mod 256; ty = request div 256 mod 256;
          on_uvm = (map_of (bk_kinds bk) (bk_handle bk) = Some Uvm);
          bk = bk\<lparr>bk_ioctls_by_ns :=
                    bump (ioctl_namespace on_uvm ty, if on_uvm then request else escape) (bk_ioctls_by_ns bk)\<rparr>;
          refuse = (ty = 0x46 \<and> (case check_abi bk escape (ir_data_len ireq) of
                       SizeMismatch _ _ \<Rightarrow> True | UnknownEscape \<Rightarrow> True | _ \<Rightarrow> False)) in
      if on_uvm then dispatch_uvm E cap host_fd request param_in bk
      else if refuse then
        (if bk_driver bk = None then None
         else
           let bk = bk\<lparr>bk_abi_refused := bump escape (bk_abi_refused bk)\<rparr> in
           Some (write_error_resp cap bk StIoctlFailed EINVAL, bk))
      else if ty = 0x6d then
        dispatch_nested E cap host_fd request param_in 16 8 deep (nvkms_fd_offset param_in) bk
      else if ty = 0x64 \<and> drm_outer_size escape \<noteq> None then
        dispatch_nested E cap host_fd request param_in (the (drm_outer_size escape)) 8 deep (Some 0) bk
      else if ty \<noteq> 0x46 then Some (dispatch_simple E cap host_fd request param_in bk)
      else dispatch_rm E cap host_fd request ireq param_in deep bk)"

section \<open>The message\<close>

definition serve_ioctl :: "env \<Rightarrow> nat \<Rightarrow> bytes \<Rightarrow> backend \<Rightarrow> (bytes \<times> backend) option" where
  "serve_ioctl E cap payload bk =
     (if length payload < 24 then Some (write_error_resp cap bk StInvalidMsgType 0, bk)
      else
        let ireq = dec_ioctl_req payload; body = drop 24 payload;
            nested_end = ir_data_len ireq + ir_nested_len ireq; want = nested_end + ir_deep_len ireq in
        if length body < want then Some (write_error_resp cap bk StInvalidMsgType EINVAL, bk)
        else
          let param_in = take nested_end body;
              deep = (if ir_deep_len ireq > 0
                      then Some (ir_deep_ptr_offset ireq, take (ir_deep_len ireq) (drop nested_end body)) else None);
              bk = bk\<lparr>bk_data_len := ir_data_len ireq\<rparr> in
          (case ht_get_raw (bk_handles bk) (bk_handle bk) of
             None \<Rightarrow> Some (write_error_resp cap bk StBadHandle 0, bk)
           | Some host_fd \<Rightarrow> route_ioctl E cap host_fd ireq param_in deep bk))"

text \<open>Which clients were made and freed, from RM's answers on a control file.\<close>

definition note_clients :: "bytes \<Rightarrow> bytes \<Rightarrow> backend \<Rightarrow> backend option" where
  "note_clients payload resp bk =
     (if map_of (bk_kinds bk) (bk_handle bk) \<noteq> Some Ctl then Some bk
      else case read_struct 24 dec_ioctl_req payload 0 of
        None \<Rightarrow> None
      | Some req \<Rightarrow>
          let out = drop 28 resp; escape = ir_cmd req mod 256; n = length out in
          if ir_cmd req div 256 mod 256 \<noteq> 0x46 \<or> length resp < 28 \<or> mh_status (dec_msg_header resp) \<noteq> 0 then Some bk
          else if escape = 0x2b \<and> n \<ge> 32 then
            (let st = (if n \<ge> 48 then u32_at out 40 else u32_at out 28) in
             if st = NV_OK \<and> u32_at out 12 \<in> set root_classes
             then Some (bk\<lparr>bk_vram := vram_client_opened (bk_handle bk) (u32_at out 8) (bk_vram bk)\<rparr>)
             else Some bk)
          else if escape = 0x29 \<and> n \<ge> 16 then
            (if u32_at out 12 = NV_OK \<and> u32_at out 8 = u32_at out 0
             then Some (bk\<lparr>bk_vram := vram_client_freed (u32_at out 0) (bk_vram bk)\<rparr>)
             else Some bk)
          else Some bk)"

definition note_registrations :: "bytes \<Rightarrow> bytes \<Rightarrow> backend \<Rightarrow> backend option" where
  "note_registrations payload resp bk =
     (if bk_registrations bk = [] then Some bk
      else case read_struct 24 dec_ioctl_req payload 0 of
        None \<Rightarrow> None
      | Some req \<Rightarrow>
          let out = drop 28 resp in
          if ir_cmd req div 256 mod 256 \<noteq> 0x46 \<or> ir_cmd req mod 256 \<noteq> 0x29 \<or> length resp < 28
             \<or> mh_status (dec_msg_header resp) \<noteq> 0 \<or> length out < 16 then Some bk
          else if u32_at out 12 = NV_OK then Some (release_registrations (u32_at out 0) (u32_at out 8) bk)
          else Some bk)"

definition handle_ioctl :: "env \<Rightarrow> nat \<Rightarrow> bytes \<Rightarrow> backend \<Rightarrow> (bytes \<times> backend) option" where
  "handle_ioctl E cap payload bk =
     Option.bind (vidmem_admit cap payload bk) (\<lambda>(reply, bk).
       case reply of
         Some r \<Rightarrow> Some (r, bk)
       | None \<Rightarrow>
           Option.bind (serve_ioctl E cap payload bk) (\<lambda>(r, bk).
           Option.bind (vidmem_note payload r bk) (\<lambda>(r, bk).
           Option.bind (note_clients payload r bk) (\<lambda>bk.
           Option.bind (note_registrations payload r bk) (\<lambda>bk. Some (r, bk))))))"

end
