(* ===== verification/FilesReply.thy ===== *)
theory FilesReply
  imports Backend
begin

text \<open>
  The replies to GET_PROC_FILES and GET_SYS_FILES (\<open>device/src/nvidia/files.rs\<close>): the stream of file entries and the
  sections after it. What the host's trees hold is the environment's; each writer gets the bytes left in
  the response buffer.
\<close>

section \<open>The file stream\<close>

definition enc_file_entry :: "nat \<Rightarrow> nat \<Rightarrow> bytes" where
  "enc_file_entry path_len content_len = enc_fields [(4, path_len), (4, content_len)]"

definition file_record :: "bytes \<times> bytes \<Rightarrow> bytes" where
  "file_record f = enc_file_entry (length (fst f)) (length (snd f)) @ fst f @ snd f"

text \<open>Entries while the next one and the terminator fit, \<open>off\<close> bytes written so far.\<close>

fun write_files :: "nat \<Rightarrow> nat \<Rightarrow> (bytes \<times> bytes) list \<Rightarrow> bytes" where
  "write_files cap off [] = []"
| "write_files cap off (f # fs) =
     (if off + (8 + length (fst f) + length (snd f)) + 8 > cap then []
      else file_record f @ write_files cap (off + length (file_record f)) fs)"

definition file_stream :: "nat \<Rightarrow> (bytes \<times> bytes) list \<Rightarrow> bytes" where
  "file_stream cap fs =
     (let b = write_files cap 0 fs in if length b + 8 \<le> cap then b @ enc_file_entry 0 0 else b)"

section \<open>The sections of GET_SYS_FILES\<close>

definition words :: "nat list \<Rightarrow> bytes" where
  "words ws = concat (map (le_bytes 4) ws)"

definition dri_record :: "dri_device \<Rightarrow> bytes" where
  "dri_record d =
     words ([length (dd_name d), dd_major d, dd_minor d, dd_slot_index d] @ dd_dev_info d) @ bytes_of_string (dd_name d)"

text \<open>Devices while they fit; each record carries nine words of device information.\<close>

fun write_dri_records :: "nat \<Rightarrow> nat \<Rightarrow> dri_device list \<Rightarrow> bytes" where
  "write_dri_records cap off [] = []"
| "write_dri_records cap off (d # ds) =
     (if off + (16 + 4 * 9 + length (dd_name d)) > cap then []
      else dri_record d @ write_dri_records cap (off + length (dri_record d)) ds)"

definition write_dri_section :: "env \<Rightarrow> nat \<Rightarrow> backend \<Rightarrow> bytes \<times> backend" where
  "write_dri_section E cap bk =
     (let ds = (if caps_has (bk_caps bk) GRAPHICS then en_dri E (bk_trace bk) else []);
          bk = bk\<lparr>bk_dri_given := Some ds\<rparr>
      in (if cap < 4 then [] else le_bytes 4 (length ds) @ write_dri_records cap 4 ds, bk))"

abbreviation (input) ALLOC_SIZE_MAGIC :: nat where "ALLOC_SIZE_MAGIC \<equiv> 0x4e56414c"
abbreviation (input) UVM_CMD_MAGIC :: nat where "UVM_CMD_MAGIC \<equiv> 0x4e565556"
abbreviation (input) OSDESC_MAGIC :: nat where "OSDESC_MAGIC \<equiv> 0x4e564f44"

definition write_alloc_size_section :: "nat \<Rightarrow> backend \<Rightarrow> bytes" where
  "write_alloc_size_section cap bk =
     (case bk_rmallow bk of
        None \<Rightarrow> []
      | Some sel \<Rightarrow>
          let cs = filter (\<lambda>c. acl_size c > 0) (rp_class (ra_profile sel)) in
          if cap < 8 + length cs * 8 then []
          else words [ALLOC_SIZE_MAGIC, length cs] @ concat (map (\<lambda>c. words [acl_id c, acl_size c]) cs))"

text \<open>A command with more than one descriptor is left out.\<close>

definition uvm_row :: "uvm_cmd \<Rightarrow> nat list option" where
  "uvm_row c =
     (case uc_fds c of
        [] \<Rightarrow> Some [uc_num c, uc_size c, 0, 0]
      | [f] \<Rightarrow> Some [uc_num c, uc_size c, case fs_kind f of FdCtl \<Rightarrow> 1 | FdUvm \<Rightarrow> 2 | FdForeign \<Rightarrow> 3, fs_at f]
      | _ \<Rightarrow> None)"

definition write_uvm_section :: "nat \<Rightarrow> backend \<Rightarrow> bytes" where
  "write_uvm_section cap bk =
     (case bk_uvm bk of
        None \<Rightarrow> []
      | Some sel \<Rightarrow>
          let rows = List.map_filter uvm_row (us_cmd sel) in
          if cap < 8 + length rows * 16 then []
          else words [UVM_CMD_MAGIC, length rows] @ concat (map words rows))"

definition osdesc_words :: "osdesc \<Rightarrow> nat list" where
  "osdesc_words d =
     [OSDESC_MAGIC, od_class d, od_vid_heap_function d, od_vid_heap_function_at d, od_alloc_memory_class_at d,
      od_virtual_address d, od_alloc_memory_status_at d, od_vid_heap_status_at d, od_vid_heap_hmemory_at d, 0] @
     concat (map (\<lambda>r. [ro_params_size r, ro_address_at r, ro_limit_at r, ro_type_at r])
       [od_alloc d, od_alloc_memory d, od_vid_heap d])"

definition write_osdesc_section :: "nat \<Rightarrow> backend \<Rightarrow> bytes" where
  "write_osdesc_section cap bk =
     (case bk_osdesc bk of
        None \<Rightarrow> []
      | Some d \<Rightarrow> if cap < length (osdesc_words d) * 4 then [] else words (osdesc_words d))"

datatype file_tree = Proc | Sys

definition handle_get_files :: "env \<Rightarrow> file_tree \<Rightarrow> nat \<Rightarrow> backend \<Rightarrow> bytes \<times> backend" where
  "handle_get_files E tree cap bk =
     (case tree of
        Proc \<Rightarrow> (file_stream cap (en_proc_files E (bk_trace bk)), bk)
      | Sys \<Rightarrow>
          let b = file_stream cap (en_sys_files E (bk_trace bk)) in
          (case write_dri_section E (cap - length b) bk of
             (d, bk) \<Rightarrow>
               let b = b @ d;
                   b = b @ write_alloc_size_section (cap - length b) bk;
                   b = b @ write_uvm_section (cap - length b) bk;
                   b = b @ write_osdesc_section (cap - length b) bk
               in (b, bk)))"

end
