(* ===== verification/Dispatch.thy ===== *)
theory Dispatch
  imports IoctlDispatch FilesReply
begin

text \<open>
  The message loop's entry (\<open>dispatch\<close> of \<open>device/src/nvidia/mod.rs\<close>) and the end of a guest (\<open>teardown\<close> and
  the backend's drop).
\<close>

definition dispatch :: "env \<Rightarrow> nat \<Rightarrow> bytes \<Rightarrow> backend \<Rightarrow> (bytes \<times> backend) option" where
  "dispatch E cap req bk =
     (if length req < 16 then Some (write_error_resp cap bk StInvalidMsgType 0, bk)
      else
        let hdr = dec_msg_header req in
        case msg_type_from_u32 (mh_type hdr) of
          None \<Rightarrow>
            let bk = bk\<lparr>bk_msg := Ioctl\<rparr> in Some (write_error_resp cap bk StInvalidMsgType 0, bk)
        | Some m \<Rightarrow>
            let bk = bk\<lparr>bk_msg := m, bk_msg_counts := bump m (bk_msg_counts bk), bk_handle := mh_handle hdr\<rparr>;
                payload = drop 16 req in
            (case m of
               Open \<Rightarrow> Some (handle_open E cap payload bk)
             | Close \<Rightarrow> Some (handle_close E cap bk)
             | Ioctl \<Rightarrow> handle_ioctl E cap payload bk
             | Mmap \<Rightarrow> Some (handle_mmap E cap payload bk)
             | Munmap \<Rightarrow> Some (handle_munmap E cap payload bk)
             | GetProcFiles \<Rightarrow> Some (handle_get_files E Proc cap bk)
             | GetSysFiles \<Rightarrow> Some (handle_get_files E Sys cap bk)
             | EventReady \<Rightarrow> Some (write_error_resp cap bk StInvalidMsgType EINVAL, bk)))"

text \<open>A run of messages, each with its response buffer; \<open>None\<close> once one panics.\<close>

fun dispatch_all :: "env \<Rightarrow> (nat \<times> bytes) list \<Rightarrow> backend \<Rightarrow> (bytes list \<times> backend) option" where
  "dispatch_all E [] bk = Some ([], bk)"
| "dispatch_all E ((cap, req) # rs) bk =
     (case dispatch E cap req bk of
        None \<Rightarrow> None
      | Some (r, bk) \<Rightarrow> map_option (\<lambda>(rs, bk). (r # rs, bk)) (dispatch_all E rs bk))"

definition drain_handles :: "backend \<Rightarrow> backend" where
  "drain_handles bk =
     (case ht_drain_all (bk_handles bk) of
        (fs, t) \<Rightarrow> fold (\<lambda>f. note_event (EvClose f)) fs (bk\<lparr>bk_handles := t\<rparr>))"

text \<open>Teardown, apart from what it logs.\<close>

definition teardown :: "env \<Rightarrow> backend \<Rightarrow> backend" where
  "teardown E bk =
     (let (ps, a) = ap_take_all (bk_aperture bk);
          bk = fold (\<lambda>(i, p). unmap_uvm_pool i p) ps (bk\<lparr>bk_aperture := a\<rparr>);
          (es, m) = mc_drain (bk_active bk);
          bk = fold (\<lambda>e. shm_release E (me_region e)) es (bk\<lparr>bk_active := m\<rparr>)
      in drain_handles bk)"

definition drop_backend :: "backend \<Rightarrow> backend" where
  "drop_backend bk = (if ht_len (bk_handles bk) = 0 then bk else drain_handles bk)"

end
