(* ===== verification/Seccomp.thy ===== *)
theory Seccomp
  imports Messages
begin

text \<open>
  The system-call filter the backend installs on itself (module \<open>seccomp\<close> of \<open>device/src/sandbox.rs\<close>): a classic
  BPF program assembled with computed jump offsets, and the policy it is meant to be.

  The numbers behind \<open>libc::SYS_*\<close> come from the libc crate and are an argument, \<open>sys\<close>. The machine that runs the
  program is the kernel's; the locale \<open>classic_bpf\<close> states what \<open>linux/filter.h\<close> documents of the four instructions
  used, and everything about the program is proved for any machine that obeys it.
\<close>

section \<open>Instructions\<close>

record insn =
  in_code :: nat
  in_jt :: nat
  in_jf :: nat
  in_k :: nat

abbreviation (input) LD_W_ABS :: nat where "LD_W_ABS \<equiv> 0x20"
abbreviation (input) JEQ_K :: nat where "JEQ_K \<equiv> 0x15"
abbreviation (input) JSET_K :: nat where "JSET_K \<equiv> 0x45"
abbreviation (input) RET_K :: nat where "RET_K \<equiv> 0x06"

abbreviation (input) RET_KILL_PROCESS :: nat where "RET_KILL_PROCESS \<equiv> 0x80000000"
abbreviation (input) RET_ERRNO :: nat where "RET_ERRNO \<equiv> 0x00050000"
abbreviation (input) RET_ALLOW :: nat where "RET_ALLOW \<equiv> 0x7fff0000"

abbreviation (input) AUDIT_ARCH_X86_64 :: nat where "AUDIT_ARCH_X86_64 \<equiv> 0xc000003e"
abbreviation (input) X32_BIT :: nat where "X32_BIT \<equiv> 0x40000000"

abbreviation (input) PROT_EXEC :: nat where "PROT_EXEC \<equiv> 4"
abbreviation (input) CLONE_THREAD :: nat where "CLONE_THREAD \<equiv> 0x10000"
abbreviation (input) AF_UNIX :: nat where "AF_UNIX \<equiv> 1"

text \<open>Offsets into \<open>struct seccomp_data\<close>; \<open>arg n\<close> is the low half of the n-th argument.\<close>

abbreviation (input) NR :: nat where "NR \<equiv> 0"
abbreviation (input) ARCH :: nat where "ARCH \<equiv> 4"

definition arg :: "nat \<Rightarrow> nat" where
  "arg n = 16 + 8 * n"

definition stmt :: "nat \<Rightarrow> nat \<Rightarrow> insn" where
  "stmt code k = \<lparr>in_code = code, in_jt = 0, in_jf = 0, in_k = k\<rparr>"

definition jump :: "nat \<Rightarrow> nat \<Rightarrow> nat \<Rightarrow> nat \<Rightarrow> insn" where
  "jump code k jt jf = \<lparr>in_code = code, in_jt = jt, in_jf = jf, in_k = k\<rparr>"

definition ret :: "nat \<Rightarrow> insn" where
  "ret k = stmt RET_K k"

definition errno_ret :: "nat \<Rightarrow> nat" where
  "errno_ret e = RET_ERRNO OR (e AND 0xffff)"

section \<open>The filter\<close>

definition allowed_names :: "string list" where
  "allowed_names =
     [''read'', ''write'', ''readv'', ''writev'', ''pread64'', ''pwrite64'', ''lseek'', ''close'', ''openat'',
      ''newfstatat'', ''statx'', ''fstat'', ''getdents64'', ''readlinkat'', ''faccessat2'', ''dup'', ''dup3'',
      ''fcntl'', ''ftruncate'', ''memfd_create'', ''getcwd'', ''unlinkat'',
      ''ioctl'',
      ''munmap'', ''brk'', ''madvise'', ''mremap'',
      ''futex'', ''sched_yield'', ''nanosleep'', ''clock_nanosleep'', ''clock_gettime'', ''gettimeofday'',
      ''epoll_create1'', ''epoll_ctl'', ''epoll_wait'', ''epoll_pwait'', ''poll'', ''ppoll'', ''eventfd2'',
      ''restart_syscall'',
      ''accept4'', ''recvmsg'', ''sendmsg'', ''recvfrom'', ''sendto'', ''getsockname'', ''getpeername'',
      ''getsockopt'', ''setsockopt'', ''shutdown'', ''listen'', ''bind'', ''connect'',
      ''rt_sigaction'', ''rt_sigprocmask'', ''rt_sigreturn'', ''sigaltstack'', ''tgkill'', ''exit'',
      ''exit_group'', ''set_robust_list'', ''set_tid_address'', ''rseq'', ''membarrier'', ''sched_getaffinity'',
      ''getpid'', ''gettid'', ''getuid'', ''geteuid'', ''getgid'', ''getegid'', ''getrandom'', ''prctl'',
      ''arch_prctl'', ''uname'',
      ''open'', ''stat'', ''lstat'', ''access'', ''readlink'', ''unlink'', ''dup2'', ''accept'', ''epoll_create'',
      ''eventfd'', ''select'', ''pselect6'', ''getdents'', ''pipe'', ''pipe2'']"

definition allowed :: "(string \<Rightarrow> nat) \<Rightarrow> nat list" where
  "allowed sys = remdups_adj (sort (map sys allowed_names))"

definition u32 :: "nat \<Rightarrow> nat" where
  "u32 n = n mod 2 ^ 32"

definition no_exec_block :: "nat \<Rightarrow> insn list" where
  "no_exec_block nr =
     [stmt LD_W_ABS NR, jump JEQ_K (u32 nr) 0 4, stmt LD_W_ABS (arg 2), jump JSET_K PROT_EXEC 0 1,
      ret (errno_ret 1), ret RET_ALLOW]"

definition thread_block :: "nat \<Rightarrow> insn list" where
  "thread_block nr =
     [stmt LD_W_ABS NR, jump JEQ_K (u32 nr) 0 4, stmt LD_W_ABS (arg 0), jump JSET_K CLONE_THREAD 1 0,
      ret (errno_ret 1), ret RET_ALLOW]"

definition absent_block :: "nat \<Rightarrow> insn list" where
  "absent_block nr = [stmt LD_W_ABS NR, jump JEQ_K (u32 nr) 0 1, ret (errno_ret 38)]"

definition unix_block :: "nat \<Rightarrow> insn list" where
  "unix_block nr =
     [stmt LD_W_ABS NR, jump JEQ_K (u32 nr) 0 4, stmt LD_W_ABS (arg 0), jump JEQ_K AF_UNIX 1 0,
      ret (errno_ret 97), ret RET_ALLOW]"

text \<open>The run of plain comparisons: each jumps over the rest of the run to the allow behind it, its offset an 8-bit
  field computed from the position; the last one that does not match steps over that allow.\<close>

definition compare_run :: "nat list \<Rightarrow> insn list" where
  "compare_run simple =
     (let n = length simple in
      map (\<lambda>(i, nr). jump JEQ_K (u32 nr) ((n - 1 - i) mod 256) (if i + 1 = n then 1 else 0)) (enumerate 0 simple))"

definition program :: "(string \<Rightarrow> nat) \<Rightarrow> insn list" where
  "program sys =
     [stmt LD_W_ABS ARCH, jump JEQ_K AUDIT_ARCH_X86_64 1 0, ret RET_KILL_PROCESS,
      stmt LD_W_ABS NR, jump JSET_K X32_BIT 0 1, ret RET_KILL_PROCESS] @
     concat (map (no_exec_block \<circ> sys) [''mmap'', ''mprotect'', ''pkey_mprotect'']) @
     thread_block (sys ''clone'') @
     absent_block (sys ''clone3'') @
     concat (map (unix_block \<circ> sys) [''socket'', ''socketpair'']) @
     stmt LD_W_ABS NR # compare_run (allowed sys) @ [ret RET_ALLOW, ret (errno_ret 1)]"

section \<open>The machine\<close>

text \<open>\<open>run p d pc a\<close> is what the program answers from instruction \<open>pc\<close> with accumulator \<open>a\<close>: a load fetches the
  word at an offset of the call's description \<open>d\<close>, a comparison skips \<open>jt\<close> or \<open>jf\<close> instructions, a return ends
  it. A program that runs off its end has no answer.\<close>

locale classic_bpf =
  fixes run :: "insn list \<Rightarrow> bytes \<Rightarrow> nat \<Rightarrow> nat \<Rightarrow> nat option"
  assumes run_load: "\<And>p d pc a k. pc < length p \<Longrightarrow> p ! pc = stmt 0x20 k \<Longrightarrow> k + 4 \<le> length d \<Longrightarrow>
      run p d pc a = run p d (Suc pc) (u32_at d k)"
    and run_jeq: "\<And>p d pc a k jt jf. pc < length p \<Longrightarrow> p ! pc = jump 0x15 k jt jf \<Longrightarrow>
      run p d pc a = run p d (Suc pc + (if a = k then jt else jf)) a"
    and run_jset: "\<And>p d pc a k jt jf. pc < length p \<Longrightarrow> p ! pc = jump 0x45 k jt jf \<Longrightarrow>
      run p d pc a = run p d (Suc pc + (if a AND k \<noteq> 0 then jt else jf)) a"
    and run_ret: "\<And>p d pc a k. pc < length p \<Longrightarrow> p ! pc = stmt 0x06 k \<Longrightarrow> run p d pc a = Some k"
    and run_off: "\<And>p d pc a. length p \<le> pc \<Longrightarrow> run p d pc a = None"

text \<open>Since jumps only go forward, the rest of the program is all an instruction can reach: the same machine, over
  that rest.\<close>

function (sequential) bpf :: "bytes \<Rightarrow> nat \<Rightarrow> insn list \<Rightarrow> nat option" where
  "bpf d a [] = None"
| "bpf d a (i # s) =
     (if in_code i = LD_W_ABS then bpf d (u32_at d (in_k i)) s
      else if in_code i = JEQ_K then bpf d a (drop (if a = in_k i then in_jt i else in_jf i) s)
      else if in_code i = JSET_K then bpf d a (drop (if a AND in_k i \<noteq> 0 then in_jt i else in_jf i) s)
      else if in_code i = RET_K then Some (in_k i)
      else None)"
  by pat_completeness auto
termination by (relation "measure (\<lambda>(d, a, s). length s)") auto

declare bpf.simps [simp del]

lemma bpf_nil [simp]: "bpf d a [] = None"
  by (simp add: bpf.simps)

lemma bpf_insns [simp]:
  "bpf d a (stmt 0x20 k # s) = bpf d (u32_at d k) s"
  "bpf d a (jump 0x15 k jt jf # s) = bpf d a (drop (if a = k then jt else jf) s)"
  "bpf d a (jump 0x45 k jt jf # s) = bpf d a (drop (if a AND k \<noteq> 0 then jt else jf) s)"
  "bpf d a (ret k # s) = Some k"
  by (simp_all add: bpf.simps stmt_def jump_def ret_def)

text \<open>The instructions the filter is made of.\<close>

inductive insn_ok :: "nat \<Rightarrow> insn \<Rightarrow> bool" for n :: nat where
  load: "k + 4 \<le> n \<Longrightarrow> insn_ok n (stmt 0x20 k)"
| jeq: "insn_ok n (jump 0x15 k jt jf)"
| jset: "insn_ok n (jump 0x45 k jt jf)"
| ret: "insn_ok n (ret k)"

context classic_bpf
begin

lemma run_rest:
  assumes "\<forall>i \<in> set p. insn_ok (length d) i"
  shows "run p d pc a = bpf d a (drop pc p)"
  using assms
proof (induction "length p - pc" arbitrary: pc a rule: less_induct)
  case less
  show ?case
  proof (cases "pc < length p")
    case False
    then show ?thesis by (simp add: run_off)
  next
    case True
    then have d: "drop pc p = p ! pc # drop (Suc pc) p" by (simp add: Cons_nth_drop_Suc)
    have IH: "run p d (Suc pc + m) b = bpf d b (drop m (drop (Suc pc) p))" for m b
      using less.hyps [of "Suc pc + m" b] less.prems True by (simp add: add.commute)
    from True less.prems have "insn_ok (length d) (p ! pc)" by simp
    then show ?thesis
    proof cases
      case (load k)
      with True d IH [of 0] show ?thesis by (simp add: run_load)
    next
      case (jeq k jt jf)
      with True d IH show ?thesis by (simp add: run_jeq [of pc p k jt jf])
    next
      case (jset k jt jf)
      with True d IH show ?thesis by (simp add: run_jset [of pc p k jt jf])
    next
      case (ret k)
      with True d show ?thesis by (simp add: run_ret [of pc p k] ret_def) (simp add: bpf.simps stmt_def)
    qed
  qed
qed

end

text \<open>The machine over the rest of the program obeys the documented laws.\<close>

lemma stmt_inj [simp]: "stmt c k = stmt c' k' \<longleftrightarrow> c = c' \<and> k = k'" "jump c k t f \<noteq> stmt c' k' \<longleftrightarrow> c \<noteq> c' \<or> k \<noteq> k' \<or> t \<noteq> 0 \<or> f \<noteq> 0"
  by (auto simp: stmt_def jump_def)

definition bpf_run :: "insn list \<Rightarrow> bytes \<Rightarrow> nat \<Rightarrow> nat \<Rightarrow> nat option" where
  "bpf_run p d pc a = bpf d a (drop pc p)"

interpretation rest: classic_bpf bpf_run
proof
  fix p :: "insn list" and d :: bytes and pc a k jt jf :: nat
  have d: "drop pc p = p ! pc # drop (Suc pc) p" if "pc < length p"
    using that by (simp add: Cons_nth_drop_Suc)
  show "bpf_run p d pc a = bpf_run p d (Suc pc) (u32_at d k)"
    if "pc < length p" "p ! pc = stmt 0x20 k" "k + 4 \<le> length d"
    using that by (simp add: bpf_run_def d)
  show "bpf_run p d pc a = bpf_run p d (Suc pc + (if a = k then jt else jf)) a"
    if "pc < length p" "p ! pc = jump 0x15 k jt jf"
    using that by (simp add: bpf_run_def d add.commute)
  show "bpf_run p d pc a = bpf_run p d (Suc pc + (if a AND k \<noteq> 0 then jt else jf)) a"
    if "pc < length p" "p ! pc = jump 0x45 k jt jf"
    using that by (simp add: bpf_run_def d add.commute)
  show "bpf_run p d pc a = Some k" if "pc < length p" "p ! pc = stmt 0x06 k"
    using that by (simp add: bpf_run_def d flip: ret_def)
  show "bpf_run p d pc a = None" if "length p \<le> pc"
    using that by (simp add: bpf_run_def)
qed

section \<open>The policy\<close>

text \<open>What the filter is for, as a decision on the call: \<open>call n\<close> says its number is the one of the name \<open>n\<close>. An
  argument is judged by its low word.\<close>

definition verdict :: "(string \<Rightarrow> nat) \<Rightarrow> bytes \<Rightarrow> nat" where
  "verdict sys d =
     (let call = (\<lambda>n. u32_at d NR = u32 (sys n)) in
      if u32_at d ARCH \<noteq> AUDIT_ARCH_X86_64 \<or> bit (u32_at d NR) 30 then RET_KILL_PROCESS
      else if call ''mmap'' \<or> call ''mprotect'' \<or> call ''pkey_mprotect'' then
        (if bit (u32_at d (arg 2)) 2 then errno_ret 1 else RET_ALLOW)
      else if call ''clone'' then (if bit (u32_at d (arg 0)) 16 then RET_ALLOW else errno_ret 1)
      else if call ''clone3'' then errno_ret 38
      else if call ''socket'' \<or> call ''socketpair'' then
        (if u32_at d (arg 0) = AF_UNIX then RET_ALLOW else errno_ret 97)
      else if list_ex call allowed_names then RET_ALLOW
      else errno_ret 1)"

lemma and_bit_iff: "a AND 4 = 0 \<longleftrightarrow> \<not> bit a 2" "a AND 0x10000 = 0 \<longleftrightarrow> \<not> bit a 16" "a AND 0x40000000 = 0 \<longleftrightarrow> \<not> bit a 30"
  for a :: nat
  using and_exp_eq_0_iff_not_bit [of a 2] and_exp_eq_0_iff_not_bit [of a 16] and_exp_eq_0_iff_not_bit [of a 30] by simp_all

lemma bpf_blocks:
  "bpf d a (no_exec_block nr @ s) = (if u32_at d 0 = u32 nr then Some (if bit (u32_at d (arg 2)) 2 then errno_ret 1 else RET_ALLOW)
     else bpf d (u32_at d 0) s)"
  "bpf d a (thread_block nr @ s) = (if u32_at d 0 = u32 nr then Some (if bit (u32_at d (arg 0)) 16 then RET_ALLOW else errno_ret 1)
     else bpf d (u32_at d 0) s)"
  "bpf d a (absent_block nr @ s) = (if u32_at d 0 = u32 nr then Some (errno_ret 38) else bpf d (u32_at d 0) s)"
  "bpf d a (unix_block nr @ s) = (if u32_at d 0 = u32 nr then Some (if u32_at d (arg 0) = AF_UNIX then RET_ALLOW else errno_ret 97)
     else bpf d (u32_at d 0) s)"
  by (simp_all add: no_exec_block_def thread_block_def absent_block_def unix_block_def and_bit_iff)

section \<open>The run of comparisons\<close>

fun compares :: "nat list \<Rightarrow> insn list" where
  "compares [] = []"
| "compares (x # xs) = jump 0x15 (u32 x) (length xs) (if xs = [] then 1 else 0) # compares xs"

lemma length_compares [simp]: "length (compares xs) = length xs"
  by (induction xs) auto

lemma compare_run_compares:
  assumes "length xs \<le> 256"
  shows "compare_run xs = compares xs"
proof -
  have "map (\<lambda>(i, nr). jump 0x15 (u32 nr) ((n - 1 - i) mod 256) (if i + 1 = n then 1 else 0)) (enumerate k ys) = compares ys"
    if "k + length ys = n" "n \<le> 256" for k n ys
    using that
  proof (induction ys arbitrary: k)
    case (Cons y ys)
    then have "Suc k + length ys = n" "n - 1 - k = length ys" "length ys < 256" by auto
    with Cons.IH [of "Suc k"] Cons.prems show ?case by auto
  qed simp
  from this [of 0 xs "length xs"] assms show ?thesis by (simp add: compare_run_def)
qed

lemma bpf_compares:
  assumes "xs \<noteq> []"
  shows "bpf d a (compares xs @ [ret x, ret y]) = Some (if a \<in> u32 ` set xs then x else y)"
  using assms
proof (induction xs)
  case (Cons z zs)
  then show ?case by (cases "zs = []") (auto simp: drop_append)
qed simp

lemma allowed_facts: "set (allowed sys) = sys ` set allowed_names" "allowed sys \<noteq> []" "length (allowed sys) \<le> 256"
proof -
  show "set (allowed sys) = sys ` set allowed_names" by (simp add: allowed_def)
  moreover have "length allowed_names = 91" by (simp only: allowed_names_def list.size)
  ultimately show "allowed sys \<noteq> []" by (metis list.size(3) image_is_empty set_empty zero_neq_numeral)
  have "length (allowed sys) \<le> length allowed_names"
    unfolding allowed_def using remdups_adj_length [of "sort (map sys allowed_names)"] by simp
  then show "length (allowed sys) \<le> 256" by (simp add: \<open>length allowed_names = 91\<close>)
qed

lemma length_program: "length (program sys) \<le> 4096"
  using allowed_facts(3) [of sys]
  by (simp add: program_def compare_run_compares no_exec_block_def thread_block_def absent_block_def unix_block_def)

lemma program_insns:
  assumes "36 \<le> n"
  shows "\<forall>i \<in> set (program sys). insn_ok n i"
proof -
  have c: "list_all (insn_ok n) (compares xs)" for xs by (induction xs) (simp_all add: insn_ok.jeq)
  have l: "insn_ok n (stmt 0x20 k)" if "k \<le> 32" for k using assms that by (intro insn_ok.load) simp
  have "list_all (insn_ok n) (program sys)"
    by (simp add: program_def compare_run_compares allowed_facts no_exec_block_def thread_block_def absent_block_def
        unix_block_def arg_def c l insn_ok.jeq insn_ok.jset insn_ok.ret)
  then show ?thesis by (simp add: list_all_iff)
qed

lemma bpf_listed:
  "bpf d a (stmt 0x20 0 # compare_run (allowed sys) @ [ret x, ret y]) =
     Some (if list_ex (\<lambda>n. u32_at d 0 = u32 (sys n)) allowed_names then x else y)"
  by (auto simp: compare_run_compares allowed_facts bpf_compares list_ex_iff)

lemma bpf_checks:
  "bpf d a (concat (map (no_exec_block \<circ> sys) [n1, n2, n3]) @ s) =
     (if u32_at d 0 = u32 (sys n1) \<or> u32_at d 0 = u32 (sys n2) \<or> u32_at d 0 = u32 (sys n3)
      then Some (if bit (u32_at d (arg 2)) 2 then errno_ret 1 else RET_ALLOW) else bpf d (u32_at d 0) s)"
  "bpf d a (concat (map (unix_block \<circ> sys) [n1, n2]) @ s) =
     (if u32_at d 0 = u32 (sys n1) \<or> u32_at d 0 = u32 (sys n2)
      then Some (if u32_at d (arg 0) = AF_UNIX then RET_ALLOW else errno_ret 97) else bpf d (u32_at d 0) s)"
  by (simp_all add: bpf_blocks)

lemma bpf_entry:
  "bpf d a ([stmt 0x20 4, jump 0x15 k 1 0, ret x, stmt 0x20 0, jump 0x45 0x40000000 0 1, ret x] @ s) =
     (if u32_at d 4 \<noteq> k \<or> bit (u32_at d 0) 30 then Some x else bpf d (u32_at d 0) s)"
  by (simp add: and_bit_iff)

lemma bpf_program: "bpf d a (program sys) = Some (verdict sys d)"
  unfolding program_def verdict_def Let_def bpf_entry bpf_checks bpf_blocks bpf_listed
  by (simp only: if_distrib [of Some])

text \<open>C11: On every system call the filter answers what the policy says, run on any machine that does what is documented
  of the four BPF instructions it uses: foreign architectures and the x32 numbering kill the process, no mapping is
  made executable, clone makes threads only, sockets are Unix sockets, and anything unlisted is refused with EPERM.
  No jump, computed or written out, leaves the program or reaches an answer meant for another call.\<close>

theorem seccomp_filter_decides:
  assumes "classic_bpf run" and "64 \<le> length d"
  shows "run (program sys) d 0 0 = Some (verdict sys d)"
  using classic_bpf.run_rest [OF assms(1) program_insns, of d sys 0 0] assms(2) by (simp add: bpf_program)

definition sample_numbers :: "string \<Rightarrow> nat" where
  "sample_numbers n = (case map_of [(''mmap'', 9), (''mprotect'', 10), (''pkey_mprotect'', 329), (''clone'', 56), (''clone3'', 435),
     (''socket'', 41), (''socketpair'', 53), (''read'', 0)] n of Some k \<Rightarrow> k | None \<Rightarrow> 1)"

lemma seccomp_filter_decides_witness:
  "bpf_run (program sample_numbers) (le_bytes 4 9 @ le_bytes 4 0xc000003e @ replicate 24 0 @ le_bytes 4 5 @ replicate 28 0) 0 0 =
     Some (errno_ret 1)"
proof -
  let ?d = "le_bytes 4 9 @ le_bytes 4 0xc000003e @ replicate 24 0 @ le_bytes 4 5 @ replicate 28 0 :: bytes"
  have "u32_at ?d 0 = 9" "u32_at ?d 4 = 0xc000003e" "u32_at ?d 32 = 5"
    by (simp_all add: le_at_def of_le_le_bytes)
  then have "verdict sample_numbers ?d = errno_ret 1"
    by (simp add: verdict_def arg_def sample_numbers_def u32_def bit_iff_odd)
  with seccomp_filter_decides [OF rest.classic_bpf_axioms, of ?d sample_numbers] show ?thesis by simp
qed

end
