(* ===== verification/Sandbox.thy ===== *)
theory Sandbox
  imports Seccomp DriverVersions
begin

text \<open>
  What the daemon does to itself before it opens a device: it refuses to run privileged and drops its capabilities
  (\<open>device/src/posture.rs\<close>), names to Landlock what it may open and installs the system-call filter
  (\<open>device/src/sandbox.rs\<close>, called from \<open>main\<close> of \<open>device/bin/vhost-user-nvgpu.rs\<close>).

  What the kernel answers each call is the record \<open>kernel\<close>; what the daemon asked of it is the list of \<open>drop_call\<close>s
  and the \<open>ruleset\<close> it built. Status text is ASCII.
\<close>

section \<open>The kernel's answers\<close>

record ruleset_attr =
  handled_access_fs :: nat
  handled_access_net :: nat
  scoped :: nat

record ruleset =
  lr_attr :: ruleset_attr
  lr_rules :: "(string \<times> nat) list"

datatype drop_call = AmbientClearAll | Capset nat nat nat | NoNewPrivs

record kernel =
  k_euid :: nat
  k_status :: "nat \<Rightarrow> string option"
  k_drop :: "drop_call \<Rightarrow> int option"
  k_threads :: nat
  k_landlock_abi :: int
  k_create :: "ruleset_attr \<Rightarrow> nat \<Rightarrow> int option"
  k_open_path :: "string \<Rightarrow> int option"
  k_add_rule :: "int \<Rightarrow> nat \<Rightarrow> bool"
  k_restrict :: bool
  k_seccomp_probe :: "int \<times> int"
  k_seccomp_install :: "insn list \<Rightarrow> bool"

text \<open>\<open>k_status n\<close> is the n-th read of \<open>/proc/self/status\<close>, \<open>k_drop c\<close> the errno of a failed call or \<open>None\<close>.\<close>

section \<open>Privileges\<close>

record posture_caps =
  pc_effective :: nat
  pc_permitted :: nat

definition strip_cr :: "string \<Rightarrow> string" where
  "strip_cr l = (if l \<noteq> [] \<and> last l = CHR 0x0D then butlast l else l)"

definition lines_of :: "string \<Rightarrow> string list" where
  "lines_of s =
     (let ls = split_on (CHR 0x0A) s in map strip_cr (butlast ls) @ (if last ls = [] then [] else [last ls]))"

definition strip_prefix :: "string \<Rightarrow> string \<Rightarrow> string option" where
  "strip_prefix p s = (if take (length p) s = p then Some (drop (length p) s) else None)"

definition hex_value :: "char \<Rightarrow> nat option" where
  "hex_value c =
     (let n = of_char c :: nat in
      if 48 \<le> n \<and> n \<le> 57 then Some (n - 48)
      else if 65 \<le> n \<and> n \<le> 70 then Some (n - 55)
      else if 97 \<le> n \<and> n \<le> 102 then Some (n - 87)
      else None)"

fun hex_digits :: "nat \<Rightarrow> string \<Rightarrow> nat option" where
  "hex_digits acc [] = Some acc"
| "hex_digits acc (c # cs) =
     (case hex_value c of
        None \<Rightarrow> None
      | Some v \<Rightarrow> if acc * 16 + v \<le> u64_max then hex_digits (acc * 16 + v) cs else None)"

definition parse_hex_u64 :: "string \<Rightarrow> nat option" where
  "parse_hex_u64 s =
     (let s = (case s of c # cs \<Rightarrow> if c = CHR ''+'' then cs else s | [] \<Rightarrow> [])
      in if s = [] then None else hex_digits 0 s)"

text \<open>\<open>find_map\<close> stops at the first line with the prefix; a value that does not parse reads as zero.\<close>

definition status_field :: "string \<Rightarrow> string \<Rightarrow> nat" where
  "status_field status name =
     (case List.map_filter (strip_prefix name) (lines_of status) of
        [] \<Rightarrow> 0
      | v # _ \<Rightarrow> (case parse_hex_u64 (trim v) of None \<Rightarrow> 0 | Some n \<Rightarrow> n))"

definition posture_parse :: "string \<Rightarrow> posture_caps" where
  "posture_parse status =
     \<lparr>pc_effective = status_field status ''CapEff:'', pc_permitted = status_field status ''CapPrm:''\<rparr>"

definition has_sys_admin :: "posture_caps \<Rightarrow> bool" where
  "has_sys_admin c \<longleftrightarrow> (pc_effective c OR pc_permitted c) AND 2 ^ 21 \<noteq> 0"

datatype posture_refusal = RunsAsRoot | HasSysAdmin posture_caps

definition posture_refusal_of :: "nat \<Rightarrow> posture_caps \<Rightarrow> posture_refusal option" where
  "posture_refusal_of euid c =
     (if euid = 0 then Some RunsAsRoot else if has_sys_admin c then Some (HasSysAdmin c) else None)"

datatype start_error =
    StatusUnreadable
  | Privileged posture_refusal
  | DropFailed drop_call int
  | ThreadsRunning nat
  | NoLandlock
  | CreateFailed
  | AddRuleFailed string
  | RestrictFailed
  | NoSeccomp
  | ProgramTooLong
  | FilterRefused

text \<open>\<open>drop_all\<close>: the calls made, and the first that failed. A kernel without ambient capabilities answers EINVAL.\<close>

definition drop_all :: "kernel \<Rightarrow> start_error option \<times> drop_call list" where
  "drop_all K =
     (case k_drop K AmbientClearAll of
        Some e \<Rightarrow> if e \<noteq> 22 then (Some (DropFailed AmbientClearAll e), [AmbientClearAll])
                  else (case k_drop K (Capset 0 0 0) of
                          Some e \<Rightarrow> (Some (DropFailed (Capset 0 0 0) e), [AmbientClearAll, Capset 0 0 0])
                        | None \<Rightarrow> (map_option (DropFailed NoNewPrivs) (k_drop K NoNewPrivs),
                                   [AmbientClearAll, Capset 0 0 0, NoNewPrivs]))
      | None \<Rightarrow> (case k_drop K (Capset 0 0 0) of
                   Some e \<Rightarrow> (Some (DropFailed (Capset 0 0 0) e), [AmbientClearAll, Capset 0 0 0])
                 | None \<Rightarrow> (map_option (DropFailed NoNewPrivs) (k_drop K NoNewPrivs),
                            [AmbientClearAll, Capset 0 0 0, NoNewPrivs])))"

definition posture_enforce :: "kernel \<Rightarrow> start_error option \<times> drop_call list" where
  "posture_enforce K =
     (case k_status K 0 of
        None \<Rightarrow> (Some StatusUnreadable, [])
      | Some s \<Rightarrow>
          (case posture_refusal_of (k_euid K) (posture_parse s) of
             Some r \<Rightarrow> (Some (Privileged r), [])
           | None \<Rightarrow>
               (case drop_all K of
                  (Some e, cs) \<Rightarrow> (Some e, cs)
                | (None, cs) \<Rightarrow> (if k_status K 1 = None then Some StatusUnreadable else None, cs))))"

section \<open>Landlock\<close>

abbreviation (input) FS_EXECUTE :: nat where "FS_EXECUTE \<equiv> 0x1"
abbreviation (input) FS_WRITE_FILE :: nat where "FS_WRITE_FILE \<equiv> 0x2"
abbreviation (input) FS_READ_FILE :: nat where "FS_READ_FILE \<equiv> 0x4"
abbreviation (input) FS_READ_DIR :: nat where "FS_READ_DIR \<equiv> 0x8"
abbreviation (input) FS_REMOVE_DIR :: nat where "FS_REMOVE_DIR \<equiv> 0x10"
abbreviation (input) FS_REMOVE_FILE :: nat where "FS_REMOVE_FILE \<equiv> 0x20"
abbreviation (input) FS_MAKE_CHAR :: nat where "FS_MAKE_CHAR \<equiv> 0x40"
abbreviation (input) FS_MAKE_DIR :: nat where "FS_MAKE_DIR \<equiv> 0x80"
abbreviation (input) FS_MAKE_REG :: nat where "FS_MAKE_REG \<equiv> 0x100"
abbreviation (input) FS_MAKE_SOCK :: nat where "FS_MAKE_SOCK \<equiv> 0x200"
abbreviation (input) FS_MAKE_FIFO :: nat where "FS_MAKE_FIFO \<equiv> 0x400"
abbreviation (input) FS_MAKE_BLOCK :: nat where "FS_MAKE_BLOCK \<equiv> 0x800"
abbreviation (input) FS_MAKE_SYM :: nat where "FS_MAKE_SYM \<equiv> 0x1000"
abbreviation (input) FS_REFER :: nat where "FS_REFER \<equiv> 0x2000"
abbreviation (input) FS_TRUNCATE :: nat where "FS_TRUNCATE \<equiv> 0x4000"
abbreviation (input) FS_IOCTL_DEV :: nat where "FS_IOCTL_DEV \<equiv> 0x8000"

definition fs_rights :: "int \<Rightarrow> nat" where
  "fs_rights abi =
     (let r = FS_EXECUTE OR FS_WRITE_FILE OR FS_READ_FILE OR FS_READ_DIR OR FS_REMOVE_DIR OR FS_REMOVE_FILE
            OR FS_MAKE_CHAR OR FS_MAKE_DIR OR FS_MAKE_REG OR FS_MAKE_SOCK OR FS_MAKE_FIFO OR FS_MAKE_BLOCK OR FS_MAKE_SYM;
          r = (if abi \<ge> 2 then r OR FS_REFER else r);
          r = (if abi \<ge> 3 then r OR FS_TRUNCATE else r)
      in if abi \<ge> 5 then r OR FS_IOCTL_DEV else r)"

definition landlock_attr :: "int \<Rightarrow> ruleset_attr" where
  "landlock_attr abi =
     \<lparr>handled_access_fs = fs_rights abi,
      handled_access_net = (if abi \<ge> 4 then 1 OR 2 else 0),
      scoped = (if abi \<ge> 6 then 1 OR 2 else 0)\<rparr>"

definition landlock_attr_size :: "int \<Rightarrow> nat" where
  "landlock_attr_size abi = (if 1 \<le> abi \<and> abi \<le> 3 then 8 else if abi = 4 \<or> abi = 5 then 16 else 24)"

definition device_rights :: "int \<Rightarrow> nat" where
  "device_rights abi = (FS_READ_FILE OR FS_WRITE_FILE OR FS_IOCTL_DEV) AND fs_rights abi"

definition read_only_rights :: nat where
  "read_only_rights = FS_READ_FILE OR FS_READ_DIR"

definition socket_rights :: nat where
  "socket_rights = FS_MAKE_SOCK OR FS_REMOVE_FILE OR FS_READ_DIR"

text \<open>A path this host does not have is skipped; a rule the kernel refuses ends the start.\<close>

fun add_rules :: "kernel \<Rightarrow> (string \<times> nat) list \<Rightarrow> start_error + (string \<times> nat) list" where
  "add_rules K [] = Inr []"
| "add_rules K ((p, rights) # rest) =
     (case k_open_path K p of
        None \<Rightarrow> add_rules K rest
      | Some f \<Rightarrow>
          if k_add_rule K f rights then map_sum id ((#) (p, rights)) (add_rules K rest)
          else Inl (AddRuleFailed p))"

record sandbox_paths =
  sp_devices :: "string list"
  sp_read_only :: "string list"
  sp_sockets :: "string list"

definition landlock_restrict :: "kernel \<Rightarrow> sandbox_paths \<Rightarrow> start_error + int \<times> ruleset" where
  "landlock_restrict K paths =
     (let abi = k_landlock_abi K in
      if abi < 1 then Inl NoLandlock
      else
        case k_create K (landlock_attr abi) (landlock_attr_size abi) of
          None \<Rightarrow> Inl CreateFailed
        | Some f \<Rightarrow>
            (case add_rules K (map (\<lambda>p. (p, device_rights abi)) (sp_devices paths)
                             @ map (\<lambda>p. (p, read_only_rights)) (sp_read_only paths)
                             @ map (\<lambda>p. (p, socket_rights)) (sp_sockets paths)) of
               Inl e \<Rightarrow> Inl e
             | Inr rules \<Rightarrow>
                 if k_restrict K then Inr (abi, \<lparr>lr_attr = landlock_attr abi, lr_rules = rules\<rparr>)
                 else Inl RestrictFailed))"

definition gpu_nodes :: "string list" where
  "gpu_nodes =
     [''/dev/nvidiactl'', ''/dev/nvidia-uvm'', ''/dev/nvidia-modeset'', ''/dev/dri'']
     @ map (\<lambda>n. ''/dev/nvidia'' @ show_nat n) [0..<16]"

section \<open>Entering the sandbox\<close>

definition seccomp_install :: "kernel \<Rightarrow> (string \<Rightarrow> nat) \<Rightarrow> start_error + nat" where
  "seccomp_install K sys =
     (if fst (k_seccomp_probe K) = 0 \<or> snd (k_seccomp_probe K) \<noteq> 14 then Inl NoSeccomp
      else if length (program sys) > 4096 then Inl ProgramTooLong
      else if k_seccomp_install K (program sys) then Inr (length (program sys))
      else Inl FilterRefused)"

record sandbox_report =
  sr_landlock_abi :: int
  sr_seccomp_rules :: nat
  sr_ruleset :: ruleset

definition sandbox_enter :: "kernel \<Rightarrow> (string \<Rightarrow> nat) \<Rightarrow> sandbox_paths \<Rightarrow> start_error + sandbox_report" where
  "sandbox_enter K sys paths =
     (if k_threads K \<noteq> 1 then Inl (ThreadsRunning (k_threads K))
      else
        case landlock_restrict K paths of
          Inl e \<Rightarrow> Inl e
        | Inr (abi, rules) \<Rightarrow>
            map_sum id (\<lambda>n. \<lparr>sr_landlock_abi = abi, sr_seccomp_rules = n, sr_ruleset = rules\<rparr>) (seccomp_install K sys))"

text \<open>The head of the daemon's \<open>main\<close>; \<open>parent\<close> is what \<open>Path::parent\<close> says of the socket's path.\<close>

definition socket_dir :: "string option \<Rightarrow> string" where
  "socket_dir parent = (case parent of Some p \<Rightarrow> if p = [] then ''.'' else p | None \<Rightarrow> ''.'')"

definition daemon_paths :: "string option \<Rightarrow> string \<Rightarrow> sandbox_paths" where
  "daemon_paths parent proc_nvidia =
     \<lparr>sp_devices = gpu_nodes,
      sp_read_only = [proc_nvidia, ''/sys/class/drm'', ''/sys/bus/pci/devices'', ''/sys/devices''],
      sp_sockets = [socket_dir parent]\<rparr>"

definition daemon_confine ::
  "kernel \<Rightarrow> (string \<Rightarrow> nat) \<Rightarrow> string option \<Rightarrow> string \<Rightarrow> (start_error + sandbox_report) \<times> drop_call list" where
  "daemon_confine K sys parent proc_nvidia =
     (case posture_enforce K of
        (Some e, cs) \<Rightarrow> (Inl e, cs)
      | (None, cs) \<Rightarrow> (sandbox_enter K sys (daemon_paths parent proc_nvidia), cs))"

section \<open>What a started daemon is confined to\<close>

lemma add_rules_filter:
  "add_rules K xs = Inr ys \<Longrightarrow> ys = filter (\<lambda>(p, r). k_open_path K p \<noteq> None) xs"
  by (induction xs arbitrary: ys rule: add_rules.induct)
    (auto simp: map_sum_Inr_iff split: option.splits if_splits)

lemma drop_all_done: "drop_all K = (None, cs) \<longleftrightarrow>
    cs = [AmbientClearAll, Capset 0 0 0, NoNewPrivs] \<and> k_drop K AmbientClearAll \<in> {None, Some 22} \<and>
    k_drop K (Capset 0 0 0) = None \<and> k_drop K NoNewPrivs = None"
  by (auto simp: drop_all_def split: option.splits)

lemma sys_admin_bits: "has_sys_admin c \<longleftrightarrow> bit (pc_effective c) 21 \<or> bit (pc_permitted c) 21"
  using and_exp_eq_0_iff_not_bit [of "pc_effective c OR pc_permitted c" 21] by (simp add: has_sys_admin_def bit_or_iff)

text \<open>What a rule may grant: rights this ABI names; writing and device ioctls on a GPU node, making a socket or removing
  a file in the socket's directory, and nothing else beyond reading.\<close>

definition rule_confined :: "int \<Rightarrow> string option \<Rightarrow> string \<times> nat \<Rightarrow> bool" where
  "rule_confined abi parent rule =
     (case rule of (p, r) \<Rightarrow>
        r AND fs_rights abi = r \<and>
        (r AND (FS_WRITE_FILE OR FS_IOCTL_DEV) \<noteq> 0 \<longrightarrow> p \<in> set gpu_nodes) \<and>
        (r AND (FS_MAKE_SOCK OR FS_REMOVE_FILE) \<noteq> 0 \<longrightarrow> p = socket_dir parent) \<and>
        r AND (FS_EXECUTE OR FS_REMOVE_DIR OR FS_MAKE_CHAR OR FS_MAKE_DIR OR FS_MAKE_REG OR FS_MAKE_FIFO OR FS_MAKE_BLOCK
               OR FS_MAKE_SYM OR FS_REFER OR FS_TRUNCATE) = 0)"

lemma rule_rights:
  assumes "1 \<le> abi"
  shows "p \<in> set gpu_nodes \<Longrightarrow> rule_confined abi parent (p, device_rights abi)"
    "rule_confined abi parent (p, read_only_rights)"
    "rule_confined abi parent (socket_dir parent, socket_rights)"
  by (simp_all add: rule_confined_def device_rights_def read_only_rights_def socket_rights_def fs_rights_def Let_def)

lemma landlock_restrict_done:
  assumes "landlock_restrict K paths = Inr (abi, rules)"
  shows "1 \<le> abi" "lr_attr rules = landlock_attr abi"
    "lr_rules rules = filter (\<lambda>(p, r). k_open_path K p \<noteq> None)
       (map (\<lambda>p. (p, device_rights abi)) (sp_devices paths) @ map (\<lambda>p. (p, read_only_rights)) (sp_read_only paths) @
        map (\<lambda>p. (p, socket_rights)) (sp_sockets paths))"
proof -
  from assms show "1 \<le> abi" "lr_attr rules = landlock_attr abi"
    by (auto simp: landlock_restrict_def Let_def split: if_splits option.splits sum.splits)
  show "lr_rules rules = filter (\<lambda>(p, r). k_open_path K p \<noteq> None)
       (map (\<lambda>p. (p, device_rights abi)) (sp_devices paths) @ map (\<lambda>p. (p, read_only_rights)) (sp_read_only paths) @
        map (\<lambda>p. (p, socket_rights)) (sp_sockets paths))"
    by (rule add_rules_filter [of K])
      (use assms in \<open>auto simp: landlock_restrict_def Let_def split: if_splits option.splits sum.splits\<close>)
qed

lemma posture_enforce_done:
  "posture_enforce K = (None, calls) \<longleftrightarrow>
     (\<exists>s. k_status K 0 = Some s \<and> posture_refusal_of (k_euid K) (posture_parse s) = None) \<and>
     drop_all K = (None, calls) \<and> k_status K 1 \<noteq> None"
  by (auto simp: posture_enforce_def split: option.splits prod.splits if_splits)


definition sample_kernel :: kernel where
  "sample_kernel =
     \<lparr>k_euid = 1000, k_status = (\<lambda>_. Some []), k_drop = (\<lambda>_. None), k_threads = 1, k_landlock_abi = 4,
      k_create = (\<lambda>_ _. Some 3), k_open_path = (\<lambda>_. None), k_add_rule = (\<lambda>_ _. True), k_restrict = True,
      k_seccomp_probe = (-1, 14), k_seccomp_install = (\<lambda>_. True)\<rparr>"

lemma sample_kernel_fields:
  "k_euid sample_kernel = 1000" "k_status sample_kernel n = Some []" "k_drop sample_kernel c = None" "k_threads sample_kernel = 1"
  "k_landlock_abi sample_kernel = 4" "k_create sample_kernel x m = Some 3" "k_open_path sample_kernel p = None"
  "k_restrict sample_kernel" "k_seccomp_probe sample_kernel = (-1, 14)" "k_seccomp_install sample_kernel q"
  by (simp_all add: sample_kernel_def)


end
