(* ===== verification/WindowState.thy ===== *)
theory WindowState
  imports Dispatch
begin

text \<open>
  What the backend keeps of the shared window: its zones are well formed, every region on record is a range the zone could
  have handed out, and everything it has asked of the VMM and of its own mapping lies inside the window.
\<close>

section \<open>The allocator\<close>

definition zones_ok :: "shm_allocator \<Rightarrow> bool" where
  "zones_ok sa \<longleftrightarrow> (\<forall>p. zone_ok (shm_zone sa p) \<and> z_base (shm_zone sa p) + z_size (shm_zone sa p) \<le> sa_total sa)"

definition same_zones :: "shm_allocator \<Rightarrow> shm_allocator \<Rightarrow> bool" where
  "same_zones sa sa' \<longleftrightarrow> sa_total sa' = sa_total sa \<and>
     (\<forall>p. z_base (shm_zone sa' p) = z_base (shm_zone sa p) \<and> z_size (shm_zone sa' p) = z_size (shm_zone sa p))"

definition region_ok :: "shm_allocator \<Rightarrow> shm_region \<Rightarrow> bool" where
  "region_ok sa r \<longleftrightarrow> zone_place (shm_zone sa (sr_pgprot r)) (sr_offset r) (sr_length r) \<and>
     0 < page_up (sr_length r) \<and> sr_length r < 2 ^ 64"

lemma region_ok_same: "same_zones sa sa' \<Longrightarrow> region_ok sa' r = region_ok sa r"
  using zone_place_cong [of "shm_zone sa' (sr_pgprot r)" "shm_zone sa (sr_pgprot r)"]
  by (simp add: same_zones_def region_ok_def)

lemma same_zones_trans: "same_zones a b \<Longrightarrow> same_zones b c \<Longrightarrow> same_zones a c"
  by (simp add: same_zones_def)

lemma same_zones_refl [simp]: "same_zones a a"
  by (simp add: same_zones_def)

lemma sa_total_set_zone [simp]: "sa_total (shm_set_zone sa p z) = sa_total sa"
  by (simp add: shm_set_zone_def split: pgprot.split)

lemma shm_alloc_ok:
  assumes ok: "zones_ok sa" and r: "shm_alloc sa len p = Some (r, sa')" and len: "len < 2 ^ 64"
  shows "zones_ok sa' \<and> same_zones sa sa' \<and> region_ok sa' r \<and> sr_length r = len"
proof -
  obtain a z where al: "zone_alloc (shm_zone sa p) len = Some (a, z)"
    and r': "r = \<lparr>sr_offset = a, sr_length = len, sr_pgprot = p\<rparr>" "sa' = shm_set_zone sa p z"
    using r by (auto simp: shm_alloc_def split: option.splits)
  have z: "zone_ok (shm_zone sa p)" using ok by (simp add: zones_ok_def)
  note spec = zone_alloc_spec [OF z al]
  have "zone_place z a len"
    using zone_alloc_place [OF z al] zone_place_cong [of z "shm_zone sa p"] spec(5,6) by simp
  then show ?thesis using ok spec(1,4-6) len by (simp add: zones_ok_def same_zones_def region_ok_def r')
qed

lemma shm_free_ok:
  assumes ok: "zones_ok sa" and r: "region_ok sa r"
  shows "zones_ok (snd (shm_free sa r m)) \<and> same_zones sa (snd (shm_free sa r m))"
proof (cases m)
  case False
  with ok show ?thesis by (simp add: shm_free_def shm_unmap_host_fd_def Let_def)
next
  case True
  let ?z = "shm_zone sa (sr_pgprot r)"
  obtain b z where f: "zone_free_extent ?z (sr_offset r) (sr_length r) = (b, z)" by (metis prod.exhaust)
  have "zone_ok z \<and> z_base z = z_base ?z \<and> z_size z = z_size ?z"
  proof (cases b)
    case True
    with f zone_free_spec(2) [of ?z "sr_offset r" "sr_length r" z] ok r show ?thesis by (simp add: zones_ok_def region_ok_def)
  next
    case False
    with f zone_free_rejects [of ?z "sr_offset r" "sr_length r"] ok show ?thesis by (simp add: zones_ok_def)
  qed
  with True f ok show ?thesis
    by (simp add: shm_free_def shm_unmap_host_fd_def Let_def zone_free_page_up zones_ok_def same_zones_def)
qed

lemma shm_new_zones:
  assumes "shm_new cfg = Some sa" "sa_total sa < 2 ^ 64"
  shows "zones_ok sa"
proof -
  have "sa_total sa = zc_total cfg" using assms(1) by (auto simp: shm_new_def split: if_splits)
  with assms show ?thesis
    unfolding zones_ok_def
    by (auto simp: shm_new_def shm_zone_def zc_total_def mod_eq_0_iff_dvd split: if_splits pgprot.splits
        intro!: zone_new_ok) (auto simp: zone_new_def)
qed

section \<open>The backend\<close>

text \<open>What an action asks of the window stays inside it.\<close>

definition in_window :: "nat \<Rightarrow> nat \<Rightarrow> nat \<Rightarrow> bool" where
  "in_window n off len \<longleftrightarrow> 4096 dvd off \<and> 0 < len \<and> off + len \<le> n"

definition inside :: "nat \<Rightarrow> event \<Rightarrow> bool" where
  "inside n e \<longleftrightarrow>
     (case e of EvPlace off len f fo \<Rightarrow> in_window n off len | EvWithdraw off len \<Rightarrow> in_window n off len
      | EvRemap off len \<Rightarrow> in_window n off len | _ \<Rightarrow> True)"

lemma inside_simps [simp]:
  "inside n (EvOpen path)" "inside n (EvClose f)" "inside n (EvIoctl f q b bs)" "inside n (EvPlacePool a l f p)"
  "inside n (EvWithdrawPool a l)" "inside n (EvLease m)" "inside n (EvSpan m)" "inside n (EvUnspan a l)"
  "inside n (EvPlace a l f p) = in_window n a l" "inside n (EvWithdraw a l) = in_window n a l"
  "inside n (EvRemap a l) = in_window n a l"
  by (simp_all add: inside_def)

lemma region_inside:
  assumes "zones_ok sa" "region_ok sa r"
  shows "in_window (sa_total sa) (sr_offset r) (sr_length r)" "in_window (sa_total sa) (sr_offset r) (page_up (sr_length r))"
proof -
  let ?z = "shm_zone sa (sr_pgprot r)"
  have "sr_offset r + page_up (sr_length r) \<le> z_base ?z + z_size ?z" "4096 dvd sr_offset r" "0 < page_up (sr_length r)"
    "sr_length r < 2 ^ 64" using assms(2) by (simp_all add: region_ok_def zone_place_def)
  moreover have "z_base ?z + z_size ?z \<le> sa_total sa" using assms(1) by (simp add: zones_ok_def)
  moreover have "sr_length r \<le> page_up (sr_length r)" using calculation len_le_page_up by blast
  moreover have "0 < sr_length r" using calculation(3) by (cases "sr_length r = 0") (auto simp: align_up_page)
  ultimately show "in_window (sa_total sa) (sr_offset r) (sr_length r)"
    "in_window (sa_total sa) (sr_offset r) (page_up (sr_length r))" unfolding in_window_def by linarith+
qed

definition window_ok :: "backend \<Rightarrow> bool" where
  "window_ok bk \<longleftrightarrow> zones_ok (bk_shm bk) \<and>
     (\<forall>e \<in> snd ` set (bk_active bk). region_ok (bk_shm bk) (me_region e)) \<and>
     (\<forall>l \<in> snd ` set (bk_live bk). region_ok (bk_shm bk) (lm_region l) \<and> lm_length l = sr_length (lm_region l)) \<and>
     list_all (inside (sa_total (bk_shm bk))) (bk_trace bk)"

text \<open>The state of the window is carried from one state to another.\<close>

definition window_step :: "backend \<Rightarrow> backend \<Rightarrow> bool" where
  "window_step a b \<longleftrightarrow> sa_total (bk_shm b) = sa_total (bk_shm a) \<and> (window_ok a \<longrightarrow> window_ok b)"

lemma window_step_refl [simp]: "window_step a a"
  by (simp add: window_step_def)

lemma window_step_trans: "window_step a b \<Longrightarrow> window_step b c \<Longrightarrow> window_step a c"
  by (simp add: window_step_def)

lemma window_step_note: "(window_ok b \<Longrightarrow> inside (sa_total (bk_shm b)) e) \<Longrightarrow> window_step b (note_event e b)"
  by (auto simp: window_step_def window_ok_def note_event_def)

lemma window_step_same:
  "bk_shm b = bk_shm a \<Longrightarrow> bk_active b = bk_active a \<Longrightarrow> bk_live b = bk_live a \<Longrightarrow> bk_trace b = bk_trace a \<Longrightarrow> window_step a b"
  by (simp add: window_step_def window_ok_def)

lemma shm_free_total [simp]: "sa_total (snd (shm_free sa r m)) = sa_total sa"
  by (simp add: shm_free_def shm_unmap_host_fd_def Let_def case_prod_beta)

lemma shm_alloc_total: "shm_alloc sa len p = Some (r, sa') \<Longrightarrow> sa_total sa' = sa_total sa"
  by (auto simp: shm_alloc_def split: option.splits)

lemma shm_release_total [simp]:
  "sa_total (bk_shm (shm_release E r b)) = sa_total (bk_shm b)"
  "sa_total (bk_shm (fold (\<lambda>e. shm_release E (me_region e)) es b)) = sa_total (bk_shm b)"
proof -
  show one: "sa_total (bk_shm (shm_release E r b)) = sa_total (bk_shm b)" for r b
    by (simp add: shm_release_def note_event_def Let_def)
  show "sa_total (bk_shm (fold (\<lambda>e. shm_release E (me_region e)) es b)) = sa_total (bk_shm b)"
    by (induction es arbitrary: b) (simp_all add: one)
qed

lemma window_ok_shm:
  assumes "window_ok b" "zones_ok sa" "same_zones (bk_shm b) sa"
  shows "window_ok (b\<lparr>bk_shm := sa\<rparr>)"
  using assms region_ok_same [OF assms(3)] by (simp add: window_ok_def same_zones_def)

lemma window_step_release:
  assumes "window_ok b \<Longrightarrow> region_ok (bk_shm b) r"
  shows "window_step b (shm_release E r b) \<and> (window_ok b \<longrightarrow> same_zones (bk_shm b) (bk_shm (shm_release E r b)))"
proof (cases "window_ok b")
  case True
  define sa where "sa = snd (shm_free (bk_shm b) r (en_remap E (bk_trace b) (sr_offset r) (page_up (sr_length r))))"
  have z: "zones_ok (bk_shm b)" using True by (simp add: window_ok_def)
  have sa: "zones_ok sa" "same_zones (bk_shm b) sa" using shm_free_ok [OF z assms [OF True]] by (simp_all add: sa_def)
  have w: "window_ok (b\<lparr>bk_shm := sa\<rparr>)" by (rule window_ok_shm [OF True sa])
  have e: "shm_release E r b = note_event (EvRemap (sr_offset r) (page_up (sr_length r))) (b\<lparr>bk_shm := sa\<rparr>)"
    by (simp add: shm_release_def Let_def sa_def)
  have "in_window (sa_total sa) (sr_offset r) (page_up (sr_length r))"
    using region_inside(2) [OF z assms [OF True]] by (simp add: sa_def)
  then have "window_step (b\<lparr>bk_shm := sa\<rparr>) (shm_release E r b)" unfolding e by (intro window_step_note) simp
  with w sa show ?thesis by (simp add: window_step_def e note_event_def) (simp add: sa_def)
qed (simp add: window_step_def shm_release_def note_event_def Let_def)

lemma window_step_releases:
  assumes "\<And>e. window_ok b \<Longrightarrow> e \<in> set es \<Longrightarrow> region_ok (bk_shm b) (me_region e)"
  shows "window_step b (fold (\<lambda>e. shm_release E (me_region e)) es b)"
proof -
  have "window_ok (fold (\<lambda>e. shm_release E (me_region e)) es b)" if "window_ok b"
    using that assms [OF that]
  proof (induction es arbitrary: b)
    case (Cons e es)
    have r: "window_ok (shm_release E (me_region e) b)" "same_zones (bk_shm b) (bk_shm (shm_release E (me_region e) b))"
      using window_step_release [of b "me_region e" E] Cons.prems by (simp_all add: window_step_def)
    with Cons.prems show ?case by (simp add: Cons.IH region_ok_same)
  qed simp
  then show ?thesis by (simp add: window_step_def)
qed

text \<open>The entries a file or a teardown takes out of the context were in it, and the rest stay.\<close>

lemma mc_remove_keys_sub:
  "mc_remove_keys ks m = (es, m') \<Longrightarrow> set es \<subseteq> snd ` set m \<and> set m' \<subseteq> set m"
proof (induction ks arbitrary: m es m')
  case (Cons k ks)
  obtain es1 m1 where r: "mc_remove_keys ks (AList.delete k m) = (es1, m1)" by (metis prod.exhaust)
  from Cons.IH [OF r] have "set es1 \<subseteq> snd ` set m" "set m1 \<subseteq> set m" by (auto simp: set_delete)
  moreover have v: "e \<in> snd ` set m" if "map_of m k = Some e" for e using map_of_SomeD [OF that] by force
  moreover have "es = (case map_of m k of None \<Rightarrow> es1 | Some e \<Rightarrow> e # es1)" "m' = m1"
    using Cons.prems r by (simp_all add: mc_remove_def split: option.splits)
  ultimately show ?case by (cases "map_of m k") simp_all
qed simp

lemma window_step_active:
  assumes "set es \<subseteq> snd ` set (bk_active b)" "set m \<subseteq> set (bk_active b)"
  shows "window_step b (fold (\<lambda>e. shm_release E (me_region e)) es (b\<lparr>bk_active := m\<rparr>))"
proof -
  let ?c = "b\<lparr>bk_active := m\<rparr>"
  show ?thesis
  proof (cases "window_ok b")
    case True
    then have "window_ok ?c" and r: "\<forall>e \<in> set es. region_ok (bk_shm b) (me_region e)"
      using assms by (auto simp: window_ok_def)
    then have "window_step b ?c" by (simp add: window_step_def)
    moreover have "window_step ?c (fold (\<lambda>e. shm_release E (me_region e)) es ?c)"
      using r by (intro window_step_releases) simp
    ultimately show ?thesis by (rule window_step_trans)
  next
    case False
    then show ?thesis by (simp add: window_step_def)
  qed
qed

lemma set_update_sub: "set (AList.update k v al) \<subseteq> insert (k, v) (set al)"
  by (induction al) auto

lemma snd_update_sub: "snd ` set (AList.update k v al) \<subseteq> snd ` set al \<union> {v}"
  using set_update_sub [of k v al] by force

lemma ball_sub: "U \<subseteq> S \<union> T \<Longrightarrow> \<forall>x \<in> S. Q x \<Longrightarrow> \<forall>x \<in> T. Q x \<Longrightarrow> \<forall>x \<in> U. Q x"
  by blast

text \<open>Entries taken out, and entries for regions in order put in.\<close>

lemma window_ok_entries:
  assumes ok: "window_ok c" and same: "bk_shm d = bk_shm c" "bk_trace d = bk_trace c"
    and sub: "snd ` set (bk_active d) \<subseteq> snd ` set (bk_active c) \<union> es" "snd ` set (bk_live d) \<subseteq> snd ` set (bk_live c) \<union> ls"
    and new: "\<forall>e \<in> es. region_ok (bk_shm c) (me_region e)"
      "\<forall>l \<in> ls. region_ok (bk_shm c) (lm_region l) \<and> lm_length l = sr_length (lm_region l)"
  shows "window_ok d"
proof -
  have a: "\<forall>e \<in> snd ` set (bk_active c). region_ok (bk_shm c) (me_region e)"
    and l: "\<forall>l \<in> snd ` set (bk_live c). region_ok (bk_shm c) (lm_region l) \<and> lm_length l = sr_length (lm_region l)"
    using ok unfolding window_ok_def by blast+
  note a' = ball_sub [OF sub(1) a new(1)] and l' = ball_sub [OF sub(2) l new(2)]
  show ?thesis using ok a' l' unfolding window_ok_def same by (elim conjE) (intro conjI)
qed

text \<open>A fresh region, placed.\<close>

lemma window_ok_place:
  assumes "window_ok b" "shm_alloc (bk_shm b) len p = Some (r, sa)" "len < 2 ^ 64"
  shows "window_ok (note_event (EvPlace (sr_offset r) len f fo) (b\<lparr>bk_shm := sa\<rparr>))" "region_ok sa r" "sr_length r = len"
proof -
  have "zones_ok (bk_shm b)" using assms(1) by (simp add: window_ok_def)
  note a = shm_alloc_ok [OF this assms(2,3)]
  then show "region_ok sa r" "sr_length r = len" by simp_all
  have "window_ok (b\<lparr>bk_shm := sa\<rparr>)" using a by (intro window_ok_shm assms(1)) simp_all
  moreover have "in_window (sa_total sa) (sr_offset r) len" using region_inside(1) [of sa r] a by simp
  ultimately show "window_ok (note_event (EvPlace (sr_offset r) len f fo) (b\<lparr>bk_shm := sa\<rparr>))"
    by (simp add: window_ok_def note_event_def)
qed

section \<open>The handlers of the window\<close>

lemma window_step_unmap_pool: "window_step b (unmap_uvm_pool i p b)"
  by (simp add: unmap_uvm_pool_def window_step_note)

lemma window_step_map_uvm_pool: "window_step b (snd (map_uvm_pool E cap sz off b))"
  by (auto simp: map_uvm_pool_def Let_def window_step_def window_ok_def note_event_def split: option.splits sum.splits)

lemma window_step_place_unrecorded:
  assumes "sz < 2 ^ 64"
  shows "window_step b (snd (place_unrecorded E cap sz fo f pr b))"
proof (cases "shm_alloc (bk_shm b) (max sz 4096) pr")
  case None
  then show ?thesis by (simp add: place_unrecorded_def Let_def)
next
  case (Some x)
  obtain r sa where x: "x = (r, sa)" by (cases x)
  let ?len = "max sz 4096"
  define c where "c = note_event (EvPlace (sr_offset r) ?len f fo) (b\<lparr>bk_shm := sa\<rparr>)"
  have tot: "sa_total (bk_shm c) = sa_total (bk_shm b)" using shm_alloc_total Some x by (simp add: c_def note_event_def)
  have "?len < 2 ^ 64" using assms by simp
  note p = Some [unfolded x] this
  note w = window_ok_place(1) [OF _ p, where f = f and fo = fo, folded c_def] window_ok_place(2,3) [OF _ p]
  have s: "window_step b c" using w(1) tot by (simp add: window_step_def)
  show ?thesis
  proof (cases "en_place E (bk_trace b) (sr_offset r) ?len f fo")
    case False
    with Some x have "snd (place_unrecorded E cap sz fo f pr b) = shm_release E r c"
      by (simp add: place_unrecorded_def Let_def c_def)
    moreover have "window_ok b \<longrightarrow> window_ok (shm_release E r c)"
      using w window_step_release [of c r E] by (auto simp: window_step_def c_def note_event_def)
    ultimately show ?thesis using tot by (simp add: window_step_def)
  next
    case True
    define l where "l = \<lparr>lm_key = (bk_handle b, fo), lm_region = r, lm_length = ?len\<rparr>"
    define e where "e = \<lparr>me_host_addr = 0, me_length = ?len, me_client = 0, me_memory = 0, me_fd = bk_handle b, me_region = r\<rparr>"
    define d where "d = snd (place_unrecorded E cap sz fo f pr b)"
    have d: "bk_shm d = bk_shm c" "bk_trace d = bk_trace c" "bk_live d = AList.update (bk_next_mapping_id b) l (bk_live b)"
      "bk_active d = mc_insert (sr_offset r) e (bk_active b)"
      using True Some x by (simp_all add: d_def place_unrecorded_def Let_def c_def l_def e_def note_event_def)
    have "window_ok d" if "window_ok b"
    proof (rule window_ok_entries [where es = "{e}" and ls = "{l}"])
      show "window_ok c" by (rule w(1) [OF that])
      show "snd ` set (bk_active d) \<subseteq> snd ` set (bk_active c) \<union> {e}" "snd ` set (bk_live d) \<subseteq> snd ` set (bk_live c) \<union> {l}"
        using snd_update_sub [of "sr_offset r" e "bk_active b"] snd_update_sub [of "bk_next_mapping_id b" l "bk_live b"]
        by (simp_all add: d mc_insert_def c_def note_event_def)
    qed (use d w that in \<open>simp_all add: e_def l_def c_def note_event_def\<close>)
    then show ?thesis using tot unfolding d_def [symmetric] by (simp add: window_step_def d)
  qed
qed

lemma window_step_map_unrecorded:
  assumes "sz < 2 ^ 64"
  shows "window_step b (snd (map_unrecorded E cap sz off b))"
  using window_step_place_unrecorded [OF assms] by (auto simp: map_unrecorded_def Let_def split: option.splits)

lemma window_step_mmap: "window_step b (snd (handle_mmap E cap payload b))"
proof -
  have "mr_size (dec_mmap_req payload) < 2 ^ 64" using u64_at_bound [of payload 0] by (simp add: dec_mmap_req_def)
  then show ?thesis
    using window_step_map_uvm_pool window_step_map_unrecorded
    by (auto simp: handle_mmap_def Let_def split: option.splits device_kind.splits)
qed

lemma window_step_munmap: "window_step b (snd (handle_munmap E cap payload b))"
proof (cases "length payload < 8")
  case True
  then show ?thesis by (simp add: handle_munmap_def)
next
  case False
  let ?i = "ur_mapping_id (dec_munmap_req payload)"
  have pool: "window_step b (unmap_uvm_pool i p (b\<lparr>bk_aperture := a\<rparr>))" for i p a
    by (rule window_step_trans [OF window_step_same window_step_unmap_pool]) simp_all
  show ?thesis
  proof (cases "map_of (bk_aperture b) ?i")
    case (Some p)
    with False pool show ?thesis by (simp add: handle_munmap_def ap_remove_def Let_def)
  next
    case no_pool: None
    show ?thesis
    proof (cases "map_of (bk_live b) ?i")
      case None
      with False no_pool show ?thesis by (simp add: handle_munmap_def ap_remove_def)
    next
      case (Some l)
      define c where "c = b\<lparr>bk_live := AList.delete ?i (bk_live b), bk_dri_maps := AList.delete (lm_key l) (bk_dri_maps b)\<rparr>"
      define d where "d = (if bk_window c then note_event (EvWithdraw (sr_offset (lm_region l)) (lm_length l)) c else c)"
      define e where "e = d\<lparr>bk_active := snd (mc_remove (sr_offset (lm_region l)) (bk_active d))\<rparr>"
      have run: "snd (handle_munmap E cap payload b) = shm_release E (lm_region l) e"
        using False no_pool Some by (simp add: handle_munmap_def ap_remove_def Let_def e_def d_def c_def)
      have live: "region_ok (bk_shm b) (lm_region l) \<and> lm_length l = sr_length (lm_region l)" if "window_ok b"
        using that map_of_SomeD [OF Some] by (force simp: window_ok_def)
      have c: "window_ok c" if "window_ok b"
        by (rule window_ok_entries [OF that, where es = "{}" and ls = "{}"]) (auto simp: c_def set_delete)
      have d: "window_ok d" if "window_ok b"
      proof -
        have "zones_ok (bk_shm b)" using that by (simp add: window_ok_def)
        then have "in_window (sa_total (bk_shm b)) (sr_offset (lm_region l)) (lm_length l)"
          using region_inside(1) live [OF that] by simp
        with c [OF that] show ?thesis by (simp add: d_def c_def note_event_def window_ok_def)
      qed
      have e: "window_ok e" if "window_ok b"
        by (rule window_ok_entries [OF d [OF that], where es = "{}" and ls = "{}"]) (auto simp: e_def mc_remove_def set_delete)
      have shm: "bk_shm e = bk_shm b" by (simp add: e_def d_def c_def note_event_def)
      have "window_step b e" using e by (simp add: window_step_def shm)
      moreover have "window_ok (shm_release E (lm_region l) e)" if "window_ok b"
        using window_step_release [of e "lm_region l" E] live [OF that] e [OF that] by (simp add: shm window_step_def)
      ultimately show ?thesis unfolding run
        by (simp add: window_step_def shm)
    qed
  qed
qed

lemma mc_take_sub:
  "set (fst (mc_take_for_fd h m)) \<subseteq> snd ` set m" "set (snd (mc_take_for_fd h m)) \<subseteq> set m"
  using mc_remove_keys_sub [of "map fst (filter (\<lambda>(_, e). me_fd e = h) m)" m "fst (mc_take_for_fd h m)" "snd (mc_take_for_fd h m)"]
  by (simp_all add: mc_take_for_fd_def)

text \<open>An RM mapping, placed and undone.\<close>

lemma window_step_map_memory_place: "window_step b (snd (map_memory_place E cap g hf param b))"
proof (cases "shm_alloc (bk_shm b) (u64_at param 24) (caching_prot (u32_at param 44))")
  case None
  then show ?thesis by (simp add: map_memory_place_def Let_def)
next
  case (Some x)
  obtain r sa where x: "x = (r, sa)" by (cases x)
  let ?len = "u64_at param 24"
  define c where "c = note_event (EvPlace (sr_offset r) ?len hf 0) (b\<lparr>bk_shm := sa\<rparr>)"
  have tot: "sa_total (bk_shm c) = sa_total (bk_shm b)" using shm_alloc_total Some x by (simp add: c_def note_event_def)
  note p = Some [unfolded x] u64_at_bound
  note w = window_ok_place(1) [OF _ p, where f = hf and fo = 0, folded c_def] window_ok_place(2) [OF _ p]
  show ?thesis
  proof (cases "en_place E (bk_trace b) (sr_offset r) ?len hf 0")
    case False
    with Some x have "snd (map_memory_place E cap g hf param b) = shm_release E r c"
      by (simp add: map_memory_place_def Let_def c_def)
    moreover have "window_ok b \<longrightarrow> window_ok (shm_release E r c)"
      using w window_step_release [of c r E] by (auto simp: window_step_def c_def note_event_def)
    ultimately show ?thesis using tot by (simp add: window_step_def)
  next
    case True
    define e where "e = \<lparr>me_host_addr = u64_at param 32, me_length = ?len, me_client = u32_at param 0,
        me_memory = u32_at param 8, me_fd = g, me_region = r\<rparr>"
    define d where "d = c\<lparr>bk_active := mc_insert (sr_offset r) e (bk_active c)\<rparr>"
    have run: "snd (map_memory_place E cap g hf param b) = d"
      using True Some x by (simp add: map_memory_place_def Let_def c_def d_def e_def note_event_def)
    have "window_ok d" if "window_ok b"
    proof (rule window_ok_entries [where es = "{e}" and ls = "{}"])
      show "window_ok c" by (rule w(1) [OF that])
      show "snd ` set (bk_active d) \<subseteq> snd ` set (bk_active c) \<union> {e}"
        using snd_update_sub [of "sr_offset r" e "bk_active c"] by (simp add: d_def mc_insert_def)
    qed (use w that in \<open>simp_all add: d_def e_def c_def note_event_def\<close>)
    then show ?thesis unfolding run using tot by (simp add: window_step_def d_def)
  qed
qed

lemma window_step_unmap_memory: "window_step b (snd (dispatch_unmap_memory E cap f q param b))"
proof -
  have host: "window_step c c'" if "host_ioctl E f q a bs c = (e, a', bs', c')" for c c' a bs e a' bs'
    using that by (auto simp: host_ioctl_def window_step_note split: prod.splits)
  show ?thesis
  proof (cases "length param < 32")
    case True
    then show ?thesis by (simp add: dispatch_unmap_memory_def)
  next
    case False
    let ?k = "u64_at param 16"
    show ?thesis
    proof (cases "map_of (bk_active b) ?k")
      case None
      with False show ?thesis
        by (auto simp: dispatch_unmap_memory_def mc_remove_def Let_def split: prod.splits option.splits dest!: host)
    next
      case (Some e)
      define c where "c = b\<lparr>bk_active := AList.delete ?k (bk_active b)\<rparr>"
      obtain er o' bs' d where h: "host_ioctl E f q (put_at param 16 (le_bytes 8 (me_host_addr e))) [] c = (er, o', bs', d)"
        by (metis prod_cases4)
      have e: "region_ok (bk_shm b) (me_region e)" if "window_ok b"
        using that map_of_SomeD [OF Some] by (force simp: window_ok_def)
      have c: "window_step b c"
      proof -
        have "window_ok c" if "window_ok b"
          by (rule window_ok_entries [OF that, where es = "{}" and ls = "{}"]) (auto simp: c_def set_delete)
        then show ?thesis by (simp add: window_step_def c_def)
      qed
      have bd: "window_step b d" by (rule window_step_trans [OF c host [OF h]])
      have shm: "bk_shm d = bk_shm b" using h by (auto simp: host_ioctl_def note_event_def c_def split: prod.splits)
      have again: "window_step b (d\<lparr>bk_active := mc_insert ?k e (bk_active d)\<rparr>)"
      proof -
        have "window_ok (d\<lparr>bk_active := mc_insert ?k e (bk_active d)\<rparr>)" if "window_ok b"
        proof (rule window_ok_entries [where c = d and es = "{e}" and ls = "{}"])
          show "window_ok d" using bd that by (simp add: window_step_def)
          show "\<forall>x \<in> {e}. region_ok (bk_shm d) (me_region x)" using e [OF that] by (simp add: shm)
          show "snd ` set (bk_active (d\<lparr>bk_active := mc_insert ?k e (bk_active d)\<rparr>)) \<subseteq> snd ` set (bk_active d) \<union> {e}"
            using snd_update_sub [of ?k e "bk_active d"] by (simp add: mc_insert_def)
        qed simp_all
        then show ?thesis by (simp add: window_step_def shm)
      qed
      have rel: "window_step b (shm_release E (me_region e) d)"
        using bd e window_step_release [of d "me_region e" E] by (auto simp: window_step_def shm)
      show ?thesis
        using False Some h again rel by (cases er) (simp_all add: dispatch_unmap_memory_def mc_remove_def c_def [symmetric] Let_def)
    qed
  qed
qed

end
