(* ===== verification/Frames.thy ===== *)
theory Frames
  imports WindowState
begin

text \<open>
  What a message leaves alone: the tables of the release, the message being served, and the actions already
  taken. \<open>step_ok P\<close> says of two states that the second came from the first by actions that satisfy \<open>P\<close>,
  with the tables as they were (\<open>frame_ok\<close>) and the window in order if it was (\<open>window_step\<close>); \<open>Keep\<close> says which books it
  leaves as they are. Each handler has one lemma, and the properties about what reaches the host are instances of \<open>P\<close>.
\<close>

definition release_tables ::
  "backend \<Rightarrow> driver_version option \<times> ioctl_entry list option \<times> rmctrl_selected option \<times> rm_selected option \<times>
     uvm_selected option \<times> osdesc option \<times> vidmem_selected option" where
  "release_tables bk =
     (bk_driver bk, bk_abi bk, bk_rmctrl bk, bk_rmallow bk, bk_uvm bk, bk_osdesc bk, bk_vidmem bk)"

definition tables_of ::
  "driver_version \<Rightarrow> driver_version option \<times> ioctl_entry list option \<times> rmctrl_selected option \<times> rm_selected option \<times>
     uvm_selected option \<times> osdesc option \<times> vidmem_selected option" where
  "tables_of v =
     (Some v, ioctl_table_for v, rmctrl_select v, rm_select v, uvm_select v, osdesc_select v, vidmem_select v)"

text \<open>Which of the books a step leaves alone: those of the open files, and those of the pools.\<close>

datatype keep = Keep (keeps_files: bool) (keeps_pools: bool)

abbreviation "keeps_neither \<equiv> Keep False False"

definition frame_ok :: "(event \<Rightarrow> bool) \<Rightarrow> keep \<Rightarrow> backend \<Rightarrow> backend \<Rightarrow> bool" where
  "frame_ok P k bk bk' \<longleftrightarrow>
     (release_tables bk' = release_tables bk \<or> bk_driver bk = None \<and> (\<exists>v. release_tables bk' = tables_of v)) \<and>
     bk_caps bk' = bk_caps bk \<and> bk_msg bk' = bk_msg bk \<and> bk_handle bk' = bk_handle bk \<and>
     bk_window bk' = bk_window bk \<and>
     (keeps_files k \<longrightarrow> bk_handles bk' = bk_handles bk \<and> bk_kinds bk' = bk_kinds bk \<and> bk_dri_given bk' = bk_dri_given bk) \<and>
     (keeps_pools k \<longrightarrow> bk_aperture bk' = bk_aperture bk \<and> bk_next_mapping_id bk' = bk_next_mapping_id bk) \<and>
     (\<exists>new. bk_trace bk' = new @ bk_trace bk \<and> list_all P new)"

definition step_ok :: "(event \<Rightarrow> bool) \<Rightarrow> keep \<Rightarrow> backend \<Rightarrow> backend \<Rightarrow> bool" where
  "step_ok P k bk bk' \<longleftrightarrow> frame_ok P k bk bk' \<and> window_step bk bk'"

text \<open>Everything but an ioctl, and an ioctl with the given request.\<close>

definition no_ioctl :: "event \<Rightarrow> bool" where
  "no_ioctl e \<longleftrightarrow> (case e of EvIoctl f q b bs \<Rightarrow> False | _ \<Rightarrow> True)"

text \<open>What opening and closing a file leaves in the trace.\<close>

definition file_event :: "event \<Rightarrow> bool" where
  "file_event e \<longleftrightarrow> (case e of EvOpen path \<Rightarrow> True | EvClose f \<Rightarrow> True | _ \<Rightarrow> False)"

lemma file_event_simps [simp]:
  "file_event (EvOpen path)" "file_event (EvClose f)" "\<not> file_event (EvIoctl f q b bs)" "\<not> file_event (EvPlace a l f p)"
  "\<not> file_event (EvWithdraw a l)" "\<not> file_event (EvPlacePool a l f p)" "\<not> file_event (EvWithdrawPool a l)"
  "\<not> file_event (EvRemap a l)" "\<not> file_event (EvLease n)" "\<not> file_event (EvSpan n)" "\<not> file_event (EvUnspan a l)"
  by (simp_all add: file_event_def)

text \<open>What placing a pool in the aperture and taking one out leave in it.\<close>

definition pool_event :: "event \<Rightarrow> bool" where
  "pool_event e \<longleftrightarrow> (case e of EvPlacePool a l f p \<Rightarrow> True | EvWithdrawPool a l \<Rightarrow> True | _ \<Rightarrow> False)"

lemma pool_event_simps [simp]:
  "\<not> pool_event (EvOpen path)" "\<not> pool_event (EvClose f)" "\<not> pool_event (EvIoctl f q b bs)" "\<not> pool_event (EvPlace a l f p)"
  "\<not> pool_event (EvWithdraw a l)" "pool_event (EvPlacePool a l f p)" "pool_event (EvWithdrawPool a l)"
  "\<not> pool_event (EvRemap a l)" "\<not> pool_event (EvLease n)" "\<not> pool_event (EvSpan n)" "\<not> pool_event (EvUnspan a l)"
  by (simp_all add: pool_event_def)

definition only_request :: "nat \<Rightarrow> event \<Rightarrow> bool" where
  "only_request r e \<longleftrightarrow> (case e of EvIoctl f q b bs \<Rightarrow> q = r | _ \<Rightarrow> True)"

lemma no_ioctl_simps [simp]:
  "\<not> no_ioctl (EvIoctl f q b bs)" "no_ioctl (EvOpen path)" "no_ioctl (EvClose f)" "no_ioctl (EvPlace a l f p)"
  "no_ioctl (EvWithdraw a l)" "no_ioctl (EvPlacePool a l f p)" "no_ioctl (EvWithdrawPool a l)"
  "no_ioctl (EvRemap a l)" "no_ioctl (EvLease n)" "no_ioctl (EvSpan n)" "no_ioctl (EvUnspan a l)"
  by (simp_all add: no_ioctl_def)

lemma only_request_simps [simp]: "only_request r (EvIoctl f q b bs) \<longleftrightarrow> q = r"
  by (simp add: only_request_def)

lemma no_ioctl_only_request: "no_ioctl e \<Longrightarrow> only_request r e"
  by (cases e) (simp_all add: only_request_def)

lemma no_ioctl_only_request_simps [simp]:
  "only_request r (EvOpen path)" "only_request r (EvClose f)" "only_request r (EvPlace a l f p)"
  "only_request r (EvWithdraw a l)" "only_request r (EvPlacePool a l f p)" "only_request r (EvWithdrawPool a l)"
  "only_request r (EvRemap a l)" "only_request r (EvLease n)" "only_request r (EvSpan n)" "only_request r (EvUnspan a l)"
  by (simp_all add: only_request_def)

lemma frame_refl [simp, intro]: "frame_ok P k bk bk"
  by (simp add: frame_ok_def)

lemma frame_trans: "frame_ok P k a b \<Longrightarrow> frame_ok P k b c \<Longrightarrow> frame_ok P k a c"
proof -
  assume ab: "frame_ok P k a b" and bc: "frame_ok P k b c"
  have dr: "bk_driver x = fst (release_tables x)" for x by (simp add: release_tables_def)
  from ab bc have "release_tables c = release_tables a \<or> bk_driver a = None \<and> (\<exists>v. release_tables c = tables_of v)"
    unfolding frame_ok_def using dr by metis
  moreover from ab bc obtain n1 n2 where "bk_trace b = n1 @ bk_trace a" "list_all P n1" "bk_trace c = n2 @ bk_trace b" "list_all P n2"
    unfolding frame_ok_def by blast
  then have "\<exists>new. bk_trace c = new @ bk_trace a \<and> list_all P new" by (intro exI [of _ "n2 @ n1"]) simp
  ultimately show ?thesis using ab bc by (simp add: frame_ok_def)
qed

lemma step_refl [simp, intro]: "step_ok P k bk bk"
  by (simp add: step_ok_def)

lemma step_trans: "step_ok P k a b \<Longrightarrow> step_ok P k b c \<Longrightarrow> step_ok P k a c"
  using frame_trans window_step_trans by (auto simp: step_ok_def)

lemma step_mono: "step_ok P k a b \<Longrightarrow> (\<And>e. P e \<Longrightarrow> Q e) \<Longrightarrow> step_ok Q k a b"
  unfolding step_ok_def frame_ok_def by (metis list.pred_mono_strong)

lemma step_no_ioctl: "step_ok no_ioctl k a b \<Longrightarrow> step_ok (only_request r) k a b"
  by (erule step_mono) (rule no_ioctl_only_request)

lemma step_tables: "step_ok P k a b \<Longrightarrow> bk_driver a \<noteq> None \<Longrightarrow> release_tables b = release_tables a"
  by (simp add: step_ok_def frame_ok_def)

lemma step_weaken: "step_ok P k a b \<Longrightarrow> step_ok P keeps_neither a b"
  by (simp add: step_ok_def frame_ok_def)

text \<open>An action on a state that a step has reached, and the fields no step is about.\<close>

lemma frame_note: "frame_ok P k a b \<Longrightarrow> P e \<Longrightarrow> frame_ok P k a (note_event e b)"
  unfolding frame_ok_def note_event_def release_tables_def by (auto intro: exI [of _ "e # _"])

lemma step_note:
  "step_ok P k a b \<Longrightarrow> P e \<Longrightarrow> (window_ok b \<Longrightarrow> inside (sa_total (bk_shm b)) e) \<Longrightarrow> step_ok P k a (note_event e b)"
  using frame_note window_step_note window_step_trans by (auto simp: step_ok_def)

lemma frame_fields [simp]:
  "frame_ok P k a (b\<lparr>bk_data_len := x0\<rparr>) \<longleftrightarrow> frame_ok P k a b"
  "frame_ok P (Keep False p) a (b\<lparr>bk_handles := x1\<rparr>) \<longleftrightarrow> frame_ok P (Keep False p) a b"
  "frame_ok P k a (b\<lparr>bk_shm := x2\<rparr>) \<longleftrightarrow> frame_ok P k a b"
  "frame_ok P k a (b\<lparr>bk_active := x3\<rparr>) \<longleftrightarrow> frame_ok P k a b"
  "frame_ok P (Keep False p) a (b\<lparr>bk_kinds := x4\<rparr>) \<longleftrightarrow> frame_ok P (Keep False p) a b"
  "frame_ok P k a (b\<lparr>bk_untracked_frees := x5\<rparr>) \<longleftrightarrow> frame_ok P k a b"
  "frame_ok P k a (b\<lparr>bk_guest_ram := x6\<rparr>) \<longleftrightarrow> frame_ok P k a b"
  "frame_ok P k a (b\<lparr>bk_reg_served := x7\<rparr>) \<longleftrightarrow> frame_ok P k a b"
  "frame_ok P k a (b\<lparr>bk_reg_peak := x8\<rparr>) \<longleftrightarrow> frame_ok P k a b"
  "frame_ok P k a (b\<lparr>bk_registrations := x9\<rparr>) \<longleftrightarrow> frame_ok P k a b"
  "frame_ok P k a (b\<lparr>bk_uvm_denied := x10\<rparr>) \<longleftrightarrow> frame_ok P k a b"
  "frame_ok P k a (b\<lparr>bk_allow_refused := x11\<rparr>) \<longleftrightarrow> frame_ok P k a b"
  "frame_ok P k a (b\<lparr>bk_dri_maps := x13\<rparr>) \<longleftrightarrow> frame_ok P k a b"
  "frame_ok P (Keep False p) a (b\<lparr>bk_dri_given := x14\<rparr>) \<longleftrightarrow> frame_ok P (Keep False p) a b"
  "frame_ok P (Keep f False) a (b\<lparr>bk_aperture := x15\<rparr>) \<longleftrightarrow> frame_ok P (Keep f False) a b"
  "frame_ok P k a (b\<lparr>bk_msg_counts := x16\<rparr>) \<longleftrightarrow> frame_ok P k a b"
  "frame_ok P k a (b\<lparr>bk_live := x17\<rparr>) \<longleftrightarrow> frame_ok P k a b"
  "frame_ok P k a (b\<lparr>bk_guards := x18\<rparr>) \<longleftrightarrow> frame_ok P k a b"
  "frame_ok P k a (b\<lparr>bk_caps_refused := x20\<rparr>) \<longleftrightarrow> frame_ok P k a b"
  "frame_ok P k a (b\<lparr>bk_rm_classes := x21\<rparr>) \<longleftrightarrow> frame_ok P k a b"
  "frame_ok P k a (b\<lparr>bk_rm_controls := x22\<rparr>) \<longleftrightarrow> frame_ok P k a b"
  "frame_ok P k a (b\<lparr>bk_ioctls_by_ns := x23\<rparr>) \<longleftrightarrow> frame_ok P k a b"
  "frame_ok P k a (b\<lparr>bk_abi_refused := x24\<rparr>) \<longleftrightarrow> frame_ok P k a b"
  "frame_ok P k a (b\<lparr>bk_watch_added := x25\<rparr>) \<longleftrightarrow> frame_ok P k a b"
  "frame_ok P k a (b\<lparr>bk_watch_removed := x26\<rparr>) \<longleftrightarrow> frame_ok P k a b"
  "frame_ok P (Keep f False) a (b\<lparr>bk_next_mapping_id := x27\<rparr>) \<longleftrightarrow> frame_ok P (Keep f False) a b"
  "frame_ok P k a (b\<lparr>bk_vram := x28\<rparr>) \<longleftrightarrow> frame_ok P k a b"
  by (simp_all add: frame_ok_def release_tables_def)

lemma window_fields [simp]:
  "window_step a (b\<lparr>bk_data_len := x0\<rparr>) \<longleftrightarrow> window_step a b"
  "window_step a (b\<lparr>bk_handles := x1\<rparr>) \<longleftrightarrow> window_step a b"
  "window_step a (b\<lparr>bk_kinds := x4\<rparr>) \<longleftrightarrow> window_step a b"
  "window_step a (b\<lparr>bk_untracked_frees := x5\<rparr>) \<longleftrightarrow> window_step a b"
  "window_step a (b\<lparr>bk_guest_ram := x6\<rparr>) \<longleftrightarrow> window_step a b"
  "window_step a (b\<lparr>bk_reg_served := x7\<rparr>) \<longleftrightarrow> window_step a b"
  "window_step a (b\<lparr>bk_reg_peak := x8\<rparr>) \<longleftrightarrow> window_step a b"
  "window_step a (b\<lparr>bk_registrations := x9\<rparr>) \<longleftrightarrow> window_step a b"
  "window_step a (b\<lparr>bk_uvm_denied := x10\<rparr>) \<longleftrightarrow> window_step a b"
  "window_step a (b\<lparr>bk_allow_refused := x11\<rparr>) \<longleftrightarrow> window_step a b"
  "window_step a (b\<lparr>bk_dri_maps := x13\<rparr>) \<longleftrightarrow> window_step a b"
  "window_step a (b\<lparr>bk_dri_given := x14\<rparr>) \<longleftrightarrow> window_step a b"
  "window_step a (b\<lparr>bk_aperture := x15\<rparr>) \<longleftrightarrow> window_step a b"
  "window_step a (b\<lparr>bk_msg_counts := x16\<rparr>) \<longleftrightarrow> window_step a b"
  "window_step a (b\<lparr>bk_guards := x18\<rparr>) \<longleftrightarrow> window_step a b"
  "window_step a (b\<lparr>bk_caps_refused := x20\<rparr>) \<longleftrightarrow> window_step a b"
  "window_step a (b\<lparr>bk_rm_classes := x21\<rparr>) \<longleftrightarrow> window_step a b"
  "window_step a (b\<lparr>bk_rm_controls := x22\<rparr>) \<longleftrightarrow> window_step a b"
  "window_step a (b\<lparr>bk_ioctls_by_ns := x23\<rparr>) \<longleftrightarrow> window_step a b"
  "window_step a (b\<lparr>bk_abi_refused := x24\<rparr>) \<longleftrightarrow> window_step a b"
  "window_step a (b\<lparr>bk_watch_added := x25\<rparr>) \<longleftrightarrow> window_step a b"
  "window_step a (b\<lparr>bk_watch_removed := x26\<rparr>) \<longleftrightarrow> window_step a b"
  "window_step a (b\<lparr>bk_next_mapping_id := x27\<rparr>) \<longleftrightarrow> window_step a b"
  "window_step a (b\<lparr>bk_vram := x28\<rparr>) \<longleftrightarrow> window_step a b"
  by (simp_all add: window_step_def window_ok_def)

lemma step_fields [simp]:
  "step_ok P k a (b\<lparr>bk_data_len := x0\<rparr>) \<longleftrightarrow> step_ok P k a b"
  "step_ok P (Keep False p) a (b\<lparr>bk_handles := x1\<rparr>) \<longleftrightarrow> step_ok P (Keep False p) a b"
  "step_ok P (Keep False p) a (b\<lparr>bk_kinds := x4\<rparr>) \<longleftrightarrow> step_ok P (Keep False p) a b"
  "step_ok P k a (b\<lparr>bk_untracked_frees := x5\<rparr>) \<longleftrightarrow> step_ok P k a b"
  "step_ok P k a (b\<lparr>bk_guest_ram := x6\<rparr>) \<longleftrightarrow> step_ok P k a b"
  "step_ok P k a (b\<lparr>bk_reg_served := x7\<rparr>) \<longleftrightarrow> step_ok P k a b"
  "step_ok P k a (b\<lparr>bk_reg_peak := x8\<rparr>) \<longleftrightarrow> step_ok P k a b"
  "step_ok P k a (b\<lparr>bk_registrations := x9\<rparr>) \<longleftrightarrow> step_ok P k a b"
  "step_ok P k a (b\<lparr>bk_uvm_denied := x10\<rparr>) \<longleftrightarrow> step_ok P k a b"
  "step_ok P k a (b\<lparr>bk_allow_refused := x11\<rparr>) \<longleftrightarrow> step_ok P k a b"
  "step_ok P k a (b\<lparr>bk_dri_maps := x13\<rparr>) \<longleftrightarrow> step_ok P k a b"
  "step_ok P (Keep False p) a (b\<lparr>bk_dri_given := x14\<rparr>) \<longleftrightarrow> step_ok P (Keep False p) a b"
  "step_ok P (Keep f False) a (b\<lparr>bk_aperture := x15\<rparr>) \<longleftrightarrow> step_ok P (Keep f False) a b"
  "step_ok P k a (b\<lparr>bk_msg_counts := x16\<rparr>) \<longleftrightarrow> step_ok P k a b"
  "step_ok P k a (b\<lparr>bk_guards := x18\<rparr>) \<longleftrightarrow> step_ok P k a b"
  "step_ok P k a (b\<lparr>bk_caps_refused := x20\<rparr>) \<longleftrightarrow> step_ok P k a b"
  "step_ok P k a (b\<lparr>bk_rm_classes := x21\<rparr>) \<longleftrightarrow> step_ok P k a b"
  "step_ok P k a (b\<lparr>bk_rm_controls := x22\<rparr>) \<longleftrightarrow> step_ok P k a b"
  "step_ok P k a (b\<lparr>bk_ioctls_by_ns := x23\<rparr>) \<longleftrightarrow> step_ok P k a b"
  "step_ok P k a (b\<lparr>bk_abi_refused := x24\<rparr>) \<longleftrightarrow> step_ok P k a b"
  "step_ok P k a (b\<lparr>bk_watch_added := x25\<rparr>) \<longleftrightarrow> step_ok P k a b"
  "step_ok P k a (b\<lparr>bk_watch_removed := x26\<rparr>) \<longleftrightarrow> step_ok P k a b"
  "step_ok P (Keep f False) a (b\<lparr>bk_next_mapping_id := x27\<rparr>) \<longleftrightarrow> step_ok P (Keep f False) a b"
  "step_ok P k a (b\<lparr>bk_vram := x28\<rparr>) \<longleftrightarrow> step_ok P k a b"
  by (simp_all add: step_ok_def)

lemma step_fold: "step_ok P k a b \<Longrightarrow> (\<And>x c. x \<in> set xs \<Longrightarrow> step_ok P k a c \<Longrightarrow> step_ok P k a (f x c)) \<Longrightarrow> step_ok P k a (fold f xs b)"
  by (induction xs arbitrary: b) auto

section \<open>The shared steps\<close>

lemma host_ioctl_parts:
  assumes "host_ioctl E f q b bs bk = (e, b', bs', bk')"
  shows "bk' = note_event (EvIoctl f q b bs) bk" "length b' = length b" "map fst bs' = map fst bs"
    "map (length \<circ> snd) bs' = map (length \<circ> snd) bs" "length bs' = length bs"
proof -
  obtain x y z where r: "en_ioctl E (bk_trace bk) f q b bs = (x, y, z)" by (metis prod_cases3)
  let ?z = "z @ replicate (length bs) []"
  have bs': "bs' = map2 (\<lambda>(a, b) b'. (a, overwrite b b')) bs ?z"
    and other: "bk' = note_event (EvIoctl f q b bs) bk" "b' = overwrite b y"
    using assms by (simp_all add: host_ioctl_def r)
  have len: "length (overwrite u v) = length u" for u v by (simp add: overwrite_def)
  have z: "length bs \<le> length ?z" by simp
  show "bk' = note_event (EvIoctl f q b bs) bk" "length b' = length b" using other len by simp_all
  show l: "length bs' = length bs" using z by (simp add: bs')
  show "map fst bs' = map fst bs" "map (length \<circ> snd) bs' = map (length \<circ> snd) bs"
    using z len by (auto simp: bs' intro!: nth_equalityI simp: case_prod_beta)
qed

lemma step_helpers [simp]:
  "step_ok P k a (note_allow_refusal ak b) \<longleftrightarrow> step_ok P k a b"
  "step_ok P k a (refuse_for_caps ck b) \<longleftrightarrow> step_ok P k a b"
  "step_ok P k a (release_lease g b) \<longleftrightarrow> step_ok P k a b"
  by (simp_all add: note_allow_refusal_def refuse_for_caps_def release_lease_def)

section \<open>What the handlers do to the host\<close>

text \<open>
  The interface of a property about actions: a predicate that every action satisfies but an ioctl, the opening and
  closing of a file, and the placing and withdrawing of a pool. The handlers' lemmas take what the property must hold of
  the ioctl they may make; a predicate that pools satisfy too (\<open>pool_filter\<close>) covers the mapping messages, one that
  files satisfy (\<open>file_filter\<close>) the opening of files, and closing a file needs both.
\<close>

locale call_filter =
  fixes P :: "event \<Rightarrow> bool"
  assumes quiet: "no_ioctl e \<Longrightarrow> \<not> file_event e \<Longrightarrow> \<not> pool_event e \<Longrightarrow> P e"
begin

lemma quiet_events [simp]:
  "P (EvPlace a l f p)" "P (EvWithdraw a l)" "P (EvRemap a l)" "P (EvLease n)" "P (EvSpan n)" "P (EvUnspan a l)"
  by (simp_all add: quiet)

lemma frame_shm_release: "frame_ok P k a b \<Longrightarrow> frame_ok P k a (shm_release E r b)"
  by (auto simp: shm_release_def Let_def intro: frame_note)

lemma frame_releases: "frame_ok P k a b \<Longrightarrow> frame_ok P k a (fold (\<lambda>e. shm_release E (me_region e)) es b)"
  by (induction es arbitrary: b) (simp_all add: frame_shm_release)

lemma step_release_active:
  assumes "step_ok P k a b" "set es \<subseteq> snd ` set (bk_active b)" "set m \<subseteq> set (bk_active b)"
  shows "step_ok P k a (fold (\<lambda>e. shm_release E (me_region e)) es (b\<lparr>bk_active := m\<rparr>))"
  using assms frame_releases [of k a "b\<lparr>bk_active := m\<rparr>" E es] window_step_trans [OF _ window_step_active [OF assms(2,3)]]
  by (simp add: step_ok_def)

lemma step_drain_window:
  "step_ok P k a b \<Longrightarrow> step_ok P k a (fold (\<lambda>e. shm_release E (me_region e)) (fst (mc_drain (bk_active b))) (b\<lparr>bk_active := snd (mc_drain (bk_active b))\<rparr>))"
  by (rule step_release_active) (simp_all add: mc_drain_def)

lemma step_drop_span: "step_ok P k a b \<Longrightarrow> step_ok P k a (drop_span s b)"
  by (auto simp: drop_span_def intro: step_note)

lemma step_retain: "step_ok P k a b \<Longrightarrow> step_ok P k a (retain_registrations keep b)"
  by (auto simp: retain_registrations_def split: prod.splits intro!: step_fold step_drop_span)

lemmas step_rules = step_note step_drop_span step_retain step_fold

subsection \<open>Messages that make no ioctl\<close>

lemma step_place_unrecorded:
  assumes "sz < 2 ^ 64"
  shows "step_ok P (Keep keep False) bk (snd (place_unrecorded E cap sz fo f pr bk))"
proof -
  have "frame_ok P (Keep keep False) bk (snd (place_unrecorded E cap sz fo f pr bk))"
    by (auto simp: place_unrecorded_def Let_def split: option.splits prod.splits intro!: frame_note frame_shm_release)
  with window_step_place_unrecorded [OF assms] show ?thesis by (simp add: step_ok_def)
qed

lemma step_map_unrecorded: "sz < 2 ^ 64 \<Longrightarrow> step_ok P (Keep keep False) bk (snd (map_unrecorded E cap sz off bk))"
  using step_place_unrecorded by (auto simp: map_unrecorded_def Let_def split: option.splits)

lemma step_get_files: "step_ok P (Keep False p) bk (snd (handle_get_files E t cap bk))"
  by (auto simp: handle_get_files_def write_dri_section_def Let_def split: file_tree.splits)

subsection \<open>Ioctls\<close>

text \<open>What the version reply may teach: only where nothing is known, and then every table of one release.\<close>

lemma step_learn: "step_ok P k a b \<Longrightarrow> step_ok P k a (learn_driver_version param b)"
proof -
  assume ab: "step_ok P k a b"
  have "step_ok P k b (learn_driver_version param b)"
    by (auto simp: learn_driver_version_def step_ok_def frame_ok_def release_tables_def tables_of_def Let_def split: option.splits
        intro!: window_step_same)
  with ab show ?thesis by (rule step_trans)
qed

lemma step_host:
  assumes "host_ioctl E f q b bs c = (e, b', bs', c')" "step_ok P k a c" "P (EvIoctl f q b bs)"
  shows "step_ok P k a c'"
  using host_ioctl_parts(1) [OF assms(1)] assms(2,3) by (auto intro: step_note)

lemma step_lease: "lease E n b = (g, b') \<Longrightarrow> step_ok P k a b \<Longrightarrow> step_ok P k a b'"
  by (auto simp: lease_def split: prod.splits intro: step_note)

lemma step_dispatch_simple:
  assumes call: "\<And>b bs. P (EvIoctl f q b bs)"
  shows "step_ok P k bk (snd (dispatch_simple E cap f q param bk))"
proof -
  have st: "step_ok P k bk b'" if "host_ioctl E f q p bs c = (e, x, y, b')" "step_ok P k bk c" for p bs c e x y b'
    using step_host [OF that call] .
  show ?thesis
    by (auto simp: dispatch_simple_def Let_def split: option.splits prod.splits dest!: st intro: step_learn)
qed

lemma step_install:
  "install E segs legacy ss params acc bk = Some (x, bk') \<Longrightarrow> step_ok P k a bk \<Longrightarrow> step_ok P k a bk'"
proof (induction ss arbitrary: params acc bk)
  case Nil
  then show ?case by auto
next
  case (Cons s ss)
  have rel: "step_ok P k a (fold (release_lease \<circ> em_buf) acc b)" if "step_ok P k a b" for b
    using that by (intro step_fold) simp_all
  show ?case
  proof (cases "lease E (max (sl_len s) 1) bk")
    case (Pair g b)
    with Cons.prems(2) have "step_ok P k a b" by (auto dest: step_lease)
    with Cons.prems(1) Pair Cons.IH rel show ?thesis by (cases g) (auto split: option.splits)
  qed
qed

lemma step_embed: "embed E entry deep buf bk = Some (x, bk') \<Longrightarrow> step_ok P k bk bk'"
  by (auto simp: embed_def Let_def split: option.splits sum.splits prod.splits if_splits dest!: step_install [where a = bk])

text \<open>The state after a nested call, given what holds of the ioctl it makes.\<close>

lemma step_nested_forward:
  assumes run: "nested_forward E cap f q deep ptr cp rights saved g outer buf es bk = Some (r, bk')"
    and call: "\<And>bs. bs \<noteq> [] \<Longrightarrow> fst (hd bs) = gb_ptr g \<Longrightarrow> length (snd (hd bs)) = length buf \<Longrightarrow>
        (\<forall>l. es = Some l \<longrightarrow> snd (hd bs) = buf \<and> tl bs = embedded_bufs l) \<Longrightarrow> P (EvIoctl f q outer bs)"
  shows "step_ok P k bk bk'"
proof (cases "deep_pointer E deep (es \<noteq> None) buf bk")
  case (Inl u)
  with run show ?thesis by (simp add: nested_forward_def split: unit.splits)
next
  case (Inr t)
  obtain buf' db ds where t: "t = (buf', db, ds)" by (cases t)
  define bufs where "bufs = (gb_ptr g, buf') # map (\<lambda>e. (gb_ptr (em_buf e), em_data e)) (case es of Some es \<Rightarrow> es | None \<Rightarrow> []) @
      (case db of Some d \<Rightarrow> [d] | None \<Rightarrow> [])"
  obtain e o1 bs1 bk1 where h: "host_ioctl E f q outer bufs bk = (e, o1, bs1, bk1)"
    by (metis prod_cases4)
  have "P (EvIoctl f q outer bufs)"
    using length_deep_pointer [of E deep "es \<noteq> None" buf bk buf' db ds] Inr t
    by (intro call) (auto simp: bufs_def deep_pointer_def embedded_bufs_def split: option.splits if_splits)
  with h have st: "step_ok P k bk bk1" by (auto elim: step_host)
  show ?thesis
  proof (cases e)
    case None
    with run Inr t h st show ?thesis
      by (auto simp: nested_forward_def Let_def bufs_def [symmetric] split: option.splits)
  next
    case (Some errno)
    with run Inr t h st show ?thesis by (simp add: nested_forward_def Let_def bufs_def [symmetric])
  qed
qed

lemma step_nested_with_block:
  assumes run: "nested_with_block E cap f q deep nfd ptr cp rights g outer buf bk = Some (r, bk')"
    and call: "\<And>bs. bs \<noteq> [] \<Longrightarrow> fst (hd bs) = gb_ptr g \<Longrightarrow> length (snd (hd bs)) = length buf \<Longrightarrow>
        (\<forall>e. described bk (q mod 256) (put_at outer ptr (le_bytes 8 (gb_ptr g))) = Some e \<and> ptrs_apart (rc_ptrs e) \<longrightarrow>
           pointers_served (rc_ptrs e) (snd (hd bs)) (tl bs)) \<Longrightarrow>
        P (EvIoctl f q (put_at outer ptr (le_bytes 8 (gb_ptr g))) bs)"
  shows "step_ok P k bk bk'"
proof (cases "translate_fds bk (q mod 256) outer nfd buf")
  case (Inl e)
  with run show ?thesis by (auto simp: nested_with_block_def Let_def split: prod.splits)
next
  case (Inr t)
  obtain buf1 saved where t: "t = (buf1, saved)" by (cases t)
  let ?o = "put_at outer ptr (le_bytes 8 (gb_ptr g))"
  note l1 = length_translate_fds [OF Inr [unfolded t]]
  show ?thesis
  proof (cases "drift_refused bk (q mod 256) ?o")
    case True
    with run Inr t show ?thesis by (simp add: nested_with_block_def Let_def)
  next
    case False
    then obtain x bk1 where em: "embed E (described bk (q mod 256) ?o) deep buf1 bk = Some (x, bk1)"
      using run Inr t by (auto simp: nested_with_block_def Let_def split: option.splits)
    note s1 = step_embed [OF em]
    show ?thesis
    proof (cases x)
      case (Inl y)
      with run Inr t False em s1 show ?thesis by (auto simp: nested_with_block_def Let_def split: prod.splits)
    next
      case (Inr y)
      obtain buf2 es where y: "y = (buf2, es)" by (cases y)
      from run \<open>translate_fds bk (q mod 256) outer nfd buf = Inr t\<close> t False em Inr y obtain bk2 where
          fwd: "nested_forward E cap f q deep ptr cp rights saved g ?o buf2 es bk1 = Some (r, bk2)"
        and rel: "bk' = fold (release_lease \<circ> em_buf) (case es of Some es \<Rightarrow> es | None \<Rightarrow> []) bk2"
        by (auto simp: nested_with_block_def Let_def)
      have "length buf2 = length buf" using length_embed em Inr y l1 by metis
      moreover have "\<forall>e. described bk (q mod 256) ?o = Some e \<and> ptrs_apart (rc_ptrs e) \<longrightarrow>
          (\<exists>l. es = Some l \<and> pointers_served (rc_ptrs e) buf2 (embedded_bufs l))"
        using embed_serves em Inr y by metis
      ultimately have "step_ok P k bk1 bk2" by (intro step_nested_forward [OF fwd] call) auto
      then have "step_ok P k bk bk2" by (rule step_trans [OF s1])
      then show ?thesis unfolding rel by (intro step_fold) simp_all
    qed
  qed
qed

lemma step_dispatch_nested:
  assumes run: "dispatch_nested E cap f q param osz ptr deep nfd bk = Some (r, bk')"
    and geo: "ptr + 8 \<le> osz"
    and call: "\<And>b bs. block_forwarded bk q param osz ptr b bs \<Longrightarrow> P (EvIoctl f q b bs)"
  shows "step_ok P k bk bk'"
proof (cases "length param < osz")
  case True
  with run show ?thesis by (simp add: dispatch_nested_def)
next
  case False
  define o0 where "o0 = take osz param"
  define rights where "rights = (if q mod 256 = 0x2b \<and> length o0 \<ge> 32 then Some (take 8 (drop 24 o0)) else None)"
  define o1 where "o1 = (if rights = None then o0 else put_at o0 24 (replicate 8 0))"
  have o0: "length o0 = osz" using False by (simp add: o0_def)
  then have o1: "length o1 = osz" by (simp add: o1_def rights_def)
  have same: "o1 ! i = param ! i" if "i < osz" "\<not> (q mod 256 = 0x2b \<and> 24 \<le> i \<and> i < 32)" for i
    using that o0 False by (auto simp: o1_def rights_def o0_def nth_put_at split: if_splits)
  obtain cp where cp: "slice_at param ptr 8 = Some cp" using geo False by (simp add: slice_at_def)
  show ?thesis
  proof (cases "drop osz param = []")
    case True
    with False have lp: "length param = osz" by simp
    have fw: "block_forwarded bk q param osz ptr o1 []" using o1 lp same by (simp add: block_forwarded_def)
    have run': "nested_flat E cap f q ptr cp rights o1 bk = Some (r, bk')"
      using run False True cp
      unfolding dispatch_nested_def Let_def o0_def [symmetric] rights_def [symmetric] o1_def [symmetric] by simp
    obtain e o2 bs2 bk2 where h: "host_ioctl E f q o1 [] bk = (e, o2, bs2, bk2)" by (metis prod_cases4)
    then have "step_ok P k bk bk2" using call [OF fw] by (auto elim: step_host)
    with run' h show ?thesis by (auto simp: nested_flat_def Let_def split: option.splits if_splits)
  next
    case nonempty: False
    obtain gl bk1 where l: "lease E (length (drop osz param)) bk = (gl, bk1)" by (metis prod.exhaust)
    have s1: "step_ok P k bk bk1" using step_lease [OF l] by blast
    show ?thesis
    proof (cases gl)
      case None
      with run False nonempty cp l s1 show ?thesis by (auto simp: dispatch_nested_def Let_def)
    next
      case (Some g)
      with run False nonempty cp l obtain bk2 where
          w: "nested_with_block E cap f q deep nfd ptr cp rights g o1 (drop osz param) bk1 = Some (r, bk2)"
        and rel: "bk' = release_lease g bk2"
        unfolding dispatch_nested_def Let_def o0_def [symmetric] rights_def [symmetric] o1_def [symmetric] by auto
      have "step_ok P k bk1 bk2"
      proof (rule step_nested_with_block [OF w], rule call)
        fix bs :: "(nat \<times> bytes) list"
        assume bs: "bs \<noteq> []" "fst (hd bs) = gb_ptr g" "length (snd (hd bs)) = length (drop osz param)"
          and ptrs: "\<forall>e. described bk1 (q mod 256) (put_at o1 ptr (le_bytes 8 (gb_ptr g))) = Some e \<and> ptrs_apart (rc_ptrs e) \<longrightarrow>
            pointers_served (rc_ptrs e) (snd (hd bs)) (tl bs)"
        have "described bk1 = described bk" using l by (auto simp: fun_eq_iff described_def lease_def note_event_def split: prod.splits)
        moreover note ptrs
        moreover
        have "take 8 (drop ptr (put_at o1 ptr (le_bytes 8 (gb_ptr g)))) = le_bytes 8 (gb_ptr g)"
          using take_drop_put_at_same [of ptr "le_bytes 8 (gb_ptr g)" o1] o1 geo by simp
        ultimately show "block_forwarded bk q param osz ptr (put_at o1 ptr (le_bytes 8 (gb_ptr g))) bs"
          using bs o1 geo False nonempty same by (auto simp: block_forwarded_def nth_put_at)
      qed
      with s1 have "step_ok P k bk bk2" by (rule step_trans)
      then show ?thesis by (simp add: rel)
    qed
  qed
qed

lemma step_fd_carrying:
  assumes call: "\<And>b bs. P (EvIoctl f q b bs)"
  shows "step_ok P k bk (snd (dispatch_fd_carrying E cap f q esc param bk))"
  by (auto simp: dispatch_fd_carrying_def Let_def split: option.splits prod.splits elim!: step_host intro: call)

lemma step_update_mapping:
  assumes call: "\<And>b bs. P (EvIoctl f q b bs)"
  shows "step_ok P k bk (snd (dispatch_update_device_mapping_info E cap f q param bk))"
  by (auto simp: dispatch_update_device_mapping_info_def Let_def split: option.splits prod.splits
      elim!: step_host intro: call)

lemma step_map_memory_place:
  assumes "step_ok P k a b"
  shows "step_ok P k a (snd (map_memory_place E cap g hf param b))"
proof -
  have "frame_ok P k a b" "window_step a b" using assms by (simp_all add: step_ok_def)
  moreover from this(1) have "frame_ok P k a (snd (map_memory_place E cap g hf param b))"
    by (auto simp: map_memory_place_def Let_def split: option.splits prod.splits intro!: frame_note frame_shm_release)
  ultimately show ?thesis using window_step_trans [OF _ window_step_map_memory_place] by (simp add: step_ok_def)
qed

lemma step_map_memory:
  assumes call: "\<And>b bs. P (EvIoctl f q b bs)"
  shows "step_ok P k bk (snd (dispatch_map_memory E cap f q param bk))"
  by (auto simp: dispatch_map_memory_def Let_def split: option.splits prod.splits
      intro!: step_map_memory_place elim!: step_host intro: call)

lemma step_unmap_memory:
  assumes call: "\<And>b bs. P (EvIoctl f q b bs)"
  shows "step_ok P k bk (snd (dispatch_unmap_memory E cap f q param bk))"
proof -
  have h: "frame_ok P k a c'" if "host_ioctl E f q b bs c = (e, b', bs', c')" "frame_ok P k a c" for a b bs c e b' bs' c'
    using host_ioctl_parts(1) [OF that(1)] that(2) call by (auto intro: frame_note)
  have "frame_ok P k bk (snd (dispatch_unmap_memory E cap f q param bk))"
    by (auto simp: dispatch_unmap_memory_def mc_remove_def Let_def split: option.splits prod.splits
        intro!: frame_shm_release elim!: h)
  then show ?thesis using window_step_unmap_memory by (simp add: step_ok_def)
qed

end

text \<open>Mappings, and what a file leaves when it is closed.\<close>

locale pool_filter = call_filter P for P :: "event \<Rightarrow> bool" +
  assumes pools: "pool_event e \<Longrightarrow> P e"
begin

lemma pool_events [simp]: "P (EvPlacePool a l f p)" "P (EvWithdrawPool a l)"
  by (simp_all add: pools)

lemma step_unmap_pool: "step_ok P k a b \<Longrightarrow> step_ok P k a (unmap_uvm_pool i p b)"
  by (auto simp: unmap_uvm_pool_def intro: step_note)

lemma step_drop_pools: "step_ok P (Keep f False) a b \<Longrightarrow> step_ok P (Keep f False) a (drop_pools_for_file h b)"
  by (auto simp: drop_pools_for_file_def split: prod.splits intro!: step_fold step_unmap_pool)

lemmas pool_rules = step_rules step_unmap_pool step_drop_pools

lemma step_map_uvm_pool: "step_ok P (Keep keep False) bk (snd (map_uvm_pool E cap sz off bk))"
  by (auto simp: map_uvm_pool_def Let_def split: option.splits sum.splits intro!: pool_rules)

lemma step_handle_mmap: "step_ok P (Keep keep False) bk (snd (handle_mmap E cap payload bk))"
proof -
  have "mr_size (dec_mmap_req payload) < 2 ^ 64" using u64_at_bound [of payload 0] by (simp add: dec_mmap_req_def)
  then show ?thesis
    using step_map_uvm_pool step_map_unrecorded
    by (auto simp: handle_mmap_def Let_def split: option.splits device_kind.splits)
qed

lemma step_handle_munmap: "step_ok P (Keep keep False) bk (snd (handle_munmap E cap payload bk))"
proof -
  have "frame_ok P (Keep keep False) bk (snd (handle_munmap E cap payload bk))"
    by (auto simp: handle_munmap_def unmap_uvm_pool_def Let_def split: option.splits prod.splits
        intro!: frame_note frame_shm_release)
  with window_step_munmap show ?thesis by (simp add: step_ok_def)
qed

lemma step_release_file: "step_ok P (Keep keep False) bk (release_file E bk)"
proof -
  let ?es = "fst (mc_take_for_fd (bk_handle bk) (bk_active bk))" and ?m = "snd (mc_take_for_fd (bk_handle bk) (bk_active bk))"
  have "step_ok P (Keep keep False) bk (fold (\<lambda>e. shm_release E (me_region e)) ?es (bk\<lparr>bk_active := ?m\<rparr>))"
    using mc_take_sub by (intro step_release_active) auto
  then show ?thesis
    by (auto simp: release_file_def Let_def drop_registrations_for_file_def case_prod_beta intro!: pool_rules)
qed

end

locale file_filter = call_filter P for P :: "event \<Rightarrow> bool" +
  assumes files: "file_event e \<Longrightarrow> P e"
begin

lemma file_events [simp]: "P (EvOpen path)" "P (EvClose f)"
  by (simp_all add: files)

lemma step_handle_open: "step_ok P (Keep False p) bk (snd (handle_open E cap payload bk))"
  by (auto simp: handle_open_def Let_def split: option.splits sum.splits prod.splits intro!: step_rules)

end

locale action_filter = pool_filter P + file_filter P for P :: "event \<Rightarrow> bool"
begin

lemma step_handle_close: "step_ok P keeps_neither bk (snd (handle_close E cap bk))"
  using step_release_file [of False bk E]
  by (auto simp: handle_close_def Let_def split: option.splits prod.splits intro!: step_note)

end

interpretation nio: action_filter no_ioctl
  by unfold_locales (auto simp: file_event_def pool_event_def split: event.splits)

interpretation onr: action_filter "only_request r" for r
  by unfold_locales (auto intro: no_ioctl_only_request simp: file_event_def pool_event_def split: event.splits)

end
