(* ===== verification/Mediation.thy ===== *)
theory Mediation
  imports Frames
begin

text \<open>
  What an ioctl message may ask of the host. Each route of \<open>nvidia/ioctl.rs\<close> is stated as the condition under which
  it makes its call, \<open>call_policy\<close> collects them as the interface of any property about calls, and its
  lemmas carry such a property through the whole message.
\<close>

section \<open>The conditions\<close>

definition abi_passes :: "backend \<Rightarrow> nat \<Rightarrow> nat \<Rightarrow> bool" where
  "abi_passes bk escape n \<longleftrightarrow>
     (case check_abi bk escape n of SizeMismatch _ _ \<Rightarrow> False | UnknownEscape \<Rightarrow> False | _ \<Rightarrow> True)"

definition control_admitted :: "backend \<Rightarrow> nat \<Rightarrow> bytes \<Rightarrow> (nat \<times> bytes) list \<Rightarrow> bool" where
  "control_admitted bk q b bs \<longleftrightarrow>
     q mod 65536 = 0x462a \<and> (\<exists>param dl nl. block_forwarded bk q param 32 16 b bs \<and> length param = dl + nl \<and> abi_passes bk 0x2a dl \<and>
        rm_control_refusal bk (u32_at param 8) (u32_at param 24) nl = None)"

definition alloc_admitted :: "backend \<Rightarrow> nat \<Rightarrow> bytes \<Rightarrow> (nat \<times> bytes) list \<Rightarrow> bool" where
  "alloc_admitted bk q b bs \<longleftrightarrow>
     q mod 65536 = 0x462b \<and> (\<exists>param param' dl nl. block_forwarded bk q param' 48 16 b bs \<and> length param' = dl + nl \<and> length param = dl + nl \<and>
        take dl param' = take dl param \<and> abi_passes bk 0x2b dl \<and>
        rm_class_refusal bk (u32_at param 12) nl = None \<and>
        (case caps_for_class (u32_at param 12) of Some c \<Rightarrow> caps_has (bk_caps bk) c | None \<Rightarrow> True))"

text \<open>The fields these conditions read.\<close>

definition policy_of ::
  "backend \<Rightarrow> ioctl_entry list option \<times> rm_selected option \<times> uvm_selected option \<times> rmctrl_selected option \<times> caps" where
  "policy_of bk = (bk_abi bk, bk_rmallow bk, bk_uvm bk, bk_rmctrl bk, bk_caps bk)"

lemma policy_cong:
  assumes "policy_of c = policy_of a"
  shows "abi_passes c = abi_passes a" "rm_control_refusal c = rm_control_refusal a"
    "rm_class_refusal c = rm_class_refusal a" "bk_caps c = bk_caps a" "bk_uvm c = bk_uvm a"
    "control_admitted c = control_admitted a" "alloc_admitted c = alloc_admitted a"
    "block_forwarded c = block_forwarded a"
proof -
  show eqs: "abi_passes c = abi_passes a" "rm_control_refusal c = rm_control_refusal a"
    "rm_class_refusal c = rm_class_refusal a" "bk_caps c = bk_caps a" "bk_uvm c = bk_uvm a"
    using assms by (simp_all add: policy_of_def fun_eq_iff abi_passes_def check_abi_def rm_control_refusal_def rm_class_refusal_def)
  have "described c = described a" using assms by (simp add: policy_of_def fun_eq_iff described_def)
  then show fw: "block_forwarded c = block_forwarded a" by (simp add: fun_eq_iff block_forwarded_def)
  show "control_admitted c = control_admitted a" "alloc_admitted c = alloc_admitted a"
    using eqs fw by (simp_all add: fun_eq_iff control_admitted_def alloc_admitted_def cong: option.case_cong)
qed

lemma policy_fields [simp]:
  "policy_of (b\<lparr>bk_data_len := x0\<rparr>) = policy_of b" "policy_of (b\<lparr>bk_vram := x1\<rparr>) = policy_of b"
  "policy_of (b\<lparr>bk_ioctls_by_ns := x2\<rparr>) = policy_of b" "policy_of (b\<lparr>bk_rm_controls := x3\<rparr>) = policy_of b"
  "policy_of (b\<lparr>bk_rm_classes := x4\<rparr>) = policy_of b" "policy_of (note_event e b) = policy_of b"
  "policy_of (b\<lparr>bk_msg_counts := x5\<rparr>) = policy_of b" "policy_of (b\<lparr>bk_handle := x6\<rparr>) = policy_of b"
  "policy_of (b\<lparr>bk_msg := x7\<rparr>) = policy_of b"
  by (simp_all add: policy_of_def note_event_def)

section \<open>The interface\<close>

locale call_policy = call_filter P for P :: "event \<Rightarrow> bool" +
  fixes bk0 :: backend
  assumes flat: "q mod 65536 \<noteq> 0x462a \<Longrightarrow> q mod 65536 \<noteq> 0x462b \<Longrightarrow> P (EvIoctl f q b bs)"
    and uvm: "bk_uvm bk0 = Some sel \<Longrightarrow> uvm_entry sel q = Some e \<Longrightarrow> P (EvIoctl f q b [])"
    and control: "control_admitted bk0 q b bs \<Longrightarrow> P (EvIoctl f q b bs)"
    and alloc: "alloc_admitted bk0 q b bs \<Longrightarrow> P (EvIoctl f q b bs)"
begin

lemma step_uvm_forward:
  assumes run: "uvm_forward E cap f q sel param restore bk = Some (r, bk')"
    and call: "\<And>b. P (EvIoctl f q b [])"
  shows "step_ok P k bk bk'"
proof -
  have probe: "P (EvIoctl f 0x27 b bs)" for b bs by (rule flat) simp_all
  have pr: "step_ok P k a c" if "uvm_pageable_access_is_off E f b = (x, c)" "step_ok P k a b" for a b c x
    using that probe by (auto simp: uvm_pageable_access_is_off_def split: prod.splits option.splits elim!: step_host)
  show ?thesis
    using run call
    by (auto simp: uvm_forward_def Let_def split: if_splits prod.splits option.splits bool.splits
        elim!: step_host dest!: pr [where a = bk] intro: call)
qed

lemma step_dispatch_uvm:
  assumes run: "dispatch_uvm E cap f q param bk = Some (r, bk')" and same: "policy_of bk = policy_of bk0"
  shows "step_ok P k bk bk'"
proof -
  have "P (EvIoctl f q b [])" if "bk_uvm bk = Some sel" "uvm_entry sel q = Some e" for sel e b
    using that uvm policy_cong(5) [OF same] by metis
  then show ?thesis
    using run
    by (auto simp: dispatch_uvm_def Let_def split: if_splits option.splits sum.splits prod.splits unit.splits
        elim!: step_uvm_forward)
qed

text \<open>A control that reached its handler with the lengths of its framing.\<close>

lemma step_serve_control:
  assumes run: "serve_control E cap f q ireq param deep bk = Some (r, bk')" and same: "policy_of bk = policy_of bk0"
    and q: "q mod 65536 = 0x462a" and abi: "abi_passes bk0 0x2a (ir_data_len ireq)"
    and len: "length param = ir_data_len ireq + ir_nested_len ireq"
  shows "step_ok P k bk bk'"
proof (cases "length param < 32")
  case True
  with run show ?thesis
    by (auto simp: serve_control_def dispatch_nested_def refuse_control_def Let_def split: if_splits)
next
  case False
  define b1 where "b1 = bk\<lparr>bk_rm_controls := bump (u32_at param 8) (bk_rm_controls bk)\<rparr>"
  have b1: "rm_control_refusal b1 = rm_control_refusal bk0" and fw: "block_forwarded b1 = block_forwarded bk0"
    using policy_cong(2,8) [of b1 bk0] same by (simp_all add: b1_def)
  show ?thesis
  proof (cases "rm_control_refusal b1 (u32_at param 8) (u32_at param 24) (ir_nested_len ireq) = None")
    case True
    with run False have run': "dispatch_nested E cap f q param 32 16 deep None b1 = Some (r, bk')"
      by (simp add: serve_control_def Let_def b1_def)
    have "step_ok P k b1 bk'"
      using True abi len b1 q fw by (intro step_dispatch_nested [OF run'] control) (auto simp: control_admitted_def)
    moreover have "step_ok P k bk b1" by (simp add: b1_def)
    ultimately show ?thesis by (rule step_trans [rotated])
  next
    case f: False
    with run False have "(r, bk') = refuse_control cap (u32_at param 8) param b1"
      by (simp add: serve_control_def Let_def b1_def)
    then show ?thesis by (auto simp: refuse_control_def Let_def b1_def split: if_splits)
  qed
qed

lemma step_translate: "translate E deep n bk = Some (x, bk') \<Longrightarrow> step_ok P k a bk \<Longrightarrow> step_ok P k a bk'"
  by (auto simp: translate_def Let_def split: option.splits prod.splits if_splits sum.splits intro: step_note)

lemma translate_policy: "translate E deep n bk = Some (x, bk') \<Longrightarrow> policy_of bk' = policy_of bk"
  by (auto simp: translate_def Let_def split: option.splits prod.splits if_splits sum.splits)

lemma step_keep_registration: "step_ok P k a bk \<Longrightarrow> step_ok P k a (keep_registration s st r bk)"
  by (auto simp: keep_registration_def Let_def split: option.splits intro!: step_drop_span)

lemma step_refuse_registration: "step_ok P k bk (snd (refuse_registration cap route s param bk))"
  by (auto simp: refuse_registration_def Let_def)

lemma step_serve_registration:
  assumes run: "serve_registration E cap f q route dl param deep bk = Some (r, bk')"
    and nested: "\<And>param' b bs. route = RegAlloc \<Longrightarrow> length param' = length param \<Longrightarrow> take dl param' = take dl param \<Longrightarrow>
        block_forwarded bk q param' 48 16 b bs \<Longrightarrow> P (EvIoctl f q b bs)"
    and simple: "\<And>b bs. route \<noteq> RegAlloc \<Longrightarrow> P (EvIoctl f q b bs)"
  shows "step_ok P k bk bk'"
proof -
  obtain d where d: "bk_osdesc bk = Some d" using run by (auto simp: serve_registration_def split: option.splits)
  define s where "s = shape_of d route dl"
  define ps where "ps = drop (sh_params_at s) param"
  have refused: "step_ok P k bk c" if "(x, c) = refuse_registration cap route s param bk1" "step_ok P k bk bk1" for x c bk1
    using step_trans [OF that(2) step_refuse_registration [of _ bk1 cap route s param]] that(1) by (metis snd_conv)
  show ?thesis
  proof (cases "\<exists>addr len. ro_address (sh_route s) ps = Some addr \<and> ro_length (sh_route s) ps = Some len \<and>
      \<not> (case ro_desc_type (sh_route s) ps of Some t \<Rightarrow> t \<noteq> od_virtual_address d | None \<Rightarrow> False)")
    case False
    then have "(r, bk') = refuse_registration cap route s param bk"
      using run d unfolding serve_registration_def
      by (auto simp: Let_def s_def [symmetric] ps_def [symmetric] split: option.splits if_splits)
    then show ?thesis using refused by blast
  next
    case True
    then obtain addr len where ok: "ro_address (sh_route s) ps = Some addr" "ro_length (sh_route s) ps = Some len"
      "\<not> (case ro_desc_type (sh_route s) ps of Some t \<Rightarrow> t \<noteq> od_virtual_address d | None \<Rightarrow> False)" by blast
    obtain x bk1 where tr: "translate E deep len bk = Some (x, bk1)"
      using run d ok unfolding serve_registration_def
      by (auto simp: Let_def s_def [symmetric] ps_def [symmetric] split: option.splits)
    have s1: "step_ok P k bk bk1" using step_translate [OF tr] by blast
    show ?thesis
    proof (cases x)
      case None
      with run d ok tr have "(r, bk') = refuse_registration cap route s param bk1"
        unfolding serve_registration_def by (simp add: Let_def s_def [symmetric] ps_def [symmetric])
      then show ?thesis using refused s1 by blast
    next
      case (Some st)
      define param' where "param' = put_at param (sh_params_at s + ro_address_at (sh_route s)) (le_bytes 8 (st_addr st))"
      from run d ok tr Some obtain r2 bk2 where
          lp: "sh_params_at s + ro_address_at (sh_route s) + 8 \<le> length param"
        and fw: "forward_registration E cap f q route param' bk1 = Some (r2, bk2)"
        and bk': "bk' = keep_registration s st r2 bk2"
        unfolding serve_registration_def param'_def
        by (auto simp: Let_def s_def [symmetric] ps_def [symmetric] split: option.splits if_splits)
      have "step_ok P k bk1 bk2"
      proof (cases route)
        case RegAlloc
        then have "take dl param' = take dl param" using lp by (simp add: param'_def s_def shape_of_def put_at_def)
        moreover have "length param' = length param" using lp by (simp add: param'_def)
        ultimately show ?thesis
          using fw RegAlloc nested policy_cong(8) [OF translate_policy [OF tr]] unfolding forward_registration_def
          by (auto intro: step_dispatch_nested)
      next
        case RegAllocMemory
        then show ?thesis
          using fw simple step_fd_carrying [of f q _ bk1 E cap "NV_ESC_RM_ALLOC_MEMORY" param']
          unfolding forward_registration_def by (metis option.inject registration.distinct(1) registration.simps(8) snd_conv)
      next
        case RegVidHeap
        then show ?thesis
          using fw simple step_dispatch_simple [of f q _ bk1 E cap param'] unfolding forward_registration_def
          by (metis option.inject registration.distinct(3) registration.simps(9) snd_conv)
      qed
      then show ?thesis unfolding bk' by (intro step_keep_registration step_trans [OF s1])
    qed
  qed
qed

lemma step_serve_alloc:
  assumes run: "serve_alloc E cap f q ireq param deep bk = Some (r, bk')" and same: "policy_of bk = policy_of bk0"
    and q: "q mod 65536 = 0x462b" and abi: "abi_passes bk0 0x2b (ir_data_len ireq)"
    and len: "length param = ir_data_len ireq + ir_nested_len ireq"
  shows "step_ok P k bk bk'"
proof (cases "length param < 16")
  case True
  with run show ?thesis by (auto simp: serve_alloc_def dispatch_nested_def split: if_splits)
next
  case False
  let ?cls = "u32_at param 12"
  define b1 where "b1 = bk\<lparr>bk_rm_classes := bump ?cls (bk_rm_classes bk)\<rparr>"
  have same1: "policy_of b1 = policy_of bk0" using same by (simp add: b1_def)
  have s1: "step_ok P k bk b1" by (simp add: b1_def)
  consider (caps) "case caps_for_class ?cls of Some b \<Rightarrow> \<not> caps_has (bk_caps b1) b | None \<Rightarrow> False"
    | (refused) "\<not> (case caps_for_class ?cls of Some b \<Rightarrow> \<not> caps_has (bk_caps b1) b | None \<Rightarrow> False)"
        "rm_class_refusal b1 ?cls (ir_nested_len ireq) \<noteq> None"
    | (fine) "\<not> (case caps_for_class ?cls of Some b \<Rightarrow> \<not> caps_has (bk_caps b1) b | None \<Rightarrow> False)"
        "rm_class_refusal b1 ?cls (ir_nested_len ireq) = None"
    by blast
  then show ?thesis
  proof cases
    case caps
    with run False have "(r, bk') = refuse_alloc_class cap ?cls param b1"
      unfolding serve_alloc_def Let_def b1_def [symmetric] by simp
    with s1 show ?thesis by (auto simp: refuse_alloc_class_def Let_def split: if_splits)
  next
    case refused
    with run False have "(r, bk') = refuse_alloc cap ?cls param b1"
      unfolding serve_alloc_def Let_def b1_def [symmetric] by simp
    with s1 show ?thesis by (auto simp: refuse_alloc_def Let_def split: if_splits)
  next
    case fine
    have ok: "rm_class_refusal bk0 ?cls (ir_nested_len ireq) = None"
      "case caps_for_class ?cls of Some c \<Rightarrow> caps_has (bk_caps bk0) c | None \<Rightarrow> True"
      using fine policy_cong(3,4) [OF same1] by (simp_all split: option.splits)
    note fw = policy_cong(8) [OF same1]
    have admitted: "P (EvIoctl f q b bs)"
      if "length param' = length param" "take (ir_data_len ireq) param' = take (ir_data_len ireq) param"
        "block_forwarded b1 q param' 48 16 b bs" for param' b bs
      using that ok q abi len fw by (intro alloc) (auto simp: alloc_admitted_def)
    have "step_ok P k b1 bk'"
    proof (cases "registration_by_address b1 NV_ESC_RM_ALLOC (Some ?cls) (drop (ir_data_len ireq) param)")
      case None
      with run False fine have "dispatch_nested E cap f q param 48 16 deep None b1 = Some (r, bk')"
        unfolding serve_alloc_def Let_def b1_def [symmetric] by simp
      then show ?thesis by (rule step_dispatch_nested) (auto intro: admitted)
    next
      case (Some route)
      then have "route = RegAlloc" by (auto simp: registration_by_address_def split: option.splits if_splits)
      moreover from run False fine Some
      have "serve_registration E cap f q route (ir_data_len ireq) param deep b1 = Some (r, bk')"
        unfolding serve_alloc_def Let_def b1_def [symmetric] by simp
      ultimately show ?thesis by (auto intro: step_serve_registration admitted)
    qed
    with s1 show ?thesis by (rule step_trans)
  qed
qed

text \<open>The routes of NVIDIA's own namespace: two escapes have conditions, the others none.\<close>

lemma step_dispatch_rm:
  assumes run: "dispatch_rm E cap f q ireq param deep bk = Some (r, bk')" and same: "policy_of bk = policy_of bk0"
    and ty: "q div 256 mod 256 = 0x46" and abi: "abi_passes bk0 (q mod 256) (ir_data_len ireq)"
    and len: "length param = ir_data_len ireq + ir_nested_len ireq"
  shows "step_ok P k bk bk'"
proof -
  have q: "q mod 65536 = 0x4600 + q mod 256" using ty mod_mult2_eq [of q 256 256] by simp
  have f: "P (EvIoctl f q b bs)" if "q mod 256 \<noteq> 0x2a" "q mod 256 \<noteq> 0x2b" for b bs
    using that q by (intro flat) auto
  consider (c) "q mod 256 = 0x2a" | (a) "q mod 256 = 0x2b" | (o) "q mod 256 \<noteq> 0x2a" "q mod 256 \<noteq> 0x2b" by blast
  then show ?thesis
  proof cases
    case c
    with run q abi len show ?thesis by (auto simp: dispatch_rm_def intro: step_serve_control [OF _ same])
  next
    case a
    with run q abi len show ?thesis by (auto simp: dispatch_rm_def intro: step_serve_alloc [OF _ same])
  next
    case o
    note f = f [OF o]
    have reg: "step_ok P k bk bk'" if "serve_registration E cap f q route n p deep bk = Some (r, bk')" for route n p
      using that by (rule step_serve_registration) (rule f)+
    have st: "x = (r, bk') \<Longrightarrow> step_ok P k bk (snd x) \<Longrightarrow> step_ok P k bk bk'" for x by simp
    show ?thesis
      using run o
      unfolding dispatch_rm_def Let_def
      by (auto split: if_splits option.splits dest: reg
          intro: st [OF _ step_fd_carrying] st [OF _ step_map_memory] st [OF _ step_unmap_memory]
            st [OF _ step_update_mapping] st [OF _ step_dispatch_simple] f)
  qed
qed

text \<open>The whole message, from the routing of its namespace to the records kept of its answer.\<close>

lemma step_route_ioctl:
  assumes run: "route_ioctl E cap f ireq param deep bk = Some (r, bk')" and same: "policy_of bk = policy_of bk0"
    and len: "length param = ir_data_len ireq + ir_nested_len ireq"
  shows "step_ok P k bk bk'"
proof -
  define q where "q = ir_cmd ireq"
  define on_uvm where "on_uvm = (map_of (bk_kinds bk) (bk_handle bk) = Some Uvm)"
  define b1 where "b1 = bk\<lparr>bk_ioctls_by_ns :=
      bump (ioctl_namespace on_uvm (q div 256 mod 256), if on_uvm then q else q mod 256) (bk_ioctls_by_ns bk)\<rparr>"
  have same1: "policy_of b1 = policy_of bk0" and s1: "step_ok P k bk b1" using same by (simp_all add: b1_def)
  have fl: "P (EvIoctl f q b bs)" if "q div 256 mod 256 \<noteq> 0x46" for b bs
    using that mod_mult2_eq [of q 256 256] by (intro flat) auto
  have "step_ok P k b1 bk'"
  proof (cases on_uvm)
    case True
    with run have "dispatch_uvm E cap f q param b1 = Some (r, bk')"
      by (simp add: route_ioctl_def Let_def b1_def q_def on_uvm_def)
    then show ?thesis using same1 by (rule step_dispatch_uvm)
  next
    case False
    let ?abi = "abi_passes bk0 (q mod 256) (ir_data_len ireq)"
    have abi: "(case check_abi b1 (q mod 256) (ir_data_len ireq) of SizeMismatch _ _ \<Rightarrow> True | UnknownEscape \<Rightarrow> True | _ \<Rightarrow> False) \<longleftrightarrow> \<not> ?abi"
      unfolding policy_cong(1) [OF same1, symmetric] abi_passes_def by (simp split: abi_check.split)
    have route: "Some (r, bk') =
       (if q div 256 mod 256 = 0x46 \<and> \<not> ?abi then
          (if bk_driver b1 = None then None
           else let c = b1\<lparr>bk_abi_refused := bump (q mod 256) (bk_abi_refused b1)\<rparr> in
             Some (write_error_resp cap c StIoctlFailed EINVAL, c))
        else if q div 256 mod 256 = 0x6d then dispatch_nested E cap f q param 16 8 deep (nvkms_fd_offset param) b1
        else if q div 256 mod 256 = 0x64 \<and> drm_outer_size (q mod 256) \<noteq> None then
          dispatch_nested E cap f q param (the (drm_outer_size (q mod 256))) 8 deep (Some 0) b1
        else if q div 256 mod 256 \<noteq> 0x46 then Some (dispatch_simple E cap f q param b1)
        else dispatch_rm E cap f q ireq param deep b1)"
      using run False abi unfolding route_ioctl_def Let_def q_def [symmetric] on_uvm_def [symmetric] b1_def [symmetric]
      by simp
    consider (refused) "q div 256 mod 256 = 0x46" "\<not> ?abi" | (rm) "q div 256 mod 256 = 0x46" ?abi
      | (other) "q div 256 mod 256 \<noteq> 0x46" by blast
    then show ?thesis
    proof cases
      case refused
      with route show ?thesis by (auto simp: Let_def split: if_splits)
    next
      case rm
      with route show ?thesis by (auto intro: step_dispatch_rm [OF sym same1 _ _ len])
    next
      case other
      note fl = fl [OF other]
      have drm: "8 + 8 \<le> n" if "drm_outer_size e = Some n" for e n
        using that by (auto simp: drm_outer_size_def split: if_splits)
      have st: "x = (r, bk') \<Longrightarrow> step_ok P k b1 (snd x) \<Longrightarrow> step_ok P k b1 bk'" for x by simp
      from route other drm show ?thesis
        by (auto split: if_splits intro: st [OF _ step_dispatch_simple] step_dispatch_nested [OF sym] fl)
    qed
  qed
  with s1 show ?thesis by (rule step_trans)
qed

lemma step_serve_ioctl:
  assumes run: "serve_ioctl E cap payload bk = Some (r, bk')" and same: "policy_of bk = policy_of bk0"
  shows "step_ok P k bk bk'"
proof -
  define ireq where "ireq = dec_ioctl_req payload"
  define b1 where "b1 = bk\<lparr>bk_data_len := ir_data_len ireq\<rparr>"
  have same1: "policy_of b1 = policy_of bk0" and s1: "step_ok P k bk b1" using same by (simp_all add: b1_def)
  have step: "step_ok P k bk bk'"
    if "route_ioctl E cap f ireq (take (ir_data_len ireq + ir_nested_len ireq) (drop 24 payload)) deep b1 = Some (r, bk')"
      "\<not> length (drop 24 payload) < ir_data_len ireq + ir_nested_len ireq + ir_deep_len ireq" for f deep
    using step_route_ioctl [OF that(1) same1] that(2) by (intro step_trans [OF s1]) simp
  show ?thesis
    using run s1 unfolding serve_ioctl_def Let_def ireq_def [symmetric] b1_def [symmetric]
    by (auto split: if_splits option.splits intro: step)
qed

lemma step_vidmem_admit:
  assumes "vidmem_admit cap payload bk = Some (x, bk')"
  shows "step_ok P k bk bk' \<and> policy_of bk' = policy_of bk"
  using assms
  by (auto simp: vidmem_admit_def Let_def split: option.splits prod.splits if_splits bool.splits)

lemma step_note_parts: "step_ok P k bk (snd (note_parts l escape outer nested deep bk))"
proof -
  have b: "step_ok P k bk (snd (if c then x else y))"
    if "step_ok P k bk (snd x)" "step_ok P k bk (snd y)" for c and x y :: "(bytes \<times> bytes \<times> bytes) \<times> backend"
    using that by simp
  show ?thesis
    unfolding note_parts_def Let_def by (intro b) (simp_all split: prod.splits)
qed

lemma step_vidmem_note:
  assumes "vidmem_note payload r bk = Some (r', bk')"
  shows "step_ok P k bk bk'"
proof (cases "bk' = bk")
  case False
  then obtain l escape outer nested deep where "bk' = snd (note_parts l escape outer nested deep bk)"
    using assms unfolding vidmem_note_def Let_def by (simp split: option.splits if_splits prod.splits) (metis snd_conv)
  then show ?thesis using step_note_parts by simp
qed simp

lemma step_note_clients: "note_clients payload r bk = Some bk' \<Longrightarrow> step_ok P k bk bk'"
  by (auto simp: note_clients_def Let_def split: option.splits if_splits)

lemma step_note_registrations: "note_registrations payload r bk = Some bk' \<Longrightarrow> step_ok P k bk bk'"
  by (auto simp: note_registrations_def release_registrations_def Let_def split: option.splits if_splits
      intro!: step_retain)

lemma step_handle_ioctl:
  assumes run: "handle_ioctl E cap payload bk = Some (r, bk')" and same: "policy_of bk = policy_of bk0"
  shows "step_ok P k bk bk'"
proof -
  obtain x b1 where a: "vidmem_admit cap payload bk = Some (x, b1)"
    using run by (auto simp: handle_ioctl_def split: bind_splits)
  note s1 = step_vidmem_admit [OF a, where k = k]
  show ?thesis
  proof (cases x)
    case None
    with run a obtain r2 b2 r3 b3 b4 where
        s: "serve_ioctl E cap payload b1 = Some (r2, b2)" and n: "vidmem_note payload r2 b2 = Some (r3, b3)"
        and c: "note_clients payload r3 b3 = Some b4" and g: "note_registrations payload r3 b4 = Some bk'"
      by (auto simp: handle_ioctl_def split: bind_splits)
    have "step_ok P k b1 b2" using s1 same by (intro step_serve_ioctl [OF s]) simp
    with s1 step_vidmem_note [OF n] step_note_clients [OF c] step_note_registrations [OF g] show ?thesis
      by (blast intro: step_trans)
  qed (use run a s1 in \<open>auto simp: handle_ioctl_def\<close>)
qed

end

text \<open>Every message: what is opened and closed is not an ioctl, and the rest leave the files as they are.\<close>

locale message_policy = call_policy P bk0 + action_filter P for P :: "event \<Rightarrow> bool" and bk0 :: backend
begin

lemma step_dispatch:
  assumes run: "dispatch E cap req bk = Some (r, bk')" and same: "policy_of bk = policy_of bk0"
  shows "\<exists>b1. step_ok P keeps_neither b1 bk' \<and> bk_trace b1 = bk_trace bk \<and> release_tables b1 = release_tables bk \<and>
    bk_caps b1 = bk_caps bk \<and> bk_driver b1 = bk_driver bk \<and> window_step bk b1"
proof (cases "length req < 16 \<or> msg_type_from_u32 (mh_type (dec_msg_header req)) = None")
  case True
  with run show ?thesis
    by (intro exI [of _ bk']) (auto simp: dispatch_def Let_def release_tables_def split: if_splits intro!: window_step_same)
next
  case False
  then obtain m where m: "msg_type_from_u32 (mh_type (dec_msg_header req)) = Some m" by blast
  define b1 where "b1 = bk\<lparr>bk_msg := m, bk_msg_counts := bump m (bk_msg_counts bk),
      bk_handle := mh_handle (dec_msg_header req)\<rparr>"
  have same1: "policy_of b1 = policy_of bk0" using same by (simp add: b1_def policy_of_def)
  have st: "x = (r, bk') \<Longrightarrow> step_ok P keeps_neither b1 (snd x) \<Longrightarrow> step_ok P keeps_neither b1 bk'" for x by simp
  have run': "(case m of
       Open \<Rightarrow> Some (handle_open E cap (drop 16 req) b1) | Close \<Rightarrow> Some (handle_close E cap b1)
     | Ioctl \<Rightarrow> handle_ioctl E cap (drop 16 req) b1 | Mmap \<Rightarrow> Some (handle_mmap E cap (drop 16 req) b1)
     | Munmap \<Rightarrow> Some (handle_munmap E cap (drop 16 req) b1)
     | GetProcFiles \<Rightarrow> Some (handle_get_files E Proc cap b1) | GetSysFiles \<Rightarrow> Some (handle_get_files E Sys cap b1)
     | EventReady \<Rightarrow> Some (write_error_resp cap b1 StInvalidMsgType EINVAL, b1)) = Some (r, bk')"
    using run False m by (auto simp: dispatch_def Let_def b1_def split: msg_type.splits)
  then have "step_ok P keeps_neither b1 bk'"
    by (auto split: msg_type.splits intro: step_handle_ioctl [OF _ same1] st [OF _ step_handle_open]
        st [OF _ step_handle_close] st [OF _ step_handle_mmap] st [OF _ step_handle_munmap] st [OF _ step_get_files])
  then show ?thesis by (intro exI [of _ b1]) (simp add: b1_def release_tables_def window_step_same)
qed

end

end
