(* ===== verification/Running.thy ===== *)
theory Running
  imports Mediation
begin

text \<open>
  The backend over its whole life: how it is configured (\<open>device/bin/vhost-user-nvgpu.rs\<close> calls the setters),
  the messages it serves, and what holds of every state it can reach and of every call it has made.
\<close>

section \<open>Reachable states\<close>

text \<open>
  The release, the capabilities and the limit are settled before the first message; the placer and the guest's
  memory may be supplied again at any time, and a backend that was torn down serves the next guest.
\<close>

inductive configured :: "backend \<Rightarrow> bool" where
  new: "backend_new cfg = Some bk \<Longrightarrow> configured bk"
| caps: "configured bk \<Longrightarrow> configured (set_caps c bk)"
| limit: "configured bk \<Longrightarrow> configured (snd (set_vram_limit_mib mib bk))"
| version: "configured bk \<Longrightarrow> configured (snd (set_host_driver_version v bk))"

inductive running :: "env \<Rightarrow> backend \<Rightarrow> bool" for E where
  start: "configured bk \<Longrightarrow> running E bk"
| message: "running E bk \<Longrightarrow> dispatch E cap req bk = Some (r, bk') \<Longrightarrow> running E bk'"
| window: "running E bk \<Longrightarrow> running E (set_window bk)"
| guest_ram: "running E bk \<Longrightarrow> running E (set_guest_ram ram bk)"
| watch: "running E bk \<Longrightarrow> running E (snd (take_watch_updates bk))"
| torn_down: "running E bk \<Longrightarrow> running E (teardown E bk)"

lemma running_dispatch_all:
  "running E bk \<Longrightarrow> dispatch_all E ms bk = Some (rs, bk') \<Longrightarrow> running E bk'"
proof (induction ms arbitrary: bk rs)
  case Nil
  then show ?case by simp
next
  case (Cons m ms)
  obtain cap req where m: "m = (cap, req)" by (cases m)
  with Cons.prems(2) obtain r b rs' where "dispatch E cap req bk = Some (r, b)" "dispatch_all E ms b = Some (rs', bk')"
    by (auto split: option.splits)
  with Cons show ?case by (blast intro: running.message)
qed

section \<open>The tables of one release\<close>

definition no_tables :: "backend \<Rightarrow> bool" where
  "no_tables bk \<longleftrightarrow> release_tables bk = (None, None, None, None, None, None, None)"

definition tables_agree :: "backend \<Rightarrow> bool" where
  "tables_agree bk \<longleftrightarrow> no_tables bk \<or> (\<exists>v. release_tables bk = tables_of v)"

text \<open>Every family of tables begins at the same release, so a release has all of them or none.\<close>

lemma before_first: "list_all (\<lambda>(u, y). w < u) ps \<Longrightarrow> (\<forall>(u, y) \<in> set ((w, x) # ps). v < u) \<longleftrightarrow> (v :: driver_version) < w"
  by (fastforce simp: list_all_iff intro: less_trans)

lemma tables_begin_together:
  "ioctl_table_for v = None \<longleftrightarrow> v < DriverVersion 535 129 3" "rmctrl_select v = None \<longleftrightarrow> v < DriverVersion 535 129 3"
  "rm_select v = None \<longleftrightarrow> v < DriverVersion 535 129 3" "uvm_select v = None \<longleftrightarrow> v < DriverVersion 535 129 3"
  "osdesc_select v = None \<longleftrightarrow> v < DriverVersion 535 129 3"
  unfolding ioctl_table_for_def rmctrl_select_def rm_select_def uvm_select_def osdesc_select_def option.map_disc_iff
    iop.profile_for_None rcp.profile_for_None rap.profile_for_None uvp.profile_for_None odp.profile_for_None
  unfolding ioctl_profiles_def rmctrl_profiles_def rm_profiles_def uvm_profiles_def osdesc_profiles_def
  by (rule before_first; simp add: less_driver_version_def)+

lemma set_host_driver_version_tables:
  "set_host_driver_version v bk = (e, bk') \<Longrightarrow>
     (if e = None then release_tables bk' = tables_of v \<and> \<not> v < DriverVersion 535 129 3 else bk' = bk) \<and>
     bk_trace bk' = bk_trace bk \<and> bk_caps bk' = bk_caps bk"
  using tables_begin_together [of v]
  by (auto simp: set_host_driver_version_def Let_def release_tables_def tables_of_def split: option.splits)

section \<open>The allowlist\<close>

definition nested_len :: "(nat \<times> bytes) list \<Rightarrow> nat" where
  "nested_len bs = (case bs of [] \<Rightarrow> 0 | b # _ \<Rightarrow> length (snd b))"

definition control_vetted :: "backend \<Rightarrow> bytes \<Rightarrow> (nat \<times> bytes) list \<Rightarrow> bool" where
  "control_vetted bk b bs \<longleftrightarrow>
     length b = 32 \<and> rm_control_refusal bk (u32_at b 8) (u32_at b 24) (nested_len bs) = None \<and>
     (case bs of
        [] \<Rightarrow> True
      | x # xs \<Rightarrow>
          take 8 (drop 16 b) = le_bytes 8 (fst x) \<and>
          (\<forall>sel e. bk_rmctrl bk = Some sel \<longrightarrow> rmctrl_lookup (rs_table sel) (u32_at b 8) = Some e \<longrightarrow>
             pointers_served (rc_ptrs e) (snd x) xs))"

definition alloc_vetted :: "backend \<Rightarrow> bytes \<Rightarrow> (nat \<times> bytes) list \<Rightarrow> bool" where
  "alloc_vetted bk b bs \<longleftrightarrow> length b = 48 \<and> rm_class_refusal bk (u32_at b 12) (nested_len bs) = None \<and>
     (case caps_for_class (u32_at b 12) of Some c \<Rightarrow> caps_has (bk_caps bk) c | None \<Rightarrow> True)"

definition vetted :: "backend \<Rightarrow> event \<Rightarrow> bool" where
  "vetted bk e \<longleftrightarrow>
     (case e of
        EvIoctl f q b bs \<Rightarrow>
          (q mod 65536 = 0x462a \<longrightarrow> control_vetted bk b bs) \<and> (q mod 65536 = 0x462b \<longrightarrow> alloc_vetted bk b bs)
      | _ \<Rightarrow> True)"

lemma abi_sizes:
  assumes "tables_agree bk" "abi_passes bk escape n" "bk_rmallow bk \<noteq> None"
  shows "escape = 0x2a \<Longrightarrow> n = 32" "escape = 0x2b \<Longrightarrow> n = 48"
proof -
  from assms(1,3) obtain v where v: "release_tables bk = tables_of v"
    by (auto simp: tables_agree_def no_tables_def release_tables_def)
  with assms(3) have "rm_select v \<noteq> None" by (simp add: release_tables_def tables_of_def)
  then have "ioctl_table_for v \<noteq> None" using tables_begin_together(1,3) [of v] by simp
  then obtain w t where "profile_for ioctl_profiles v = Some (w, t)" "ioctl_table_for v = Some t"
    by (auto simp: ioctl_table_for_def)
  then have "(w, t) \<in> set ioctl_profiles" "bk_abi bk = Some t"
    using iop.profile_for_member v by (auto simp: release_tables_def tables_of_def)
  then show "escape = 0x2a \<Longrightarrow> n = 32" "escape = 0x2b \<Longrightarrow> n = 48"
    using assms(2)
    by (auto simp: abi_passes_def check_abi_def ioctl_profiles_def ioctl_lookup_def ioctl_table_535_129_03_def
        ioctl_table_580_178_04_def ioctl_table_595_71_05_def split: if_splits)
qed

lemma block_forwarded_nested: "block_forwarded bk q param n p b bs \<Longrightarrow> nested_len bs = length param - n"
  by (auto simp: block_forwarded_def nested_len_def split: if_splits list.splits)

lemma running_ptrs_apart:
  assumes "tables_agree bk" "bk_rmctrl bk = Some sel" "rmctrl_lookup (rs_table sel) cmd = Some e"
  shows "ptrs_apart (rc_ptrs e)"
proof -
  from assms(1,2) obtain v where "rmctrl_select v = Some sel"
    by (auto simp: tables_agree_def no_tables_def release_tables_def tables_of_def)
  then obtain w where w: "(w, rs_table sel) \<in> set rmctrl_profiles" by (rule rmctrl_select_member)
  have "list_all (\<lambda>(w, t). list_all (\<lambda>e. ptrs_apart (rc_ptrs e)) t) rmctrl_profiles"
    by (simp add: rmctrl_profiles_def rmctrl_tables ptrs_apart_def apart_def)
  with w assms(3) rmctrl_lookup_member [OF w] show ?thesis unfolding list_all_iff by fast
qed

lemma control_admitted_vetted:
  assumes "tables_agree bk" "control_admitted bk q b bs"
  shows "control_vetted bk b bs"
proof -
  obtain param dl nl where q: "q mod 65536 = 0x462a" and fw: "block_forwarded bk q param 32 16 b bs"
    and len: "length param = dl + nl" and abi: "abi_passes bk 0x2a dl"
    and ok: "rm_control_refusal bk (u32_at param 8) (u32_at param 24) nl = None"
    using assms(2) by (auto simp: control_admitted_def)
  from ok have "bk_rmallow bk \<noteq> None" by (auto simp: rm_control_refusal_def split: if_splits option.splits)
  with abi_sizes [OF assms(1) abi] have "dl = 32" by simp
  moreover have "q mod 256 \<noteq> 0x2b" using q mod_mod_cancel [of 256 65536 q] by simp
  ultimately have vet: "length b = 32" "u32_at b 8 = u32_at param 8" "u32_at b 24 = u32_at param 24" "nested_len bs = nl"
    using fw len block_forwarded_nested [OF fw] block_forwarded_same [OF fw, of 8 4] block_forwarded_same [OF fw, of 24 4]
    by (simp_all add: block_forwarded_def)
  have q2: "q mod 256 = 0x2a" using q mod_mod_cancel [of 256 65536 q] by simp
  show ?thesis
  proof (cases bs)
    case Nil
    with vet ok show ?thesis by (simp add: control_vetted_def)
  next
    case (Cons x xs)
    have "pointers_served (rc_ptrs e) (snd x) xs"
      if "bk_rmctrl bk = Some sel" "rmctrl_lookup (rs_table sel) (u32_at b 8) = Some e" for sel e
    proof -
      have "described bk (q mod 256) b = Some e" using that vet(1) q2 by (simp add: described_def)
      with running_ptrs_apart [OF assms(1) that] fw Cons show ?thesis by (auto simp: block_forwarded_def split: if_splits)
    qed
    moreover have "take 8 (drop 16 b) = le_bytes 8 (fst x)" using fw Cons by (auto simp: block_forwarded_def split: if_splits)
    ultimately show ?thesis using vet ok Cons by (simp add: control_vetted_def)
  qed
qed

lemma alloc_admitted_vetted:
  assumes "tables_agree bk" "alloc_admitted bk q b bs"
  shows "alloc_vetted bk b bs"
proof -
  obtain param param' dl nl where q: "q mod 65536 = 0x462b" and fw: "block_forwarded bk q param' 48 16 b bs"
    and len: "length param = dl + nl" "length param' = dl + nl" "take dl param' = take dl param"
    and abi: "abi_passes bk 0x2b dl" and ok: "rm_class_refusal bk (u32_at param 12) nl = None"
    and c: "case caps_for_class (u32_at param 12) of Some c \<Rightarrow> caps_has (bk_caps bk) c | None \<Rightarrow> True"
    using assms(2) by (auto simp: alloc_admitted_def)
  from ok have "bk_rmallow bk \<noteq> None" by (auto simp: rm_class_refusal_def split: option.splits)
  with abi_sizes [OF assms(1) abi] have dl: "dl = 48" by simp
  have "take 4 (drop 12 (take 48 param')) = take 4 (drop 12 (take 48 param))" using len(3) dl by simp
  then have "u32_at param' 12 = u32_at param 12" by (simp add: le_at_def drop_take)
  moreover have "u32_at b 12 = u32_at param' 12" using block_forwarded_same [OF fw, of 12 4] by simp
  ultimately show ?thesis
    using fw len ok c dl block_forwarded_nested [OF fw] by (simp add: alloc_vetted_def block_forwarded_def)
qed

text \<open>No command of a UVM table has the number of either call.\<close>

lemma uvm_number:
  assumes "tables_agree bk" "bk_uvm bk = Some sel" "uvm_entry sel q = Some e"
  shows "q mod 65536 \<noteq> 0x462a \<and> q mod 65536 \<noteq> 0x462b"
proof -
  from assms(1,2) obtain v where "uvm_select v = Some sel"
    by (auto simp: tables_agree_def no_tables_def release_tables_def tables_of_def)
  then obtain w where w: "(w, us_cmd sel, us_init sel) \<in> set uvm_profiles" by (rule uvm_select_member)
  have "uvm_find (us_cmd sel) q = Some e" using assms(3) by (auto simp: uvm_entry_def split: option.splits if_splits)
  then have "e \<in> set (us_cmd sel)" "uc_num e = q" using uvm_find_member [OF w] by simp_all
  moreover have "list_all (\<lambda>(w, t, i). list_all (\<lambda>e. uc_num e mod 65536 \<noteq> 0x462a \<and> uc_num e mod 65536 \<noteq> 0x462b) t) uvm_profiles"
    by (simp add: uvm_profiles_def uvm_cmd_tables)
  ultimately show ?thesis using w by (auto simp: list_all_iff)
qed

lemma no_ioctl_vetted: "no_ioctl e \<Longrightarrow> vetted bk e"
  by (cases e) (simp_all add: vetted_def)

interpretation med: message_policy "\<lambda>e. tables_agree bk \<longrightarrow> vetted bk e" bk for bk
proof unfold_locales
  show "tables_agree bk \<longrightarrow> vetted bk e" if "no_ioctl e" for e
    using that no_ioctl_vetted by simp
  show "tables_agree bk \<longrightarrow> vetted bk e" if "pool_event e" for e
    using that by (cases e) (simp_all add: vetted_def)
  show "tables_agree bk \<longrightarrow> vetted bk e" if "file_event e" for e
    using that by (cases e) (simp_all add: vetted_def)
  show "tables_agree bk \<longrightarrow> vetted bk (EvIoctl f q b [])" if "bk_uvm bk = Some sel" "uvm_entry sel q = Some e" for sel q e f b
    using uvm_number [OF _ that] by (simp add: vetted_def)
  show "tables_agree bk \<longrightarrow> vetted bk (EvIoctl f q b bs)" if "control_admitted bk q b bs" for q b bs f
    using that control_admitted_vetted by (simp add: vetted_def control_admitted_def)
  show "tables_agree bk \<longrightarrow> vetted bk (EvIoctl f q b bs)" if "alloc_admitted bk q b bs" for q b bs f
    using that alloc_admitted_vetted by (simp add: vetted_def alloc_admitted_def)
qed (simp add: vetted_def)

text \<open>A call that passed while nothing was known is neither of the two, so it passes under any tables.\<close>

lemma vetted_later:
  assumes "vetted bk e" "tables_agree bk" "bk_caps bk' = bk_caps bk"
    "release_tables bk' = release_tables bk \<or> bk_driver bk = None"
  shows "vetted bk' e"
proof (cases "bk_rmallow bk = None")
  case True
  then have "rm_control_refusal bk cmd d n \<noteq> None" "rm_class_refusal bk cl n \<noteq> None" for cmd d n cl
    by (auto simp: rm_control_refusal_def rm_class_refusal_def)
  with assms(1) show ?thesis by (cases e) (auto simp: vetted_def control_vetted_def alloc_vetted_def)
next
  case False
  with assms(2) have "bk_driver bk \<noteq> None"
    by (auto simp: tables_agree_def no_tables_def release_tables_def tables_of_def)
  with assms(4) have "bk_rmallow bk' = bk_rmallow bk" and rc: "bk_rmctrl bk' = bk_rmctrl bk"
    by (simp_all add: release_tables_def)
  then have eqs: "rm_control_refusal bk' = rm_control_refusal bk" "rm_class_refusal bk' = rm_class_refusal bk"
    by (simp_all add: fun_eq_iff rm_control_refusal_def rm_class_refusal_def)
  show ?thesis
    using assms(1) unfolding vetted_def control_vetted_def alloc_vetted_def assms(3) eqs rc .
qed

section \<open>The invariant\<close>

definition backend_inv :: "backend \<Rightarrow> bool" where
  "backend_inv bk \<longleftrightarrow> tables_agree bk \<and> list_all (vetted bk) (bk_trace bk)"

lemma vetted_inv_later:
  assumes "backend_inv bk" "bk_trace bk' = new @ bk_trace bk" "list_all (vetted bk) new" "bk_caps bk' = bk_caps bk"
    "release_tables bk' = release_tables bk \<or> bk_driver bk = None \<and> (\<exists>v. release_tables bk' = tables_of v)"
  shows "backend_inv bk'"
proof -
  have "tables_agree bk'"
    using assms(1,5) by (auto simp: backend_inv_def tables_agree_def no_tables_def)
  moreover have "vetted bk' e" if "vetted bk e" for e
    using vetted_later [OF that] assms by (auto simp: backend_inv_def)
  ultimately show ?thesis using assms by (auto simp: backend_inv_def list_all_iff)
qed

lemma configured_inv:
  assumes "configured bk"
  shows "tables_agree bk \<and> bk_trace bk = []"
  using assms
proof induction
  case (new cfg bk)
  then show ?case by (auto simp: backend_new_def tables_agree_def no_tables_def release_tables_def)
next
  case (version bk v)
  obtain e bk' where "set_host_driver_version v bk = (e, bk')" by (metis prod.exhaust)
  with version set_host_driver_version_tables [OF this] show ?case
    by (auto simp: tables_agree_def no_tables_def split: if_splits)
qed (auto simp: set_caps_def set_vram_limit_mib_def tables_agree_def no_tables_def release_tables_def)

text \<open>What tearing down does: withdrawals, remaps and closes.\<close>

lemma step_drain_handles: "step_ok no_ioctl keeps_neither bk (drain_handles bk)"
proof -
  have "step_ok no_ioctl keeps_neither bk (fold (\<lambda>f. note_event (EvClose f)) fs (bk\<lparr>bk_handles := t\<rparr>))" for fs t
    by (intro step_fold) (simp_all add: step_note)
  then show ?thesis by (simp add: drain_handles_def split: prod.splits)
qed

lemma step_teardown: "step_ok no_ioctl keeps_neither bk (teardown E bk)"
proof -
  define b1 where "b1 = fold (\<lambda>(i, p). unmap_uvm_pool i p) (fst (ap_take_all (bk_aperture bk)))
      (bk\<lparr>bk_aperture := snd (ap_take_all (bk_aperture bk))\<rparr>)"
  define b2 where "b2 = fold (\<lambda>e. shm_release E (me_region e)) (fst (mc_drain (bk_active b1)))
      (b1\<lparr>bk_active := snd (mc_drain (bk_active b1))\<rparr>)"
  have "step_ok no_ioctl keeps_neither bk b1"
    unfolding b1_def by (intro step_fold) (auto intro: nio.step_unmap_pool)
  moreover have "step_ok no_ioctl keeps_neither b1 b2"
    unfolding b2_def by (rule nio.step_drain_window [OF step_refl])
  moreover have "teardown E bk = drain_handles b2"
    by (simp add: teardown_def Let_def b1_def b2_def split: prod.splits)
  ultimately show ?thesis using step_drain_handles by (metis step_trans)
qed

lemma running_inv: "running E bk \<Longrightarrow> backend_inv bk"
proof (induction rule: running.induct)
  case (start bk)
  then show ?case using configured_inv by (simp add: backend_inv_def)
next
  case (message bk cap req r bk')
  then obtain b1 where b1: "step_ok (\<lambda>e. tables_agree bk \<longrightarrow> vetted bk e) keeps_neither b1 bk'"
      "bk_trace b1 = bk_trace bk" "release_tables b1 = release_tables bk" "bk_caps b1 = bk_caps bk" "bk_driver b1 = bk_driver bk"
    using med.step_dispatch [OF message.hyps(2) refl] by blast
  from b1(1,2) obtain new where "bk_trace bk' = new @ bk_trace bk" "list_all (\<lambda>e. tables_agree bk \<longrightarrow> vetted bk e) new"
    by (auto simp: step_ok_def frame_ok_def)
  then show ?case
    using message.IH b1 by (intro vetted_inv_later [OF message.IH]) (auto simp: backend_inv_def step_ok_def frame_ok_def list_all_iff)
next
  case (torn_down bk)
  obtain new where "bk_trace (teardown E bk) = new @ bk_trace bk" "list_all no_ioctl new" "bk_caps (teardown E bk) = bk_caps bk"
      "release_tables (teardown E bk) = release_tables bk \<or> bk_driver bk = None \<and> (\<exists>v. release_tables (teardown E bk) = tables_of v)"
    using step_teardown [of bk E] by (auto simp: step_ok_def frame_ok_def)
  then show ?case
    using torn_down.IH no_ioctl_vetted
    by (intro vetted_inv_later [OF torn_down.IH]) (auto simp: backend_inv_def list_all_iff)
qed (auto intro: vetted_inv_later [where new = "[]"] simp: set_window_def set_guest_ram_def take_watch_updates_def release_tables_def)

end
