(* ===== verification/Samples.thy ===== *)
theory Samples
  imports Running
begin

text \<open>
  Concrete messages for the instances of the properties: a host whose calls succeed and change nothing, a
  backend as the daemon configures it, and requests as the guest's driver encodes them.
\<close>

section \<open>Requests\<close>

definition request :: "msg_type \<Rightarrow> nat \<Rightarrow> bytes \<Rightarrow> bytes" where
  "request m h p = enc_msg_header \<lparr>mh_type = msg_type_code m, mh_handle = h, mh_status = 0, mh_padding = 0\<rparr> @ p"

text \<open>An ioctl's payload: the outer block, the nested one, and the deep one with the offset of its pointer.\<close>

definition deep_payload :: "nat \<Rightarrow> bytes \<Rightarrow> bytes \<Rightarrow> nat \<Rightarrow> bytes \<Rightarrow> bytes" where
  "deep_payload q b n off d =
     enc_ioctl_req \<lparr>ir_cmd = q, ir_data_len = length b, ir_nested_offset = length b, ir_nested_len = length n,
       ir_deep_ptr_offset = off, ir_deep_len = length d\<rparr> @ b @ n @ d"

definition ioctl_payload :: "nat \<Rightarrow> bytes \<Rightarrow> bytes \<Rightarrow> bytes" where
  "ioctl_payload q b n = deep_payload q b n 0 []"

definition arrived :: "msg_type \<Rightarrow> nat \<Rightarrow> backend \<Rightarrow> backend" where
  "arrived m h bk = bk\<lparr>bk_msg := m, bk_msg_counts := bump m (bk_msg_counts bk), bk_handle := h\<rparr>"

lemma msg_type_code_small: "msg_type_code m < 2 ^ 32"
  by (cases m) simp_all

lemma dispatch_request:
  assumes "h < 2 ^ 32"
  shows "dispatch E cap (request m h p) bk =
    (case m of
       Open \<Rightarrow> Some (handle_open E cap p (arrived m h bk))
     | Close \<Rightarrow> Some (handle_close E cap (arrived m h bk))
     | Ioctl \<Rightarrow> handle_ioctl E cap p (arrived m h bk)
     | Mmap \<Rightarrow> Some (handle_mmap E cap p (arrived m h bk))
     | Munmap \<Rightarrow> Some (handle_munmap E cap p (arrived m h bk))
     | GetProcFiles \<Rightarrow> Some (handle_get_files E Proc cap (arrived m h bk))
     | GetSysFiles \<Rightarrow> Some (handle_get_files E Sys cap (arrived m h bk))
     | EventReady \<Rightarrow> Some (write_error_resp cap (arrived m h bk) StInvalidMsgType EINVAL, arrived m h bk))"
proof -
  let ?h = "\<lparr>mh_type = msg_type_code m, mh_handle = h, mh_status = 0, mh_padding = 0\<rparr>"
  have "msg_header_wf ?h" using assms msg_type_code_small by (simp add: msg_header_wf_def)
  then have "dec_msg_header (request m h p) = ?h" by (simp add: request_def hdr.dec_enc)
  then show ?thesis
    unfolding arrived_def by (simp add: dispatch_def request_def hdr.length_enc Let_def)
qed

lemma deep_payload_parts:
  assumes "q < 2 ^ 32" "length b < 2 ^ 32" "length n < 2 ^ 32" "off < 2 ^ 32" "length d < 2 ^ 32"
  shows "dec_ioctl_req (deep_payload q b n off d) = \<lparr>ir_cmd = q, ir_data_len = length b, ir_nested_offset = length b,
      ir_nested_len = length n, ir_deep_ptr_offset = off, ir_deep_len = length d\<rparr>"
    "length (deep_payload q b n off d) = 24 + length b + length n + length d"
    "drop 24 (deep_payload q b n off d) = b @ n @ d"
  using assms by (simp_all add: deep_payload_def ireq.dec_enc ioctl_req_wf_def ireq.length_enc)

lemma ioctl_payload_parts:
  assumes "q < 2 ^ 32" "length b < 2 ^ 32" "length n < 2 ^ 32"
  shows "dec_ioctl_req (ioctl_payload q b n) = \<lparr>ir_cmd = q, ir_data_len = length b, ir_nested_offset = length b,
      ir_nested_len = length n, ir_deep_ptr_offset = 0, ir_deep_len = 0\<rparr>"
    "length (ioctl_payload q b n) = 24 + length b + length n" "drop 24 (ioctl_payload q b n) = b @ n"
  using deep_payload_parts [of q b n 0 "[]"] assms by (simp_all add: ioctl_payload_def)

section \<open>A host and a backend\<close>

definition sample_env :: env where
  "sample_env = \<lparr>en_open = \<lambda>t p. Inr 40, en_ioctl = \<lambda>t f q b bs. (None, b, map snd bs), en_place = \<lambda>t a l f p. True,
     en_place_pool = \<lambda>t a l f p. True, en_remap = \<lambda>t a l. True, en_mmap = \<lambda>t n. Some (1048576 * (length t + 1)), en_heap = \<lambda>t n. 4096,
     en_map_run = \<lambda>t n. True, en_dri = \<lambda>t. [], en_proc_files = \<lambda>t. [], en_sys_files = \<lambda>t. []\<rparr>"

text \<open>A release newer than every table, with one file open on the control device.\<close>

abbreviation (input) sample_release :: driver_version where "sample_release \<equiv> DriverVersion 620 0 0"

definition sample_new :: backend where
  "sample_new = snd (set_host_driver_version sample_release (the (backend_new default_256mib)))"

definition sample_opened :: backend where
  "sample_opened =
     (the (backend_new default_256mib))
       \<lparr>bk_driver := Some sample_release, bk_abi := ioctl_table_for sample_release,
        bk_rmctrl := rmctrl_select sample_release, bk_rmallow := rm_select sample_release,
        bk_uvm := uvm_select sample_release, bk_osdesc := osdesc_select sample_release,
        bk_vidmem := vidmem_select sample_release, bk_msg := Open, bk_msg_counts := [(Open, 1)], bk_handle := 0,
        bk_handles := \<lparr>ht_next = 2, ht_table = [(1, 40)]\<rparr>, bk_kinds := [(1, Ctl)],
        bk_watch_added := [(1, 40)], bk_trace := [EvOpen ''/dev/nvidiactl'']\<rparr>"

lemma sample_backend_new: "backend_new default_256mib \<noteq> None"
  by (simp add: backend_new_def shm_new_def default_256mib_def zc_total_def)

lemma sample_new_eq:
  "sample_new = (the (backend_new default_256mib))
     \<lparr>bk_driver := Some sample_release, bk_abi := ioctl_table_for sample_release,
      bk_rmctrl := rmctrl_select sample_release, bk_rmallow := rm_select sample_release,
      bk_uvm := uvm_select sample_release, bk_osdesc := osdesc_select sample_release,
      bk_vidmem := vidmem_select sample_release\<rparr>"
  using tables_begin_together [of sample_release]
  by (auto simp: sample_new_def set_host_driver_version_def Let_def less_driver_version_def split: option.splits)

lemma host_ioctl_sample:
  "host_ioctl sample_env f q b bs bk = (None, b, bs, note_event (EvIoctl f q b bs) bk)"
proof -
  have "map2 (\<lambda>(a, b) b'. (a, overwrite b b')) bs (map snd bs @ replicate (length bs) []) = bs"
    by (rule nth_equalityI) (auto simp: overwrite_def nth_append split: prod.splits)
  then show ?thesis by (simp add: host_ioctl_def sample_env_def overwrite_def)
qed

lemma sample_new_running: "running E sample_new"
  using sample_backend_new unfolding sample_new_def
  by (intro running.start configured.version) (auto intro: configured.new)

lemma sample_fields:
  "bk_handles sample_new = ht_new" "bk_kinds sample_new = []" "bk_caps sample_new = caps_default" "bk_trace sample_new = []"
  "bk_watch_added sample_new = []" "bk_msg_counts sample_new = []"
  by (simp_all add: sample_new_eq backend_new_def shm_new_def default_256mib_def zc_total_def)

lemma sample_open:
  "\<exists>r. dispatch sample_env 64 (request Open 0 (enc_open_req \<lparr>or_device_type = 255, or_flags = 0\<rparr>)) sample_new =
     Some (r, sample_opened)"
proof -
  have "dec_open_req (enc_open_req \<lparr>or_device_type = 255, or_flags = 0\<rparr>) = \<lparr>or_device_type = 255, or_flags = 0\<rparr>"
    using oreq.dec_enc [of "\<lparr>or_device_type = 255, or_flags = 0\<rparr>" "[]"] by (simp add: open_req_wf_def)
  moreover have "device_kind_from_type 255 = Some Ctl" by (simp add: device_kind_from_type_def)
  moreover have "ht_insert ht_new 40 = (1, \<lparr>ht_next = 2, ht_table = [(1, 40)]\<rparr>)" by (simp add: ht_insert_def ht_new_def)
  ultimately show ?thesis
    using sample_fields
    by (auto simp: dispatch_request handle_open_def oreq.length_enc arrived_def open_refusal_def device_path_with_def
        sample_env_def note_event_def sample_opened_def sample_new_eq bump_def Let_def)
qed

lemma sample_opened_running: "running sample_env sample_opened"
  using sample_open sample_new_running by (blast intro: running.message)

lemma sample_opened_fields:
  "bk_handles sample_opened = \<lparr>ht_next = 2, ht_table = [(1, 40)]\<rparr>" "bk_kinds sample_opened = [(1, Ctl)]"
  "bk_caps sample_opened = caps_default" "bk_guards sample_opened = []" "bk_registrations sample_opened = []"
  "bk_abi sample_opened = Some ioctl_table_595_71_05" "bk_driver sample_opened = Some sample_release"
  "bk_vidmem sample_opened = vidmem_select sample_release" "bk_rmallow sample_opened = rm_select sample_release"
  "bk_rmctrl sample_opened = rmctrl_select sample_release" "bk_osdesc sample_opened = osdesc_select sample_release"
  by (simp_all add: sample_opened_def backend_new_def shm_new_def default_256mib_def zc_total_def ioctl_table_for_def
      profile_for_def ioctl_profiles_def less_driver_version_def less_eq_driver_version_def)

text \<open>What the newest tables say of the control 0x9000 on a release without tables of its own.\<close>

lemma sample_rule:
  obtains s where "rm_select sample_release = Some s" "ctrl_rule s 0x9000 = Some (UpTo 1048576)"
proof
  let ?s = "\<lparr>ra_profile = snd (last rm_profiles), ra_exact = False\<rparr>"
  show "rm_select sample_release = Some ?s"
    by (simp add: rm_select_def profile_for_def rm_profiles_def less_driver_version_def less_eq_driver_version_def)
  have p: "(DriverVersion 615 71 9, ra_profile ?s) \<in> set rm_profiles" by (simp add: rm_profiles_def)
  have "find_deprec (rp_deprec (ra_profile ?s)) 0x9000 = None" by (rule find_deprec_None_if [OF p]) simp
  then show "ctrl_rule ?s 0x9000 = Some (UpTo 1048576)"
    by (simp add: ctrl_rule_def denied_def deny_list_def Let_def gss_holds_def gss_needs_root_def agreed_def rm_max_params_def
        rm_profiles_def rma_gss_535_129_03_def rma_gss_580_178_04_def rma_gss_595_71_05_def rma_gss_595_104_02_def rma_gss_615_71_09_def)
qed

lemma sample_undescribed:
  obtains s where "rmctrl_select sample_release = Some s" "rmctrl_lookup (rs_table s) 0x9000 = None" "\<not> rs_exact s"
    "\<not> rmctrl_in_any_table 0x9000"
proof
  let ?s = "\<lparr>rs_table = rmctrl_615_71_09, rs_exact = False\<rparr>"
  show "rmctrl_select sample_release = Some ?s"
    by (simp add: rmctrl_select_def profile_for_def rmctrl_profiles_def less_driver_version_def less_eq_driver_version_def)
  have none: "rmctrl_lookup t 0x9000 = None" if "(w, t) \<in> set rmctrl_profiles" for w t
  proof -
    have "list_all (\<lambda>(w, t). list_all (\<lambda>e. rc_cmd e \<noteq> 0x9000) t) rmctrl_profiles"
      by (simp add: rmctrl_profiles_def rmctrl_tables)
    then show ?thesis using rmctrl_lookup_member [OF that, of "0x9000"] that
      unfolding list_all_iff by (cases "rmctrl_lookup t 0x9000") fast+
  qed
  have "(DriverVersion 615 71 9, rmctrl_615_71_09) \<in> set rmctrl_profiles" by (simp add: rmctrl_profiles_def)
  then show "rmctrl_lookup (rs_table ?s) 0x9000 = None" using none by simp
  show "\<not> rmctrl_in_any_table 0x9000" using none by (auto simp: rmctrl_in_any_table_def list_ex_iff)
qed simp

text \<open>An ioctl that is served leaves its calls in the trace, whatever is recorded of it afterwards.\<close>

lemma handle_ioctl_events:
  assumes "24 \<le> length payload" "vidmem_layout bk = None" "serve_ioctl E cap payload bk = Some (r, b2)"
  shows "\<exists>r' b'. handle_ioctl E cap payload bk = Some (r', b') \<and> set (bk_trace b2) \<subseteq> set (bk_trace b')"
proof -
  have rs: "read_struct 24 dec_ioctl_req payload 0 = Some (dec_ioctl_req payload)" using assms(1) by (simp add: read_struct_def)
  have "vidmem_note payload r b2 \<noteq> None" by (simp add: vidmem_note_def rs Let_def split: option.splits prod.splits)
  then obtain r3 b3 where n: "vidmem_note payload r b2 = Some (r3, b3)" by auto
  have "note_clients payload r3 b3 \<noteq> None" by (simp add: note_clients_def rs Let_def)
  then obtain b4 where c: "note_clients payload r3 b3 = Some b4" by auto
  have "note_registrations payload r3 b4 \<noteq> None" by (simp add: note_registrations_def rs Let_def)
  then obtain b5 where g: "note_registrations payload r3 b4 = Some b5" by auto
  let ?P = "\<lambda>e. tables_agree b2 \<longrightarrow> vetted b2 e"
  have "step_ok ?P keeps_neither b2 b5"
    using med.step_vidmem_note [OF n] med.step_note_clients [OF c] med.step_note_registrations [OF g]
    by (blast intro: step_trans)
  then have "set (bk_trace b2) \<subseteq> set (bk_trace b5)" by (auto simp: step_ok_def frame_ok_def)
  then show ?thesis using assms(2,3) n c g by (simp add: handle_ioctl_def vidmem_admit_def)
qed

text \<open>The state in which an ioctl on the sample's control file is served.\<close>

definition ctl_state :: backend where
  "ctl_state = arrived Ioctl 1 sample_opened"

lemma sample_no_layout: "vidmem_layout ctl_state = None"
  by (simp add: vidmem_layout_def ctl_state_def arrived_def sample_opened_fields vidmem_select_def profile_for_def vidmem_profiles_def
      less_driver_version_def less_eq_driver_version_def)

lemma sample_dispatch:
  assumes "serve_ioctl sample_env cap p ctl_state = Some (r, b2)" "24 \<le> length p"
  shows "\<exists>r' bk. dispatch sample_env cap (request Ioctl 1 p) sample_opened = Some (r', bk) \<and> set (bk_trace b2) \<subseteq> set (bk_trace bk)"
  using handle_ioctl_events [OF assms(2) sample_no_layout assms(1)] by (simp add: dispatch_request ctl_state_def)

text \<open>A control the allowlist permits comes to the forwarder with its three blocks.\<close>

definition control_state :: "nat \<Rightarrow> backend" where
  "control_state cmd =
     (let bk = ctl_state in
      bk\<lparr>bk_data_len := 32, bk_ioctls_by_ns := bump (ioctl_namespace False 70, 42) (bk_ioctls_by_ns bk),
         bk_rm_controls := bump cmd (bk_rm_controls bk)\<rparr>)"

lemma sample_serve_control:
  assumes "length b = 32" "u32_at b 8 = cmd" "u32_at b 24 = length n" "length n < 2 ^ 32" "off < 2 ^ 32" "length d < 2 ^ 32"
    and "rm_control_refusal (control_state cmd) cmd (length n) (length n) = None"
  shows "serve_ioctl sample_env cap (deep_payload 0xc020462a b n off d) ctl_state =
    dispatch_nested sample_env cap 40 0xc020462a (b @ n) 32 16 (if d = [] then None else Some (off, d)) None (control_state cmd)"
proof -
  have p: "dec_ioctl_req (deep_payload 0xc020462a b n off d) = \<lparr>ir_cmd = 0xc020462a, ir_data_len = 32, ir_nested_offset = 32,
      ir_nested_len = length n, ir_deep_ptr_offset = off, ir_deep_len = length d\<rparr>"
    "length (deep_payload 0xc020462a b n off d) = 56 + length n + length d" "drop 24 (deep_payload 0xc020462a b n off d) = b @ n @ d"
    using deep_payload_parts [where q = "0xc020462a" and b = b and n = n and off = off and d = d] assms(1,4-6) by simp_all
  have u: "u32_at (b @ n) 8 = cmd" "u32_at (b @ n) 24 = length n" using assms(1-3) by (simp_all add: le_at_def)
  have r: "rm_control_refusal (bk\<lparr>bk_rm_controls := x\<rparr>) = rm_control_refusal bk" for bk x
    by (simp add: fun_eq_iff rm_control_refusal_def)
  have r2: "rm_control_refusal (control_state cmd) = rm_control_refusal ctl_state"
    by (simp add: fun_eq_iff rm_control_refusal_def control_state_def Let_def)
  have r3: "rm_control_refusal (bk\<lparr>bk_data_len := y, bk_ioctls_by_ns := x, bk_rm_controls := z\<rparr>) = rm_control_refusal bk" for bk x y z
    by (simp add: fun_eq_iff rm_control_refusal_def)
  note ok = assms(7) [unfolded r2]
  have f: "bk_handles ctl_state = \<lparr>ht_next = 2, ht_table = [(1, 40)]\<rparr>"
    "bk_kinds ctl_state = [(1, Ctl)]" "bk_handle ctl_state = 1"
    "bk_abi ctl_state = Some ioctl_table_595_71_05"
    by (simp_all add: ctl_state_def arrived_def sample_opened_fields)
  show ?thesis
    using assms(1) by (simp add: serve_ioctl_def p f ht_get_raw_def route_ioctl_def check_abi_def ioctl_lookup_def
      ioctl_table_595_71_05_def dispatch_rm_def serve_control_def Let_def ok r3 u control_state_def)
qed

lemma control_state_fields:
  "bk_guards (control_state cmd) = []" "bk_rmallow (control_state cmd) = rm_select sample_release"
  "bk_rmctrl (control_state cmd) = rmctrl_select sample_release" "bk_handles (control_state cmd) = \<lparr>ht_next = 2, ht_table = [(1, 40)]\<rparr>"
  by (simp_all add: control_state_def Let_def ctl_state_def arrived_def sample_opened_fields)

text \<open>A control no release describes, with four bytes of parameters.\<close>

definition sample_block :: bytes where
  "sample_block = replicate 8 0 @ le_bytes 4 0x9000 @ replicate 12 0 @ le_bytes 4 4 @ replicate 4 0"

definition sample_nested :: bytes where
  "sample_nested = replicate 4 7"

definition sample_request :: bytes where
  "sample_request = request Ioctl 1 (ioctl_payload 0xc020462a sample_block sample_nested)"

lemma sample_block_fields: "length sample_block = 32" "u32_at sample_block 8 = 0x9000" "u32_at sample_block 24 = 4"
  "length sample_nested = 4" "sample_nested \<noteq> []" "u32_at (sample_block @ sample_nested) 8 = 0x9000"
  by (simp_all add: sample_block_def sample_nested_def)

lemma sample_lease:
  "bk_guards b = [] \<Longrightarrow> 0 < n \<Longrightarrow> \<exists>g. lease sample_env n b = (Some g, note_event (EvLease n) (b\<lparr>bk_guards := []\<rparr>))"
  by (simp add: lease_def pool_take_def gb_new_def sample_env_def)

lemma note_event_fields:
  "bk_trace (note_event e b) = e # bk_trace b" "bk_rmctrl (note_event e b) = bk_rmctrl b"
  "bk_handles (note_event e b) = bk_handles b" "bk_guards (note_event e b) = bk_guards b"
  by (simp_all add: note_event_def)

lemma sample_control:
  "\<exists>r bk b bs. dispatch sample_env 128 sample_request sample_opened = Some (r, bk) \<and>
     EvIoctl 40 0xc020462a b bs \<in> set (bk_trace bk) \<and> u32_at b 8 = 0x9000 \<and> nested_len bs = 4"
proof -
  obtain s where s: "rm_select sample_release = Some s" "ctrl_rule s 0x9000 = Some (UpTo 1048576)" by (rule sample_rule)
  obtain c where c: "rmctrl_select sample_release = Some c" "rmctrl_lookup (rs_table c) 0x9000 = None" "\<not> rs_exact c"
    "\<not> rmctrl_in_any_table 0x9000" by (rule sample_undescribed)
  let ?b1 = "control_state 0x9000" and ?p = "ioctl_payload 0xc020462a sample_block sample_nested"
  have "rm_control_refusal ?b1 0x9000 4 4 = None"
    by (simp add: rm_control_refusal_def control_state_fields s denied_def deny_list_def)
  then have serve: "serve_ioctl sample_env 128 ?p ctl_state =
      dispatch_nested sample_env 128 40 0xc020462a (sample_block @ sample_nested) 32 16 None None ?b1"
    using sample_serve_control [where b = sample_block and n = sample_nested and cmd = "0x9000" and off = "0" and d = "[]"]
    by (simp add: ioctl_payload_def sample_block_fields)
  obtain g where g: "lease sample_env 4 ?b1 = (Some g, note_event (EvLease 4) (?b1\<lparr>bk_guards := []\<rparr>))"
    using sample_lease [of ?b1 4] by (auto simp: control_state_fields)
  let ?b = "put_at sample_block 16 (le_bytes 8 (gb_ptr g))"
  have ub: "u32_at ?b 8 = 0x9000" "length ?b = 32"
    using take_drop_put_at_before [of 8 4 16 "le_bytes 8 (gb_ptr g)" sample_block]
    by (simp_all add: le_at_def sample_block_fields) (simp add: sample_block_def)
  obtain r b2 where n: "dispatch_nested sample_env 128 40 0xc020462a (sample_block @ sample_nested) 32 16 None None ?b1 = Some (r, b2)"
      "EvIoctl 40 0xc020462a ?b [(gb_ptr g, sample_nested)] \<in> set (bk_trace b2)"
    using g
    by (simp add: dispatch_nested_def sample_block_fields slice_at_def nested_with_block_def translate_fds_def event_fd_def
      control_fd_def drift_refused_def c described_def embed_def nested_forward_def deep_pointer_def host_ioctl_sample
      deep_reply_def ub deep_segments_def note_event_fields control_state_fields release_lease_def Let_def)
  have "24 \<le> length ?p"
    using ioctl_payload_parts(2) [where q = "0xc020462a" and b = sample_block and n = sample_nested] by (simp add: sample_block_fields)
  with sample_dispatch serve n(1) obtain r' bk where
      "dispatch sample_env 128 (request Ioctl 1 ?p) sample_opened = Some (r', bk)" "set (bk_trace b2) \<subseteq> set (bk_trace bk)"
    by fastforce
  with n(2) ub show ?thesis unfolding sample_request_def
    by (intro exI [of _ r'] exI [of _ bk] exI [of _ ?b] exI [of _ "[(gb_ptr g, sample_nested)]"])
      (auto simp: nested_len_def sample_block_fields)
qed

end
