(* ===== verification/Policy.thy ===== *)
theory Policy
  imports Samples
begin

text \<open>
  What holds over the backend's whole life, whatever the guest sends and the host answers: one release's tables,
  the RM allowlist in front of both calls that name an RM operation, and the capabilities in front of each
  device and class.
\<close>

section \<open>An allocation the sample host serves\<close>

definition alloc_block :: bytes where
  "alloc_block = replicate 16 0 @ le_bytes 8 0x7fff0000 @ replicate 24 0"

definition alloc_request :: bytes where
  "alloc_request = request Ioctl 1 (ioctl_payload 0xc030462b alloc_block [])"

lemma alloc_block_fields:
  "length alloc_block = 48" "u32_at alloc_block 12 = 0" "u64_at alloc_block 16 = 0x7fff0000"
  by (simp_all add: alloc_block_def le_at_def of_le_le_bytes take_replicate drop_replicate)
    (simp add: numeral_eq_Suc)

lemma sample_class:
  obtains s where "rm_select sample_release = Some s" "class_entry s 0 = Some (AllowClass 0 4 False)"
proof
  let ?s = "\<lparr>ra_profile = snd (last rm_profiles), ra_exact = False\<rparr>"
  show "rm_select sample_release = Some ?s"
    by (simp add: rm_select_def profile_for_def rm_profiles_def less_driver_version_def less_eq_driver_version_def)
  have "list_all (\<lambda>(w, p). AllowClass 0 4 False \<in> set (rp_class p)) rm_profiles"
    by (simp add: rm_profiles_def rma_class_535_129_03_def rma_class_580_178_04_def rma_class_595_71_05_def
        rma_class_595_104_02_def rma_class_615_71_09_def rma_class_615_71_09_a_def)
  then have all: "list_all (\<lambda>(w, p). find_class (rp_class p) 0 = Some (AllowClass 0 4 False)) rm_profiles"
    using find_class_Some unfolding list_all_iff by fastforce
  then show "class_entry ?s 0 = Some (AllowClass 0 4 False)"
    by (auto simp: class_entry_def agreed_def list_all_iff rm_profiles_def)
qed

lemma sample_alloc:
  "\<exists>r bk. dispatch sample_env 128 alloc_request sample_opened = Some (r, bk) \<and>
     EvIoctl 40 0xc030462b alloc_block [] \<in> set (bk_trace bk)"
proof -
  obtain s where s: "rm_select sample_release = Some s" "class_entry s 0 = Some (AllowClass 0 4 False)" by (rule sample_class)
  have f: "bk_handles ctl_state = \<lparr>ht_next = 2, ht_table = [(1, 40)]\<rparr>" "bk_kinds ctl_state = [(1, Ctl)]" "bk_handle ctl_state = 1"
    "bk_abi ctl_state = Some ioctl_table_595_71_05" "bk_rmallow ctl_state = Some s" "bk_osdesc ctl_state = osdesc_select sample_release"
    using s by (simp_all add: ctl_state_def arrived_def sample_opened_fields)
  let ?p = "ioctl_payload 0xc030462b alloc_block []"
  have p: "dec_ioctl_req ?p = \<lparr>ir_cmd = 0xc030462b, ir_data_len = 48, ir_nested_offset = 48, ir_nested_len = 0,
      ir_deep_ptr_offset = 0, ir_deep_len = 0\<rparr>" "length ?p = 72" "drop 24 ?p = alloc_block"
    using ioctl_payload_parts [where q = "0xc030462b" and b = alloc_block and n = "[]"] by (simp_all add: alloc_block_fields)
  have od: "osdesc_select sample_release = Some osdesc_615_71_09"
    by (simp add: osdesc_select_def profile_for_def osdesc_profiles_def less_driver_version_def less_eq_driver_version_def)
  define b1 where "b1 = ctl_state\<lparr>bk_data_len := 48, bk_ioctls_by_ns := bump (ioctl_namespace False 70, 43) (bk_ioctls_by_ns ctl_state),
      bk_rm_classes := bump 0 (bk_rm_classes ctl_state)\<rparr>"
  have serve: "serve_ioctl sample_env 128 ?p ctl_state = dispatch_nested sample_env 128 40 0xc030462b alloc_block 48 16 None None b1"
    by (simp add: serve_ioctl_def p alloc_block_fields f ht_get_raw_def route_ioctl_def check_abi_def ioctl_lookup_def
      ioctl_table_595_71_05_def dispatch_rm_def serve_alloc_def Let_def rm_class_refusal_def s b1_def caps_for_class_def
      three_d_classes_def video_classes_def registration_by_address_def od osdesc_615_71_09_def)
  have rights: "put_at alloc_block 24 (replicate 8 0) = alloc_block"
    by (simp add: alloc_block_def put_at_def flip: replicate_add)
  obtain r b2 where n: "dispatch_nested sample_env 128 40 0xc030462b alloc_block 48 16 None None b1 = Some (r, b2)"
      "b2 = note_event (EvIoctl 40 0xc030462b alloc_block []) b1"
    by (simp add: dispatch_nested_def alloc_block_fields slice_at_def rights nested_flat_def host_ioctl_sample Let_def)
  from sample_dispatch [of 128 ?p r b2] serve n(1) p(2) obtain r' bk where
      "dispatch sample_env 128 (request Ioctl 1 ?p) sample_opened = Some (r', bk)" "set (bk_trace b2) \<subseteq> set (bk_trace bk)"
    by auto
  then show ?thesis using n(2) by (auto simp: alloc_request_def note_event_fields)
qed

section \<open>Properties\<close>

text \<open>C4: In every state the backend can reach, the tables it consults are either all absent or all those of one
  release, the one it knows; and once it knows a release no sequence of messages changes any of them.\<close>

theorem tables_settle:
  assumes "running E bk" "dispatch_all E ms bk = Some (rs, bk')"
  shows "(no_tables bk' \<or> (\<exists>v. release_tables bk' = tables_of v)) \<and>
    (bk_driver bk \<noteq> None \<longrightarrow> release_tables bk' = release_tables bk)"
proof -
  have "tables_agree bk'"
    using running_inv [OF running_dispatch_all [OF assms]] by (simp add: backend_inv_def)
  moreover have "bk_driver bk \<noteq> None \<longrightarrow> release_tables bk' = release_tables bk"
    using assms(2)
  proof (induction ms arbitrary: bk rs)
    case Nil
    then show ?case by simp
  next
    case (Cons m ms)
    obtain cap req where m: "m = (cap, req)" by (cases m)
    with Cons.prems obtain r b rs' where d: "dispatch E cap req bk = Some (r, b)" "dispatch_all E ms b = Some (rs', bk')"
      by (auto split: option.splits)
    obtain b1 where b1: "step_ok (\<lambda>e. tables_agree bk \<longrightarrow> vetted bk e) keeps_neither b1 b"
        "release_tables b1 = release_tables bk" "bk_driver b1 = bk_driver bk"
      using med.step_dispatch [OF d(1) refl] by blast
    then have eq: "bk_driver bk \<noteq> None \<longrightarrow> release_tables b = release_tables bk" by (auto dest: step_tables)
    then have "bk_driver bk \<noteq> None \<longrightarrow> bk_driver b \<noteq> None" by (auto simp: release_tables_def)
    with eq Cons.IH [OF d(2)] show ?case by simp
  qed
  ultimately show ?thesis by (simp add: tables_agree_def)
qed

lemma tables_settle_witness:
  "\<exists>rs bk. dispatch_all sample_env [(64, request Open 0 (enc_open_req \<lparr>or_device_type = 255, or_flags = 0\<rparr>)),
      (128, sample_request)] sample_new = Some (rs, bk) \<and> bk_rmallow bk = rm_select sample_release"
proof -
  obtain r1 where 1: "dispatch sample_env 64 (request Open 0 (enc_open_req \<lparr>or_device_type = 255, or_flags = 0\<rparr>)) sample_new =
      Some (r1, sample_opened)" using sample_open by blast
  obtain r2 bk where 2: "dispatch sample_env 128 sample_request sample_opened = Some (r2, bk)" using sample_control by blast
  have run: "dispatch_all sample_env [(64, request Open 0 (enc_open_req \<lparr>or_device_type = 255, or_flags = 0\<rparr>)),
      (128, sample_request)] sample_new = Some ([r1, r2], bk)" by (simp add: 1 2)
  have new: "bk_driver sample_new = Some sample_release" "bk_rmallow sample_new = rm_select sample_release"
    by (simp_all add: sample_new_eq)
  then have "release_tables bk = release_tables sample_new"
    using tables_settle [OF sample_new_running run] by simp
  then show ?thesis using run new(2) by (auto simp: release_tables_def)
qed

text \<open>C1: Over the whole life of a backend, every RM_CONTROL the host is asked for carries the 32 bytes of the outer block
  and names a control that is not on the deny list and that the allowlist of the backend's release permits,
  with the length it declares permitted for that control and equal to the length of the buffer the host gets.\<close>

theorem rm_control_mediated:
  assumes "running E bk" "EvIoctl f q b bs \<in> set (bk_trace bk)" "q mod 65536 = 0x462a"
  shows "length b = 32 \<and> denied (u32_at b 8) = None \<and>
    (\<exists>sel r. bk_rmallow bk = Some sel \<and> ctrl_rule sel (u32_at b 8) = Some r \<and>
       (case r of Exact n \<Rightarrow> u32_at b 24 = n | UpTo m \<Rightarrow> u32_at b 24 \<le> m)) \<and>
    u32_at b 24 = (case bs of [] \<Rightarrow> 0 | d # _ \<Rightarrow> length (snd d))"
proof -
  have "vetted bk (EvIoctl f q b bs)"
    using running_inv [OF assms(1)] assms(2) by (auto simp: backend_inv_def list_all_iff)
  then have "control_vetted bk b bs" using assms(3) by (simp add: vetted_def)
  then show ?thesis
    by (auto simp: control_vetted_def nested_len_def rm_control_refusal_def split: option.splits ctrl_allow.splits if_splits list.splits)
qed

lemma rm_control_mediated_witness:
  "\<exists>(bk :: backend) b bs. EvIoctl 40 0xc020462a b bs \<in> set (bk_trace bk) \<and> u32_at b 8 = 0x9000 \<and> length b = 32 \<and>
    denied (u32_at b 8) = None"
proof -
  obtain r bk b bs where d: "dispatch sample_env 128 sample_request sample_opened = Some (r, bk)"
      "EvIoctl 40 0xc020462a b bs \<in> set (bk_trace bk)" "u32_at b 8 = 0x9000"
    using sample_control by blast
  have run: "running sample_env bk" using sample_opened_running d(1) by (rule running.message)
  from rm_control_mediated [OF run d(2)] d(2,3) show ?thesis by - (rule exI [of _ bk], rule exI [of _ b], rule exI [of _ bs], auto)
qed

text \<open>C3: Over the whole life of a backend, every RM_ALLOC the host is asked for carries the 48 bytes of the outer block
  and names a class the allowlist of the backend's release permits, with parameters of that class's size (or
  none, where it can do without), and a class behind a capability only where the guest has it.\<close>

theorem rm_alloc_mediated:
  assumes "running E bk" "EvIoctl f q b bs \<in> set (bk_trace bk)" "q mod 65536 = 0x462b"
  shows "length b = 48 \<and>
    (\<exists>sel e. bk_rmallow bk = Some sel \<and> class_entry sel (u32_at b 12) = Some e \<and>
       (let n = (case bs of [] \<Rightarrow> 0 | d # _ \<Rightarrow> length (snd d)) in
        if n = 0 then \<not> acl_required e else n = acl_size e)) \<and>
    (case caps_for_class (u32_at b 12) of Some c \<Rightarrow> caps_has (bk_caps bk) c | None \<Rightarrow> True)"
proof -
  have "vetted bk (EvIoctl f q b bs)"
    using running_inv [OF assms(1)] assms(2) by (auto simp: backend_inv_def list_all_iff)
  then have "alloc_vetted bk b bs" using assms(3) by (simp add: vetted_def)
  then show ?thesis
    by (auto simp: alloc_vetted_def nested_len_def rm_class_refusal_def Let_def split: option.splits if_splits list.splits)
qed

lemma rm_alloc_mediated_witness:
  "\<exists>bk :: backend. EvIoctl 40 0xc030462b alloc_block [] \<in> set (bk_trace bk) \<and>
    (\<exists>sel e. bk_rmallow bk = Some sel \<and> class_entry sel 0 = Some e \<and> \<not> acl_required e)"
proof -
  obtain r bk where d: "dispatch sample_env 128 alloc_request sample_opened = Some (r, bk)"
      "EvIoctl 40 0xc030462b alloc_block [] \<in> set (bk_trace bk)"
    using sample_alloc by blast
  have run: "running sample_env bk" using sample_opened_running d(1) by (rule running.message)
  from rm_alloc_mediated [OF run d(2)] d(2) show ?thesis by - (rule exI [of _ bk], auto simp: alloc_block_fields Let_def)
qed

end
