(* ===== verification/Files.thy ===== *)
theory Files
  imports Samples
begin

text \<open>
  The guest's open files. \<open>open_files\<close> forgets everything of the backend but which handle stands for which host
  descriptor of which device, \<open>file_op\<close> is what a message may do to that, and each message is shown to do
  one of these steps and no other.
\<close>

section \<open>The abstract machine\<close>

text \<open>What the capabilities say of a device; the tools device is never served.\<close>

definition kind_allowed :: "caps \<Rightarrow> device_kind \<Rightarrow> bool" where
  "kind_allowed c k \<longleftrightarrow>
     (case k of
        UvmTools \<Rightarrow> False
      | Uvm \<Rightarrow> caps_has c COMPUTE
      | Modeset \<Rightarrow> caps_has c GRAPHICS
      | Dri n \<Rightarrow> caps_has c GRAPHICS
      | _ \<Rightarrow> True)"

type_synonym files = "nat \<rightharpoonup> fd \<times> device_kind"

text \<open>
  A successful open adds a handle not in use for a descriptor the host just opened; a close of a handle in use
  removes it and nothing else; everything else, refused or failed opens and closes of unknown handles
  included, leaves the files alone.
\<close>

inductive file_op :: "env \<Rightarrow> event list \<Rightarrow> caps \<Rightarrow> files \<Rightarrow> msg_type option \<Rightarrow> nat \<Rightarrow> files \<Rightarrow> bool" for E t c F where
  opens: "F h = None \<Longrightarrow> kind_allowed c k \<Longrightarrow> en_open E t path = Inr f \<Longrightarrow> file_op E t c F (Some Open) n (F(h \<mapsto> (f, k)))"
| closes: "F n \<noteq> None \<Longrightarrow> file_op E t c F (Some Close) n (F(n := None))"
| stays: "m \<noteq> Some Close \<or> F n = None \<Longrightarrow> file_op E t c F m n F"

inductive_cases file_op_close: "file_op E t c F (Some Close) n F'"

definition open_files :: "backend \<Rightarrow> files" where
  "open_files bk h =
     (case (ht_get_raw (bk_handles bk) h, map_of (bk_kinds bk) h) of (Some f, Some k) \<Rightarrow> Some (f, k) | _ \<Rightarrow> None)"

definition msg_of :: "bytes \<Rightarrow> msg_type option" where
  "msg_of req = (if length req < 16 then None else msg_type_from_u32 (mh_type (dec_msg_header req)))"

section \<open>The invariant\<close>

definition files_inv :: "backend \<Rightarrow> bool" where
  "files_inv bk \<longleftrightarrow>
     (\<forall>h f. ht_get_raw (bk_handles bk) h = Some f \<longrightarrow>
        (\<exists>k. map_of (bk_kinds bk) h = Some k \<and> kind_allowed (bk_caps bk) k))"

lemma files_inv_cong:
  "bk_handles b = bk_handles a \<Longrightarrow> bk_kinds b = bk_kinds a \<Longrightarrow> bk_caps b = bk_caps a \<Longrightarrow> files_inv b = files_inv a"
  by (simp add: files_inv_def)

lemma open_files_cong:
  "bk_handles b = bk_handles a \<Longrightarrow> bk_kinds b = bk_kinds a \<Longrightarrow> open_files b = open_files a"
  by (simp add: open_files_def fun_eq_iff)

lemma ht_get_update: "ht_get_raw (t\<lparr>ht_table := AList.update h f (ht_table t)\<rparr>) = (ht_get_raw t)(h \<mapsto> f)"
  by (simp add: ht_get_raw_def fun_eq_iff update_conv')

lemma ht_insert_get: "ht_insert t f = (h, t') \<Longrightarrow> ht_get_raw t' = (ht_get_raw t)(h \<mapsto> f)"
  by (auto simp: ht_insert_def ht_get_raw_def fun_eq_iff update_conv')

lemma ht_remove_get: "ht_remove t h = (x, t') \<Longrightarrow> x = ht_get_raw t h \<and> ht_get_raw t' = (ht_get_raw t)(h := None)"
  by (auto simp: ht_remove_def ht_get_raw_def fun_eq_iff delete_conv')

section \<open>The two handlers\<close>

lemma open_allowed:
  "open_refusal c ty = None \<Longrightarrow> device_kind_from_type ty = Some k \<Longrightarrow> kind_allowed c k"
  by (auto simp: open_refusal_def kind_allowed_def split: device_kind.splits if_splits)

lemma handle_open_files:
  assumes "handle_open E cap p bk = (r, bk')"
  shows "bk_caps bk' = bk_caps bk \<and> (bk_handles bk' = bk_handles bk \<and> bk_kinds bk' = bk_kinds bk \<or>
    (\<exists>h f k path. kind_allowed (bk_caps bk) k \<and> en_open E (bk_trace bk) path = Inr f \<and>
       ht_insert (bk_handles bk) f = (h, bk_handles bk') \<and> bk_kinds bk' = AList.update h k (bk_kinds bk)))"
proof -
  have k: "\<exists>k. device_kind_from_type ty = Some k" if "device_path_with ty dri = Some path" for ty dri path
    using that by (auto simp: device_path_with_def split: option.splits)
  show ?thesis
    using assms
    by (auto simp: handle_open_def Let_def note_event_def refuse_for_caps_def split: if_splits option.splits sum.splits prod.splits
        dest: k open_allowed intro!: exI)
qed

lemma handle_close_files:
  assumes "handle_close E cap bk = (r, bk')"
  shows "bk_caps bk' = bk_caps bk \<and> bk_kinds bk' = bk_kinds bk \<and>
    ht_get_raw (bk_handles bk') = (ht_get_raw (bk_handles bk))(bk_handle bk := None)"
proof -
  define b1 where "b1 = release_file E bk"
  have b1: "bk_caps b1 = bk_caps bk" "bk_kinds b1 = bk_kinds bk" "bk_handles b1 = bk_handles bk"
    using nio.step_release_file [of True bk E] by (simp_all add: b1_def step_ok_def frame_ok_def)
  obtain t where t: "ht_remove (bk_handles bk) (bk_handle bk) = (ht_get_raw (bk_handles bk) (bk_handle bk), t)"
      "ht_get_raw t = (ht_get_raw (bk_handles bk))(bk_handle bk := None)"
    using ht_remove_get by (metis prod.exhaust)
  show ?thesis
    using assms t b1
    by (cases "ht_get_raw (bk_handles bk) (bk_handle bk)") (auto simp: handle_close_def b1_def [symmetric] Let_def note_event_def fun_upd_idem)
qed

text \<open>Every other message leaves both tables alone, opens and closes nothing, and keeps the list of render nodes unless it
  sends a new one.\<close>

interpretation ofl: call_policy "\<lambda>e. \<not> file_event e" bk for bk
  by unfold_locales simp_all

interpretation ofp: pool_filter "\<lambda>e. \<not> file_event e"
  by unfold_locales (auto simp: pool_event_def split: event.splits)

definition no_files :: "backend \<Rightarrow> backend \<Rightarrow> bool" where
  "no_files bk bk' \<longleftrightarrow> bk_caps bk' = bk_caps bk \<and> bk_kinds bk' = bk_kinds bk \<and> bk_handles bk' = bk_handles bk \<and>
     (\<exists>new. bk_trace bk' = new @ bk_trace bk \<and> list_all (\<lambda>e. \<not> file_event e) new)"

lemma step_no_files: "step_ok (\<lambda>e. \<not> file_event e) (Keep True False) bk bk' \<Longrightarrow> no_files bk bk' \<and> bk_dri_given bk' = bk_dri_given bk"
  by (auto simp: step_ok_def frame_ok_def no_files_def)

lemma get_files_no_files: "no_files bk (snd (handle_get_files E t cap bk))"
  by (auto simp: no_files_def handle_get_files_def write_dri_section_def Let_def split: file_tree.splits)

lemma other_messages:
  assumes run: "dispatch E cap req bk = Some (r, bk')" and m: "msg_of req \<noteq> Some Open" "msg_of req \<noteq> Some Close"
  shows "no_files bk bk' \<and> (msg_of req \<noteq> Some GetSysFiles \<longrightarrow> bk_dri_given bk' = bk_dri_given bk)"
proof (cases "msg_of req")
  case None
  with run show ?thesis by (auto simp: dispatch_def msg_of_def no_files_def Let_def split: if_splits)
next
  case (Some m)
  define b1 where "b1 = bk\<lparr>bk_msg := m, bk_msg_counts := bump m (bk_msg_counts bk),
      bk_handle := mh_handle (dec_msg_header req)\<rparr>"
  have b1: "no_files b1 bk' \<longleftrightarrow> no_files bk bk'" "bk_dri_given b1 = bk_dri_given bk" by (simp_all add: b1_def no_files_def)
  let ?ok = "no_files b1 bk' \<and> bk_dri_given bk' = bk_dri_given b1"
  have st: "x = (r, bk') \<Longrightarrow> step_ok (\<lambda>e. \<not> file_event e) (Keep True False) b1 (snd x) \<Longrightarrow> ?ok" for x
    using step_no_files by auto
  have io: "handle_ioctl E cap (drop 16 req) b1 = Some (r, bk') \<Longrightarrow> ?ok"
    using step_no_files ofl.step_handle_ioctl [OF _ refl] by blast
  have gf: "(r, bk') = handle_get_files E t cap b1 \<Longrightarrow> no_files b1 bk' \<and> (t = Proc \<longrightarrow> bk_dri_given bk' = bk_dri_given b1)" for t
    using get_files_no_files [of b1 E t cap] by (auto simp: handle_get_files_def split: file_tree.splits dest: sym)
  have run': "(case m of
       Open \<Rightarrow> Some (handle_open E cap (drop 16 req) b1) | Close \<Rightarrow> Some (handle_close E cap b1)
     | Ioctl \<Rightarrow> handle_ioctl E cap (drop 16 req) b1 | Mmap \<Rightarrow> Some (handle_mmap E cap (drop 16 req) b1)
     | Munmap \<Rightarrow> Some (handle_munmap E cap (drop 16 req) b1)
     | GetProcFiles \<Rightarrow> Some (handle_get_files E Proc cap b1) | GetSysFiles \<Rightarrow> Some (handle_get_files E Sys cap b1)
     | EventReady \<Rightarrow> Some (write_error_resp cap b1 StInvalidMsgType EINVAL, b1)) = Some (r, bk')"
    using run Some by (auto simp: dispatch_def msg_of_def Let_def b1_def split: if_splits msg_type.splits)
  have "no_files b1 bk' \<and> (m \<noteq> GetSysFiles \<longrightarrow> bk_dri_given bk' = bk_dri_given b1)"
  proof (cases m)
    case GetProcFiles
    with run' gf [of Proc] show ?thesis by simp
  next
    case GetSysFiles
    with run' gf [of Sys] show ?thesis by simp
  next
    case EventReady
    with run' show ?thesis by (auto simp: no_files_def)
  next
    case Ioctl
    with run' io show ?thesis by simp
  next
    case Mmap
    with run' st [OF _ ofp.step_handle_mmap] show ?thesis by simp
  next
    case Munmap
    with run' st [OF _ ofp.step_handle_munmap] show ?thesis by simp
  qed (use m Some in simp_all)
  with b1 Some show ?thesis by simp
qed

lemma other_messages_files:
  assumes "dispatch E cap req bk = Some (r, bk')" "msg_of req \<noteq> Some Open" "msg_of req \<noteq> Some Close"
  shows "bk_caps bk' = bk_caps bk \<and> bk_kinds bk' = bk_kinds bk \<and> bk_handles bk' = bk_handles bk"
  using other_messages [OF assms] by (simp add: no_files_def)

section \<open>One message\<close>

lemma dispatch_open_close:
  assumes "dispatch E cap req bk = Some (r, bk')" "msg_of req = Some m"
  defines "b1 \<equiv> arrived m (mh_handle (dec_msg_header req)) bk"
  shows "m = Open \<Longrightarrow> handle_open E cap (drop 16 req) b1 = (r, bk')" "m = Close \<Longrightarrow> handle_close E cap b1 = (r, bk')"
  using assms by (auto simp: dispatch_def msg_of_def arrived_def Let_def split: if_splits)

lemma arrived_fields [simp]:
  "bk_handles (arrived m h bk) = bk_handles bk" "bk_kinds (arrived m h bk) = bk_kinds bk" "bk_caps (arrived m h bk) = bk_caps bk"
  "bk_trace (arrived m h bk) = bk_trace bk" "bk_handle (arrived m h bk) = h"
  by (simp_all add: arrived_def)

lemma files_inv_dispatch:
  assumes inv: "files_inv bk" and run: "dispatch E cap req bk = Some (r, bk')"
  shows "files_inv bk'"
proof -
  let ?h = "mh_handle (dec_msg_header req)"
  consider (o) "msg_of req = Some Open" | (c) "msg_of req = Some Close" | (x) "msg_of req \<noteq> Some Open" "msg_of req \<noteq> Some Close"
    by blast
  then show ?thesis
  proof cases
    case o
    from dispatch_open_close(1) [OF run o refl, THEN handle_open_files] inv show ?thesis
      by (auto simp: files_inv_def ht_insert_get update_conv' split: if_splits dest!: ht_insert_get)
  next
    case c
    from dispatch_open_close(2) [OF run c refl, THEN handle_close_files] inv show ?thesis
      by (auto simp: files_inv_def)
  next
    case x
    from other_messages_files [OF run x] inv show ?thesis using files_inv_cong by metis
  qed
qed

lemma running_files_inv: "running E bk \<Longrightarrow> files_inv bk"
proof (induction rule: running.induct)
  case (start bk)
  then have "bk_handles bk = ht_new"
  proof induction
    case (version bk v)
    then show ?case by (auto simp: set_host_driver_version_def Let_def split: option.splits)
  qed (auto simp: backend_new_def set_caps_def set_vram_limit_mib_def)
  then show ?case by (simp add: files_inv_def ht_get_raw_def ht_new_def)
next
  case (torn_down bk)
  have "bk_handles (fold (\<lambda>f. note_event (EvClose f)) fs b) = bk_handles b" for fs b
    by (induction fs arbitrary: b) (simp_all add: note_event_def)
  then have "bk_handles (drain_handles b) = ht_new" for b
    by (simp add: drain_handles_def ht_drain_all_def ht_new_def)
  then have "bk_handles (teardown E bk) = ht_new" by (simp add: teardown_def Let_def split: prod.splits)
  then show ?case by (simp add: files_inv_def ht_get_raw_def ht_new_def)
next
  case (message bk cap req r bk')
  then show ?case by (blast intro: files_inv_dispatch)
qed (auto simp: set_window_def set_guest_ram_def take_watch_updates_def files_inv_def)

section \<open>Properties\<close>

text \<open>C20: In every state the backend can reach, each open handle is known to be of a device the guest's capabilities
  serve: UVM only with compute, the modeset device and render nodes only with graphics, the tools device never.\<close>

theorem open_devices_allowed:
  assumes "running E bk" "ht_get_raw (bk_handles bk) h = Some f"
  shows "\<exists>k. map_of (bk_kinds bk) h = Some k \<and>
    (case k of UvmTools \<Rightarrow> False | Uvm \<Rightarrow> caps_has (bk_caps bk) COMPUTE | Modeset \<Rightarrow> caps_has (bk_caps bk) GRAPHICS
      | Dri n \<Rightarrow> caps_has (bk_caps bk) GRAPHICS | _ \<Rightarrow> True)"
  using running_files_inv [OF assms(1)] assms(2) unfolding files_inv_def kind_allowed_def by blast

lemma open_devices_allowed_witness: "map_of (bk_kinds sample_opened) 1 = Some Ctl"
proof -
  have "ht_get_raw (bk_handles sample_opened) 1 = Some 40" by (simp add: sample_opened_fields ht_get_raw_def)
  from open_devices_allowed [OF sample_opened_running this] show ?thesis by (simp add: sample_opened_fields)
qed

text \<open>C5: Each message, seen through the guest's open files, is a step of the abstract machine: an open that succeeds adds
  a fresh handle for a descriptor the host just opened of a device the capabilities allow, a close removes
  exactly its handle, and no other message, and no refused one, changes which files are open.\<close>

theorem dispatch_refines_files:
  assumes "running E bk" "ht_inv (bk_handles bk)" "dispatch E cap req bk = Some (r, bk')"
  shows "file_op E (bk_trace bk) (bk_caps bk) (open_files bk) (msg_of req) (mh_handle (dec_msg_header req)) (open_files bk')"
proof -
  let ?h = "mh_handle (dec_msg_header req)"
  have known: "open_files bk h = None \<longleftrightarrow> ht_get_raw (bk_handles bk) h = None" for h
    using running_files_inv [OF assms(1)] by (auto simp: files_inv_def open_files_def split: option.splits)
  consider (o) "msg_of req = Some Open" | (c) "msg_of req = Some Close" | (x) "msg_of req \<noteq> Some Open" "msg_of req \<noteq> Some Close"
    by blast
  then show ?thesis
  proof cases
    case o
    from handle_open_files [OF dispatch_open_close(1) [OF assms(3) o refl]]
    consider "bk_handles bk' = bk_handles bk" "bk_kinds bk' = bk_kinds bk"
      | h f k path where "kind_allowed (bk_caps bk) k" "en_open E (bk_trace bk) path = Inr f"
        "ht_insert (bk_handles bk) f = (h, bk_handles bk')" "bk_kinds bk' = AList.update h k (bk_kinds bk)"
      by auto
    then show ?thesis
    proof cases
      case 1
      from open_files_cong [OF this] show ?thesis by (simp add: o file_op.stays)
    next
      case 2
      have "ht_get_raw (bk_handles bk) h = None" using ht.ins_fresh [OF assms(2), of f] 2(3) by simp
      moreover have "open_files bk' = (open_files bk)(h \<mapsto> (f, k))"
        using ht_insert_get [OF 2(3)] 2(4) by (auto simp: open_files_def fun_eq_iff update_conv')
      ultimately show ?thesis using o 2(1,2) known file_op.opens by simp
    qed
  next
    case c
    from handle_close_files [OF dispatch_open_close(2) [OF assms(3) c refl]]
    have "open_files bk' = (open_files bk)(?h := None)" by (auto simp: open_files_def fun_eq_iff)
    then show ?thesis
      using c file_op.closes file_op.stays by (cases "open_files bk ?h = None") (simp_all add: fun_upd_idem)
  next
    case x
    from open_files_cong other_messages_files [OF assms(3) x] have "open_files bk' = open_files bk" by blast
    with x show ?thesis by (simp add: file_op.stays)
  qed
qed

lemma dispatch_refines_files_witness:
  "\<exists>r bk. dispatch sample_env 64 (request Close 1 []) sample_opened = Some (r, bk) \<and> open_files sample_opened 1 = Some (40, Ctl) \<and>
    open_files bk = (open_files sample_opened)(1 := None)"
proof -
  let ?q = "request Close 1 []"
  obtain r bk where d: "dispatch sample_env 64 ?q sample_opened = Some (r, bk)"
    by (cases "handle_close sample_env 64 (arrived Close 1 sample_opened)") (simp add: dispatch_request)
  have h: "dec_msg_header ?q = \<lparr>mh_type = 2, mh_handle = 1, mh_status = 0, mh_padding = 0\<rparr>"
    using hdr.dec_enc [of "\<lparr>mh_type = 2, mh_handle = 1, mh_status = 0, mh_padding = 0\<rparr>" "[]"]
    by (simp add: request_def msg_header_wf_def)
  then have m: "msg_of ?q = Some Close" by (simp add: msg_of_def request_def hdr.length_enc msg_type_from_u32_def)
  have o: "open_files sample_opened 1 = Some (40, Ctl)" by (simp add: open_files_def sample_opened_fields ht_get_raw_def)
  have inv: "ht_inv (bk_handles sample_opened)" by (simp add: sample_opened_fields ht_inv_def)
  from dispatch_refines_files [OF sample_opened_running inv d] h m
  have "file_op sample_env (bk_trace sample_opened) (bk_caps sample_opened) (open_files sample_opened) (Some Close) 1 (open_files bk)"
    by simp
  then show ?thesis using o d by (auto elim!: file_op_close)
qed

end
