(* ===== verification/Returns.thy ===== *)
theory Returns
  imports Files Policy
begin

text \<open>
  When a message is answered. Every slice and every assertion of the code is a branch to \<open>None\<close> in the model; this
  theory shows which of them no message can reach, and shows the messages that do reach the others.
\<close>

section \<open>Tables in range\<close>

lemma running_rmctrl:
  assumes "tables_agree bk" "bk_rmctrl bk = Some sel" "rmctrl_lookup (rs_table sel) cmd = Some e"
  shows "rmctrl_entry_ok e"
proof -
  from assms(1,2) obtain v where "rmctrl_select v = Some sel"
    by (auto simp: tables_agree_def no_tables_def release_tables_def tables_of_def)
  then obtain w where w: "(w, rs_table sel) \<in> set rmctrl_profiles" by (rule rmctrl_select_member)
  then show ?thesis using rmctrl_profile_ok [OF w] rmctrl_lookup_member [OF w] assms(3) by blast
qed

lemma running_uvm:
  assumes "tables_agree bk" "bk_uvm bk = Some sel" "uvm_entry sel q = Some e"
  shows "uvm_cmd_ok e" "q = 0x30000001 \<Longrightarrow> 8 \<le> uc_size e" "bk_driver bk \<noteq> None"
proof -
  from assms(1,2) obtain v where v: "uvm_select v = Some sel" "release_tables bk = tables_of v"
    by (auto simp: tables_agree_def no_tables_def release_tables_def tables_of_def)
  from v(1) obtain w where w: "(w, us_cmd sel, us_init sel) \<in> set uvm_profiles" by (rule uvm_select_member)
  have "uvm_find (us_cmd sel) q = Some e" using assms(3) by (auto simp: uvm_entry_def split: option.splits if_splits)
  then have e: "e \<in> set (us_cmd sel)" "uc_num e = q" "uvm_cmd_ok e" using uvm_find_member [OF w] by simp_all
  then show "uvm_cmd_ok e" by simp
  have "list_all (\<lambda>(w, t, i). list_all (\<lambda>e. uc_num e = 0x30000001 \<longrightarrow> 8 \<le> uc_size e) t) uvm_profiles"
    by (simp add: uvm_profiles_def uvm_cmd_tables)
  with w e show "q = 0x30000001 \<Longrightarrow> 8 \<le> uc_size e" by (auto simp: list_all_iff)
  show "bk_driver bk \<noteq> None" using v(2) by (simp add: release_tables_def tables_of_def)
qed

section \<open>RM controls\<close>

lemma plan_ptrs_returns:
  "\<forall>q \<in> set ps. ep_offset q + 8 \<le> length params \<Longrightarrow> \<exists>y. plan_ptrs params segs legacy n ps = Some y"
  by (induction params segs legacy n ps rule: plan_ptrs.induct) (auto simp: get_le_eq Let_def split: option.splits)

lemma plan_returns: "rmctrl_entry_ok e \<Longrightarrow> \<exists>y. plan e params segs legacy = Some y"
  by (auto simp: plan_def rmctrl_entry_ok_def list_all_iff intro!: plan_ptrs_returns split: if_splits)

lemma plan_ptrs_slots:
  "plan_ptrs params segs legacy n ps = Some (Inr ss) \<Longrightarrow> s \<in> set ss \<Longrightarrow> sl_ptr s + 8 \<le> length params"
  by (induction params segs legacy n ps arbitrary: ss rule: plan_ptrs.induct)
    (auto simp: get_le_Some_iff Let_def map_sum_Inr_iff split: option.splits if_splits)

lemma install_returns:
  assumes "\<forall>s \<in> set ss. sl_ptr s + 8 \<le> length params"
  shows "install E None None ss params acc bk \<noteq> None"
  using assms
proof (induction ss arbitrary: params acc bk)
  case Nil
  then show ?case by simp
next
  case (Cons s ss)
  obtain g b where l: "lease E (max (sl_len s) 1) bk = (g, b)" by (metis prod.exhaust)
  have fill: "embedded_fill s (sent None None p) = Some (replicate (max (sl_len s) 1) 0)" for p
    by (simp add: embedded_fill_def sent_def Let_def)
  show ?case using l Cons by (cases g) (auto simp: fill slice_at_def)
qed

text \<open>Without a deep block, whatever the table says of the control.\<close>

lemma embed_returns:
  assumes "case entry of Some e \<Rightarrow> rmctrl_entry_ok e | None \<Rightarrow> True"
  shows "embed E entry None buf bk \<noteq> None"
proof (cases entry)
  case None
  then show ?thesis by (simp add: embed_def)
next
  case (Some e)
  obtain p where p: "plan e buf None None = Some p" using plan_returns assms Some by fastforce
  show ?thesis
  proof (cases p)
    case (Inl st)
    with p Some show ?thesis by (simp add: embed_def deep_segments_def deep_legacy_def)
  next
    case (Inr ss)
    have "\<forall>s \<in> set ss. sl_ptr s + 8 \<le> length buf"
      using p Inr plan_ptrs_slots by (fastforce simp: plan_def split: if_splits)
    from install_returns [OF this] obtain x b where "install E None None ss buf [] bk = Some (x, b)" by fastforce
    with p Some Inr show ?thesis
      by (cases x) (auto simp: embed_def deep_segments_def deep_legacy_def Let_def)
  qed
qed

lemma nested_forward_returns: "nested_forward E cap f q None ptr cp rights saved g outer buf es bk \<noteq> None"
proof -
  have "\<exists>y. deep_reply None es None = Some y" for es
    by (simp add: deep_reply_def deep_segments_def Let_def split: option.splits)
  then obtain D where "deep_reply None es None = Some (D es)" for es by metis
  then show ?thesis
    by (auto simp: nested_forward_def deep_pointer_def Let_def split: prod.splits option.splits)
qed

lemma described_ok: "tables_agree bk \<Longrightarrow> case described bk e outer of Some x \<Rightarrow> rmctrl_entry_ok x | None \<Rightarrow> True"
  by (auto simp: described_def running_rmctrl split: option.splits bind_splits)

lemma nested_with_block_returns:
  assumes "tables_agree bk"
  shows "nested_with_block E cap f q None nfd ptr cp rights g outer buf bk \<noteq> None"
proof (cases "translate_fds bk (q mod 256) outer nfd buf")
  case (Inl e)
  then show ?thesis by (simp add: nested_with_block_def Let_def split: prod.splits)
next
  case (Inr t)
  obtain b1 saved where t: "t = (b1, saved)" by (cases t)
  let ?o = "put_at outer ptr (le_bytes 8 (gb_ptr g))"
  obtain x b where "embed E (described bk (q mod 256) ?o) None b1 bk = Some (x, b)"
    using embed_returns [OF described_ok [OF assms]] by fastforce
  with Inr t nested_forward_returns show ?thesis
    by (cases x) (auto simp: nested_with_block_def Let_def split: prod.splits)
qed

lemma dispatch_nested_returns:
  assumes "tables_agree bk" "ptr + 8 \<le> osz" "q mod 256 = 0x2a \<Longrightarrow> 32 \<le> osz" "q mod 256 = 0x2b \<Longrightarrow> 44 \<le> osz"
  shows "dispatch_nested E cap f q param osz ptr None nfd bk \<noteq> None"
proof (cases "length param < osz")
  case True
  then show ?thesis by (simp add: dispatch_nested_def)
next
  case False
  then obtain cp where cp: "slice_at param ptr 8 = Some cp" using assms(2) by (simp add: slice_at_def)
  have flat: "nested_flat E cap f q ptr cp rights o1 bk \<noteq> None" if "length o1 = osz" for rights o1
  proof -
    obtain e o2 bs b where h: "host_ioctl E f q o1 [] bk = (e, o2, bs, b)" by (metis prod_cases4)
    then have "length o2 = osz" using host_ioctl_parts(2) that by simp
    with h assms(3,4) show ?thesis by (auto simp: nested_flat_def Let_def split: option.splits)
  qed
  obtain gl b1 where l: "lease E (length (drop osz param)) bk = (gl, b1)" by (metis prod.exhaust)
  have agree: "tables_agree b1"
    using nio.step_lease [OF l step_refl [of no_ioctl keeps_neither]] assms(1)
    by (auto simp: step_ok_def frame_ok_def tables_agree_def no_tables_def)
  show ?thesis
    using False cp flat l nested_with_block_returns [OF agree]
    by (cases gl) (auto simp: dispatch_nested_def Let_def)
qed

section \<open>UVM commands\<close>

lemma uvm_translate_returns:
  assumes "\<forall>sl \<in> set sls. fs_at sl + 4 \<le> length param \<and> (\<forall>h. fs_handle sl = Some h \<longrightarrow> h + 4 \<le> length param)"
  shows "\<exists>y. uvm_translate bk sls param restore = Some y \<and> (\<forall>p rs. y = Inr (p, rs) \<longrightarrow> length p = length param)"
  using assms
proof (induction bk sls param restore rule: uvm_translate.induct)
  case (1 bk param restore)
  then show ?case by simp
next
  case (2 bk sl sls param restore)
  from 2(2) have raw: "slice_at param (fs_at sl) 4 = Some (take 4 (drop (fs_at sl) param))" by (simp add: slice_at_def)
  let ?raw = "sint32 (of_le (take 4 (drop (fs_at sl) param)))"
  have "\<exists>d. uvm_descriptor bk sl ?raw param = Some d"
    using 2(2) by (auto simp: uvm_descriptor_def get_le_eq Let_def split: option.splits)
  then obtain d where d: "uvm_descriptor bk sl ?raw param = Some d" by blast
  show ?case
  proof (cases d)
    case (Inl u)
    with raw d show ?thesis by (simp split: unit.splits)
  next
    case (Inr host)
    with 2(1) [OF raw d] 2(2) raw d show ?thesis by simp
  qed
qed

lemma dispatch_uvm_returns:
  assumes "tables_agree bk"
  shows "dispatch_uvm E cap f q param bk \<noteq> None"
proof (cases "bk_uvm bk")
  case None
  then show ?thesis by (simp add: dispatch_uvm_def Let_def)
next
  case (Some sel)
  show ?thesis
  proof (cases "uvm_entry sel q")
    case None
    with Some show ?thesis by (simp add: dispatch_uvm_def Let_def)
  next
    case e: (Some e)
    note ok = running_uvm [OF assms Some e]
    show ?thesis
    proof (cases "length param = uc_size e")
      case False
      with Some e show ?thesis by (simp add: dispatch_uvm_def Let_def)
    next
      case True
      have "\<forall>sl \<in> set (uc_fds e). fs_at sl + 4 \<le> length param \<and> (\<forall>h. fs_handle sl = Some h \<longrightarrow> h + 4 \<le> length param)"
        using ok(1) True by (auto simp: uvm_cmd_ok_def list_all_iff)
      from uvm_translate_returns [OF this, of bk "[]"] obtain y where
          y: "uvm_translate bk (uc_fds e) param [] = Some y" "\<forall>p rs. y = Inr (p, rs) \<longrightarrow> length p = length param" by blast
      have fw: "uvm_forward E cap f q sel p rs bk \<noteq> None" if "length p = length param" for p rs
      proof -
        let ?p = "if q = UVM_INITIALIZE then put_at p 0 (le_bytes 8 (uvm_init_flags sel)) else p"
        obtain x p2 bs b2 where h: "host_ioctl E f q ?p [] bk = (x, p2, bs, b2)" by (metis prod_cases4)
        have "bk_driver b2 \<noteq> None" using host_ioctl_parts(1) [OF h] ok(3) by (simp add: note_event_def)
        moreover obtain z b3 where pg: "uvm_pageable_access_is_off E f b2 = (z, b3)" by (metis prod.exhaust)
        ultimately have "bk_driver b3 \<noteq> None"
          by (auto simp: uvm_pageable_access_is_off_def note_event_def split: prod.splits option.splits
              dest!: host_ioctl_parts(1))
        with h pg ok(2) True that show ?thesis
          by (auto simp: uvm_forward_def note_allow_refusal_def Let_def split: option.splits prod.splits bool.splits)
      qed
      show ?thesis
      proof (cases y)
        case (Inl u)
        with Some e True y show ?thesis by (simp add: dispatch_uvm_def Let_def split: unit.splits)
      next
        case (Inr pr)
        with Some e True y fw show ?thesis by (cases pr) (simp add: dispatch_uvm_def Let_def)
      qed
    qed
  qed
qed

section \<open>The message\<close>

lemma serve_registration_returns:
  assumes "bk_osdesc bk \<noteq> None"
  shows "serve_registration E cap f q route dl param None bk \<noteq> None"
proof -
  have "translate E None n bk = Some (None, bk)" for n by (simp add: translate_def split: option.splits)
  with assms show ?thesis by (auto simp: serve_registration_def Let_def split: option.splits)
qed

lemma registration_described: "registration_by_address bk e c p = Some route \<Longrightarrow> bk_osdesc bk \<noteq> None"
  by (auto simp: registration_by_address_def split: option.splits)

lemma dispatch_rm_returns:
  assumes "tables_agree bk"
  shows "dispatch_rm E cap f q ireq param None bk \<noteq> None"
proof -
  have n: "\<exists>r c. dispatch_nested E cap f q param osz 16 None None b = Some (r, c)"
    if "q mod 256 = 0x2a \<and> osz = 32 \<or> q mod 256 = 0x2b \<and> osz = 48" "release_tables b = release_tables bk" for osz b
  proof -
    have "tables_agree b" using assms that(2) by (simp add: tables_agree_def no_tables_def)
    from dispatch_nested_returns [OF this, of 16 osz q E cap f param None] that(1) show ?thesis by auto
  qed
  have reg: "\<exists>r c. serve_registration E cap f q route dl param None b = Some (r, c)"
    if "registration_by_address b e c p = Some route" for route dl b e c p
    using serve_registration_returns [OF registration_described [OF that]] by fastforce
  consider (c) "q mod 256 = 0x2a" | (a) "q mod 256 = 0x2b" | (o) "q mod 256 \<noteq> 0x2a" "q mod 256 \<noteq> 0x2b" by blast
  then show ?thesis
  proof cases
    case c
    then show ?thesis
      by (auto simp: dispatch_rm_def serve_control_def Let_def release_tables_def intro!: n)
  next
    case a
    then show ?thesis
      by (auto simp: dispatch_rm_def serve_alloc_def Let_def release_tables_def split: option.splits intro!: n dest: reg)
  next
    case o
    then show ?thesis unfolding dispatch_rm_def Let_def by (auto split: option.splits dest: reg)
  qed
qed

text \<open>
  A message the code never panics on: an ioctl carries its whole request and no deep block, and is not one of
  the two modeset calls whose log line slices a block they do not have.
\<close>

definition well_framed :: "bytes \<Rightarrow> bool" where
  "well_framed req \<longleftrightarrow>
     (msg_of req = Some Ioctl \<longrightarrow>
        length req \<ge> 40 \<and> ir_deep_len (dec_ioctl_req (drop 16 req)) = 0 \<and>
        (let q = ir_cmd (dec_ioctl_req (drop 16 req)) in
         q div 256 mod 256 = 0x6d \<longrightarrow> q mod 256 \<noteq> 0x2a \<and> q mod 256 \<noteq> 0x2b))"

lemma route_ioctl_returns:
  assumes agree: "tables_agree bk"
    and modeset: "ir_cmd ireq div 256 mod 256 = 0x6d \<Longrightarrow> ir_cmd ireq mod 256 \<noteq> 0x2a \<and> ir_cmd ireq mod 256 \<noteq> 0x2b"
  shows "route_ioctl E cap f ireq param None bk \<noteq> None"
proof -
  define q where "q = ir_cmd ireq"
  define b1 where "b1 = bk\<lparr>bk_ioctls_by_ns :=
      bump (ioctl_namespace (map_of (bk_kinds bk) (bk_handle bk) = Some Uvm) (q div 256 mod 256),
        if map_of (bk_kinds bk) (bk_handle bk) = Some Uvm then q else q mod 256) (bk_ioctls_by_ns bk)\<rparr>"
  have agree1: "tables_agree b1" using agree by (simp add: b1_def tables_agree_def no_tables_def release_tables_def)
  have uvm: "dispatch_uvm E cap f q param b1 \<noteq> None" by (rule dispatch_uvm_returns [OF agree1])
  have rm: "dispatch_rm E cap f q ireq param None b1 \<noteq> None" by (rule dispatch_rm_returns [OF agree1])
  have ms: "dispatch_nested E cap f q param 16 8 None nfd b1 \<noteq> None" if "q div 256 mod 256 = 0x6d" for nfd
    using modeset that by (intro dispatch_nested_returns [OF agree1]) (simp_all add: q_def)
  have drm: "dispatch_nested E cap f q param n 8 None nfd b1 \<noteq> None" if "drm_outer_size (q mod 256) = Some n" for n nfd
    using that by (intro dispatch_nested_returns [OF agree1]) (auto simp: drm_outer_size_def split: if_splits)
  have known: "case check_abi b1 (q mod 256) (ir_data_len ireq) of UnknownEscape \<Rightarrow> bk_driver b1 \<noteq> None
      | SizeMismatch x y \<Rightarrow> bk_driver b1 \<noteq> None | _ \<Rightarrow> True"
    using agree1
    by (auto simp: check_abi_def tables_agree_def no_tables_def release_tables_def tables_of_def split: option.splits if_splits)
  show ?thesis
    unfolding route_ioctl_def Let_def q_def [symmetric] b1_def [symmetric]
    using uvm rm ms drm known by (auto split: abi_check.splits)
qed

lemma note_clients_keeps:
  "24 \<le> length payload \<Longrightarrow> \<exists>b'. note_clients payload r b = Some b' \<and> bk_registrations b' = bk_registrations b \<and> bk_trace b' = bk_trace b"
  by (simp add: note_clients_def read_struct_def Let_def)

lemma handle_ioctl_returns:
  assumes agree: "tables_agree bk" and len: "24 \<le> length payload" and deep: "ir_deep_len (dec_ioctl_req payload) = 0"
    and modeset: "ir_cmd (dec_ioctl_req payload) div 256 mod 256 = 0x6d \<Longrightarrow>
      ir_cmd (dec_ioctl_req payload) mod 256 \<noteq> 0x2a \<and> ir_cmd (dec_ioctl_req payload) mod 256 \<noteq> 0x2b"
  shows "handle_ioctl E cap payload bk \<noteq> None"
proof -
  have rs: "read_struct 24 dec_ioctl_req payload 0 = Some (dec_ioctl_req payload)" using len by (simp add: read_struct_def)
  have "vidmem_admit cap payload bk \<noteq> None"
    by (simp add: vidmem_admit_def rs Let_def split: option.splits prod.splits bool.splits)
  then obtain x b1 where a: "vidmem_admit cap payload bk = Some (x, b1)" by auto
  have agree1: "tables_agree (b1\<lparr>bk_data_len := n\<rparr>)" for n
    using med.step_vidmem_admit [OF a, where k = keeps_neither] agree by (auto simp: step_ok_def frame_ok_def tables_agree_def no_tables_def release_tables_def)
  have "\<exists>r b. serve_ioctl E cap payload b1 = Some (r, b)"
    using route_ioctl_returns [OF agree1 modeset] len deep
    by (auto simp: serve_ioctl_def Let_def split: option.splits)
  then obtain r2 b2 where s: "serve_ioctl E cap payload b1 = Some (r2, b2)" by blast
  have "vidmem_note payload r2 b2 \<noteq> None"
    by (simp add: vidmem_note_def rs Let_def split: option.splits prod.splits)
  then obtain r3 b3 where n: "vidmem_note payload r2 b2 = Some (r3, b3)" by auto
  obtain b4 where c: "note_clients payload r3 b3 = Some b4" using note_clients_keeps [OF len] by blast
  have "note_registrations payload r3 b4 \<noteq> None" by (simp add: note_registrations_def rs Let_def)
  then obtain b5 where g: "note_registrations payload r3 b4 = Some b5" by auto
  from a s n c g show ?thesis by (cases x) (simp_all add: handle_ioctl_def)
qed

section \<open>Properties\<close>

lemma dispatch_returns:
  assumes "running E bk" "well_framed req"
  shows "\<exists>r bk'. dispatch E cap req bk = Some (r, bk') \<and> running E bk'"
proof -
  have "dispatch E cap req bk \<noteq> None"
  proof (cases "msg_of req = Some Ioctl")
    case True
    let ?p = "drop 16 req" and ?b = "arrived Ioctl (mh_handle (dec_msg_header req)) bk"
    have len: "\<not> length req < 16" "24 \<le> length ?p" and deep: "ir_deep_len (dec_ioctl_req ?p) = 0"
      using assms(2) True by (auto simp: well_framed_def)
    have ms: "ir_cmd (dec_ioctl_req ?p) div 256 mod 256 = 0x6d \<Longrightarrow>
        ir_cmd (dec_ioctl_req ?p) mod 256 \<noteq> 0x2a \<and> ir_cmd (dec_ioctl_req ?p) mod 256 \<noteq> 0x2b"
      using assms(2) True by (simp add: well_framed_def Let_def)
    have agree: "tables_agree ?b"
      using running_inv [OF assms(1)] by (simp add: backend_inv_def tables_agree_def no_tables_def release_tables_def arrived_def)
    have d: "dispatch E cap req bk = handle_ioctl E cap ?p ?b"
      using True len by (simp add: dispatch_def msg_of_def arrived_def Let_def)
    show ?thesis unfolding d by (rule handle_ioctl_returns [OF agree len(2) deep ms])
  next
    case False
    then show ?thesis by (auto simp: dispatch_def msg_of_def Let_def split: option.splits msg_type.splits)
  qed
  then show ?thesis using running.message [OF assms(1)] by fastforce
qed



text \<open>C27: The messages that do panic. An ioctl on a handle the backend gave for the control device, open or since closed,
  that carries less than its own request ends the backend even though a length check stands in its path, because a record of RM's clients reads the request first.\<close>

theorem short_ioctl_panics:
  assumes "h < 2 ^ 32" "map_of (bk_kinds bk) h = Some Ctl" "length p < 24"
  shows "dispatch E cap (request Ioctl h p) bk = None"
proof -
  let ?b = "arrived Ioctl h bk"
  have rs: "read_struct 24 dec_ioctl_req p 0 = None" using assms(3) by (simp add: read_struct_def)
  have serve: "serve_ioctl E cap p ?b = Some (write_error_resp cap ?b StInvalidMsgType 0, ?b)"
    using assms(3) by (simp add: serve_ioctl_def)
  have nc: "note_clients p r ?b = None" for r using assms(2) by (simp add: note_clients_def rs arrived_def)
  have "handle_ioctl E cap p ?b = None"
  proof (cases "vidmem_layout ?b")
    case None
    then show ?thesis by (simp add: handle_ioctl_def vidmem_admit_def serve vidmem_note_def nc)
  next
    case (Some l)
    then show ?thesis by (simp add: handle_ioctl_def vidmem_admit_def rs)
  qed
  then show ?thesis by (simp add: dispatch_request [OF assms(1)])
qed

lemma short_ioctl_panics_witness: "dispatch sample_env 128 (request Ioctl 1 []) sample_opened = None"
  by (rule short_ioctl_panics) (simp_all add: sample_opened_fields)

end
