(* ===== verification/Pointers.thy ===== *)
theory Pointers
  imports Returns
begin

text \<open>
  The pointers the host driver is handed in a control: what the outer pointer and the ones inside the parameters
  address, over the backend's whole life.
\<close>

section \<open>A control with a pointer in its parameters\<close>

text \<open>0x00801102 counts the bytes at its start and points at them at offset 8, for RM to write.\<close>

definition pointer_block :: bytes where
  "pointer_block = replicate 8 0 @ le_bytes 4 0x00801102 @ replicate 12 0 @ le_bytes 4 16 @ replicate 4 0"

definition pointer_nested :: bytes where
  "pointer_nested = le_bytes 4 4 @ replicate 4 0 @ le_bytes 8 0x7f00"

definition pointer_deep :: bytes where
  "pointer_deep = replicate 4 9"

definition pointer_request :: bytes where
  "pointer_request = request Ioctl 1 (deep_payload 0xc020462a pointer_block pointer_nested 8 pointer_deep)"

definition pointer_entry :: rmctrl_entry where
  "pointer_entry = RmCtrlEntry 0x00801102 16 False [EmbeddedPtr 8 (CField 0 4) 1 False True]"

lemma pointer_fields: "length pointer_block = 32" "u32_at pointer_block 8 = 0x00801102" "u32_at pointer_block 24 = 16"
  "length pointer_nested = 16" "pointer_nested \<noteq> []" "u32_at (pointer_block @ pointer_nested) 8 = 0x00801102"
  "take 4 pointer_nested = le_bytes 4 4" "drop 8 pointer_nested = le_bytes 8 0x7f00"
  "length pointer_deep = 4" "pointer_deep \<noteq> []"
  by (simp_all add: pointer_block_def pointer_nested_def pointer_deep_def)

lemma pointer_rule:
  obtains s where "rm_select sample_release = Some s" "ctrl_rule s 0x00801102 = Some (Exact 16)"
proof
  let ?s = "\<lparr>ra_profile = snd (last rm_profiles), ra_exact = False\<rparr>"
  show "rm_select sample_release = Some ?s"
    by (simp add: rm_select_def profile_for_def rm_profiles_def less_driver_version_def less_eq_driver_version_def)
  have p: "(DriverVersion 615 71 9, ra_profile ?s) \<in> set rm_profiles" by (simp add: rm_profiles_def)
  have d: "find_deprec (rp_deprec (ra_profile ?s)) 0x00801102 = None" by (rule find_deprec_None_if [OF p]) simp
  have "list_all (\<lambda>(w, p). AllowCtrl 0x00801102 16 \<in> set (rp_ctrl p)) rm_profiles"
    by (simp add: rm_profiles_def rma_ctrl_535_129_03_def rma_ctrl_535_129_03_a_def rma_ctrl_580_178_04_def
        rma_ctrl_580_178_04_a_def rma_ctrl_595_71_05_def rma_ctrl_595_71_05_a_def rma_ctrl_595_104_02_def
        rma_ctrl_595_104_02_a_def rma_ctrl_615_71_09_def rma_ctrl_615_71_09_a_def)
  then have all: "(w, p) \<in> set rm_profiles \<Longrightarrow> find_ctrl (rp_ctrl p) 0x00801102 = Some (AllowCtrl 0x00801102 16)" for w p
    using find_ctrl_Some [of w p] unfolding list_all_iff by fastforce
  have "\<not> gss_holds (rp_gss (ra_profile ?s)) 0x00801102"
    by (simp add: gss_holds_def rm_profiles_def rma_gss_615_71_09_def)
  then show "ctrl_rule ?s 0x00801102 = Some (Exact 16)"
    using d all p by (auto simp: ctrl_rule_def denied_def deny_list_def Let_def agreed_def list_all_iff)
qed

lemma pointer_described:
  obtains c where "rmctrl_select sample_release = Some c" "rmctrl_lookup (rs_table c) 0x00801102 = Some pointer_entry"
proof
  let ?s = "\<lparr>rs_table = rmctrl_615_71_09, rs_exact = False\<rparr>"
  show "rmctrl_select sample_release = Some ?s"
    by (simp add: rmctrl_select_def profile_for_def rmctrl_profiles_def less_driver_version_def less_eq_driver_version_def)
  show "rmctrl_lookup (rs_table ?s) 0x00801102 = Some pointer_entry"
    unfolding rmctrl_lookup_def uvm_selected.simps rmctrl_selected.simps rct4.table_find_Some
    by (simp add: rmctrl_tables pointer_entry_def)
qed

lemma pointer_plan: "plan pointer_entry pointer_nested None (Some (8, pointer_deep)) =
    Some (Inr [\<lparr>sl_ptr = 8, sl_len = 4, sl_in = False, sl_out = True\<rparr>])"
proof -
  have "get_u64 pointer_nested 8 = Some 0x7f00"
    by (simp add: get_le_def slice_at_def pointer_fields of_le_le_bytes)
  moreover have "count_read 0 4 pointer_nested = Some 4"
    by (simp add: count_read_def slice_at_def pointer_fields of_le_le_bytes)
  ultimately show ?thesis
    by (simp add: plan_def pointer_entry_def pointer_fields ep_bytes_def Let_def)
qed

lemma pointer_control:
  "\<exists>r bk b d bs. dispatch sample_env 128 pointer_request sample_opened = Some (r, bk) \<and>
     EvIoctl 40 0xc020462a b (d # bs) \<in> set (bk_trace bk) \<and> u32_at b 8 = 0x00801102 \<and> u64_at (snd d) 8 \<noteq> 0"
proof -
  obtain s where s: "rm_select sample_release = Some s" "ctrl_rule s 0x00801102 = Some (Exact 16)" by (rule pointer_rule)
  obtain c where c: "rmctrl_select sample_release = Some c" "rmctrl_lookup (rs_table c) 0x00801102 = Some pointer_entry"
    by (rule pointer_described)
  let ?b1 = "control_state 0x00801102" and ?d = pointer_deep
  let ?p = "deep_payload 0xc020462a pointer_block pointer_nested 8 ?d"
  have "rm_control_refusal ?b1 0x00801102 16 16 = None"
    by (simp add: rm_control_refusal_def control_state_fields s denied_def deny_list_def)
  then have serve: "serve_ioctl sample_env 128 ?p ctl_state =
      dispatch_nested sample_env 128 40 0xc020462a (pointer_block @ pointer_nested) 32 16 (Some (8, ?d)) None ?b1"
    using sample_serve_control [where b = pointer_block and n = pointer_nested and cmd = "0x00801102" and off = "8" and d = ?d]
    by (simp add: pointer_fields)
  obtain g where g: "lease sample_env 16 ?b1 = (Some g, note_event (EvLease 16) (?b1\<lparr>bk_guards := []\<rparr>))"
    using sample_lease [of ?b1 16] by (auto simp: control_state_fields)
  define b2 where "b2 = note_event (EvLease 16) (?b1\<lparr>bk_guards := []\<rparr>)"
  have f2: "bk_rmctrl b2 = Some c" "bk_guards b2 = []" by (simp_all add: b2_def note_event_fields control_state_fields c)
  have f3: "length (bk_trace b2) = 2"
    by (simp add: b2_def note_event_fields control_state_def ctl_state_def arrived_def sample_opened_def Let_def)
  obtain g2 where g2: "lease sample_env 4 b2 = (Some g2, note_event (EvLease 4) (b2\<lparr>bk_guards := []\<rparr>))" "gb_ptr g2 mod 2 ^ 64 \<noteq> 0"
    by (simp add: lease_def pool_take_def f2 gb_new_def sample_env_def gb_ptr_def f3)
  let ?b = "put_at pointer_block 16 (le_bytes 8 (gb_ptr g))" and ?n = "put_at pointer_nested 8 (le_bytes 8 (gb_ptr g2))"
  have ub: "u32_at ?b 8 = 0x00801102" "length ?b = 32"
    using take_drop_put_at_before [of 8 4 16 "le_bytes 8 (gb_ptr g)" pointer_block] pointer_fields(2)
    by (simp_all add: le_at_def pointer_fields)
  obtain r b3 where n: "dispatch_nested sample_env 128 40 0xc020462a (pointer_block @ pointer_nested) 32 16 (Some (8, ?d)) None ?b1 = Some (r, b3)"
      "EvIoctl 40 0xc020462a ?b [(gb_ptr g, ?n), (gb_ptr g2, replicate 4 0)] \<in> set (bk_trace b3)"
    using g g2
    by (simp add: dispatch_nested_def pointer_fields slice_at_def nested_with_block_def translate_fds_def event_fd_def b2_def [symmetric]
      control_fd_def drift_refused_def c described_def f2 embed_def deep_segments_def deep_legacy_def pointer_plan reply_fits_def
      embedded_fill_def nested_forward_def deep_pointer_def host_ioctl_sample
      deep_reply_def embedded_reply_def ub note_event_fields control_state_fields release_lease_def Let_def)
  have "24 \<le> length ?p"
    using deep_payload_parts(2) [where q = "0xc020462a" and b = pointer_block and n = pointer_nested and off = "8" and d = ?d]
    by (simp add: pointer_fields)
  with sample_dispatch serve n(1) obtain r' bk where
      "dispatch sample_env 128 (request Ioctl 1 ?p) sample_opened = Some (r', bk)" "set (bk_trace b3) \<subseteq> set (bk_trace bk)"
    by (metis pointer_fields(10))
  moreover have "u64_at ?n 8 = gb_ptr g2 mod 2 ^ 64" by (simp add: pointer_fields)
  ultimately show ?thesis using n(2) ub g2(2) unfolding pointer_request_def
    by (intro exI [of _ r'] exI [of _ bk] exI [of _ ?b] exI [of _ "(gb_ptr g, ?n)"] exI [of _ "[(gb_ptr g2, replicate 4 0)]"]) auto
qed

section \<open>Properties\<close>

text \<open>C2: Over the whole life of a backend, no address of the guest's reaches RM through a control with parameters: the
  outer pointer is the address of the buffer that holds them, and each pointer inside them that the release's
  table describes is null or the address of a buffer that is never empty and exactly as long as RM will
  compute from the very block it is given.\<close>

theorem rm_pointers_ours:
  assumes "running E bk" "EvIoctl f q b (d # bs) \<in> set (bk_trace bk)" "q mod 65536 = 0x462a"
    and "bk_rmctrl bk = Some sel" "rmctrl_lookup (rs_table sel) (u32_at b 8) = Some e" "p \<in> set (rc_ptrs e)"
  shows "take 8 (drop 16 b) = le_bytes 8 (fst d) \<and> length (snd d) = u32_at b 24 \<and>
    (u64_at (snd d) (ep_offset p) = 0 \<or>
     (\<exists>x n. x \<in> set bs \<and> take 8 (drop (ep_offset p) (snd d)) = le_bytes 8 (fst x) \<and>
        ep_bytes p (snd d) = Some n \<and> length (snd x) = max n 1))"
proof -
  have "vetted bk (EvIoctl f q b (d # bs))"
    using running_inv [OF assms(1)] assms(2) by (auto simp: backend_inv_def list_all_iff)
  then have v: "control_vetted bk b (d # bs)" using assms(3) by (simp add: vetted_def)
  then have "length (snd d) = u32_at b 24"
    by (auto simp: control_vetted_def nested_len_def rm_control_refusal_def split: option.splits ctrl_allow.splits if_splits)
  moreover have "take 8 (drop 16 b) = le_bytes 8 (fst d)" "pointers_served (rc_ptrs e) (snd d) bs"
    using v assms(4,5) by (simp_all add: control_vetted_def)
  ultimately show ?thesis using assms(6) unfolding pointers_served_def by blast
qed

lemma rm_pointers_ours_witness:
  "\<exists>(bk :: backend) b d bs x. EvIoctl 40 0xc020462a b (d # bs) \<in> set (bk_trace bk) \<and> x \<in> set bs \<and>
     take 8 (drop 8 (snd d)) = le_bytes 8 (fst x) \<and> u64_at (snd d) 8 \<noteq> 0"
proof -
  obtain r bk b d bs where run: "dispatch sample_env 128 pointer_request sample_opened = Some (r, bk)"
      and ev: "EvIoctl 40 0xc020462a b (d # bs) \<in> set (bk_trace bk)" "u32_at b 8 = 0x00801102" "u64_at (snd d) 8 \<noteq> 0"
    using pointer_control by blast
  have bk: "running sample_env bk" using sample_opened_running run by (rule running.message)
  obtain c where c: "rmctrl_select sample_release = Some c" "rmctrl_lookup (rs_table c) 0x00801102 = Some pointer_entry"
    by (rule pointer_described)
  obtain b1 where b1: "step_ok (\<lambda>e. tables_agree sample_opened \<longrightarrow> vetted sample_opened e) keeps_neither b1 bk"
      "release_tables b1 = release_tables sample_opened" "bk_driver b1 = bk_driver sample_opened"
    using med.step_dispatch [OF run refl] by blast
  then have "release_tables bk = release_tables sample_opened" using step_tables [OF b1(1)] by (simp add: sample_opened_fields)
  then have sel: "bk_rmctrl bk = Some c" using c by (simp add: release_tables_def sample_opened_fields)
  have look: "rmctrl_lookup (rs_table c) (u32_at b 8) = Some pointer_entry" using c ev(2) by simp
  have "EmbeddedPtr 8 (CField 0 4) 1 False True \<in> set (rc_ptrs pointer_entry)" by (simp add: pointer_entry_def)
  from rm_pointers_ours [OF bk ev(1) _ sel look this]
  have "u64_at (snd d) 8 = 0 \<or> (\<exists>x n. x \<in> set bs \<and> take 8 (drop 8 (snd d)) = le_bytes 8 (fst x) \<and>
      ep_bytes (EmbeddedPtr 8 (CField 0 4) 1 False True) (snd d) = Some n \<and> length (snd x) = max n 1)" by simp
  with ev(3) obtain x where "x \<in> set bs" "take 8 (drop 8 (snd d)) = le_bytes 8 (fst x)" by auto
  with ev show ?thesis by blast
qed

end
