(* ===== verification/Virtio.thy ===== *)
theory Virtio
  imports RmFd "HOL-Library.List_Lexorder"
begin

text \<open>
  What the guest driver finds on the bus: the device's configuration space (\<open>device/src/virtio.rs\<close>) and the facts about
  the host it is filled with (\<open>device/src/host.rs\<close>). Rust's \<open>&str\<close> is its bytes; the version file's text is ASCII.
\<close>

section \<open>Configuration space\<close>

abbreviation (input) PCI_ADDR_LEN :: nat where "PCI_ADDR_LEN \<equiv> 16"
abbreviation (input) INFO_TEXT_LEN :: nat where "INFO_TEXT_LEN \<equiv> 448"
abbreviation (input) DRIVER_VERSION_LEN :: nat where "DRIVER_VERSION_LEN \<equiv> 32"
abbreviation (input) MAX_GPUS :: nat where "MAX_GPUS \<equiv> 8"
abbreviation (input) MAX_FD_TRANSLATIONS :: nat where "MAX_FD_TRANSLATIONS \<equiv> 16"
abbreviation (input) FEATURE_RMCTRL_SEGMENTS :: nat where "FEATURE_RMCTRL_SEGMENTS \<equiv> 1"

record gpu_slot =
  gs_pci_addr :: bytes
  gs_minor :: nat
  gs_info_len :: nat
  gs_info_text :: bytes

definition gpu_slot_default :: gpu_slot where
  "gpu_slot_default =
     \<lparr>gs_pci_addr = replicate PCI_ADDR_LEN 0, gs_minor = 0, gs_info_len = 0, gs_info_text = replicate INFO_TEXT_LEN 0\<rparr>"

definition gpu_slot_new :: "bytes \<Rightarrow> nat \<Rightarrow> bytes \<Rightarrow> gpu_slot" where
  "gpu_slot_new pci_addr minor info_text =
     (let n = min (length pci_addr) (PCI_ADDR_LEN - 1); m = min (length info_text) INFO_TEXT_LEN in
      \<lparr>gs_pci_addr = put_at (replicate PCI_ADDR_LEN 0) 0 (take n pci_addr),
       gs_minor = minor,
       gs_info_len = m,
       gs_info_text = put_at (replicate INFO_TEXT_LEN 0) 0 (take m info_text)\<rparr>)"

definition fd_carrying_ioctls :: "(nat \<times> nat) list" where
  "fd_carrying_ioctls =
     [(NV_ESC_REGISTER_FD, 0), (NV_ESC_ALLOC_OS_EVENT, 8), (NV_ESC_FREE_OS_EVENT, 8), (NV_ESC_RM_ALLOC_MEMORY, 48),
      (NV_ESC_RM_MAP_MEMORY, 48)]"

record virtio_config =
  vc_driver_version :: bytes
  vc_num_gpus :: nat
  vc_caps :: nat
  vc_device_ids :: "nat list"
  vc_gpus :: "gpu_slot list"
  vc_num_fd_translations :: nat
  vc_features :: nat
  vc_fd_translations :: "(nat \<times> nat) list"
  vc_vram_limit_mib :: nat

definition virtio_config_default :: virtio_config where
  "virtio_config_default =
     \<lparr>vc_driver_version = replicate DRIVER_VERSION_LEN 0, vc_num_gpus = 0, vc_caps = 0,
      vc_device_ids = replicate MAX_GPUS 0, vc_gpus = replicate MAX_GPUS gpu_slot_default,
      vc_num_fd_translations = 0, vc_features = 0, vc_fd_translations = replicate MAX_FD_TRANSLATIONS (0, 0),
      vc_vram_limit_mib = 0\<rparr>"

definition virtio_config_new :: "bytes \<Rightarrow> gpu_slot list \<Rightarrow> caps \<Rightarrow> nat \<Rightarrow> virtio_config" where
  "virtio_config_new driver_version gpus c limit_mib =
     (let cfg = virtio_config_default;
          v = min (length driver_version) (DRIVER_VERSION_LEN - 1);
          n = min (length gpus) MAX_GPUS in
      cfg\<lparr>vc_caps := unat c, vc_vram_limit_mib := limit_mib, vc_features := FEATURE_RMCTRL_SEGMENTS,
          vc_driver_version := put_at (vc_driver_version cfg) 0 (take v driver_version),
          vc_gpus := put_at (vc_gpus cfg) 0 (take n gpus), vc_num_gpus := n,
          vc_fd_translations := put_at (vc_fd_translations cfg) 0 fd_carrying_ioctls,
          vc_num_fd_translations := length fd_carrying_ioctls\<rparr>)"

text \<open>\<open>as_bytes\<close>: a packed struct, field after field; a slot carries one padding word.\<close>

definition gpu_slot_bytes :: "gpu_slot \<Rightarrow> bytes" where
  "gpu_slot_bytes s =
     gs_pci_addr s @ le_bytes 4 (gs_minor s) @ le_bytes 4 (gs_info_len s) @ le_bytes 4 0 @ gs_info_text s"

definition virtio_config_bytes :: "virtio_config \<Rightarrow> bytes" where
  "virtio_config_bytes cfg =
     vc_driver_version cfg @ le_bytes 4 (vc_num_gpus cfg) @ le_bytes 4 (vc_caps cfg) @
     concat (map (le_bytes 4) (vc_device_ids cfg)) @ concat (map gpu_slot_bytes (vc_gpus cfg)) @
     le_bytes 4 (vc_num_fd_translations cfg) @ le_bytes 4 (vc_features cfg) @
     concat (map (\<lambda>(nr, off). le_bytes 4 nr @ le_bytes 4 off) (vc_fd_translations cfg)) @
     le_bytes 8 (vc_vram_limit_mib cfg)"

definition virtio_config_read :: "virtio_config \<Rightarrow> nat \<Rightarrow> nat \<Rightarrow> bytes" where
  "virtio_config_read cfg offset count =
     (let b = virtio_config_bytes cfg;
          start = min offset (length b);
          stop = min (min (start + count) u64_max) (length b)
      in take (stop - start) (drop start b))"

section \<open>The host\<close>

fun split_whitespace :: "string \<Rightarrow> string \<Rightarrow> string list" where
  "split_whitespace acc [] = (if acc = [] then [] else [acc])"
| "split_whitespace acc (c # cs) =
     (if is_space c then (if acc = [] then [] else [acc]) @ split_whitespace [] cs
      else split_whitespace (acc @ [c]) cs)"

definition version_shaped :: "string \<Rightarrow> bool" where
  "version_shaped w =
     (let ps = split_on (CHR ''.'') w in length ps = 3 \<and> list_all (\<lambda>p. p \<noteq> [] \<and> list_all is_digit p) ps)"

definition host_driver_version :: "string option \<Rightarrow> string option" where
  "host_driver_version version_file = Option.bind version_file (\<lambda>text. find version_shaped (split_whitespace [] text))"

text \<open>\<open>entries\<close> is the listing of \<open>gpus\<close>, with whether each is a directory; \<open>info\<close> reads a GPU's file. Names compare
  by their bytes.\<close>

definition host_gpu_slots :: "(string \<times> bool) list option \<Rightarrow> (string \<Rightarrow> bytes option) \<Rightarrow> gpu_slot list" where
  "host_gpu_slots entries info =
     (case entries of
        None \<Rightarrow> []
      | Some es \<Rightarrow>
          let addrs = sort_key (\<lambda>s. map of_char s :: nat list) (map fst (filter snd es)) in
          map (\<lambda>(minor, addr). gpu_slot_new (bytes_of_string addr) minor (case info addr of Some t \<Rightarrow> t | None \<Rightarrow> []))
            (enumerate 0 addrs))"

section \<open>What the driver reads where\<close>

definition gpu_slot_wf :: "gpu_slot \<Rightarrow> bool" where
  "gpu_slot_wf s \<longleftrightarrow> length (gs_pci_addr s) = PCI_ADDR_LEN \<and> length (gs_info_text s) = INFO_TEXT_LEN"

lemma gpu_slot_default_wf [simp]: "gpu_slot_wf gpu_slot_default"
  by (simp add: gpu_slot_wf_def gpu_slot_default_def)

lemma gpu_slot_new_wf [simp]: "gpu_slot_wf (gpu_slot_new a m t)"
  by (auto simp: gpu_slot_wf_def gpu_slot_new_def Let_def put_at_def)

lemma length_gpu_slot_bytes: "gpu_slot_wf s \<Longrightarrow> length (gpu_slot_bytes s) = 476"
  by (simp add: gpu_slot_wf_def gpu_slot_bytes_def)

lemma length_concat_blocks: "list_all (\<lambda>b. length b = k) bs \<Longrightarrow> length (concat bs) = k * length bs"
  by (induction bs) auto

lemma concat_blocks_nth:
  assumes "list_all (\<lambda>b. length b = k) bs" "i < length bs"
  shows "take k (drop (k * i) (concat bs)) = bs ! i"
proof -
  have "list_all (\<lambda>b. length b = k) (take i bs)"
    using assms(1) set_take_subset [of i bs] by (auto simp: list_all_iff)
  from length_concat_blocks [OF this] assms(2) have "length (concat (take i bs)) = k * i" by (simp add: mult.commute)
  moreover have "concat bs = concat (take i bs) @ bs ! i @ concat (drop (Suc i) bs)"
    using id_take_nth_drop [OF assms(2)] by (metis concat.simps(2) concat_append)
  moreover have "length (bs ! i) = k" using assms by (simp add: list_all_length)
  ultimately show ?thesis by simp
qed

lemma config_read_at:
  assumes "virtio_config_bytes cfg = pre @ mid @ post" "length pre = at0" "length mid = n" "at0 + n < 2 ^ 64"
  shows "virtio_config_read cfg at0 n = mid"
  using assms by (simp add: virtio_config_read_def Let_def)

lemma length_config_read: "length (virtio_config_read cfg off n) \<le> n"
  by (simp add: virtio_config_read_def Let_def)

text \<open>The parts of a configuration and their lengths.\<close>

definition config_ok :: "virtio_config \<Rightarrow> bool" where
  "config_ok cfg \<longleftrightarrow> length (vc_driver_version cfg) = 32 \<and> length (vc_device_ids cfg) = 8 \<and> length (vc_gpus cfg) = 8 \<and>
     list_all gpu_slot_wf (vc_gpus cfg) \<and> length (vc_fd_translations cfg) = 16"

lemma config_new_ok:
  assumes "list_all gpu_slot_wf gpus"
  shows "config_ok (virtio_config_new v gpus c lim)"
  using assms
  by (auto simp: config_ok_def virtio_config_new_def virtio_config_default_def fd_carrying_ioctls_def Let_def put_at_def
      list_all_iff dest: in_set_takeD in_set_dropD)

lemma config_parts:
  assumes "config_ok cfg"
  shows "length (concat (map (le_bytes 4) (vc_device_ids cfg))) = 32"
    "list_all (\<lambda>b. length b = 476) (map gpu_slot_bytes (vc_gpus cfg))"
    "length (concat (map gpu_slot_bytes (vc_gpus cfg))) = 3808"
    "list_all (\<lambda>b. length b = 8) (map (\<lambda>(nr, off). le_bytes 4 nr @ le_bytes 4 off) (vc_fd_translations cfg))"
    "length (concat (map (\<lambda>(nr, off). le_bytes 4 nr @ le_bytes 4 off) (vc_fd_translations cfg))) = 128"
proof -
  show "length (concat (map (le_bytes 4) (vc_device_ids cfg))) = 32"
    using assms length_concat_blocks [of 4 "map (le_bytes 4) (vc_device_ids cfg)"] by (simp add: config_ok_def list_all_iff)
  show g: "list_all (\<lambda>b. length b = 476) (map gpu_slot_bytes (vc_gpus cfg))"
    using assms by (auto simp: config_ok_def list_all_iff length_gpu_slot_bytes)
  show "length (concat (map gpu_slot_bytes (vc_gpus cfg))) = 3808"
    using assms length_concat_blocks [OF g] by (simp add: config_ok_def)
  show f: "list_all (\<lambda>b. length b = 8) (map (\<lambda>(nr, off). le_bytes 4 nr @ le_bytes 4 off) (vc_fd_translations cfg))"
    by (auto simp: list_all_iff)
  show "length (concat (map (\<lambda>(nr, off). le_bytes 4 nr @ le_bytes 4 off) (vc_fd_translations cfg))) = 128"
    using assms length_concat_blocks [OF f] by (simp add: config_ok_def)
qed

lemma config_fields:
  assumes "config_ok cfg"
  shows "virtio_config_read cfg 0 32 = vc_driver_version cfg"
    "virtio_config_read cfg 32 4 = le_bytes 4 (vc_num_gpus cfg)"
    "virtio_config_read cfg 36 4 = le_bytes 4 (vc_caps cfg)"
    "i < 8 \<Longrightarrow> virtio_config_read cfg (72 + 476 * i) 476 = gpu_slot_bytes (vc_gpus cfg ! i)"
    "virtio_config_read cfg 3880 4 = le_bytes 4 (vc_num_fd_translations cfg)"
    "virtio_config_read cfg 3884 4 = le_bytes 4 (vc_features cfg)"
    "j < 16 \<Longrightarrow> virtio_config_read cfg (3888 + 8 * j) 8 =
       le_bytes 4 (fst (vc_fd_translations cfg ! j)) @ le_bytes 4 (snd (vc_fd_translations cfg ! j))"
    "virtio_config_read cfg 4016 8 = le_bytes 8 (vc_vram_limit_mib cfg)"
    "length (virtio_config_bytes cfg) = 4024"
proof -
  define head where "head = vc_driver_version cfg @ le_bytes 4 (vc_num_gpus cfg) @ le_bytes 4 (vc_caps cfg) @
      concat (map (le_bytes 4) (vc_device_ids cfg))"
  define gs where "gs = concat (map gpu_slot_bytes (vc_gpus cfg))"
  define fs where "fs = concat (map (\<lambda>(nr, off). le_bytes 4 nr @ le_bytes 4 off) (vc_fd_translations cfg))"
  note parts = config_parts [OF assms, folded gs_def fs_def]
  have v: "length (vc_driver_version cfg) = 32" using assms by (simp add: config_ok_def)
  have h: "length head = 72" by (simp add: head_def v parts(1))
  have b: "virtio_config_bytes cfg = head @ gs @ le_bytes 4 (vc_num_fd_translations cfg) @ le_bytes 4 (vc_features cfg) @ fs @
      le_bytes 8 (vc_vram_limit_mib cfg)"
    by (simp add: virtio_config_bytes_def head_def gs_def fs_def)
  show "virtio_config_read cfg 0 32 = vc_driver_version cfg"
    by (rule config_read_at [of _ "[]"]) (simp_all add: b head_def v)
  show "virtio_config_read cfg 32 4 = le_bytes 4 (vc_num_gpus cfg)"
    by (rule config_read_at [of _ "vc_driver_version cfg"]) (simp_all add: b head_def v)
  show "virtio_config_read cfg 36 4 = le_bytes 4 (vc_caps cfg)"
    by (rule config_read_at [of _ "vc_driver_version cfg @ le_bytes 4 (vc_num_gpus cfg)"]) (simp_all add: b head_def v)
  show "virtio_config_read cfg 3880 4 = le_bytes 4 (vc_num_fd_translations cfg)"
    by (rule config_read_at [of _ "head @ gs"]) (simp_all add: b h parts(3))
  show "virtio_config_read cfg 3884 4 = le_bytes 4 (vc_features cfg)"
    by (rule config_read_at [of _ "head @ gs @ le_bytes 4 (vc_num_fd_translations cfg)"]) (simp_all add: b h parts(3))
  show "virtio_config_read cfg 4016 8 = le_bytes 8 (vc_vram_limit_mib cfg)"
    by (rule config_read_at [of _ "head @ gs @ le_bytes 4 (vc_num_fd_translations cfg) @ le_bytes 4 (vc_features cfg) @ fs" _ "[]"])
      (simp_all add: b h parts(3,5))
  show "length (virtio_config_bytes cfg) = 4024" by (simp add: b h parts(3,5))
  show "virtio_config_read cfg (72 + 476 * i) 476 = gpu_slot_bytes (vc_gpus cfg ! i)" if i: "i < 8"
  proof (rule config_read_at)
    have g: "take 476 (drop (476 * i) gs) = gpu_slot_bytes (vc_gpus cfg ! i)"
      using concat_blocks_nth [OF parts(2), of i] assms i by (simp add: gs_def config_ok_def)
    then have "gs = take (476 * i) gs @ gpu_slot_bytes (vc_gpus cfg ! i) @ drop 476 (drop (476 * i) gs)"
      by (metis append_take_drop_id)
    then show "virtio_config_bytes cfg = (head @ take (476 * i) gs) @ gpu_slot_bytes (vc_gpus cfg ! i) @
        drop 476 (drop (476 * i) gs) @ le_bytes 4 (vc_num_fd_translations cfg) @ le_bytes 4 (vc_features cfg) @ fs @
        le_bytes 8 (vc_vram_limit_mib cfg)" by (simp only: b append_assoc) (metis append_assoc)
    show "length (head @ take (476 * i) gs) = 72 + 476 * i" using i parts(3) by (simp add: h)
    show "length (gpu_slot_bytes (vc_gpus cfg ! i)) = 476"
      using assms i by (simp add: config_ok_def list_all_length length_gpu_slot_bytes)
    show "72 + 476 * i + 476 < 2 ^ 64" using i by simp
  qed
  show "virtio_config_read cfg (3888 + 8 * j) 8 =
       le_bytes 4 (fst (vc_fd_translations cfg ! j)) @ le_bytes 4 (snd (vc_fd_translations cfg ! j))" if j: "j < 16"
  proof (rule config_read_at)
    let ?f = "le_bytes 4 (fst (vc_fd_translations cfg ! j)) @ le_bytes 4 (snd (vc_fd_translations cfg ! j))"
    have "take 8 (drop (8 * j) fs) = ?f"
      using concat_blocks_nth [OF parts(4), of j] assms j by (simp add: fs_def config_ok_def case_prod_beta)
    then have "fs = take (8 * j) fs @ ?f @ drop 8 (drop (8 * j) fs)" by (metis append_take_drop_id)
    then show "virtio_config_bytes cfg = (head @ gs @ le_bytes 4 (vc_num_fd_translations cfg) @ le_bytes 4 (vc_features cfg) @
        take (8 * j) fs) @ ?f @ drop 8 (drop (8 * j) fs) @ le_bytes 8 (vc_vram_limit_mib cfg)"
      by (simp only: b append_assoc) (metis append_assoc)
    show "length (head @ gs @ le_bytes 4 (vc_num_fd_translations cfg) @ le_bytes 4 (vc_features cfg) @ take (8 * j) fs) = 3888 + 8 * j"
      using j parts(5) by (simp add: h parts(3))
    show "length ?f = 8" by simp
    show "3888 + 8 * j + 8 < 2 ^ 64" using j by simp
  qed
qed

end
