(* ===== verification/Replies.thy ===== *)
theory Replies
  imports Samples
begin

text \<open>
  The length of replies. The daemon hands \<open>dispatch\<close> a slice as long as the buffer the guest posted; every writer
  checks what is left of it, and the rewriting of figures after the host's answer keeps the length.
\<close>

named_theorems reply_bounds \<open>the length of a reply against the buffer\<close>

section \<open>The writers\<close>

lemma length_write_hdr [reply_bounds]: "length (write_hdr cap bk h st) \<le> cap"
  by (simp add: write_hdr_def enc_msg_header_def)

lemma length_write_error_resp [reply_bounds]: "length (write_error_resp cap bk st e) \<le> cap"
  by (simp add: write_error_resp_def Let_def length_write_hdr)

lemma length_write_ioctl_resp_deep [reply_bounds]: "length (write_ioctl_resp_deep cap bk out deep) \<le> cap"
  by (simp add: write_ioctl_resp_deep_def Let_def length_write_error_resp enc_msg_header_def enc_ioctl_resp_def)

lemma length_write_ioctl_resp [reply_bounds]: "length (write_ioctl_resp cap bk out) \<le> cap"
  by (simp add: write_ioctl_resp_def length_write_ioctl_resp_deep)

lemma length_write_mmap_resp [reply_bounds]: "length (write_mmap_resp cap bk off len i) \<le> cap"
  by (simp add: write_mmap_resp_def write_hdr_def Let_def length_write_error_resp enc_msg_header_def enc_mmap_resp_def)

section \<open>The handlers\<close>

lemma length_handle_open [reply_bounds]: "length (fst (handle_open E cap payload bk)) \<le> cap"
  by (auto simp: handle_open_def Let_def reply_bounds split: if_splits option.splits prod.splits sum.splits)

lemma length_handle_close [reply_bounds]: "length (fst (handle_close E cap bk)) \<le> cap"
  by (auto simp: handle_close_def Let_def reply_bounds split: option.splits prod.splits)

lemma length_map_uvm_pool [reply_bounds]: "length (fst (map_uvm_pool E cap sz off bk)) \<le> cap"
  by (auto simp: map_uvm_pool_def Let_def reply_bounds split: option.splits prod.splits sum.splits)

lemma length_place_unrecorded [reply_bounds]: "length (fst (place_unrecorded E cap sz off f prot bk)) \<le> cap"
  by (auto simp: place_unrecorded_def Let_def reply_bounds split: option.splits prod.splits)

lemma length_map_unrecorded [reply_bounds]: "length (fst (map_unrecorded E cap sz off bk)) \<le> cap"
  by (auto simp: map_unrecorded_def Let_def reply_bounds split: option.splits prod.splits)

lemma length_handle_mmap [reply_bounds]: "length (fst (handle_mmap E cap payload bk)) \<le> cap"
  by (auto simp: handle_mmap_def Let_def reply_bounds split: option.splits prod.splits device_kind.splits)

lemma length_handle_munmap [reply_bounds]: "length (fst (handle_munmap E cap payload bk)) \<le> cap"
  by (auto simp: handle_munmap_def Let_def reply_bounds split: option.splits prod.splits)

lemma length_dispatch_fd_carrying [reply_bounds]: "length (fst (dispatch_fd_carrying E cap f q e p bk)) \<le> cap"
  by (auto simp: dispatch_fd_carrying_def Let_def reply_bounds split: option.splits prod.splits)

lemma length_dispatch_update [reply_bounds]: "length (fst (dispatch_update_device_mapping_info E cap f q p bk)) \<le> cap"
  by (auto simp: dispatch_update_device_mapping_info_def Let_def reply_bounds split: option.splits prod.splits)

lemma length_map_memory_place [reply_bounds]: "length (fst (map_memory_place E cap g f p bk)) \<le> cap"
  by (auto simp: map_memory_place_def Let_def reply_bounds split: option.splits prod.splits)

lemma length_dispatch_map_memory [reply_bounds]: "length (fst (dispatch_map_memory E cap f q p bk)) \<le> cap"
  by (auto simp: dispatch_map_memory_def Let_def reply_bounds split: option.splits prod.splits)

lemma length_dispatch_unmap_memory [reply_bounds]: "length (fst (dispatch_unmap_memory E cap f q p bk)) \<le> cap"
  by (auto simp: dispatch_unmap_memory_def Let_def reply_bounds split: option.splits prod.splits)

lemma length_dispatch_simple [reply_bounds]: "length (fst (dispatch_simple E cap f q p bk)) \<le> cap"
  by (auto simp: dispatch_simple_def Let_def reply_bounds split: option.splits prod.splits)

lemma length_refusals [reply_bounds]:
  "length (fst (refuse_alloc_class cap c p bk)) \<le> cap" "length (fst (refuse_control cap c p bk)) \<le> cap"
  "length (fst (refuse_alloc cap c p bk)) \<le> cap" "length (fst (refuse_registration cap route s p bk)) \<le> cap"
  "length (refuse_nested cap bk st ptr cp rights outer host) \<le> cap"
  by (auto simp: refuse_alloc_class_def refuse_control_def refuse_alloc_def refuse_registration_def refuse_nested_def
      Let_def reply_bounds)

section \<open>The routes that may panic\<close>

lemma nested_end_fits:
  "(case h of (Some errno, _, _, bk) \<Rightarrow> Some (write_error_resp cap bk StIoctlFailed errno, bk)
    | (None, out, bufs, bk) \<Rightarrow>
        (case D out bufs of None \<Rightarrow> None
         | Some d \<Rightarrow> Some (write_ioctl_resp_deep cap bk (R out bufs d) (length d), bk))) = Some (r, bk') \<Longrightarrow> length r \<le> cap"
  by (auto simp: reply_bounds split: prod.splits option.splits)

lemma nested_forward_fits:
  assumes "nested_forward E cap f q deep ptr cp rights saved g outer buf es bk = Some (r, bk')"
  shows "length r \<le> cap"
proof (cases "deep_pointer E deep (es \<noteq> None) buf bk")
  case (Inl u)
  show ?thesis
    by (insert assms [unfolded nested_forward_def Inl], cases u,
        simp only: sum.case unit.case option.inject prod.inject, elim conjE, hypsubst, rule length_write_error_resp)
next
  case (Inr x)
  obtain b d ds where x: "x = (b, d, ds)" by (cases x)
  show ?thesis
    by (insert assms [unfolded nested_forward_def Inr x Let_def], simp only: sum.case prod.case, erule nested_end_fits)
qed

lemma map_reply_fits: "map_option (\<lambda>(r, bk). (r, g bk)) x = Some (r, bk') \<longleftrightarrow> (\<exists>b. x = Some (r, b) \<and> bk' = g b)"
  by (cases x) auto

lemma nested_with_block_fits:
  assumes "nested_with_block E cap f q deep nfd ptr cp rights g outer buf bk = Some (r, bk')"
  shows "length r \<le> cap"
proof (cases "translate_fds bk (q mod 256) outer nfd buf")
  case (Inl e)
  with assms show ?thesis by (cases e) (auto simp: nested_with_block_def Let_def reply_bounds)
next
  case (Inr x)
  then obtain b s where t: "translate_fds bk (q mod 256) outer nfd buf = Inr (b, s)" by (cases x) auto
  define o' where "o' = put_at outer ptr (le_bytes 8 (gb_ptr g))"
  show ?thesis
  proof (cases "embed E (described bk (q mod 256) o') deep b bk")
    case None
    with assms t show ?thesis by (auto simp: nested_with_block_def Let_def o'_def reply_bounds split: if_splits)
  next
    case (Some y)
    obtain res b2 where y: "y = (res, b2)" by (cases y)
    show ?thesis
    proof (cases res)
      case (Inl z)
      with assms t Some y show ?thesis
        by (cases z) (auto simp: nested_with_block_def Let_def o'_def reply_bounds split: if_splits)
    next
      case (Inr z)
      with assms t Some y show ?thesis
        by (cases z) (auto simp: nested_with_block_def Let_def o'_def reply_bounds map_reply_fits
            dest: nested_forward_fits split: if_splits)
    qed
  qed
qed

lemma nested_flat_fits:
  "nested_flat E cap f q ptr cp rights outer bk = Some (r, bk') \<Longrightarrow> length r \<le> cap"
  by (auto simp: nested_flat_def Let_def reply_bounds split: prod.splits option.splits if_splits)

lemma dispatch_nested_fits:
  "dispatch_nested E cap f q p osz ptr deep nfd bk = Some (r, bk') \<Longrightarrow> length r \<le> cap"
  by (auto simp: dispatch_nested_def Let_def reply_bounds dest: nested_with_block_fits nested_flat_fits
      split: prod.splits option.splits if_splits)

lemma uvm_forward_fits: "uvm_forward E cap f q sel p restore bk = Some (r, bk') \<Longrightarrow> length r \<le> cap"
  by (auto simp: uvm_forward_def Let_def reply_bounds split: prod.splits option.splits if_splits bool.splits)

lemma uvm_end_fits:
  "(case x of None \<Rightarrow> None | Some (Inl ()) \<Rightarrow> Some (write_error_resp cap b StBadHandle 0, b)
    | Some (Inr (param, restore)) \<Rightarrow> uvm_forward E cap f q sel param restore bk) = Some (r, bk') \<Longrightarrow> length r \<le> cap"
  by (auto simp: reply_bounds dest: uvm_forward_fits split: option.splits sum.splits unit.splits prod.splits)

lemma dispatch_uvm_fits:
  assumes "dispatch_uvm E cap f q p bk = Some (r, bk')"
  shows "length r \<le> cap"
proof (cases "bk_handle bk \<in> set (bk_uvm_denied bk) \<or> bk_uvm bk = None")
  case True
  with assms show ?thesis by (auto simp: dispatch_uvm_def Let_def reply_bounds split: if_splits)
next
  case False
  then obtain sel where sel: "bk_uvm bk = Some sel" and h: "bk_handle bk \<notin> set (bk_uvm_denied bk)" by auto
  show ?thesis
  proof (cases "q > u32_max \<or> uvm_entry sel q = None \<or> length p \<noteq> uc_size (the (uvm_entry sel q))")
    case True
    with assms sel h show ?thesis by (auto simp: dispatch_uvm_def Let_def reply_bounds split: if_splits option.splits)
  next
    case False
    then obtain e where e: "\<not> q > u32_max" "uvm_entry sel q = Some e" "\<not> length p \<noteq> uc_size e" by auto
    show ?thesis
      by (insert assms [unfolded dispatch_uvm_def sel Let_def], simp only: h e option.case if_False, erule uvm_end_fits)
  qed
qed

lemma fits_pair: "length (fst x) \<le> cap \<Longrightarrow> x = (r, b) \<Longrightarrow> length r \<le> cap"
  by simp

lemmas pair_fits =
  length_refusals(1-4) [THEN fits_pair] length_dispatch_fd_carrying [THEN fits_pair] length_dispatch_update [THEN fits_pair]
  length_dispatch_map_memory [THEN fits_pair] length_dispatch_unmap_memory [THEN fits_pair]
  length_dispatch_simple [THEN fits_pair]

lemma forward_registration_fits:
  assumes "forward_registration E cap f q route p bk = Some (r, bk')"
  shows "length r \<le> cap"
proof (cases route)
  case RegAlloc
  with assms show ?thesis
    unfolding forward_registration_def by (simp only: registration.case) (rule dispatch_nested_fits)
next
  case RegAllocMemory
  with assms show ?thesis
    unfolding forward_registration_def by (simp only: registration.case option.inject) (rule length_dispatch_fd_carrying [THEN fits_pair])
next
  case RegVidHeap
  with assms show ?thesis
    unfolding forward_registration_def by (simp only: registration.case option.inject) (rule length_dispatch_simple [THEN fits_pair])
qed

lemma serve_registration_fits:
  "serve_registration E cap f q route n p deep bk = Some (r, bk') \<Longrightarrow> length r \<le> cap"
  by (auto simp: serve_registration_def Let_def reply_bounds dest: pair_fits forward_registration_fits
      split: prod.splits option.splits if_splits)

lemma serve_control_fits: "serve_control E cap f q ireq p deep bk = Some (r, bk') \<Longrightarrow> length r \<le> cap"
  by (auto simp: serve_control_def Let_def reply_bounds dest: pair_fits dispatch_nested_fits split: if_splits)

lemma serve_alloc_fits: "serve_alloc E cap f q ireq p deep bk = Some (r, bk') \<Longrightarrow> length r \<le> cap"
  by (auto simp: serve_alloc_def Let_def reply_bounds dest: pair_fits dispatch_nested_fits serve_registration_fits
      split: if_splits option.splits)

lemma dispatch_rm_fits: "dispatch_rm E cap f q ireq p deep bk = Some (r, bk') \<Longrightarrow> length r \<le> cap"
  by (auto simp: dispatch_rm_def Let_def reply_bounds dest: pair_fits serve_control_fits serve_alloc_fits serve_registration_fits
      split: if_splits option.splits)

lemma route_ioctl_fits: "route_ioctl E cap f ireq p deep bk = Some (r, bk') \<Longrightarrow> length r \<le> cap"
  unfolding route_ioctl_def Let_def
  by (auto simp: reply_bounds dest: pair_fits dispatch_rm_fits dispatch_uvm_fits dispatch_nested_fits
      split: if_splits)

lemma serve_ioctl_fits: "serve_ioctl E cap p bk = Some (r, bk') \<Longrightarrow> length r \<le> cap"
  by (auto simp: serve_ioctl_def Let_def reply_bounds dest: route_ioctl_fits split: if_splits option.splits)

section \<open>After the host\<close>

lemma length_put_le [simp]: "length (put_le w b a v) = length b"
  by (simp add: put_le_def)

lemma length_clamp_from: "length (clamp_from l t f i n xs) = length xs"
proof (induction n arbitrary: i xs)
  case (Suc n)
  then show ?case by (simp add: Let_def split: option.split fb_role.split)
qed simp

lemma length_cap_u64 [simp]: "length (cap_u64 a c b) = length b"
  by (simp add: cap_u64_def split: option.split)

lemma note_heap_length: "note_heap l outer v = (b, v', k) \<Longrightarrow> length b = length outer"
  by (auto simp: note_heap_def Let_def split: if_splits option.splits)

lemma note_control_length:
  "note_control l outer nested deep v = (n, d) \<Longrightarrow> length n = length nested \<and> length d = length deep"
  by (auto simp: note_control_def clamp_fb_info_def length_clamp_from Let_def split: if_splits option.splits)

lemma note_parts_length:
  "note_parts l e outer nested deep bk = ((a, b, c), bk') \<Longrightarrow>
     length a = length outer \<and> length b = length nested \<and> length c = length deep"
  by (auto simp: note_parts_def Let_def dest: note_heap_length note_control_length split: if_splits prod.splits)

lemma vidmem_note_length: "vidmem_note p r bk = Some (r', bk') \<Longrightarrow> length r' = length r"
  by (auto simp: vidmem_note_def Let_def dest!: note_parts_length split: option.splits if_splits prod.splits)

lemma vidmem_admit_fits: "vidmem_admit cap p bk = Some (Some r, bk') \<Longrightarrow> length r \<le> cap"
  by (auto simp: vidmem_admit_def Let_def reply_bounds split: option.splits if_splits prod.splits bool.splits)

lemma handle_ioctl_fits:
  assumes "handle_ioctl E cap p bk = Some (r, bk')"
  shows "length r \<le> cap"
  using assms
  by (auto simp: handle_ioctl_def bind_eq_Some_conv dest: vidmem_admit_fits serve_ioctl_fits dest!: vidmem_note_length
      split: option.splits)

section \<open>The file trees\<close>

lemma length_words [simp]: "length (words ws) = 4 * length ws"
  by (simp add: words_def length_concat comp_def sum_list_triv)

lemma length_write_files: "off \<le> cap \<Longrightarrow> off + length (write_files cap off fs) \<le> cap"
proof (induction fs arbitrary: off)
  case (Cons f fs)
  have l: "length (file_record f) = 8 + length (fst f) + length (snd f)"
    by (simp add: file_record_def enc_file_entry_def)
  with Cons.IH [of "off + length (file_record f)"] Cons.prems show ?case by (auto simp: l)
qed simp

lemma length_file_stream: "length (file_stream cap fs) \<le> cap"
  using length_write_files [of 0 cap fs] by (simp add: file_stream_def Let_def enc_file_entry_def)

lemma length_write_dri_records:
  assumes "list_all (\<lambda>d. length (dd_dev_info d) = 9) ds" and "off \<le> cap"
  shows "off + length (write_dri_records cap off ds) \<le> cap"
  using assms
proof (induction ds arbitrary: off)
  case (Cons d ds)
  then have l: "length (dri_record d) = 52 + length (dd_name d)" by (simp add: dri_record_def bytes_of_string_def)
  show ?case
  proof (cases "off + (16 + 4 * 9 + length (dd_name d)) > cap")
    case True
    with Cons.prems(2) show ?thesis by simp
  next
    case False
    with Cons.IH [of "off + length (dri_record d)"] Cons.prems(1) show ?thesis by (simp add: l)
  qed
qed simp

lemma length_sections:
  "length (write_alloc_size_section cap bk) \<le> cap" "length (write_uvm_section cap bk) \<le> cap"
  "length (write_osdesc_section cap bk) \<le> cap"
proof -
  have c: "length (concat (map (\<lambda>c. words (f c)) cs)) = length cs * 8" if "\<And>c. length (f c) = 2" for f :: "'z \<Rightarrow> nat list" and cs
    by (induction cs) (simp_all add: that)
  show "length (write_alloc_size_section cap bk) \<le> cap"
    by (simp add: write_alloc_size_section_def Let_def c split: option.split)
  have u: "length (concat (map words (List.map_filter uvm_row cs))) = length (List.map_filter uvm_row cs) * 16" for cs
  proof (induction cs)
    case (Cons a cs)
    have "uvm_row a = Some row \<Longrightarrow> length row = 4" for row by (auto simp: uvm_row_def split: list.splits)
    with Cons show ?case by (auto simp: List.map_filter_def split: option.split)
  qed (simp add: List.map_filter_def)
  show "length (write_uvm_section cap bk) \<le> cap"
    by (simp add: write_uvm_section_def Let_def u split: option.split)
  show "length (write_osdesc_section cap bk) \<le> cap"
    by (simp add: write_osdesc_section_def Let_def split: option.split)
qed

lemma length_write_dri_section:
  assumes "\<And>tr. list_all (\<lambda>d. length (dd_dev_info d) = 9) (en_dri E tr)" and "write_dri_section E cap bk = (d, bk')"
  shows "length d \<le> cap"
proof -
  have "4 + length (write_dri_records cap 4 ds) \<le> cap" if "\<not> cap < 4" "ds = [] \<or> ds = en_dri E (bk_trace bk)" for ds
    using length_write_dri_records [of ds 4 cap] assms(1) [of "bk_trace bk"] that by auto
  with assms(2) show ?thesis by (auto simp: write_dri_section_def Let_def)
qed

lemma length_handle_get_files:
  assumes "\<And>tr. list_all (\<lambda>d. length (dd_dev_info d) = 9) (en_dri E tr)"
  shows "length (fst (handle_get_files E tree cap bk)) \<le> cap"
proof (cases tree)
  case Proc
  then show ?thesis by (simp add: handle_get_files_def length_file_stream)
next
  case Sys
  let ?b = "file_stream cap (en_sys_files E (bk_trace bk))"
  obtain d bk' where d: "write_dri_section E (cap - length ?b) bk = (d, bk')" by fastforce
  have l: "length xs + length (f (cap - length xs) bk') \<le> cap" if "length xs \<le> cap" "\<And>c. length (f c bk') \<le> c"
    for xs :: bytes and f :: "nat \<Rightarrow> backend \<Rightarrow> bytes" using that by (metis add.commute le_diff_conv2)
  have b: "length (?b @ d) \<le> cap"
    using length_write_dri_section [OF assms d] length_file_stream [of cap "en_sys_files E (bk_trace bk)"] by simp
  define b1 where "b1 = (?b @ d) @ write_alloc_size_section (cap - length (?b @ d)) bk'"
  have b1: "length b1 \<le> cap"
    unfolding b1_def length_append [of "?b @ d"] using b length_sections(1) by (rule l)
  define b2 where "b2 = b1 @ write_uvm_section (cap - length b1) bk'"
  have b2: "length b2 \<le> cap"
    unfolding b2_def length_append using b1 length_sections(2) by (rule l)
  have "length (b2 @ write_osdesc_section (cap - length b2) bk') \<le> cap"
    unfolding length_append using b2 length_sections(3) by (rule l)
  then show ?thesis using Sys d by (simp add: handle_get_files_def Let_def b1_def b2_def add.assoc)
qed

lemma dispatch_fits:
  assumes "\<And>tr. list_all (\<lambda>d. length (dd_dev_info d) = 9) (en_dri E tr)" and "dispatch E cap req bk = Some (r, bk')"
  shows "length r \<le> cap"
  using assms(2)
  by (auto simp: dispatch_def Let_def reply_bounds length_handle_get_files [OF assms(1), THEN fits_pair] dest: handle_ioctl_fits
      length_handle_open [THEN fits_pair] length_handle_close [THEN fits_pair] length_handle_mmap [THEN fits_pair]
      length_handle_munmap [THEN fits_pair] split: if_splits option.splits msg_type.splits)

section \<open>The property\<close>

text \<open>C17: Whatever the message, its size and the state, the reply fits the buffer the guest left for it: no handler
  writes past the slice it was given, the sections of the file trees included, and what is rewritten after the host
  has answered keeps its length. Each device of the host's listing carries its nine words, as its type says.\<close>

theorem every_reply_fits:
  assumes "\<And>tr. list_all (\<lambda>d. length (dd_dev_info d) = 9) (en_dri E tr)" and "dispatch E cap req bk = Some (r, bk')"
  shows "length r \<le> cap"
  using assms by (rule dispatch_fits)

lemma every_reply_fits_witness:
  "\<exists>r bk. dispatch sample_env 128 sample_request sample_opened = Some (r, bk) \<and> length r \<le> 128"
proof -
  obtain r bk where d: "dispatch sample_env 128 sample_request sample_opened = Some (r, bk)" using sample_control by blast
  have "list_all (\<lambda>d. length (dd_dev_info d) = 9) (en_dri sample_env tr)" for tr by (simp add: sample_env_def)
  from every_reply_fits [OF this d] d show ?thesis by blast
qed

end
