(* ===== verification/HostTrees.thy ===== *)
theory HostTrees
  imports Virtio Replies
begin

text \<open>
  What the backend reads of the host's file trees for GET_PROC_FILES and GET_SYS_FILES (\<open>device/src/nvidia/files.rs\<close>):
  the walk under \<open>/proc/driver/nvidia\<close>, the PCI configuration of each GPU, the render nodes; and the guest's reading of
  the stream they are sent in.

  The answers of the file system are an argument, one function per call over the path; a directory listing holds no
  separators and no dot entries. Texts and names are their bytes.
\<close>

section \<open>The host\<close>

datatype file_type = RegularFile | Directory | SymbolicLink | OtherType

text \<open>\<open>hf_gpus\<close> and \<open>hf_gpu_info\<close> are what \<open>gpu_slots\<close> reads; a listed entry that fails is \<open>None\<close>. \<open>hf_node\<close> is whether
  a node opens, \<open>hf_dev_info\<close> the block a successful ioctl leaves.\<close>

record host_fs =
  hf_gpus :: "(string \<times> bool) list option"
  hf_gpu_info :: "string \<Rightarrow> bytes option"
  hf_read_dir :: "string \<Rightarrow> string option list option"
  hf_lstat :: "string \<Rightarrow> (file_type \<times> nat) option"
  hf_read :: "string \<Rightarrow> bytes option"
  hf_read_text :: "string \<Rightarrow> string option"
  hf_node :: "string \<Rightarrow> bool"
  hf_dev_info :: "string \<Rightarrow> (nat \<Rightarrow> 32 word) option"

text \<open>\<open>to_string_lossy\<close>: each maximal ill-formed piece becomes U+FFFD. \<open>utf8_follow\<close> is how many bytes follow a leading one
  and the range of the first of them.\<close>

definition utf8_follow :: "nat \<Rightarrow> nat \<times> nat \<times> nat" where
  "utf8_follow n =
     (if 0xC2 \<le> n \<and> n \<le> 0xDF then (1, 0x80, 0xBF)
      else if n = 0xE0 then (2, 0xA0, 0xBF)
      else if n = 0xED then (2, 0x80, 0x9F)
      else if 0xE1 \<le> n \<and> n \<le> 0xEF then (2, 0x80, 0xBF)
      else if n = 0xF0 then (3, 0x90, 0xBF)
      else if 0xF1 \<le> n \<and> n \<le> 0xF3 then (3, 0x80, 0xBF)
      else if n = 0xF4 then (3, 0x80, 0x8F)
      else (0, 0, 0))"

definition utf8_good :: "nat \<Rightarrow> string \<Rightarrow> nat" where
  "utf8_good n cs =
     (case utf8_follow n of (k, lo, hi) \<Rightarrow>
       (case take k cs of
          [] \<Rightarrow> 0
        | d # ds \<Rightarrow>
            if lo \<le> (of_char d :: nat) \<and> (of_char d :: nat) \<le> hi
            then Suc (length (takeWhile (\<lambda>c. (of_char c :: nat) div 64 = 2) ds)) else 0))"

lemma utf8_good_le: "utf8_good n cs \<le> length cs"
proof -
  have "length (takeWhile P ds) < length cs" if "take k cs = d # ds" for P k and d :: char and ds
  proof -
    have "Suc (length ds) \<le> length cs" using arg_cong [OF that, of length] by simp
    with length_takeWhile_le [of P ds] show ?thesis by linarith
  qed
  then show ?thesis by (auto simp: utf8_good_def Suc_le_eq split: prod.splits list.splits)
qed

function utf8_lossy :: "string \<Rightarrow> string" where
  "utf8_lossy [] = []"
| "utf8_lossy (c # cs) =
     (let n = of_char c :: nat; k = fst (utf8_follow n); good = utf8_good n cs in
      if n < 128 then c # utf8_lossy cs
      else if k = 0 \<or> good < k then map char_of [0xEF, 0xBF, 0xBD :: nat] @ utf8_lossy (drop good cs)
      else c # take k cs @ utf8_lossy (drop k cs))"
  by pat_completeness auto
termination by (relation "measure length") auto

section \<open>The walk\<close>

definition path_at :: "string \<Rightarrow> string list \<Rightarrow> string" where
  "path_at root rel = root @ concat (map (\<lambda>n. CHR ''/'' # n) rel)"

definition rel_text :: "string list \<Rightarrow> string" where
  "rel_text rel = tl (concat (map (\<lambda>n. CHR ''/'' # n) rel))"

function collect_into :: "host_fs \<Rightarrow> string \<Rightarrow> nat \<Rightarrow> string list \<Rightarrow> nat \<Rightarrow> (string \<times> bytes) list" where
  "collect_into F root max_file dir depth =
     (if depth > 4 then []
      else case hf_read_dir F (path_at root dir) of
        None \<Rightarrow> []
      | Some entries \<Rightarrow>
          concat (map (\<lambda>entry.
            (case entry of
              None \<Rightarrow> []
            | Some name \<Rightarrow>
                let path = dir @ [name] in
                (case hf_lstat F (path_at root path) of
                   None \<Rightarrow> []
                 | Some (ty, len) \<Rightarrow>
                     if ty = SymbolicLink then []
                     else if ty = Directory then collect_into F root max_file path (depth + 1)
                     else if ty \<noteq> RegularFile then []
                     else if len > max_file then []
                     else (case hf_read F (path_at root path) of
                       None \<Rightarrow> []
                     | Some content \<Rightarrow>
                         if length content > max_file then [] else [(utf8_lossy (rel_text path), content)]))))
            entries))"
  by pat_completeness auto
termination by (relation "measure (\<lambda>(F, root, m, dir, depth). 5 - depth)") auto

declare collect_into.simps [simp del]

abbreviation (input) MAX_FILE :: nat where "MAX_FILE \<equiv> 64 * 1024"

definition proc_root :: string where
  "proc_root = ''/proc/driver/nvidia''"

definition byte_key :: "string \<Rightarrow> nat list" where
  "byte_key s = map of_char s"

definition collect_proc :: "host_fs \<Rightarrow> (string \<times> bytes) list" where
  "collect_proc F =
     map (\<lambda>(path, content). (''driver/nvidia/'' @ path, content))
       (sort_key (byte_key \<circ> fst) (collect_into F proc_root MAX_FILE [] 0))"

section \<open>The GPUs\<close>

definition fs_slots :: "host_fs \<Rightarrow> gpu_slot list" where
  "fs_slots F = host_gpu_slots (hf_gpus F) (hf_gpu_info F)"

definition bytes_to_string :: "bytes \<Rightarrow> string" where
  "bytes_to_string b = map (\<lambda>x. char_of (unat x)) b"

definition slot_addr :: "gpu_slot \<Rightarrow> string" where
  "slot_addr slot = utf8_lossy (bytes_to_string (takeWhile (\<lambda>b. b \<noteq> 0) (gs_pci_addr slot)))"

definition collect_sys :: "host_fs \<Rightarrow> (string \<times> bytes) list" where
  "collect_sys F =
     List.map_filter (\<lambda>slot.
       let rel = ''bus/pci/devices/'' @ slot_addr slot @ ''/config'' in
       map_option (\<lambda>content. (rel, content)) (hf_read F (''/sys/'' @ rel))) (fs_slots F)"

definition collect :: "file_tree \<Rightarrow> host_fs \<Rightarrow> (string \<times> bytes) list" where
  "collect tree F = (case tree of Proc \<Rightarrow> collect_proc F | Sys \<Rightarrow> collect_sys F)"

text \<open>\<open>host_dev_info\<close>: \<open>CString::new\<close> refuses a name with a zero byte.\<close>

definition host_dev_info :: "host_fs \<Rightarrow> string \<Rightarrow> nat list option" where
  "host_dev_info F path =
     (if CHR 0x00 \<in> set path then None
      else if \<not> hf_node F path then None
      else map_option (\<lambda>f. map (\<lambda>i. unat (f i)) [0..<9]) (hf_dev_info F path))"

definition split_once :: "char \<Rightarrow> string \<Rightarrow> (string \<times> string) option" where
  "split_once c s =
     (case dropWhile (\<lambda>x. x \<noteq> c) s of [] \<Rightarrow> None | _ # r \<Rightarrow> Some (takeWhile (\<lambda>x. x \<noteq> c) s, r))"

definition dev_numbers :: "string \<Rightarrow> (nat \<times> nat) option" where
  "dev_numbers text =
     (case split_once (CHR '':'') (trim text) of
        None \<Rightarrow> None
      | Some (maj, mi) \<Rightarrow>
          (case (parse_u32 maj, parse_u32 mi) of (Some a, Some b) \<Rightarrow> Some (a, b) | _ \<Rightarrow> None))"

definition dev_info_fallback :: "nat list" where
  "dev_info_fallback = [0, 0, 0, 1, 6, 2, 1, 1, 1]"

definition dri_node :: "host_fs \<Rightarrow> nat \<Rightarrow> string \<Rightarrow> dri_device option" where
  "dri_node F index name =
     (case hf_read_text F (''/sys/class/drm/'' @ name @ ''/dev'') of
        None \<Rightarrow> None
      | Some text \<Rightarrow>
          (case dev_numbers text of
             None \<Rightarrow> None
           | Some (major, minor) \<Rightarrow>
               Some \<lparr>dd_name = name, dd_major = major, dd_minor = minor, dd_slot_index = index mod 2 ^ 32,
                     dd_dev_info = (case host_dev_info F (''/dev/dri/'' @ name) of
                        Some i \<Rightarrow> i | None \<Rightarrow> dev_info_fallback)\<rparr>))"

definition is_render :: "string \<Rightarrow> bool" where
  "is_render name \<longleftrightarrow> take 7 name = ''renderD''"

definition dri_devices :: "host_fs \<Rightarrow> dri_device list" where
  "dri_devices F =
     concat (map (\<lambda>(index, slot).
       case hf_read_dir F (''/sys/bus/pci/devices/'' @ slot_addr slot @ ''/drm'') of
         None \<Rightarrow> []
       | Some entries \<Rightarrow>
           let names = sort_key byte_key (filter is_render (map utf8_lossy (List.map_filter (\<lambda>e. e) entries)))
           in List.map_filter (dri_node F index) names)
       (enumerate 0 (fs_slots F)))"

section \<open>What a walk finds\<close>

text \<open>\<open>tree_file\<close>: the content of the file at \<open>rel\<close> below \<open>dir\<close>, every component of the way listed in its directory, the
  ones before the last directories and the last a regular file, with no symbolic link among them.\<close>

definition listed :: "host_fs \<Rightarrow> string \<Rightarrow> string list \<Rightarrow> string \<Rightarrow> bool" where
  "listed F root dir n \<longleftrightarrow> (case hf_read_dir F (path_at root dir) of None \<Rightarrow> False | Some es \<Rightarrow> Some n \<in> set es)"

definition small_file :: "host_fs \<Rightarrow> nat \<Rightarrow> string \<Rightarrow> bytes \<Rightarrow> bool" where
  "small_file F m path c \<longleftrightarrow>
     (case hf_lstat F path of Some (ty, len) \<Rightarrow> ty = RegularFile \<and> len \<le> m | None \<Rightarrow> False) \<and>
     hf_read F path = Some c \<and> length c \<le> m"

definition real_dir :: "host_fs \<Rightarrow> string \<Rightarrow> bool" where
  "real_dir F path \<longleftrightarrow> map_option fst (hf_lstat F path) = Some Directory"

fun tree_file :: "host_fs \<Rightarrow> string \<Rightarrow> nat \<Rightarrow> string list \<Rightarrow> string list \<Rightarrow> bytes \<Rightarrow> bool" where
  "tree_file F root m dir [] c \<longleftrightarrow> False"
| "tree_file F root m dir [n] c \<longleftrightarrow> listed F root dir n \<and> small_file F m (path_at root (dir @ [n])) c"
| "tree_file F root m dir (n # k # rel) c \<longleftrightarrow>
     listed F root dir n \<and> real_dir F (path_at root (dir @ [n])) \<and> tree_file F root m (dir @ [n]) (k # rel) c"

lemma tree_file_Cons:
  "tree_file F root m dir (n # rel) c \<longleftrightarrow> listed F root dir n \<and>
     (rel = [] \<and> small_file F m (path_at root (dir @ [n])) c \<or>
      real_dir F (path_at root (dir @ [n])) \<and> tree_file F root m (dir @ [n]) rel c)"
  by (cases rel) auto

lemma tree_file_first:
  "(\<exists>rel c. tree_file F root m dir rel c \<and> Q rel c) \<longleftrightarrow>
     (\<exists>n. listed F root dir n \<and>
        ((\<exists>c. small_file F m (path_at root (dir @ [n])) c \<and> Q [n] c) \<or>
         real_dir F (path_at root (dir @ [n])) \<and> (\<exists>rel c. tree_file F root m (dir @ [n]) rel c \<and> Q (n # rel) c)))"
proof -
  have "(\<exists>rel c. tree_file F root m dir rel c \<and> Q rel c) \<longleftrightarrow> (\<exists>n rel c. tree_file F root m dir (n # rel) c \<and> Q (n # rel) c)"
    by (metis tree_file.simps(1) neq_Nil_conv)
  then show ?thesis by (auto simp: tree_file_Cons)
qed

text \<open>One entry of a listing.\<close>

definition entry_files :: "host_fs \<Rightarrow> string \<Rightarrow> nat \<Rightarrow> string list \<Rightarrow> nat \<Rightarrow> (string \<times> bytes) list" where
  "entry_files F root m path depth =
     (case hf_lstat F (path_at root path) of
        None \<Rightarrow> []
      | Some (ty, len) \<Rightarrow>
          if ty = SymbolicLink then [] else if ty = Directory then collect_into F root m path (depth + 1)
          else if ty \<noteq> RegularFile then [] else if len > m then []
          else (case hf_read F (path_at root path) of None \<Rightarrow> []
            | Some content \<Rightarrow> if length content > m then [] else [(utf8_lossy (rel_text path), content)]))"

lemma entry_files_iff:
  "x \<in> set (entry_files F root m path depth) \<longleftrightarrow>
     (\<exists>c. small_file F m (path_at root path) c \<and> x = (utf8_lossy (rel_text path), c)) \<or>
     real_dir F (path_at root path) \<and> x \<in> set (collect_into F root m path (Suc depth))"
proof (cases "hf_lstat F (path_at root path)")
  case None
  then show ?thesis by (simp add: entry_files_def small_file_def real_dir_def)
next
  case (Some tl)
  obtain ty len where "tl = (ty, len)" by (cases tl)
  with Some show ?thesis
    by (cases ty; cases "hf_read F (path_at root path)") (auto simp: entry_files_def small_file_def real_dir_def)
qed

lemma collect_entry:
  assumes "hf_read_dir F (path_at root dir) = Some es" "depth \<le> 4"
  shows "x \<in> set (collect_into F root m dir depth) \<longleftrightarrow>
    (\<exists>n. Some n \<in> set es \<and>
       ((\<exists>c. small_file F m (path_at root (dir @ [n])) c \<and> x = (utf8_lossy (rel_text (dir @ [n])), c)) \<or>
        real_dir F (path_at root (dir @ [n])) \<and> x \<in> set (collect_into F root m (dir @ [n]) (Suc depth))))"
proof -
  have "collect_into F root m dir depth =
      concat (map (\<lambda>e. case e of None \<Rightarrow> [] | Some n \<Rightarrow> entry_files F root m (dir @ [n]) depth) es)"
    using assms unfolding collect_into.simps [of F root m dir] entry_files_def Let_def by simp
  moreover have "x \<in> set (case e of None \<Rightarrow> [] | Some n \<Rightarrow> g n) \<longleftrightarrow> (\<exists>n. e = Some n \<and> x \<in> set (g n))"
    for e :: "string option" and g :: "string \<Rightarrow> (string \<times> bytes) list"
    by (cases e) auto
  ultimately show ?thesis by (simp add: entry_files_iff) blast
qed

lemma collect_into_iff:
  "x \<in> set (collect_into F root m dir depth) \<longleftrightarrow>
     (\<exists>rel c. tree_file F root m dir rel c \<and> depth + length rel \<le> 5 \<and> x = (utf8_lossy (rel_text (dir @ rel)), c))"
proof (induction "5 - depth" arbitrary: dir depth)
  case 0
  then have "depth + length rel \<le> 5 \<longrightarrow> \<not> tree_file F root m dir rel c" for rel c by (cases rel) auto
  moreover have "collect_into F root m dir depth = []" using 0 by (simp add: collect_into.simps [of F root m dir])
  ultimately show ?case by auto
next
  case (Suc k)
  then have d: "depth \<le> 4" and k: "k = 5 - Suc depth" by simp_all
  show ?case
  proof (cases "hf_read_dir F (path_at root dir)")
    case None
    then have "\<not> tree_file F root m dir rel c" for rel c by (cases rel) (simp_all add: tree_file_Cons listed_def)
    with None show ?thesis by (simp add: collect_into.simps [of F root m dir])
  next
    case (Some es)
    then have l: "listed F root dir n \<longleftrightarrow> Some n \<in> set es" for n by (simp add: listed_def)
    have "(\<exists>rel c. tree_file F root m dir rel c \<and> depth + length rel \<le> 5 \<and> x = (utf8_lossy (rel_text (dir @ rel)), c)) \<longleftrightarrow>
        x \<in> set (collect_into F root m dir depth)"
      using d by (subst tree_file_first) (simp add: collect_entry [OF Some d] Suc.hyps(1) [OF k] l)
    then show ?thesis by (rule sym)
  qed
qed

section \<open>The stream, read by the guest\<close>

text \<open>How the guest's driver takes the stream apart: entries to the empty one, and what follows it.\<close>

function read_stream :: "bytes \<Rightarrow> ((bytes \<times> bytes) list \<times> bytes) option" where
  "read_stream b =
     (if length b < 8 then None
      else
        let n = u32_at b 0; m = u32_at b 4 in
        if n = 0 \<and> m = 0 then Some ([], drop 8 b)
        else if 8 + n + m > length b then None
        else map_option (\<lambda>(fs, r). ((take n (drop 8 b), take m (drop (8 + n) b)) # fs, r)) (read_stream (drop (8 + n + m) b)))"
  by pat_completeness auto
termination by (relation "measure length") auto

declare read_stream.simps [simp del]

lemma enc_file_entry: "enc_file_entry n m = le_bytes 4 n @ le_bytes 4 m"
  by (simp add: enc_file_entry_def)

lemma file_record_fields:
  "u32_at (file_record f @ r) 0 = length (fst f) mod 2 ^ 32" "u32_at (file_record f @ r) 4 = length (snd f) mod 2 ^ 32"
  "length (file_record f) = 8 + length (fst f) + length (snd f)"
  by (simp_all add: file_record_def enc_file_entry le_at_def of_le_le_bytes)

lemma read_stream_end: "read_stream (enc_file_entry 0 0 @ r) = Some ([], r)"
  unfolding read_stream.simps [of "enc_file_entry 0 0 @ r"] by (simp add: enc_file_entry le_at_def)

lemma read_stream_record:
  assumes "fst f \<noteq> []" "length (fst f) < 2 ^ 32" "length (snd f) < 2 ^ 32"
  shows "read_stream (file_record f @ r) = map_option (\<lambda>(fs, r). (f # fs, r)) (read_stream r)"
proof -
  have "take n (drop 8 (file_record f @ r)) = fst f \<and> take m (drop (8 + n) (file_record f @ r)) = snd f \<and>
      drop (8 + n + m) (file_record f @ r) = r" if "n = length (fst f)" "m = length (snd f)" for n m
    by (simp add: that file_record_def enc_file_entry)
  then show ?thesis
    using assms file_record_fields(1,2) [of f r] file_record_fields(3) [of f] unfolding read_stream.simps [of "file_record f @ r"]
    by (simp add: Let_def)
qed

text \<open>The files that are written: as many from the front as fit with the terminator.\<close>

fun fitting :: "nat \<Rightarrow> nat \<Rightarrow> (bytes \<times> bytes) list \<Rightarrow> nat" where
  "fitting cap off [] = 0"
| "fitting cap off (f # fs) =
     (if off + length (file_record f) + 8 > cap then 0 else Suc (fitting cap (off + length (file_record f)) fs))"

lemma write_files_fitting: "write_files cap off fs = concat (map file_record (take (fitting cap off fs) fs))"
  by (induction cap off fs rule: write_files.induct) (simp_all add: file_record_fields(3) add.assoc)

lemma fitting_maximal:
  "fitting cap off fs \<le> length fs"
  "off + 8 \<le> cap \<Longrightarrow> off + length (concat (map file_record (take (fitting cap off fs) fs))) + 8 \<le> cap"
  "fitting cap off fs < length fs \<Longrightarrow> cap < off + length (concat (map file_record (take (Suc (fitting cap off fs)) fs))) + 8"
  by (induction cap off fs rule: fitting.induct) (auto simp: add.assoc not_less)

lemma read_stream_records:
  "list_all (\<lambda>f. fst f \<noteq> [] \<and> length (fst f) < 2 ^ 32 \<and> length (snd f) < 2 ^ 32) fs \<Longrightarrow>
     read_stream (concat (map file_record fs) @ enc_file_entry 0 0 @ r) = Some (fs, r)"
  by (induction fs) (simp_all add: read_stream_end read_stream_record)

lemma piece_length: "x \<in> set xs \<Longrightarrow> length (f x) \<le> length (concat (map f xs))"
  by (induction xs) auto

lemma pieces_count:
  assumes "\<And>x. 1 \<le> length (f x)"
  shows "length xs \<le> length (concat (map f xs))"
proof (induction xs)
  case (Cons x xs)
  with assms [of x] show ?case by simp
qed simp

lemma read_file_stream:
  assumes "8 \<le> cap" "cap < 2 ^ 32" "list_all (\<lambda>f. fst f \<noteq> []) fs"
  shows "read_stream (file_stream cap fs @ r) = Some (take (fitting cap 0 fs) fs, r)"
proof -
  let ?gs = "take (fitting cap 0 fs) fs"
  have fit: "length (concat (map file_record ?gs)) + 8 \<le> cap" using fitting_maximal(2) [of 0 cap fs] assms(1) by simp
  have "length (fst f) < 2 ^ 32 \<and> length (snd f) < 2 ^ 32 \<and> fst f \<noteq> []" if "f \<in> set ?gs" for f
    using piece_length [OF that, of file_record] fit assms(2,3) that
    by (auto simp: file_record_fields(3) list_all_iff dest: in_set_takeD)
  then have "list_all (\<lambda>f. fst f \<noteq> [] \<and> length (fst f) < 2 ^ 32 \<and> length (snd f) < 2 ^ 32) ?gs" by (auto simp: list_all_iff)
  from read_stream_records [OF this, of r] fit show ?thesis
    by (simp add: file_stream_def Let_def write_files_fitting)
qed

section \<open>The render nodes\<close>

lemma bytes_to_string: "bytes_to_string (bytes_of_string s) = s"
proof -
  have "char_of (unat (of_char c :: byte)) = c" for c
  proof -
    have "unat (of_char c :: byte) = of_char c" 
    proof -
      have "(of_char c :: byte) = of_nat (of_char c)" by (simp only: of_nat_of_char)
      then show ?thesis by (simp only: unat_of_nat) simp
    qed
    then show ?thesis by simp
  qed
  then show ?thesis by (simp add: bytes_to_string_def bytes_of_string_def comp_def)
qed

text \<open>The guest's reading of the section: \<open>n\<close> records of thirteen words and a name.\<close>

fun read_dri :: "nat \<Rightarrow> bytes \<Rightarrow> (dri_device list \<times> bytes) option" where
  "read_dri 0 b = Some ([], b)"
| "read_dri (Suc n) b =
     (let l = u32_at b 0 in
      if length b < 52 \<or> l = 0 \<or> length b < 52 + l then None
      else map_option (\<lambda>(ds, r).
        (\<lparr>dd_name = bytes_to_string (take l (drop 52 b)), dd_major = u32_at b 4, dd_minor = u32_at b 8,
          dd_slot_index = u32_at b 12, dd_dev_info = map (\<lambda>i. u32_at b (16 + 4 * i)) [0..<9]\<rparr> # ds, r))
        (read_dri n (drop (52 + l) b)))"

definition read_dri_section :: "bytes \<Rightarrow> (dri_device list \<times> bytes) option" where
  "read_dri_section b = (if length b < 4 then None else read_dri (u32_at b 0) (drop 4 b))"

definition dri_wf :: "dri_device \<Rightarrow> bool" where
  "dri_wf d \<longleftrightarrow> dd_name d \<noteq> [] \<and> length (dd_name d) < 2 ^ 32 \<and> dd_major d < 2 ^ 32 \<and> dd_minor d < 2 ^ 32 \<and>
     dd_slot_index d < 2 ^ 32 \<and> length (dd_dev_info d) = 9 \<and> list_all (\<lambda>w. w < 2 ^ 32) (dd_dev_info d)"

lemma words_at: "list_all (\<lambda>w. w < 2 ^ 32) ws \<Longrightarrow> i < length ws \<Longrightarrow> u32_at (words ws @ r) (4 * i) = ws ! i"
proof (induction ws arbitrary: i)
  case (Cons w ws)
  have "take 4 (drop (4 * i) (words (w # ws) @ r)) = (if i = 0 then le_bytes 4 w else take 4 (drop (4 * (i - 1)) (words ws @ r)))"
    by (cases i) (simp_all add: words_def)
  with Cons show ?case by (cases i) (simp_all add: le_at_def)
qed simp

lemma read_dri_record:
  assumes "dri_wf d"
  shows "read_dri (Suc n) (dri_record d @ r) = map_option (\<lambda>(ds, r). (d # ds, r)) (read_dri n r)"
proof -
  define ws where "ws = [length (dd_name d), dd_major d, dd_minor d, dd_slot_index d] @ dd_dev_info d"
  have ws: "list_all (\<lambda>w. w < 2 ^ 32) ws" "length ws = 13" using assms by (simp_all add: ws_def dri_wf_def)
  define b where "b = dri_record d @ r"
  have b: "b = words ws @ bytes_of_string (dd_name d) @ r" by (simp add: b_def ws_def dri_record_def)
  have at: "u32_at b (4 * i) = ws ! i" if "i < 13" for i
    unfolding b using words_at [OF ws(1), of i "bytes_of_string (dd_name d) @ r"] that ws(2) by simp
  have name: "length (bytes_of_string (dd_name d)) = length (dd_name d)" by (simp add: bytes_of_string_def)
  have fields: "u32_at b 0 = length (dd_name d)" "u32_at b 4 = dd_major d" "u32_at b 8 = dd_minor d" "u32_at b 12 = dd_slot_index d"
    using at [of 0] at [of 1] at [of 2] at [of 3] by (simp_all add: ws_def)
  have "u32_at b (16 + 4 * i) = dd_dev_info d ! i" if "i < 9" for i
    using at [of "4 + i"] that by (simp add: ws_def nth_append)
  then have info: "map (\<lambda>i. u32_at b (16 + 4 * i)) [0..<9] = dd_dev_info d"
    using assms by (intro nth_equalityI) (simp_all add: dri_wf_def)
  have rest: "take l (drop 52 b) = bytes_of_string (dd_name d)" "drop (52 + l) b = r" "length b = 52 + l + length r"
    if "l = length (dd_name d)" for l
    by (simp_all add: that b ws name)
  have same: "\<lparr>dd_name = dd_name d, dd_major = dd_major d, dd_minor = dd_minor d, dd_slot_index = dd_slot_index d,
      dd_dev_info = dd_dev_info d\<rparr> = d" by (cases d) simp
  have "dd_name d \<noteq> []" using assms by (simp add: dri_wf_def)
  then show ?thesis
    unfolding b_def [symmetric] by (simp add: Let_def fields info rest bytes_to_string same del: upt_Suc)
qed

lemma read_dri_records:
  "list_all dri_wf ds \<Longrightarrow> read_dri (length ds) (concat (map dri_record ds) @ r) = Some (ds, r)"
  by (induction ds) (simp_all add: read_dri_record del: read_dri.simps(2))

lemma write_dri_records_all:
  "list_all dri_wf ds \<Longrightarrow> off + length (concat (map dri_record ds)) \<le> cap \<Longrightarrow>
     write_dri_records cap off ds = concat (map dri_record ds)"
  by (induction cap off ds rule: write_dri_records.induct)
    (auto simp: dri_record_def dri_wf_def bytes_of_string_def add.assoc)

text \<open>\<open>offered F d\<close>: \<open>d\<close> is a render node the kernel lists under one of the driver's GPUs, with the numbers its \<open>dev\<close> file
  holds and what the node says of itself.\<close>

definition offered :: "host_fs \<Rightarrow> dri_device \<Rightarrow> bool" where
  "offered F d \<longleftrightarrow>
     (\<exists>i es raw text. i < length (fs_slots F) \<and>
        hf_read_dir F (''/sys/bus/pci/devices/'' @ slot_addr (fs_slots F ! i) @ ''/drm'') = Some es \<and> Some raw \<in> set es \<and>
        dd_name d = utf8_lossy raw \<and> is_render (utf8_lossy raw) \<and>
        hf_read_text F (''/sys/class/drm/'' @ utf8_lossy raw @ ''/dev'') = Some text \<and>
        dev_numbers text = Some (dd_major d, dd_minor d) \<and> dd_slot_index d = i mod 2 ^ 32 \<and>
        dd_dev_info d = (case host_dev_info F (''/dev/dri/'' @ utf8_lossy raw) of Some w \<Rightarrow> w | None \<Rightarrow> dev_info_fallback))"

lemma dri_node_iff:
  "dri_node F i name = Some d \<longleftrightarrow> dd_name d = name \<and> dd_slot_index d = i mod 2 ^ 32 \<and>
     (\<exists>text. hf_read_text F (''/sys/class/drm/'' @ name @ ''/dev'') = Some text \<and>
        dev_numbers text = Some (dd_major d, dd_minor d)) \<and>
     dd_dev_info d = (case host_dev_info F (''/dev/dri/'' @ name) of Some w \<Rightarrow> w | None \<Rightarrow> dev_info_fallback)"
  by (cases d) (auto simp: dri_node_def split: option.splits)

lemma set_map_filter: "set (List.map_filter f xs) = {y. \<exists>x \<in> set xs. f x = Some y}"
  by (force simp: List.map_filter_def)

lemma set_enumerate: "set (enumerate 0 xs) = (\<lambda>i. (i, xs ! i)) ` {..<length xs}"
  by (auto simp: in_set_enumerate_eq image_iff)

lemma dri_devices_offered: "d \<in> set (dri_devices F) \<longleftrightarrow> offered F d"
proof -
  let ?dir = "\<lambda>i. hf_read_dir F (''/sys/bus/pci/devices/'' @ slot_addr (fs_slots F ! i) @ ''/drm'')"
  have names: "d \<in> set (List.map_filter (dri_node F i) (sort_key byte_key (filter is_render (map utf8_lossy (List.map_filter (\<lambda>e. e) es))))) \<longleftrightarrow>
      (\<exists>raw. Some raw \<in> set es \<and> is_render (utf8_lossy raw) \<and> dri_node F i (utf8_lossy raw) = Some d)" for i es
    by (simp only: set_map_filter set_sort set_filter set_map) auto
  have "d \<in> set (dri_devices F) \<longleftrightarrow> (\<exists>i < length (fs_slots F). \<exists>es. ?dir i = Some es \<and>
      (\<exists>raw. Some raw \<in> set es \<and> is_render (utf8_lossy raw) \<and> dri_node F i (utf8_lossy raw) = Some d))"
  proof -
    have "d \<in> set (case x of None \<Rightarrow> [] | Some es \<Rightarrow> g es) \<longleftrightarrow> (\<exists>es. x = Some es \<and> d \<in> set (g es))"
      for x :: "string option list option" and g :: "string option list \<Rightarrow> dri_device list"
      by (cases x) simp_all
    then show ?thesis by (simp add: dri_devices_def set_enumerate Let_def names Bex_def eq_commute [of "Some e" for e])
  qed
  also have "\<dots> \<longleftrightarrow> offered F d" unfolding offered_def dri_node_iff by blast
  finally show ?thesis .
qed

lemma digits_value_bound: "digits_value acc s = Some v \<Longrightarrow> acc \<le> u32_max \<Longrightarrow> v \<le> u32_max"
  by (induction acc s rule: digits_value.induct) (auto split: if_splits)

lemma dev_numbers_bound: "dev_numbers text = Some (a, b) \<Longrightarrow> a < 2 ^ 32 \<and> b < 2 ^ 32"
  by (auto simp: dev_numbers_def parse_u32_def Let_def split: option.splits if_splits dest!: digits_value_bound)

lemma offered_wf:
  assumes "offered F d" "length (dd_name d) < 2 ^ 32"
  shows "dri_wf d"
proof -
  have "length w = 9 \<and> list_all (\<lambda>x. x < 2 ^ 32) w" if "host_dev_info F p = Some w" for p w
  proof -
    obtain f where "w = map (\<lambda>i. unat (f i :: 32 word)) [0..<9]"
      using \<open>host_dev_info F p = Some w\<close> by (auto simp: host_dev_info_def split: if_splits)
    moreover have "unat x < 2 ^ 32" for x :: "32 word" using unsigned_less [of x, where 'a = nat] by simp
    ultimately show ?thesis by (simp add: list_all_iff)
  qed
  moreover have "length dev_info_fallback = 9 \<and> list_all (\<lambda>x. x < 2 ^ 32) dev_info_fallback" by (simp add: dev_info_fallback_def)
  ultimately have "length (dd_dev_info d) = 9 \<and> list_all (\<lambda>x. x < 2 ^ 32) (dd_dev_info d)"
    using assms(1) by (auto simp: offered_def split: option.splits)
  with assms show ?thesis by (auto simp: offered_def dri_wf_def is_render_def dest!: dev_numbers_bound)
qed

section \<open>Properties\<close>

text \<open>\<open>reads_from E tr F\<close>: the trees of the environment are those of the file system \<open>F\<close>.\<close>

definition wire_files :: "(string \<times> bytes) list \<Rightarrow> (bytes \<times> bytes) list" where
  "wire_files fs = map (\<lambda>(p, c). (bytes_of_string p, c)) fs"

definition reads_from :: "env \<Rightarrow> event list \<Rightarrow> host_fs \<Rightarrow> bool" where
  "reads_from E tr F \<longleftrightarrow>
     en_proc_files E tr = wire_files (collect Proc F) \<and> en_sys_files E tr = wire_files (collect Sys F) \<and>
     en_dri E tr = dri_devices F"

lemma prefix_le: "(xs @ a :: nat list) \<le> xs @ b \<longleftrightarrow> a \<le> b"
  by (induction xs) simp_all

lemma collect_proc_sorted: "sorted (map (byte_key \<circ> fst) (collect_proc F))"
proof -
  have "sorted (map (byte_key \<circ> fst) xs) \<Longrightarrow> sorted (map (byte_key \<circ> fst) (map (\<lambda>(path, c). (pre @ path, c)) xs))"
    for xs :: "(string \<times> bytes) list" and pre
    by (induction xs) (auto simp: byte_key_def prefix_le)
  then show ?thesis unfolding collect_proc_def by (metis sorted_sort_key)
qed

lemma collect_named: "list_all (\<lambda>f. fst f \<noteq> []) (wire_files (collect tree F))"
  by (cases tree)
    (auto simp: wire_files_def collect_def collect_proc_def collect_sys_def bytes_of_string_def set_map_filter list_all_iff Let_def)

text \<open>C0: What the guest reads of GET_PROC_FILES is the host's tree under \<open>/proc/driver/nvidia\<close>: the files are exactly the small
  regular files at most five components deep that are reached without a symbolic link, each under its path from \<open>/proc\<close>
  with the content read, in the order of their paths; the stream ends properly, nothing follows it, and files are left out
  only from the end and only where they do not fit.\<close>

theorem proc_tree_served:
  assumes "reads_from E (bk_trace bk) F" "handle_get_files E Proc cap bk = (b, bk')" "8 \<le> cap" "cap < 2 ^ 32"
  shows "\<exists>files n. bk' = bk \<and> read_stream b = Some (wire_files (take n files), []) \<and>
    set files = {(''driver/nvidia/'' @ utf8_lossy (rel_text rel), c) | rel c.
      tree_file F proc_root MAX_FILE [] rel c \<and> length rel \<le> 5} \<and>
    sorted (map (byte_key \<circ> fst) files) \<and>
    (n < length files \<longrightarrow> cap < length (concat (map file_record (wire_files (take (Suc n) files)))) + 8)"
proof (intro exI conjI)
  let ?fs = "collect_proc F"
  let ?n = "fitting cap 0 (wire_files ?fs)"
  have b: "b = file_stream cap (wire_files ?fs)" "bk' = bk"
    using assms(1,2) by (simp_all add: handle_get_files_def reads_from_def collect_def)
  show "bk' = bk" by (rule b(2))
  show "read_stream b = Some (wire_files (take ?n ?fs), [])"
    using read_file_stream [OF assms(3,4) collect_named [of Proc F], of "[]"] b
    by (simp add: collect_def wire_files_def take_map)
  show "set ?fs = {(''driver/nvidia/'' @ utf8_lossy (rel_text rel), c) | rel c.
      tree_file F proc_root MAX_FILE [] rel c \<and> length rel \<le> 5}"
    by (force simp: collect_proc_def collect_into_iff image_iff)
  show "sorted (map (byte_key \<circ> fst) ?fs)" by (rule collect_proc_sorted)
  show "?n < length ?fs \<longrightarrow> cap < length (concat (map file_record (wire_files (take (Suc ?n) ?fs)))) + 8"
    using fitting_maximal(3) [of cap 0 "wire_files ?fs"] by (simp add: wire_files_def take_map)
qed

text \<open>A host with one file and one GPU with a render node.\<close>

definition sample_fs :: host_fs where
  "sample_fs =
     \<lparr>hf_gpus = Some [(''0000:01:00.0'', True)], hf_gpu_info = \<lambda>a. None,
      hf_read_dir = \<lambda>p. if p = proc_root then Some [Some ''version''] else Some [Some ''card0'', Some ''renderD128''],
      hf_lstat = \<lambda>p. Some (RegularFile, 0), hf_read = \<lambda>p. Some [78, 86], hf_read_text = \<lambda>p. Some ''226:128'',
      hf_node = \<lambda>p. False, hf_dev_info = \<lambda>p. None\<rparr>"

definition sample_host :: env where
  "sample_host = sample_env\<lparr>en_proc_files := \<lambda>t. wire_files (collect Proc sample_fs),
     en_sys_files := \<lambda>t. wire_files (collect Sys sample_fs), en_dri := \<lambda>t. dri_devices sample_fs\<rparr>"

lemma sample_host_reads: "reads_from sample_host tr sample_fs"
  by (simp add: reads_from_def sample_host_def)

lemma utf8_lossy_ascii: "list_all (\<lambda>c. (of_char c :: nat) < 128) s \<Longrightarrow> utf8_lossy s = s"
  by (induction s) (simp_all add: Let_def)

lemma proc_tree_served_witness:
  "\<exists>files n. read_stream (fst (handle_get_files sample_host Proc 4096 sample_new)) = Some (wire_files (take n files), []) \<and>
     (''driver/nvidia/version'', [78, 86]) \<in> set files"
proof -
  obtain b bk' where g: "handle_get_files sample_host Proc 4096 sample_new = (b, bk')" by (metis prod.exhaust)
  have t: "tree_file sample_fs proc_root MAX_FILE [] [''version''] [78, 86]"
    by (simp add: listed_def small_file_def path_at_def sample_fs_def)
  have "utf8_lossy (rel_text [''version'']) = ''version''" by (simp add: rel_text_def utf8_lossy_ascii)
  then have "(''driver/nvidia/version'', [78, 86]) \<in> {(''driver/nvidia/'' @ utf8_lossy (rel_text rel), c) | rel c.
      tree_file sample_fs proc_root MAX_FILE [] rel c \<and> length rel \<le> 5}"
    using t by (intro CollectI exI [of _ "[''version'']"] exI [of _ "[78, 86]"]) simp
  with proc_tree_served [OF sample_host_reads g] g show ?thesis by auto
qed


definition sample_node :: dri_device where
  "sample_node = \<lparr>dd_name = ''renderD128'', dd_major = 226, dd_minor = 128, dd_slot_index = 0, dd_dev_info = dev_info_fallback\<rparr>"

lemma sample_listing:
  "wire_files (collect Sys sample_fs) = [(bytes_of_string ''bus/pci/devices/0000:01:00.0/config'', [78, 86])]"
  "dri_devices sample_fs = [sample_node]" "caps_has (bk_caps sample_new) GRAPHICS"
proof -
  have slot: "fs_slots sample_fs = [gpu_slot_new (bytes_of_string ''0000:01:00.0'') 0 []]"
    by (simp add: fs_slots_def host_gpu_slots_def sample_fs_def)
  have addr: "slot_addr (gpu_slot_new (bytes_of_string ''0000:01:00.0'') 0 []) = ''0000:01:00.0''"
  proof -
    have "takeWhile (\<lambda>b. b \<noteq> 0) (gs_pci_addr (gpu_slot_new (bytes_of_string ''0000:01:00.0'') 0 [])) = bytes_of_string ''0000:01:00.0''"
      by (simp add: gpu_slot_new_def bytes_of_string_def put_at_def Let_def)
    then show ?thesis by (simp only: slot_addr_def bytes_to_string) (simp add: utf8_lossy_ascii)
  qed
  show "wire_files (collect Sys sample_fs) = [(bytes_of_string ''bus/pci/devices/0000:01:00.0/config'', [78, 86])]"
    by (simp add: collect_def collect_sys_def slot addr wire_files_def List.map_filter_def) (simp add: sample_fs_def)
  have numbers: "dev_numbers ''226:128'' = Some (226, 128)"
    by (simp add: dev_numbers_def split_once_def trim_def is_space_def parse_u32_def is_digit_def digit_value_def)
  have "is_render ''renderD128''" "\<not> is_render ''card0''" by (simp_all add: is_render_def)
  then show "dri_devices sample_fs = [sample_node]"
    unfolding dri_devices_def slot
    by (simp add: addr List.map_filter_def sample_fs_def proc_root_def utf8_lossy_ascii dri_node_def numbers
        host_dev_info_def sample_node_def)
  show "caps_has (bk_caps sample_new) GRAPHICS" by (simp add: sample_fields caps_has_def caps_default_def)
qed


text \<open>After GET_SYS_FILES an open reaches nothing on the host but the driver's own nodes, by their kinds and the guest's
  capabilities, and the render nodes listed under its GPUs: the n-th render node of the guest is the n-th it was told of.\<close>

theorem opens_reach_listed_nodes:
  assumes "reads_from E (bk_trace bk) F" "handle_get_files E Sys cap bk = (b, bk1)" "handle_open E room p bk1 = (r, bk2)"
    and "bk_trace bk2 = EvOpen path # bk_trace bk1"
  shows "\<exists>k. device_kind_from_type (or_device_type (dec_open_req p)) = Some k \<and>
    (case k of
       Gpu n \<Rightarrow> n < 8 \<and> path = ''/dev/nvidia'' @ show_nat n
     | Ctl \<Rightarrow> path = ''/dev/nvidiactl''
     | Uvm \<Rightarrow> caps_has (bk_caps bk) COMPUTE \<and> path = ''/dev/nvidia-uvm''
     | UvmTools \<Rightarrow> False
     | Modeset \<Rightarrow> caps_has (bk_caps bk) GRAPHICS \<and> path = ''/dev/nvidia-modeset''
     | Dri n \<Rightarrow> caps_has (bk_caps bk) GRAPHICS \<and> n < length (dri_devices F) \<and>
         offered F (dri_devices F ! n) \<and> path = ''/dev/dri/'' @ dd_name (dri_devices F ! n))"
proof -
  let ?ds = "if caps_has (bk_caps bk) GRAPHICS then dri_devices F else []"
  let ?ty = "or_device_type (dec_open_req p)"
  have b1: "bk_dri_given bk1 = Some ?ds" "bk_caps bk1 = bk_caps bk"
    using assms(1,2) by (auto simp: handle_get_files_def write_dri_section_def reads_from_def Let_def split: if_splits)
  have "open_refusal (bk_caps bk) ?ty = None \<and> device_path_with ?ty ?ds = Some path"
    using assms(3,4) b1 by (auto simp: handle_open_def refuse_for_caps_def note_event_def Let_def split: if_splits option.splits sum.splits prod.splits)
  moreover have "n < length (dri_devices F) \<Longrightarrow> offered F (dri_devices F ! n)" for n
    using dri_devices_offered nth_mem by blast
  ultimately show ?thesis
    by (auto simp: open_refusal_def device_path_with_def split: option.splits device_kind.splits if_splits)
qed

lemma opens_reach_listed_nodes_witness:
  "\<exists>r bk. handle_open sample_host 64 (enc_open_req \<lparr>or_device_type = 512, or_flags = 0\<rparr>)
       (snd (handle_get_files sample_host Sys 16384 sample_new)) = (r, bk) \<and>
     bk_trace bk = [EvOpen ''/dev/dri/renderD128''] \<and> offered sample_fs sample_node"
proof -
  let ?p = "enc_open_req \<lparr>or_device_type = 512, or_flags = 0\<rparr>"
  obtain b bk1 where g: "handle_get_files sample_host Sys 16384 sample_new = (b, bk1)" by (metis prod.exhaust)
  have p: "dec_open_req ?p = \<lparr>or_device_type = 512, or_flags = 0\<rparr>"
    using oreq.dec_enc [of "\<lparr>or_device_type = 512, or_flags = 0\<rparr>" "[]"] by (simp add: open_req_wf_def)
  have k: "device_kind_from_type 512 = Some (Dri 0)" by (simp add: device_kind_from_type_def)
  have b1: "bk_caps bk1 = bk_caps sample_new \<and> bk_trace bk1 = [] \<and> bk_dri_given bk1 = Some [sample_node]"
    using g sample_host_reads [of "bk_trace sample_new"] sample_listing(2,3)
    by (auto simp: handle_get_files_def write_dri_section_def reads_from_def Let_def sample_fields split: if_splits)
  obtain r bk2 where o: "handle_open sample_host 64 ?p bk1 = (r, bk2)" by (metis prod.exhaust)
  then have t: "bk_trace bk2 = EvOpen ''/dev/dri/renderD128'' # bk_trace bk1"
    using b1 sample_listing(3)
    by (auto simp: handle_open_def oreq.length_enc p k open_refusal_def device_path_with_def sample_node_def note_event_def Let_def
        sample_host_def sample_env_def split: prod.splits)
  from opens_reach_listed_nodes [OF sample_host_reads g o t] have "offered sample_fs sample_node"
    by (simp add: p k sample_listing)
  with o t b1 g show ?thesis by simp
qed

end
