(* ===== verification/Transport.thy ===== *)
theory Transport
  imports Samples
begin

text \<open>
  The adapters between the backend and the vhost-user frontend (\<open>device/bin/vhost-user-nvgpu.rs\<close>): guest memory as the
  frontend's regions, and the requests that place device memory in the guest's window and aperture.

  The memory table is the vm-memory crate's: its \<open>find_region\<close> is the argument \<open>mem\<close>, a region the answers of its start, its
  length and its \<open>file_offset\<close>. \<open>dup\<close> says whether the descriptor of the region at an address can be duplicated; the
  duplicate is of the region's file, which stands for it.
\<close>

section \<open>Guest memory\<close>

record region =
  rg_start :: nat
  rg_len :: nat
  rg_file :: "(fd \<times> nat) option"

type_synonym memory = "nat \<Rightarrow> region option"

definition vhost_backing :: "(nat \<Rightarrow> bool) \<Rightarrow> memory \<Rightarrow> nat \<Rightarrow> backing option" where
  "vhost_backing dup mem gpa =
     (case mem gpa of
        None \<Rightarrow> None
      | Some r \<Rightarrow>
          (case rg_file r of
             None \<Rightarrow> None
           | Some (f, off) \<Rightarrow>
               if gpa < rg_start r then None
               else
                 let within = gpa - rg_start r in
                 if \<not> dup gpa then None
                 else if off + within > u64_max then None
                 else if rg_len r < within then None
                 else Some \<lparr>bk_fd = f, bk_offset = off + within, bk_len = rg_len r - within\<rparr>))"

section \<open>The window and the aperture\<close>

text \<open>The body of a mapping request and the descriptor sent with it; the answer is \<open>en_place\<close> and \<open>en_place_pool\<close>.\<close>

record mmap_body =
  mb_shmid :: nat
  mb_fd_offset :: nat
  mb_shm_offset :: nat
  mb_len :: nat
  mb_writable :: bool

datatype vmm_request = ShmemMap mmap_body fd | ShmemUnmap mmap_body

abbreviation (input) NV_SHM_ID :: nat where "NV_SHM_ID \<equiv> 1"
abbreviation (input) NV_SHM_ID_APERTURE :: nat where "NV_SHM_ID_APERTURE \<equiv> 2"

definition vhost_place :: "nat \<Rightarrow> nat \<Rightarrow> fd \<Rightarrow> nat \<Rightarrow> bool \<Rightarrow> vmm_request" where
  "vhost_place shm_offset len f fd_offset writable =
     ShmemMap \<lparr>mb_shmid = NV_SHM_ID, mb_fd_offset = fd_offset, mb_shm_offset = shm_offset, mb_len = len, mb_writable = writable\<rparr> f"

definition vhost_withdraw :: "nat \<Rightarrow> nat \<Rightarrow> vmm_request" where
  "vhost_withdraw shm_offset len =
     ShmemUnmap \<lparr>mb_shmid = NV_SHM_ID, mb_fd_offset = 0, mb_shm_offset = shm_offset, mb_len = len, mb_writable = False\<rparr>"

definition vhost_place_pool :: "nat \<Rightarrow> nat \<Rightarrow> fd \<Rightarrow> nat \<Rightarrow> vmm_request" where
  "vhost_place_pool offset len f addr =
     ShmemMap \<lparr>mb_shmid = NV_SHM_ID_APERTURE, mb_fd_offset = addr, mb_shm_offset = offset, mb_len = len, mb_writable = True\<rparr> f"

definition vhost_withdraw_pool :: "nat \<Rightarrow> nat \<Rightarrow> vmm_request" where
  "vhost_withdraw_pool offset len =
     ShmemUnmap \<lparr>mb_shmid = NV_SHM_ID_APERTURE, mb_fd_offset = 0, mb_shm_offset = offset, mb_len = len, mb_writable = False\<rparr>"

section \<open>Whose memory a registration names\<close>

text \<open>What the crate promises of a table: the region found holds the address, and is found for each of its addresses; its
  bytes have offsets in its file.\<close>

definition mem_ok :: "memory \<Rightarrow> bool" where
  "mem_ok mem \<longleftrightarrow>
     (\<forall>g r. mem g = Some r \<longrightarrow>
        rg_start r \<le> g \<and> g < rg_start r + rg_len r \<and>
        (\<forall>d. g + d < rg_start r + rg_len r \<longrightarrow> mem (g + d) = Some r) \<and>
        (\<forall>f off. rg_file r = Some (f, off) \<longrightarrow> off + rg_len r \<le> 2 ^ 64))"

text \<open>The byte of a file that a guest-physical address is, as the frontend set it up.\<close>

definition guest_byte :: "memory \<Rightarrow> nat \<Rightarrow> (fd \<times> nat) option" where
  "guest_byte mem gpa =
     Option.bind (mem gpa) (\<lambda>r. map_option (\<lambda>(f, off). (f, off + (gpa - rg_start r))) (rg_file r))"

lemma mem_okD:
  assumes "mem_ok mem" "mem g = Some r"
  shows "rg_start r \<le> g" "g < rg_start r + rg_len r" "g + d < rg_start r + rg_len r \<Longrightarrow> mem (g + d) = Some r"
    "rg_file r = Some (f, off) \<Longrightarrow> off + rg_len r \<le> 2 ^ 64"
  using assms unfolding mem_ok_def by blast+

lemma backing_linear: "mem_ok mem \<Longrightarrow> ram_linear (vhost_backing (\<lambda>_. True) mem)"
  unfolding ram_linear_def
proof (intro allI impI, elim conjE)
  fix g b d
  assume wf: "mem_ok mem" and b: "vhost_backing (\<lambda>_. True) mem g = Some b" and d: "d < bk_len b"
  obtain r f off where r: "mem g = Some r" "rg_file r = Some (f, off)"
      and eq: "b = \<lparr>bk_fd = f, bk_offset = off + (g - rg_start r), bk_len = rg_len r - (g - rg_start r)\<rparr>"
    using b by (auto simp: vhost_backing_def Let_def split: option.splits if_splits)
  have m: "rg_start r \<le> g" "off + rg_len r \<le> 2 ^ 64" using mem_okD [OF wf r(1)] r(2) by blast+
  moreover have in_r: "g + d < rg_start r + rg_len r" using d m(1) by (simp add: eq)
  moreover have "mem (g + d) = Some r" using mem_okD(3) [OF wf r(1)] in_r by blast
  ultimately show "vhost_backing (\<lambda>_. True) mem (g + d) =
      Some \<lparr>bk_fd = bk_fd b, bk_offset = bk_offset b + d, bk_len = bk_len b - d\<rparr>"
    using r(2) by (simp add: vhost_backing_def eq Let_def) linarith
qed

lemma backing_byte: "vhost_backing dup mem g = Some b \<Longrightarrow> guest_byte mem g = Some (bk_fd b, bk_offset b)"
  by (auto simp: vhost_backing_def guest_byte_def Let_def split: option.splits if_splits)

lemma place_runs_mono:
  "place_runs ram mapped i p runs = Inr ps \<Longrightarrow> (\<And>g b. ram g = Some b \<Longrightarrow> ram' g = Some b) \<Longrightarrow>
     place_runs ram' mapped i p runs = Inr ps"
  by (induction ram mapped i p runs arbitrary: ps rule: place_runs.induct)
    (fastforce split: option.splits if_splits sum.splits)+

lemma stitch_mono:
  assumes "stitch ram reserved mapped runs want = Inr s" "\<And>g b. ram g = Some b \<Longrightarrow> ram' g = Some b"
  shows "stitch ram' reserved mapped runs want = Inr s"
  using assms(1) place_runs_mono [OF _ assms(2)]
  by (auto simp: stitch_def split: if_splits sum.splits option.splits)

text \<open>C10: Memory a guest registers by address is its own. Where the pages sent with a registration are translated over the
  frontend's memory table, the span is as long as the registration and made of the runs that were sent, and each of its
  bytes is the byte of the region's file that the guest's address of the same place of the registration is.\<close>

theorem span_is_guest_memory:
  assumes "mem_ok mem" "bk_guest_ram bk = Some (vhost_backing dup mem)" "translate E (Some (off, b)) want bk = Some (Some s, bk')"
  shows "\<exists>t runs. runs_parse b = Some t \<and> runs_iter t = map Some runs \<and> sum_list (map run_len runs) = want \<and>
    want mod 4096 = 0 \<and> st_len s = want \<and>
    (\<forall>k < want. \<exists>g. run_byte runs k = Some g \<and> guest_byte mem g \<noteq> None \<and> span_byte (st_map s) k = guest_byte mem g)"
proof -
  obtain t where t: "runs_parse b = Some t" "None \<notin> set (runs_iter t)"
      and st: "stitch (vhost_backing dup mem) (en_mmap E (bk_trace bk) want) (en_map_run E (bk_trace bk)) (map the (runs_iter t)) want = Inr s"
    using assms(2,3) by (auto simp: translate_def split: if_splits option.splits sum.splits)
  have "vhost_backing dup mem g = Some x \<Longrightarrow> vhost_backing (\<lambda>_. True) mem g = Some x" for g x
    by (auto simp: vhost_backing_def Let_def split: option.splits if_splits)
  note spec = stitch_aliases_exactly [OF backing_linear [OF assms(1)] stitch_mono [OF st this]]
  have "runs_iter t = map Some (map the (runs_iter t))" using t(2) by (intro nth_equalityI) (auto simp: in_set_conv_nth)
  then show ?thesis
    using t(1) spec backing_byte by (intro exI [of _ t] exI [of _ "map the (runs_iter t)"]) fastforce
qed

text \<open>A table of one region without a descriptor and one with.\<close>

definition sample_memory :: memory where
  "sample_memory g =
     (if g < 65536 then Some \<lparr>rg_start = 0, rg_len = 65536, rg_file = None\<rparr>
      else if 1048576 \<le> g \<and> g < 1114112 then Some \<lparr>rg_start = 1048576, rg_len = 65536, rg_file = Some (7, 4096)\<rparr>
      else None)"

lemma span_is_guest_memory_witness:
  "\<exists>b s bk'. translate sample_env (Some (PAGE_RUNS, b)) 8192
      (sample_opened\<lparr>bk_guest_ram := Some (vhost_backing (\<lambda>_. True)sample_memory)\<rparr>) =
      Some (Some s, bk') \<and> span_byte (st_map s) 5 = Some (7, 12293)"
proof -
  let ?runs = "[\<lparr>run_gpa = 1056768, run_len = 4096\<rparr>, \<lparr>run_gpa = 1048576, run_len = 4096\<rparr>]"
  let ?bk = "sample_opened\<lparr>bk_guest_ram := Some (vhost_backing (\<lambda>_. True) sample_memory)\<rparr>"
  obtain b where b: "runs_encode 64 ?runs = Some b" by (simp add: runs_encode_def runs_encoded_len_def Let_def)
  then obtain t where t: "runs_parse b = Some t" "runs_iter t = map Some ?runs"
    using runs_parse_encode [OF b, of "[]"] by (auto simp: run_wf_def)
  have mem: "mem_ok sample_memory" by (auto simp: mem_ok_def sample_memory_def)
  have "\<exists>s bk'. translate sample_env (Some (PAGE_RUNS, b)) 8192 ?bk = Some (Some s, bk')"
    by (simp add: translate_def t stitch_def vhost_backing_def sample_memory_def sample_env_def Let_def)
  then obtain s bk' where tr: "translate sample_env (Some (PAGE_RUNS, b)) 8192 ?bk = Some (Some s, bk')" by blast
  have ram: "bk_guest_ram ?bk = Some (vhost_backing (\<lambda>_. True) sample_memory)" by simp
  have "\<exists>g. run_byte ?runs 5 = Some g \<and> span_byte (st_map s) 5 = guest_byte sample_memory g"
  proof -
    obtain runs where r: "map Some ?runs = map Some runs"
        and k: "\<forall>k < 8192. \<exists>g. run_byte runs k = Some g \<and> guest_byte sample_memory g \<noteq> None \<and> span_byte (st_map s) k = guest_byte sample_memory g"
      using span_is_guest_memory [OF mem ram tr] t by (metis option.inject)
    have "runs = ?runs" using r by (metis inj_Some inj_map_eq_map)
    with k have "\<forall>k < 8192. \<exists>g. run_byte ?runs k = Some g \<and> guest_byte sample_memory g \<noteq> None \<and> span_byte (st_map s) k = guest_byte sample_memory g"
      by metis
    moreover have "(5 :: nat) < 8192" by simp
    ultimately show ?thesis by blast
  qed
  then have "span_byte (st_map s) 5 = Some (7, 12293)" by (auto simp: guest_byte_def sample_memory_def)
  with tr show ?thesis by blast
qed

end
