(* ===== verification/Descriptors.thy ===== *)
theory Descriptors
  imports Files HostTrees "HOL-Library.Multiset"
begin

text \<open>
  The host files of a backend over its whole life, read off the trace of its actions: which were opened and what became
  of them, and which nodes they are of.
\<close>

section \<open>What was opened and closed\<close>

text \<open>The descriptors the host gave for the opens of a trace, and those that were closed; both newest first.\<close>

fun opened :: "env \<Rightarrow> event list \<Rightarrow> fd list" where
  "opened E [] = []"
| "opened E (e # tr) =
     (case e of EvOpen path \<Rightarrow> (case en_open E tr path of Inr f \<Rightarrow> f # opened E tr | Inl _ \<Rightarrow> opened E tr) | _ \<Rightarrow> opened E tr)"

fun closed :: "event list \<Rightarrow> fd list" where
  "closed [] = []"
| "closed (e # tr) = (case e of EvClose f \<Rightarrow> f # closed tr | _ \<Rightarrow> closed tr)"

lemma no_file_events:
  "list_all (\<lambda>e. \<not> file_event e) new \<Longrightarrow> opened E (new @ tr) = opened E tr"
  "list_all (\<lambda>e. \<not> file_event e) new \<Longrightarrow> closed (new @ tr) = closed tr"
  by (induction new) (auto simp: file_event_def split: event.splits)

lemma close_events:
  "opened E (bk_trace (fold (\<lambda>f. note_event (EvClose f)) fs bk)) = opened E (bk_trace bk)"
  "closed (bk_trace (fold (\<lambda>f. note_event (EvClose f)) fs bk)) = rev fs @ closed (bk_trace bk)"
  "bk_handles (fold (\<lambda>f. note_event (EvClose f)) fs bk) = bk_handles bk"
  by (induction fs arbitrary: bk) (simp_all add: note_event_def)

definition held :: "backend \<Rightarrow> fd multiset" where
  "held bk = mset (map snd (ht_table (bk_handles bk)))"

text \<open>The account is kept as long as the counter of the handles has not gone round.\<close>

definition accounted :: "env \<Rightarrow> backend \<Rightarrow> bool" where
  "accounted E bk \<longleftrightarrow>
     (length (opened E (bk_trace bk)) + 1 < 2 ^ 64 \<longrightarrow>
        ht_inv (bk_handles bk) \<and> ht_next (bk_handles bk) \<le> length (opened E (bk_trace bk)) + 1 \<and>
        mset (opened E (bk_trace bk)) = mset (closed (bk_trace bk)) + held bk)"

lemma update_fresh: "k \<notin> fst ` set al \<Longrightarrow> AList.update k v al = al @ [(k, v)]"
  by (induction al) auto

lemma delete_held:
  "keys_distinct al \<Longrightarrow> mset (map snd al) = mset (map snd (AList.delete k al)) + (case map_of al k of Some v \<Rightarrow> {#v#} | None \<Rightarrow> {#})"
proof (induction al)
  case (Cons a al)
  obtain h v where a: "a = (h, v)" by (cases a)
  show ?case
  proof (cases "h = k")
    case True
    with Cons.prems a have "k \<notin> fst ` set al" by simp
    then have "AList.delete k al = al" "map_of al k = None" by (simp_all add: map_of_eq_None_iff)
    with True a show ?thesis by simp
  next
    case False
    with Cons a show ?thesis by simp
  qed
qed simp

section \<open>One message\<close>

lemma accounted_insert:
  assumes acc: "accounted E bk" and f: "en_open E (bk_trace bk) path = Inr f"
    and new: "bk_trace bk' = EvOpen path # bk_trace bk" "bk_handles bk' = snd (ht_insert (bk_handles bk) f)"
  shows "accounted E bk'"
  unfolding accounted_def
proof
  let ?n = "length (opened E (bk_trace bk))" and ?t = "bk_handles bk"
  have o: "opened E (bk_trace bk') = f # opened E (bk_trace bk)" "closed (bk_trace bk') = closed (bk_trace bk)" by (simp_all add: new f)
  assume "length (opened E (bk_trace bk')) + 1 < 2 ^ 64"
  then have n: "?n + 1 < 2 ^ 64" "?n + 2 < 2 ^ 64" by (simp_all add: o)
  with acc have a: "ht_inv ?t" "ht_next ?t \<le> ?n + 1" "mset (opened E (bk_trace bk)) = mset (closed (bk_trace bk)) + held bk"
    by (auto simp: accounted_def)
  have "ht_inv (bk_handles bk')" using ht.ins_inv [OF a(1)] a(2) n(2) by (simp add: new(2) ht_room_def)
  moreover have "ht_next (bk_handles bk') \<le> length (opened E (bk_trace bk')) + 1"
    using a(2) n(2) by (simp add: new(2) ht_insert_def o)
  moreover have "ht_next ?t \<notin> fst ` set (ht_table ?t)" using ht_inv_fresh [OF a(1)] by (simp add: map_of_eq_None_iff)
  then have "held bk' = add_mset f (held bk)" by (simp add: held_def new(2) ht_insert_def update_fresh)
  ultimately show "ht_inv (bk_handles bk') \<and> ht_next (bk_handles bk') \<le> length (opened E (bk_trace bk')) + 1 \<and>
      mset (opened E (bk_trace bk')) = mset (closed (bk_trace bk')) + held bk'"
    using a(3) by (simp add: o)
qed

lemma accounted_cong:
  "opened E (bk_trace bk') = opened E (bk_trace bk) \<Longrightarrow> closed (bk_trace bk') = closed (bk_trace bk) \<Longrightarrow>
     bk_handles bk' = bk_handles bk \<Longrightarrow> accounted E bk' = accounted E bk"
  by (simp add: accounted_def held_def)

definition open_at :: "env \<Rightarrow> bytes \<Rightarrow> backend \<Rightarrow> string option" where
  "open_at E p bk =
     (let ty = or_device_type (dec_open_req p) in
      if open_refusal (bk_caps bk) ty \<noteq> None then None
      else device_path_with ty (case bk_dri_given bk of Some ds \<Rightarrow> ds | None \<Rightarrow> en_dri E (bk_trace bk)))"

lemma handle_open_trace:
  assumes "handle_open E cap p bk = (r, bk')"
  shows "bk_caps bk' = bk_caps bk \<and> bk_dri_given bk' = bk_dri_given bk \<and>
    (case if length p < 8 then None else open_at E p bk of
       None \<Rightarrow> bk_trace bk' = bk_trace bk \<and> bk_handles bk' = bk_handles bk
     | Some path \<Rightarrow> bk_trace bk' = EvOpen path # bk_trace bk \<and>
         bk_handles bk' = (case en_open E (bk_trace bk) path of Inl e \<Rightarrow> bk_handles bk | Inr f \<Rightarrow> snd (ht_insert (bk_handles bk) f)))"
proof (cases "length p < 8 \<or> open_refusal (bk_caps bk) (or_device_type (dec_open_req p)) \<noteq> None")
  case True
  with assms show ?thesis
    by (auto simp: handle_open_def open_at_def refuse_for_caps_def Let_def split: if_splits)
next
  case False
  then have ok: "\<not> length p < 8" "open_refusal (bk_caps bk) (or_device_type (dec_open_req p)) = None" by auto
  show ?thesis
  proof (cases "open_at E p bk")
    case None
    with ok assms show ?thesis by (auto simp: handle_open_def open_at_def Let_def)
  next
    case (Some path)
    with ok assms show ?thesis
      by (cases "en_open E (bk_trace bk) path") (auto simp: handle_open_def open_at_def note_event_def Let_def split: prod.splits)
  qed
qed

lemma accounted_open:
  assumes "accounted E bk" "handle_open E cap p bk = (r, bk')"
  shows "accounted E bk'"
proof (cases "if length p < 8 then None else open_at E p bk")
  case None
  with handle_open_trace [OF assms(2)] assms(1) accounted_cong [of E bk' bk] show ?thesis by simp
next
  case (Some path)
  note t = handle_open_trace [OF assms(2), unfolded Some]
  show ?thesis
  proof (cases "en_open E (bk_trace bk) path")
    case (Inl e)
    with t assms(1) accounted_cong [of E bk' bk] show ?thesis by simp
  next
    case (Inr f)
    with t accounted_insert [OF assms(1) Inr] show ?thesis by simp
  qed
qed

lemma accounted_no_files: "no_files bk bk' \<Longrightarrow> accounted E bk' = accounted E bk"
  by (rule accounted_cong) (auto simp: no_files_def no_file_events)

lemma handle_close_trace:
  assumes "handle_close E cap bk = (r, bk')"
  shows "\<exists>b. no_files bk b \<and> bk_dri_given b = bk_dri_given bk \<and> bk_caps bk' = bk_caps b \<and> bk_dri_given bk' = bk_dri_given b \<and>
    (case map_of (ht_table (bk_handles b)) (bk_handle bk) of
       None \<Rightarrow> bk' = b
     | Some f \<Rightarrow> bk_trace bk' = EvClose f # bk_trace b \<and> bk_handles bk' = snd (ht_remove (bk_handles b) (bk_handle bk)))"
proof -
  define b where "b = release_file E bk"
  have st: "no_files bk b \<and> bk_dri_given b = bk_dri_given bk" unfolding b_def by (rule step_no_files [OF ofp.step_release_file])
  have run: "(r, bk') = (case ht_remove (bk_handles b) (bk_handle bk) of
      (Some f, t) \<Rightarrow>
        let c = note_event (EvClose f) (b\<lparr>bk_handles := t, bk_watch_removed := bk_watch_removed b @ [bk_handle bk]\<rparr>)
        in (write_hdr cap c 0 0, c)
    | (None, t) \<Rightarrow> (write_error_resp cap b StBadHandle 0, b))"
    using assms [symmetric] unfolding handle_close_def Let_def b_def .
  show ?thesis
  proof (cases "map_of (ht_table (bk_handles b)) (bk_handle bk)")
    case None
    with run have "bk' = b" by (simp add: ht_remove_def)
    with st None show ?thesis by (intro exI [of _ b]) simp
  next
    case (Some f)
    with run st show ?thesis by (intro exI [of _ b]) (simp add: ht_remove_def Let_def note_event_def)
  qed
qed

lemma accounted_close:
  assumes "accounted E bk" "handle_close E cap bk = (r, bk')"
  shows "accounted E bk'"
proof -
  let ?h = "bk_handle bk"
  obtain b where b: "no_files bk b" and c: "case map_of (ht_table (bk_handles b)) ?h of None \<Rightarrow> bk' = b
      | Some f \<Rightarrow> bk_trace bk' = EvClose f # bk_trace b \<and> bk_handles bk' = snd (ht_remove (bk_handles b) ?h)"
    using handle_close_trace [OF assms(2)] by blast
  have acc: "accounted E b" using assms(1) accounted_no_files [OF b] by blast
  show ?thesis
  proof (cases "map_of (ht_table (bk_handles b)) ?h")
    case None
    with c acc show ?thesis by simp
  next
    case (Some f)
    with c have new: "bk_trace bk' = EvClose f # bk_trace b" "bk_handles bk' = snd (ht_remove (bk_handles b) ?h)" by simp_all
    have "ht_inv (bk_handles b) \<Longrightarrow> held b = held bk' + {#f#}"
      using delete_held [of "ht_table (bk_handles b)" ?h] Some by (simp add: held_def new(2) ht_remove_def ht_inv_def)
    moreover have "ht_inv (bk_handles b) \<Longrightarrow> ht_inv (bk_handles bk')" using ht.rem_inv by (simp add: new(2))
    moreover have "ht_next (bk_handles bk') = ht_next (bk_handles b)" by (simp add: new(2) ht_remove_def)
    ultimately show ?thesis using acc by (simp add: accounted_def new(1))
  qed
qed

lemma accounted_dispatch:
  assumes acc: "accounted E bk" and run: "dispatch E cap req bk = Some (r, bk')"
  shows "accounted E bk'"
proof -
  have arr: "accounted E (arrived m h bk)" for m h using acc accounted_cong [of E "arrived m h bk" bk] by simp
  consider (o) "msg_of req = Some Open" | (c) "msg_of req = Some Close" | (x) "msg_of req \<noteq> Some Open" "msg_of req \<noteq> Some Close"
    by blast
  then show ?thesis
  proof cases
    case o
    show ?thesis by (rule accounted_open [OF arr dispatch_open_close(1) [OF run o refl]])
  next
    case c
    show ?thesis by (rule accounted_close [OF arr dispatch_open_close(2) [OF run c refl]])
  next
    case x
    with other_messages [OF run x] acc accounted_no_files show ?thesis by blast
  qed
qed

section \<open>The whole life\<close>

lemma configured_files:
  "configured bk \<Longrightarrow> bk_trace bk = [] \<and> bk_handles bk = ht_new \<and> bk_dri_given bk = None"
proof (induction rule: configured.induct)
  case (version bk v)
  then show ?case by (auto simp: set_host_driver_version_def Let_def split: option.splits)
qed (auto simp: backend_new_def set_caps_def set_vram_limit_mib_def)

lemma teardown_files:
  "\<exists>b. teardown E bk = drain_handles b \<and> no_files bk b \<and> bk_dri_given b = bk_dri_given bk"
proof -
  define b1 where "b1 = fold (\<lambda>(i, p). unmap_uvm_pool i p) (fst (ap_take_all (bk_aperture bk)))
      (bk\<lparr>bk_aperture := snd (ap_take_all (bk_aperture bk))\<rparr>)"
  define b2 where "b2 = fold (\<lambda>e. shm_release E (me_region e)) (fst (mc_drain (bk_active b1)))
      (b1\<lparr>bk_active := snd (mc_drain (bk_active b1))\<rparr>)"
  have "step_ok (\<lambda>e. \<not> file_event e) (Keep True False) bk b1"
    unfolding b1_def by (intro step_fold) (auto intro: ofp.step_unmap_pool)
  moreover have "step_ok (\<lambda>e. \<not> file_event e) (Keep True False) b1 b2"
    unfolding b2_def by (rule ofl.step_drain_window [OF step_refl])
  ultimately have "step_ok (\<lambda>e. \<not> file_event e) (Keep True False) bk b2" by (rule step_trans)
  moreover have "teardown E bk = drain_handles b2"
    by (simp add: teardown_def Let_def b1_def b2_def split: prod.splits)
  ultimately show ?thesis using step_no_files by blast
qed

lemma drain_files:
  "opened E (bk_trace (drain_handles b)) = opened E (bk_trace b)"
  "mset (closed (bk_trace (drain_handles b))) = held b + mset (closed (bk_trace b))"
  "bk_handles (drain_handles b) = ht_new" "bk_dri_given (drain_handles b) = bk_dri_given b" "bk_caps (drain_handles b) = bk_caps b"
proof -
  have "bk_dri_given (fold (\<lambda>f. note_event (EvClose f)) fs b) = bk_dri_given b \<and>
      bk_caps (fold (\<lambda>f. note_event (EvClose f)) fs b) = bk_caps b" for fs b
    by (induction fs arbitrary: b) (simp_all add: note_event_def)
  then show "opened E (bk_trace (drain_handles b)) = opened E (bk_trace b)"
    "mset (closed (bk_trace (drain_handles b))) = held b + mset (closed (bk_trace b))"
    "bk_handles (drain_handles b) = ht_new" "bk_dri_given (drain_handles b) = bk_dri_given b" "bk_caps (drain_handles b) = bk_caps b"
    by (simp_all add: drain_handles_def ht_drain_all_def ht_new_def close_events held_def)
qed

lemma held_new: "bk_handles bk = ht_new \<Longrightarrow> held bk = {#}"
  by (simp add: held_def ht_new_def)

lemma accounted_teardown:
  assumes "accounted E bk"
  shows "accounted E (teardown E bk)"
proof -
  obtain b where b: "teardown E bk = drain_handles b" "no_files bk b" using teardown_files by blast
  have "accounted E b" using assms accounted_no_files [OF b(2)] by simp
  then show ?thesis using ht_inv_new
    by (simp add: accounted_def b(1) drain_files held_new) (simp add: ht_new_def add.commute)
qed

lemma running_accounted: "running E bk \<Longrightarrow> accounted E bk"
proof (induction rule: running.induct)
  case (start bk)
  then show ?case using configured_files [OF start] ht_inv_new by (simp add: accounted_def held_new) (simp add: ht_new_def)
next
  case (message bk cap req r bk')
  then show ?case using accounted_dispatch by blast
next
  case (torn_down bk)
  then show ?case using accounted_teardown by blast
qed (auto simp: accounted_def held_def set_window_def set_guest_ram_def take_watch_updates_def)

text \<open>The nodes an open may reach, given the listings of render nodes the host answers.\<close>

definition may_open :: "env \<Rightarrow> caps \<Rightarrow> string \<Rightarrow> bool" where
  "may_open E c path \<longleftrightarrow>
     (\<exists>n < 8. path = ''/dev/nvidia'' @ show_nat n) \<or> path = ''/dev/nvidiactl'' \<or>
     caps_has c COMPUTE \<and> path = ''/dev/nvidia-uvm'' \<or> caps_has c GRAPHICS \<and> path = ''/dev/nvidia-modeset'' \<or>
     caps_has c GRAPHICS \<and> (\<exists>tr d. d \<in> set (en_dri E tr) \<and> path = ''/dev/dri/'' @ dd_name d)"

definition nodes_inv :: "env \<Rightarrow> backend \<Rightarrow> bool" where
  "nodes_inv E bk \<longleftrightarrow>
     (case bk_dri_given bk of None \<Rightarrow> True | Some ds \<Rightarrow> ds = [] \<or> (\<exists>tr. ds = en_dri E tr)) \<and>
     (\<forall>path. EvOpen path \<in> set (bk_trace bk) \<longrightarrow> may_open E (bk_caps bk) path)"

lemma open_at_may_open:
  assumes "nodes_inv E bk" "open_at E p bk = Some path"
  shows "may_open E (bk_caps bk) path"
proof -
  let ?ty = "or_device_type (dec_open_req p)"
  let ?ds = "case bk_dri_given bk of Some ds \<Rightarrow> ds | None \<Rightarrow> en_dri E (bk_trace bk)"
  have at: "open_refusal (bk_caps bk) ?ty = None" "device_path_with ?ty ?ds = Some path"
    using assms(2) by (auto simp: open_at_def Let_def split: if_splits)
  have ds: "?ds = [] \<or> (\<exists>tr. ?ds = en_dri E tr)" using assms(1) by (auto simp: nodes_inv_def split: option.splits)
  from at show ?thesis
  proof (cases "device_kind_from_type ?ty")
    case (Some k)
    with at show ?thesis
    proof (cases k)
      case (Gpu n)
      with at Some have "n < 8" "path = ''/dev/nvidia'' @ show_nat n"
        by (simp_all add: device_path_with_def split: if_splits)
      then show ?thesis unfolding may_open_def by blast
    next
      case (Dri n)
      with at Some have n: "n < length ?ds" "path = ''/dev/dri/'' @ dd_name (?ds ! n)" "caps_has (bk_caps bk) GRAPHICS"
        by (simp_all add: open_refusal_def device_path_with_def split: if_splits)
      with ds obtain tr where "?ds = en_dri E tr" by auto
      with n nth_mem [OF n(1)] show ?thesis unfolding may_open_def by metis
    qed (auto simp: open_refusal_def device_path_with_def may_open_def split: if_splits)
  qed (simp add: device_path_with_def)
qed

lemma nodes_inv_no_files:
  assumes "nodes_inv E bk" "no_files bk bk'"
    "bk_dri_given bk' = bk_dri_given bk \<or> (\<exists>ds. bk_dri_given bk' = Some ds \<and> (ds = [] \<or> (\<exists>tr. ds = en_dri E tr)))"
  shows "nodes_inv E bk'"
proof -
  obtain new where "bk_trace bk' = new @ bk_trace bk" "list_all (\<lambda>e. \<not> file_event e) new" "bk_caps bk' = bk_caps bk"
    using assms(2) by (auto simp: no_files_def)
  moreover from this(2) have "EvOpen path \<notin> set new" for path by (force simp: list_all_iff)
  ultimately show ?thesis using assms(1,3) by (auto simp: nodes_inv_def)
qed

lemma nodes_inv_arrived: "nodes_inv E (arrived m h bk) = nodes_inv E bk"
  by (simp add: nodes_inv_def arrived_def)

lemma nodes_inv_dispatch:
  assumes inv: "nodes_inv E bk" and run: "dispatch E cap req bk = Some (r, bk')"
  shows "nodes_inv E bk'"
proof -
  consider (o) "msg_of req = Some Open" | (c) "msg_of req = Some Close" | (g) "msg_of req = Some GetSysFiles"
    | (x) "msg_of req \<noteq> Some Open" "msg_of req \<noteq> Some Close" "msg_of req \<noteq> Some GetSysFiles"
    by blast
  then show ?thesis
  proof cases
    case o
    define b1 where "b1 = arrived Open (mh_handle (dec_msg_header req)) bk"
    have b1: "nodes_inv E b1" using inv by (simp add: b1_def nodes_inv_arrived)
    note t = handle_open_trace [OF dispatch_open_close(1) [OF run o refl], folded b1_def]
    show ?thesis
    proof (cases "if length (drop 16 req) < 8 then None else open_at E (drop 16 req) b1")
      case None
      with t b1 show ?thesis by (simp add: nodes_inv_def)
    next
      case (Some path)
      then have "may_open E (bk_caps b1) path" using open_at_may_open [OF b1] by (simp split: if_splits)
      with t Some b1 show ?thesis by (auto simp: nodes_inv_def)
    qed
  next
    case c
    define b1 where "b1 = arrived Close (mh_handle (dec_msg_header req)) bk"
    obtain b2 where b2: "no_files b1 b2" "bk_dri_given b2 = bk_dri_given b1" "bk_caps bk' = bk_caps b2" "bk_dri_given bk' = bk_dri_given b2"
      and c2: "case map_of (ht_table (bk_handles b2)) (bk_handle b1) of None \<Rightarrow> bk' = b2
        | Some f \<Rightarrow> bk_trace bk' = EvClose f # bk_trace b2 \<and> bk_handles bk' = snd (ht_remove (bk_handles b2) (bk_handle b1))"
      using handle_close_trace [OF dispatch_open_close(2) [OF run c refl, folded b1_def]] by blast
    have "nodes_inv E b1" using inv by (simp add: b1_def nodes_inv_arrived)
    then have inv2: "nodes_inv E b2" by (rule nodes_inv_no_files [OF _ b2(1)]) (simp add: b2(2))
    have "bk_trace bk' = bk_trace b2 \<or> (\<exists>f. bk_trace bk' = EvClose f # bk_trace b2)" using c2 by (auto split: option.splits)
    then show ?thesis using inv2 b2 by (auto simp: nodes_inv_def)
  next
    case g
    have "no_files bk bk'" using other_messages [OF run] g by simp
    moreover have "\<exists>ds. bk_dri_given bk' = Some ds \<and> (ds = [] \<or> (\<exists>tr. ds = en_dri E tr))"
    proof -
      define a where "a = arrived GetSysFiles (mh_handle (dec_msg_header req)) bk"
      have "handle_get_files E Sys cap a = (r, bk')"
        using run g by (auto simp: a_def dispatch_def msg_of_def arrived_def Let_def split: if_splits)
      moreover have "bk_dri_given (snd (handle_get_files E Sys cap a)) =
          Some (if caps_has (bk_caps a) GRAPHICS then en_dri E (bk_trace a) else [])"
        by (simp add: handle_get_files_def write_dri_section_def Let_def)
      ultimately have "bk_dri_given bk' = Some (if caps_has (bk_caps a) GRAPHICS then en_dri E (bk_trace a) else [])" by simp
      then show ?thesis by (cases "caps_has (bk_caps a) GRAPHICS") auto
    qed
    ultimately show ?thesis using nodes_inv_no_files [OF inv] by blast
  next
    case x
    with other_messages [OF run] nodes_inv_no_files [OF inv] show ?thesis by blast
  qed
qed

lemma running_nodes_inv: "running E bk \<Longrightarrow> nodes_inv E bk"
proof (induction rule: running.induct)
  case (start bk)
  then show ?case using configured_files [OF start] by (simp add: nodes_inv_def)
next
  case (message bk cap req r bk')
  then show ?case using nodes_inv_dispatch by blast
next
  case (torn_down bk)
  obtain b where b: "teardown E bk = drain_handles b" "no_files bk b" "bk_dri_given b = bk_dri_given bk" using teardown_files by blast
  have inv: "nodes_inv E b" using nodes_inv_no_files [OF torn_down.IH b(2)] b(3) by blast
  have "EvOpen path \<in> set (bk_trace (fold (\<lambda>f. note_event (EvClose f)) fs c)) \<longleftrightarrow> EvOpen path \<in> set (bk_trace c)" for path fs c
    by (induction fs arbitrary: c) (simp_all add: note_event_def)
  then have "EvOpen path \<in> set (bk_trace (drain_handles b)) \<longleftrightarrow> EvOpen path \<in> set (bk_trace b)" for path
    by (simp add: drain_handles_def ht_drain_all_def)
  with inv show ?case by (simp add: b(1) nodes_inv_def drain_files)
qed (auto simp: nodes_inv_def set_window_def set_guest_ram_def take_watch_updates_def)

section \<open>Properties\<close>

text \<open>C6: No descriptor is lost or closed twice. In every state the backend can reach, the descriptors the host gave for its
  opens are exactly those it has closed and those its handle table holds, each as often; after a teardown it has closed
  all it was given.\<close>

theorem descriptors_accounted:
  assumes "running E bk" "length (opened E (bk_trace bk)) + 1 < 2 ^ 64"
  shows "mset (opened E (bk_trace bk)) = mset (closed (bk_trace bk)) + held bk \<and>
    mset (closed (bk_trace (teardown E bk))) = mset (opened E (bk_trace bk)) \<and> held (teardown E bk) = {#}"
proof -
  have a: "mset (opened E (bk_trace bk)) = mset (closed (bk_trace bk)) + held bk"
    using running_accounted [OF assms(1)] assms(2) by (simp add: accounted_def)
  obtain b where b: "teardown E bk = drain_handles b" "no_files bk b" using teardown_files by blast
  have "closed (bk_trace b) = closed (bk_trace bk)" "held b = held bk" using b(2) by (auto simp: no_files_def no_file_events held_def)
  with a show ?thesis by (simp add: b(1) drain_files held_new)
qed

lemma descriptors_accounted_witness:
  "opened sample_env (bk_trace sample_opened) = [40] \<and> held sample_opened = {#40#} \<and> closed (bk_trace (teardown sample_env sample_opened)) = [40]"
proof -
  have o: "opened sample_env (bk_trace sample_opened) = [40]"
    by (simp add: sample_opened_def sample_env_def)
  have h: "held sample_opened = {#40#}" by (simp add: held_def sample_opened_fields)
  have "mset (closed (bk_trace (teardown sample_env sample_opened))) = {#40#}"
    using descriptors_accounted [OF sample_opened_running] by (simp add: o)
  with o h show ?thesis by (simp add: mset_single_iff)
qed

text \<open>C7: Whatever a guest sends over its whole life, the backend opens nothing on the host but the driver's own nodes, UVM
  only with compute and the modeset device only with graphics, and, with graphics, render nodes that the kernel has listed
  under one of the driver's GPUs; never a card node or any other file.\<close>

theorem only_listed_nodes_opened:
  assumes "running E bk" "\<And>tr. reads_from E tr (F tr)" "EvOpen path \<in> set (bk_trace bk)"
  shows "(\<exists>n < 8. path = ''/dev/nvidia'' @ show_nat n) \<or> path = ''/dev/nvidiactl'' \<or>
    caps_has (bk_caps bk) COMPUTE \<and> path = ''/dev/nvidia-uvm'' \<or>
    caps_has (bk_caps bk) GRAPHICS \<and>
      (path = ''/dev/nvidia-modeset'' \<or> (\<exists>tr d. offered (F tr) d \<and> is_render (dd_name d) \<and> path = ''/dev/dri/'' @ dd_name d))"
proof -
  have "may_open E (bk_caps bk) path" using running_nodes_inv [OF assms(1)] assms(3) by (simp add: nodes_inv_def)
  moreover have "offered (F tr) d \<and> is_render (dd_name d)" if "d \<in> set (en_dri E tr)" for tr d
  proof -
    have "offered (F tr) d" using that assms(2) [of tr] by (simp add: reads_from_def dri_devices_offered)
    then show ?thesis by (auto simp: offered_def)
  qed
  ultimately show ?thesis unfolding may_open_def by metis
qed

lemma only_listed_nodes_opened_witness:
  "\<exists>bk. running sample_host bk \<and> EvOpen ''/dev/dri/renderD128'' \<in> set (bk_trace bk) \<and>
     (\<exists>d. offered sample_fs d \<and> is_render (dd_name d) \<and> ''/dev/dri/renderD128'' = ''/dev/dri/'' @ dd_name d)"
proof -
  let ?p = "enc_open_req \<lparr>or_device_type = 512, or_flags = 0\<rparr>"
  let ?b0 = "arrived GetSysFiles 0 sample_new"
  obtain b bk1 where g: "handle_get_files sample_host Sys 16384 ?b0 = (b, bk1)" by (metis prod.exhaust)
  let ?b2 = "arrived Open 0 bk1"
  obtain r bk2 where o: "handle_open sample_host 64 ?p ?b2 = (r, bk2)" by (metis prod.exhaust)
  have d1: "dispatch sample_host 16384 (request GetSysFiles 0 []) sample_new = Some (b, bk1)"
    using g by (simp add: dispatch_request)
  have d2: "dispatch sample_host 64 (request Open 0 ?p) bk1 = Some (r, bk2)" using o by (simp add: dispatch_request)
  have run: "running sample_host bk2" by (rule running.message [OF running.message [OF sample_new_running d1] d2])
  have p: "dec_open_req ?p = \<lparr>or_device_type = 512, or_flags = 0\<rparr>"
    using oreq.dec_enc [of "\<lparr>or_device_type = 512, or_flags = 0\<rparr>" "[]"] by (simp add: open_req_wf_def)
  have k: "device_kind_from_type 512 = Some (Dri 0)" by (simp add: device_kind_from_type_def)
  have b1: "bk_caps bk1 = bk_caps sample_new \<and> bk_dri_given bk1 = Some [sample_node]"
    using g sample_host_reads [of "bk_trace sample_new"] sample_listing(2,3)
    by (auto simp: handle_get_files_def write_dri_section_def reads_from_def Let_def sample_fields split: if_splits)
  have "open_at sample_host ?p ?b2 = Some ''/dev/dri/renderD128''"
    using b1 sample_listing(3)
    by (simp add: open_at_def p k open_refusal_def device_path_with_def sample_node_def Let_def arrived_def)
  then have "EvOpen ''/dev/dri/renderD128'' \<in> set (bk_trace bk2)"
    using handle_open_trace [OF o] by (simp add: oreq.length_enc)
  moreover from only_listed_nodes_opened [OF run sample_host_reads this]
  have "\<exists>d. offered sample_fs d \<and> is_render (dd_name d) \<and> ''/dev/dri/renderD128'' = ''/dev/dri/'' @ dd_name d" by auto
  ultimately show ?thesis using run by blast
qed

end
