(* ===== verification/Pools.thy ===== *)
theory Pools
  imports Descriptors
begin

text \<open>
  The semaphore pools of a backend over its whole life: what the trace of its actions shows the guest in the aperture, and
  that it is what the books of the aperture say, pool by pool, backed by files that are still open. Last, what is
  not withdrawn from the shared window.
\<close>

section \<open>What the guest is shown\<close>

text \<open>The pools the VMM has placed and not withdrawn: offset, length, file and host address.\<close>

fun pools_shown :: "env \<Rightarrow> event list \<Rightarrow> (nat \<times> nat \<times> fd \<times> nat) list" where
  "pools_shown E [] = []"
| "pools_shown E (e # tr) =
     (case e of
        EvPlacePool off len f addr \<Rightarrow>
          if en_place_pool E tr off len f addr then (off, len, f, addr) # pools_shown E tr else pools_shown E tr
      | EvWithdrawPool off len \<Rightarrow> filter (\<lambda>(o', l', _). \<not> (o' = off \<and> l' = len)) (pools_shown E tr)
      | _ \<Rightarrow> pools_shown E tr)"

text \<open>The placements asked for; each gives out at most one mapping id.\<close>

fun placements :: "event list \<Rightarrow> nat" where
  "placements [] = 0"
| "placements (e # tr) =
     (case e of EvPlace off len f o' \<Rightarrow> Suc (placements tr) | EvPlacePool off len f a \<Rightarrow> Suc (placements tr) | _ \<Rightarrow> placements tr)"

definition pools_held :: "backend \<Rightarrow> (nat \<times> nat \<times> fd option \<times> nat) set" where
  "pools_held bk =
     (\<lambda>(i, p). (po_offset p, po_len p, ht_get_raw (bk_handles bk) (po_handle p), po_addr p)) ` set (bk_aperture bk)"

definition pools_match :: "env \<Rightarrow> backend \<Rightarrow> bool" where
  "pools_match E bk \<longleftrightarrow>
     (\<lambda>(off, len, f, addr). (off, len, Some f, addr)) ` set (pools_shown E (bk_trace bk)) = pools_held bk"

text \<open>The account is kept as long as neither counter of names has gone round.\<close>

definition names_left :: "env \<Rightarrow> backend \<Rightarrow> bool" where
  "names_left E bk \<longleftrightarrow> placements (bk_trace bk) + 1 < 2 ^ 32 \<and> length (opened E (bk_trace bk)) + 1 < 2 ^ 64"

definition pools_kept :: "env \<Rightarrow> backend \<Rightarrow> bool" where
  "pools_kept E bk \<longleftrightarrow>
     (\<forall>(i, p) \<in> set (bk_aperture bk). i < bk_next_mapping_id bk \<and> map_of (bk_kinds bk) (po_handle p) = Some Uvm) \<and>
     bk_next_mapping_id bk \<le> placements (bk_trace bk) + 1 \<and> pools_match E bk"

definition pools_inv :: "env \<Rightarrow> backend \<Rightarrow> bool" where
  "pools_inv E bk \<longleftrightarrow> ap_inv (bk_aperture bk) \<and> (bk_window bk \<or> bk_aperture bk = []) \<and> (names_left E bk \<longrightarrow> pools_kept E bk)"

section \<open>Steps that are not about pools\<close>

definition plain_event :: "event \<Rightarrow> bool" where
  "plain_event e \<longleftrightarrow> \<not> pool_event e \<and> \<not> file_event e"

interpretation qpl: call_policy plain_event bk for bk
  by unfold_locales (simp_all add: plain_event_def)

lemma plain_opened: "list_all plain_event new \<Longrightarrow> opened E (new @ tr) = opened E tr"
  by (rule no_file_events) (auto simp: plain_event_def list_all_iff)

lemma no_pool_events:
  "list_all (\<lambda>e. \<not> pool_event e) new \<Longrightarrow> pools_shown E (new @ tr) = pools_shown E tr"
  by (induction new) (auto simp: pool_event_def split: event.splits)

lemma placements_append: "placements (new @ tr) = placements new + placements tr"
  by (induction new) (auto split: event.splits)

definition same_names :: "backend \<Rightarrow> backend \<Rightarrow> bool" where
  "same_names bk bk' \<longleftrightarrow> bk_handles bk' = bk_handles bk \<and> bk_kinds bk' = bk_kinds bk \<and> bk_window bk' = bk_window bk \<and>
     bk_aperture bk' = bk_aperture bk"

lemma pools_inv_plain:
  assumes inv: "pools_inv E bk" and same: "same_names bk bk'"
    and tr: "bk_trace bk' = new @ bk_trace bk" "list_all plain_event new"
    and i: "bk_next_mapping_id bk' = bk_next_mapping_id bk \<or>
      bk_next_mapping_id bk' = next_id (bk_next_mapping_id bk) \<and> 0 < placements new"
  shows "pools_inv E bk'"
proof -
  have shown: "pools_shown E (bk_trace bk') = pools_shown E (bk_trace bk)"
    unfolding tr(1) using tr(2) by (intro no_pool_events) (auto simp: plain_event_def list_all_iff)
  have n: "placements (bk_trace bk') = placements new + placements (bk_trace bk)" by (simp add: tr(1) placements_append)
  have o: "opened E (bk_trace bk') = opened E (bk_trace bk)" unfolding tr(1) using tr(2) by (rule plain_opened)
  have "pools_kept E bk'" if left: "names_left E bk'"
  proof -
    have "names_left E bk" using left n o by (simp add: names_left_def)
    with inv have k: "pools_kept E bk" by (simp add: pools_inv_def)
    then have b: "bk_next_mapping_id bk + 1 \<le> placements (bk_trace bk) + 2" by (simp add: pools_kept_def)
    have "bk_next_mapping_id bk \<le> bk_next_mapping_id bk' \<and> bk_next_mapping_id bk' \<le> placements (bk_trace bk') + 1"
    proof (cases "bk_next_mapping_id bk' = bk_next_mapping_id bk")
      case True
      with b n show ?thesis by simp
    next
      case False
      with i have i': "bk_next_mapping_id bk' = next_id (bk_next_mapping_id bk)" "0 < placements new" by blast+
      have "bk_next_mapping_id bk + 1 < 2 ^ 32" using b n i'(2) left by (simp add: names_left_def)
      then show ?thesis using b n i' by (simp add: next_id_def)
    qed
    with k same shown show ?thesis
      by (fastforce simp: pools_kept_def same_names_def pools_match_def pools_held_def)
  qed
  with inv same show ?thesis by (simp add: pools_inv_def same_names_def)
qed

lemma pools_inv_quiet:
  assumes "pools_inv E bk" "step_ok plain_event (Keep True True) bk bk'"
  shows "pools_inv E bk'"
proof -
  obtain new where "bk_trace bk' = new @ bk_trace bk" "list_all plain_event new" using assms(2) by (auto simp: step_ok_def frame_ok_def)
  with assms show ?thesis by (intro pools_inv_plain [OF assms(1)]) (auto simp: step_ok_def frame_ok_def same_names_def)
qed

section \<open>Taking pools out\<close>

text \<open>Withdrawing a list of pools.\<close>

definition withdraw :: "(nat \<times> pool) list \<Rightarrow> backend \<Rightarrow> backend" where
  "withdraw ps bk = fold (\<lambda>(i, p). unmap_uvm_pool i p) ps bk"

lemma withdraw_trace:
  assumes "bk_window bk"
  shows "withdraw ps bk = bk\<lparr>bk_trace := rev (map (\<lambda>(i, p). EvWithdrawPool (po_offset p) (po_len p)) ps) @ bk_trace bk\<rparr>"
  using assms unfolding withdraw_def
  by (induction ps arbitrary: bk) (auto simp: unmap_uvm_pool_def note_event_def)

lemma shown_withdrawn:
  "pools_shown E (rev (map (\<lambda>(i, p). EvWithdrawPool (po_offset p) (po_len p)) ps) @ tr) =
     filter (\<lambda>(off, len, _). \<forall>(i, p) \<in> set ps. \<not> (off = po_offset p \<and> len = po_len p)) (pools_shown E tr)"
proof (induction ps arbitrary: tr)
  case (Cons x ps)
  obtain i p where x: "x = (i, p)" by (cases x)
  show ?case using Cons [of "EvWithdrawPool (po_offset p) (po_len p) # tr"] by (auto simp: x intro!: filter_cong)
qed simp

lemma other_trace_withdrawn:
  "placements (rev (map (\<lambda>(i, p). EvWithdrawPool (po_offset p) (po_len p)) ps) @ tr) = placements tr"
  "opened E (rev (map (\<lambda>(i, p). EvWithdrawPool (po_offset p) (po_len p)) ps) @ tr) = opened E tr"
  by (induction ps arbitrary: tr) auto

lemma withdraw_aperture [simp]: "bk_aperture (withdraw ps bk) = bk_aperture bk"
  unfolding withdraw_def by (induction ps arbitrary: bk) (auto simp: unmap_uvm_pool_def note_event_def)

lemma image_filter_through: "(\<And>x. x \<in> S \<Longrightarrow> Q (f x) \<longleftrightarrow> P x) \<Longrightarrow> f ` {x \<in> S. P x} = {y \<in> f ` S. Q y}"
  by auto

lemma pools_match_filter:
  assumes inv: "ap_inv (bk_aperture bk)" and match: "pools_match E bk"
    and ps: "set ps = {x \<in> set (bk_aperture bk). \<not> Q x}"
    and shown: "pools_shown E (bk_trace bk') =
      filter (\<lambda>(off, len, _). \<forall>(i, p) \<in> set ps. \<not> (off = po_offset p \<and> len = po_len p)) (pools_shown E (bk_trace bk))"
    and same: "bk_aperture bk' = filter Q (bk_aperture bk)" "bk_handles bk' = bk_handles bk"
  shows "pools_match E bk'"
proof -
  let ?key = "\<lambda>(i, p). (po_offset p, po_len p, ht_get_raw (bk_handles bk) (po_handle p), po_addr p)"
  let ?some = "\<lambda>(off, len, f, addr). (off, len, Some f, addr)"
  let ?in = "\<lambda>(off, len, _). \<forall>(i, p) \<in> set ps. \<not> (off = po_offset p \<and> len = po_len p)"
  have q: "?in (?key x) \<longleftrightarrow> Q x" if x: "x \<in> set (bk_aperture bk)" for x
  proof -
    have "y = x" if "y \<in> set ps" "po_offset (snd y) = po_offset (snd x)" for y
      using that ap_inv_offset [OF inv, of "fst y" "snd y" "fst x" "snd x"] x ps by auto
    then have "?in (?key x) \<longleftrightarrow> x \<notin> set ps" by (auto simp: case_prod_beta)
    then show ?thesis using x ps by simp
  qed
  have "?some ` set (pools_shown E (bk_trace bk')) = {y \<in> ?some ` set (pools_shown E (bk_trace bk)). ?in y}"
    unfolding shown set_filter by (rule image_filter_through) auto
  also have "\<dots> = {y \<in> ?key ` set (bk_aperture bk). ?in y}" using match by (simp add: pools_match_def pools_held_def)
  also have "\<dots> = ?key ` {x \<in> set (bk_aperture bk). Q x}" by (rule image_filter_through [symmetric], rule q)
  finally show ?thesis by (simp add: pools_match_def pools_held_def same)
qed

lemma pools_inv_withdraw:
  assumes inv: "pools_inv E bk" and ps: "set ps = {x \<in> set (bk_aperture bk). \<not> Q x}"
  shows "pools_inv E (withdraw ps (bk\<lparr>bk_aperture := filter Q (bk_aperture bk)\<rparr>))"
proof -
  define b where "b = bk\<lparr>bk_aperture := filter Q (bk_aperture bk)\<rparr>"
  define tr where "tr = rev (map (\<lambda>(i, p). EvWithdrawPool (po_offset p) (po_len p)) ps) @ bk_trace bk"
  have ap: "ap_inv (bk_aperture bk)" and win: "bk_window bk \<or> bk_aperture bk = []" using inv by (simp_all add: pools_inv_def)
  have w: "withdraw ps b = b\<lparr>bk_trace := tr\<rparr>"
  proof (cases "bk_window bk")
    case True
    then show ?thesis using withdraw_trace [of b ps] by (simp add: b_def tr_def)
  next
    case False
    with win ps have "ps = []" by simp
    then show ?thesis by (simp add: withdraw_def tr_def b_def)
  qed
  have "pools_kept E (b\<lparr>bk_trace := tr\<rparr>)" if "names_left E (b\<lparr>bk_trace := tr\<rparr>)"
  proof -
    have "names_left E bk" using that by (simp add: names_left_def tr_def other_trace_withdrawn)
    with inv have k: "pools_kept E bk" by (simp add: pools_inv_def)
    then have "pools_match E bk" by (simp add: pools_kept_def)
    then have "pools_match E (b\<lparr>bk_trace := tr\<rparr>)"
      by (rule pools_match_filter [OF ap _ ps]) (simp_all add: tr_def shown_withdrawn b_def)
    with k show ?thesis by (simp add: pools_kept_def b_def tr_def other_trace_withdrawn)
  qed
  then show ?thesis using ap win ap_inv_filter [OF ap, of Q] unfolding b_def [symmetric] w
    by (auto simp: pools_inv_def b_def)
qed

lemma pools_inv_drop_pools: "pools_inv E bk \<Longrightarrow> pools_inv E (drop_pools_for_file h bk)"
proof -
  assume inv: "pools_inv E bk"
  then have "ap_inv (bk_aperture bk)" by (simp add: pools_inv_def)
  note t = ap_take_for_handle_spec [OF this, of h]
  have "drop_pools_for_file h bk = withdraw (fst (ap_take_for_handle h (bk_aperture bk)))
      (bk\<lparr>bk_aperture := filter (\<lambda>x. po_handle (snd x) \<noteq> h) (bk_aperture bk)\<rparr>)"
    unfolding t(2) [symmetric] by (simp add: drop_pools_for_file_def withdraw_def case_prod_beta)
  then show ?thesis using pools_inv_withdraw [OF inv] t(1) by simp
qed

section \<open>Placing a pool\<close>

lemma pools_inv_map_uvm_pool:
  assumes inv: "pools_inv E bk" and uvm: "map_of (bk_kinds bk) (bk_handle bk) = Some Uvm"
  shows "pools_inv E (snd (map_uvm_pool E cap sz off bk))"
proof (cases "ht_get_raw (bk_handles bk) (bk_handle bk) = None \<or> \<not> bk_window bk \<or> (\<exists>e. ap_admit (bk_aperture bk) (bk_handle bk) off sz = Inl e)")
  case True
  then have "snd (map_uvm_pool E cap sz off bk) = bk" by (auto simp: map_uvm_pool_def Let_def split: option.splits sum.splits)
  with inv show ?thesis by simp
next
  case False
  then obtain f p where f: "ht_get_raw (bk_handles bk) (bk_handle bk) = Some f" and win: "bk_window bk"
    and p: "ap_admit (bk_aperture bk) (bk_handle bk) off sz = Inr p" by (metis not_None_eq sum.exhaust)
  define e where "e = EvPlacePool (po_offset p) (po_len p) f (po_addr p)"
  define ok where "ok = en_place_pool E (bk_trace bk) (po_offset p) (po_len p) f (po_addr p)"
  define i where "i = bk_next_mapping_id bk"
  define bk' where "bk' = (if ok then note_event e bk\<lparr>bk_next_mapping_id := next_id i, bk_aperture := ap_insert i p (bk_aperture bk)\<rparr>
      else note_event e bk)"
  have run: "snd (map_uvm_pool E cap sz off bk) = bk'"
    using f win p by (simp add: map_uvm_pool_def Let_def bk'_def e_def ok_def i_def note_event_def)
  have ap: "ap_inv (bk_aperture bk)" using inv by (simp add: pools_inv_def)
  note h = ap_admit_ok(5) [OF ap p]
  have tr: "bk_trace bk' = e # bk_trace bk" by (simp add: bk'_def note_event_def)
  have n: "placements (bk_trace bk') = placements (bk_trace bk) + 1" "opened E (bk_trace bk') = opened E (bk_trace bk)"
    "pools_shown E (bk_trace bk') =
       (if ok then (po_offset p, po_len p, f, po_addr p) # pools_shown E (bk_trace bk) else pools_shown E (bk_trace bk))"
    by (simp_all add: tr e_def ok_def)
  have "pools_kept E bk'" if left: "names_left E bk'"
  proof -
    have "names_left E bk" using left n by (simp add: names_left_def)
    with inv have k: "\<forall>(i, p) \<in> set (bk_aperture bk). i < bk_next_mapping_id bk \<and> map_of (bk_kinds bk) (po_handle p) = Some Uvm"
        "i \<le> placements (bk_trace bk) + 1" "pools_match E bk"
      by (simp_all add: pools_inv_def pools_kept_def i_def)
    show ?thesis
    proof (cases ok)
      case False
      with k n show ?thesis by (simp add: bk'_def pools_kept_def pools_match_def pools_held_def i_def note_event_def)
    next
      case True
      have "i + 1 < 2 ^ 32" using k(2) n(1) left by (simp add: names_left_def)
      then have next': "next_id i = i + 1" by (simp add: next_id_def)
      have "i \<notin> fst ` set (bk_aperture bk)" using k(1) by (auto simp: i_def)
      from set_bt_insert_new [OF this, of p] True have s: "set (bk_aperture bk') = insert (i, p) (set (bk_aperture bk))"
        by (simp add: bk'_def ap_insert_def)
      have same: "bk_handles bk' = bk_handles bk" "bk_kinds bk' = bk_kinds bk" "bk_next_mapping_id bk' = i + 1"
        using True next' by (simp_all add: bk'_def note_event_def)
      have "pools_match E bk'" using k(3) True f h by (simp add: pools_match_def pools_held_def n s same)
      moreover have "\<forall>(j, q) \<in> set (bk_aperture bk'). j < i + 1 \<and> map_of (bk_kinds bk) (po_handle q) = Some Uvm"
        using k(1) uvm h by (auto simp: s i_def)
      ultimately show ?thesis using k(2) n(1) by (simp add: pools_kept_def same)
    qed
  qed
  moreover have "ap_inv (bk_aperture bk')" "bk_window bk'"
    using ap ap_inv_place [OF ap p] win by (simp_all add: bk'_def note_event_def)
  ultimately show ?thesis unfolding run by (simp add: pools_inv_def)
qed

section \<open>The messages\<close>

lemma unrecorded_same:
  "same_names bk (snd (map_unrecorded E cap sz off bk)) \<and>
   (let bk' = snd (map_unrecorded E cap sz off bk) in
      \<exists>new. bk_trace bk' = new @ bk_trace bk \<and> list_all plain_event new \<and>
        (bk_next_mapping_id bk' = bk_next_mapping_id bk \<or>
         bk_next_mapping_id bk' = next_id (bk_next_mapping_id bk) \<and> 0 < placements new))"
  by (auto simp: map_unrecorded_def place_unrecorded_def shm_release_def note_event_def same_names_def plain_event_def Let_def
      split: option.splits prod.splits)

lemma pools_inv_mmap:
  assumes "pools_inv E bk"
  shows "pools_inv E (snd (handle_mmap E cap payload bk))"
proof -
  have u: "pools_inv E (snd (map_unrecorded E cap sz off bk))" for sz off
    using unrecorded_same [of bk E cap sz off] unfolding Let_def by (blast intro: pools_inv_plain [OF assms])
  show ?thesis
    using assms u pools_inv_map_uvm_pool [OF assms]
    by (auto simp: handle_mmap_def Let_def split: option.splits device_kind.splits)
qed

lemma pools_inv_munmap:
  assumes inv: "pools_inv E bk"
  shows "pools_inv E (snd (handle_munmap E cap payload bk))"
proof (cases "length payload < 8")
  case True
  with inv show ?thesis by (simp add: handle_munmap_def)
next
  case False
  define i where "i = ur_mapping_id (dec_munmap_req payload)"
  show ?thesis
  proof (cases "map_of (bk_aperture bk) i")
    case (Some p)
    have d: "keys_distinct (bk_aperture bk)" using inv ap_inv_distinct by (simp add: pools_inv_def)
    then have "(i, q) \<in> set (bk_aperture bk) \<longleftrightarrow> q = p" for q using Some map_of_eq_Some_iff [OF d, of i q] by auto
    then have "set [(i, p)] = {x \<in> set (bk_aperture bk). \<not> (case x of (j, q) \<Rightarrow> j \<noteq> i)}" by force
    from pools_inv_withdraw [OF inv this] False Some show ?thesis
      by (simp add: handle_munmap_def ap_remove_def bt_remove_def withdraw_def i_def Let_def)
  next
    case None
    have "frame_ok plain_event (Keep True True) bk (snd (handle_munmap E cap payload bk))"
      using False None
      by (auto simp: handle_munmap_def ap_remove_def i_def plain_event_def Let_def split: option.splits prod.splits
          intro!: frame_note qpl.frame_shm_release)
    then show ?thesis using window_step_munmap by (intro pools_inv_quiet [OF inv]) (simp add: step_ok_def)
  qed
qed

lemma pools_match_open:
  assumes "pools_match E bk" "(i, p) \<in> set (bk_aperture bk)"
  shows "ht_get_raw (bk_handles bk) (po_handle p) \<noteq> None"
proof -
  have "(po_offset p, po_len p, ht_get_raw (bk_handles bk) (po_handle p), po_addr p) \<in> pools_held bk"
    unfolding pools_held_def using assms(2) by (rule rev_image_eqI) simp
  then have "(po_offset p, po_len p, ht_get_raw (bk_handles bk) (po_handle p), po_addr p) \<in>
      (\<lambda>(off, len, f, addr). (off, len, Some f, addr)) ` set (pools_shown E (bk_trace bk))"
    using assms(1) by (simp only: pools_match_def)
  then show ?thesis by (elim imageE) (auto split: prod.splits)
qed

text \<open>Opening gives a handle that no pool has; closing takes the pools of its handle with it.\<close>

lemma pools_inv_handles:
  assumes inv: "pools_inv E bk" and same: "bk_aperture bk' = bk_aperture bk" "bk_window bk' = bk_window bk"
      "bk_next_mapping_id bk' = bk_next_mapping_id bk"
    and left: "names_left E bk' \<Longrightarrow> names_left E bk \<and> pools_shown E (bk_trace bk') = pools_shown E (bk_trace bk) \<and>
        placements (bk_trace bk) \<le> placements (bk_trace bk')"
    and at: "\<And>p i. names_left E bk' \<Longrightarrow> (i, p) \<in> set (bk_aperture bk) \<Longrightarrow> ht_get_raw (bk_handles bk) (po_handle p) \<noteq> None \<Longrightarrow>
        map_of (bk_kinds bk) (po_handle p) = Some Uvm \<Longrightarrow>
        ht_get_raw (bk_handles bk') (po_handle p) = ht_get_raw (bk_handles bk) (po_handle p) \<and>
        map_of (bk_kinds bk') (po_handle p) = Some Uvm"
  shows "pools_inv E bk'"
proof -
  have "pools_kept E bk'" if n: "names_left E bk'"
  proof -
    have k: "pools_kept E bk" using inv left [OF n] by (simp add: pools_inv_def)
    have "ht_get_raw (bk_handles bk) (po_handle p) \<noteq> None" if "(i, p) \<in> set (bk_aperture bk)" for i p
      using k pools_match_open [OF _ that, of E] by (simp add: pools_kept_def)
    then have at': "ht_get_raw (bk_handles bk') (po_handle p) = ht_get_raw (bk_handles bk) (po_handle p) \<and>
        map_of (bk_kinds bk') (po_handle p) = Some Uvm" if "(i, p) \<in> set (bk_aperture bk)" for i p
      using at [OF n that] k that by (auto simp: pools_kept_def)
    then have "pools_held bk' = pools_held bk" unfolding pools_held_def same by (intro image_cong) auto
    moreover have "\<forall>(i, p) \<in> set (bk_aperture bk'). i < bk_next_mapping_id bk' \<and> map_of (bk_kinds bk') (po_handle p) = Some Uvm"
      using k at' by (auto simp: pools_kept_def same)
    ultimately show ?thesis using k left [OF n] by (simp add: pools_kept_def pools_match_def same)
  qed
  with inv show ?thesis by (simp add: pools_inv_def same)
qed

interpretation opf: file_filter "\<lambda>e. \<not> pool_event e"
  by unfold_locales (auto simp: pool_event_def file_event_def split: event.splits)

lemma pools_inv_open:
  assumes inv: "pools_inv E bk" and acc: "accounted E bk"
  shows "pools_inv E (snd (handle_open E cap payload bk))"
proof -
  obtain r bk' where run: "handle_open E cap payload bk = (r, bk')" by (metis prod.exhaust)
  have st: "step_ok (\<lambda>e. \<not> pool_event e) (Keep False True) bk bk'" using opf.step_handle_open [of True bk E cap payload] run by simp
  then obtain new where tr: "bk_trace bk' = new @ bk_trace bk" "list_all (\<lambda>e. \<not> pool_event e) new" by (auto simp: step_ok_def frame_ok_def)
  note t = handle_open_trace [OF run] and k = handle_open_files [OF run]
  have o: "length (opened E (bk_trace bk)) \<le> length (opened E (bk_trace bk'))"
    using t by (auto split: option.splits sum.splits)
  have left: "names_left E bk \<and> pools_shown E (bk_trace bk') = pools_shown E (bk_trace bk) \<and>
      placements (bk_trace bk) \<le> placements (bk_trace bk')" if "names_left E bk'"
    using that o tr no_pool_events [OF tr(2)] by (simp add: names_left_def placements_append)
  have "pools_inv E bk'"
  proof (rule pools_inv_handles [OF inv _ _ _ left])
    fix i and p :: pool assume n: "names_left E bk'" and h: "ht_get_raw (bk_handles bk) (po_handle p) \<noteq> None" "map_of (bk_kinds bk) (po_handle p) = Some Uvm"
    have "ht_inv (bk_handles bk)" using acc left [OF n] by (simp add: accounted_def names_left_def)
    then have "ht_get_raw (bk_handles bk) (ht_next (bk_handles bk)) = None"
      using ht_inv_fresh by (simp add: ht_get_raw_def)
    with h(1) have "po_handle p \<noteq> ht_next (bk_handles bk)" by auto
    moreover have "bk_handles bk' = bk_handles bk \<and> bk_kinds bk' = bk_kinds bk \<or>
        (\<exists>f k. ht_get_raw (bk_handles bk') = (ht_get_raw (bk_handles bk))(ht_next (bk_handles bk) \<mapsto> f) \<and>
           bk_kinds bk' = AList.update (ht_next (bk_handles bk)) k (bk_kinds bk))"
    proof -
      have "h = ht_next (bk_handles bk)" if "ht_insert (bk_handles bk) f = (h, t)" for f h t using that by (simp add: ht_insert_def)
      then show ?thesis using k ht_insert_get by blast
    qed
    ultimately show "ht_get_raw (bk_handles bk') (po_handle p) = ht_get_raw (bk_handles bk) (po_handle p) \<and>
        map_of (bk_kinds bk') (po_handle p) = Some Uvm"
      using h(2) by (auto simp: update_conv')
  qed (use st in \<open>auto simp: step_ok_def frame_ok_def\<close>)
  then show ?thesis by (simp add: run)
qed

lemma pools_inv_close:
  assumes inv: "pools_inv E bk" and acc: "accounted E bk"
  shows "pools_inv E (snd (handle_close E cap bk))"
proof -
  let ?h = "bk_handle bk"
  define b1 where "b1 = fold (\<lambda>e. shm_release E (me_region e)) (fst (mc_take_for_fd ?h (bk_active bk)))
      (bk\<lparr>bk_active := snd (mc_take_for_fd ?h (bk_active bk))\<rparr>)"
  define b2 where "b2 = (if map_of (bk_kinds b1) ?h = Some Uvm then drop_pools_for_file ?h b1 else b1)"
  define b where "b = release_file E bk"
  have s1: "step_ok plain_event (Keep True True) bk b1"
    unfolding b1_def using mc_take_sub by (intro qpl.step_release_active) auto
  then have i1: "pools_inv E b1" by (rule pools_inv_quiet [OF inv])
  then have i2: "pools_inv E b2" by (simp add: b2_def pools_inv_drop_pools)
  have "b = drop_registrations_for_file ?h
      (if map_of (bk_kinds b2) ?h = Some Ctl then b2\<lparr>bk_vram := vram_file_closed ?h (bk_vram b2)\<rparr> else b2)"
    unfolding b_def release_file_def b1_def b2_def by (simp add: Let_def case_prod_beta)
  then have s2: "step_ok plain_event (Keep True True) b2 b"
    by (auto simp: drop_registrations_for_file_def intro!: qpl.step_retain)
  then have ib: "pools_inv E b" by (rule pools_inv_quiet [OF i2])
  have gone: "po_handle p \<noteq> ?h" if m: "(i, p) \<in> set (bk_aperture b)" "map_of (bk_kinds b) (po_handle p) = Some Uvm" for i p
  proof
    assume h: "po_handle p = ?h"
    have "bk_kinds b = bk_kinds b2" "bk_aperture b = bk_aperture b2" using s2 by (simp_all add: step_ok_def frame_ok_def)
    moreover have "bk_kinds b2 = bk_kinds b1"
      using step_no_files [OF ofp.step_drop_pools [OF step_refl]] by (simp add: b2_def no_files_def)
    ultimately have "b2 = drop_pools_for_file ?h b1" using m(2) h by (simp add: b2_def)
    moreover have "ap_inv (bk_aperture b1)" using i1 by (simp add: pools_inv_def)
    from ap_take_for_handle_spec(2) [OF this, of ?h]
    have "bk_aperture (drop_pools_for_file ?h b1) = filter (\<lambda>x. po_handle (snd x) \<noteq> ?h) (bk_aperture b1)"
      by (simp add: drop_pools_for_file_def case_prod_beta withdraw_def [symmetric])
    ultimately show False using m(1) h \<open>bk_aperture b = bk_aperture b2\<close> by auto
  qed
  show ?thesis
  proof (cases "map_of (ht_table (bk_handles b)) ?h")
    case None
    then have "snd (handle_close E cap bk) = b" by (simp add: handle_close_def b_def [symmetric] ht_remove_def Let_def)
    with ib show ?thesis by simp
  next
    case (Some f)
    let ?t = "snd (ht_remove (bk_handles b) ?h)"
    define c where "c = note_event (EvClose f) (b\<lparr>bk_handles := ?t, bk_watch_removed := bk_watch_removed b @ [?h]\<rparr>)"
    have run: "snd (handle_close E cap bk) = c"
      using Some by (simp add: handle_close_def b_def [symmetric] ht_remove_def Let_def c_def)
    have t: "ht_get_raw ?t = (ht_get_raw (bk_handles b))(?h := None)" using ht_remove_get by (metis prod.collapse)
    have "pools_inv E c"
    proof (rule pools_inv_handles [OF ib])
      fix p i assume "(i, p) \<in> set (bk_aperture b)" "map_of (bk_kinds b) (po_handle p) = Some Uvm"
      with gone show "ht_get_raw (bk_handles c) (po_handle p) = ht_get_raw (bk_handles b) (po_handle p) \<and>
          map_of (bk_kinds c) (po_handle p) = Some Uvm"
        by (simp add: c_def note_event_def t)
    qed (simp_all add: c_def note_event_def names_left_def)
    then show ?thesis by (simp add: run)
  qed
qed

lemma pools_inv_arrived: "pools_inv E (arrived m h bk) = pools_inv E bk"
  by (simp add: pools_inv_def pools_kept_def pools_match_def pools_held_def names_left_def arrived_def)

lemma pools_inv_msg [simp]: "pools_inv E (bk\<lparr>bk_msg := m\<rparr>) = pools_inv E bk"
  by (simp add: pools_inv_def pools_kept_def pools_match_def pools_held_def names_left_def)

lemma pools_inv_dispatch:
  assumes inv: "pools_inv E bk" and acc: "accounted E bk" and run: "dispatch E cap req bk = Some (r, bk')"
  shows "pools_inv E bk'"
proof (cases "msg_of req")
  case None
  with run inv show ?thesis by (auto simp: dispatch_def msg_of_def Let_def split: if_splits)
next
  case (Some m)
  define a where "a = arrived m (mh_handle (dec_msg_header req)) bk"
  have ia: "pools_inv E a" using inv by (simp add: a_def pools_inv_arrived)
  have ca: "accounted E a" using acc by (simp add: a_def accounted_def held_def)
  have st: "x = (r, bk') \<Longrightarrow> pools_inv E (snd x) \<Longrightarrow> pools_inv E bk'" for x by simp
  have gf: "pools_inv E (snd (handle_get_files E t cap a))" for t
    using ia by (cases t) (simp_all add: handle_get_files_def write_dri_section_def Let_def pools_inv_def pools_kept_def
        pools_match_def pools_held_def names_left_def)
  have io: "pools_inv E bk'" if "handle_ioctl E cap (drop 16 req) a = Some (r, bk')"
    by (rule pools_inv_quiet [OF ia qpl.step_handle_ioctl [OF that refl]])
  have run': "(case m of
       Open \<Rightarrow> Some (handle_open E cap (drop 16 req) a) | Close \<Rightarrow> Some (handle_close E cap a)
     | Ioctl \<Rightarrow> handle_ioctl E cap (drop 16 req) a | Mmap \<Rightarrow> Some (handle_mmap E cap (drop 16 req) a)
     | Munmap \<Rightarrow> Some (handle_munmap E cap (drop 16 req) a)
     | GetProcFiles \<Rightarrow> Some (handle_get_files E Proc cap a) | GetSysFiles \<Rightarrow> Some (handle_get_files E Sys cap a)
     | EventReady \<Rightarrow> Some (write_error_resp cap a StInvalidMsgType EINVAL, a)) = Some (r, bk')"
    using run Some by (auto simp: dispatch_def msg_of_def Let_def a_def arrived_def split: if_splits msg_type.splits)
  show ?thesis
  proof (cases m)
    case EventReady
    with run' ia show ?thesis by simp
  next
    case Ioctl
    with run' io show ?thesis by simp
  next
    case Open
    with run' st [OF _ pools_inv_open [OF ia ca]] show ?thesis by simp
  next
    case Close
    with run' st [OF _ pools_inv_close [OF ia ca]] show ?thesis by simp
  next
    case Mmap
    with run' st [OF _ pools_inv_mmap [OF ia]] show ?thesis by simp
  next
    case Munmap
    with run' st [OF _ pools_inv_munmap [OF ia]] show ?thesis by simp
  next
    case GetProcFiles
    with run' st [OF _ gf] show ?thesis by simp
  next
    case GetSysFiles
    with run' st [OF _ gf] show ?thesis by simp
  qed
qed

section \<open>The whole life\<close>

lemma shm_releases_trace:
  "placements (bk_trace (fold (\<lambda>e. shm_release E (me_region e)) es b)) = placements (bk_trace b)"
  by (induction es arbitrary: b) (simp_all add: shm_release_def note_event_def Let_def)

lemma closes_same:
  "placements (bk_trace (drain_handles b)) = placements (bk_trace b)"
  "pools_shown E (bk_trace (drain_handles b)) = pools_shown E (bk_trace b)"
  "bk_aperture (drain_handles b) = bk_aperture b" "bk_window (drain_handles b) = bk_window b"
  "bk_next_mapping_id (drain_handles b) = bk_next_mapping_id b"
proof -
  have "placements (bk_trace (fold (\<lambda>f. note_event (EvClose f)) fs c)) = placements (bk_trace c) \<and>
      pools_shown E (bk_trace (fold (\<lambda>f. note_event (EvClose f)) fs c)) = pools_shown E (bk_trace c) \<and>
      bk_aperture (fold (\<lambda>f. note_event (EvClose f)) fs c) = bk_aperture c \<and>
      bk_window (fold (\<lambda>f. note_event (EvClose f)) fs c) = bk_window c \<and>
      bk_next_mapping_id (fold (\<lambda>f. note_event (EvClose f)) fs c) = bk_next_mapping_id c" for fs c
    by (induction fs arbitrary: c) (simp_all add: note_event_def)
  then show "placements (bk_trace (drain_handles b)) = placements (bk_trace b)"
    "pools_shown E (bk_trace (drain_handles b)) = pools_shown E (bk_trace b)"
    "bk_aperture (drain_handles b) = bk_aperture b" "bk_window (drain_handles b) = bk_window b"
    "bk_next_mapping_id (drain_handles b) = bk_next_mapping_id b"
    by (simp_all add: drain_handles_def ht_drain_all_def)
qed

lemma pools_inv_teardown:
  assumes inv: "pools_inv E bk"
  shows "pools_inv E (teardown E bk) \<and> bk_aperture (teardown E bk) = [] \<and> (names_left E bk \<longrightarrow> names_left E (teardown E bk))"
proof -
  define b1 where "b1 = withdraw (bk_aperture bk) (bk\<lparr>bk_aperture := []\<rparr>)"
  define b2 where "b2 = fold (\<lambda>e. shm_release E (me_region e)) (fst (mc_drain (bk_active b1))) (b1\<lparr>bk_active := snd (mc_drain (bk_active b1))\<rparr>)"
  have t: "teardown E bk = drain_handles b2"
    by (simp add: teardown_def Let_def b1_def b2_def withdraw_def ap_take_all_def split: prod.splits)
  have i1: "pools_inv E b1" using pools_inv_withdraw [OF inv, of "bk_aperture bk" "\<lambda>_. False"] by (simp add: b1_def)
  have s: "step_ok plain_event (Keep True True) b1 b2"
    unfolding b2_def by (rule qpl.step_drain_window [OF step_refl])
  have i2: "pools_inv E b2" using i1 s by (rule pools_inv_quiet)
  have e: "bk_aperture b2 = []" using s by (simp add: step_ok_def frame_ok_def b1_def)
  have "pools_inv E (drain_handles b2)"
    by (rule pools_inv_handles [OF i2]) (simp_all add: closes_same drain_files names_left_def e)
  moreover have "names_left E (drain_handles b2)" if "names_left E bk"
  proof -
    obtain b where b: "drain_handles b2 = drain_handles b" "no_files bk b" using teardown_files t by metis
    have "opened E (bk_trace (drain_handles b2)) = opened E (bk_trace bk)"
      unfolding b(1) drain_files using b(2) by (auto simp: no_files_def no_file_events)
    moreover have "placements (bk_trace b2) = placements (bk_trace b1)" by (simp add: b2_def shm_releases_trace)
    moreover have "placements (bk_trace b1) = placements (bk_trace bk)"
    proof (cases "bk_window bk")
      case True
      then show ?thesis by (simp add: b1_def withdraw_trace other_trace_withdrawn)
    next
      case False
      with inv show ?thesis by (simp add: pools_inv_def b1_def withdraw_def)
    qed
    ultimately show ?thesis using that by (simp add: names_left_def closes_same)
  qed
  ultimately show ?thesis by (simp add: t closes_same e)
qed

lemma running_pools_inv: "running E bk \<Longrightarrow> pools_inv E bk"
proof (induction rule: running.induct)
  case (start bk)
  then have "bk_aperture bk = [] \<and> bk_trace bk = [] \<and> bk_next_mapping_id bk = 1"
  proof induction
    case (version bk v)
    then show ?case by (auto simp: set_host_driver_version_def Let_def split: option.splits)
  qed (auto simp: backend_new_def set_caps_def set_vram_limit_mib_def)
  then show ?case by (simp add: pools_inv_def pools_kept_def pools_match_def pools_held_def ap_inv_def)
next
  case (message bk cap req r bk')
  then show ?case using pools_inv_dispatch running_accounted by blast
next
  case (torn_down bk)
  then show ?case using pools_inv_teardown by blast
qed (auto simp: pools_inv_def pools_kept_def pools_match_def pools_held_def names_left_def
    set_window_def set_guest_ram_def take_watch_updates_def)

section \<open>What is not withdrawn from the window\<close>

text \<open>
  A file's mappings and a mapping RM undoes give their range of the shared window back to the allocator, and
  \<open>ShmAllocator::free\<close> puts the backend's own memory back under the backend's own view of it. The VMM is not told:
  only \<open>handle_munmap\<close> calls \<open>WindowPlacer::withdraw\<close>.
\<close>

definition withdrawals :: "event list \<Rightarrow> event list" where
  "withdrawals tr = filter (\<lambda>e. case e of EvWithdraw off len \<Rightarrow> True | _ \<Rightarrow> False) tr"

lemma withdrawals_note [simp]:
  "withdrawals (bk_trace (shm_release E r bk)) = withdrawals (bk_trace bk)"
  "withdrawals (bk_trace (unmap_uvm_pool i p bk)) = withdrawals (bk_trace bk)"
  "withdrawals (bk_trace (drop_span sp bk)) = withdrawals (bk_trace bk)"
  "withdrawals (bk_trace (note_event (EvClose f) bk)) = withdrawals (bk_trace bk)"
  "withdrawals (bk_trace (note_event (EvIoctl f q b bs) bk)) = withdrawals (bk_trace bk)"
  by (simp_all add: withdrawals_def shm_release_def unmap_uvm_pool_def drop_span_def note_event_def Let_def)

lemma withdrawals_fold:
  "(\<And>x c. withdrawals (bk_trace (g x c)) = withdrawals (bk_trace c)) \<Longrightarrow>
     withdrawals (bk_trace (fold g xs bk)) = withdrawals (bk_trace bk)"
  by (induction xs arbitrary: bk) simp_all

lemma withdrawals_retain [simp]: "withdrawals (bk_trace (retain_registrations keep bk)) = withdrawals (bk_trace bk)"
  by (auto simp: retain_registrations_def intro: withdrawals_fold [THEN trans] split: prod.splits)

lemma withdrawals_drop_pools [simp]: "withdrawals (bk_trace (drop_pools_for_file h bk)) = withdrawals (bk_trace bk)"
  by (auto simp: drop_pools_for_file_def intro: withdrawals_fold [THEN trans] split: prod.splits)

theorem release_keeps_placements:
  "withdrawals (bk_trace (snd (handle_close E cap bk))) = withdrawals (bk_trace bk)"
  "withdrawals (bk_trace (snd (dispatch_unmap_memory E cap f q param bk))) = withdrawals (bk_trace bk)"
  "withdrawals (bk_trace (teardown E bk)) = withdrawals (bk_trace bk)"
proof -
  have "withdrawals (bk_trace (fold (\<lambda>e. shm_release E (me_region e)) es b)) = withdrawals (bk_trace b)" for es :: "mmap_entry list" and b
    by (rule withdrawals_fold) simp
  then have r: "withdrawals (bk_trace (release_file E bk)) = withdrawals (bk_trace bk)"
    by (simp add: release_file_def drop_registrations_for_file_def Let_def case_prod_beta)
  show "withdrawals (bk_trace (snd (handle_close E cap bk))) = withdrawals (bk_trace bk)"
    using r by (auto simp: handle_close_def Let_def split: prod.splits option.splits)
  have h: "withdrawals (bk_trace c') = withdrawals (bk_trace c)" if "host_ioctl E f q b bs c = (e, b', bs', c')" for b bs c e b' bs' c'
    using host_ioctl_parts(1) [OF that] by simp
  show "withdrawals (bk_trace (snd (dispatch_unmap_memory E cap f q param bk))) = withdrawals (bk_trace bk)"
    by (auto simp: dispatch_unmap_memory_def mc_remove_def Let_def split: option.splits prod.splits dest: h)
  show "withdrawals (bk_trace (teardown E bk)) = withdrawals (bk_trace bk)"
    by (simp add: teardown_def drain_handles_def Let_def case_prod_beta withdrawals_fold)
qed

section \<open>Properties\<close>

lemma shown_pool:
  assumes "pools_match E bk" "(off, len, f, addr) \<in> set (pools_shown E (bk_trace bk))"
  obtains i p where "(i, p) \<in> set (bk_aperture bk)" "off = po_offset p" "len = po_len p" "addr = po_addr p"
    "ht_get_raw (bk_handles bk) (po_handle p) = Some f"
proof -
  have "(off, len, Some f, addr) \<in> pools_held bk" using assms unfolding pools_match_def by force
  then show ?thesis using that unfolding pools_held_def by (elim imageE) (auto split: prod.splits)
qed

text \<open>C8: What a guest sees in the aperture is what the books say, over the whole life of a backend: the pools the VMM has
  placed and not withdrawn are exactly those the backend holds, each of the file that is open under the pool's handle; each
  lies in the aperture on its boundary and in the band of host addresses, no two share a byte of either, and after a
  teardown none is left. It stands until one of the two counters of names has gone round.\<close>

theorem pools_accounted:
  assumes "running E bk" "placements (bk_trace bk) + 1 < 2 ^ 32" "length (opened E (bk_trace bk)) + 1 < 2 ^ 64"
  shows "(\<lambda>(off, len, f, addr). (off, len, Some f, addr)) ` set (pools_shown E (bk_trace bk)) = pools_held bk \<and>
    (\<forall>(off, len, f, addr) \<in> set (pools_shown E (bk_trace bk)).
       off mod APERTURE_ALIGN = 0 \<and> off + len \<le> APERTURE_LEN \<and> HVA_MIN \<le> addr \<and> addr + len \<le> HVA_MAX \<and>
       (\<forall>(off', len', f', addr') \<in> set (pools_shown E (bk_trace bk)). (off, len, f, addr) \<noteq> (off', len', f', addr') \<longrightarrow>
          {off..<off + len} \<inter> {off'..<off' + len'} = {} \<and> {addr..<addr + len} \<inter> {addr'..<addr' + len'} = {})) \<and>
    pools_shown E (bk_trace (teardown E bk)) = []"
proof (intro conjI)
  have inv: "pools_inv E bk" by (rule running_pools_inv [OF assms(1)])
  have left: "names_left E bk" using assms(2,3) by (simp add: names_left_def)
  from inv left have m: "pools_match E bk" and ap: "ap_inv (bk_aperture bk)" by (simp_all add: pools_inv_def pools_kept_def)
  then show "(\<lambda>(off, len, f, addr). (off, len, Some f, addr)) ` set (pools_shown E (bk_trace bk)) = pools_held bk"
    by (simp add: pools_match_def)
  have "pools_match E (teardown E bk)" "bk_aperture (teardown E bk) = []"
    using pools_inv_teardown [OF inv] left by (auto simp: pools_inv_def pools_kept_def)
  then show "pools_shown E (bk_trace (teardown E bk)) = []" by (simp add: pools_match_def pools_held_def)
  have "off mod APERTURE_ALIGN = 0 \<and> off + len \<le> APERTURE_LEN \<and> HVA_MIN \<le> addr \<and> addr + len \<le> HVA_MAX"
    if x: "(off, len, f, addr) \<in> set (pools_shown E (bk_trace bk))" for off len f addr
  proof (rule shown_pool [OF m x])
    fix i p assume "(i, p) \<in> set (bk_aperture bk)" "off = po_offset p" "len = po_len p" "addr = po_addr p"
    moreover from this(1) ap have "pool_ok p" by (auto simp: ap_inv_def)
    ultimately show ?thesis by (simp add: pool_ok_def)
  qed
  moreover have "{off..<off + len} \<inter> {off'..<off' + len'} = {} \<and> {addr..<addr + len} \<inter> {addr'..<addr' + len'} = {}"
    if x: "(off, len, f, addr) \<in> set (pools_shown E (bk_trace bk))" and y: "(off', len', f', addr') \<in> set (pools_shown E (bk_trace bk))"
      and ne: "(off, len, f, addr) \<noteq> (off', len', f', addr')" for off len f addr off' len' f' addr'
  proof (rule shown_pool [OF m x], rule shown_pool [OF m y])
    fix i p j q
    assume p: "(i, p) \<in> set (bk_aperture bk)" "off = po_offset p" "len = po_len p" "addr = po_addr p"
        "ht_get_raw (bk_handles bk) (po_handle p) = Some f"
      and q: "(j, q) \<in> set (bk_aperture bk)" "off' = po_offset q" "len' = po_len q" "addr' = po_addr q"
        "ht_get_raw (bk_handles bk) (po_handle q) = Some f'"
    have "i \<noteq> j" using ne p q eq_key_imp_eq_value [OF ap_inv_distinct [OF ap], of i p q] by auto
    then have "pools_apart p q" using ap p(1) q(1) unfolding ap_inv_def by blast
    then show ?thesis unfolding p q by (fastforce simp: pools_apart_def)
  qed
  ultimately show "\<forall>(off, len, f, addr) \<in> set (pools_shown E (bk_trace bk)).
       off mod APERTURE_ALIGN = 0 \<and> off + len \<le> APERTURE_LEN \<and> HVA_MIN \<le> addr \<and> addr + len \<le> HVA_MAX \<and>
       (\<forall>(off', len', f', addr') \<in> set (pools_shown E (bk_trace bk)). (off, len, f, addr) \<noteq> (off', len', f', addr') \<longrightarrow>
          {off..<off + len} \<inter> {off'..<off' + len'} = {} \<and> {addr..<addr + len} \<inter> {addr'..<addr' + len'} = {})"
    by blast
qed

lemma pools_accounted_witness:
  "\<exists>bk. running sample_env bk \<and> pools_held bk = {(0, 4096, Some 40, 4294967296)} \<and>
     pools_shown sample_env (bk_trace bk) = [(0, 4096, 40, 4294967296)] \<and>
     pools_shown sample_env (bk_trace (teardown sample_env bk)) = []"
proof -
  let ?p = "enc_open_req \<lparr>or_device_type = 256, or_flags = 0\<rparr>"
  let ?m = "enc_mmap_req \<lparr>mr_size = 4096, mr_offset = 4294967296, mr_prot = 0, mr_padding = 0\<rparr>"
  define b0 where "b0 = set_window (set_caps COMPUTE (the (backend_new default_256mib)))"
  define b1 where "b1 = snd (handle_open sample_env 64 ?p (arrived Open 0 b0))"
  define b2 where "b2 = snd (handle_mmap sample_env 64 ?m (arrived Mmap 1 b1))"
  have r0: "running sample_env b0"
    unfolding b0_def using sample_backend_new by (intro running.window running.start configured.caps) (auto intro: configured.new)
  have "dispatch sample_env 64 (request Open 0 ?p) b0 = Some (handle_open sample_env 64 ?p (arrived Open 0 b0))"
    by (simp add: dispatch_request)
  then have r1: "running sample_env b1" unfolding b1_def by (metis r0 running.message prod.collapse)
  have "dispatch sample_env 64 (request Mmap 1 ?m) b1 = Some (handle_mmap sample_env 64 ?m (arrived Mmap 1 b1))"
    by (simp add: dispatch_request)
  then have r2: "running sample_env b2" unfolding b2_def by (metis r1 running.message prod.collapse)
  have "dec_open_req ?p = \<lparr>or_device_type = 256, or_flags = 0\<rparr>"
    using oreq.dec_enc [of "\<lparr>or_device_type = 256, or_flags = 0\<rparr>" "[]"] by (simp add: open_req_wf_def)
  then have b1: "bk_handles b1 = \<lparr>ht_next = 2, ht_table = [(1, 40)]\<rparr>" "bk_kinds b1 = [(1, Uvm)]" "bk_window b1" "bk_aperture b1 = []"
    "bk_trace b1 = [EvOpen ''/dev/nvidia-uvm'']"
    by (simp_all add: b1_def b0_def handle_open_def oreq.length_enc arrived_def open_refusal_def device_kind_from_type_def caps_has_def
        device_path_with_def sample_env_def note_event_def set_window_def set_caps_def backend_new_def shm_new_def
        default_256mib_def zc_total_def ht_insert_def ht_new_def Let_def)
  have "dec_mmap_req ?m = \<lparr>mr_size = 4096, mr_offset = 4294967296, mr_prot = 0, mr_padding = 0\<rparr>"
    using mreq.dec_enc [of "\<lparr>mr_size = 4096, mr_offset = 4294967296, mr_prot = 0, mr_padding = 0\<rparr>" "[]"] by (simp add: mmap_req_wf_def)
  then have "bk_trace b2 = [EvPlacePool 0 4096 40 4294967296, EvOpen ''/dev/nvidia-uvm'']"
    using b1 by (simp add: b2_def handle_mmap_def mreq.length_enc arrived_def map_uvm_pool_def ht_get_raw_def ap_admit_def
        sample_env_def note_event_def Let_def)
  then have "pools_shown sample_env (bk_trace b2) = [(0, 4096, 40, 4294967296)]" "placements (bk_trace b2) = 1"
    "length (opened sample_env (bk_trace b2)) = 1"
    by (simp_all add: sample_env_def)
  with pools_accounted [OF r2] r2 show ?thesis by auto
qed

end
