(* ===== verification/WindowLife.thy ===== *)
theory WindowLife
  imports Samples
begin

text \<open>
  The shared window of a backend over its whole life: nothing it asks of the VMM, and nothing it maps over itself, reaches
  outside the window, and every mapping on record lies in the zone of its caching.
\<close>

lemma running_window: "running E bk \<Longrightarrow> sa_total (bk_shm bk) < 2 ^ 64 \<longrightarrow> window_ok bk"
proof (induction rule: running.induct)
  case (start bk)
  then have "sa_total (bk_shm bk) < 2 ^ 64 \<longrightarrow> zones_ok (bk_shm bk)"
    and "bk_active bk = [] \<and> bk_live bk = [] \<and> bk_trace bk = []"
  proof induction
    case (new cfg bk)
    then show "sa_total (bk_shm bk) < 2 ^ 64 \<longrightarrow> zones_ok (bk_shm bk)" "bk_active bk = [] \<and> bk_live bk = [] \<and> bk_trace bk = []"
      using shm_new_zones by (auto simp: backend_new_def)
  next
    case (version bk v)
    then show "sa_total (bk_shm (snd (set_host_driver_version v bk))) < 2 ^ 64 \<longrightarrow> zones_ok (bk_shm (snd (set_host_driver_version v bk)))"
        "bk_active (snd (set_host_driver_version v bk)) = [] \<and> bk_live (snd (set_host_driver_version v bk)) = [] \<and>
          bk_trace (snd (set_host_driver_version v bk)) = []"
      by (auto simp: set_host_driver_version_def Let_def split: option.splits)
  qed (auto simp: set_caps_def set_vram_limit_mib_def)
  then show ?case by (simp add: window_ok_def)
next
  case (message bk cap req r bk')
  obtain b1 where "step_ok (\<lambda>e. tables_agree bk \<longrightarrow> vetted bk e) keeps_neither b1 bk'" "window_step bk b1"
    using med.step_dispatch [OF message.hyps(2) refl] by blast
  then have "window_step bk bk'" using window_step_trans by (auto simp: step_ok_def)
  with message.IH show ?case by (simp add: window_step_def)
next
  case (torn_down bk)
  have "window_step bk (teardown E bk)" using step_teardown [of bk E] by (simp add: step_ok_def)
  with torn_down.IH show ?case by (simp add: window_step_def)
qed (auto simp: window_ok_def set_window_def set_guest_ram_def take_watch_updates_def)

section \<open>Properties\<close>

text \<open>C9: The backend never reaches outside the window. Whatever a guest sends over its whole life, every placement and
  withdrawal it asks of the VMM and every fixed mapping it makes over its own view is of a non-empty range that starts on a
  page and ends within the window; and the range of every mapping on record lies, whole pages and all, in the zone of its
  caching.\<close>

theorem window_actions_inside:
  assumes "running E bk" "sa_total (bk_shm bk) < 2 ^ 64"
  shows "(e \<in> set (bk_trace bk) \<longrightarrow>
      (case e of
         EvPlace off len f fo \<Rightarrow> 4096 dvd off \<and> 0 < len \<and> off + len \<le> sa_total (bk_shm bk)
       | EvWithdraw off len \<Rightarrow> 4096 dvd off \<and> 0 < len \<and> off + len \<le> sa_total (bk_shm bk)
       | EvRemap off len \<Rightarrow> 4096 dvd off \<and> 0 < len \<and> off + len \<le> sa_total (bk_shm bk)
       | _ \<Rightarrow> True)) \<and>
    ((k, m) \<in> set (bk_active bk) \<longrightarrow>
      (let r = me_region m; z = shm_zone (bk_shm bk) (sr_pgprot r) in
         z_base z \<le> sr_offset r \<and> sr_offset r + page_up (sr_length r) \<le> z_base z + z_size z \<and>
         sr_length r \<le> page_up (sr_length r) \<and> z_base z + z_size z \<le> sa_total (bk_shm bk)))"
proof (intro conjI impI)
  have ok: "window_ok bk" using running_window [OF assms(1)] assms(2) by blast
  assume "e \<in> set (bk_trace bk)"
  with ok have "inside (sa_total (bk_shm bk)) e" by (auto simp: window_ok_def list_all_iff)
  then show "case e of EvPlace off len f fo \<Rightarrow> 4096 dvd off \<and> 0 < len \<and> off + len \<le> sa_total (bk_shm bk)
       | EvWithdraw off len \<Rightarrow> 4096 dvd off \<and> 0 < len \<and> off + len \<le> sa_total (bk_shm bk)
       | EvRemap off len \<Rightarrow> 4096 dvd off \<and> 0 < len \<and> off + len \<le> sa_total (bk_shm bk)
       | _ \<Rightarrow> True"
    by (cases e) (simp_all add: in_window_def)
next
  have ok: "window_ok bk" using running_window [OF assms(1)] assms(2) by blast
  assume "(k, m) \<in> set (bk_active bk)"
  with ok have "region_ok (bk_shm bk) (me_region m)" "zones_ok (bk_shm bk)" by (force simp: window_ok_def)+
  then show "let r = me_region m; z = shm_zone (bk_shm bk) (sr_pgprot r) in
      z_base z \<le> sr_offset r \<and> sr_offset r + page_up (sr_length r) \<le> z_base z + z_size z \<and>
      sr_length r \<le> page_up (sr_length r) \<and> z_base z + z_size z \<le> sa_total (bk_shm bk)"
    using len_le_page_up by (simp add: region_ok_def zone_place_def zones_ok_def Let_def)
qed

lemma window_actions_inside_witness:
  "\<exists>bk. running sample_env bk \<and> EvPlace 4194304 8192 40 0 \<in> set (bk_trace bk) \<and> 4194304 + 8192 \<le> sa_total (bk_shm bk)"
proof -
  let ?p = "enc_open_req \<lparr>or_device_type = 0, or_flags = 0\<rparr>"
  let ?m = "enc_mmap_req \<lparr>mr_size = 8192, mr_offset = 0, mr_prot = 0, mr_padding = 0\<rparr>"
  define b0 where "b0 = set_window (the (backend_new default_256mib))"
  define b1 where "b1 = snd (handle_open sample_env 64 ?p (arrived Open 0 b0))"
  define b2 where "b2 = snd (handle_mmap sample_env 64 ?m (arrived Mmap 1 b1))"
  have r0: "running sample_env b0"
    unfolding b0_def using sample_backend_new by (intro running.window running.start configured.new) auto
  have "dispatch sample_env 64 (request Open 0 ?p) b0 = Some (handle_open sample_env 64 ?p (arrived Open 0 b0))"
    by (simp add: dispatch_request)
  then have r1: "running sample_env b1" unfolding b1_def by (metis r0 running.message prod.collapse)
  have "dispatch sample_env 64 (request Mmap 1 ?m) b1 = Some (handle_mmap sample_env 64 ?m (arrived Mmap 1 b1))"
    by (simp add: dispatch_request)
  then have r2: "running sample_env b2" unfolding b2_def by (metis r1 running.message prod.collapse)
  have "dec_open_req ?p = \<lparr>or_device_type = 0, or_flags = 0\<rparr>"
    using oreq.dec_enc [of "\<lparr>or_device_type = 0, or_flags = 0\<rparr>" "[]"] by (simp add: open_req_wf_def)
  then have b1: "bk_handles b1 = \<lparr>ht_next = 2, ht_table = [(1, 40)]\<rparr>" "bk_kinds b1 = [(1, Gpu 0)]" "bk_window b1" "bk_active b1 = []"
    "bk_dri_maps b1 = []" "bk_shm b1 = \<lparr>sa_uc = zone_new 0 4194304, sa_wc = zone_new 4194304 134217728,
       sa_wb = zone_new 138412032 130023424, sa_over = \<lambda>_. None, sa_total = 268435456\<rparr>"
    by (simp_all add: b1_def b0_def handle_open_def oreq.length_enc arrived_def open_refusal_def device_kind_from_type_def
        device_path_with_def sample_env_def note_event_def set_window_def backend_new_def shm_new_def
        default_256mib_def zc_total_def ht_insert_def ht_new_def Let_def)
  have "dec_mmap_req ?m = \<lparr>mr_size = 8192, mr_offset = 0, mr_prot = 0, mr_padding = 0\<rparr>"
    using mreq.dec_enc [of "\<lparr>mr_size = 8192, mr_offset = 0, mr_prot = 0, mr_padding = 0\<rparr>" "[]"] by (simp add: mmap_req_wf_def)
  then have b2: "EvPlace 4194304 8192 40 0 \<in> set (bk_trace b2)" "sa_total (bk_shm b2) = 268435456"
    using b1 by (simp_all add: b2_def handle_mmap_def mreq.length_enc arrived_def map_unrecorded_def place_unrecorded_def
        ht_get_raw_def mc_find_by_fd_def unrecorded_prot_def unrecorded_fd_offset_def shm_alloc_def shm_zone_def shm_set_zone_def
        zone_alloc_def zone_new_def align_up_page wadd_def bt_remove_def sample_env_def note_event_def Let_def)
  with window_actions_inside [OF r2, of "EvPlace 4194304 8192 40 0"] r2 show ?thesis by auto
qed

end
