(* ===== verification/Daemon.thy ===== *)
theory Daemon
  imports Virtio Returns Replies Sandbox
begin

text \<open>
  The daemon around the backend (\<open>device/bin/vhost-user-nvgpu.rs\<close>): its construction from what the host publishes, the
  loop that serves descriptor chains from the control queue, and the relay that tells the guest when one of its
  descriptors has something to say.

  The virtqueue is the crate's: what \<open>avail\<close> yields is a list of chains, each descriptor with what reading or writing
  its memory does; what is put in the used ring is a list. Results are \<open>None\<close> where the backend panics.
\<close>

section \<open>Construction\<close>

datatype daemon_error = NoDriverVersion | NoGpus | VersionUnparsed | VersionRefused version_error | LimitRefused

datatype watch = WatchAdd nat fd | WatchRemove nat

record daemon =
  da_nvidia :: backend
  da_mem :: bool
  da_event_idx :: bool
  da_config :: virtio_config
  da_watching :: bool
  da_sent :: "watch list"
  da_req :: bytes

definition daemon_new ::
  "string option \<Rightarrow> (string \<times> bool) list option \<Rightarrow> (string \<Rightarrow> bytes option) \<Rightarrow> caps \<Rightarrow> nat option \<Rightarrow>
     (daemon_error + daemon) option" where
  "daemon_new version_file entries info c limit =
     (case host_driver_version version_file of
        None \<Rightarrow> Some (Inl NoDriverVersion)
      | Some version \<Rightarrow>
          let gpus = host_gpu_slots entries info in
          if gpus = [] then Some (Inl NoGpus)
          else map_option (\<lambda>bk.
            case dv_parse version of
              None \<Rightarrow> Inl VersionUnparsed
            | Some release \<Rightarrow>
                (case set_host_driver_version release bk of
                   (Some e, bk) \<Rightarrow> Inl (VersionRefused e)
                 | (None, bk) \<Rightarrow>
                     (case set_vram_limit_mib limit (set_caps c bk) of
                        (False, bk) \<Rightarrow> Inl LimitRefused
                      | (True, bk) \<Rightarrow>
                          Inr \<lparr>da_nvidia = bk, da_mem = False, da_event_idx = False,
                               da_config = virtio_config_new (bytes_of_string version) gpus c (vram_limit_mib (bk_vram bk)),
                               da_watching = False, da_sent = [], da_req = []\<rparr>)))
            (backend_new default_1gib))"

definition daemon_get_config :: "daemon \<Rightarrow> nat \<Rightarrow> nat \<Rightarrow> bytes" where
  "daemon_get_config da offset count = virtio_config_read (da_config da) offset count"

definition daemon_set_window :: "daemon \<Rightarrow> daemon" where
  "daemon_set_window da = da\<lparr>da_nvidia := set_window (da_nvidia da)\<rparr>"

definition daemon_update_memory :: "(nat \<Rightarrow> backing option) \<Rightarrow> daemon \<Rightarrow> daemon" where
  "daemon_update_memory ram da = da\<lparr>da_nvidia := set_guest_ram ram (da_nvidia da), da_mem := True\<rparr>"

definition daemon_set_event_idx :: "bool \<Rightarrow> daemon \<Rightarrow> daemon" where
  "daemon_set_event_idx on da = da\<lparr>da_event_idx := on\<rparr>"

section \<open>Serving chains\<close>

abbreviation (input) RESP_MAX :: nat where "RESP_MAX \<equiv> 65536"

text \<open>\<open>de_data\<close> is what \<open>read_slice\<close> finds (as long as \<open>de_len\<close>) or \<open>None\<close> where it fails; \<open>de_ok\<close> whether \<open>write_slice\<close> succeeds,
  \<open>ch_used\<close> whether \<open>add_used\<close> takes the head.\<close>

record desc =
  de_write_only :: bool
  de_len :: nat
  de_data :: "bytes option"
  de_ok :: bool

record chain =
  ch_head :: nat
  ch_descs :: "desc list"
  ch_used :: bool

text \<open>The readable descriptors are joined in a buffer kept across chains; the last writable one takes the reply.\<close>

fun gather :: "desc list \<Rightarrow> bytes \<Rightarrow> nat \<Rightarrow> desc option \<Rightarrow> (desc option \<times> bytes \<times> nat) option" where
  "gather [] buf req_len resp = Some (resp, buf, req_len)"
| "gather (d # ds) buf req_len resp =
     (if de_write_only d then gather ds buf req_len (Some d)
      else
        let at0 = req_len; req_len = req_len + de_len d;
            buf = (if req_len > length buf then buf @ replicate (req_len - length buf) 0 else buf) in
        case de_data d of
          None \<Rightarrow> None
        | Some b \<Rightarrow> gather ds (put_at buf at0 b) req_len resp)"

datatype io_error = ReadRequest | WriteResponse | AddUsed | SignalUsed | UnknownQueue nat | NoGuestMemory

record used_elem =
  us_head :: nat
  us_written :: nat
  us_reply :: bytes

definition put_used :: "chain \<Rightarrow> bytes \<Rightarrow> io_error + used_elem" where
  "put_used c r = (if ch_used c then Inr \<lparr>us_head = ch_head c, us_written = length r, us_reply = r\<rparr> else Inl AddUsed)"

definition serve_chain :: "env \<Rightarrow> chain \<Rightarrow> daemon \<Rightarrow> ((io_error + used_elem) \<times> daemon) option" where
  "serve_chain E c da =
     (case gather (ch_descs c) (da_req da) 0 None of
        None \<Rightarrow> Some (Inl ReadRequest, da)
      | Some (resp_desc, buf, req_len) \<Rightarrow>
          let da = da\<lparr>da_req := buf\<rparr> in
          (case resp_desc of
             None \<Rightarrow> Some (put_used c [], da)
           | Some d \<Rightarrow>
               map_option (\<lambda>(r, bk).
                 let da = da\<lparr>da_nvidia := bk\<rparr> in
                 if length r > 0 \<and> \<not> de_ok d then (Inl WriteResponse, da)
                 else (put_used c r, da))
               (dispatch E (min (de_len d) RESP_MAX) (take req_len buf) (da_nvidia da))))"

text \<open>\<open>process\<close>: chain after chain until none is available or one fails, with what went to the used ring.\<close>

fun process_chains :: "env \<Rightarrow> chain list \<Rightarrow> daemon \<Rightarrow> (io_error option \<times> used_elem list \<times> daemon) option" where
  "process_chains E [] da = Some (None, [], da)"
| "process_chains E (c # cs) da =
     (case serve_chain E c da of
        None \<Rightarrow> None
      | Some (Inl e, da) \<Rightarrow> Some (Some e, [], da)
      | Some (Inr u, da) \<Rightarrow> map_option (\<lambda>(e, us, da). (e, u # us, da)) (process_chains E cs da))"

section \<open>Watches\<close>

record watch_env =
  we_spawn :: bool
  we_dup :: "fd \<Rightarrow> fd option"
  we_signal :: bool

definition sync_watches :: "watch_env \<Rightarrow> daemon \<Rightarrow> daemon" where
  "sync_watches W da =
     (case take_watch_updates (da_nvidia da) of
        ((added, removed), bk) \<Rightarrow>
          let da = da\<lparr>da_nvidia := bk\<rparr> in
          if added = [] \<and> removed = [] \<and> da_watching da then da
          else
            let da = (if da_watching da then da else da\<lparr>da_watching := da_mem da \<and> we_spawn W\<rparr>) in
            if \<not> da_watching da then da
            else da\<lparr>da_sent := da_sent da @
                     List.map_filter (\<lambda>(h, f). map_option (WatchAdd h) (we_dup W f)) added @
                     map WatchRemove removed\<rparr>)"

text \<open>\<open>handle_event\<close>: \<open>batches\<close> is what successive drains find; with EVENT_IDX the queue is drained until re-arming
  finds nothing new, without it once.\<close>

fun process_batches :: "env \<Rightarrow> chain list list \<Rightarrow> daemon \<Rightarrow> (io_error option \<times> used_elem list \<times> daemon) option" where
  "process_batches E [] da = Some (None, [], da)"
| "process_batches E (b # bs) da =
     (case process_chains E b da of
        None \<Rightarrow> None
      | Some (Some e, us, da) \<Rightarrow> Some (Some e, us, da)
      | Some (None, us, da) \<Rightarrow> map_option (\<lambda>(e, us', da). (e, us @ us', da)) (process_batches E bs da))"

definition daemon_handle_event ::
  "env \<Rightarrow> watch_env \<Rightarrow> nat \<Rightarrow> chain list list \<Rightarrow> daemon \<Rightarrow> (io_error option \<times> used_elem list \<times> daemon) option" where
  "daemon_handle_event E W device_event batches da =
     (if device_event \<ge> 2 then Some (Some (UnknownQueue device_event), [], da)
      else if device_event = 1 then Some (None, [], da)
      else if \<not> da_mem da then Some (Some NoGuestMemory, [], da)
      else map_option (\<lambda>(e, us, da).
               if e = None then (if we_signal W then None else Some SignalUsed, us, sync_watches W da) else (e, us, da))
             (process_batches E (if da_event_idx da then batches else take 1 batches) da))"

section \<open>The event relay\<close>

definition event_ready_bytes :: "nat \<Rightarrow> bytes" where
  "event_ready_bytes handle = enc_msg_header (msg_header_ok EventReady handle)"

record pump =
  pu_rx :: "watch list"
  pu_watched :: "(nat \<times> fd) list"
  pu_posted :: "chain list"
  pu_used :: "used_elem list"

text \<open>One message into the next posted buffer: whether the guest was told, and the queue.\<close>

definition push_event :: "nat \<Rightarrow> pump \<Rightarrow> bool \<times> pump" where
  "push_event handle pu =
     (case pu_posted pu of
        [] \<Rightarrow> (False, pu)
      | c # cs \<Rightarrow>
          let bytes = event_ready_bytes handle;
              written = (case find de_write_only (ch_descs c) of
                           None \<Rightarrow> 0
                         | Some d \<Rightarrow> if de_ok d then min (de_len d) (length bytes) else 0)
          in if \<not> ch_used c then (False, pu\<lparr>pu_posted := cs\<rparr>)
             else (written > 0,
               pu\<lparr>pu_posted := cs,
                  pu_used := pu_used pu @ [\<lparr>us_head = ch_head c, us_written = written, us_reply = take written bytes\<rparr>]\<rparr>))"

text \<open>\<open>ctl\<close> is \<open>epoll_ctl\<close> succeeding on an added descriptor.\<close>

fun pump_drain :: "(fd \<Rightarrow> bool) \<Rightarrow> watch list \<Rightarrow> (nat \<times> fd) list \<Rightarrow> (nat \<times> fd) list" where
  "pump_drain ctl [] w = w"
| "pump_drain ctl (WatchAdd h f # ms) w = pump_drain ctl ms (if ctl f then AList.update h f w else w)"
| "pump_drain ctl (WatchRemove h # ms) w = pump_drain ctl ms (AList.delete h w)"

fun pump_announce :: "nat list \<Rightarrow> pump \<Rightarrow> pump" where
  "pump_announce [] pu = pu"
| "pump_announce (h # hs) pu = pump_announce hs (snd (push_event h pu))"

text \<open>One turn of the loop: drain the channel, sweep when it is due, relay what epoll reported.\<close>

definition pump_round :: "(fd \<Rightarrow> bool) \<Rightarrow> bool \<Rightarrow> (fd \<Rightarrow> bool) \<Rightarrow> nat list \<Rightarrow> pump \<Rightarrow> pump" where
  "pump_round ctl sweep_due readable reported pu =
     (let pu = pu\<lparr>pu_rx := [], pu_watched := pump_drain ctl (pu_rx pu) (pu_watched pu)\<rparr>;
          pu = (if sweep_due then pump_announce (map fst (filter (readable \<circ> snd) (pu_watched pu))) pu else pu)
      in pump_announce reported pu)"

section \<open>What is announced is what is enforced\<close>

lemma put_at_0: "length ys \<le> length xs \<Longrightarrow> put_at xs 0 ys = ys @ drop (length ys) xs"
  by (simp add: put_at_def)

lemma host_gpu_slots_wf: "list_all gpu_slot_wf (host_gpu_slots entries info)"
  by (auto simp: host_gpu_slots_def list_all_iff Let_def split: option.splits)

lemma daemon_new_parts:
  assumes "daemon_new vf entries info c limit = Some (Inr da)"
  obtains v release bk bk' where "host_driver_version vf = Some v" "host_gpu_slots entries info \<noteq> []"
    "backend_new default_1gib = Some bk" "dv_parse v = Some release" "set_host_driver_version release bk = (None, bk')"
    "limit = None \<or> (\<exists>s. bk_vidmem bk' = Some s \<and> vs_exact s)"
    "da_nvidia da = set_caps c bk'\<lparr>bk_vram := vram_new limit\<rparr>" "\<not> da_watching da" "da_sent da = []"
    "da_config da = virtio_config_new (bytes_of_string v) (host_gpu_slots entries info) c (vram_limit_mib (vram_new limit))"
proof -
  obtain v where v: "host_driver_version vf = Some v" using assms by (auto simp: daemon_new_def split: option.splits)
  have g: "host_gpu_slots entries info \<noteq> []" using assms v by (auto simp: daemon_new_def Let_def split: if_splits)
  obtain bk where bk: "backend_new default_1gib = Some bk"
    using assms v g by (auto simp: daemon_new_def Let_def)
  obtain release where r: "dv_parse v = Some release"
    using assms v g bk by (auto simp: daemon_new_def Let_def split: option.splits)
  obtain e bk' where s: "set_host_driver_version release bk = (e, bk')" by fastforce
  have e: "e = None" using assms v g bk r s by (cases e) (auto simp: daemon_new_def Let_def)
  obtain ok bk2 where l: "set_vram_limit_mib limit (set_caps c bk') = (ok, bk2)" by fastforce
  have ok: "ok" using assms v g bk r s e l by (cases ok) (auto simp: daemon_new_def Let_def)
  have d: "da = \<lparr>da_nvidia = bk2, da_mem = False, da_event_idx = False,
      da_config = virtio_config_new (bytes_of_string v) (host_gpu_slots entries info) c (vram_limit_mib (bk_vram bk2)),
      da_watching = False, da_sent = [], da_req = []\<rparr>"
    using assms v g bk r s e l ok by (simp add: daemon_new_def Let_def)
  have b: "bk2 = set_caps c bk'\<lparr>bk_vram := vram_new limit\<rparr>" "limit = None \<or> (\<exists>s. bk_vidmem bk' = Some s \<and> vs_exact s)"
    using l ok by (auto simp: set_vram_limit_mib_def set_caps_def split: if_splits option.splits)
  from that [OF v g bk r s [unfolded e] b(2)] show thesis using d b(1) by simp
qed

lemma daemon_new_configured:
  assumes "daemon_new vf entries info c limit = Some (Inr da)"
  shows "configured (da_nvidia da)"
proof -
  from assms obtain v release bk bk' where bk: "backend_new default_1gib = Some bk" "set_host_driver_version release bk = (None, bk')"
      and l: "limit = None \<or> (\<exists>s. bk_vidmem bk' = Some s \<and> vs_exact s)"
      and d: "da_nvidia da = set_caps c bk'\<lparr>bk_vram := vram_new limit\<rparr>"
    by (rule daemon_new_parts)
  have "configured (set_caps c bk')"
    using configured.caps [OF configured.version [OF configured.new [OF bk(1)], of release]] bk(2) by simp
  from configured.limit [OF this, of limit] show ?thesis
    using l d by (auto simp: set_vram_limit_mib_def set_caps_def)
qed

lemma fd_offsets_published: "fd_offset_of e = Some off \<Longrightarrow> (e, off) \<in> set fd_carrying_ioctls"
  by (auto simp: fd_offset_of_def fd_carrying_ioctls_def split: if_splits)

text \<open>C16: A daemon that starts announces what it enforces. The release and the capability bits the guest reads in
  configuration space, and the video memory limit the VMM checks, are those the backend holds, with all of the
  release's tables behind it and the limit only on a release whose layout is known exactly; between one and eight
  GPUs are listed, in the order they are published in; and every ioctl the backend reads a descriptor from is in the
  published list at the same offset.\<close>

theorem announced_is_enforced:
  assumes "daemon_new vf entries info c limit = Some (Inr da)"
  shows "configured (da_nvidia da) \<and>
    (\<exists>v release. host_driver_version vf = Some v \<and> dv_parse v = Some release \<and> bk_driver (da_nvidia da) = Some release \<and>
       release_tables (da_nvidia da) = tables_of release \<and> \<not> release < DriverVersion 535 129 3 \<and>
       daemon_get_config da 0 32 = take 31 (bytes_of_string v) @ replicate (32 - min (length v) 31) 0) \<and>
    bk_caps (da_nvidia da) = c \<and> daemon_get_config da 36 4 = le_bytes 4 (unat c) \<and>
    bk_vram (da_nvidia da) = vram_new limit \<and> daemon_get_config da 4016 8 = le_bytes 8 (vram_limit_mib (bk_vram (da_nvidia da))) \<and>
    (limit = None \<or> vidmem_layout (da_nvidia da) \<noteq> None) \<and>
    host_gpu_slots entries info \<noteq> [] \<and> daemon_get_config da 32 4 = le_bytes 4 (min (length (host_gpu_slots entries info)) 8) \<and>
    list_all (\<lambda>i. daemon_get_config da (72 + 476 * i) 476 = gpu_slot_bytes (host_gpu_slots entries info ! i)) [0..<min (length (host_gpu_slots entries info)) 8] \<and>
    daemon_get_config da 3880 4 = le_bytes 4 5 \<and>
    list_all (\<lambda>i. daemon_get_config da (3888 + 8 * i) 8 = le_bytes 4 (fst (fd_carrying_ioctls ! i)) @ le_bytes 4 (snd (fd_carrying_ioctls ! i)))
      [0..<5] \<and>
    (fd_offset_of e = Some off \<longrightarrow> (e, off) \<in> set fd_carrying_ioctls)"
proof -
  obtain v release bk bk' where p: "host_driver_version vf = Some v" "host_gpu_slots entries info \<noteq> []"
    "backend_new default_1gib = Some bk" "dv_parse v = Some release" "set_host_driver_version release bk = (None, bk')"
    "limit = None \<or> (\<exists>s. bk_vidmem bk' = Some s \<and> vs_exact s)"
    "da_nvidia da = set_caps c bk'\<lparr>bk_vram := vram_new limit\<rparr>"
    "da_config da = virtio_config_new (bytes_of_string v) (host_gpu_slots entries info) c (vram_limit_mib (vram_new limit))"
    by (rule daemon_new_parts [OF assms(1)])
  have t: "release_tables bk' = tables_of release" "\<not> release < DriverVersion 535 129 3"
    using set_host_driver_version_tables [OF p(5)] by simp_all
  have nv: "bk_driver (da_nvidia da) = Some release" "release_tables (da_nvidia da) = tables_of release"
    "bk_caps (da_nvidia da) = c" "bk_vram (da_nvidia da) = vram_new limit" "limit = None \<or> vidmem_layout (da_nvidia da) \<noteq> None"
    using t p(6) by (auto simp: p(7) set_caps_def release_tables_def tables_of_def vidmem_layout_def)
  define gpus where "gpus = host_gpu_slots entries info"
  let ?cfg = "virtio_config_new (bytes_of_string v) gpus c (vram_limit_mib (vram_new limit))"
  have cfg: "da_config da = ?cfg" by (simp add: p(8) gpus_def)
  have ok: "config_ok ?cfg" unfolding gpus_def by (rule config_new_ok) (rule host_gpu_slots_wf)
  have fl: "length fd_carrying_ioctls = 5" by (simp add: fd_carrying_ioctls_def)
  have f: "vc_driver_version ?cfg = take 31 (bytes_of_string v) @ replicate (32 - min (length v) 31) 0"
    "vc_num_gpus ?cfg = min (length gpus) 8" "vc_caps ?cfg = unat c" "vc_num_fd_translations ?cfg = 5"
    "vc_vram_limit_mib ?cfg = vram_limit_mib (vram_new limit)"
    "i < min (length gpus) 8 \<Longrightarrow> vc_gpus ?cfg ! i = gpus ! i"
    "i < 5 \<Longrightarrow> vc_fd_translations ?cfg ! i = fd_carrying_ioctls ! i" for i
    using fl by (auto simp: virtio_config_new_def virtio_config_default_def Let_def put_at_0 bytes_of_string_def nth_append
        min_def)
  show ?thesis
    using daemon_new_configured [OF assms(1)] nv p(1,2,4) t(2) fd_offsets_published [of e off]
    by (simp add: daemon_get_config_def cfg config_fields [OF ok] f list_all_length flip: gpus_def)
qed

definition sample_version_file :: string where
  "sample_version_file = ''Module  620.0.0  Release''"

lemma sample_version: "host_driver_version (Some sample_version_file) = Some ''620.0.0''" "dv_parse ''620.0.0'' = Some sample_release"
  by (simp_all add: host_driver_version_def sample_version_file_def version_shaped_def is_space_def is_digit_def dv_parse_def
      numeral_3_eq_3 trim_def parse_u32_def digit_value_def)

lemma sample_daemon:
  "\<exists>da. daemon_new (Some sample_version_file) (Some [(''0000:01:00.0'', True)]) (\<lambda>_. None) COMPUTE None = Some (Inr da)"
proof -
  have g: "host_gpu_slots (Some [(''0000:01:00.0'', True)]) (\<lambda>_. None) \<noteq> []" by (simp add: host_gpu_slots_def)
  obtain bk where b: "backend_new default_1gib = Some bk" by (simp add: backend_new_def shm_new_def default_1gib_def zc_total_def)
  obtain bk' where s: "set_host_driver_version sample_release bk = (None, bk')"
    using tables_begin_together [of sample_release]
    by (auto simp: set_host_driver_version_def Let_def less_driver_version_def split: option.splits)
  show ?thesis
    using g by (simp add: daemon_new_def sample_version b s set_vram_limit_mib_def)
qed

lemma announced_is_enforced_witness:
  "\<exists>da. daemon_new (Some sample_version_file) (Some [(''0000:01:00.0'', True)]) (\<lambda>_. None) COMPUTE None = Some (Inr da) \<and>
     daemon_get_config da 36 4 = le_bytes 4 1 \<and> daemon_get_config da 32 4 = le_bytes 4 1"
proof -
  obtain da where d: "daemon_new (Some sample_version_file) (Some [(''0000:01:00.0'', True)]) (\<lambda>_. None) COMPUTE None = Some (Inr da)"
    using sample_daemon by blast
  from announced_is_enforced [OF d] d show ?thesis by (simp add: host_gpu_slots_def)
qed

section \<open>Every chain is served\<close>

text \<open>The request a chain carries, the room it leaves for the reply, and a chain whose memory can be accessed.\<close>

fun joined :: "desc list \<Rightarrow> bytes" where
  "joined [] = []"
| "joined (d # ds) = (if de_write_only d then joined ds else the (de_data d) @ joined ds)"

definition chain_request :: "chain \<Rightarrow> bytes" where
  "chain_request c = joined (ch_descs c)"

definition chain_room :: "chain \<Rightarrow> nat" where
  "chain_room c = min (de_len (last (filter de_write_only (ch_descs c)))) RESP_MAX"

definition desc_ok :: "desc \<Rightarrow> bool" where
  "desc_ok d \<longleftrightarrow> (if de_write_only d then de_ok d else (\<exists>b. de_data d = Some b \<and> length b = de_len d))"

definition chain_ok :: "chain \<Rightarrow> bool" where
  "chain_ok c \<longleftrightarrow> list_all desc_ok (ch_descs c) \<and> list_ex de_write_only (ch_descs c) \<and> well_framed (chain_request c) \<and> ch_used c"

text \<open>What was in the buffer before never reaches the request.\<close>

lemma gather_spec:
  assumes "list_all desc_ok ds" "n \<le> length buf"
  shows "\<exists>buf'. gather ds buf n resp =
      Some (if list_ex de_write_only ds then Some (last (filter de_write_only ds)) else resp, buf', n + length (joined ds)) \<and>
    take (n + length (joined ds)) buf' = take n buf @ joined ds \<and> n + length (joined ds) \<le> length buf'"
  using assms
proof (induction ds arbitrary: buf n resp)
  case (Cons d ds)
  show ?case
  proof (cases "de_write_only d")
    case True
    with Cons.prems Cons.IH [of n buf "Some d"] show ?thesis
      by (auto simp: list_ex_iff filter_empty_conv)
  next
    case False
    with Cons.prems obtain b where b: "de_data d = Some b" "length b = de_len d" by (auto simp: desc_ok_def)
    define m where "m = n + de_len d"
    define buf1 where "buf1 = (if m > length buf then buf @ replicate (m - length buf) 0 else buf)"
    have l: "m \<le> length buf1" "take n buf1 = take n buf" using Cons.prems(2) by (auto simp: buf1_def)
    have n: "n \<le> length buf1" using l(1) by (simp add: m_def)
    have p: "length (put_at buf1 n b) = length buf1" "take m (put_at buf1 n b) = take n buf @ b"
      using l b(2) n Cons.prems(2) by (simp_all add: m_def put_at_def)
    from Cons.IH [of m "put_at buf1 n b" resp] Cons.prems(1) l(1) p obtain buf' where g:
      "gather ds (put_at buf1 n b) m resp =
        Some (if list_ex de_write_only ds then Some (last (filter de_write_only ds)) else resp, buf', m + length (joined ds))"
      "take (m + length (joined ds)) buf' = (take n buf @ b) @ joined ds" "m + length (joined ds) \<le> length buf'"
      by auto
    have "gather (d # ds) buf n resp = gather ds (put_at buf1 n b) m resp"
      using False b by (simp add: Let_def buf1_def m_def)
    moreover have "n + length (joined (d # ds)) = m + length (joined ds)" using False b by (simp add: m_def)
    moreover have "list_ex de_write_only (d # ds) = list_ex de_write_only ds" "filter de_write_only (d # ds) = filter de_write_only ds"
      using False by simp_all
    moreover have "take n buf @ joined (d # ds) = (take n buf @ b) @ joined ds" using False b by simp
    ultimately show ?thesis using g by (simp only:) blast
  qed
qed simp

lemma serve_chain_dispatch:
  assumes "chain_ok c" "dispatch E (chain_room c) (chain_request c) (da_nvidia da) = Some (r, bk)"
  shows "\<exists>da'. serve_chain E c da = Some (Inr \<lparr>us_head = ch_head c, us_written = length r, us_reply = r\<rparr>, da') \<and>
    da_nvidia da' = bk"
proof -
  have ds: "list_all desc_ok (ch_descs c)" "list_ex de_write_only (ch_descs c)" "ch_used c" using assms(1) by (auto simp: chain_ok_def)
  let ?d = "last (filter de_write_only (ch_descs c))"
  obtain buf where g: "gather (ch_descs c) (da_req da) 0 None = Some (Some ?d, buf, length (chain_request c))"
      "take (length (chain_request c)) buf = chain_request c"
    using gather_spec [OF ds(1), of 0 "da_req da" None] ds(2) by (auto simp: chain_request_def)
  have "filter de_write_only (ch_descs c) \<noteq> []" using ds(2) by (auto simp: list_ex_iff filter_empty_conv)
  then have "?d \<in> set (ch_descs c)" "de_write_only ?d" using last_in_set by fastforce+
  then have "de_ok ?d" using ds(1) by (auto simp: list_all_iff desc_ok_def)
  with g assms(2) ds(3) show ?thesis by (simp add: serve_chain_def chain_room_def put_used_def Let_def)
qed

lemma process_chains_dispatch:
  assumes "running E (da_nvidia da)" "list_all chain_ok cs"
  shows "\<exists>us da'. process_chains E cs da = Some (None, us, da') \<and> map us_head us = map ch_head cs \<and>
    dispatch_all E (map (\<lambda>c. (chain_room c, chain_request c)) cs) (da_nvidia da) = Some (map us_reply us, da_nvidia da') \<and>
    list_all (\<lambda>u. us_written u = length (us_reply u)) us \<and> running E (da_nvidia da')"
  using assms
proof (induction cs arbitrary: da)
  case (Cons c cs)
  then have c: "chain_ok c" "well_framed (chain_request c)" by (auto simp: chain_ok_def)
  obtain r bk where d: "dispatch E (chain_room c) (chain_request c) (da_nvidia da) = Some (r, bk)" "running E bk"
    using dispatch_returns [OF Cons.prems(1) c(2)] by blast
  obtain da1 where s: "serve_chain E c da = Some (Inr \<lparr>us_head = ch_head c, us_written = length r, us_reply = r\<rparr>, da1)"
      "da_nvidia da1 = bk"
    using serve_chain_dispatch [OF c(1) d(1)] by blast
  from Cons.IH [of da1] s d(2) Cons.prems(2) obtain us da' where
    "process_chains E cs da1 = Some (None, us, da')" "map us_head us = map ch_head cs"
    "dispatch_all E (map (\<lambda>c. (chain_room c, chain_request c)) cs) (da_nvidia da1) = Some (map us_reply us, da_nvidia da')"
    "list_all (\<lambda>u. us_written u = length (us_reply u)) us" "running E (da_nvidia da')" by auto
  with s d show ?case by simp
qed simp


definition sample_chain :: chain where
  "sample_chain = \<lparr>ch_head = 7, ch_descs =
     [\<lparr>de_write_only = False, de_len = 16, de_data = Some (request Close 1 []), de_ok = False\<rparr>,
      \<lparr>de_write_only = True, de_len = 64, de_data = None, de_ok = True\<rparr>], ch_used = True\<rparr>"

definition sample_daemon_state :: daemon where
  "sample_daemon_state = \<lparr>da_nvidia = sample_opened, da_mem = True, da_event_idx = True,
     da_config = virtio_config_default, da_watching = False, da_sent = [], da_req = [9, 9, 9]\<rparr>"

lemma sample_chain_ok: "chain_ok sample_chain"
proof -
  have h: "dec_msg_header (request Close 1 []) = \<lparr>mh_type = 2, mh_handle = 1, mh_status = 0, mh_padding = 0\<rparr>"
    using hdr.dec_enc [of "\<lparr>mh_type = 2, mh_handle = 1, mh_status = 0, mh_padding = 0\<rparr>" "[]"]
    by (simp add: request_def msg_header_wf_def)
  have l: "length (request Close 1 []) = 16" by (simp add: request_def hdr.length_enc)
  show ?thesis
    by (simp add: chain_ok_def sample_chain_def desc_ok_def chain_request_def well_framed_def msg_of_def h [simplified] l [simplified]
        msg_type_from_u32_def Let_def)
qed


section \<open>Every wakeup is relayed\<close>

text \<open>A posted buffer that takes a whole event message.\<close>

definition event_buffer_ok :: "chain \<Rightarrow> bool" where
  "event_buffer_ok c \<longleftrightarrow> ch_used c \<and> (case find de_write_only (ch_descs c) of None \<Rightarrow> False | Some d \<Rightarrow> de_ok d \<and> 16 \<le> de_len d)"

lemma event_ready_length: "length (event_ready_bytes h) = 16"
  by (simp add: event_ready_bytes_def hdr.length_enc)

lemma push_event_used: "\<exists>new. pu_used (snd (push_event h pu)) = pu_used pu @ new"
  by (auto simp: push_event_def Let_def split: list.splits)

lemma pump_announce_used: "\<exists>new. pu_used (pump_announce hs pu) = pu_used pu @ new"
proof (induction hs arbitrary: pu)
  case (Cons h hs)
  obtain a where a: "pu_used (snd (push_event h pu)) = pu_used pu @ a" using push_event_used by blast
  obtain b where "pu_used (pump_announce hs (snd (push_event h pu))) = pu_used (snd (push_event h pu)) @ b" using Cons.IH by blast
  with a show ?case by simp
qed simp

text \<open>With a buffer for each, the messages go out one per handle, in order.\<close>

lemma pump_announce_all:
  assumes "length hs \<le> length (pu_posted pu)" "list_all event_buffer_ok (pu_posted pu)"
  shows "map us_reply (pu_used (pump_announce hs pu)) = map us_reply (pu_used pu) @ map event_ready_bytes hs \<and>
    map us_head (pu_used (pump_announce hs pu)) = map us_head (pu_used pu) @ map ch_head (take (length hs) (pu_posted pu)) \<and>
    pu_posted (pump_announce hs pu) = drop (length hs) (pu_posted pu)"
  using assms
proof (induction hs arbitrary: pu)
  case (Cons h hs)
  obtain c cs where p: "pu_posted pu = c # cs" using Cons.prems(1) by (cases "pu_posted pu") auto
  obtain d where d: "find de_write_only (ch_descs c) = Some d" "de_ok d" "16 \<le> de_len d" "ch_used c"
    using Cons.prems(2) by (auto simp: p event_buffer_ok_def split: option.splits)
  have s: "snd (push_event h pu) =
      pu\<lparr>pu_posted := cs, pu_used := pu_used pu @ [\<lparr>us_head = ch_head c, us_written = 16, us_reply = event_ready_bytes h\<rparr>]\<rparr>"
    using d by (simp add: push_event_def p Let_def event_ready_length)
  from Cons.IH [of "snd (push_event h pu)"] Cons.prems show ?case by (simp add: s p)
qed simp

lemma pump_drain_append: "pump_drain ctl (xs @ ys) w = pump_drain ctl ys (pump_drain ctl xs w)"
  by (induction ctl xs w rule: pump_drain.induct) simp_all

lemma pump_drain_removes: "map_of (pump_drain ctl (map WatchRemove hs) w) h = (if h \<in> set hs then None else map_of w h)"
  by (induction hs arbitrary: w) (auto simp: delete_conv')

lemma pump_drain_adds_other:
  "h \<notin> fst ` set hs \<Longrightarrow> map_of (pump_drain ctl (List.map_filter (\<lambda>(h, f). map_option (WatchAdd h) (g f)) hs) w) h = map_of w h"
proof (induction hs arbitrary: w)
  case (Cons a hs)
  obtain k f where a: "a = (k, f)" by (cases a)
  with Cons show ?case by (auto simp: map_filter_simps update_conv' split: option.splits)
qed (simp add: map_filter_simps)

lemma pump_drain_adds:
  "distinct (map fst hs) \<Longrightarrow> (h, f) \<in> set hs \<Longrightarrow> g f = Some f' \<Longrightarrow> ctl f' \<Longrightarrow>
    map_of (pump_drain ctl (List.map_filter (\<lambda>(h, f). map_option (WatchAdd h) (g f)) hs) w) h = Some f'"
proof (induction hs arbitrary: w)
  case (Cons a hs)
  obtain k e where a: "a = (k, e)" by (cases a)
  show ?case
  proof (cases "a = (h, f)")
    case True
    then have "h \<notin> fst ` set hs" using Cons.prems(1) by auto
    from pump_drain_adds_other [OF this] True Cons.prems(3,4) show ?thesis by (simp add: map_filter_simps update_conv')
  next
    case False
    with Cons a show ?thesis by (auto simp: map_filter_simps split: option.splits)
  qed
qed simp

text \<open>A turn of the loop, with what the rest of the system does before it: messages sent, buffers posted by the guest.\<close>

record turn =
  tu_msgs :: "watch list"
  tu_posted :: "chain list"
  tu_sweep :: bool
  tu_readable :: "fd \<Rightarrow> bool"
  tu_reported :: "nat list"

definition turn_start :: "turn \<Rightarrow> pump \<Rightarrow> pump" where
  "turn_start t pu = pu\<lparr>pu_rx := pu_rx pu @ tu_msgs t, pu_posted := pu_posted pu @ tu_posted t\<rparr>"

definition pump_turn :: "(fd \<Rightarrow> bool) \<Rightarrow> turn \<Rightarrow> pump \<Rightarrow> pump" where
  "pump_turn ctl t pu = pump_round ctl (tu_sweep t) (tu_readable t) (tu_reported t) (turn_start t pu)"

fun watch_handle :: "watch \<Rightarrow> nat" where
  "watch_handle (WatchAdd h f) = h"
| "watch_handle (WatchRemove h) = h"

lemma pump_drain_other:
  "list_all (\<lambda>m. watch_handle m \<noteq> h) ms \<Longrightarrow> map_of (pump_drain ctl ms w) h = map_of w h"
  by (induction ctl ms w rule: pump_drain.induct) (auto simp: update_conv' delete_conv')

lemma push_event_fields [simp]:
  "pu_rx (snd (push_event h pu)) = pu_rx pu" "pu_watched (snd (push_event h pu)) = pu_watched pu"
  by (simp_all add: push_event_def Let_def split: list.splits)

lemma pump_announce_fields [simp]:
  "pu_rx (pump_announce hs pu) = pu_rx pu" "pu_watched (pump_announce hs pu) = pu_watched pu"
  by (induction hs arbitrary: pu) simp_all

lemma pump_turn_watched: "pu_rx (pump_turn ctl t pu) = []"
  "pu_watched (pump_turn ctl t pu) = pump_drain ctl (pu_rx pu @ tu_msgs t) (pu_watched pu)"
  by (simp_all add: pump_turn_def pump_round_def turn_start_def Let_def)

text \<open>The watch on a handle survives every turn that is told nothing about it.\<close>

lemma pump_run_watched:
  assumes "map_of (pump_drain ctl (pu_rx pu) (pu_watched pu)) h = Some f"
    "list_all (\<lambda>t. list_all (\<lambda>m. watch_handle m \<noteq> h) (tu_msgs t)) ts"
  shows "map_of (pump_drain ctl (pu_rx (fold (pump_turn ctl) ts pu)) (pu_watched (fold (pump_turn ctl) ts pu))) h = Some f"
  using assms
proof (induction ts arbitrary: pu)
  case (Cons t ts)
  from Cons.IH [of "pump_turn ctl t pu"] Cons.prems show ?case
    by (simp add: pump_turn_watched pump_drain_append pump_drain_other)
qed simp

lemma sweep_announces:
  assumes "map_of (pump_drain ctl (pu_rx pu @ tu_msgs t) (pu_watched pu)) h = Some f" "tu_sweep t" "tu_readable t f"
    "list_all event_buffer_ok (pu_posted pu @ tu_posted t)"
    "length (filter (tu_readable t \<circ> snd) (pu_watched (pump_turn ctl t pu))) \<le> length (pu_posted pu @ tu_posted t)"
  shows "event_ready_bytes h \<in> set (drop (length (pu_used pu)) (map us_reply (pu_used (pump_turn ctl t pu))))"
proof -
  define w where "w = pump_drain ctl (pu_rx pu @ tu_msgs t) (pu_watched pu)"
  let ?hs = "map fst (filter (tu_readable t \<circ> snd) w)"
  let ?p = "(turn_start t pu)\<lparr>pu_rx := [], pu_watched := w\<rparr>"
  have "(h, f) \<in> set w" using assms(1) by (simp add: w_def map_of_SomeD)
  then have h: "h \<in> set ?hs" using assms(3) by force
  have r: "pump_turn ctl t pu = pump_announce (tu_reported t) (pump_announce ?hs ?p)"
    using assms(2) by (simp add: pump_turn_def pump_round_def turn_start_def w_def Let_def)
  have a: "map us_reply (pu_used (pump_announce ?hs ?p)) = map us_reply (pu_used pu) @ map event_ready_bytes ?hs"
    using pump_announce_all [of ?hs ?p] assms(4,5) by (simp add: turn_start_def pump_turn_watched w_def)
  obtain new where "pu_used (pump_turn ctl t pu) = pu_used (pump_announce ?hs ?p) @ new"
    using pump_announce_used r by metis
  then have "map us_reply (pu_used (pump_turn ctl t pu)) = map us_reply (pu_used pu) @ map event_ready_bytes ?hs @ map us_reply new"
    using a by simp
  then have "drop (length (pu_used pu)) (map us_reply (pu_used (pump_turn ctl t pu))) = map event_ready_bytes ?hs @ map us_reply new"
    by (metis append_eq_conv_conj length_map)
  then show ?thesis using h by auto
qed

text \<open>C14: A wakeup is not lost. Once the daemon has told the pump about a descriptor the backend opened (and has not closed
  in the same batch), the pump watches its duplicate, through any number of turns that say nothing about the handle,
  whatever is reported and however many notifications found no buffer; and in the first turn whose sweep is due while
  the descriptor is readable and the guest has posted a buffer for each readable one, the message naming the handle is
  put in the used ring.\<close>

theorem wakeups_delivered:
  assumes "take_watch_updates (da_nvidia da) = ((added, removed), bk)" "da_mem da" "we_spawn W"
    "distinct (map fst added)" "(h, f) \<in> set added" "h \<notin> set removed" "we_dup W f = Some f'" "ctl f'"
    "pu_rx pu = unread @ drop (length (da_sent da)) (da_sent (sync_watches W da))"
    "list_all (\<lambda>t. list_all (\<lambda>m. watch_handle m \<noteq> h) (tu_msgs t)) (ts @ [t])"
    "pu' = fold (pump_turn ctl) ts pu" "tu_sweep t" "tu_readable t f'"
    "list_all event_buffer_ok (pu_posted pu' @ tu_posted t)"
    "length (filter (tu_readable t \<circ> snd) (pu_watched (pump_turn ctl t pu'))) \<le> length (pu_posted pu' @ tu_posted t)"
  shows "event_ready_bytes h \<in> set (drop (length (pu_used pu')) (map us_reply (pu_used (pump_turn ctl t pu'))))"
proof -
  have "drop (length (da_sent da)) (da_sent (sync_watches W da)) =
      List.map_filter (\<lambda>(h, f). map_option (WatchAdd h) (we_dup W f)) added @ map WatchRemove removed"
    using assms(1-3,5) by (cases added) (auto simp: sync_watches_def Let_def)
  then have "map_of (pump_drain ctl (pu_rx pu) (pu_watched pu)) h = Some f'"
    using pump_drain_adds [where g = "we_dup W" and ctl = ctl, OF assms(4,5,7), of "pump_drain ctl unread (pu_watched pu)"] assms(6,8)
    by (simp add: assms(9) pump_drain_append pump_drain_removes)
  from pump_run_watched [OF this] assms(10,11)
  have "map_of (pump_drain ctl (pu_rx pu' @ tu_msgs t) (pu_watched pu')) h = Some f'"
    by (simp add: pump_drain_append pump_drain_other)
  from sweep_announces [OF this assms(12-15)] show ?thesis .
qed

definition sample_watch_env :: watch_env where
  "sample_watch_env = \<lparr>we_spawn = True, we_dup = \<lambda>f. Some (f + 100), we_signal = True\<rparr>"

definition sample_buffer :: chain where
  "sample_buffer = \<lparr>ch_head = 3, ch_descs = [\<lparr>de_write_only = True, de_len = 16, de_data = None, de_ok = True\<rparr>], ch_used = True\<rparr>"

text \<open>The open control file; the first turn finds no buffer, the second sweeps.\<close>

lemma wakeups_delivered_witness:
  "\<exists>pu. event_ready_bytes 1 \<in> set (map us_reply (pu_used pu)) \<and>
     pu = fold (pump_turn (\<lambda>_. True))
       [\<lparr>tu_msgs = [], tu_posted = [], tu_sweep = False, tu_readable = \<lambda>_. True, tu_reported = [1]\<rparr>,
        \<lparr>tu_msgs = [], tu_posted = [sample_buffer], tu_sweep = True, tu_readable = \<lambda>_. True, tu_reported = []\<rparr>]
       \<lparr>pu_rx = da_sent (sync_watches sample_watch_env sample_daemon_state), pu_watched = [], pu_posted = [], pu_used = []\<rparr>"
proof -
  let ?t1 = "\<lparr>tu_msgs = [], tu_posted = [], tu_sweep = False, tu_readable = \<lambda>_. True, tu_reported = [1]\<rparr>"
  let ?t2 = "\<lparr>tu_msgs = [], tu_posted = [sample_buffer], tu_sweep = True, tu_readable = \<lambda>_. True, tu_reported = []\<rparr>"
  let ?pu = "\<lparr>pu_rx = da_sent (sync_watches sample_watch_env sample_daemon_state), pu_watched = [], pu_posted = [], pu_used = []\<rparr>"
  obtain bk where u: "take_watch_updates (da_nvidia sample_daemon_state) = (([(1, 40)], []), bk)"
    by (simp add: take_watch_updates_def sample_daemon_state_def sample_opened_def backend_new_def shm_new_def default_256mib_def zc_total_def)
  have s: "da_sent (sync_watches sample_watch_env sample_daemon_state) = [WatchAdd 1 140]"
    by (simp add: sync_watches_def u Let_def) (simp add: sample_daemon_state_def sample_watch_env_def map_filter_simps)
  have "event_ready_bytes 1 \<in> set (drop (length (pu_used (fold (pump_turn (\<lambda>_. True)) [?t1] ?pu)))
      (map us_reply (pu_used (pump_turn (\<lambda>_. True) ?t2 (fold (pump_turn (\<lambda>_. True)) [?t1] ?pu)))))"
    by (rule wakeups_delivered [OF u, where f = 40 and f' = 140 and W = sample_watch_env and unread = "[]" and pu = ?pu and ts = "[?t1]"])
      (simp_all add: sample_daemon_state_def sample_watch_env_def sample_buffer_def event_buffer_ok_def s [unfolded sample_daemon_state_def sample_watch_env_def]
        pump_turn_def pump_round_def turn_start_def push_event_def Let_def update_conv')
  then show ?thesis by (auto dest: in_set_dropD)
qed

section \<open>A daemon over its life\<close>

text \<open>Kicks of any queue with any chains, the guest's memory and the request channel supplied again, the ring's features.\<close>

inductive daemon_life :: "env \<Rightarrow> watch_env \<Rightarrow> daemon \<Rightarrow> daemon \<Rightarrow> bool" for E W da0 where
  started: "daemon_life E W da0 da0"
| kicked: "daemon_life E W da0 da \<Longrightarrow> daemon_handle_event E W q batches da = Some (e, us, da') \<Longrightarrow> daemon_life E W da0 da'"
| channel: "daemon_life E W da0 da \<Longrightarrow> daemon_life E W da0 (daemon_set_window da)"
| memory: "daemon_life E W da0 da \<Longrightarrow> daemon_life E W da0 (daemon_update_memory ram da)"
| features: "daemon_life E W da0 da \<Longrightarrow> daemon_life E W da0 (daemon_set_event_idx on da)"

definition daemon_keeps :: "env \<Rightarrow> daemon \<Rightarrow> daemon \<Rightarrow> bool" where
  "daemon_keeps E da da' \<longleftrightarrow>
     da_config da' = da_config da \<and> bk_caps (da_nvidia da') = bk_caps (da_nvidia da) \<and>
     (bk_driver (da_nvidia da) \<noteq> None \<longrightarrow> release_tables (da_nvidia da') = release_tables (da_nvidia da)) \<and>
     (running E (da_nvidia da) \<longrightarrow> running E (da_nvidia da'))"

lemma daemon_keeps_refl [simp]: "daemon_keeps E da da"
  by (simp add: daemon_keeps_def)

lemma daemon_keeps_trans: "daemon_keeps E a b \<Longrightarrow> daemon_keeps E b c \<Longrightarrow> daemon_keeps E a c"
  by (auto simp: daemon_keeps_def release_tables_def)

lemma daemon_keeps_same_backend:
  "da_config da' = da_config da \<Longrightarrow> da_nvidia da' = da_nvidia da \<Longrightarrow> daemon_keeps E da da'"
  by (simp add: daemon_keeps_def)

lemma dispatch_keeps:
  assumes "dispatch E cap req bk = Some (r, bk')"
  shows "bk_caps bk' = bk_caps bk \<and> (bk_driver bk \<noteq> None \<longrightarrow> release_tables bk' = release_tables bk)"
proof -
  obtain b1 where "step_ok (\<lambda>e. tables_agree bk \<longrightarrow> vetted bk e) keeps_neither b1 bk'"
      "release_tables b1 = release_tables bk" "bk_driver b1 = bk_driver bk" "bk_caps b1 = bk_caps bk"
    using med.step_dispatch [OF assms refl] by blast
  then show ?thesis by (auto simp: step_ok_def frame_ok_def)
qed

lemma serve_chain_keeps:
  assumes "serve_chain E c da = Some (x, da')"
  shows "daemon_keeps E da da'"
proof (cases "gather (ch_descs c) (da_req da) 0 None")
  case None
  with assms show ?thesis by (simp add: serve_chain_def)
next
  case (Some g)
  obtain resp buf n where g: "g = (resp, buf, n)" by (cases g)
  show ?thesis
  proof (cases resp)
    case None
    with assms Some g show ?thesis by (auto simp: serve_chain_def Let_def intro: daemon_keeps_same_backend)
  next
    case (Some d)
    with assms \<open>gather _ _ _ _ = Some g\<close> g obtain r bk where
      d: "dispatch E (min (de_len d) RESP_MAX) (take n buf) (da_nvidia da) = Some (r, bk)"
      and da': "da_config da' = da_config da" "da_nvidia da' = bk"
      by (auto simp: serve_chain_def Let_def split: if_splits)
    show ?thesis
      using dispatch_keeps [OF d] running.message [OF _ d] by (simp add: daemon_keeps_def da')
  qed
qed

lemma process_chains_keeps: "process_chains E cs da = Some (e, us, da') \<Longrightarrow> daemon_keeps E da da'"
proof (induction cs arbitrary: da us)
  case (Cons c cs)
  obtain x da1 where s: "serve_chain E c da = Some (x, da1)" using Cons.prems by (auto split: option.splits)
  with Cons show ?case
    by (cases x) (auto dest!: serve_chain_keeps intro: daemon_keeps_trans)
qed simp

lemma process_batches_keeps: "process_batches E bs da = Some (e, us, da') \<Longrightarrow> daemon_keeps E da da'"
proof (induction bs arbitrary: da us)
  case (Cons b bs)
  obtain x us1 da1 where s: "process_chains E b da = Some (x, us1, da1)" using Cons.prems by (auto split: option.splits)
  with Cons show ?case
    by (cases x) (auto dest!: process_chains_keeps intro: daemon_keeps_trans)
qed simp

lemma sync_watches_keeps: "daemon_keeps E da (sync_watches W da)"
proof -
  have bk: "bk_caps (snd (take_watch_updates b)) = bk_caps b" "release_tables (snd (take_watch_updates b)) = release_tables b" for b
    by (simp_all add: take_watch_updates_def release_tables_def)
  have "da_config (sync_watches W da) = da_config da" "da_nvidia (sync_watches W da) = snd (take_watch_updates (da_nvidia da))"
    by (simp_all add: sync_watches_def Let_def split: prod.splits)
  then show ?thesis using running.watch by (simp add: daemon_keeps_def bk)
qed

lemma daemon_life_keeps: "daemon_life E W da0 da \<Longrightarrow> daemon_keeps E da0 da"
proof (induction rule: daemon_life.induct)
  case (kicked da q batches e us da')
  have "daemon_keeps E da da'"
    using kicked.hyps(2)
    by (auto simp: daemon_handle_event_def split: if_splits dest!: process_batches_keeps
        intro: daemon_keeps_trans [OF _ sync_watches_keeps])
  with kicked.IH show ?case by (rule daemon_keeps_trans)
next
  case (channel da)
  have "daemon_keeps E da (daemon_set_window da)"
    using running.window by (simp add: daemon_keeps_def daemon_set_window_def set_window_def release_tables_def)
  with channel.IH show ?case by (rule daemon_keeps_trans)
next
  case (memory da ram)
  have "daemon_keeps E da (daemon_update_memory ram da)"
    using running.guest_ram by (simp add: daemon_keeps_def daemon_update_memory_def set_guest_ram_def release_tables_def)
  with memory.IH show ?case by (rule daemon_keeps_trans)
next
  case (features da on)
  have "daemon_keeps E da (daemon_set_event_idx on da)"
    by (rule daemon_keeps_same_backend) (simp_all add: daemon_set_event_idx_def)
  with features.IH show ?case by (rule daemon_keeps_trans)
qed simp

text \<open>C15: What a daemon announced at its start stands for its whole life: after any kicks with any chains, errors included,
  and any changes of the guest's memory, configuration space reads the same, the backend still serves the release it
  announced with all of that release's tables and the same capabilities, and it is a reachable backend, so that what is
  proved of those holds.\<close>

theorem announcement_stands:
  assumes "daemon_new vf entries info c limit = Some (Inr da0)" "daemon_life E W da0 da"
  shows "daemon_get_config da off count = daemon_get_config da0 off count \<and> bk_caps (da_nvidia da) = c \<and>
    (\<exists>v release. host_driver_version vf = Some v \<and> dv_parse v = Some release \<and> bk_driver (da_nvidia da) = Some release \<and>
       release_tables (da_nvidia da) = tables_of release) \<and> running E (da_nvidia da)"
proof -
  have k: "daemon_keeps E da0 da" using assms(2) by (rule daemon_life_keeps)
  obtain v release bk bk' where p: "host_driver_version vf = Some v" "dv_parse v = Some release"
    "set_host_driver_version release bk = (None, bk')" "da_nvidia da0 = set_caps c bk'\<lparr>bk_vram := vram_new limit\<rparr>"
    using daemon_new_parts [OF assms(1)] by metis
  have t: "release_tables bk' = tables_of release"
    using set_host_driver_version_tables [OF p(3)] by simp
  then have "release_tables (da_nvidia da0) = tables_of release" "bk_caps (da_nvidia da0) = c"
    by (simp_all add: p(4) set_caps_def release_tables_def)
  moreover from this have "bk_driver (da_nvidia da0) = Some release" by (simp add: release_tables_def tables_of_def)
  moreover have "running E (da_nvidia da0)" using daemon_new_configured [OF assms(1)] by (rule running.start)
  ultimately show ?thesis
    using k p(1,2) by (auto simp: daemon_keeps_def daemon_get_config_def release_tables_def tables_of_def)
qed

lemma announcement_stands_witness:
  "\<exists>da0 us da. daemon_new (Some sample_version_file) (Some [(''0000:01:00.0'', True)]) (\<lambda>_. None) COMPUTE None = Some (Inr da0) \<and>
     daemon_handle_event sample_env sample_watch_env 0 [[sample_chain]] (daemon_update_memory (\<lambda>_. None) da0) = Some (None, us, da) \<and>
     map us_head us = [7] \<and> bk_caps (da_nvidia da) = COMPUTE"
proof -
  obtain da0 where d: "daemon_new (Some sample_version_file) (Some [(''0000:01:00.0'', True)]) (\<lambda>_. None) COMPUTE None = Some (Inr da0)"
    using sample_daemon by blast
  let ?da1 = "daemon_update_memory (\<lambda>_. None) da0"
  have l1: "daemon_life sample_env sample_watch_env da0 ?da1" by (rule daemon_life.memory [OF daemon_life.started])
  have r: "running sample_env (da_nvidia ?da1)"
    using running.guest_ram [OF running.start [OF daemon_new_configured [OF d]]] by (simp add: daemon_update_memory_def)
  obtain us da where p: "process_chains sample_env [sample_chain] ?da1 = Some (None, us, da)" "map us_head us = [7]"
    using process_chains_dispatch [OF r, of "[sample_chain]"] sample_chain_ok by (auto simp: sample_chain_def)
  then have e: "daemon_handle_event sample_env sample_watch_env 0 [[sample_chain]] ?da1 = Some (None, us, sync_watches sample_watch_env da)"
    by (simp add: daemon_handle_event_def daemon_update_memory_def sample_watch_env_def)
  have "bk_caps (da_nvidia (sync_watches sample_watch_env da)) = COMPUTE"
    using announcement_stands [OF d daemon_life.kicked [OF l1 e], of 0 0] by simp
  with d e p(2) show ?thesis by (intro exI conjI)
qed

end
