(* ===== verification/Userspace.thy ===== *)
theory Userspace
  imports Virtio
begin

text \<open>
  Which of the host's driver files a guest is given (\<open>device/src/userspace.rs\<close>): driver versions in file names, the
  driver's manifest and its parser, the search for each entry on the host, and the SONAME a library records.

  Strings are their bytes. A path is the list of its components, as \<open>Path\<close> compares them; which paths exist, and what
  the files hold, are arguments. Results are \<open>None\<close> where the code panics or aborts.
\<close>

section \<open>Versions in text\<close>

text \<open>The run of digits and dots at the start of the text, its dots and what follows; a dot belongs to it only before a
  digit.\<close>

fun version_run :: "string \<Rightarrow> string \<times> nat \<times> string" where
  "version_run [] = ([], 0, [])"
| "version_run (c # cs) =
     (if is_digit c then (case version_run cs of (v, dots, rest) \<Rightarrow> (c # v, dots, rest))
      else if c = CHR ''.'' \<and> (case cs of [] \<Rightarrow> False | d # _ \<Rightarrow> is_digit d)
        then (case version_run cs of (v, dots, rest) \<Rightarrow> (c # v, Suc dots, rest))
      else ([], 0, c # cs))"

lemma version_run_append: "version_run s = (v, dots, rest) \<Longrightarrow> s = v @ rest"
  by (induction s arbitrary: v dots rest rule: version_run.induct) (auto split: if_splits prod.splits)

lemma version_run_digit:
  assumes "is_digit c" "version_run (c # cs) = (v, dots, rest)"
  shows "length (dropWhile is_digit rest) < length (c # cs)"
proof -
  have "length rest \<le> length cs"
    using assms version_run_append [of cs] by (fastforce split: prod.splits)
  then show ?thesis using length_dropWhile_le [of is_digit rest] by simp
qed

function version_in :: "string \<Rightarrow> string option" where
  "version_in [] = None"
| "version_in (c # cs) =
     (if \<not> is_digit c then version_in cs
      else case version_run (c # cs) of (v, dots, rest) \<Rightarrow>
        if dots \<ge> 2 then Some v else version_in (dropWhile is_digit rest))"
  by pat_completeness auto

termination
  by (relation "measure length") (auto simp del: version_run.simps dest!: version_run_digit [OF _ sym])

text \<open>\<open>str::lines\<close>: a final newline ends the last line, and a carriage return before a newline belongs to it.\<close>

definition strip_cr :: "string \<Rightarrow> string" where
  "strip_cr l = (if l \<noteq> [] \<and> last l = CHR 0x0D then butlast l else l)"

definition str_lines :: "string \<Rightarrow> string list" where
  "str_lines s =
     (let ls = split_on (CHR 0x0A) s
      in map strip_cr (butlast ls) @ (if last ls = [] then [] else [last ls]))"

fun find_map :: "('a \<Rightarrow> 'b option) \<Rightarrow> 'a list \<Rightarrow> 'b option" where
  "find_map f [] = None"
| "find_map f (x # xs) = (case f x of None \<Rightarrow> find_map f xs | Some y \<Rightarrow> Some y)"

definition loaded_driver_version :: "string option \<Rightarrow> string option" where
  "loaded_driver_version file = Option.bind file (\<lambda>text. find_map version_in (str_lines text))"

section \<open>Paths\<close>

datatype comp = RootDir | CurDir | ParentDir | Normal string

type_synonym path = "comp list"

definition path_of :: "string \<Rightarrow> path" where
  "path_of s =
     (let parts = split_on (CHR ''/'') s
      in (if s \<noteq> [] \<and> hd s = CHR ''/'' then [RootDir] else if hd parts = ''.'' then [CurDir] else []) @
         map (\<lambda>p. if p = ''..'' then ParentDir else Normal p) (filter (\<lambda>p. p \<noteq> [] \<and> p \<noteq> ''.'') parts))"

definition path_join :: "path \<Rightarrow> path \<Rightarrow> path" where
  "path_join a b =
     (if b \<noteq> [] \<and> hd b = RootDir then b else if a = [] then b else a @ filter (\<lambda>c. c \<noteq> CurDir) b)"

definition path_file_name :: "path \<Rightarrow> string option" where
  "path_file_name p = (if p = [] then None else case last p of Normal f \<Rightarrow> Some f | _ \<Rightarrow> None)"

definition path_parent :: "path \<Rightarrow> path option" where
  "path_parent p = (if p = [] \<or> last p = RootDir then None else Some (butlast p))"

definition default_search :: "path list" where
  "default_search =
     map path_of
       [''/usr/lib'', ''/usr/lib64'', ''/usr/lib/x86_64-linux-gnu'', ''/usr/bin'', ''/usr/share/vulkan/icd.d'',
        ''/usr/share/vulkan/implicit_layer.d'', ''/usr/share/vulkansc/icd.d'', ''/usr/share/glvnd/egl_vendor.d'',
        ''/usr/share/nvidia'', ''/usr/lib/nvidia'', ''/usr/lib/xorg/modules/drivers'', ''/usr/lib/xorg/modules/extensions'']"

section \<open>Entries\<close>

datatype file_kind = Lib | Binary | Json | Firmware | Symlink | Modprobe | OtherKind string

definition file_kind_parse :: "string \<Rightarrow> file_kind" where
  "file_kind_parse s =
     (if s = ''LIB'' then Lib else if s = ''BINARY'' then Binary else if s = ''JSON'' \<or> s = ''ICD'' then Json
      else if s = ''FIRMWARE'' then Firmware else if s = ''SYMLINK'' then Symlink
      else if s = ''MODPROBE'' then Modprobe else OtherKind s)"

fun file_kind_display :: "file_kind \<Rightarrow> string" where
  "file_kind_display Lib = ''lib''"
| "file_kind_display Binary = ''binary''"
| "file_kind_display Json = ''json''"
| "file_kind_display Firmware = ''firmware''"
| "file_kind_display Symlink = ''symlink''"
| "file_kind_display Modprobe = ''modprobe''"
| "file_kind_display (OtherKind s) = s"

datatype capability = Utility | Compute | Graphics | Video

fun cap_categories :: "capability \<Rightarrow> string list" where
  "cap_categories Utility = [''nvml'', ''utils'']"
| "cap_categories Compute = [''cuda'', ''opencl'', ''optix'']"
| "cap_categories Graphics =
     [''vulkan'', ''egl'', ''egl_headless'', ''egl_wayland'', ''egl_gbm'', ''egl_x11'', ''glx'', ''gbm'', ''glvnd'']"
| "cap_categories Video = [''video'']"

definition headless_pipeline :: "capability list" where
  "headless_pipeline = [Utility, Compute, Graphics, Video]"

record file_entry =
  fe_name :: string
  fe_kind :: file_kind
  fe_categories :: "string set"

definition wanted_by :: "capability list \<Rightarrow> file_entry \<Rightarrow> bool" where
  "wanted_by caps e = list_ex (\<lambda>c. c \<in> fe_categories e) (concat (map cap_categories caps))"

definition is_host_only :: "file_entry \<Rightarrow> bool" where
  "is_host_only e \<longleftrightarrow>
     fe_kind e = Firmware \<or> fe_kind e = Modprobe \<or> ''firmware'' \<in> fe_categories e \<or> ''modprobe'' \<in> fe_categories e"

record resolved =
  rs_entry :: file_entry
  rs_host :: path
  rs_guest :: path

text \<open>The version most files carry in their names, the higher one on a tie (as the bytes of the text compare).\<close>

definition file_version :: "resolved \<Rightarrow> string option" where
  "file_version r = Option.bind (path_file_name (rs_host r)) version_in"

definition best_version :: "string \<times> nat \<Rightarrow> (string \<times> nat) option \<Rightarrow> (string \<times> nat) option" where
  "best_version x best =
     (case best of
        None \<Rightarrow> Some x
      | Some (w, m) \<Rightarrow>
          if m < snd x \<or> m = snd x \<and> (map of_char w :: nat list) \<le> map of_char (fst x) then Some x else best)"

definition staged_driver_version :: "resolved list \<Rightarrow> string option" where
  "staged_driver_version found =
     map_option fst (fold best_version (fold bump (List.map_filter file_version found) []) None)"

section \<open>What the version search finds\<close>

text \<open>At least three groups of digits, joined by dots.\<close>

definition dotted :: "string \<Rightarrow> bool" where
  "dotted w \<longleftrightarrow>
     (let ps = split_on (CHR ''.'') w in 3 \<le> length ps \<and> list_all (\<lambda>p. p \<noteq> [] \<and> list_all is_digit p) ps)"

definition dotted_at :: "string \<Rightarrow> nat \<Rightarrow> bool" where
  "dotted_at s n \<longleftrightarrow> (\<exists>w b. drop n s = w @ b \<and> dotted w)"

text \<open>The same but that the first group may be empty.\<close>

definition groups :: "string \<Rightarrow> bool" where
  "groups w \<longleftrightarrow>
     (let ps = split_on (CHR ''.'') w
      in list_all is_digit (hd ps) \<and> list_all (\<lambda>p. p \<noteq> [] \<and> list_all is_digit p) (tl ps))"

lemma split_on_ne: "split_on sep s \<noteq> []"
  by (induction sep s rule: split_on.induct) (auto split: list.splits)

lemma split_on_Cons: "c \<noteq> sep \<Longrightarrow> split_on sep (c # cs) = (c # hd (split_on sep cs)) # tl (split_on sep cs)"
  using split_on_ne [of sep cs] by (auto split: list.splits)

lemma dot_no_digit [simp]: "\<not> is_digit (CHR ''.'')"
  by (simp add: is_digit_def)

lemma digit_no_dot: "is_digit c \<Longrightarrow> c \<noteq> CHR ''.''"
  by (auto simp: is_digit_def)

lemma groups_digit: "is_digit c \<Longrightarrow> groups (c # cs) \<longleftrightarrow> groups cs"
  by (simp add: groups_def split_on_Cons digit_no_dot Let_def del: split_on.simps(2))

lemma hd_split_on: "hd (split_on sep s) = [] \<longleftrightarrow> s = [] \<or> hd s = sep"
  using split_on_Cons by (cases s) auto

lemma groups_parts:
  "list_all (\<lambda>p. p \<noteq> [] \<and> list_all is_digit p) (split_on (CHR ''.'') w) \<longleftrightarrow> groups w \<and> w \<noteq> [] \<and> is_digit (hd w)"
proof (cases "split_on (CHR ''.'') w")
  case Nil
  then show ?thesis using split_on_ne by blast
next
  case (Cons p ps)
  have "p \<noteq> [] \<longleftrightarrow> w \<noteq> [] \<and> hd w \<noteq> CHR ''.''" using hd_split_on [of "CHR ''.''" w] Cons by auto
  moreover have "hd w \<noteq> CHR ''.'' \<Longrightarrow> w \<noteq> [] \<Longrightarrow> hd p = hd w" using Cons split_on_Cons by (cases w) auto
  ultimately show ?thesis
    using Cons by (cases p) (auto simp: groups_def digit_no_dot)
qed

lemma groups_dot: "groups (CHR ''.'' # cs) \<longleftrightarrow> groups cs \<and> cs \<noteq> [] \<and> is_digit (hd cs)"
  using groups_parts [of cs] by (simp add: groups_def)

lemma groups_head: "groups (c # cs) \<Longrightarrow> is_digit c \<or> c = CHR ''.''"
  using split_on_Cons [of c "CHR ''.''" cs] by (auto simp: groups_def Let_def)

lemma groups_run:
  "groups w \<Longrightarrow> version_run b = (v, d, r) \<Longrightarrow> version_run (w @ b) = (w @ v, length (split_on (CHR ''.'') w) - 1 + d, r)"
proof (induction w)
  case (Cons c w)
  show ?case
  proof (cases "is_digit c")
    case True
    with Cons split_on_ne [of "CHR ''.''" w] show ?thesis
      by (simp add: groups_digit split_on_Cons digit_no_dot del: split_on.simps(2))
  next
    case False
    with Cons.prems groups_head have c: "c = CHR ''.''" by blast
    with Cons.prems(1) have w: "groups w" "w \<noteq> []" "is_digit (hd w)" by (simp_all add: groups_dot)
    have "length (split_on (CHR ''.'') w) > 0" using split_on_ne by simp
    with Cons.IH [OF w(1) Cons.prems(2)] w(2,3) c show ?thesis by (cases w) auto
  qed
qed (simp add: Let_def)

lemma version_run_groups:
  "version_run s = (v, d, r) \<Longrightarrow> groups v \<and> length (split_on (CHR ''.'') v) = Suc d"
proof (induction s arbitrary: v d r rule: version_run.induct)
  case (2 c cs)
  obtain v' d' r' where rec: "version_run cs = (v', d', r')" by (cases "version_run cs")
  show ?case
  proof (cases "is_digit c")
    case True
    with 2 rec split_on_ne [of "CHR ''.''" v'] show ?thesis
      by (auto simp: groups_digit split_on_Cons digit_no_dot simp del: split_on.simps(2))
  next
    case False
    note no = False
    show ?thesis
    proof (cases "c = CHR ''.'' \<and> (case cs of [] \<Rightarrow> False | d # _ \<Rightarrow> is_digit d)")
      case True
      then obtain x xs where cs: "cs = x # xs" "is_digit x" by (cases cs) auto
      then obtain v'' where "v' = x # v''" using rec by (auto split: prod.splits)
      with 2 rec True no cs show ?thesis by (auto simp: groups_dot)
    next
      case False
      with no 2(3) have "v = [] \<and> d = 0" by simp
      then show ?thesis by (simp add: groups_def)
    qed
  qed
qed (simp add: groups_def)

lemma dotted_groups: "dotted w \<longleftrightarrow> groups w \<and> w \<noteq> [] \<and> is_digit (hd w) \<and> 3 \<le> length (split_on (CHR ''.'') w)"
  unfolding dotted_def Let_def groups_parts by auto

text \<open>A prefix of the text is dotted when the run is, and then the run is the longest.\<close>

lemma dotted_prefix:
  assumes "version_run s = (v, d, r)"
  shows "(\<exists>w b. s = w @ b \<and> dotted w) \<longleftrightarrow> s \<noteq> [] \<and> is_digit (hd s) \<and> 2 \<le> d"
    and "s = w @ b \<Longrightarrow> dotted w \<Longrightarrow> length w \<le> length v"
proof -
  have w: "dotted w \<Longrightarrow> s = w @ b \<Longrightarrow> 2 \<le> d \<and> length w \<le> length v \<and> is_digit (hd s) \<and> s \<noteq> []" for w b
  proof -
    assume w: "dotted w" "s = w @ b"
    obtain v' d' r' where b: "version_run b = (v', d', r')" by (cases "version_run b")
    have "version_run s = (w @ v', length (split_on (CHR ''.'') w) - 1 + d', r')"
      using groups_run [OF _ b] w by (simp add: dotted_groups)
    with assms w show ?thesis by (auto simp: dotted_groups hd_append)
  qed
  have v: "s \<noteq> [] \<Longrightarrow> is_digit (hd s) \<Longrightarrow> 2 \<le> d \<Longrightarrow> s = v @ r \<and> dotted v"
    using version_run_groups [OF assms] version_run_append [OF assms]
    by (cases v) (auto simp: dotted_groups)
  show "(\<exists>w b. s = w @ b \<and> dotted w) \<longleftrightarrow> s \<noteq> [] \<and> is_digit (hd s) \<and> 2 \<le> d" using w v by blast
  show "s = w @ b \<Longrightarrow> dotted w \<Longrightarrow> length w \<le> length v" using w by blast
qed

lemma version_run_inner:
  "version_run s = (v, d, r) \<Longrightarrow> m \<le> length v \<Longrightarrow> \<exists>d' \<le> d. version_run (drop m s) = (drop m v, d', r)"
proof (induction s arbitrary: m v d r rule: version_run.induct)
  case (2 c cs)
  show ?case
  proof (cases m)
    case 0
    with 2 show ?thesis by auto
  next
    case (Suc k)
    with 2(3,4) obtain v' d' where v: "v = c # v'" "version_run cs = (v', d', r)" "d' \<le> d"
      by (auto split: if_splits prod.splits)
    consider "is_digit c" | "\<not> is_digit c" "c = CHR ''.''" "case cs of [] \<Rightarrow> False | d # _ \<Rightarrow> is_digit d"
      using 2(3,4) Suc by (auto split: if_splits)
    then have "\<exists>d'' \<le> d'. version_run (drop k cs) = (drop k v', d'', r)"
      using 2(1) [OF _ v(2)] 2(2) [OF _ _ v(2)] 2(4) v(1) Suc by cases auto
    then show ?thesis using v(1,3) Suc by (meson order_trans) auto
  qed
qed simp

lemma version_run_rest: "version_run s = (v, d, r) \<Longrightarrow> r \<noteq> [] \<Longrightarrow> \<not> is_digit (hd r)"
  by (induction s arbitrary: v d r rule: version_run.induct) (auto split: if_splits prod.splits)

lemma dotted_at_run: "version_run (drop n s) = (v, d, r) \<Longrightarrow> dotted_at s n \<longleftrightarrow> n < length s \<and> is_digit (s ! n) \<and> 2 \<le> d"
  using dotted_prefix(1) [of "drop n s" v d r] hd_drop_conv_nth [of n s] by (cases "n < length s") (simp_all add: dotted_at_def)

text \<open>The longest dotted number at the first place where there is one.\<close>

definition version_found :: "string \<Rightarrow> string option \<Rightarrow> bool" where
  "version_found s x \<longleftrightarrow>
     (case x of
        None \<Rightarrow> \<forall>n. \<not> dotted_at s n
      | Some v \<Rightarrow> \<exists>n b. drop n s = v @ b \<and> dotted v \<and> (\<forall>m < n. \<not> dotted_at s m) \<and>
          (\<forall>w b'. drop n s = w @ b' \<longrightarrow> dotted w \<longrightarrow> length w \<le> length v))"

lemma version_found_later:
  assumes "\<forall>m < length u. \<not> dotted_at (u @ t) m" "version_found t x"
  shows "version_found (u @ t) x"
proof -
  have at: "dotted_at (u @ t) (length u + n) = dotted_at t n" for n by (simp add: dotted_at_def)
  then have all: "\<forall>n < length u + k. \<not> dotted_at (u @ t) n" if "\<forall>n < k. \<not> dotted_at t n" for k
    using assms(1) that by (metis add_diff_inverse_nat nat_add_left_cancel_less)
  show ?thesis
  proof (cases x)
    case None
    with assms(2) have none: "\<forall>n. \<not> dotted_at t n" by (simp add: version_found_def)
    have "\<not> dotted_at (u @ t) n" for n using all [of "Suc n"] none by simp
    with None show ?thesis by (simp add: version_found_def)
  next
    case (Some v)
    with assms(2) obtain n b where n: "drop n t = v @ b" "dotted v" "\<forall>m < n. \<not> dotted_at t m"
        "\<forall>w b'. drop n t = w @ b' \<longrightarrow> dotted w \<longrightarrow> length w \<le> length v" by (auto simp: version_found_def)
    have "drop (length u + n) (u @ t) = drop n t" by simp
    with n all [OF n(3)] Some show ?thesis by (simp only: version_found_def option.case) metis
  qed
qed

text \<open>C25: The search for a version is exact: it returns the longest dotted number, three groups of digits or more, at the
  first place of the text where there is one, and nothing only where there is none.\<close>

theorem version_search: "version_found s (version_in s)"
proof (induction s rule: version_in.induct)
  case 1
  then show ?case by (simp add: version_found_def dotted_at_def dotted_groups)
next
  case (2 c cs)
  obtain v d r where run: "version_run (c # cs) = (v, d, r)" by (cases "version_run (c # cs)")
  show ?case
  proof (cases "is_digit c")
    case False
    then have "\<not> dotted_at (c # cs) 0" using dotted_at_run [of 0 "c # cs"] run by simp
    with False 2(1) version_found_later [of "[c]" cs "version_in cs"] show ?thesis by simp
  next
    case True
    note digit = this
    have s: "c # cs = v @ r" using version_run_append [OF run] .
    show ?thesis
    proof (cases "2 \<le> d")
      case True
      have eq: "version_in (c # cs) = Some v" using digit True run by simp
      have "dotted v" using digit True version_run_groups [OF run] s run
        by (cases v) (auto simp: dotted_groups)
      moreover have "\<forall>w b'. c # cs = w @ b' \<longrightarrow> dotted w \<longrightarrow> length w \<le> length v" using dotted_prefix(2) [OF run] by blast
      ultimately show ?thesis unfolding eq version_found_def using s by (auto intro!: exI [of _ 0])
    next
      case False
      have r: "dropWhile is_digit r = r" using version_run_rest [OF run] by (cases r) auto
      have "\<not> dotted_at (c # cs) m" if m: "m < length v" for m
      proof -
        obtain d' where "d' \<le> d" "version_run (drop m (c # cs)) = (drop m v, d', r)"
          using version_run_inner [OF run, of m] m by auto
        with False show ?thesis by (simp add: dotted_at_run)
      qed
      moreover have "version_in (c # cs) = version_in r" using digit False run r by simp
      moreover have "version_found r (version_in r)" using 2(2) [OF _ run [symmetric] refl] digit False by (simp only: r) simp
      ultimately show ?thesis using version_found_later [of v r] s by metis
    qed
  qed
qed

section \<open>The search for the entries\<close>

text \<open>\<open>str::replace\<close>: the matches from the left; an empty pattern matches at every position.\<close>

function replace_all :: "string \<Rightarrow> string \<Rightarrow> string \<Rightarrow> string" where
  "replace_all f t [] = []"
| "replace_all f t (c # cs) =
     (if f \<noteq> [] \<and> take (length f) (c # cs) = f then t @ replace_all f t (drop (length f) (c # cs))
      else c # replace_all f t cs)"
  by pat_completeness auto

termination
  by (relation "measure (\<lambda>(f, t, s). length s)") (auto simp: Suc_le_eq)

definition str_replace :: "string \<Rightarrow> string \<Rightarrow> string \<Rightarrow> string" where
  "str_replace f t s = (if f = [] then t @ concat (map (\<lambda>c. c # t) s) else replace_all f t s)"

definition retarget :: "file_entry list \<Rightarrow> string \<Rightarrow> string \<Rightarrow> file_entry list" where
  "retarget entries f t = map (\<lambda>e. e\<lparr>fe_name := str_replace f t (fe_name e)\<rparr>) entries"

text \<open>A JSON file keeps the directories below \<open>share\<close>, or its last one where there is no \<open>share\<close>.\<close>

definition guest_dir :: "file_entry \<Rightarrow> path \<Rightarrow> path" where
  "guest_dir e host =
     (case fe_kind e of
        Binary \<Rightarrow> [Normal ''bin'']
      | Modprobe \<Rightarrow> [Normal ''bin'']
      | Json \<Rightarrow>
          let parent = (case path_parent host of Some p \<Rightarrow> p | None \<Rightarrow> []) in
          (case dropWhile (\<lambda>c. c \<noteq> Normal ''share'') parent of
             share # tail \<Rightarrow> path_join [Normal ''share''] tail
           | [] \<Rightarrow> (case path_file_name parent of
                      Some tail \<Rightarrow> path_join [Normal ''share''] [Normal tail]
                    | None \<Rightarrow> [Normal ''share'']))
      | _ \<Rightarrow> [Normal ''lib''])"

definition entry_base :: "file_entry \<Rightarrow> string" where
  "entry_base e = (case path_file_name (path_of (fe_name e)) of Some f \<Rightarrow> f | None \<Rightarrow> fe_name e)"

definition entry_host :: "(path \<Rightarrow> bool) \<Rightarrow> path list \<Rightarrow> file_entry \<Rightarrow> path option" where
  "entry_host exists search e = find exists (map (\<lambda>d. path_join d (path_of (entry_base e))) search)"

definition entry_guest :: "file_entry \<Rightarrow> path \<Rightarrow> path" where
  "entry_guest e host = path_join (guest_dir e host) (path_of (entry_base e))"

text \<open>The first resolved entry at a guest path takes the categories of a repeated one.\<close>

fun merge_into :: "path \<Rightarrow> string set \<Rightarrow> resolved list \<Rightarrow> resolved list option" where
  "merge_into g cats [] = None"
| "merge_into g cats (r # rs) =
     (if rs_guest r = g then
        Some (r\<lparr>rs_entry := (rs_entry r)\<lparr>fe_categories := fe_categories (rs_entry r) \<union> cats\<rparr>\<rparr> # rs)
      else map_option ((#) r) (merge_into g cats rs))"

record search =
  sr_found :: "resolved list"
  sr_missing :: "file_entry list"
  sr_staged :: "path list"
  sr_absent :: "string list"

definition resolve_entry :: "(path \<Rightarrow> bool) \<Rightarrow> capability list \<Rightarrow> path list \<Rightarrow> file_entry \<Rightarrow> search \<Rightarrow> search" where
  "resolve_entry exists caps search e sr =
     (if is_host_only e \<or> \<not> wanted_by caps e then sr
      else case entry_host exists search e of
        Some host \<Rightarrow>
          let guest = entry_guest e host in
          (case merge_into guest (fe_categories e) (sr_found sr) of
             Some found \<Rightarrow> sr\<lparr>sr_found := found\<rparr>
           | None \<Rightarrow>
               if guest \<in> set (sr_staged sr) then sr
               else sr\<lparr>sr_staged := guest # sr_staged sr,
                       sr_found := sr_found sr @ [\<lparr>rs_entry = e, rs_host = host, rs_guest = guest\<rparr>]\<rparr>)
      | None \<Rightarrow>
          if fe_name e \<in> set (sr_absent sr) then sr
          else sr\<lparr>sr_absent := fe_name e # sr_absent sr, sr_missing := sr_missing sr @ [e]\<rparr>)"

definition resolve ::
  "(path \<Rightarrow> bool) \<Rightarrow> file_entry list \<Rightarrow> capability list \<Rightarrow> path list \<Rightarrow> resolved list \<times> file_entry list" where
  "resolve exists entries caps search =
     (let sr = fold (resolve_entry exists caps search) entries
                 \<lparr>sr_found = [], sr_missing = [], sr_staged = [], sr_absent = []\<rparr>
      in (sr_found sr, sr_missing sr))"

section \<open>What the search delivers\<close>

lemma merge_into_None: "merge_into g cats rs = None \<longleftrightarrow> g \<notin> rs_guest ` set rs"
  by (induction rs) auto

lemma merge_into_Some:
  "merge_into g cats rs = Some rs' \<Longrightarrow>
     \<exists>a r b. rs = a @ r # b \<and> rs_guest r = g \<and>
       rs' = a @ r\<lparr>rs_entry := (rs_entry r)\<lparr>fe_categories := fe_categories (rs_entry r) \<union> cats\<rparr>\<rparr> # b"
proof (induction rs arbitrary: rs')
  case (Cons r rs)
  show ?case
  proof (cases "rs_guest r = g")
    case True
    with Cons.prems show ?thesis by (intro exI [of _ "[]"]) auto
  next
    case False
    with Cons obtain a x b rs'' where "rs = a @ x # b" "rs_guest x = g" "rs' = r # rs''"
      "rs'' = a @ x\<lparr>rs_entry := (rs_entry x)\<lparr>fe_categories := fe_categories (rs_entry x) \<union> cats\<rparr>\<rparr> # b" by auto
    then show ?thesis by (intro exI [of _ "r # a"]) auto
  qed
qed simp

text \<open>What a guest may be given, and an entry's place in what was found.\<close>

definition entry_served :: "capability list \<Rightarrow> file_entry \<Rightarrow> bool" where
  "entry_served caps e \<longleftrightarrow> \<not> is_host_only e \<and> wanted_by caps e"

definition entry_found :: "(path \<Rightarrow> bool) \<Rightarrow> path list \<Rightarrow> file_entry \<Rightarrow> resolved list \<Rightarrow> bool" where
  "entry_found exists search e found \<longleftrightarrow>
     (case entry_host exists search e of
        None \<Rightarrow> False
      | Some host \<Rightarrow> list_ex (\<lambda>r. rs_guest r = entry_guest e host \<and> fe_categories e \<subseteq> fe_categories (rs_entry r)) found)"

definition search_inv ::
  "(path \<Rightarrow> bool) \<Rightarrow> capability list \<Rightarrow> path list \<Rightarrow> file_entry list \<Rightarrow> search \<Rightarrow> bool" where
  "search_inv exists caps search es sr \<longleftrightarrow>
     distinct (map rs_guest (sr_found sr)) \<and> set (sr_staged sr) = rs_guest ` set (sr_found sr) \<and>
     distinct (map fe_name (sr_missing sr)) \<and> set (sr_absent sr) = fe_name ` set (sr_missing sr) \<and>
     (\<forall>r \<in> set (sr_found sr). entry_served caps (rs_entry r) \<and> entry_host exists search (rs_entry r) = Some (rs_host r) \<and>
        rs_guest r = entry_guest (rs_entry r) (rs_host r)) \<and>
     (\<forall>e \<in> set (sr_missing sr). entry_served caps e \<and> e \<in> set es \<and> entry_host exists search e = None) \<and>
     (\<forall>e \<in> set es. entry_served caps e \<longrightarrow>
        (if entry_host exists search e = None then fe_name e \<in> fe_name ` set (sr_missing sr)
         else entry_found exists search e (sr_found sr)))"

lemma entry_base_cong [simp]: "entry_base (e\<lparr>fe_categories := cs\<rparr>) = entry_base e"
  by (simp add: entry_base_def split: option.split)

lemma entry_host_cong [simp]:
  "entry_host ex sp (e\<lparr>fe_categories := cs\<rparr>) = entry_host ex sp e"
  "entry_guest (e\<lparr>fe_categories := cs\<rparr>) h = entry_guest e h"
  by (simp_all add: entry_host_def entry_guest_def guest_dir_def)

lemma entry_served_merge:
  "entry_served caps e \<Longrightarrow> entry_served caps e' \<Longrightarrow> entry_served caps (e\<lparr>fe_categories := fe_categories e \<union> fe_categories e'\<rparr>)"
  by (auto simp: entry_served_def is_host_only_def wanted_by_def list_ex_iff)

lemma search_inv_step:
  assumes inv: "search_inv ex caps sp es sr"
  shows "search_inv ex caps sp (e # es) (resolve_entry ex caps sp e sr)"
proof (cases "entry_served caps e")
  case False
  with inv show ?thesis by (auto simp: search_inv_def resolve_entry_def entry_served_def)
next
  case True
  note served = this
  then have go: "\<not> (is_host_only e \<or> \<not> wanted_by caps e)" by (simp add: entry_served_def)
  show ?thesis
  proof (cases "entry_host ex sp e")
    case None
    with inv go served show ?thesis by (auto simp: search_inv_def resolve_entry_def)
  next
    case (Some host)
    define g where "g = entry_guest e host"
    show ?thesis
    proof (cases "merge_into g (fe_categories e) (sr_found sr)")
      case None
      then have "g \<notin> rs_guest ` set (sr_found sr)" by (simp add: merge_into_None)
      moreover from this have "resolve_entry ex caps sp e sr = sr\<lparr>sr_staged := g # sr_staged sr,
          sr_found := sr_found sr @ [\<lparr>rs_entry = e, rs_host = host, rs_guest = g\<rparr>]\<rparr>"
        using inv go Some None by (simp add: resolve_entry_def g_def search_inv_def Let_def)
      moreover have "entry_found ex sp x (sr_found sr) \<Longrightarrow> entry_found ex sp x (sr_found sr @ ys)" for x ys
        by (auto simp: entry_found_def split: option.splits)
      moreover have "entry_found ex sp e (sr_found sr @ [\<lparr>rs_entry = e, rs_host = host, rs_guest = g\<rparr>])"
        using Some by (simp add: entry_found_def g_def)
      ultimately show ?thesis
        using inv served Some g_def unfolding search_inv_def by simp
    next
      case (Some found)
      then obtain a r b where f: "sr_found sr = a @ r # b" "rs_guest r = g"
        "found = a @ r\<lparr>rs_entry := (rs_entry r)\<lparr>fe_categories := fe_categories (rs_entry r) \<union> fe_categories e\<rparr>\<rparr> # b"
        using merge_into_Some by blast
      have "resolve_entry ex caps sp e sr = sr\<lparr>sr_found := found\<rparr>"
        using go Some \<open>entry_host ex sp e = Some host\<close> by (simp add: resolve_entry_def g_def)
      moreover have "entry_found ex sp x (sr_found sr) \<Longrightarrow> entry_found ex sp x found" for x
        by (auto simp: entry_found_def f split: option.splits)
      moreover have "entry_found ex sp e found"
        using \<open>entry_host ex sp e = Some host\<close> f by (auto simp: entry_found_def g_def)
      moreover have "entry_served caps (rs_entry r)" using inv f(1) by (simp add: search_inv_def)
      from entry_served_merge [OF this served]
      have "entry_served caps ((rs_entry r)\<lparr>fe_categories := fe_categories (rs_entry r) \<union> fe_categories e\<rparr>)" .
      ultimately show ?thesis
        using inv served \<open>entry_host ex sp e = Some host\<close> f(2) unfolding search_inv_def by (auto simp: f(1,3))
    qed
  qed
qed

lemma search_inv_fold: "search_inv ex caps sp es sr \<Longrightarrow> search_inv ex caps sp (rev xs @ es) (fold (resolve_entry ex caps sp) xs sr)"
  by (induction xs arbitrary: es sr) (auto dest: search_inv_step)

lemma resolve_inv:
  assumes "resolve ex es caps sp = (found, missing)"
  shows "\<exists>sr. search_inv ex caps sp es sr \<and> sr_found sr = found \<and> sr_missing sr = missing"
proof -
  let ?sr = "\<lparr>sr_found = [], sr_missing = [], sr_staged = [], sr_absent = []\<rparr>"
  have "search_inv ex caps sp [] ?sr" by (simp add: search_inv_def)
  from search_inv_fold [OF this, of es] have "search_inv ex caps sp es (fold (resolve_entry ex caps sp) es ?sr)"
    by (simp add: search_inv_def)
  with assms show ?thesis by (auto simp: resolve_def Let_def)
qed

text \<open>C22: The search for a manifest's entries is complete and safe. Every entry a requested capability covers, and that a guest
  may be given, is accounted for: found on the host, in the first directory that has it, with its categories recorded
  at its guest path, or reported missing where no directory has it; nothing else is found or reported, no host-only
  file is among what is found, and no two files found go to the same guest path.\<close>

theorem resolve_complete:
  assumes "resolve ex es caps sp = (found, missing)"
  shows "distinct (map rs_guest found) \<and> distinct (map fe_name missing) \<and>
    list_all (\<lambda>r. entry_served caps (rs_entry r) \<and> ex (rs_host r) \<and> rs_guest r = entry_guest (rs_entry r) (rs_host r)) found \<and>
    list_all (\<lambda>e. entry_served caps e \<and> e \<in> set es \<and> list_all (\<lambda>d. \<not> ex (path_join d (path_of (entry_base e)))) sp) missing \<and>
    list_all (\<lambda>e. if entry_host ex sp e = None then fe_name e \<in> fe_name ` set missing else entry_found ex sp e found)
      (filter (entry_served caps) es)"
proof -
  obtain sr where sr: "search_inv ex caps sp es sr" "sr_found sr = found" "sr_missing sr = missing"
    using resolve_inv [OF assms] by blast
  have "entry_host ex sp e = Some h \<Longrightarrow> ex h" for e h
    by (auto simp: entry_host_def find_Some_iff)
  moreover have "entry_host ex sp e = None \<Longrightarrow> list_all (\<lambda>d. \<not> ex (path_join d (path_of (entry_base e)))) sp" for e
    by (simp add: entry_host_def find_None_iff list_all_iff)
  ultimately show ?thesis using sr unfolding search_inv_def list_all_iff set_filter by auto
qed

definition sample_entries :: "file_entry list" where
  "sample_entries =
     [\<lparr>fe_name = ''libcuda.so.5.9.1'', fe_kind = Lib, fe_categories = {''cuda''}\<rparr>,
      \<lparr>fe_name = ''firmware/gsp.bin'', fe_kind = Firmware, fe_categories = {''cuda''}\<rparr>,
      \<lparr>fe_name = ''libcuda.so.5.9.1'', fe_kind = Lib, fe_categories = {''opencl''}\<rparr>,
      \<lparr>fe_name = ''nvidia-smi'', fe_kind = Binary, fe_categories = {''nvml''}\<rparr>]"

lemma resolve_complete_witness:
  "\<exists>found missing. resolve (\<lambda>p. p = path_of ''/usr/lib64/libcuda.so.5.9.1'') sample_entries [Utility, Compute]
       (map path_of [''/usr/lib'', ''/usr/lib64'']) = (found, missing) \<and>
     map rs_guest found = [path_of ''lib/libcuda.so.5.9.1''] \<and> map fe_name missing = [''nvidia-smi''] \<and>
     distinct (map rs_guest found)"
proof -
  let ?r = "resolve (\<lambda>p. p = path_of ''/usr/lib64/libcuda.so.5.9.1'') sample_entries [Utility, Compute]
       (map path_of [''/usr/lib'', ''/usr/lib64''])"
  have r: "map rs_guest (fst ?r) = [path_of ''lib/libcuda.so.5.9.1''] \<and> map fe_name (snd ?r) = [''nvidia-smi'']" by code_simp
  have "?r = (fst ?r, snd ?r)" by simp
  from resolve_complete [OF this] r show ?thesis by (intro exI [of _ "fst ?r"] exI [of _ "snd ?r"]) simp
qed

section \<open>The version of what was found\<close>

lemma map_of_bumps:
  "map_of (fold bump vs m) k =
     (if k \<in> set vs then Some (count_list vs k + (case map_of m k of None \<Rightarrow> 0 | Some n \<Rightarrow> n)) else map_of m k)"
proof (induction vs arbitrary: m)
  case (Cons v vs)
  show ?case using Cons.IH [of "bump v m"]
    by (cases "k = v"; cases "k \<in> set vs") (auto simp: count_list_0_iff split: option.splits)
qed simp

lemma keys_distinct_bumps: "keys_distinct m \<Longrightarrow> keys_distinct (fold bump vs m)"
  by (induction vs arbitrary: m) (simp_all add: bump_def distinct_update)

definition version_le :: "string \<times> nat \<Rightarrow> string \<times> nat \<Rightarrow> bool" where
  "version_le x y \<longleftrightarrow> snd x < snd y \<or> snd x = snd y \<and> (map of_char (fst x) :: nat list) \<le> map of_char (fst y)"

lemma version_le_trans: "version_le x y \<Longrightarrow> version_le y z \<Longrightarrow> version_le x z"
  by (auto simp: version_le_def)

lemma version_le_total: "\<not> version_le x y \<Longrightarrow> version_le y x"
  by (auto simp: version_le_def)

lemma best_version_max:
  "\<exists>y. fold best_version xs (Some b) = Some y \<and> y \<in> set (b # xs) \<and> list_all (\<lambda>x. version_le x y) (b # xs)"
proof (induction xs arbitrary: b)
  case Nil
  then show ?case by (simp add: version_le_def)
next
  case (Cons x xs)
  have "best_version x (Some b) = Some (if version_le b x then x else b)"
    by (cases b) (auto simp: best_version_def version_le_def)
  then obtain b' where b': "best_version x (Some b) = Some b'" "b' \<in> {b, x}" "version_le b b'" "version_le x b'"
    using version_le_total [of b x] by (cases "version_le b x") (auto simp: version_le_def)
  from Cons.IH [of b'] obtain y where "fold best_version xs (Some b') = Some y" "y \<in> set (b' # xs)"
    "list_all (\<lambda>x. version_le x y) (b' # xs)" by blast
  with b' version_le_trans show ?case by (auto simp: list_all_iff)
qed

lemma staged_version_most:
  assumes "vs = List.map_filter file_version found"
  shows "case staged_driver_version found of
      None \<Rightarrow> vs = []
    | Some v \<Rightarrow> v \<in> set vs \<and> list_all (\<lambda>w. version_le (w, count_list vs w) (v, count_list vs v)) vs"
proof -
  let ?m = "fold bump vs []"
  have m: "map_of ?m k = (if k \<in> set vs then Some (count_list vs k) else None)" for k by (simp add: map_of_bumps)
  have d: "keys_distinct ?m" by (simp add: keys_distinct_bumps)
  show ?thesis
  proof (cases ?m)
    case Nil
    have "vs = []" using m by (metis Nil list.set_intros(1) map_of.simps(1) neq_Nil_conv option.distinct(1))
    with Nil assms show ?thesis by (simp add: staged_driver_version_def)
  next
    case (Cons b xs)
    obtain y where y: "fold best_version xs (Some b) = Some y" "y \<in> set ?m" "list_all (\<lambda>x. version_le x y) ?m"
      using best_version_max [of xs b] Cons by metis
    have s: "staged_driver_version found = Some (fst y)"
      using y(1) Cons assms by (simp add: staged_driver_version_def best_version_def)
    have in_m: "x \<in> set ?m \<longleftrightarrow> fst x \<in> set vs \<and> snd x = count_list vs (fst x)" for x
      using m [of "fst x"] d map_of_eq_Some_iff [of ?m "fst x" "snd x"] by (auto split: if_splits)
    have "y = (fst y, count_list vs (fst y))" "fst y \<in> set vs" using y(2) in_m by (metis prod.collapse)+
    moreover have "w \<in> set vs \<Longrightarrow> version_le (w, count_list vs w) y" for w
      using y(3) in_m [of "(w, count_list vs w)"] by (auto simp: list_all_iff)
    ultimately show ?thesis using s by (auto simp: list_all_iff)
  qed
qed

section \<open>The manifest\<close>

datatype manifest_error =
    NoArray | NotObject char | EndInArray | NoKey | NoColon string | NotStringInArray | NoName
  | NotString | EndInString | EndInEscape

definition is_json_space :: "char \<Rightarrow> bool" where
  "is_json_space c \<longleftrightarrow> c \<in> set [CHR '' '', CHR 0x09, CHR 0x0A, CHR 0x0C, CHR 0x0D]"

abbreviation (input) skip_ws :: "string \<Rightarrow> string" where
  "skip_ws \<equiv> dropWhile is_json_space"

abbreviation (input) skip_scalar :: "string \<Rightarrow> string" where
  "skip_scalar \<equiv> dropWhile (\<lambda>c. c \<notin> set [CHR '','', CHR ''}'', CHR '']''])"

text \<open>\<open>push(c as char)\<close>: the byte becomes the code point of its number, which is two bytes above 127.\<close>

definition push_byte :: "char \<Rightarrow> string" where
  "push_byte c =
     (let n = of_char c :: nat in if n < 128 then [c] else [char_of (192 + n div 64), char_of (128 + n mod 64)])"

definition unescape :: "char \<Rightarrow> string" where
  "unescape c = (if c = CHR ''n'' then [CHR 0x0A] else if c = CHR ''t'' then [CHR 0x09] else push_byte c)"

text \<open>The rest of a string after its opening quote.\<close>

fun string_rest :: "string \<Rightarrow> manifest_error + string \<times> string" where
  "string_rest [] = Inl EndInString"
| "string_rest (c # cs) =
     (if c = CHR 0x22 then Inr ([], cs)
      else if c = CHR 0x5C then
        (case cs of
           [] \<Rightarrow> Inl EndInEscape
         | e # cs' \<Rightarrow> map_sum id (\<lambda>(v, r). (unescape e @ v, r)) (string_rest cs'))
      else map_sum id (\<lambda>(v, r). (push_byte c @ v, r)) (string_rest cs))"

definition read_string :: "string \<Rightarrow> manifest_error + string \<times> string" where
  "read_string s = (case s of [] \<Rightarrow> Inl NotString | c # cs \<Rightarrow> if c = CHR 0x22 then string_rest cs else Inl NotString)"

lemma string_rest_length: "string_rest s = Inr (v, r) \<Longrightarrow> length r < length s"
proof (induction s arbitrary: v r rule: string_rest.induct)
  case (2 c cs)
  then show ?case
    by (cases "string_rest cs"; cases "cs = []"; cases "string_rest (tl cs)")
      (fastforce split: if_splits list.splits)+
qed simp

lemma read_string_length: "read_string s = Inr (v, r) \<Longrightarrow> length r < length s"
  using string_rest_length by (fastforce simp: read_string_def split: list.splits if_splits)

lemma skip_ws_length: "dropWhile P s = c # cs \<Longrightarrow> length cs < length s"
  using length_dropWhile_le [of P s] by simp

lemma skip_length: "length (dropWhile P s) \<le> length s"
  by (rule length_dropWhile_le)

text \<open>The rest of an array value after its opening bracket, with the strings in it.\<close>

function array_rest :: "string \<Rightarrow> manifest_error + string list \<times> string" where
  "array_rest s =
     (case skip_ws s of
        [] \<Rightarrow> Inl NotStringInArray
      | c # cs \<Rightarrow>
          if c = CHR '']'' then Inr ([], cs)
          else if c = CHR '','' then array_rest cs
          else if c = CHR 0x22 then
            (case read_string (c # cs) of
               Inl e \<Rightarrow> Inl e
             | Inr (v, r) \<Rightarrow> map_sum id (\<lambda>(vs, r). (v # vs, r)) (array_rest r))
          else Inl NotStringInArray)"
  by pat_completeness auto

termination
  by (relation "measure length") (auto dest!: read_string_length skip_ws_length)

declare array_rest.simps [simp del]

lemma array_rest_length: "array_rest s = Inr (vs, r) \<Longrightarrow> length r < length s"
proof (induction s arbitrary: vs r rule: array_rest.induct)
  case (1 s)
  obtain c cs where s: "dropWhile is_json_space s = c # cs" using "1.prems" by (cases "dropWhile is_json_space s") (auto simp: array_rest.simps)
  note l = skip_ws_length [OF s]
  consider (stop) "c = CHR '']''" | (comma) "c \<noteq> CHR '']''" "c = CHR '',''" | (str) "c = CHR 0x22" "c \<noteq> CHR '']''" "c \<noteq> CHR '',''"
    using "1.prems" s by (auto simp: array_rest.simps split: if_splits)
  then show ?case
  proof cases
    case stop
    with "1.prems" s l show ?thesis by (simp add: array_rest.simps)
  next
    case comma
    with "1.prems" s have "array_rest cs = Inr (vs, r)" by (simp add: array_rest.simps [of s])
    from "1.IH"(1) [OF s comma this] l show ?thesis by simp
  next
    case str
    with "1.prems" s obtain v r' vs' where r: "read_string (c # cs) = Inr (v, r')" "array_rest r' = Inr (vs', r)"
      by (auto simp: array_rest.simps [of s] map_sum_Inr_iff split: sum.splits)
    have "length r' \<le> length cs" using read_string_length [OF r(1)] by simp
    moreover have "length r < length r'" using "1.IH"(2) [OF s str(2,3,1) r(1) refl r(2)] .
    ultimately show ?thesis using l by simp
  qed
qed

record manifest_object =
  mo_name :: "string option"
  mo_kind :: "file_kind option"
  mo_categories :: "string set"

text \<open>The rest of an object after its opening brace, added to what of it was read.\<close>

function object_rest :: "string \<Rightarrow> manifest_object \<Rightarrow> manifest_error + manifest_object \<times> string" where
  "object_rest s mo =
     (case skip_ws s of
        [] \<Rightarrow> Inl NoKey
      | c # cs \<Rightarrow>
          if c = CHR ''}'' then Inr (mo, cs)
          else if c = CHR '','' then object_rest cs mo
          else if c \<noteq> CHR 0x22 then Inl NoKey
          else case read_string (c # cs) of
            Inl e \<Rightarrow> Inl e
          | Inr (key, r) \<Rightarrow>
              (case skip_ws r of
                 [] \<Rightarrow> Inl (NoColon key)
               | d # r \<Rightarrow>
                   if d \<noteq> CHR '':'' then Inl (NoColon key)
                   else
                     let r = skip_ws r in
                     if r \<noteq> [] \<and> hd r = CHR 0x22 then
                       (case read_string r of
                          Inl e \<Rightarrow> Inl e
                        | Inr (v, r) \<Rightarrow>
                            object_rest r
                              (if key = ''name'' then mo\<lparr>mo_name := Some v\<rparr>
                               else if key = ''type'' then mo\<lparr>mo_kind := Some (file_kind_parse v)\<rparr> else mo))
                     else if r \<noteq> [] \<and> hd r = CHR ''['' then
                       (case array_rest (tl r) of
                          Inl e \<Rightarrow> Inl e
                        | Inr (vs, r) \<Rightarrow>
                            object_rest r
                              (if key = ''category'' then mo\<lparr>mo_categories := mo_categories mo \<union> set vs\<rparr> else mo))
                     else object_rest (skip_scalar r) mo))"
  by pat_completeness auto

termination
proof (relation "measure (length \<circ> fst)", goal_cases)
  case 1
  then show ?case by simp
next
  case (2 s mo c cs)
  then show ?case using skip_ws_length by simp
next
  case (3 s mo c cs x key r d r' r'' y v r3)
  have "length r < length (c # cs)" "length r3 < length r''" using read_string_length 3(5,6,11,12) by metis+
  then show ?case
    using skip_ws_length [OF 3(1)] skip_ws_length [OF 3(7)] skip_length [of is_json_space r'] 3(9) by simp
next
  case (4 s mo c cs x key r d r' r'' y vs r3)
  have "length r < length (c # cs)" "length r3 < length (tl r'')" using read_string_length array_rest_length 4(5,6,12,13) by metis+
  then show ?case
    using skip_ws_length [OF 4(1)] skip_ws_length [OF 4(7)] skip_length [of is_json_space r'] 4(9) by simp
next
  case (5 s mo c cs x key r d r' r'')
  have "length r < length (c # cs)" using read_string_length 5(5,6) by metis
  then show ?case
    using skip_ws_length [OF 5(1)] skip_ws_length [OF 5(7)] skip_length [of is_json_space r'] 5(9)
      skip_length [of "\<lambda>c. c \<notin> set [CHR '','', CHR ''}'', CHR '']'']" r''] by simp
qed

declare object_rest.simps [simp del]

lemma object_rest_length: "object_rest s mo = Inr (mo', r) \<Longrightarrow> length r < length s"
proof (induction s mo arbitrary: mo' r rule: object_rest.induct)
  case (1 s mo)
  note run = "1.prems" [unfolded object_rest.simps [of s]]
  obtain c cs where s: "dropWhile is_json_space s = c # cs" using run by (cases "dropWhile is_json_space s") auto
  note l = skip_ws_length [OF s]
  consider (stop) "c = CHR ''}''" | (comma) "c \<noteq> CHR ''}''" "c = CHR '',''"
    | (key) "c \<noteq> CHR ''}''" "c \<noteq> CHR '',''" "c = CHR 0x22"
    using run s by (auto split: if_splits)
  then show ?case
  proof cases
    case stop
    with run s l show ?thesis by simp
  next
    case comma
    with run s have "object_rest cs mo = Inr (mo', r)" by simp
    from "1.IH"(1) [OF s comma this] l show ?thesis by simp
  next
    case key
    with run s obtain k u where k: "read_string (c # cs) = Inr (k, u)" by (cases "read_string (c # cs)") auto
    with run s key obtain d u' where u: "dropWhile is_json_space u = d # u'" "d = CHR '':''"
      by (cases "dropWhile is_json_space u") (auto simp del: dropWhile_eq_Nil_conv split: if_splits)
    define w where "w = dropWhile is_json_space u'"
    have len: "length w < length s"
      using l read_string_length [OF k] skip_ws_length [OF u(1)] skip_length [of is_json_space u'] by (simp add: w_def)
    have c: "\<not> c \<noteq> CHR 0x22" and d: "\<not> d \<noteq> CHR '':''" using key u by simp_all
    note IH = "1.IH"(2-4) [OF s key(1,2) c k refl u(1) d w_def]
    consider (str) v x where "w \<noteq> [] \<and> hd w = CHR 0x22" "read_string w = Inr (v, x)"
        "object_rest x (if k = ''name'' then mo\<lparr>mo_name := Some v\<rparr>
          else if k = ''type'' then mo\<lparr>mo_kind := Some (file_kind_parse v)\<rparr> else mo) = Inr (mo', r)"
      | (arr) vs x where "\<not> (w \<noteq> [] \<and> hd w = CHR 0x22)" "w \<noteq> [] \<and> hd w = CHR ''[''" "array_rest (tl w) = Inr (vs, x)"
        "object_rest x (if k = ''category'' then mo\<lparr>mo_categories := mo_categories mo \<union> set vs\<rparr> else mo) = Inr (mo', r)"
      | (scalar) "\<not> (w \<noteq> [] \<and> hd w = CHR 0x22)" "\<not> (w \<noteq> [] \<and> hd w = CHR ''['')"
        "object_rest (skip_scalar w) mo = Inr (mo', r)"
      using run s key k u unfolding w_def by (auto simp: Let_def split: if_splits sum.splits)
    then show ?thesis
    proof cases
      case str
      then show ?thesis using IH(1) [OF str(1,2) refl str(3)] read_string_length [OF str(2)] len by simp
    next
      case arr
      then show ?thesis using IH(2) [OF arr(1-3) refl arr(4)] array_rest_length [OF arr(3)] len by simp
    next
      case scalar
      then show ?thesis
        using IH(3) [OF scalar] skip_length [of "\<lambda>c. c \<notin> set [CHR '','', CHR ''}'', CHR '']'']" w] len by simp
    qed
  qed
qed

definition object_entry :: "manifest_object \<Rightarrow> file_entry option" where
  "object_entry mo =
     map_option (\<lambda>n. \<lparr>fe_name = n, fe_kind = (case mo_kind mo of Some k \<Rightarrow> k | None \<Rightarrow> OtherKind []),
                       fe_categories = mo_categories mo\<rparr>) (mo_name mo)"

text \<open>The rest of the manifest after its opening bracket; what follows the closing one is not read.\<close>

function manifest_rest :: "string \<Rightarrow> manifest_error + file_entry list" where
  "manifest_rest s =
     (case skip_ws s of
        [] \<Rightarrow> Inl EndInArray
      | c # cs \<Rightarrow>
          if c = CHR '']'' then Inr []
          else if c = CHR '','' then manifest_rest cs
          else if c \<noteq> CHR ''{'' then Inl (NotObject c)
          else case object_rest cs \<lparr>mo_name = None, mo_kind = None, mo_categories = {}\<rparr> of
            Inl e \<Rightarrow> Inl e
          | Inr (mo, r) \<Rightarrow>
              (case object_entry mo of
                 None \<Rightarrow> Inl NoName
               | Some e \<Rightarrow> map_sum id ((#) e) (manifest_rest r)))"
  by pat_completeness auto

termination
  by (relation "measure length") (auto dest!: object_rest_length skip_ws_length)

declare manifest_rest.simps [simp del]

definition parse_manifest :: "string \<Rightarrow> manifest_error + file_entry list" where
  "parse_manifest src =
     (case skip_ws src of [] \<Rightarrow> Inl NoArray | c # cs \<Rightarrow> if c = CHR ''['' then manifest_rest cs else Inl NoArray)"

datatype userspace_error = NoManifest | ManifestIo | Malformed manifest_error

text \<open>\<open>file\<close> is \<open>None\<close> where there is no manifest, and then what reading it gives.\<close>

definition load_manifest :: "string option option \<Rightarrow> userspace_error + file_entry list" where
  "load_manifest file =
     (case file of
        None \<Rightarrow> Inl NoManifest
      | Some None \<Rightarrow> Inl ManifestIo
      | Some (Some src) \<Rightarrow> map_sum Malformed id (parse_manifest src))"

section \<open>What is printed is read back\<close>

text \<open>A manifest as the driver's packages write it, entry after entry.\<close>

fun kind_text :: "file_kind \<Rightarrow> string" where
  "kind_text Lib = ''LIB''"
| "kind_text Binary = ''BINARY''"
| "kind_text Json = ''JSON''"
| "kind_text Firmware = ''FIRMWARE''"
| "kind_text Symlink = ''SYMLINK''"
| "kind_text Modprobe = ''MODPROBE''"
| "kind_text (OtherKind s) = s"

definition string_text :: "string \<Rightarrow> string" where
  "string_text v =
     CHR 0x22 # concat (map (\<lambda>c. if c = CHR 0x22 \<or> c = CHR 0x5C then [CHR 0x5C, c] else [c]) v) @ [CHR 0x22]"

fun array_text :: "string list \<Rightarrow> string" where
  "array_text [] = ''[]''"
| "array_text (v # vs) = ''['' @ string_text v @ concat (map (\<lambda>v. '', '' @ string_text v) vs) @ '']''"

definition entry_text :: "string \<times> file_kind \<times> string list \<Rightarrow> string" where
  "entry_text e =
     (case e of (name, kind, cats) \<Rightarrow>
        ''{ '' @ string_text ''name'' @ '': '' @ string_text name @ '', '' @ string_text ''type'' @ '': '' @
        string_text (kind_text kind) @ '', '' @ string_text ''category'' @ '': '' @ array_text cats @ '' }'')"

definition manifest_text :: "(string \<times> file_kind \<times> string list) list \<Rightarrow> string" where
  "manifest_text es = ''[ '' @ concat (map (\<lambda>e. entry_text e @ '', '') es) @ '']''"

text \<open>ASCII strings, and a kind whose text is its own.\<close>

definition ascii :: "string \<Rightarrow> bool" where
  "ascii s \<longleftrightarrow> list_all (\<lambda>c. (of_char c :: nat) < 128) s"

definition entry_printable :: "string \<times> file_kind \<times> string list \<Rightarrow> bool" where
  "entry_printable e =
     (case e of (name, kind, cats) \<Rightarrow>
        ascii name \<and> ascii (kind_text kind) \<and> list_all ascii cats \<and> file_kind_parse (kind_text kind) = kind)"

lemma json_space [simp]:
  "is_json_space (CHR '' '')" "\<not> is_json_space (CHR '','')" "\<not> is_json_space (CHR '']'')" "\<not> is_json_space (CHR ''['')"
  "\<not> is_json_space (CHR ''{'')" "\<not> is_json_space (CHR ''}'')" "\<not> is_json_space (CHR '':'')" "\<not> is_json_space (CHR 0x22)"
  by (simp_all add: is_json_space_def)

lemma string_rest_text:
  "ascii v \<Longrightarrow>
    string_rest (concat (map (\<lambda>c. if c = CHR 0x22 \<or> c = CHR 0x5C then [CHR 0x5C, c] else [c]) v) @ CHR 0x22 # r) = Inr (v, r)"
  by (induction v) (auto simp: ascii_def push_byte_def unescape_def Let_def)

lemma string_text_head: "\<exists>b. string_text v = CHR 0x22 # b"
  by (simp add: string_text_def)

lemma read_string_text: "ascii v \<Longrightarrow> read_string (string_text v @ r) = Inr (v, r)"
  by (simp add: read_string_def string_text_def string_rest_text)

lemma array_rest_steps:
  "array_rest (CHR '' '' # s) = array_rest s" "array_rest (CHR '','' # s) = array_rest s" "array_rest (CHR '']'' # s) = Inr ([], s)"
  "ascii v \<Longrightarrow> array_rest (string_text v @ s) = map_sum id (\<lambda>(vs, r). (v # vs, r)) (array_rest s)"
proof -
  show "array_rest (CHR '' '' # s) = array_rest s"
    by (subst array_rest.simps, subst (2) array_rest.simps) simp
  show "array_rest (CHR '','' # s) = array_rest s" "array_rest (CHR '']'' # s) = Inr ([], s)"
    by (subst array_rest.simps, simp)+
  assume "ascii v"
  moreover obtain b where b: "string_text v = CHR 0x22 # b" using string_text_head by blast
  ultimately show "array_rest (string_text v @ s) = map_sum id (\<lambda>(vs, r). (v # vs, r)) (array_rest s)"
    using read_string_text [of v s] by (subst array_rest.simps) simp
qed

lemma array_rest_text:
  "list_all ascii vs \<Longrightarrow> array_rest (concat (map (\<lambda>v. CHR '','' # CHR '' '' # string_text v) vs) @ CHR '']'' # r) = Inr (vs, r)"
  by (induction vs) (simp_all add: array_rest_steps)

lemma array_text_rest: "list_all ascii vs \<Longrightarrow> \<exists>b. array_text vs = CHR ''['' # b \<and> array_rest (b @ r) = Inr (vs, r)"
  by (cases vs) (auto simp: array_rest_steps array_rest_text)

lemma object_rest_steps:
  "object_rest (CHR '' '' # s) mo = object_rest s mo" "object_rest (CHR '','' # s) mo = object_rest s mo"
  "object_rest (CHR ''}'' # s) mo = Inr (mo, s)"
proof -
  show "object_rest (CHR '' '' # s) mo = object_rest s mo"
    by (subst object_rest.simps, subst (2) object_rest.simps) simp
  show "object_rest (CHR '','' # s) mo = object_rest s mo" "object_rest (CHR ''}'' # s) mo = Inr (mo, s)"
    by (subst object_rest.simps, simp)+
qed

lemma object_rest_string:
  assumes "ascii k" "ascii v"
  shows "object_rest (string_text k @ CHR '':'' # CHR '' '' # string_text v @ s) mo =
    object_rest s (if k = ''name'' then mo\<lparr>mo_name := Some v\<rparr>
                   else if k = ''type'' then mo\<lparr>mo_kind := Some (file_kind_parse v)\<rparr> else mo)"
proof -
  obtain b where b: "string_text k = CHR 0x22 # b" using string_text_head by blast
  obtain b' where b': "string_text v = CHR 0x22 # b'" using string_text_head by blast
  show ?thesis
    using read_string_text [OF assms(1), of "CHR '':'' # CHR '' '' # string_text v @ s"] read_string_text [OF assms(2), of s]
    by (subst object_rest.simps) (simp add: b b' Let_def)
qed

lemma object_rest_array:
  assumes "ascii k" "list_all ascii vs"
  shows "object_rest (string_text k @ CHR '':'' # CHR '' '' # array_text vs @ s) mo =
    object_rest s (if k = ''category'' then mo\<lparr>mo_categories := mo_categories mo \<union> set vs\<rparr> else mo)"
proof -
  obtain b where b: "string_text k = CHR 0x22 # b" using string_text_head by blast
  obtain b' where b': "array_text vs = CHR ''['' # b'" "array_rest (b' @ s) = Inr (vs, s)"
    using array_text_rest [OF assms(2)] by blast
  show ?thesis
    using read_string_text [OF assms(1), of "CHR '':'' # CHR '' '' # array_text vs @ s"]
    by (subst object_rest.simps) (simp add: b b' Let_def)
qed

lemma manifest_rest_steps:
  "manifest_rest (CHR '' '' # s) = manifest_rest s" "manifest_rest (CHR '','' # s) = manifest_rest s"
  "manifest_rest (CHR '']'' # s) = Inr []"
proof -
  show "manifest_rest (CHR '' '' # s) = manifest_rest s"
    by (subst manifest_rest.simps, subst (2) manifest_rest.simps) simp
  show "manifest_rest (CHR '','' # s) = manifest_rest s" "manifest_rest (CHR '']'' # s) = Inr []"
    by (subst manifest_rest.simps, simp)+
qed

lemma manifest_rest_entry:
  assumes "entry_printable (n, k, cs)"
  shows "manifest_rest (entry_text (n, k, cs) @ s) =
    map_sum id ((#) \<lparr>fe_name = n, fe_kind = k, fe_categories = set cs\<rparr>) (manifest_rest s)"
proof -
  have a: "ascii n" "ascii (kind_text k)" "list_all ascii cs" "file_kind_parse (kind_text k) = k"
    "ascii ''name''" "ascii ''type''" "ascii ''category''"
    using assms by (simp_all add: entry_printable_def) (simp_all add: ascii_def)
  show ?thesis
    by (subst manifest_rest.simps)
      (simp add: entry_text_def object_rest_steps object_rest_string object_rest_array a object_entry_def)
qed



section \<open>The SONAME of a library\<close>

definition read_exact :: "bytes \<Rightarrow> nat \<Rightarrow> nat \<Rightarrow> bytes option" where
  "read_exact f at n =
     (if at \<ge> 2 ^ 63 then None else if n = 0 then Some [] else slice_at f at n)"

text \<open>The program headers: the loaded segments in order (virtual address, file offset, size) and the last dynamic one.\<close>

definition elf_headers :: "bytes \<Rightarrow> nat \<Rightarrow> nat \<Rightarrow> (nat \<times> bytes) list" where
  "elf_headers phdrs phentsize phnum =
     map (\<lambda>i. let p = take 56 (drop (i * phentsize) phdrs) in (u32_at p 0, p)) [0..<phnum]"

definition elf_loads :: "(nat \<times> bytes) list \<Rightarrow> (nat \<times> nat \<times> nat) list" where
  "elf_loads ps = map (\<lambda>(_, p). (u64_at p 16, u64_at p 8, u64_at p 32)) (filter (\<lambda>(t, _). t = 1) ps)"

definition elf_dynamic :: "(nat \<times> bytes) list \<Rightarrow> (nat \<times> nat) option" where
  "elf_dynamic ps =
     (case filter (\<lambda>(t, _). t = 2) ps of [] \<Rightarrow> None | d # ds \<Rightarrow> Some (u64_at (snd (last (d # ds))) 8, u64_at (snd (last (d # ds))) 32))"

definition vaddr_to_off :: "(nat \<times> nat \<times> nat) list \<Rightarrow> nat \<Rightarrow> nat option" where
  "vaddr_to_off loads v =
     map_option (\<lambda>(va, off, _). wadd off (v - va)) (find (\<lambda>(va, _, sz). v \<ge> va \<and> v < wadd va sz) loads)"

fun dyn_scan :: "nat \<Rightarrow> bytes \<Rightarrow> nat option \<Rightarrow> nat option \<Rightarrow> nat option \<times> nat option" where
  "dyn_scan 0 b soname strtab = (soname, strtab)"
| "dyn_scan (Suc n) b soname strtab =
     (let tag = u64_at b 0; val = u64_at b 8 in
      if tag = 0 then (soname, strtab)
      else dyn_scan n (drop 16 b) (if tag = 14 then Some val else soname) (if tag = 5 then Some val else strtab))"

text \<open>\<open>String::from_utf8\<close>: well-formed UTF-8, without overlong forms and surrogates.\<close>

definition utf8_tail :: "byte \<Rightarrow> nat \<Rightarrow> nat \<Rightarrow> bool" where
  "utf8_tail b lo hi \<longleftrightarrow> lo \<le> unat b \<and> unat b \<le> hi"

fun utf8_valid :: "bytes \<Rightarrow> bool" where
  "utf8_valid [] = True"
| "utf8_valid (b # r) =
     (if unat b < 0x80 then utf8_valid r
      else if utf8_tail b 0xC2 0xDF then
        (case r of c # r \<Rightarrow> utf8_tail c 0x80 0xBF \<and> utf8_valid r | _ \<Rightarrow> False)
      else if utf8_tail b 0xE0 0xEF then
        (case r of c # d # r \<Rightarrow>
           utf8_tail c (if b = 0xE0 then 0xA0 else 0x80) (if b = 0xED then 0x9F else 0xBF) \<and> utf8_tail d 0x80 0xBF \<and> utf8_valid r
         | _ \<Rightarrow> False)
      else if utf8_tail b 0xF0 0xF4 then
        (case r of c # d # e # r \<Rightarrow>
           utf8_tail c (if b = 0xF0 then 0x90 else 0x80) (if b = 0xF4 then 0x8F else 0xBF) \<and> utf8_tail d 0x80 0xBF \<and>
           utf8_tail e 0x80 0xBF \<and> utf8_valid r
         | _ \<Rightarrow> False)
      else False)"

text \<open>\<open>room\<close> says whether a buffer of so many bytes can be had; the process ends where it cannot.\<close>

definition soname :: "(nat \<Rightarrow> bool) \<Rightarrow> bytes option \<Rightarrow> string option option" where
  "soname room file =
     (case file of
        None \<Rightarrow> Some None
      | Some f \<Rightarrow>
          (case read_exact f 0 64 of
             None \<Rightarrow> Some None
           | Some ehdr \<Rightarrow>
               let phoff = u64_at ehdr 0x20; phentsize = le_at 2 ehdr 0x36; phnum = le_at 2 ehdr 0x38 in
               if take 6 ehdr \<noteq> [0x7F, 0x45, 0x4C, 0x46, 2, 1] \<or> phentsize < 56 \<or> phnum = 0 then Some None
               else if \<not> room (phentsize * phnum) then None
               else case read_exact f phoff (phentsize * phnum) of
                 None \<Rightarrow> Some None
               | Some phdrs \<Rightarrow>
                   let ps = elf_headers phdrs phentsize phnum in
                   (case elf_dynamic ps of
                      None \<Rightarrow> Some None
                    | Some (dyn_off, dyn_size) \<Rightarrow>
                        if dyn_size \<ge> 2 ^ 63 \<or> \<not> room dyn_size then None
                        else case read_exact f dyn_off dyn_size of
                          None \<Rightarrow> Some None
                        | Some dynbuf \<Rightarrow>
                            (case dyn_scan (length dynbuf div 16) dynbuf None None of
                               (Some name_off, Some strtab) \<Rightarrow>
                                 (case vaddr_to_off (elf_loads ps) strtab of
                                    None \<Rightarrow> Some None
                                  | Some at \<Rightarrow>
                                      let at = wadd at name_off;
                                          name = takeWhile (\<lambda>b. b \<noteq> 0) (take 256 (drop at f)) in
                                      Some (if at \<ge> 2 ^ 63 \<or> name = [] \<or> \<not> utf8_valid name then None
                                            else Some (map (\<lambda>b. char_of (unat b)) name)))
                             | _ \<Rightarrow> Some None))))"

text \<open>A name that is read is a short run of the file's bytes, up to a NUL, the window's end or the file's.\<close>

lemma takeWhile_drop_at: "takeWhile P (take n (drop at xs)) = ys \<Longrightarrow> ys = take (length ys) (drop at xs) \<and> length ys \<le> n"
  by (metis length_take length_takeWhile_le min.bounded_iff take_take takeWhile_eq_take min.absorb1)

lemma soname_sound:
  assumes "soname room (Some f) = Some (Some n)"
  shows "n \<noteq> [] \<and> length n \<le> 256 \<and> CHR 0x00 \<notin> set n \<and>
    (\<exists>at b. take (length n) (drop at f) = b \<and> length b = length n \<and> utf8_valid b \<and> n = map (\<lambda>x. char_of (unat x)) b)"
proof -
  obtain at b where b: "b = takeWhile (\<lambda>x. x \<noteq> 0) (take 256 (drop at f))" "b \<noteq> []" "utf8_valid b" "n = map (\<lambda>x. char_of (unat x)) b"
    using assms by (auto simp: soname_def Let_def split: option.splits if_splits prod.splits)
  have t: "b = take (length b) (drop at f)" "length b \<le> 256" using takeWhile_drop_at [OF b(1) [symmetric]] by auto
  have "(char_of (unat x) :: char) \<noteq> CHR 0x00" if "x \<in> set b" for x :: byte
  proof -
    have "unat x \<noteq> 0" "unat x < 256" using that set_takeWhileD [of x] b(1) unsigned_less [of x] by (auto simp: unat_eq_0)
    then have "(of_char (char_of (unat x) :: char) :: nat) \<noteq> of_char (CHR 0x00)" by simp
    then show ?thesis by metis
  qed
  then have "CHR 0x00 \<notin> set n" using b(4) by force
  moreover have l: "length b = length n" using b(4) by simp
  moreover have "take (length n) (drop at f) = b" using t(1) unfolding l by (rule sym)
  ultimately show ?thesis using b(2-4) t(2) by (intro conjI exI [of _ at] exI [of _ b]) simp_all
qed

end
