(* ===== verification/Share.thy ===== *)
theory Share
  imports Userspace
begin

text \<open>
  Building the share a guest mounts (\<open>device/bin/nvgpu-userspace.rs\<close>): which build of the driver is staged, when staging is
  refused, and the tree of hard links, copies and SONAME links that is made.

  The file system is an argument: what exists, what a link points at, how a hard link ends, what a staged file holds.
  The share is the list of what was put in it, at full paths.
\<close>

section \<open>What to stage\<close>

definition to_lower :: "char \<Rightarrow> char" where
  "to_lower c = (let n = of_char c :: nat in if 65 \<le> n \<and> n \<le> 90 then char_of (n + 32) else c)"

definition capability_parse :: "string \<Rightarrow> capability option" where
  "capability_parse name =
     (let n = map to_lower (trim name) in
      if n = ''utility'' then Some Utility else if n = ''compute'' then Some Compute
      else if n = ''graphics'' then Some Graphics else if n = ''video'' then Some Video else None)"

text \<open>The manifest says which files, the loaded module which build. The retargeted list is taken when nine tenths as
  many files are found for it.\<close>

definition share_plan ::
  "(path \<Rightarrow> bool) \<Rightarrow> file_entry list \<Rightarrow> capability list \<Rightarrow> string option \<Rightarrow> string option \<Rightarrow> resolved list" where
  "share_plan exists entries caps pinned loaded =
     (let found = fst (resolve exists entries caps default_search);
          described = staged_driver_version found;
          target = (if pinned \<noteq> None then pinned else if loaded \<noteq> None then loaded else described) in
      case (described, target) of
        (Some m, Some t) \<Rightarrow>
          if m \<noteq> t then
            let f2 = fst (resolve exists (retarget entries m t) caps default_search)
            in if length f2 * 10 \<ge> length found * 9 then f2 else found
          else found
      | _ \<Rightarrow> found)"

definition share_refused :: "string option \<Rightarrow> string option \<Rightarrow> bool" where
  "share_refused staged loaded = (case (staged, loaded) of (Some s, Some l) \<Rightarrow> s \<noteq> l | _ \<Rightarrow> False)"

section \<open>The tree\<close>

datatype node = HardLink path | Copied path | Symbolic string

type_synonym share = "(path \<times> node) list"

datatype link_result = Linked | CrossDevice | LinkFailed

record share_env =
  se_clear :: bool
  se_readlink :: "path \<Rightarrow> path option"
  se_mkdir :: "path \<Rightarrow> bool"
  se_link :: "path \<Rightarrow> path \<Rightarrow> link_result"
  se_real :: "path \<Rightarrow> path option"
  se_copy :: "path \<Rightarrow> path \<Rightarrow> bool"
  se_exists :: "share \<Rightarrow> path \<Rightarrow> bool"
  se_content :: "share \<Rightarrow> path \<Rightarrow> bytes option"
  se_room :: "nat \<Rightarrow> bool"

datatype stage_error = VersionMismatch | NotCleared | NoDirectory | NotLinked | NotResolved | NotCopied | NotSymlinked

definition place :: "share_env \<Rightarrow> path \<Rightarrow> path \<Rightarrow> share \<Rightarrow> stage_error + share" where
  "place E src dst sh =
     (if (case path_parent dst of None \<Rightarrow> False | Some p \<Rightarrow> \<not> se_mkdir E p) then Inl NoDirectory
      else if map_of sh dst \<noteq> None then Inl NotLinked
      else case se_link E src dst of
        Linked \<Rightarrow> Inr (sh @ [(dst, HardLink src)])
      | CrossDevice \<Rightarrow>
          (case se_real E src of
             None \<Rightarrow> Inl NotResolved
           | Some t \<Rightarrow> if se_copy E t dst then Inr (sh @ [(dst, Copied t)]) else Inl NotCopied)
      | LinkFailed \<Rightarrow> Inl NotLinked)"

text \<open>A symbolic link on the host is staged only if a file of its target's name is.\<close>

definition staged_names :: "resolved list \<Rightarrow> string list" where
  "staged_names found = List.map_filter (\<lambda>r. path_file_name (rs_guest r)) found"

definition points_outside :: "share_env \<Rightarrow> string list \<Rightarrow> resolved \<Rightarrow> bool" where
  "points_outside E names r =
     (case se_readlink E (rs_host r) of
        None \<Rightarrow> False
      | Some target \<Rightarrow> (case path_file_name target of None \<Rightarrow> True | Some n \<Rightarrow> n \<notin> set names))"

fun stage_files :: "share_env \<Rightarrow> path \<Rightarrow> string list \<Rightarrow> resolved list \<Rightarrow> share \<Rightarrow> stage_error + share" where
  "stage_files E root names [] sh = Inr sh"
| "stage_files E root names (r # rs) sh =
     (if points_outside E names r then stage_files E root names rs sh
      else case place E (rs_host r) (path_join root (rs_guest r)) sh of
        Inl e \<Rightarrow> Inl e
      | Inr sh \<Rightarrow> stage_files E root names rs sh)"

definition with_file_name :: "path \<Rightarrow> string \<Rightarrow> path" where
  "with_file_name p n = path_join (if path_file_name p \<noteq> None then butlast p else p) (path_of n)"

text \<open>The link a library's SONAME asks for, beside it and relative. \<open>None\<close> where reading the SONAME ends the process.\<close>

definition link_soname :: "share_env \<Rightarrow> path \<Rightarrow> resolved \<Rightarrow> share \<Rightarrow> (stage_error + share) option" where
  "link_soname E root r sh =
     (let staged = path_join root (rs_guest r) in
      map_option (\<lambda>so.
        case (so, path_file_name (rs_guest r)) of
          (Some n, Some real) \<Rightarrow>
            let link = with_file_name staged n in
            if n = real \<or> se_exists E sh link then Inr sh
            else if map_of sh link \<noteq> None then Inl NotSymlinked
            else Inr (sh @ [(link, Symbolic real)])
        | _ \<Rightarrow> Inr sh) (soname (se_room E) (se_content E sh staged)))"

fun link_sonames :: "share_env \<Rightarrow> path \<Rightarrow> resolved list \<Rightarrow> share \<Rightarrow> (stage_error + share) option" where
  "link_sonames E root [] sh = Some (Inr sh)"
| "link_sonames E root (r # rs) sh =
     (case link_soname E root r sh of
        None \<Rightarrow> None
      | Some (Inl e) \<Rightarrow> Some (Inl e)
      | Some (Inr sh) \<Rightarrow> link_sonames E root rs sh)"

text \<open>\<open>main\<close> from the plan on: refuse before anything is written, clear what was there, stage, link.\<close>

definition build_share :: "share_env \<Rightarrow> path \<Rightarrow> resolved list \<Rightarrow> string option \<Rightarrow> (stage_error + share) option" where
  "build_share E root found loaded =
     (if share_refused (staged_driver_version found) loaded then Some (Inl VersionMismatch)
      else if \<not> se_clear E then Some (Inl NotCleared)
      else case stage_files E root (staged_names found) found [] of
        Inl e \<Rightarrow> Some (Inl e)
      | Inr sh \<Rightarrow> link_sonames E root found sh)"

section \<open>The share that is built\<close>

text \<open>An entry whose name ends in a file name, and a file system without faults: what is made can be seen, what is not there
  cannot be read, and no library's SONAME is a path.\<close>

definition named :: "file_entry \<Rightarrow> bool" where
  "named e \<longleftrightarrow> path_file_name (path_of (fe_name e)) \<noteq> None"

definition env_works :: "share_env \<Rightarrow> bool" where
  "env_works E \<longleftrightarrow>
     se_clear E \<and> (\<forall>p. se_mkdir E p) \<and>
     (\<forall>src dst. se_link E src dst = Linked \<or>
        se_link E src dst = CrossDevice \<and> (\<exists>t. se_real E src = Some t \<and> se_copy E t dst)) \<and>
     (\<forall>sh p. se_exists E sh p \<longleftrightarrow> map_of sh p \<noteq> None) \<and>
     (\<forall>sh p. map_of sh p = None \<longrightarrow> se_content E sh p = None) \<and>
     (\<forall>sh p. case soname (se_room E) (se_content E sh p) of
        None \<Rightarrow> False | Some None \<Rightarrow> True | Some (Some n) \<Rightarrow> path_of n = [Normal n])"

text \<open>Components of a parsed path: the root only in front.\<close>

lemma split_on_parts: "p \<in> set (split_on sep s) \<Longrightarrow> sep \<notin> set p"
  by (induction s arbitrary: p) (auto split: list.splits if_splits)

lemma split_on_single: "sep \<notin> set p \<Longrightarrow> split_on sep p = [p]"
  by (induction p) auto

lemma path_of_name: "path_file_name (path_of s) = Some f \<Longrightarrow> path_of f = [Normal f]"
proof -
  let ?ps = "filter (\<lambda>p. p \<noteq> [] \<and> p \<noteq> ''.'') (split_on (CHR ''/'') s)"
  assume "path_file_name (path_of s) = Some f"
  then have "Normal f \<in> set (path_of s)"
    by (auto simp: path_file_name_def split: if_splits comp.splits dest!: last_in_set)
  then have "f \<in> set ?ps" "f \<noteq> ''..''" by (auto simp: path_of_def Let_def split: if_splits)
  then have f: "f \<noteq> []" "f \<noteq> ''.''" "f \<noteq> ''..''" "CHR ''/'' \<notin> set f" using split_on_parts by auto
  moreover from f(1,4) have "hd f \<noteq> CHR ''/''" by (cases f) auto
  ultimately show "path_of f = [Normal f]" using split_on_single [of "CHR ''/''" f] by (simp add: path_of_def)
qed

lemma default_search_ok:
  "list_all (\<lambda>d. d \<noteq> [] \<and> hd d = RootDir \<and> list_all (\<lambda>c. c \<noteq> RootDir \<and> c \<noteq> CurDir) (tl d)) default_search"
  by code_simp

lemma dropWhile_tl: "xs \<noteq> [] \<Longrightarrow> P (hd xs) \<Longrightarrow> dropWhile P xs = y # ys \<Longrightarrow> set ys \<subseteq> set (tl xs)"
proof -
  assume "xs \<noteq> []" "P (hd xs)" "dropWhile P xs = y # ys"
  then have "dropWhile P (tl xs) = y # ys" by (cases xs) auto
  then show ?thesis by (metis list.set_intros(2) set_dropWhileD subsetI)
qed

lemma find_set: "find P xs = Some x \<Longrightarrow> x \<in> set xs \<and> P x"
  by (auto simp: find_Some_iff)

lemma guest_shape:
  assumes "named e" "entry_host ex default_search e = Some host"
  obtains d f where "entry_guest e host = d @ [Normal f]" "d \<noteq> []" "hd d \<noteq> RootDir" "CurDir \<notin> set d"
proof -
  obtain f where f: "path_file_name (path_of (fe_name e)) = Some f" using assms(1) by (auto simp: named_def)
  then have base: "entry_base e = f" "path_of f = [Normal f]" using path_of_name by (simp_all add: entry_base_def)
  obtain s where s: "s \<in> set default_search" "host = path_join s [Normal f]"
    using assms(2) by (auto simp: entry_host_def base dest!: find_set)
  then have ok: "s \<noteq> []" "hd s = RootDir" "RootDir \<notin> set (tl s)" "CurDir \<notin> set (tl s)"
    using default_search_ok by (auto simp: list_all_iff)
  have parent: "path_parent host = Some s" using ok(1) s(2) by (simp add: path_join_def path_parent_def)
  have share: "CurDir \<notin> set (path_join [Normal ''share''] tail) \<and> path_join [Normal ''share''] tail \<noteq> [] \<and>
      hd (path_join [Normal ''share''] tail) \<noteq> RootDir" if "set tail \<subseteq> set (tl s)" for tail
  proof -
    have "\<not> (tail \<noteq> [] \<and> hd tail = RootDir)" using that ok(3) by (cases tail) auto
    then show ?thesis by (auto simp: path_join_def)
  qed
  have d: "guest_dir e host \<noteq> []" "hd (guest_dir e host) \<noteq> RootDir" "CurDir \<notin> set (guest_dir e host)"
  proof -
    have "guest_dir e host \<noteq> [] \<and> hd (guest_dir e host) \<noteq> RootDir \<and> CurDir \<notin> set (guest_dir e host)"
    proof (cases "fe_kind e")
      case Json
      show ?thesis
      proof (cases "dropWhile (\<lambda>c. c \<noteq> Normal ''share'') s")
        case Nil
        with Json parent show ?thesis
          by (simp add: guest_dir_def Let_def path_join_def del: dropWhile_eq_Nil_conv split: option.split)
      next
        case (Cons y ys)
        have "set ys \<subseteq> set (tl s)" by (rule dropWhile_tl [OF ok(1) _ Cons]) (simp add: ok(2))
        with Json parent Cons share show ?thesis by (simp add: guest_dir_def Let_def)
      qed
    qed (simp_all add: guest_dir_def)
    then show "guest_dir e host \<noteq> []" "hd (guest_dir e host) \<noteq> RootDir" "CurDir \<notin> set (guest_dir e host)" by simp_all
  qed
  have "entry_guest e host = guest_dir e host @ [Normal f]"
    using d(1) by (simp add: entry_guest_def base path_join_def)
  from that [OF this d] show thesis .
qed

text \<open>Where a resolved file is put.\<close>

definition guest_ok :: "path \<Rightarrow> bool" where
  "guest_ok g \<longleftrightarrow> (\<exists>d f. g = d @ [Normal f] \<and> d \<noteq> [] \<and> hd d \<noteq> RootDir \<and> CurDir \<notin> set d)"

lemma guest_ok_join: "guest_ok g \<Longrightarrow> path_join root g = root @ g"
  by (auto simp: guest_ok_def path_join_def filter_id_conv hd_append)

lemma plan_resolved:
  obtains es sr where "search_inv ex caps default_search es sr" "sr_found sr = share_plan ex entries caps pinned loaded"
proof -
  have r: "\<exists>sr. search_inv ex caps default_search es sr \<and> sr_found sr = fst (resolve ex es caps default_search)" for es
    using resolve_inv [of ex es caps default_search] by (metis prod.collapse)
  have "\<exists>es. share_plan ex entries caps pinned loaded = fst (resolve ex es caps default_search)"
    by (auto simp: share_plan_def Let_def split: option.splits)
  with r that show thesis by metis
qed

lemma plan_guests:
  assumes "list_all (\<lambda>r. named (rs_entry r)) (share_plan ex entries caps pinned loaded)"
  shows "distinct (map rs_guest (share_plan ex entries caps pinned loaded))"
    "list_all (\<lambda>r. guest_ok (rs_guest r)) (share_plan ex entries caps pinned loaded)"
proof -
  let ?found = "share_plan ex entries caps pinned loaded"
  obtain es sr where sr: "search_inv ex caps default_search es sr" "sr_found sr = ?found" by (rule plan_resolved)
  then show "distinct (map rs_guest ?found)" by (simp add: search_inv_def)
  show "list_all (\<lambda>r. guest_ok (rs_guest r)) ?found"
    unfolding list_all_iff
  proof
    fix r assume r: "r \<in> set ?found"
    with sr have h: "entry_host ex default_search (rs_entry r) = Some (rs_host r)" "rs_guest r = entry_guest (rs_entry r) (rs_host r)"
      by (auto simp: search_inv_def)
    have "named (rs_entry r)" using assms r by (auto simp: list_all_iff)
    from guest_shape [OF this h(1)] h(2) show "guest_ok (rs_guest r)" by (metis guest_ok_def)
  qed
qed

lemma place_ok:
  assumes "env_works E" "map_of sh dst = None"
  shows "\<exists>n. place E src dst sh = Inr (sh @ [(dst, n)]) \<and> (case n of Symbolic _ \<Rightarrow> False | _ \<Rightarrow> True)"
proof -
  have "\<not> (case path_parent dst of None \<Rightarrow> False | Some p \<Rightarrow> \<not> se_mkdir E p)"
    using assms(1) by (simp add: env_works_def split: option.split)
  moreover have "se_link E src dst = Linked \<or> se_link E src dst = CrossDevice \<and> (\<exists>t. se_real E src = Some t \<and> se_copy E t dst)"
    using assms(1) by (simp add: env_works_def)
  ultimately show ?thesis using assms(2) by (auto simp: place_def)
qed

lemma stage_files_ok:
  assumes "env_works E" "distinct (map rs_guest rs)" "list_all (\<lambda>r. guest_ok (rs_guest r)) rs"
    "list_all (\<lambda>r. map_of sh (root @ rs_guest r) = None) rs"
  shows "\<exists>new. stage_files E root names rs sh = Inr (sh @ new) \<and>
    map fst new = map (\<lambda>r. root @ rs_guest r) (filter (\<lambda>r. \<not> points_outside E names r) rs) \<and>
    list_all (\<lambda>(p, n). case n of Symbolic _ \<Rightarrow> False | _ \<Rightarrow> True) new"
  using assms
proof (induction rs arbitrary: sh)
  case (Cons r rs)
  show ?case
  proof (cases "points_outside E names r")
    case True
    with Cons show ?thesis by simp
  next
    case False
    let ?p = "root @ rs_guest r"
    have j: "path_join root (rs_guest r) = ?p" using Cons.prems(3) by (simp add: guest_ok_join)
    obtain n where n: "place E (rs_host r) ?p sh = Inr (sh @ [(?p, n)])" "case n of Symbolic _ \<Rightarrow> False | _ \<Rightarrow> True"
      using place_ok [OF Cons.prems(1), of sh ?p "rs_host r"] Cons.prems(4) by auto
    have "list_all (\<lambda>x. map_of (sh @ [(?p, n)]) (root @ rs_guest x) = None) rs"
      using Cons.prems(2,4) by (auto simp: list_all_iff map_add_def) (metis imageI)
    from Cons.IH [OF Cons.prems(1) _ _ this] Cons.prems(2,3) obtain new where
      "stage_files E root names rs (sh @ [(?p, n)]) = Inr ((sh @ [(?p, n)]) @ new)"
      "map fst new = map (\<lambda>r. root @ rs_guest r) (filter (\<lambda>r. \<not> points_outside E names r) rs)"
      "list_all (\<lambda>(p, n). case n of Symbolic _ \<Rightarrow> False | _ \<Rightarrow> True) new" by auto
    with False n j show ?thesis by (intro exI [of _ "(?p, n) # new"]) simp
  qed
qed simp

text \<open>Every symbolic link in the tree names a file beside it.\<close>

definition links_resolve :: "share \<Rightarrow> bool" where
  "links_resolve sh \<longleftrightarrow>
     list_all (\<lambda>(p, n). case n of Symbolic real \<Rightarrow> p \<noteq> [] \<and> map_of sh (butlast p @ [Normal real]) \<noteq> None | _ \<Rightarrow> True) sh"

lemma map_of_append_kept: "map_of sh p \<noteq> None \<Longrightarrow> map_of (sh @ new) p = map_of sh p"
  by (auto simp: map_of_append map_add_def)

lemma links_resolve_snoc:
  assumes "links_resolve sh" "case n of Symbolic real \<Rightarrow> p \<noteq> [] \<and> map_of sh (butlast p @ [Normal real]) \<noteq> None | _ \<Rightarrow> True"
  shows "links_resolve (sh @ [(p, n)])"
  using assms by (fastforce simp: links_resolve_def list_all_iff map_of_append_kept split: node.splits)

lemma env_soname:
  "env_works E \<Longrightarrow> case soname (se_room E) (se_content E sh p) of
     None \<Rightarrow> False | Some None \<Rightarrow> True | Some (Some n) \<Rightarrow> path_of n = [Normal n]"
  by (simp only: env_works_def)

lemma link_soname_ok:
  assumes env: "env_works E" and g: "guest_ok (rs_guest r)" and sh: "distinct (map fst sh)" "links_resolve sh"
  shows "\<exists>new. link_soname E root r sh = Some (Inr (sh @ new)) \<and> distinct (map fst (sh @ new)) \<and> links_resolve (sh @ new)"
proof -
  let ?p = "root @ rs_guest r"
  obtain d real where d: "rs_guest r = d @ [Normal real]" "d \<noteq> []" using g by (auto simp: guest_ok_def)
  have j: "path_join root (rs_guest r) = ?p" using g by (rule guest_ok_join)
  have fn: "path_file_name (rs_guest r) = Some real" "path_file_name ?p = Some real" by (simp_all add: path_file_name_def d(1))
  obtain so where so: "soname (se_room E) (se_content E sh ?p) = Some so" "\<And>n. so = Some n \<Longrightarrow> path_of n = [Normal n]"
    using env_soname [OF env, of sh ?p] by (auto split: option.splits)
  have keep: "\<exists>new. Some (Inr sh) = Some (Inr (sh @ new)) \<and> distinct (map fst (sh @ new)) \<and> links_resolve (sh @ new)"
    using sh by (intro exI [of _ "[]"]) simp
  show ?thesis
  proof (cases so)
    case None
    with so(1) j keep show ?thesis by (simp add: link_soname_def)
  next
    case (Some n)
    let ?l = "root @ d @ [Normal n]"
    have l: "with_file_name ?p n = ?l"
      using so(2) [OF Some] d by (simp add: with_file_name_def path_file_name_def path_join_def butlast_append)
    have there: "map_of sh ?p \<noteq> None"
    proof
      assume "map_of sh ?p = None"
      then have "se_content E sh ?p = None" using env by (simp add: env_works_def)
      with so(1) Some show False by (simp add: soname_def)
    qed
    show ?thesis
    proof (cases "n = real \<or> se_exists E sh ?l")
      case True
      with so(1) Some fn(1) j l keep show ?thesis by (simp add: link_soname_def Let_def)
    next
      case False
      then have free: "map_of sh ?l = None" using env by (simp add: env_works_def)
      with False so(1) Some fn(1) j l have run: "link_soname E root r sh = Some (Inr (sh @ [(?l, Symbolic real)]))"
        by (simp add: link_soname_def Let_def)
      have "butlast ?l @ [Normal real] = ?p" by (simp add: d(1) butlast_append)
      with there have "links_resolve (sh @ [(?l, Symbolic real)])"
        by (intro links_resolve_snoc sh(2)) simp
      moreover have "distinct (map fst (sh @ [(?l, Symbolic real)]))" using sh(1) free by (simp add: map_of_eq_None_iff)
      ultimately show ?thesis using run by blast
    qed
  qed
qed

lemma link_sonames_ok:
  assumes "env_works E" "list_all (\<lambda>r. guest_ok (rs_guest r)) rs" "distinct (map fst sh)" "links_resolve sh"
  shows "\<exists>new. link_sonames E root rs sh = Some (Inr (sh @ new)) \<and> distinct (map fst (sh @ new)) \<and> links_resolve (sh @ new)"
  using assms
proof (induction rs arbitrary: sh)
  case (Cons r rs)
  obtain a where a: "link_soname E root r sh = Some (Inr (sh @ a))" "distinct (map fst (sh @ a))" "links_resolve (sh @ a)"
    using link_soname_ok [OF Cons.prems(1) _ Cons.prems(3,4), where r = r and root = root] Cons.prems(2) by (simp del: map_append) blast
  obtain b where b: "link_sonames E root rs (sh @ a) = Some (Inr ((sh @ a) @ b))" "distinct (map fst ((sh @ a) @ b))"
      "links_resolve ((sh @ a) @ b)"
    using Cons.IH [OF Cons.prems(1) _ a(2,3)] Cons.prems(2) by (simp del: map_append append_assoc) blast
  show ?case by (intro exI [of _ "a @ b"]) (use a(1) b in simp)
qed simp


text \<open>A library and a tool on a host whose tools are on another file system.\<close>

definition sample_share_env :: share_env where
  "sample_share_env =
     \<lparr>se_clear = True, se_readlink = \<lambda>_. None, se_mkdir = \<lambda>_. True,
      se_link = \<lambda>src _. if take 3 src = path_of ''/usr/bin'' then CrossDevice else Linked, se_real = Some, se_copy = \<lambda>_ _. True,
      se_exists = \<lambda>sh p. map_of sh p \<noteq> None, se_content = \<lambda>sh p. if map_of sh p = None then None else Some [],
      se_room = \<lambda>_. True\<rparr>"

definition sample_host :: "path \<Rightarrow> bool" where
  "sample_host p = (p \<in> set (map path_of [''/usr/lib64/libcuda.so.5.9.1'', ''/usr/bin/nvidia-smi'']))"


end
