(* ===== verification/VkLayer.thy ===== *)
theory VkLayer
  imports Virtio
begin

text \<open>
  The guest's Vulkan layer (\<open>vklayer/src/lib.rs\<close>): it hides the extensions a forwarded NVIDIA device lists and cannot create,
  clears their feature bits, and refuses a device that asks for them.

  The loader and the next layer are an environment: what a handle's first word is, which functions the next layer has,
  and what they answer. Functions of other layers are numbers; a null pointer is 0 or \<open>None\<close>. A chain of structures is
  a list. The layer's own state is its tables of instances and devices, with the calls made of the next layer.
\<close>

section \<open>What is hidden\<close>

abbreviation (input) VK_SUCCESS :: int where "VK_SUCCESS \<equiv> 0"
abbreviation (input) VK_INCOMPLETE :: int where "VK_INCOMPLETE \<equiv> 5"
abbreviation (input) VK_ERROR_INITIALIZATION_FAILED :: int where "VK_ERROR_INITIALIZATION_FAILED \<equiv> - 3"
abbreviation (input) VK_ERROR_LAYER_NOT_PRESENT :: int where "VK_ERROR_LAYER_NOT_PRESENT \<equiv> - 6"
abbreviation (input) VK_ERROR_EXTENSION_NOT_PRESENT :: int where "VK_ERROR_EXTENSION_NOT_PRESENT \<equiv> - 7"

definition hidden :: "string list" where
  "hidden =
     [''VK_KHR_acceleration_structure'', ''VK_KHR_ray_query'', ''VK_KHR_ray_tracing_pipeline'', ''VK_NV_ray_tracing'',
      ''VK_NVX_binary_import'', ''VK_NV_optical_flow'', ''VK_NV_cuda_kernel_launch'', ''VK_KHR_ray_tracing_maintenance1'',
      ''VK_KHR_ray_tracing_position_fetch'', ''VK_NV_ray_tracing_motion_blur'', ''VK_NV_ray_tracing_invocation_reorder'',
      ''VK_EXT_ray_tracing_invocation_reorder'', ''VK_NV_ray_tracing_validation'', ''VK_NV_ray_tracing_linear_swept_spheres'',
      ''VK_NV_cluster_acceleration_structure'', ''VK_NV_partitioned_acceleration_structure'', ''VK_EXT_opacity_micromap'',
      ''VK_NV_displacement_micromap'']"

definition feature_bools :: "(int \<times> nat) list" where
  "feature_bools = [(1000150013, 5), (1000347000, 5), (1000348013, 1), (1000464000, 1), (1000307000, 1)]"

definition is_hidden :: "string \<Rightarrow> bool" where
  "is_hidden name \<longleftrightarrow> list_ex (\<lambda>h. h = name) hidden"

abbreviation (input) UVM_SERVES_VULKAN :: bool where "UVM_SERVES_VULKAN \<equiv> False"

section \<open>The loader and the next layer\<close>

record ext_prop =
  xp_name :: string
  xp_spec :: nat

text \<open>A link info of a creation chain: its type and function, and the layers still below (their two lookup functions).\<close>

record link_info =
  li_type :: int
  li_function :: int
  li_links :: "(nat \<times> nat) list"

record device_ci =
  dc_chain :: "link_info list"
  dc_extensions :: "string list"

record feature_struct =
  fs_type :: int
  fs_words :: "nat list"

record vk_env =
  ve_key :: "nat \<Rightarrow> nat"
  ve_module :: bool
  ve_uvm :: bool
  ve_load :: "nat \<Rightarrow> nat \<Rightarrow> string \<Rightarrow> nat option"
  ve_props :: "nat \<Rightarrow> nat \<Rightarrow> bytes"
  ve_create_instance :: "nat \<Rightarrow> link_info list \<Rightarrow> int \<times> nat"
  ve_enum :: "nat \<Rightarrow> nat \<Rightarrow> string option \<Rightarrow> nat option \<Rightarrow> int \<times> nat \<times> ext_prop list"
  ve_features :: "nat \<Rightarrow> nat \<Rightarrow> feature_struct list \<Rightarrow> feature_struct list"
  ve_create_device :: "nat \<Rightarrow> nat \<Rightarrow> device_ci \<Rightarrow> int \<times> nat"

record vk_instance =
  vi_key :: nat
  vi_handle :: nat
  vi_gipa :: nat
  vi_destroy :: nat
  vi_enum :: nat
  vi_features2 :: "nat option"
  vi_props :: nat

datatype vk_call = CallCreateInstance nat | CallDestroyInstance nat nat | CallCreateDevice nat nat "string list"

record vk_layer =
  vl_instances :: "vk_instance list"
  vl_devices :: "(nat \<times> nat) list"
  vl_calls :: "vk_call list"

definition vk_instance_of :: "nat \<Rightarrow> vk_layer \<Rightarrow> vk_instance option" where
  "vk_instance_of k vl = find (\<lambda>i. vi_key i = k) (vl_instances vl)"

definition forwarded_guest :: "vk_env \<Rightarrow> bool" where
  "forwarded_guest E = ve_module E"

definition uvm_lacking :: "vk_env \<Rightarrow> bool" where
  "uvm_lacking E \<longleftrightarrow> \<not> UVM_SERVES_VULKAN \<or> \<not> ve_uvm E"

text \<open>The vendor is the third word of the device's properties.\<close>

definition hiding :: "vk_env \<Rightarrow> vk_instance \<Rightarrow> nat \<Rightarrow> bool" where
  "hiding E i pd \<longleftrightarrow>
     (if \<not> forwarded_guest E \<or> \<not> uvm_lacking E then False
      else u64_at (ve_props E (vi_props i) pd) 8 mod 2 ^ 32 = 0x10de)"

text \<open>\<open>find_link\<close>, with the position the caller writes the rest of the links back to.\<close>

fun find_link :: "int \<Rightarrow> link_info list \<Rightarrow> (nat \<times> (nat \<times> nat) list) option" where
  "find_link t [] = None"
| "find_link t (l # ls) =
     (if li_type l = t \<and> li_function l = 0 then Some (0, li_links l)
      else map_option (\<lambda>(n, x). (Suc n, x)) (find_link t ls))"

definition next_link :: "nat \<Rightarrow> link_info list \<Rightarrow> link_info list" where
  "next_link n ls = ls[n := (ls ! n)\<lparr>li_links := tl (li_links (ls ! n))\<rparr>]"

section \<open>Entry points\<close>

datatype layer_fn = GetInstanceProcAddr | CreateInstance | DestroyInstance | CreateDevice | EnumerateExtensions
  | GetFeatures2 | GetDeviceProcAddr

datatype vk_proc = Ours layer_fn | Next nat

definition negotiate :: "nat \<Rightarrow> int \<times> (nat \<times> layer_fn \<times> layer_fn) option" where
  "negotiate version =
     (if version < 2 then (VK_ERROR_INITIALIZATION_FAILED, None)
      else (VK_SUCCESS, Some (2, GetInstanceProcAddr, GetDeviceProcAddr)))"

definition get_instance_proc_addr :: "vk_env \<Rightarrow> nat \<Rightarrow> string \<Rightarrow> vk_layer \<Rightarrow> vk_proc option" where
  "get_instance_proc_addr E inst name vl =
     (if name = ''vkGetInstanceProcAddr'' then Some (Ours GetInstanceProcAddr)
      else if name = ''vkCreateInstance'' then Some (Ours CreateInstance)
      else if name = ''vkDestroyInstance'' then Some (Ours DestroyInstance)
      else if name = ''vkCreateDevice'' then Some (Ours CreateDevice)
      else if name = ''vkEnumerateDeviceExtensionProperties'' then Some (Ours EnumerateExtensions)
      else if name = ''vkGetPhysicalDeviceFeatures2'' \<or> name = ''vkGetPhysicalDeviceFeatures2KHR'' then Some (Ours GetFeatures2)
      else if name = ''vkGetDeviceProcAddr'' then Some (Ours GetDeviceProcAddr)
      else if inst = 0 then None
      else case vk_instance_of (ve_key E inst) vl of
        None \<Rightarrow> None
      | Some i \<Rightarrow> map_option Next (ve_load E (vi_gipa i) inst name))"

definition get_device_proc_addr :: "vk_env \<Rightarrow> nat \<Rightarrow> string \<Rightarrow> vk_layer \<Rightarrow> vk_proc option" where
  "get_device_proc_addr E dev name vl =
     (if name = ''vkGetDeviceProcAddr'' then Some (Ours GetDeviceProcAddr)
      else case find (\<lambda>d. fst d = ve_key E dev) (vl_devices vl) of
        None \<Rightarrow> None
      | Some d \<Rightarrow> map_option Next (ve_load E (snd d) dev name))"

definition create_instance :: "vk_env \<Rightarrow> link_info list \<Rightarrow> vk_layer \<Rightarrow> (int \<times> nat) \<times> vk_layer" where
  "create_instance E ci vl =
     (case find_link 47 ci of
        None \<Rightarrow> ((VK_ERROR_INITIALIZATION_FAILED, 0), vl)
      | Some (n, []) \<Rightarrow> ((VK_ERROR_INITIALIZATION_FAILED, 0), vl)
      | Some (n, (gipa, gpdpa) # _) \<Rightarrow>
          (case ve_load E gipa 0 ''vkCreateInstance'' of
             None \<Rightarrow> ((VK_ERROR_INITIALIZATION_FAILED, 0), vl)
           | Some create \<Rightarrow>
               let (r, inst) = ve_create_instance E create (next_link n ci);
                   vl = vl\<lparr>vl_calls := CallCreateInstance create # vl_calls vl\<rparr> in
               if r \<noteq> VK_SUCCESS then ((r, inst), vl)
               else (case (ve_load E gipa inst ''vkDestroyInstance'', ve_load E gipa inst ''vkEnumerateDeviceExtensionProperties'',
                          ve_load E gipa inst ''vkGetPhysicalDeviceProperties'') of
                 (Some destroy, Some enum, Some props) \<Rightarrow>
                   let features2 = (case ve_load E gipa inst ''vkGetPhysicalDeviceFeatures2'' of
                                      Some f \<Rightarrow> Some f | None \<Rightarrow> ve_load E gipa inst ''vkGetPhysicalDeviceFeatures2KHR'')
                   in ((r, inst),
                       vl\<lparr>vl_instances := vl_instances vl @
                            [\<lparr>vi_key = ve_key E inst, vi_handle = inst, vi_gipa = gipa, vi_destroy = destroy, vi_enum = enum,
                              vi_features2 = features2, vi_props = props\<rparr>]\<rparr>)
               | _ \<Rightarrow> ((VK_ERROR_INITIALIZATION_FAILED, inst), vl))))"

fun remove_first :: "('a \<Rightarrow> bool) \<Rightarrow> 'a list \<Rightarrow> 'a list" where
  "remove_first P [] = []"
| "remove_first P (x # xs) = (if P x then xs else x # remove_first P xs)"

definition destroy_instance :: "vk_env \<Rightarrow> nat \<Rightarrow> vk_layer \<Rightarrow> vk_layer" where
  "destroy_instance E inst vl =
     (if inst = 0 then vl
      else case vk_instance_of (ve_key E inst) vl of
        None \<Rightarrow> vl
      | Some i \<Rightarrow> vl\<lparr>vl_instances := remove_first (\<lambda>i. vi_key i = ve_key E inst) (vl_instances vl),
                      vl_calls := CallDestroyInstance (vi_destroy i) inst # vl_calls vl\<rparr>)"

definition filter_hidden :: "ext_prop list \<Rightarrow> ext_prop list" where
  "filter_hidden all = filter (\<lambda>e. \<not> is_hidden (xp_name e)) all"

text \<open>The two-call idiom: \<open>None\<close> asks for the count, \<open>Some n\<close> offers room for \<open>n\<close>. The answer is the result, the count and
  what was written.\<close>

definition copy_out :: "ext_prop list \<Rightarrow> nat option \<Rightarrow> int \<times> nat \<times> ext_prop list" where
  "copy_out kept room =
     (case room of
        None \<Rightarrow> (VK_SUCCESS, length kept mod 2 ^ 32, [])
      | Some c \<Rightarrow>
          let n = min c (length kept)
          in (if n < length kept then VK_INCOMPLETE else VK_SUCCESS, n, take n kept))"

definition enumerate_device_extensions ::
  "vk_env \<Rightarrow> nat \<Rightarrow> string option \<Rightarrow> nat option \<Rightarrow> vk_layer \<Rightarrow> int \<times> nat \<times> ext_prop list" where
  "enumerate_device_extensions E pd layer room vl =
     (let count = (case room of None \<Rightarrow> 0 | Some c \<Rightarrow> c) in
      case layer of
        Some l \<Rightarrow>
          if l = ''VK_LAYER_NVGPU_no_uvm'' then (VK_SUCCESS, 0, [])
          else (case vk_instance_of (ve_key E pd) vl of
                  None \<Rightarrow> (VK_ERROR_LAYER_NOT_PRESENT, count, [])
                | Some i \<Rightarrow> ve_enum E (vi_enum i) pd layer room)
      | None \<Rightarrow>
          (case vk_instance_of (ve_key E pd) vl of
             None \<Rightarrow> (VK_ERROR_INITIALIZATION_FAILED, count, [])
           | Some i \<Rightarrow>
               if \<not> hiding E i pd then ve_enum E (vi_enum i) pd layer room
               else
                 let (r, n, _) = ve_enum E (vi_enum i) pd None None in
                 if r \<noteq> VK_SUCCESS then (r, count, [])
                 else
                   let (r, m, all) = ve_enum E (vi_enum i) pd None (Some n) in
                   if r < 0 then (r, count, [])
                   else copy_out (filter_hidden (take m all)) room))"

text \<open>The boolean words of a hidden extension's structure, which holds at least those.\<close>

definition clear_features :: "feature_struct list \<Rightarrow> feature_struct list" where
  "clear_features chain =
     map (\<lambda>b. case map_of feature_bools (fs_type b) of
           None \<Rightarrow> b
         | Some n \<Rightarrow> b\<lparr>fs_words := replicate n 0 @ drop n (fs_words b)\<rparr>) chain"

definition features2 :: "vk_env \<Rightarrow> nat \<Rightarrow> feature_struct list \<Rightarrow> vk_layer \<Rightarrow> feature_struct list" where
  "features2 E pd out vl =
     (case vk_instance_of (ve_key E pd) vl of
        None \<Rightarrow> out
      | Some i \<Rightarrow>
          (case vi_features2 i of
             None \<Rightarrow> out
           | Some f \<Rightarrow>
               let out = ve_features E f pd out
               in if hiding E i pd then clear_features out else out))"

definition asks_hidden :: "device_ci \<Rightarrow> bool" where
  "asks_hidden ci \<longleftrightarrow> list_ex is_hidden (dc_extensions ci)"

definition create_device :: "vk_env \<Rightarrow> nat \<Rightarrow> device_ci \<Rightarrow> vk_layer \<Rightarrow> (int \<times> nat) \<times> vk_layer" where
  "create_device E pd ci vl =
     (case vk_instance_of (ve_key E pd) vl of
        None \<Rightarrow> ((VK_ERROR_INITIALIZATION_FAILED, 0), vl)
      | Some inst \<Rightarrow>
          if hiding E inst pd \<and> asks_hidden ci then ((VK_ERROR_EXTENSION_NOT_PRESENT, 0), vl)
          else (case find_link 48 (dc_chain ci) of
                  None \<Rightarrow> ((VK_ERROR_INITIALIZATION_FAILED, 0), vl)
                | Some (n, []) \<Rightarrow> ((VK_ERROR_INITIALIZATION_FAILED, 0), vl)
                | Some (n, (gipa, gdpa) # _) \<Rightarrow>
                    (case ve_load E gipa (vi_handle inst) ''vkCreateDevice'' of
                       None \<Rightarrow> ((VK_ERROR_INITIALIZATION_FAILED, 0), vl)
                     | Some create \<Rightarrow>
                         let (r, dev) = ve_create_device E create pd (ci\<lparr>dc_chain := next_link n (dc_chain ci)\<rparr>);
                             vl = vl\<lparr>vl_calls := CallCreateDevice create pd (dc_extensions ci) # vl_calls vl\<rparr>
                         in ((r, dev), if r = VK_SUCCESS then vl\<lparr>vl_devices := vl_devices vl @ [(ve_key E dev, gdpa)]\<rparr> else vl))))"

section \<open>What an application is told and what it gets\<close>

inductive vk_run :: "vk_env \<Rightarrow> vk_layer \<Rightarrow> bool" for E where
  loaded: "vk_run E \<lparr>vl_instances = [], vl_devices = [], vl_calls = []\<rparr>"
| instance_made: "vk_run E vl \<Longrightarrow> vk_run E (snd (create_instance E ci vl))"
| instance_gone: "vk_run E vl \<Longrightarrow> vk_run E (destroy_instance E inst vl)"
| device_made: "vk_run E vl \<Longrightarrow> vk_run E (snd (create_device E pd dci vl))"

text \<open>Whether the device is a forwarded one, whichever instance of the next layer asks.\<close>

definition forwarded_nvidia :: "vk_env \<Rightarrow> nat \<Rightarrow> bool" where
  "forwarded_nvidia E pd \<longleftrightarrow> forwarded_guest E \<and> uvm_lacking E \<and> (\<forall>f. u64_at (ve_props E f pd) 8 mod 2 ^ 32 = 0x10de)"

lemma forwarded_hiding: "forwarded_nvidia E pd \<Longrightarrow> hiding E i pd"
  by (simp add: forwarded_nvidia_def hiding_def)

definition call_ok :: "vk_env \<Rightarrow> vk_call \<Rightarrow> bool" where
  "call_ok E c \<longleftrightarrow>
     (case c of CallCreateDevice f pd exts \<Rightarrow> \<not> (forwarded_nvidia E pd \<and> list_ex is_hidden exts) | _ \<Rightarrow> True)"

lemma call_ok_simps [simp]: "call_ok E (CallCreateInstance f)" "call_ok E (CallDestroyInstance f i)"
  by (simp_all add: call_ok_def)

lemma create_instance_calls: "list_all (call_ok E) (vl_calls vl) \<Longrightarrow> list_all (call_ok E) (vl_calls (snd (create_instance E ci vl)))"
  by (auto simp: create_instance_def Let_def split: option.splits list.splits prod.splits)

lemma create_device_calls: "list_all (call_ok E) (vl_calls vl) \<Longrightarrow> list_all (call_ok E) (vl_calls (snd (create_device E pd ci vl)))"
  using forwarded_hiding [of E pd]
  by (auto simp: create_device_def call_ok_def asks_hidden_def Let_def split: option.splits list.splits prod.splits)

lemma vk_run_calls: "vk_run E vl \<Longrightarrow> list_all (call_ok E) (vl_calls vl)"
proof (induction rule: vk_run.induct)
  case (instance_gone vl inst)
  then show ?case by (simp add: destroy_instance_def split: option.split)
qed (simp_all add: create_instance_calls create_device_calls)

text \<open>A next layer that answers the two calls alike.\<close>

definition lists_extensions :: "vk_env \<Rightarrow> nat \<Rightarrow> nat \<Rightarrow> ext_prop list \<Rightarrow> bool" where
  "lists_extensions E f pd exts \<longleftrightarrow>
     ve_enum E f pd None None = (VK_SUCCESS, length exts, []) \<and> ve_enum E f pd None (Some (length exts)) = (VK_SUCCESS, length exts, exts)"


text \<open>A forwarded device with one extension to hide, listed through one instance.\<close>

definition sample_vk :: vk_env where
  "sample_vk =
     \<lparr>ve_key = \<lambda>h. h, ve_module = True, ve_uvm = False, ve_load = \<lambda>_ _ _. Some 100,
      ve_props = \<lambda>_ _. replicate 8 0 @ le_bytes 8 0x10de, ve_create_instance = \<lambda>_ _. (0, 7),
      ve_enum = \<lambda>_ _ _ room. let xs = [\<lparr>xp_name = ''VK_KHR_ray_query'', xp_spec = 1\<rparr>, \<lparr>xp_name = ''VK_KHR_swapchain'', xp_spec = 70\<rparr>] in
        (case room of None \<Rightarrow> (0, 2, []) | Some c \<Rightarrow> (if c < 2 then 5 else 0, min c 2, take c xs)),
      ve_features = \<lambda>_ _ out. out, ve_create_device = \<lambda>_ _ _. (0, 9)\<rparr>"

definition sample_layer :: vk_layer where
  "sample_layer = snd (create_instance sample_vk [\<lparr>li_type = 47, li_function = 0, li_links = [(1, 2)]\<rparr>]
     \<lparr>vl_instances = [], vl_devices = [], vl_calls = []\<rparr>)"


end
