(* ===== verification/Spec2Isabelle.thy ===== *)
theory Spec2Isabelle
  imports Prelude Messages PageRuns Segments Caps HandleTable GuardPool BTree Shm ShmWindow Mmap Vram Aperture GuestMem
    DriverVersions IoctlTables OsDescTables UvmTables RmCtrlTables VidmemTables RmAllowTables RmAllow
    Backend WindowOps OpenClose RmCtrlPlan Nested Simple RmFd UvmDispatch OsDescServe VidmemHooks IoctlDispatch
    FilesReply Dispatch Seccomp Sandbox WindowState Frames Mediation Running Samples Policy Files Returns Pointers Virtio Replies HostTrees Transport Descriptors Pools WindowLife Daemon Userspace Share VkLayer
begin

text \<open>
  Verification library for virtio-nvgpu: a device that serves a host's NVIDIA driver to virtual machines. A guest's
  kernel driver turns the file operations of the guest's processes into messages on a virtqueue; a daemon on the host
  (\<open>device/bin/vhost-user-nvgpu.rs\<close>) holds one backend per guest (\<open>NvidiaBackend\<close>, \<open>device/src/nvidia\<close>), which opens the
  host's device nodes, forwards ioctls to the host driver with the guest's pointers, descriptors and handles replaced,
  places mappings in a shared window, and answers. The host driver takes the caller's privilege from the daemon, so the
  backend itself decides what a guest may ask for. The library models that daemon and backend, the wire format and the
  generated tables of each driver release, and proves what they promise.

  \<^bold>\<open>How the program is modelled.\<close> One theory per module, in the order the code calls them. A struct is a record, an enum
  a datatype, a handler a function from the state to the reply and the new state. \<open>u8\<close> bytes are \<open>8 word\<close>, wider
  integers are \<open>nat\<close> with every wrap, check and truncation of the code written out. A Rust panic (a slice out of range,
  an assertion, an \<open>expect\<close>) is \<open>None\<close>; an error return is its reply, or \<open>Inl\<close> of an error datatype. Hash maps are
  association lists, \<open>BTreeMap\<close> a sorted one (\<open>BTree\<close>). What lies outside the repository is an argument: the record
  \<open>env\<close> holds the answers of the host driver's ioctl, of mmap, of the transport's placements and of the file trees,
  each a function of the trace of everything done so far, so that nothing is assumed about the host; \<open>kernel\<close> holds
  those of the system calls of the daemon's start. The trace (\<open>event\<close>, newest first) records every action on the host,
  and the safety properties speak of it. Loops are structural recursions on a list or a count, or \<open>function\<close>s with a
  measure; there is no fuel in a model.

  \<^bold>\<open>Theories, by part of the program.\<close>
  \<^item> \<open>Prelude\<close>: bytes, little-endian fields, checked slices, association lists.
  \<^item> Wire format, \<open>protocol/src\<close>: \<open>Messages\<close> (every message struct; the locale \<open>wire_struct\<close> is the contract of an
    encoding and is interpreted for each), \<open>PageRuns\<close>, \<open>Segments\<close>.
  \<^item> Parts of the device, \<open>device/src\<close>: \<open>Caps\<close> (\<open>caps.rs\<close>), \<open>HandleTable\<close> (\<open>handle_table.rs\<close>, locale \<open>handle_store\<close>),
    \<open>GuardPool\<close> (\<open>guarded.rs\<close>), \<open>BTree\<close>, \<open>Shm\<close> and \<open>ShmWindow\<close> (\<open>shm.rs\<close>, locale \<open>extent_allocator\<close>), \<open>Mmap\<close> (\<open>mmap.rs\<close>),
    \<open>Vram\<close> (\<open>vram.rs\<close>), \<open>Aperture\<close> (\<open>nvidia/aperture.rs\<close>), \<open>GuestMem\<close> (\<open>guestmem.rs\<close>).
  \<^item> Tables of the driver releases, \<open>gen/src\<close>: \<open>DriverVersions\<close> (versions, the nearest-older choice and the sorted
    lookup, locales \<open>version_profiles\<close> and \<open>sorted_table\<close>), \<open>IoctlTables\<close>, \<open>OsDescTables\<close>, \<open>UvmTables\<close>, \<open>RmCtrlTables\<close>,
    \<open>VidmemTables\<close>, \<open>RmAllowTables\<close>, \<open>RmAllow\<close>. Every row of every release is in the model.
  \<^item> The backend, \<open>device/src/nvidia\<close>: \<open>Backend\<close> (\<open>mod.rs\<close>, \<open>resp.rs\<close>, \<open>host.rs\<close>), \<open>WindowOps\<close> (\<open>window.rs\<close>), \<open>OpenClose\<close>
    (\<open>open.rs\<close>), \<open>RmCtrlPlan\<close> (\<open>rmctrl.rs\<close>), \<open>Nested\<close> (\<open>nested.rs\<close>), \<open>Simple\<close> (\<open>simple.rs\<close>), \<open>RmFd\<close> (\<open>rm_fd.rs\<close>), \<open>UvmDispatch\<close>
    (\<open>uvm.rs\<close>), \<open>OsDescServe\<close> (\<open>osdesc.rs\<close>), \<open>VidmemHooks\<close> (\<open>vidmem.rs\<close>), \<open>IoctlDispatch\<close> (\<open>ioctl.rs\<close>), \<open>FilesReply\<close>
    and \<open>HostTrees\<close> (\<open>files.rs\<close>: the reply, and the walks it is made from), \<open>Dispatch\<close> (\<open>dispatch\<close> and \<open>teardown\<close> of \<open>mod.rs\<close>).
  \<^item> The daemon's start: \<open>Seccomp\<close> and \<open>Sandbox\<close> (\<open>sandbox.rs\<close>, \<open>posture.rs\<close> and the head of \<open>main\<close>).
  \<^item> The daemon: \<open>Virtio\<close> (\<open>virtio.rs\<close> and \<open>device/src/host.rs\<close>: configuration space and what it is filled from), \<open>Daemon\<close>
    (\<open>vhost-user-nvgpu.rs\<close>: construction, the loop over the control queue, the watches and the event relay). A
    descriptor chain is a list of descriptors with what reading and writing their memory does; the channel to the event
    thread is a list, epoll's answers are arguments of a turn of its loop. \<open>Transport\<close> has the adapters to the
    frontend's memory table and mapping requests.
  \<^item> The driver's user-mode files: \<open>Userspace\<close> (\<open>device/src/userspace.rs\<close>: versions, manifest, search, SONAMEs), \<open>Share\<close>
    (\<open>nvgpu-userspace.rs\<close>: the choice of the build and the tree a guest mounts). Paths are lists of components; what the
    file system answers is an argument.
  \<^item> The guest's Vulkan layer: \<open>VkLayer\<close> (\<open>vklayer/src/lib.rs\<close>), over an environment of the loader and the next layer.
  \<^item> The whole backend over time: \<open>WindowState\<close> (what it keeps of the window), \<open>Frames\<close> (what each handler leaves alone; locales
    \<open>call_filter\<close>, \<open>pool_filter\<close>, \<open>file_filter\<close> and \<open>action_filter\<close>), \<open>Mediation\<close> (which calls each route lets through; locales \<open>call_policy\<close> and \<open>message_policy\<close>, which extend them), \<open>Running\<close> (the reachable states, by
    \<open>configured\<close> and \<open>running\<close>, and the interpretation of \<open>message_policy\<close> on them), \<open>Samples\<close> (concrete messages for the
    witnesses), \<open>Policy\<close>, \<open>Files\<close>, \<open>Descriptors\<close>, \<open>Pools\<close>, \<open>WindowLife\<close>, \<open>Returns\<close>, \<open>Pointers\<close>, \<open>Replies\<close>.

  \<^bold>\<open>What the lemma groups show.\<close>
  \<^item> Mediation. Along every run from a configured backend, whatever the guest sends and the host answers, the RM
    controls and allocations that reach the host are ones the release's allowlist permits at the permitted size
    (\<open>Policy\<close>); the pointers RM is handed in a control are the backend's own buffers, as long as RM will take them to be
    (\<open>Pointers\<close>); the tables never mix releases; an unknown release is served only what all known ones agree on
    (\<open>RmAllow\<close>).
  \<^item> Files. Seen through the guest's open files the backend refines an abstract machine of fresh opens and exact closes
    (\<open>Files\<close>, \<open>HandleTable\<close>). The trees a guest is sent are those of the host's driver (\<open>HostTrees\<close>). Over every run,
    descriptors are neither lost nor closed twice, and only the driver's own nodes are ever opened (\<open>Descriptors\<close>).
  \<^item> Answers. Every well-framed message to a reachable backend is answered, no panic on its way, with the one class of
    short messages that does panic stated as such (\<open>Returns\<close>); every reply fits the buffer the guest left (\<open>Replies\<close>).
  \<^item> Resources. The window's allocator partitions each zone and is first fit (\<open>Shm\<close>, \<open>ShmWindow\<close>); over every run
    nothing is placed, withdrawn or mapped outside the window (\<open>WindowLife\<close>). A freed range is backed by no host descriptor in the
    backend's own view; the VMM's is emptied by \<open>handle_munmap\<close> alone (\<open>release_keeps_placements\<close> in \<open>Pools\<close>). Pools never
    overlap (\<open>Aperture\<close>) and, over every run, those the VMM shows are those in the books, of files still open (\<open>Pools\<close>). The
    video memory books balance and respect the limit (\<open>Vram\<close>). A stitched span aliases exactly the pages named (\<open>GuestMem\<close>), through the frontend's memory table (\<open>Transport\<close>), a parameter buffer ends at its guard page (\<open>GuardPool\<close>).
  \<^item> Formats. Encoders and parsers are inverse, iterators stay inside what the parser accepted, looked-up rows are the
    ones asked for and their offsets lie inside their blocks (\<open>PageRuns\<close>, \<open>Segments\<close>, the table theories).
  \<^item> The daemon (\<open>Daemon\<close>). What it announces in configuration space is what its backend enforces, at the start and for
    its whole life; every chain on the control queue comes back used with the answer to exactly its request; a wakeup of
    a watched descriptor reaches the guest once it has posted a buffer, however many were lost before.
  \<^item> The share (\<open>Userspace\<close>, \<open>Share\<close>). A version is the first dotted number, a manifest reads back as it was written, the
    search accounts for every entry, and the share is built whole for the loaded module's build or refused.
  \<^item> The guest's Vulkan (\<open>VkLayer\<close>). What the layer lists can be asked for, and what it hides never reaches the driver.
  \<^item> Confinement. The BPF program decides every system call as the policy does, and a daemon that starts is unprivileged
    and confined (\<open>Seccomp\<close>, \<open>Sandbox\<close>).

  \<^bold>\<open>Bounds.\<close> Widths are those of the code: \<open>u32\<close> and \<open>u64\<close> sums are wrapped, checked or saturated as written, \<open>usize\<close> is 64
  bits. Handle numbers wrap at 2 to the 64; the invariant of the table asks that fewer have been issued. The holder count
  of a piece of video memory is a \<open>u32\<close>; its invariant asks for fewer than 2 to the 32 objects. Mapping ids are \<open>u32\<close> and go
  round; the account of the pools asks for fewer placements than that, and the window to be smaller than the address space.

  \<^bold>\<open>Not modelled.\<close> Log lines. System
  calls themselves: mmap, ioctl, epoll, threads and locks; the vhost-user and virtqueue crates. The command-line
  parser. The test programs and the test modules. The guest's kernel module (\<open>driver\<close>), in C. The best-effort hardening calls of \<open>sandbox.rs\<close>, whose results the code ignores.
\<close>

end
